(* ===== verification/Prelude.thy ===== *)
theory Prelude
  imports Main "HOL-Library.Finite_Map" "HOL-Library.List_Lexorder" "HOL-Library.Char_ord"
    "HOL-Library.Sublist"
begin

text \<open>
  Shared vocabulary of the development: finite maps for Go maps, byte strings with the
  parts of the Go \<^verbatim>\<open>strings\<close>, \<^verbatim>\<open>fmt\<close> and \<^verbatim>\<open>sort\<close> packages the code uses, dynamic
  values (\<^verbatim>\<open>any\<close>), results that carry a Go error, and the generic lemmas about them.

  A Go string is a byte sequence, here a \<^typ>\<open>string\<close> (one \<^typ>\<open>char\<close> per byte); its order
  is the byte-wise lexicographic one, as Go's.  \<^verbatim>\<open>strings.ToLower\<close>, \<^verbatim>\<open>strings.TrimSpace\<close>
  and \<^verbatim>\<open>strings.EqualFold\<close> are modelled on their ASCII range: a byte of a multi-byte
  rune is neither a space nor a letter with case.
\<close>

named_theorems audit_frame "what writing an audit event leaves unchanged"
named_theorems stats_frame "what counting a statistic leaves unchanged"
named_theorems metrics_frame "what maintaining the queue metrics leaves unchanged"
named_theorems wf_intros "preservation lemmas of the component invariants"

section \<open>Go maps\<close>

type_synonym 'v gomap = "(string, 'v) fmap"

text \<open>
  \<^verbatim>\<open>for k, v := range m \{ if p(k, v) \{ delete(m, k) \} \}\<close>: the entries that satisfy \<open>p\<close>
  go; the order of the iteration does not matter.
\<close>

definition fmdelete_if :: "('k \<Rightarrow> 'v \<Rightarrow> bool) \<Rightarrow> ('k, 'v) fmap \<Rightarrow> ('k, 'v) fmap" where
  "fmdelete_if p m =
     fmfilter (\<lambda>k. case fmlookup m k of None \<Rightarrow> False | Some v \<Rightarrow> \<not> p k v) m"

lemma fmlookup_delete_if [simp]:
  "fmlookup (fmdelete_if p m) k =
     (case fmlookup m k of None \<Rightarrow> None | Some v \<Rightarrow> if p k v then None else Some v)"
  by (simp add: fmdelete_if_def split: option.splits)

text \<open>The entries of a map in the order of their sorted keys (\<^verbatim>\<open>sort.Strings(keys)\<close>).\<close>

definition sorted_keys :: "('k::linorder, 'v) fmap \<Rightarrow> 'k list" where
  "sorted_keys m = sorted_list_of_fset (fmdom m)"

definition sorted_values :: "('k::linorder, 'v) fmap \<Rightarrow> 'v list" where
  "sorted_values m = map snd (sorted_list_of_fmap m)"

lemma set_sorted_keys [simp]: "set (sorted_keys m) = fmdom' m"
  by (simp add: sorted_keys_def fmdom'_alt_def)

lemma distinct_sorted_keys [simp]: "distinct (sorted_keys m)"
  by (simp add: sorted_keys_def sorted_list_of_fset.rep_eq)

lemma sorted_sorted_keys [simp]: "sorted (sorted_keys m)"
  by (simp add: sorted_keys_def sorted_list_of_fset.rep_eq)

lemma sorted_values_fmempty [simp]: "sorted_values fmempty = []"
  by (simp add: sorted_values_def sorted_list_of_fmap_def sorted_list_of_fset.rep_eq)

lemma sorted_keys_fmempty [simp]: "sorted_keys fmempty = []"
  by (simp add: sorted_keys_def sorted_list_of_fset.rep_eq)

text \<open>\<^verbatim>\<open>len(m)\<close>\<close>

definition fmsize :: "('k, 'v) fmap \<Rightarrow> nat" where
  "fmsize m = fcard (fmdom m)"

lemma fmsize_empty [simp]: "fmsize fmempty = 0"
  by (simp add: fmsize_def)

lemma fmsize_upd_new: "fmlookup m k = None \<Longrightarrow> fmsize (fmupd k v m) = Suc (fmsize m)"
  by (simp add: fmsize_def fcard_finsert_disjoint fmdom_notI)

lemma fmsize_upd_old: "fmlookup m k = Some w \<Longrightarrow> fmsize (fmupd k v m) = fmsize m"
  by (simp add: fmsize_def finsert_absorb fmdomI)

lemma fmsize_drop:
  assumes "fmlookup m k = Some w"
  shows "Suc (fmsize (fmdrop k m)) = fmsize m"
proof -
  have "fmupd k w (fmdrop k m) = m"
    using assms by (intro fmap_ext) auto
  then show ?thesis
    using fmsize_upd_new [of "fmdrop k m" k w] by simp
qed

lemma fmsize_drop_none: "fmlookup m k = None \<Longrightarrow> fmdrop k m = m"
  by (simp add: fmdrop_idle fmdom_notI)

section \<open>Results and errors\<close>

text \<open>
  A Go function that returns \<^verbatim>\<open>(T, error)\<close> returns \<^term>\<open>Inr v\<close>, or \<^term>\<open>Inl e\<close> when the
  error is not nil.
\<close>

type_synonym ('e, 'a) result = "'e + 'a"

definition is_ok :: "'e + 'a \<Rightarrow> bool" where
  "is_ok r = (case r of Inl _ \<Rightarrow> False | Inr _ \<Rightarrow> True)"

lemma is_ok_simps [simp]: "is_ok (Inr v)" "\<not> is_ok (Inl e)"
  by (simp_all add: is_ok_def)

lemma map_sum_Inr_iff [simp]: "map_sum id f r = Inr v \<longleftrightarrow> (\<exists>w. r = Inr w \<and> v = f w)"
  by (cases r) auto

lemma map_sum_Inl_iff [simp]: "map_sum id f r = Inl e \<longleftrightarrow> r = Inl e"
  by (cases r) auto

section \<open>Bytes and strings\<close>

definition is_space :: "char \<Rightarrow> bool" where
  "is_space c \<longleftrightarrow> c \<in> {CHR 0x09, CHR 0x0A, CHR 0x0B, CHR 0x0C, CHR 0x0D, CHR '' ''}"

definition is_lower :: "char \<Rightarrow> bool" where
  "is_lower c \<longleftrightarrow> CHR ''a'' \<le> c \<and> c \<le> CHR ''z''"

definition is_upper :: "char \<Rightarrow> bool" where
  "is_upper c \<longleftrightarrow> CHR ''A'' \<le> c \<and> c \<le> CHR ''Z''"

definition is_digit :: "char \<Rightarrow> bool" where
  "is_digit c \<longleftrightarrow> CHR ''0'' \<le> c \<and> c \<le> CHR ''9''"

definition lower_char :: "char \<Rightarrow> char" where
  "lower_char c = (if is_upper c then char_of (of_char c + 32 :: nat) else c)"

definition ToLower :: "string \<Rightarrow> string" where
  "ToLower s = map lower_char s"

definition trim_by :: "('a \<Rightarrow> bool) \<Rightarrow> 'a list \<Rightarrow> 'a list" where
  "trim_by p s = rev (dropWhile p (rev (dropWhile p s)))"

definition TrimSpace :: "string \<Rightarrow> string" where
  "TrimSpace s = trim_by is_space s"

definition EqualFold :: "string \<Rightarrow> string \<Rightarrow> bool" where
  "EqualFold s t \<longleftrightarrow> ToLower s = ToLower t"

text \<open>
  The parts of a list between the elements that satisfy \<open>p\<close>: at least one part.
  \<^verbatim>\<open>strings.Split(s, sep)\<close> with a one-byte separator, and (without the empty parts)
  \<^verbatim>\<open>strings.FieldsFunc\<close>.
\<close>

fun split_by :: "('a \<Rightarrow> bool) \<Rightarrow> 'a list \<Rightarrow> 'a list list" where
  "split_by p [] = [[]]"
| "split_by p (x # xs) =
     (if p x then [] # split_by p xs
      else case split_by p xs of [] \<Rightarrow> [[x]] | q # qs \<Rightarrow> (x # q) # qs)"

definition split_on :: "'a \<Rightarrow> 'a list \<Rightarrow> 'a list list" where
  "split_on c xs = split_by (\<lambda>x. x = c) xs"

definition FieldsFunc :: "('a \<Rightarrow> bool) \<Rightarrow> 'a list \<Rightarrow> 'a list list" where
  "FieldsFunc p xs = filter (\<lambda>t. t \<noteq> []) (split_by p xs)"

text \<open>\<^verbatim>\<open>strings.Join(parts, sep)\<close>\<close>

fun join_with :: "'a list \<Rightarrow> 'a list list \<Rightarrow> 'a list" where
  "join_with sep [] = []"
| "join_with sep [p] = p"
| "join_with sep (p # q # ps) = p @ sep @ join_with sep (q # ps)"

text \<open>\<^verbatim>\<open>strings.Contains(s, sub)\<close>\<close>

fun str_contains :: "string \<Rightarrow> string \<Rightarrow> bool" where
  "str_contains [] sub \<longleftrightarrow> sub = []"
| "str_contains (c # s) sub \<longleftrightarrow> prefix sub (c # s) \<or> str_contains s sub"

text \<open>\<^verbatim>\<open>fmt.Sprintf("%d", n)\<close>\<close>

fun show_nat :: "nat \<Rightarrow> string" where
  "show_nat n =
     (if n < 10 then [char_of (48 + n)] else show_nat (n div 10) @ [char_of (48 + n mod 10)])"

declare show_nat.simps [simp del]

definition show_int :: "int \<Rightarrow> string" where
  "show_int i = (if i < 0 then ''-'' @ show_nat (nat (- i)) else show_nat (nat i))"

section \<open>Lemmas on strings\<close>

lemma trim_by_Nil [simp]: "trim_by p [] = []"
  by (simp add: trim_by_def)

lemma prefix_rev_dropWhile: "prefix (rev (dropWhile p (rev xs))) xs"
  by (metis prefix_def rev_append rev_rev_ident takeWhile_dropWhile_id)

lemma trim_by_hd:
  assumes ne: "trim_by p xs \<noteq> []"
  shows "\<not> p (hd (trim_by p xs))"
proof -
  have "prefix (trim_by p xs) (dropWhile p xs)"
    unfolding trim_by_def by (rule prefix_rev_dropWhile)
  with ne have "hd (trim_by p xs) = hd (dropWhile p xs)" and "dropWhile p xs \<noteq> []"
    by (auto simp: prefix_def simp del: dropWhile_eq_Nil_conv)
  then show ?thesis by (metis hd_dropWhile)
qed

lemma trim_by_last: "trim_by p xs \<noteq> [] \<Longrightarrow> \<not> p (last (trim_by p xs))"
  by (simp add: trim_by_def last_rev hd_dropWhile)

lemma set_trim_by: "set (trim_by p xs) \<subseteq> set xs"
  unfolding trim_by_def by (metis set_dropWhileD set_rev subsetI)

lemma trim_by_id:
  assumes "xs \<noteq> [] \<Longrightarrow> \<not> p (hd xs)" and "xs \<noteq> [] \<Longrightarrow> \<not> p (last xs)"
  shows "trim_by p xs = xs"
proof (cases xs)
  case Nil
  then show ?thesis by simp
next
  case (Cons y ys)
  with assms(1) have "dropWhile p xs = xs" by simp
  moreover have "dropWhile p (rev xs) = rev xs"
    using assms(2) Cons by (cases "rev xs") (auto simp: last_rev hd_rev [symmetric])
  ultimately show ?thesis by (simp add: trim_by_def)
qed

lemma trim_by_none: "(\<And>x. x \<in> set xs \<Longrightarrow> \<not> p x) \<Longrightarrow> trim_by p xs = xs"
  by (rule trim_by_id) auto

lemma trim_by_idem [simp]: "trim_by p (trim_by p xs) = trim_by p xs"
  by (rule trim_by_id) (auto dest: trim_by_hd trim_by_last)

lemma length_trim_by: "length (trim_by p xs) \<le> length xs"
  unfolding trim_by_def by (metis length_dropWhile_le length_rev order_trans)

lemma TrimSpace_idem [simp]: "TrimSpace (TrimSpace s) = TrimSpace s"
  by (simp add: TrimSpace_def)

lemma TrimSpace_Nil [simp]: "TrimSpace [] = []"
  by (simp add: TrimSpace_def)

lemma ToLower_Nil [simp]: "ToLower [] = []" "ToLower s = [] \<longleftrightarrow> s = []"
  by (auto simp: ToLower_def)

lemma length_ToLower [simp]: "length (ToLower s) = length s"
  by (simp add: ToLower_def)

lemma EqualFold_refl [simp]: "EqualFold s s"
  by (simp add: EqualFold_def)

lemma EqualFold_sym: "EqualFold s t \<Longrightarrow> EqualFold t s"
  by (simp add: EqualFold_def)

lemma split_by_ne [simp]: "split_by p xs \<noteq> []"
  by (induction xs) (auto split: list.splits)

lemma split_by_append_sep:
  "p x \<Longrightarrow> (\<forall>y \<in> set xs. \<not> p y) \<Longrightarrow> split_by p (xs @ x # ys) = xs # split_by p ys"
  by (induction xs) auto

lemma split_by_none: "(\<forall>y \<in> set xs. \<not> p y) \<Longrightarrow> split_by p xs = [xs]"
  by (induction xs) auto

lemma split_on_join:
  assumes "ps \<noteq> []" and "\<forall>q \<in> set ps. c \<notin> set q"
  shows "split_on c (join_with [c] ps) = ps"
  using assms
proof (induction "[c]" ps rule: join_with.induct)
  case (2 q)
  then show ?case by (auto simp: split_on_def intro!: split_by_none)
next
  case (3 q r ps)
  have "split_on c (q @ c # join_with [c] (r # ps)) = q # split_on c (join_with [c] (r # ps))"
    using "3.prems" unfolding split_on_def by (intro split_by_append_sep) auto
  then show ?case using 3 by simp
qed simp

lemma split_on_parts: "q \<in> set (split_on c xs) \<Longrightarrow> c \<notin> set q"
  unfolding split_on_def
  by (induction xs arbitrary: q) (auto split: if_splits list.splits)

lemma show_nat_ne [simp]: "show_nat n \<noteq> []"
  by (subst show_nat.simps) simp

lemma split_by_append: "p x \<Longrightarrow> split_by p (xs @ x # ys) = split_by p xs @ split_by p ys"
  by (induction xs) (auto split: list.splits)

lemma show_nat_digits: "\<forall>c \<in> set (show_nat n). is_digit c"
proof (induction n rule: show_nat.induct)
  case (1 n)
  have digit: "is_digit (char_of (48 + d))" if "d < 10" for d :: nat
    using that by (simp add: is_digit_def less_eq_char_def)
  show ?case
    using 1 digit by (subst show_nat.simps) auto
qed

lemma length_show_nat: "n < 10 ^ k \<Longrightarrow> 0 < k \<Longrightarrow> length (show_nat n) \<le> k"
proof (induction k arbitrary: n)
  case (Suc k)
  show ?case
  proof (cases "n < 10")
    case True
    then show ?thesis by (subst show_nat.simps) simp
  next
    case False
    with Suc.prems have "0 < k" by (cases k) auto
    moreover have "n div 10 < 10 ^ k" using Suc.prems by (simp add: less_mult_imp_div_less)
    ultimately have "length (show_nat (n div 10)) \<le> k" by (intro Suc.IH)
    with False show ?thesis by (subst show_nat.simps) simp
  qed
qed simp

definition digits_value :: "string \<Rightarrow> nat" where
  "digits_value ds = foldl (\<lambda>a c. a * 10 + (of_char c - 48)) 0 ds"

lemma digits_value_show [simp]: "digits_value (show_nat n) = n"
proof (induction n rule: show_nat.induct)
  case (1 n)
  then show ?case
    by (subst show_nat.simps) (auto simp: digits_value_def)
qed

lemma show_nat_inject [simp]: "show_nat m = show_nat n \<longleftrightarrow> m = n"
  by (metis digits_value_show)

lemma fold_frame: "(\<And>x s. f (g x s) = f s) \<Longrightarrow> f (fold g xs s) = f s"
  by (induction xs arbitrary: s) simp_all

text \<open>Among one more than as many distinct keys as a map has, one is free.\<close>

lemma fresh_key_exists:
  assumes "inj_on f {a..<a + fmsize m + 1}"
  shows "\<exists>n \<ge> a. n < a + fmsize m + 1 \<and> fmlookup m (f n) = None"
proof (rule ccontr)
  assume none: "\<not> ?thesis"
  let ?A = "f ` {a..<a + fmsize m + 1}"
  have "card ?A = fmsize m + 1" using assms by (simp add: card_image)
  moreover have "?A \<subseteq> fmdom' m" using none by (auto simp: fmlookup_dom'_iff)
  then have "card ?A \<le> card (fmdom' m)" by (intro card_mono) simp_all
  moreover have "card (fmdom' m) = fmsize m"
    by (simp add: fmsize_def fcard.rep_eq fmdom'_alt_def)
  ultimately show False by simp
qed

end
