(* ===== verification/GoValue.thy ===== *)
theory GoValue
  imports Prelude
begin

text \<open>
  Values of Go's \<^verbatim>\<open>any\<close> as they occur in metadata and audit details: JSON values, and the
  typed Go values the store itself puts there (times, string slices, slices of objects,
  optional strings and times).  A finite \<^verbatim>\<open>float64\<close> is \<open>m * 2^e\<close>, kept as \<open>GFloat m e\<close>.
\<close>

datatype gval =
    GNil
  | GBool bool
  | GInt int
  | GFloat int int
  | GStr string
  | GTime int
  | GStrPtr "string option"
  | GTimePtr "int option"
  | GStrs "string list"
  | GMaps "(string, gval) fmap list"
  | GList "gval list"
  | GMap "(string, gval) fmap"

type_synonym gmap = "gval gomap"

definition gmap_of :: "(string \<times> gval) list \<Rightarrow> gmap" where
  "gmap_of kvs = fmap_of_list kvs"

text \<open>\<^verbatim>\<open>m[key]\<close> of a \<^verbatim>\<open>map[string]any\<close>: the nil interface when the key is absent.\<close>

definition gget :: "gmap \<Rightarrow> string \<Rightarrow> gval" where
  "gget m k = (case fmlookup m k of None \<Rightarrow> GNil | Some v \<Rightarrow> v)"

text \<open>\<^verbatim>\<open>stringValue\<close> of \<^verbatim>\<open>internal/store/memory.go\<close>.\<close>

fun stringValue :: "gval \<Rightarrow> string" where
  "stringValue (GStr s) = TrimSpace s"
| "stringValue _ = []"

lemma gget_simps [simp]:
  "gget fmempty k = GNil"
  "gget (fmupd k v m) k' = (if k = k' then v else gget m k')"
  by (simp_all add: gget_def)

end
