(* ===== verification/Model.thy ===== *)
theory Model
  imports GoValue
begin

text \<open>
  The data types of \<^verbatim>\<open>internal/model/types.go\<close>: one record per struct, one field per Go
  field, in the order of the source, each prefixed with the struct it belongs to.  A
  \<^verbatim>\<open>*string\<close> or \<^verbatim>\<open>*time.Time\<close> field is an \<open>option\<close>; a \<^verbatim>\<open>time.Time\<close> is its number of
  nanoseconds since the Unix epoch, in UTC, as an unbounded integer; a nil
  \<^verbatim>\<open>map[string]any\<close> and an empty one are both \<^term>\<open>fmempty\<close>.
\<close>

type_synonym time = int

text \<open>Roles, statuses and delivery states are string constants in the source.\<close>

abbreviation "RoleOwner \<equiv> ''owner''"
abbreviation "RoleAdmin \<equiv> ''admin''"
abbreviation "RoleMember \<equiv> ''member''"
abbreviation "RoleViewer \<equiv> ''viewer''"

abbreviation "StatusPending \<equiv> ''pending''"
abbreviation "StatusActive \<equiv> ''active''"
abbreviation "StatusBlocked \<equiv> ''blocked''"
abbreviation "StatusRevoked \<equiv> ''revoked''"
abbreviation "StatusExpired \<equiv> ''expired''"
abbreviation "StatusDeleted \<equiv> ''deleted''"

abbreviation "OrgAccessScopeListHumans \<equiv> ''list_humans''"
abbreviation "OrgAccessScopeListAgents \<equiv> ''list_agents''"

abbreviation "MessageDeliveryQueued \<equiv> ''queued''"
abbreviation "MessageDeliveryLeased \<equiv> ''leased''"
abbreviation "MessageDeliveryAcked \<equiv> ''acked''"
abbreviation "MessageForwarded \<equiv> ''forwarded''"

abbreviation "AgentMetadataKeyType \<equiv> ''agent_type''"
abbreviation "AgentMetadataKeySkills \<equiv> ''skills''"
abbreviation "AgentMetadataKeyProfile \<equiv> ''profile_markdown''"
abbreviation "AgentMetadataKeyActivities \<equiv> ''activities''"
abbreviation "AgentMetadataKeyHireMe \<equiv> ''hire_me''"
abbreviation "AgentMetadataKeyPresence \<equiv> ''presence''"
abbreviation "HumanMetadataKeyPresence \<equiv> ''presence''"
abbreviation "AgentMetadataKeySystemActivityLog \<equiv> ''_system_activity_log''"
abbreviation "AgentTypeUnknown \<equiv> ''unknown''"

record organization =
  Org_OrgID :: string
  Org_Handle :: string
  Org_DisplayName :: string
  Org_Metadata :: gmap
  Org_CreatedAt :: time
  Org_CreatedBy :: string

record human =
  Human_HumanID :: string
  Human_Handle :: string
  Human_HandleConfirmedAt :: "time option"
  Human_AuthProvider :: string
  Human_AuthSubject :: string
  Human_Email :: string
  Human_EmailVerified :: bool
  Human_Metadata :: gmap
  Human_CreatedAt :: time

record membership =
  Mem_MembershipID :: string
  Mem_OrgID :: string
  Mem_HumanID :: string
  Mem_Role :: string
  Mem_Status :: string
  Mem_CreatedAt :: time

record invite =
  Inv_InviteID :: string
  Inv_OrgID :: string
  Inv_Email :: string
  Inv_Role :: string
  Inv_Status :: string
  Inv_CreatedBy :: string
  Inv_CreatedAt :: time
  Inv_ExpiresAt :: time
  Inv_AcceptedAt :: "time option"
  Inv_RevokedAt :: "time option"
  Inv_InviteSecret :: string

record agent =
  Agent_AgentUUID :: string
  Agent_AgentID :: string
  Agent_Handle :: string
  Agent_HandleFinalizedAt :: "time option"
  Agent_OrgID :: string
  Agent_OwnerHumanID :: "string option"
  Agent_HostAgentUUID :: string
  Agent_TokenHash :: string
  Agent_Status :: string
  Agent_Metadata :: gmap
  Agent_CreatedBy :: string
  Agent_CreatedAt :: time
  Agent_RevokedAt :: "time option"

record peer_instance =
  Peer_PeerID :: string
  Peer_CanonicalBaseURL :: string
  Peer_DeliveryBaseURL :: string
  Peer_SharedSecret :: string
  Peer_Status :: string
  Peer_CreatedBy :: string
  Peer_CreatedAt :: time
  Peer_UpdatedAt :: time
  Peer_LastSuccessfulAt :: "time option"
  Peer_LastFailureAt :: "time option"
  Peer_LastFailureReason :: string

record remote_org_trust =
  ROT_TrustID :: string
  ROT_LocalOrgID :: string
  ROT_PeerID :: string
  ROT_RemoteOrgHandle :: string
  ROT_Status :: string
  ROT_CreatedBy :: string
  ROT_CreatedAt :: time
  ROT_UpdatedAt :: time

record remote_agent_trust =
  RAT_TrustID :: string
  RAT_LocalAgentUUID :: string
  RAT_PeerID :: string
  RAT_RemoteAgentURI :: string
  RAT_Status :: string
  RAT_CreatedBy :: string
  RAT_CreatedAt :: time
  RAT_UpdatedAt :: time

record bind_token =
  Bind_BindID :: string
  Bind_OrgID :: string
  Bind_OwnerHumanID :: "string option"
  Bind_HostAgentUUID :: string
  Bind_TokenHash :: string
  Bind_CreatedBy :: string
  Bind_CreatedAt :: time
  Bind_ExpiresAt :: time
  Bind_UsedAt :: "time option"

record trust_edge =
  Edge_EdgeID :: string
  Edge_EdgeType :: string
  Edge_LeftID :: string
  Edge_RightID :: string
  Edge_State :: string
  Edge_LeftApproved :: bool
  Edge_RightApproved :: bool
  Edge_CreatedBy :: string
  Edge_CreatedAt :: time
  Edge_UpdatedAt :: time

record message =
  Msg_MessageID :: string
  Msg_FromAgentUUID :: string
  Msg_ToAgentUUID :: string
  Msg_FromAgentID :: string
  Msg_ToAgentID :: string
  Msg_FromAgentURI :: string
  Msg_ToAgentURI :: string
  Msg_SenderOrgID :: string
  Msg_ReceiverOrgID :: string
  Msg_ReceiverPeerID :: string
  Msg_ContentType :: string
  Msg_Payload :: string
  Msg_ClientMsgID :: "string option"
  Msg_CreatedAt :: time

record message_record =
  Rec_Message :: message
  Rec_Status :: string
  Rec_AcceptedAt :: time
  Rec_UpdatedAt :: time
  Rec_FirstReceivedAt :: "time option"
  Rec_LastLeasedAt :: "time option"
  Rec_LeaseExpiresAt :: "time option"
  Rec_AckedAt :: "time option"
  Rec_LastDeliveryID :: "string option"
  Rec_DeliveryAttempts :: int
  Rec_RequeueCount :: int
  Rec_IdempotentReplays :: int
  Rec_LastFailureReason :: string
  Rec_LastFailureAt :: "time option"

record message_delivery =
  Del_DeliveryID :: string
  Del_MessageID :: string
  Del_AgentUUID :: string
  Del_Attempt :: int
  Del_LeasedAt :: time
  Del_LeaseExpiresAt :: time

record queue_metrics =
  QM_AvailableMessages :: int
  QM_LeasedMessages :: int
  QM_OldestQueuedAt :: "time option"
  QM_OldestLeaseExpiryAt :: "time option"

record peer_outbound =
  Out_OutboundID :: string
  Out_PeerID :: string
  Out_MessageID :: string
  Out_Message :: message
  Out_Status :: string
  Out_CreatedAt :: time
  Out_UpdatedAt :: time
  Out_AttemptCount :: int
  Out_NextAttemptAt :: time
  Out_LastAttemptAt :: "time option"
  Out_LastError :: string
  Out_LastDeliveredAt :: "time option"

record org_stats =
  Stats_OrgID :: string
  Stats_QueuedMessages :: int
  Stats_DroppedMessages :: int
  Stats_AckedMessages :: int
  Stats_ExpiredMessages :: int
  Stats_RedeliveredMessages :: int
  Stats_DuplicateMessages :: int

record org_daily_stats =
  Day_Date :: string
  Day_QueuedMessages :: int
  Day_DroppedMessages :: int
  Day_AckedMessages :: int
  Day_ExpiredMessages :: int
  Day_RedeliveredMessages :: int
  Day_DuplicateMessages :: int

record audit_event =
  Ev_EventID :: string
  Ev_OrgID :: string
  Ev_ActorHuman :: string
  Ev_Category :: string
  Ev_Action :: string
  Ev_SubjectID :: string
  Ev_Details :: gmap
  Ev_CreatedAt :: time

record org_access_key =
  Key_KeyID :: string
  Key_OrgID :: string
  Key_Label :: string
  Key_Scopes :: "string list"
  Key_Status :: string
  Key_CreatedBy :: string
  Key_CreatedAt :: time
  Key_ExpiresAt :: "time option"
  Key_LastUsedAt :: "time option"
  Key_RevokedAt :: "time option"
  Key_TokenHash :: string

end
