(* ===== verification/Handles.thy ===== *)
theory Handles
  imports Prelude
begin

text \<open>
  \<^verbatim>\<open>internal/handles/handles.go\<close>: normalisation and validation of handles and of agent
  references, and the agent URIs built from them.
\<close>

section \<open>The code\<close>

abbreviation "MinLength \<equiv> (2::nat)"
abbreviation "MaxLength \<equiv> (64::nat)"

datatype handle_error = ErrInvalidHandle | ErrBlockedHandle | ErrInvalidAgentRef

definition is_alnum :: "char \<Rightarrow> bool" where
  "is_alnum c \<longleftrightarrow> is_lower c \<or> is_digit c"

definition is_sep :: "char \<Rightarrow> bool" where
  "is_sep c \<longleftrightarrow> c \<in> {CHR ''-'', CHR ''_'', CHR ''.''}"

definition blockedSet :: "string set" where
  "blockedSet =
     {''asshole'', ''bastard'', ''bitch'', ''bullshit'', ''cunt'', ''dick'', ''fuck'', ''fucker'',
      ''fucking'', ''motherfucker'', ''nigger'', ''nigga'', ''pussy'', ''shit'', ''shitty'',
      ''slut'', ''whore''}"

text \<open>
  The loop of \<^verbatim>\<open>Normalize\<close>: the runes left, \<^verbatim>\<open>prevSep\<close>, and the builder.  Every byte of a
  multi-byte rune takes the default branch; the first one writes what the rune would and
  the others are skipped.
\<close>

fun normalize_loop :: "string \<Rightarrow> bool \<Rightarrow> string \<Rightarrow> string" where
  "normalize_loop [] prevSep b = b"
| "normalize_loop (r # rs) prevSep b =
     (if is_alnum r then normalize_loop rs False (b @ [r])
      else if is_sep r then
        (if b = [] \<or> prevSep then normalize_loop rs prevSep b
         else normalize_loop rs True (b @ [r]))
      else
        (if b = [] \<or> prevSep then normalize_loop rs prevSep b
         else normalize_loop rs True (b @ ''-'')))"

definition Normalize :: "string \<Rightarrow> string" where
  "Normalize raw =
     (let inp = TrimSpace (ToLower raw) in
      if inp = [] then []
      else
        let out = trim_by is_sep (normalize_loop inp False []) in
        if length out > MaxLength then trim_by is_sep (take MaxLength out) else out)"

definition NormalizeAgentRef :: "string \<Rightarrow> string" where
  "NormalizeAgentRef raw =
     (let trimmed = TrimSpace (ToLower raw) in
      if trimmed = [] then []
      else if CHR ''/'' \<notin> set trimmed then Normalize trimmed
      else
        let parts = split_on (CHR ''/'') (trim_by (\<lambda>c. c = CHR ''/'') trimmed) in
        join_with ''/'' (filter (\<lambda>h. h \<noteq> []) (map Normalize parts)))"

definition splitAlphaNumTokens :: "string \<Rightarrow> string list" where
  "splitAlphaNumTokens inp = filter (\<lambda>p. p \<noteq> []) (FieldsFunc (\<lambda>r. \<not> is_alnum r) inp)"

definition compactAlphaNum :: "string \<Rightarrow> string" where
  "compactAlphaNum inp = filter is_alnum inp"

definition IsBlocked :: "string \<Rightarrow> bool" where
  "IsBlocked handle =
     (let inp = ToLower (TrimSpace handle) in
      if inp = [] then False
      else if \<exists>token \<in> set (splitAlphaNumTokens inp). token \<in> blockedSet then True
      else
        let compact = compactAlphaNum inp in
        if compact = [] then False else compact \<in> blockedSet)"

text \<open>\<^verbatim>\<open>^[a-z0-9][a-z0-9._-]\{1,63\}$\<close>\<close>

fun handleRegex :: "string \<Rightarrow> bool" where
  "handleRegex [] = False"
| "handleRegex (c # cs) \<longleftrightarrow>
     is_alnum c \<and> 1 \<le> length cs \<and> length cs \<le> 63 \<and> list_all (\<lambda>d. is_alnum d \<or> is_sep d) cs"

definition ValidateHandle :: "string \<Rightarrow> handle_error option" where
  "ValidateHandle handle =
     (if \<not> handleRegex handle then Some ErrInvalidHandle
      else if IsBlocked handle then Some ErrBlockedHandle
      else None)"

definition ValidateAgentRef :: "string \<Rightarrow> handle_error option" where
  "ValidateAgentRef ref =
     (if CHR ''/'' \<in> set ref then
        let parts = split_on (CHR ''/'') (trim_by (\<lambda>c. c = CHR ''/'') ref) in
        if length parts \<noteq> 2 \<and> length parts \<noteq> 3 \<and> length parts \<noteq> 4 then Some ErrInvalidAgentRef
        else if list_all (\<lambda>p. ValidateHandle p = None) parts then None
        else Some ErrInvalidAgentRef
      else if ValidateHandle ref = None then None else Some ErrInvalidAgentRef)"

definition BuildAgentURI :: "string \<Rightarrow> string option \<Rightarrow> string \<Rightarrow> string" where
  "BuildAgentURI orgHandle ownerHumanHandle agentHandle =
     (let org = Normalize orgHandle; agent = Normalize agentHandle in
      case ownerHumanHandle of
        None \<Rightarrow> org @ ''/'' @ agent
      | Some h \<Rightarrow>
          if TrimSpace h = [] then org @ ''/'' @ agent
          else org @ ''/'' @ Normalize h @ ''/'' @ agent)"

definition BuildHumanAgentURI :: "string \<Rightarrow> string \<Rightarrow> string" where
  "BuildHumanAgentURI ownerHumanHandle agentHandle =
     ''human/'' @ Normalize ownerHumanHandle @ ''/agent/'' @ Normalize agentHandle"

section \<open>The canonical form of handles\<close>

text \<open>
  What the loop builds: handle characters only, no two separators in a row, no leading
  one; a canonical handle has no trailing separator either.
\<close>

definition handle_body :: "string \<Rightarrow> bool" where
  "handle_body b \<longleftrightarrow>
     list_all (\<lambda>c. is_alnum c \<or> is_sep c) b \<and>
     successively (\<lambda>x y. \<not> (is_sep x \<and> is_sep y)) b \<and>
     (b \<noteq> [] \<longrightarrow> is_alnum (hd b))"

definition canonical_handle :: "string \<Rightarrow> bool" where
  "canonical_handle h \<longleftrightarrow>
     handle_body h \<and> length h \<le> MaxLength \<and> (h \<noteq> [] \<longrightarrow> is_alnum (last h))"

lemma not_alnum_and_sep: "is_alnum c \<Longrightarrow> \<not> is_sep c"
  by (auto simp: is_alnum_def is_sep_def is_lower_def is_digit_def less_eq_char_def)

lemma alnum_sep_lower [simp]: "is_alnum c \<or> is_sep c \<Longrightarrow> lower_char c = c"
  by (auto simp: lower_char_def is_alnum_def is_sep_def is_lower_def is_digit_def is_upper_def
      less_eq_char_def)

lemma alnum_sep_not_space: "is_alnum c \<or> is_sep c \<Longrightarrow> \<not> is_space c"
  by (auto simp: is_alnum_def is_sep_def is_lower_def is_digit_def is_space_def less_eq_char_def)

lemma alnum_sep_not_slash: "is_alnum c \<or> is_sep c \<Longrightarrow> c \<noteq> CHR ''/''"
  by (auto simp: is_alnum_def is_sep_def is_lower_def is_digit_def less_eq_char_def)

lemma lower_slash [simp]: "lower_char (CHR ''/'') = CHR ''/''"
  by (simp add: lower_char_def is_upper_def less_eq_char_def)

lemma is_sep_dash [simp]: "is_sep (CHR ''-'')"
  by (simp add: is_sep_def)

lemma handle_body_Nil [simp]: "handle_body []"
  by (simp add: handle_body_def)

lemma handle_body_prefix: "handle_body b \<Longrightarrow> prefix a b \<Longrightarrow> handle_body a"
  by (auto simp: handle_body_def prefix_def successively_append_iff)

lemma handle_body_take: "handle_body b \<Longrightarrow> handle_body (take n b)"
  by (rule handle_body_prefix [OF _ take_is_prefix])

lemma handle_body_trim:
  assumes "handle_body b"
  shows "handle_body (trim_by is_sep b)"
proof -
  have "dropWhile is_sep b = b"
    using assms by (cases b) (auto simp: handle_body_def dest: not_alnum_and_sep)
  then show ?thesis
    using handle_body_prefix [OF assms prefix_rev_dropWhile] by (simp add: trim_by_def)
qed

lemma handle_body_trim_canonical:
  assumes "handle_body b" and "length (trim_by is_sep b) \<le> MaxLength"
  shows "canonical_handle (trim_by is_sep b)"
proof -
  let ?t = "trim_by is_sep b"
  have body: "handle_body ?t" using assms(1) by (rule handle_body_trim)
  have "is_alnum (last ?t)" if "?t \<noteq> []"
    using that body trim_by_last [of is_sep b]
    by (auto simp: handle_body_def list_all_iff dest: last_in_set)
  with body assms(2) show ?thesis by (simp add: canonical_handle_def)
qed

lemma handle_body_snoc:
  "handle_body b \<Longrightarrow> is_alnum c \<or> (b \<noteq> [] \<and> \<not> is_sep (last b) \<and> is_sep c) \<Longrightarrow> handle_body (b @ [c])"
  by (cases "b = []")
    (auto simp: handle_body_def successively_append_iff hd_append dest: not_alnum_and_sep)

lemma normalize_loop_body:
  assumes "handle_body b" and "prevSep \<longleftrightarrow> b \<noteq> [] \<and> is_sep (last b)"
  shows "handle_body (normalize_loop rs prevSep b)"
  using assms
proof (induction rs prevSep b rule: normalize_loop.induct)
  case (2 r rs prevSep b)
  then show ?case
    using handle_body_snoc [of b] by (auto simp: not_alnum_and_sep)
qed simp

lemma normalize_loop_id:
  assumes "handle_body (b @ rs)" and "prevSep \<longleftrightarrow> b \<noteq> [] \<and> is_sep (last b)"
  shows "normalize_loop rs prevSep b = b @ rs"
  using assms
proof (induction rs prevSep b rule: normalize_loop.induct)
  case (2 r rs prevSep b)
  have cases: "is_alnum r \<or> is_sep r" and body: "handle_body ((b @ [r]) @ rs)"
    using "2.prems"(1) by (auto simp: handle_body_def)
  show ?case
  proof (cases "is_alnum r")
    case True
    then show ?thesis using "2.IH"(1) body by (auto dest: not_alnum_and_sep)
  next
    case False
    with cases have "is_sep r" by simp
    moreover have "b \<noteq> []"
      using "2.prems"(1) False by (auto simp: handle_body_def)
    moreover have "\<not> is_sep (last b)"
      using "2.prems"(1) \<open>is_sep r\<close> \<open>b \<noteq> []\<close>
      by (auto simp: handle_body_def successively_append_iff)
    ultimately show ?thesis using "2.IH"(3) "2.prems"(2) False body by simp
  qed
qed simp

lemma Normalize_canonical: "canonical_handle (Normalize raw)"
proof -
  let ?out = "trim_by is_sep (normalize_loop (TrimSpace (ToLower raw)) False [])"
  have body: "handle_body (normalize_loop (TrimSpace (ToLower raw)) False [])"
    by (rule normalize_loop_body) auto
  have long: "canonical_handle (trim_by is_sep (take MaxLength ?out))"
    using body by (intro handle_body_trim_canonical handle_body_take handle_body_trim)
      (auto intro: order_trans [OF length_trim_by])
  have short: "canonical_handle ?out" if "length ?out \<le> MaxLength"
    using body that by (rule handle_body_trim_canonical)
  show ?thesis
    using long short by (auto simp: Normalize_def Let_def canonical_handle_def not_less)
qed

lemma canonical_lower: "list_all (\<lambda>c. is_alnum c \<or> is_sep c) h \<Longrightarrow> ToLower h = h"
  by (induction h) (auto simp: ToLower_def)

lemma canonical_trim: "list_all (\<lambda>c. is_alnum c \<or> is_sep c) h \<Longrightarrow> TrimSpace h = h"
  unfolding TrimSpace_def
  using alnum_sep_not_space by (intro trim_by_none) (auto simp: list_all_iff)

lemma Normalize_canonical_id:
  assumes "canonical_handle h"
  shows "Normalize h = h"
proof -
  have chars: "list_all (\<lambda>c. is_alnum c \<or> is_sep c) h" and body: "handle_body h"
    and len: "length h \<le> MaxLength"
    using assms by (auto simp: canonical_handle_def handle_body_def)
  have loop: "normalize_loop h False [] = h"
    using normalize_loop_id [of "[]" h False] body by simp
  have "trim_by is_sep h = h"
    using assms by (intro trim_by_id)
      (auto simp: canonical_handle_def handle_body_def dest: not_alnum_and_sep)
  with loop len show ?thesis
    by (simp add: Normalize_def Let_def canonical_lower [OF chars] canonical_trim [OF chars])
qed

lemma Normalize_Nil [simp]: "Normalize [] = []"
  by (simp add: Normalize_def)

lemma Normalize_chars: "c \<in> set (Normalize raw) \<Longrightarrow> is_alnum c \<or> is_sep c"
  using Normalize_canonical [of raw]
  by (auto simp: canonical_handle_def handle_body_def list_all_iff)

lemma Normalize_no_slash [simp]: "CHR ''/'' \<notin> set (Normalize raw)"
  using Normalize_chars alnum_sep_not_slash by blast

lemma Normalize_idem [simp]: "Normalize (Normalize raw) = Normalize raw"
  by (rule Normalize_canonical_id) (rule Normalize_canonical)

section \<open>Validation\<close>

text \<open>
  After normalisation the only ways a handle can be refused are that it is shorter than
  \<^verbatim>\<open>MinLength\<close> or on the block list: the regular expression adds nothing else.
\<close>

lemma ValidateHandle_Normalize:
  "ValidateHandle (Normalize raw) =
     (if length (Normalize raw) < MinLength then Some ErrInvalidHandle
      else if IsBlocked (Normalize raw) then Some ErrBlockedHandle
      else None)"
proof -
  have canon: "canonical_handle (Normalize raw)" by (rule Normalize_canonical)
  have "handleRegex (Normalize raw) \<longleftrightarrow> MinLength \<le> length (Normalize raw)"
    using canon by (cases "Normalize raw") (auto simp: canonical_handle_def handle_body_def)
  then show ?thesis by (auto simp: ValidateHandle_def)
qed

lemma ValidateHandle_Nil [simp]: "ValidateHandle [] = Some ErrInvalidHandle"
  by (simp add: ValidateHandle_def)

lemma ValidateHandle_ne: "ValidateHandle h = None \<Longrightarrow> h \<noteq> []"
  by (auto simp: ValidateHandle_def)

lemma ValidateHandle_chars:
  "ValidateHandle h = None \<Longrightarrow> c \<in> set h \<Longrightarrow> is_alnum c \<or> is_sep c"
  by (cases h) (auto simp: ValidateHandle_def list_all_iff split: if_splits)

lemma ValidateHandle_no_slash: "ValidateHandle h = None \<Longrightarrow> CHR ''/'' \<notin> set h"
  using ValidateHandle_chars alnum_sep_not_slash by blast

lemma ValidateHandle_length: "ValidateHandle h = None \<Longrightarrow> MinLength \<le> length h \<and> length h \<le> MaxLength"
  by (cases h) (auto simp: ValidateHandle_def split: if_splits)

section \<open>Agent references\<close>

text \<open>The parts of a reference, and the reference they make.\<close>

definition ref_parts :: "string \<Rightarrow> string list" where
  "ref_parts ref = split_on (CHR ''/'') (trim_by (\<lambda>c. c = CHR ''/'') ref)"

lemma join_no_outer_slash:
  assumes "ps \<noteq> []" and "\<forall>q \<in> set ps. q \<noteq> [] \<and> CHR ''/'' \<notin> set q"
  shows "join_with ''/'' ps \<noteq> []" and "hd (join_with ''/'' ps) \<noteq> CHR ''/''"
    and "last (join_with ''/'' ps) \<noteq> CHR ''/''"
  using assms
  by (induction "''/''" ps rule: join_with.induct)
    (auto simp: hd_append dest: hd_in_set last_in_set)

lemma ref_parts_join:
  assumes "ps \<noteq> []" and "\<forall>q \<in> set ps. q \<noteq> [] \<and> CHR ''/'' \<notin> set q"
  shows "ref_parts (join_with ''/'' ps) = ps"
proof -
  have "trim_by (\<lambda>c. c = CHR ''/'') (join_with ''/'' ps) = join_with ''/'' ps"
    using join_no_outer_slash [OF assms] by (intro trim_by_id) auto
  then show ?thesis using assms by (simp add: ref_parts_def split_on_join)
qed

lemma slash_in_join: "2 \<le> length ps \<Longrightarrow> CHR ''/'' \<in> set (join_with ''/'' ps)"
  by (induction "''/''" ps rule: join_with.induct) auto

lemma set_join: "c \<in> set (join_with ''/'' ps) \<Longrightarrow> c = CHR ''/'' \<or> (\<exists>q \<in> set ps. c \<in> set q)"
  by (induction "''/''" ps rule: join_with.induct) auto

lemma ValidateAgentRef_join:
  assumes "2 \<le> length ps" and "length ps \<le> 4" and "\<forall>q \<in> set ps. ValidateHandle q = None"
  shows "ValidateAgentRef (join_with ''/'' ps) = None"
proof -
  have parts: "ref_parts (join_with ''/'' ps) = ps"
    using assms ValidateHandle_ne ValidateHandle_no_slash by (intro ref_parts_join) auto
  show ?thesis
    using assms slash_in_join [OF assms(1)] parts
    by (auto simp: ValidateAgentRef_def ref_parts_def list_all_iff)
qed

lemma NormalizeAgentRef_join:
  assumes "2 \<le> length ps" and "\<forall>q \<in> set ps. q \<noteq> [] \<and> canonical_handle q"
  shows "NormalizeAgentRef (join_with ''/'' ps) = join_with ''/'' ps"
proof -
  let ?r = "join_with ''/'' ps"
  have chars: "c = CHR ''/'' \<or> is_alnum c \<or> is_sep c" if "c \<in> set ?r" for c
    using set_join [OF that] assms(2)
    by (auto simp: canonical_handle_def handle_body_def list_all_iff)
  have lower: "ToLower ?r = ?r"
    unfolding ToLower_def
    by (rule map_idI) (use chars lower_slash alnum_sep_lower in metis)
  have trim: "TrimSpace ?r = ?r"
    unfolding TrimSpace_def
    by (rule trim_by_none) (use chars alnum_sep_not_space in \<open>auto simp: is_space_def\<close>)
  have noslash: "\<forall>q \<in> set ps. q \<noteq> [] \<and> CHR ''/'' \<notin> set q"
    using assms(2) Normalize_canonical_id Normalize_no_slash by metis
  have "ps \<noteq> []" using assms(1) by auto
  then have parts: "ref_parts ?r = ps" using noslash by (intro ref_parts_join) auto
  have "map Normalize ps = ps"
    using assms(2) by (intro map_idI) (auto simp: Normalize_canonical_id)
  moreover have "filter (\<lambda>h. h \<noteq> []) ps = ps"
    using assms(2) by (auto intro: filter_True)
  ultimately show ?thesis
    using slash_in_join [OF assms(1)] parts join_no_outer_slash(1) [OF \<open>ps \<noteq> []\<close> noslash]
    by (simp add: NormalizeAgentRef_def Let_def lower trim ref_parts_def)
qed

section \<open>The URIs of agents\<close>

lemma BuildAgentURI_parts:
  "BuildAgentURI oh None ah = join_with ''/'' [Normalize oh, Normalize ah]"
  "TrimSpace hh \<noteq> [] \<Longrightarrow>
     BuildAgentURI oh (Some hh) ah = join_with ''/'' [Normalize oh, Normalize hh, Normalize ah]"
  by (simp_all add: BuildAgentURI_def Let_def)

lemma BuildHumanAgentURI_parts:
  "BuildHumanAgentURI hh ah = join_with ''/'' [''human'', Normalize hh, ''agent'', Normalize ah]"
  by (simp add: BuildHumanAgentURI_def)

lemma human_agent_words [simp]:
  "ValidateHandle ''human'' = None" "ValidateHandle ''agent'' = None"
  "canonical_handle ''human'' \<and> canonical_handle ''agent''"
  by code_simp+

text \<open>
  The URI built for an agent whose handles are valid is a valid agent reference and is
  already in the normal form under which references are looked up, for each of the three
  shapes: organisation-owned, owned by a human inside an organisation, and personal.
\<close>

lemma agent_uri_roundtrip:
  assumes "ValidateHandle (Normalize oh) = None" and "ValidateHandle (Normalize hh) = None"
    and "ValidateHandle (Normalize ah) = None" and "TrimSpace hh \<noteq> []"
    and "uri \<in> {BuildAgentURI oh None ah, BuildAgentURI oh (Some hh) ah, BuildHumanAgentURI hh ah}"
  shows "ValidateAgentRef uri = None \<and> NormalizeAgentRef uri = uri"
proof -
  let ?o = "Normalize oh" and ?h = "Normalize hh" and ?a = "Normalize ah"
  have "uri \<in> join_with ''/'' ` {[?o, ?a], [?o, ?h, ?a], [''human'', ?h, ''agent'', ?a]}"
    using assms(4,5) by (auto simp: BuildAgentURI_parts BuildHumanAgentURI_parts)
  then obtain ps where uri: "uri = join_with ''/'' ps"
    and ps: "ps \<in> {[?o, ?a], [?o, ?h, ?a], [''human'', ?h, ''agent'', ?a]}" by blast
  have "2 \<le> length ps" "length ps \<le> 4" "\<forall>q \<in> set ps. ValidateHandle q = None"
    using ps assms(1-3) by auto
  moreover have "\<forall>q \<in> set ps. q \<noteq> [] \<and> canonical_handle q"
    using ps assms(1-3) by (auto simp: Normalize_canonical)
  ultimately show ?thesis
    unfolding uri by (simp add: ValidateAgentRef_join NormalizeAgentRef_join)
qed

lemma trim_by_empty: "trim_by p s = [] \<longleftrightarrow> (\<forall>c \<in> set s. p c)"
proof
  assume "trim_by p s = []"
  then have all: "\<forall>c \<in> set (dropWhile p s). p c" by (simp add: trim_by_def)
  have "dropWhile p s = []"
    using all hd_dropWhile [of p s] by (metis hd_in_set)
  then show "\<forall>c \<in> set s. p c" by simp
next
  assume "\<forall>c \<in> set s. p c"
  then have "dropWhile p s = []" by simp
  then show "trim_by p s = []" by (simp only: trim_by_def) simp
qed

lemma TrimSpace_empty: "TrimSpace s = [] \<longleftrightarrow> (\<forall>c \<in> set s. is_space c)"
  by (simp add: TrimSpace_def trim_by_empty)

lemma lower_space: "is_space c \<Longrightarrow> lower_char c = c"
  by (auto simp: lower_char_def is_upper_def is_space_def less_eq_char_def)

lemma Normalize_ne_TrimSpace: "Normalize h \<noteq> [] \<Longrightarrow> TrimSpace h \<noteq> []"
proof (rule notI)
  assume ne: "Normalize h \<noteq> []" and "TrimSpace h = []"
  then have "\<forall>c \<in> set h. is_space c" by (simp add: TrimSpace_empty)
  then have "\<forall>c \<in> set (ToLower h). is_space c"
    by (auto simp: ToLower_def lower_space)
  then have "TrimSpace (ToLower h) = []" by (simp add: TrimSpace_empty)
  with ne show False by (simp add: Normalize_def)
qed

text \<open>
  The owner of an agent as the URI sees it: an organisation, a human inside an
  organisation, or a human alone; \<^verbatim>\<open>agent_uri\<close> picks the builder as the store does.
\<close>

datatype agent_owner = OrgOwned string | OrgHumanOwned string string | HumanOwned string

fun agent_uri :: "agent_owner \<Rightarrow> string \<Rightarrow> string" where
  "agent_uri (OrgOwned oh) ah = BuildAgentURI oh None ah"
| "agent_uri (OrgHumanOwned oh hh) ah = BuildAgentURI oh (Some hh) ah"
| "agent_uri (HumanOwned hh) ah = BuildHumanAgentURI hh ah"

fun norm_owner :: "agent_owner \<Rightarrow> agent_owner" where
  "norm_owner (OrgOwned oh) = OrgOwned (Normalize oh)"
| "norm_owner (OrgHumanOwned oh hh) = OrgHumanOwned (Normalize oh) (Normalize hh)"
| "norm_owner (HumanOwned hh) = HumanOwned (Normalize hh)"

fun owner_handles :: "agent_owner \<Rightarrow> string list" where
  "owner_handles (OrgOwned oh) = [oh]"
| "owner_handles (OrgHumanOwned oh hh) = [oh, hh]"
| "owner_handles (HumanOwned hh) = [hh]"

lemma ref_parts_agent_uri:
  assumes "\<forall>h \<in> set (ah # owner_handles w). Normalize h \<noteq> []"
  shows "ref_parts (agent_uri w ah) =
    (case norm_owner w of
       OrgOwned o' \<Rightarrow> [o', Normalize ah]
     | OrgHumanOwned o' h' \<Rightarrow> [o', h', Normalize ah]
     | HumanOwned h' \<Rightarrow> [''human'', h', ''agent'', Normalize ah])"
proof (cases w)
  case (OrgOwned oh)
  then show ?thesis using assms by (simp add: BuildAgentURI_parts ref_parts_join del: join_with.simps)
next
  case (OrgHumanOwned oh hh)
  then show ?thesis
    using assms Normalize_ne_TrimSpace [of hh]
    by (simp add: BuildAgentURI_parts ref_parts_join del: join_with.simps)
next
  case (HumanOwned hh)
  then show ?thesis using assms by (simp add: BuildHumanAgentURI_parts ref_parts_join del: join_with.simps)
qed

text \<open>
  C38: agent URIs identify what they were built from: two agents whose handles do not
  normalise to the empty string get the same URI exactly when they have the same kind of
  owner and the same normalised handles.
\<close>

theorem agent_uri_injective:
  assumes "\<forall>h \<in> set (ah # owner_handles w). Normalize h \<noteq> []"
    and "\<forall>h \<in> set (ah' # owner_handles w'). Normalize h \<noteq> []"
  shows "agent_uri w ah = agent_uri w' ah' \<longleftrightarrow>
    norm_owner w = norm_owner w' \<and> Normalize ah = Normalize ah'"
proof
  assume "agent_uri w ah = agent_uri w' ah'"
  then have "ref_parts (agent_uri w ah) = ref_parts (agent_uri w' ah')" by simp
  then show "norm_owner w = norm_owner w' \<and> Normalize ah = Normalize ah'"
    unfolding ref_parts_agent_uri [OF assms(1)] ref_parts_agent_uri [OF assms(2)]
    by (simp split: agent_owner.splits)
next
  assume eq: "norm_owner w = norm_owner w' \<and> Normalize ah = Normalize ah'"
  show "agent_uri w ah = agent_uri w' ah'"
    using eq assms Normalize_ne_TrimSpace
    by (cases w; cases w') (auto simp: BuildAgentURI_parts BuildHumanAgentURI_parts)
qed

theorem agent_uri_injective_witness:
  "agent_uri (OrgOwned ''acme'') ''bot'' \<noteq> agent_uri (HumanOwned ''acme'') ''bot''"
  using agent_uri_injective [of "''bot''" "OrgOwned ''acme''" "''bot''" "HumanOwned ''acme''"]
  by (simp add: Normalize_canonical_id canonical_handle_def handle_body_def is_alnum_def
      is_lower_def is_digit_def is_sep_def less_eq_char_def)

end
