(* ===== verification/Store.thy ===== *)
theory Store
  imports Model Handles
begin

text \<open>
  The state of the control plane: \<^verbatim>\<open>MemoryStore\<close> of \<^verbatim>\<open>internal/store/memory.go\<close>, with every
  map of the struct.  Every operation takes the write lock for its whole body, so an
  operation is one atomic step from a store to a store.
\<close>

record memory_store =
  orgs :: "organization gomap"
  orgByHandle :: "string gomap"
  personalOrgByHuman :: "string gomap"
  archivedOrgs :: "organization gomap"
  humans :: "human gomap"
  humanByAuthKey :: "string gomap"
  humanByHandle :: "string gomap"
  archivedHumans :: "human gomap"
  humanPresence :: "gmap gomap"
  memberships :: "membership gomap"
  membershipByOrgUser :: "string gomap"
  invites :: "invite gomap"
  inviteBySecretHash :: "string gomap"
  orgAccessKeys :: "org_access_key gomap"
  orgAccessKeyByHash :: "string gomap"
  agents :: "agent gomap"
  archivedAgents :: "agent gomap"
  agentByURI :: "string gomap"
  agentTokenIdx :: "string gomap"
  orgOwnedAgentNameIdx :: "string gomap"
  humanOwnedAgentNameIdx :: "string gomap"
  queues :: "message list gomap"
  messageRecords :: "message_record gomap"
  messageByClientMsg :: "string gomap"
  messageDeliveries :: "message_delivery gomap"
  queueMetrics :: queue_metrics
  binds :: "bind_token gomap"
  bindByHash :: "string gomap"
  orgTrusts :: "trust_edge gomap"
  orgTrustByPair :: "string gomap"
  agentTrusts :: "trust_edge gomap"
  agentTrustByPair :: "string gomap"
  peerInstances :: "peer_instance gomap"
  peerByCanonicalBase :: "string gomap"
  remoteOrgTrusts :: "remote_org_trust gomap"
  remoteOrgTrustByKey :: "string gomap"
  remoteAgentTrusts :: "remote_agent_trust gomap"
  remoteAgentTrustByKey :: "string gomap"
  peerOutbounds :: "peer_outbound gomap"
  peerOutboundByPeer :: "string list gomap"
  agentPresence :: "gmap gomap"
  auditByOrg :: "audit_event list gomap"
  statsByOrg :: "org_stats gomap"
  statsDaily :: "org_daily_stats gomap gomap"

text \<open>The errors of the store; \<open>ErrOther\<close> is an error a caller's function returned.\<close>

datatype store_error =
    ErrInvalidToken | ErrOrgNotFound | ErrOrgNameTaken | ErrOrgHandleTaken | ErrHumanNotFound
  | ErrHumanHandleTaken | ErrInvalidHandle | ErrMembershipNotFound | ErrInviteNotFound
  | ErrInviteInvalid | ErrInviteExists | ErrOrgAccessKeyNotFound | ErrOrgAccessKeyInvalid
  | ErrOrgAccessScopeDenied | ErrCannotRevokeOwner | ErrAgentExists | ErrAgentNotFound
  | ErrAgentAmbiguous | ErrAgentHandleLocked | ErrAgentRevoked | ErrInvalidAgentType
  | ErrInvalidAgentSkills | ErrInvalidSkillDescription | ErrInvalidAgentActivity
  | ErrTrustNotFound | ErrUnauthorizedRole | ErrInvalidRole | ErrInvalidEdgeType | ErrSelfTrust
  | ErrNoTrustPath | ErrBindNotFound | ErrBindExpired | ErrBindUsed | ErrHostedAgentRestricted
  | ErrAgentLimitExceeded | ErrMessageNotFound | ErrMessageDeliveryNotFound
  | ErrMessageDeliveryMismatch | ErrPeerInstanceNotFound | ErrPeerInstanceExists
  | ErrRemoteOrgTrustNotFound | ErrRemoteAgentTrustNotFound | ErrOther string

definition NewMemoryStore :: memory_store where
  "NewMemoryStore =
     \<lparr>orgs = fmempty, orgByHandle = fmempty, personalOrgByHuman = fmempty, archivedOrgs = fmempty,
      humans = fmempty, humanByAuthKey = fmempty, humanByHandle = fmempty,
      archivedHumans = fmempty, humanPresence = fmempty, memberships = fmempty,
      membershipByOrgUser = fmempty, invites = fmempty, inviteBySecretHash = fmempty,
      orgAccessKeys = fmempty, orgAccessKeyByHash = fmempty, agents = fmempty,
      archivedAgents = fmempty, agentByURI = fmempty, agentTokenIdx = fmempty,
      orgOwnedAgentNameIdx = fmempty, humanOwnedAgentNameIdx = fmempty, queues = fmempty,
      messageRecords = fmempty, messageByClientMsg = fmempty, messageDeliveries = fmempty,
      queueMetrics = \<lparr>QM_AvailableMessages = 0, QM_LeasedMessages = 0,
        QM_OldestQueuedAt = None, QM_OldestLeaseExpiryAt = None\<rparr>,
      binds = fmempty, bindByHash = fmempty, orgTrusts = fmempty, orgTrustByPair = fmempty,
      agentTrusts = fmempty, agentTrustByPair = fmempty, peerInstances = fmempty,
      peerByCanonicalBase = fmempty, remoteOrgTrusts = fmempty, remoteOrgTrustByKey = fmempty,
      remoteAgentTrusts = fmempty, remoteAgentTrustByKey = fmempty, peerOutbounds = fmempty,
      peerOutboundByPeer = fmempty, agentPresence = fmempty, auditByOrg = fmempty,
      statsByOrg = fmempty, statsDaily = fmempty\<rparr>"

section \<open>Index keys\<close>

text \<open>Composite keys are the parts joined by a NUL byte.\<close>

abbreviation "NUL \<equiv> CHR 0x00"

definition authKey :: "string \<Rightarrow> string \<Rightarrow> string" where
  "authKey provider subject = provider @ [NUL] @ subject"

definition orgHumanKey :: "string \<Rightarrow> string \<Rightarrow> string" where
  "orgHumanKey orgID humanID = orgID @ [NUL] @ humanID"

definition normalizeAgentNameKey :: "string \<Rightarrow> string" where
  "normalizeAgentNameKey agentID = Normalize agentID"

definition normalizeHumanHandleCandidate :: "string \<Rightarrow> string" where
  "normalizeHumanHandleCandidate inp = Normalize inp"

definition normalizeOrgHandleKey :: "string \<Rightarrow> string" where
  "normalizeOrgHandleKey handle = normalizeHumanHandleCandidate handle"

definition orgOwnedAgentNameKey :: "string \<Rightarrow> string \<Rightarrow> string" where
  "orgOwnedAgentNameKey orgID agentID = orgID @ [NUL] @ normalizeAgentNameKey agentID"

definition humanOwnedAgentNameKey :: "string \<Rightarrow> string \<Rightarrow> string \<Rightarrow> string" where
  "humanOwnedAgentNameKey orgID humanID agentID =
     orgID @ [NUL] @ humanID @ [NUL] @ normalizeAgentNameKey agentID"

definition canonicalPair :: "string \<Rightarrow> string \<Rightarrow> string \<times> string" where
  "canonicalPair a b = (if a \<le> b then (a, b) else (b, a))"

definition pairKey :: "string \<Rightarrow> string \<Rightarrow> string" where
  "pairKey a b = (let (left, right) = canonicalPair a b in left @ [NUL] @ right)"

definition messageClientKey :: "string \<Rightarrow> string \<Rightarrow> string" where
  "messageClientKey senderAgentUUID clientMsgID =
     TrimSpace senderAgentUUID @ [NUL] @ TrimSpace clientMsgID"

definition normalizeBaseURL :: "string \<Rightarrow> string" where
  "normalizeBaseURL raw =
     ToLower (rev (dropWhile (\<lambda>c. c = CHR ''/'') (rev (TrimSpace raw))))"

definition remoteOrgTrustKey :: "string \<Rightarrow> string \<Rightarrow> string \<Rightarrow> string" where
  "remoteOrgTrustKey localOrgID peerID remoteOrgHandle =
     TrimSpace localOrgID @ [NUL] @ TrimSpace peerID @ [NUL] @ Normalize remoteOrgHandle"

definition remoteAgentTrustKey :: "string \<Rightarrow> string \<Rightarrow> string \<Rightarrow> string" where
  "remoteAgentTrustKey localAgentUUID peerID remoteAgentURI =
     TrimSpace localAgentUUID @ [NUL] @ TrimSpace peerID @ [NUL] @ TrimSpace remoteAgentURI"

lemma canonicalPair_commute: "canonicalPair a b = canonicalPair b a"
  by (auto simp: canonicalPair_def)

lemma pairKey_commute: "pairKey a b = pairKey b a"
  by (simp add: pairKey_def canonicalPair_commute)

lemma NUL_split:
  "NUL \<notin> set a \<Longrightarrow> NUL \<notin> set a' \<Longrightarrow> a @ NUL # b = a' @ NUL # b' \<longleftrightarrow> a = a' \<and> b = b'"
proof (induction a arbitrary: a')
  case Nil
  then show ?case by (cases a') auto
next
  case (Cons x a)
  then show ?case by (cases a') auto
qed

text \<open>Identifiers (UUIDs in hexadecimal) have no NUL byte.\<close>

definition plain :: "string \<Rightarrow> bool" where
  "plain i \<longleftrightarrow> NUL \<notin> set i"

lemma pairKey_inject:
  assumes "plain a" "plain b" "plain c" "plain d"
  shows "pairKey a b = pairKey c d \<longleftrightarrow> {a, b} = {c, d}"
  using assms by (auto simp: plain_def pairKey_def canonicalPair_def NUL_split doubleton_eq_iff)

lemma orgHumanKey_inject:
  "NUL \<notin> set o1 \<Longrightarrow> NUL \<notin> set o2 \<Longrightarrow> orgHumanKey o1 h1 = orgHumanKey o2 h2 \<longleftrightarrow> o1 = o2 \<and> h1 = h2"
  by (simp add: orgHumanKey_def NUL_split)

section \<open>Roles and memberships\<close>

definition roleRank :: "string \<Rightarrow> nat" where
  "roleRank role =
     (if role = RoleOwner then 4 else if role = RoleAdmin then 3
      else if role = RoleMember then 2 else if role = RoleViewer then 1 else 0)"

definition hasRoleAtLeast :: "string \<Rightarrow> string \<Rightarrow> bool" where
  "hasRoleAtLeast actualRole minimumRole \<longleftrightarrow> roleRank actualRole \<ge> roleRank minimumRole"

definition isValidRole :: "string \<Rightarrow> bool" where
  "isValidRole role \<longleftrightarrow> role \<in> {RoleOwner, RoleAdmin, RoleMember, RoleViewer}"

definition membershipRoleLocked :: "memory_store \<Rightarrow> string \<Rightarrow> string \<Rightarrow> string" where
  "membershipRoleLocked s orgID humanID =
     (case fmlookup (membershipByOrgUser s) (orgHumanKey orgID humanID) of
        None \<Rightarrow> []
      | Some membershipID \<Rightarrow>
          (case fmlookup (memberships s) membershipID of
             None \<Rightarrow> []
           | Some m \<Rightarrow> if Mem_Status m = StatusActive then Mem_Role m else []))"

definition canManageAgentLocked :: "memory_store \<Rightarrow> agent \<Rightarrow> string \<Rightarrow> bool" where
  "canManageAgentLocked s agent humanID =
     (if hasRoleAtLeast (membershipRoleLocked s (Agent_OrgID agent) humanID) RoleAdmin then True
      else Agent_OwnerHumanID agent = Some humanID)"

definition canRequestAgentTrustLocked :: "memory_store \<Rightarrow> agent \<Rightarrow> string \<Rightarrow> bool" where
  "canRequestAgentTrustLocked s agent humanID =
     (if canManageAgentLocked s agent humanID then True
      else if Agent_OrgID agent = [] then False
      else membershipRoleLocked s (Agent_OrgID agent) humanID \<noteq> [])"

definition canDeleteAgentLocked :: "memory_store \<Rightarrow> agent \<Rightarrow> string \<Rightarrow> bool" where
  "canDeleteAgentLocked s agent humanID =
     (if Agent_OrgID agent = [] then Agent_OwnerHumanID agent = Some humanID
      else membershipRoleLocked s (Agent_OrgID agent) humanID = RoleOwner)"

definition canManageAgentLockedByID :: "memory_store \<Rightarrow> string \<Rightarrow> string \<Rightarrow> bool" where
  "canManageAgentLockedByID s agentID humanID =
     (case fmlookup (agents s) agentID of
        None \<Rightarrow> False
      | Some agent \<Rightarrow> canManageAgentLocked s agent humanID)"

end
