(* ===== verification/GoTime.thy ===== *)
theory GoTime
  imports Prelude
begin

text \<open>
  The two layouts the store formats times with, \<^verbatim>\<open>time.RFC3339\<close> and \<^verbatim>\<open>"2006-01-02"\<close>, for
  instants in UTC given in nanoseconds since the Unix epoch, in the years 0 to 9999.
\<close>

abbreviation "Second \<equiv> (1000000000::int)"
abbreviation "Day \<equiv> (86400 * 1000000000::int)"

definition unix_day :: "int \<Rightarrow> int" where
  "unix_day t = t div Day"

text \<open>Year, month and day of a day number (day 0 is 1970-01-01), proleptic Gregorian.\<close>

definition civil_of_day :: "int \<Rightarrow> int \<times> int \<times> int" where
  "civil_of_day z0 =
     (let z = z0 + 719468;
          era = z div 146097;
          doe = z mod 146097;
          yoe = (doe - doe div 1460 + doe div 36524 - doe div 146096) div 365;
          doy = doe - (365 * yoe + yoe div 4 - yoe div 100);
          mp = (5 * doy + 2) div 153;
          d = doy - (153 * mp + 2) div 5 + 1;
          m = (if mp < 10 then mp + 3 else mp - 9);
          y = yoe + era * 400 + (if m \<le> 2 then 1 else 0)
      in (y, m, d))"

definition pad_left :: "nat \<Rightarrow> string \<Rightarrow> string" where
  "pad_left n s = replicate (n - length s) (CHR ''0'') @ s"

definition FormatDate :: "int \<Rightarrow> string" where
  "FormatDate t =
     (let (y, m, d) = civil_of_day (unix_day t) in
      pad_left 4 (show_int y) @ ''-'' @ pad_left 2 (show_int m) @ ''-'' @ pad_left 2 (show_int d))"

definition FormatRFC3339 :: "int \<Rightarrow> string" where
  "FormatRFC3339 t =
     (let secs = (t mod Day) div Second in
      FormatDate t @ ''T'' @ pad_left 2 (show_int (secs div 3600)) @ '':'' @
      pad_left 2 (show_int ((secs div 60) mod 60)) @ '':'' @ pad_left 2 (show_int (secs mod 60)) @
      ''Z'')"

lemma FormatRFC3339_examples:
  "FormatRFC3339 0 = ''1970-01-01T00:00:00Z''"
  "FormatRFC3339 (1709210096 * Second + 5) = ''2024-02-29T12:34:56Z''"
  by code_simp+

end
