(* ===== verification/Activity.thy ===== *)
theory Activity
  imports Store GoTime
begin

text \<open>
  Activity entries of \<^verbatim>\<open>internal/store/memory.go\<close>: the objects kept in an agent's metadata
  under \<^verbatim>\<open>_system_activity_log\<close> and \<^verbatim>\<open>activities\<close>, their normal form, their key, and the
  list without duplicates and bounded in length.
\<close>

abbreviation "maxAgentActivityEntries \<equiv> (512::nat)"
abbreviation "maxAgentActivityChars \<equiv> (128::nat)"

text \<open>
  The first \<open>n\<close> runes of a string in valid UTF-8: a rune starts at every byte that is not a
  continuation byte.
\<close>

definition is_cont :: "char \<Rightarrow> bool" where
  "is_cont c \<longleftrightarrow> (128::nat) \<le> of_char c \<and> (of_char c :: nat) < 192"

definition rune_count :: "string \<Rightarrow> nat" where
  "rune_count s = length (filter (\<lambda>c. \<not> is_cont c) s)"

fun take_runes :: "nat \<Rightarrow> string \<Rightarrow> string" where
  "take_runes n [] = []"
| "take_runes n (c # cs) =
     (if is_cont c then c # take_runes n cs
      else case n of 0 \<Rightarrow> [] | Suc m \<Rightarrow> c # take_runes m cs)"

definition normalizeActivityText :: "string \<Rightarrow> string" where
  "normalizeActivityText value =
     (let trimmed = TrimSpace value in
      if trimmed = [] then []
      else if rune_count trimmed \<le> maxAgentActivityChars then trimmed
      else take_runes maxAgentActivityChars trimmed)"

text \<open>\<^verbatim>\<open>if v == "" \{ delete(m, k) \} else \{ m[k] = v \}\<close>\<close>

definition set_or_delete :: "string \<Rightarrow> string \<Rightarrow> gmap \<Rightarrow> gmap" where
  "set_or_delete k v m = (if v = [] then fmdrop k m else fmupd k (GStr v) m)"

definition parseActivityEntryObject :: "gmap \<Rightarrow> gmap option" where
  "parseActivityEntryObject raw =
     (let a1 = normalizeActivityText (stringValue (gget raw ''activity''));
          a2 = (if a1 = [] then normalizeActivityText (stringValue (gget raw ''text'')) else a1);
          activity = (if a2 = [] then normalizeActivityText (stringValue (gget raw ''title'')) else a2)
      in if activity = [] then None
      else
        let entry = fmupd ''activity'' (GStr activity) raw;
            at1 = stringValue (gget entry ''at'');
            at = (if at1 = [] then stringValue (gget entry ''timestamp'') else at1);
            entry = fmdrop ''timestamp'' (set_or_delete ''at'' at entry)
        in Some (set_or_delete ''source'' (stringValue (gget entry ''source'')) entry))"

definition activity_of_text :: "string \<Rightarrow> gmap list" where
  "activity_of_text text =
     (let t = normalizeActivityText text in
      if t = [] then [] else [fmupd ''activity'' (GStr t) fmempty])"

definition activity_of_object :: "gmap \<Rightarrow> gmap list" where
  "activity_of_object obj =
     (case parseActivityEntryObject obj of None \<Rightarrow> [] | Some entry \<Rightarrow> [entry])"

fun activity_of_item :: "gval \<Rightarrow> gmap list" where
  "activity_of_item (GStr s) = activity_of_text s"
| "activity_of_item (GMap m) = activity_of_object m"
| "activity_of_item _ = []"

fun parseActivityEntries :: "gval \<Rightarrow> gmap list" where
  "parseActivityEntries (GMaps ms) = concat (map activity_of_object ms)"
| "parseActivityEntries (GStrs ss) = concat (map activity_of_text ss)"
| "parseActivityEntries (GList vs) = concat (map activity_of_item vs)"
| "parseActivityEntries (GStr s) = activity_of_text s"
| "parseActivityEntries (GMap m) = activity_of_object m"
| "parseActivityEntries _ = []"

definition activityEntryDedupeKey :: "gmap \<Rightarrow> string" where
  "activityEntryDedupeKey entry =
     (let eventID = stringValue (gget entry ''event_id'') in
      if eventID \<noteq> [] then ''event:'' @ eventID
      else
        ToLower (stringValue (gget entry ''source'')) @ ''|'' @
        stringValue (gget entry ''activity'') @ ''|'' @
        stringValue (gget entry ''at'') @ ''|'' @
        stringValue (gget entry ''category'') @ ''|'' @
        stringValue (gget entry ''action'') @ ''|'' @
        stringValue (gget entry ''status''))"

text \<open>One round of the loop: the cleaned entry, or nothing for an entry without a text.\<close>

definition clean_entry :: "gmap \<Rightarrow> gmap option" where
  "clean_entry raw =
     (let activity = normalizeActivityText (stringValue (gget raw ''activity'')) in
      if activity = [] then None
      else
        let entry = fmupd ''activity'' (GStr activity) raw;
            entry = set_or_delete ''at'' (stringValue (gget entry ''at'')) entry
        in Some (set_or_delete ''source'' (stringValue (gget entry ''source'')) entry))"

fun dedupe_loop :: "string set \<Rightarrow> gmap list \<Rightarrow> gmap list" where
  "dedupe_loop seen [] = []"
| "dedupe_loop seen (raw # rest) =
     (case clean_entry raw of
        None \<Rightarrow> dedupe_loop seen rest
      | Some entry \<Rightarrow>
          let key = activityEntryDedupeKey entry in
          if key \<in> seen then dedupe_loop seen rest
          else entry # dedupe_loop (insert key seen) rest)"

text \<open>\<^verbatim>\<open>out[len(out)-limit:]\<close> when there are more than \<open>limit\<close>.\<close>

definition keep_last :: "nat \<Rightarrow> 'a list \<Rightarrow> 'a list" where
  "keep_last limit xs = (if length xs > limit then drop (length xs - limit) xs else xs)"

definition dedupeAndTrimActivityEntries :: "gmap list \<Rightarrow> nat \<Rightarrow> gmap list" where
  "dedupeAndTrimActivityEntries entries limit =
     (let out = dedupe_loop {} entries in if limit > 0 then keep_last limit out else out)"

lemma length_keep_last [simp]: "length (keep_last n xs) \<le> n"
  by (simp add: keep_last_def)

lemma keep_last_suffix: "suffix (keep_last n xs) xs"
  by (simp add: keep_last_def suffix_drop)

lemma keep_last_snoc: "0 < n \<Longrightarrow> keep_last n (xs @ [x]) \<noteq> [] \<and> last (keep_last n (xs @ [x])) = x"
  by (auto simp: keep_last_def)

end
