(* ===== verification/AuditLog.thy ===== *)
theory AuditLog
  imports Activity
begin

text \<open>
  The audit trail of \<^verbatim>\<open>internal/store/memory.go\<close>: \<^verbatim>\<open>appendAuditLocked\<close> keeps the last 200
  events of each organisation and copies a readable activity into the metadata of the
  agents the event is about.  Every operation of the store ends in it.
\<close>

abbreviation "maxAuditEvents \<equiv> (200::nat)"

section \<open>Reading the details of an event\<close>

definition auditEventDetailString :: "gmap \<Rightarrow> string \<Rightarrow> string" where
  "auditEventDetailString details key = stringValue (gget details key)"

definition auditEventDetailBool :: "gmap \<Rightarrow> string \<Rightarrow> bool" where
  "auditEventDetailBool details key =
     (case fmlookup details key of
        Some (GBool b) \<Rightarrow> b
      | Some (GStr s) \<Rightarrow> ToLower (TrimSpace s) \<in> {''1'', ''true'', ''yes''}
      | Some (GInt n) \<Rightarrow> n \<noteq> 0
      | Some (GFloat m e) \<Rightarrow> m \<noteq> 0
      | _ \<Rightarrow> False)"

definition nonblank :: "string list \<Rightarrow> string list" where
  "nonblank ss = filter (\<lambda>s. s \<noteq> []) (map TrimSpace ss)"

fun gstrings :: "gval list \<Rightarrow> string list" where
  "gstrings [] = []"
| "gstrings (GStr s # vs) = s # gstrings vs"
| "gstrings (_ # vs) = gstrings vs"

definition auditEventDetailStringSlice :: "gmap \<Rightarrow> string \<Rightarrow> string list" where
  "auditEventDetailStringSlice details key =
     (case fmlookup details key of
        Some (GStrs ss) \<Rightarrow> nonblank ss
      | Some (GList vs) \<Rightarrow> nonblank (gstrings vs)
      | Some (GStr s) \<Rightarrow> nonblank [s]
      | _ \<Rightarrow> [])"

section \<open>The label of an event\<close>

definition metadataPublicStrict :: "gmap \<Rightarrow> bool" where
  "metadataPublicStrict metadata =
     (case fmlookup metadata ''public'' of Some (GBool b) \<Rightarrow> b | _ \<Rightarrow> False)"

definition publicAgentHandleLocked :: "memory_store \<Rightarrow> string \<Rightarrow> string" where
  "publicAgentHandleLocked s agentUUID0 =
     (let agentUUID = TrimSpace agentUUID0 in
      if agentUUID = [] then []
      else case fmlookup (agents s) agentUUID of
        None \<Rightarrow> []
      | Some agent \<Rightarrow>
          if Agent_Status agent \<noteq> StatusActive then []
          else if \<not> metadataPublicStrict (Agent_Metadata agent) then []
          else TrimSpace (Agent_Handle agent))"

definition messagePublishActivityLabelLocked :: "memory_store \<Rightarrow> gmap \<Rightarrow> string" where
  "messagePublishActivityLabelLocked s details =
     (let firstMessage = auditEventDetailBool details ''first_message'';
          receiverHandle = publicAgentHandleLocked s (auditEventDetailString details ''to_agent_uuid'');
          receiverPeerID = auditEventDetailString details ''receiver_peer_id''
      in if receiverHandle \<noteq> [] then
           (if firstMessage then ''sent first message to '' @ receiverHandle
            else ''sent message to '' @ receiverHandle)
         else if receiverPeerID \<noteq> [] then
           (if firstMessage then ''sent first message to peer'' else ''sent message to peer'')
         else if firstMessage then ''sent first message''
         else ''sent message'')"

definition messageReceiveActivityLabelLocked :: "memory_store \<Rightarrow> gmap \<Rightarrow> string" where
  "messageReceiveActivityLabelLocked s details =
     (let senderHandle = publicAgentHandleLocked s (auditEventDetailString details ''from_agent_uuid'')
      in if senderHandle \<noteq> [] then ''received message from '' @ senderHandle
         else ''received message'')"

definition metadataAuditActivityLabel :: "gmap \<Rightarrow> string" where
  "metadataAuditActivityLabel details =
     (case auditEventDetailStringSlice details ''changed_keys'' of
        [k] \<Rightarrow>
          if k = ''emoji'' then ''updated emoji''
          else if k \<in> {''bio'', AgentMetadataKeyProfile} then ''updated bio''
          else if k = AgentMetadataKeySkills then
            (let addedSkills = auditEventDetailStringSlice details ''skills_added'';
                 removedSkills = auditEventDetailStringSlice details ''skills_removed''
             in if addedSkills \<noteq> [] \<and> removedSkills = [] then ''added new skills''
                else if removedSkills \<noteq> [] \<and> addedSkills = [] then ''removed skills''
                else ''updated skills'')
          else if k = AgentMetadataKeyActivities then ''posted activity''
          else if k = AgentMetadataKeyHireMe then ''updated availability''
          else if k = ''public'' then ''updated visibility''
          else ''updated profile''
      | _ \<Rightarrow> ''updated profile'')"

definition plainActivityLabel :: "audit_event \<Rightarrow> string" where
  "plainActivityLabel event =
     (let category = TrimSpace (Ev_Category event); action = TrimSpace (Ev_Action event) in
      if category = [] then action
      else if action = [] then category
      else category @ '':'' @ action)"

definition auditActivityLabelLocked :: "memory_store \<Rightarrow> audit_event \<Rightarrow> string" where
  "auditActivityLabelLocked s event =
     (let cat = Ev_Category event; act = Ev_Action event in
      if cat = ''agent'' \<and> act = ''create'' then ''created agent''
      else if cat = ''agent'' \<and> act = ''register'' then ''bound to hub''
      else if cat = ''agent'' \<and> act \<in> {''set_metadata'', ''set_metadata_self''} then
        metadataAuditActivityLabel (Ev_Details event)
      else if cat = ''agent'' \<and> act = ''finalize_handle_self'' then ''finalized handle''
      else if cat = ''agent'' \<and> act = ''rotate_token'' then ''rotated auth token''
      else if cat = ''agent'' \<and> act \<in> {''revoke'', ''delete''} then ''deactivated profile''
      else if cat = ''agent_bind'' \<and> act = ''redeem'' then ''completed bind''
      else if cat = ''message'' \<and> act \<in> {''publish'', ''publish_replay'', ''forward''} then
        messagePublishActivityLabelLocked s (Ev_Details event)
      else if cat = ''message'' \<and> act \<in> {''lease'', ''ack''} then
        messageReceiveActivityLabelLocked s (Ev_Details event)
      else if cat = ''message'' \<and> act \<in> {''nack'', ''lease_expire''} then ''message delivery retry''
      else if cat = ''message'' \<and> act = ''publish_abort'' then ''aborted message publish''
      else plainActivityLabel event)"

section \<open>The agents an event is about\<close>

definition activityTargetsFromAuditEventLocked :: "memory_store \<Rightarrow> audit_event \<Rightarrow> string list" where
  "activityTargetsFromAuditEventLocked s event =
     (let d = auditEventDetailString (Ev_Details event);
          cat = Ev_Category event; act = Ev_Action event;
          candidates =
            (if cat = ''agent'' then [Ev_SubjectID event, d ''agent_uuid'']
             else if cat = ''agent_bind'' then [d ''agent_uuid'']
             else if cat = ''message'' then
               (if act \<in> {''publish'', ''publish_replay'', ''forward'', ''publish_abort''} then
                  [d ''from_agent_uuid'']
                else if act \<in> {''lease'', ''ack'', ''nack'', ''lease_expire''} then
                  [d ''to_agent_uuid'']
                else [d ''from_agent_uuid'', d ''to_agent_uuid''])
             else if cat = ''trust_agent'' then [d ''agent_uuid'', d ''peer_agent_uuid'']
             else [d ''agent_uuid'', d ''from_agent_uuid'', d ''to_agent_uuid''])
      in sort (remdups (filter (\<lambda>c. c \<noteq> [] \<and> fmlookup (agents s) c \<noteq> None)
           (map TrimSpace candidates))))"

section \<open>Writing an event\<close>

definition system_activity_entry :: "audit_event \<Rightarrow> string \<Rightarrow> gmap" where
  "system_activity_entry event activity =
     gmap_of
       [(''activity'', GStr (TrimSpace activity)),
        (''source'', GStr ''system''),
        (''at'', GStr (FormatRFC3339 (Ev_CreatedAt event))),
        (''event_id'', GStr (Ev_EventID event)),
        (''category'', GStr (Ev_Category event)),
        (''action'', GStr (Ev_Action event)),
        (''subject_id'', GStr (Ev_SubjectID event))]"

definition log_system_activity :: "gmap \<Rightarrow> gmap \<Rightarrow> gmap" where
  "log_system_activity entry metadata =
     (let systemLog = parseActivityEntries (gget metadata AgentMetadataKeySystemActivityLog);
          systemLog = dedupeAndTrimActivityEntries (systemLog @ [entry]) maxAgentActivityEntries
      in if systemLog = [] then fmdrop AgentMetadataKeySystemActivityLog metadata
         else fmupd AgentMetadataKeySystemActivityLog (GMaps systemLog) metadata)"

definition appendSystemActivityToAgentLocked ::
  "string \<Rightarrow> audit_event \<Rightarrow> string \<Rightarrow> memory_store \<Rightarrow> memory_store" where
  "appendSystemActivityToAgentLocked agentUUID event activity s =
     (case fmlookup (agents s) agentUUID of
        None \<Rightarrow> s
      | Some agent \<Rightarrow>
          let metadata =
            log_system_activity (system_activity_entry event activity) (Agent_Metadata agent) in
          s\<lparr>agents := fmupd agentUUID (agent\<lparr>Agent_Metadata := metadata\<rparr>) (agents s)\<rparr>)"

definition appendSystemActivityFromAuditLocked :: "audit_event \<Rightarrow> memory_store \<Rightarrow> memory_store" where
  "appendSystemActivityFromAuditLocked event s =
     (let targets = activityTargetsFromAuditEventLocked s event in
      if targets = [] then s
      else
        let activity = auditActivityLabelLocked s event in
        if TrimSpace activity = [] then s
        else fold (\<lambda>agentUUID. appendSystemActivityToAgentLocked agentUUID event activity) targets s)"

definition audit_log :: "memory_store \<Rightarrow> string \<Rightarrow> audit_event list" where
  "audit_log s orgID = (case fmlookup (auditByOrg s) orgID of None \<Rightarrow> [] | Some evs \<Rightarrow> evs)"

definition make_audit_event ::
  "string \<Rightarrow> string \<Rightarrow> string \<Rightarrow> string \<Rightarrow> string \<Rightarrow> gmap \<Rightarrow> time \<Rightarrow> nat \<Rightarrow> audit_event" where
  "make_audit_event orgID actorHumanID category action subjectID details now n =
     \<lparr>Ev_EventID = show_int now @ ''-'' @ show_nat (n + 1), Ev_OrgID = orgID,
      Ev_ActorHuman = actorHumanID, Ev_Category = category, Ev_Action = action,
      Ev_SubjectID = subjectID, Ev_Details = details, Ev_CreatedAt = now\<rparr>"

definition appendAuditLocked ::
  "string \<Rightarrow> string \<Rightarrow> string \<Rightarrow> string \<Rightarrow> string \<Rightarrow> gmap \<Rightarrow> time \<Rightarrow> memory_store \<Rightarrow> memory_store" where
  "appendAuditLocked orgID actorHumanID category action subjectID details now s =
     (let events = audit_log s orgID;
          event = make_audit_event orgID actorHumanID category action subjectID details now
                    (length events);
          events = keep_last maxAuditEvents (events @ [event]);
          s = s\<lparr>auditByOrg := fmupd orgID events (auditByOrg s)\<rparr>
      in appendSystemActivityFromAuditLocked event s)"

section \<open>What writing an event leaves alone\<close>

text \<open>An agent without its metadata; the audit trail never changes anything else of it.\<close>

definition agent_core :: "agent \<Rightarrow> agent" where
  "agent_core a = a\<lparr>Agent_Metadata := fmempty\<rparr>"

definition agent_cores :: "memory_store \<Rightarrow> agent gomap" where
  "agent_cores s = fmmap agent_core (agents s)"

lemma agent_core_sel [simp]:
  "Agent_AgentUUID (agent_core a) = Agent_AgentUUID a"
  "Agent_AgentID (agent_core a) = Agent_AgentID a"
  "Agent_Handle (agent_core a) = Agent_Handle a"
  "Agent_HandleFinalizedAt (agent_core a) = Agent_HandleFinalizedAt a"
  "Agent_OrgID (agent_core a) = Agent_OrgID a"
  "Agent_OwnerHumanID (agent_core a) = Agent_OwnerHumanID a"
  "Agent_HostAgentUUID (agent_core a) = Agent_HostAgentUUID a"
  "Agent_TokenHash (agent_core a) = Agent_TokenHash a"
  "Agent_Status (agent_core a) = Agent_Status a"
  "Agent_CreatedBy (agent_core a) = Agent_CreatedBy a"
  "Agent_CreatedAt (agent_core a) = Agent_CreatedAt a"
  "Agent_RevokedAt (agent_core a) = Agent_RevokedAt a"
  by (simp_all add: agent_core_def)

lemma agent_core_metadata [simp]: "agent_core (a\<lparr>Agent_Metadata := m\<rparr>) = agent_core a"
  by (simp add: agent_core_def)

lemma fmupd_same: "fmlookup m k = Some v \<Longrightarrow> fmupd k v m = m"
  by (intro fmap_ext) auto

lemma append_activity_to_agent_frame:
  "agent_cores (appendSystemActivityToAgentLocked u ev act s) = agent_cores s"
  "\<exists>m. appendSystemActivityToAgentLocked u ev act s = s\<lparr>agents := m\<rparr>"
proof -
  show "agent_cores (appendSystemActivityToAgentLocked u ev act s) = agent_cores s"
    by (auto simp: appendSystemActivityToAgentLocked_def agent_cores_def fmmap_fmupd Let_def
        intro!: fmupd_same split: option.splits)
  show "\<exists>m. appendSystemActivityToAgentLocked u ev act s = s\<lparr>agents := m\<rparr>"
  proof (cases "fmlookup (agents s) u")
    case None
    then have "appendSystemActivityToAgentLocked u ev act s = s\<lparr>agents := agents s\<rparr>"
      by (simp add: appendSystemActivityToAgentLocked_def)
    then show ?thesis ..
  next
    case (Some a)
    then show ?thesis by (auto simp: appendSystemActivityToAgentLocked_def Let_def)
  qed
qed

lemma append_activities_frame:
  "agent_cores (fold (\<lambda>u. appendSystemActivityToAgentLocked u ev act) us s) = agent_cores s"
  "\<exists>m. fold (\<lambda>u. appendSystemActivityToAgentLocked u ev act) us s = s\<lparr>agents := m\<rparr>"
proof (induction us arbitrary: s)
  case Nil
  { case 1 show ?case by simp }
  { case 2 show ?case by (rule exI [of _ "agents s"]) simp }
next
  case (Cons u us)
  { case 1 show ?case using Cons append_activity_to_agent_frame(1) by simp }
  { case 2
    obtain m where "appendSystemActivityToAgentLocked u ev act s = s\<lparr>agents := m\<rparr>"
      using append_activity_to_agent_frame(2) by blast
    then show ?case using Cons(2) [of "s\<lparr>agents := m\<rparr>"] by auto }
qed

lemma append_system_activity_frame:
  "agent_cores (appendSystemActivityFromAuditLocked ev s) = agent_cores s"
  "\<exists>m. appendSystemActivityFromAuditLocked ev s = s\<lparr>agents := m\<rparr>"
proof -
  show "agent_cores (appendSystemActivityFromAuditLocked ev s) = agent_cores s"
    by (simp add: appendSystemActivityFromAuditLocked_def Let_def append_activities_frame(1))
  have "\<exists>m. s = s\<lparr>agents := m\<rparr>" by (rule exI [of _ "agents s"]) simp
  then show "\<exists>m. appendSystemActivityFromAuditLocked ev s = s\<lparr>agents := m\<rparr>"
    using append_activities_frame(2)
    by (simp add: appendSystemActivityFromAuditLocked_def Let_def)
qed

text \<open>
  Writing an event changes the audit log and agents' metadata, nothing else: the result is
  the old store with another log and agents that have the same cores.
\<close>

lemma append_audit_shape:
  "\<exists>m. appendAuditLocked org actor cat act subj details now s =
    s\<lparr>agents := m,
      auditByOrg := fmupd org (keep_last maxAuditEvents (audit_log s org @
        [make_audit_event org actor cat act subj details now (length (audit_log s org))]))
        (auditByOrg s)\<rparr> \<and> fmmap agent_core m = agent_cores s"
proof -
  let ?s = "s\<lparr>auditByOrg := fmupd org (keep_last maxAuditEvents (audit_log s org @
        [make_audit_event org actor cat act subj details now (length (audit_log s org))]))
        (auditByOrg s)\<rparr>"
  let ?ev = "make_audit_event org actor cat act subj details now (length (audit_log s org))"
  obtain m where m: "appendSystemActivityFromAuditLocked ?ev ?s = ?s\<lparr>agents := m\<rparr>"
    using append_system_activity_frame(2) by blast
  moreover have "agent_cores (appendSystemActivityFromAuditLocked ?ev ?s) = agent_cores ?s"
    by (rule append_system_activity_frame(1))
  ultimately show ?thesis
    by (intro exI [of _ m]) (simp add: appendAuditLocked_def Let_def agent_cores_def)
qed

lemma append_audit_agent_cores [simp, audit_frame]:
  "agent_cores (appendAuditLocked org actor cat act subj details now s) = agent_cores s"
  using append_audit_shape [of org actor cat act subj details now s]
  by (auto simp: agent_cores_def)

lemma append_audit_auditByOrg:
  "auditByOrg (appendAuditLocked org actor cat act subj details now s) =
     fmupd org (keep_last maxAuditEvents (audit_log s org @
        [make_audit_event org actor cat act subj details now (length (audit_log s org))]))
        (auditByOrg s)"
  using append_audit_shape [of org actor cat act subj details now s] by auto

lemma append_audit_fields [simp, audit_frame]:
  fixes org actor cat act subj details now s
  defines "t \<equiv> appendAuditLocked org actor cat act subj details now s"
  shows "orgs t = orgs s" "orgByHandle t = orgByHandle s"
    "personalOrgByHuman t = personalOrgByHuman s" "archivedOrgs t = archivedOrgs s"
    "humans t = humans s" "humanByAuthKey t = humanByAuthKey s"
    "humanByHandle t = humanByHandle s" "archivedHumans t = archivedHumans s"
    "humanPresence t = humanPresence s" "memberships t = memberships s"
    "membershipByOrgUser t = membershipByOrgUser s" "invites t = invites s"
    "inviteBySecretHash t = inviteBySecretHash s" "orgAccessKeys t = orgAccessKeys s"
    "orgAccessKeyByHash t = orgAccessKeyByHash s" "archivedAgents t = archivedAgents s"
    "agentByURI t = agentByURI s" "agentTokenIdx t = agentTokenIdx s"
    "orgOwnedAgentNameIdx t = orgOwnedAgentNameIdx s"
    "humanOwnedAgentNameIdx t = humanOwnedAgentNameIdx s" "queues t = queues s"
    "messageRecords t = messageRecords s" "messageByClientMsg t = messageByClientMsg s"
    "messageDeliveries t = messageDeliveries s" "queueMetrics t = queueMetrics s"
    "binds t = binds s" "bindByHash t = bindByHash s" "orgTrusts t = orgTrusts s"
    "orgTrustByPair t = orgTrustByPair s" "agentTrusts t = agentTrusts s"
    "agentTrustByPair t = agentTrustByPair s" "peerInstances t = peerInstances s"
    "peerByCanonicalBase t = peerByCanonicalBase s" "remoteOrgTrusts t = remoteOrgTrusts s"
    "remoteOrgTrustByKey t = remoteOrgTrustByKey s" "remoteAgentTrusts t = remoteAgentTrusts s"
    "remoteAgentTrustByKey t = remoteAgentTrustByKey s" "peerOutbounds t = peerOutbounds s"
    "peerOutboundByPeer t = peerOutboundByPeer s" "agentPresence t = agentPresence s"
    "statsByOrg t = statsByOrg s" "statsDaily t = statsDaily s"
  using append_audit_shape [of org actor cat act subj details now s] unfolding t_def by auto

end
