(* ===== verification/Stats.thy ===== *)
theory Stats
  imports AuditLog
begin

text \<open>
  The per-organisation message counters of \<^verbatim>\<open>internal/store/memory.go\<close>: a running total
  (\<^verbatim>\<open>statsByOrg\<close>) and a row per day (\<^verbatim>\<open>statsDaily\<close>), bumped together.
\<close>

section \<open>The code\<close>

definition empty_org_stats :: "string \<Rightarrow> org_stats" where
  "empty_org_stats orgID =
     \<lparr>Stats_OrgID = orgID, Stats_QueuedMessages = 0, Stats_DroppedMessages = 0,
      Stats_AckedMessages = 0, Stats_ExpiredMessages = 0, Stats_RedeliveredMessages = 0,
      Stats_DuplicateMessages = 0\<rparr>"

definition empty_day :: "string \<Rightarrow> org_daily_stats" where
  "empty_day date =
     \<lparr>Day_Date = date, Day_QueuedMessages = 0, Day_DroppedMessages = 0, Day_AckedMessages = 0,
      Day_ExpiredMessages = 0, Day_RedeliveredMessages = 0, Day_DuplicateMessages = 0\<rparr>"

definition ensureOrgStatsLocked :: "string \<Rightarrow> memory_store \<Rightarrow> org_stats \<times> memory_store" where
  "ensureOrgStatsLocked orgID s =
     (case fmlookup (statsByOrg s) orgID of
        Some stats \<Rightarrow> (stats, s)
      | None \<Rightarrow>
          let stats = empty_org_stats orgID in
          (stats, s\<lparr>statsByOrg := fmupd orgID stats (statsByOrg s)\<rparr>))"

definition incrementDailyLocked ::
  "string \<Rightarrow> time \<Rightarrow> int \<Rightarrow> int \<Rightarrow> int \<Rightarrow> int \<Rightarrow> int \<Rightarrow> int \<Rightarrow> memory_store \<Rightarrow> memory_store" where
  "incrementDailyLocked orgID now queuedDelta droppedDelta ackedDelta expiredDelta
     redeliveredDelta duplicateDelta s =
     (let dayKey = FormatDate now;
          perOrg = (case fmlookup (statsDaily s) orgID of None \<Rightarrow> fmempty | Some m \<Rightarrow> m);
          day = (case fmlookup perOrg dayKey of None \<Rightarrow> empty_day [] | Some d \<Rightarrow> d);
          day = day\<lparr>Day_Date := dayKey,
            Day_QueuedMessages := Day_QueuedMessages day + queuedDelta,
            Day_DroppedMessages := Day_DroppedMessages day + droppedDelta,
            Day_AckedMessages := Day_AckedMessages day + ackedDelta,
            Day_ExpiredMessages := Day_ExpiredMessages day + expiredDelta,
            Day_RedeliveredMessages := Day_RedeliveredMessages day + redeliveredDelta,
            Day_DuplicateMessages := Day_DuplicateMessages day + duplicateDelta\<rparr>
      in s\<lparr>statsDaily := fmupd orgID (fmupd dayKey day perOrg) (statsDaily s)\<rparr>)"

definition incrementQueuedLocked :: "string \<Rightarrow> time \<Rightarrow> memory_store \<Rightarrow> memory_store" where
  "incrementQueuedLocked orgID now s =
     (let (stats, s) = ensureOrgStatsLocked orgID s;
          stats = stats\<lparr>Stats_QueuedMessages := Stats_QueuedMessages stats + 1\<rparr>;
          s = s\<lparr>statsByOrg := fmupd orgID stats (statsByOrg s)\<rparr>
      in incrementDailyLocked orgID now 1 0 0 0 0 0 s)"

definition incrementDroppedLocked :: "string \<Rightarrow> time \<Rightarrow> memory_store \<Rightarrow> memory_store" where
  "incrementDroppedLocked orgID now s =
     (let (stats, s) = ensureOrgStatsLocked orgID s;
          stats = stats\<lparr>Stats_DroppedMessages := Stats_DroppedMessages stats + 1\<rparr>;
          s = s\<lparr>statsByOrg := fmupd orgID stats (statsByOrg s)\<rparr>
      in incrementDailyLocked orgID now 0 1 0 0 0 0 s)"

definition incrementAckedLocked :: "string \<Rightarrow> time \<Rightarrow> memory_store \<Rightarrow> memory_store" where
  "incrementAckedLocked orgID now s =
     (let (stats, s) = ensureOrgStatsLocked orgID s;
          stats = stats\<lparr>Stats_AckedMessages := Stats_AckedMessages stats + 1\<rparr>;
          s = s\<lparr>statsByOrg := fmupd orgID stats (statsByOrg s)\<rparr>
      in incrementDailyLocked orgID now 0 0 1 0 0 0 s)"

definition incrementExpiredLocked :: "string \<Rightarrow> time \<Rightarrow> memory_store \<Rightarrow> memory_store" where
  "incrementExpiredLocked orgID now s =
     (let (stats, s) = ensureOrgStatsLocked orgID s;
          stats = stats\<lparr>Stats_ExpiredMessages := Stats_ExpiredMessages stats + 1\<rparr>;
          s = s\<lparr>statsByOrg := fmupd orgID stats (statsByOrg s)\<rparr>
      in incrementDailyLocked orgID now 0 0 0 1 0 0 s)"

definition incrementRedeliveredLocked :: "string \<Rightarrow> time \<Rightarrow> memory_store \<Rightarrow> memory_store" where
  "incrementRedeliveredLocked orgID now s =
     (let (stats, s) = ensureOrgStatsLocked orgID s;
          stats = stats\<lparr>Stats_RedeliveredMessages := Stats_RedeliveredMessages stats + 1\<rparr>;
          s = s\<lparr>statsByOrg := fmupd orgID stats (statsByOrg s)\<rparr>
      in incrementDailyLocked orgID now 0 0 0 0 1 0 s)"

definition incrementDuplicateLocked :: "string \<Rightarrow> time \<Rightarrow> memory_store \<Rightarrow> memory_store" where
  "incrementDuplicateLocked orgID now s =
     (let (stats, s) = ensureOrgStatsLocked orgID s;
          stats = stats\<lparr>Stats_DuplicateMessages := Stats_DuplicateMessages stats + 1\<rparr>;
          s = s\<lparr>statsByOrg := fmupd orgID stats (statsByOrg s)\<rparr>
      in incrementDailyLocked orgID now 0 0 0 0 0 1 s)"

definition last7DaysLocked :: "string \<Rightarrow> time \<Rightarrow> memory_store \<Rightarrow> org_daily_stats list" where
  "last7DaysLocked orgID now s =
     (let perOrg = (case fmlookup (statsDaily s) orgID of None \<Rightarrow> fmempty | Some m \<Rightarrow> m);
          start = now - 6 * Day
      in map (\<lambda>i. let dayKey = FormatDate (start + int i * Day) in
                case fmlookup perOrg dayKey of Some row \<Rightarrow> row | None \<Rightarrow> empty_day dayKey)
           [0..<7])"

definition GetOrgStats ::
  "string \<Rightarrow> string \<Rightarrow> bool \<Rightarrow> time \<Rightarrow> memory_store \<Rightarrow> store_error + (org_stats \<times> org_daily_stats list)" where
  "GetOrgStats orgID requesterHumanID isSuperAdmin timeNow s =
     (if fmlookup (orgs s) orgID = None then Inl ErrOrgNotFound
      else if \<not> isSuperAdmin \<and> membershipRoleLocked s orgID requesterHumanID = [] then
        Inl ErrUnauthorizedRole
      else
        let stats = (case fmlookup (statsByOrg s) orgID of
                       Some stats \<Rightarrow> stats | None \<Rightarrow> empty_org_stats [])
        in Inr (stats, last7DaysLocked orgID timeNow s))"

section \<open>One description of the six counters\<close>

datatype counter = Queued | Dropped | Acked | Expired | Redelivered | Duplicate

fun total_of :: "counter \<Rightarrow> org_stats \<Rightarrow> int" where
  "total_of Queued st = Stats_QueuedMessages st"
| "total_of Dropped st = Stats_DroppedMessages st"
| "total_of Acked st = Stats_AckedMessages st"
| "total_of Expired st = Stats_ExpiredMessages st"
| "total_of Redelivered st = Stats_RedeliveredMessages st"
| "total_of Duplicate st = Stats_DuplicateMessages st"

fun daily_of :: "counter \<Rightarrow> org_daily_stats \<Rightarrow> int" where
  "daily_of Queued d = Day_QueuedMessages d"
| "daily_of Dropped d = Day_DroppedMessages d"
| "daily_of Acked d = Day_AckedMessages d"
| "daily_of Expired d = Day_ExpiredMessages d"
| "daily_of Redelivered d = Day_RedeliveredMessages d"
| "daily_of Duplicate d = Day_DuplicateMessages d"

fun increment :: "counter \<Rightarrow> string \<Rightarrow> time \<Rightarrow> memory_store \<Rightarrow> memory_store" where
  "increment Queued = incrementQueuedLocked"
| "increment Dropped = incrementDroppedLocked"
| "increment Acked = incrementAckedLocked"
| "increment Expired = incrementExpiredLocked"
| "increment Redelivered = incrementRedeliveredLocked"
| "increment Duplicate = incrementDuplicateLocked"

lemmas increment_defs =
  incrementQueuedLocked_def incrementDroppedLocked_def incrementAckedLocked_def
  incrementExpiredLocked_def incrementRedeliveredLocked_def incrementDuplicateLocked_def

definition org_total :: "counter \<Rightarrow> memory_store \<Rightarrow> string \<Rightarrow> int" where
  "org_total c s orgID =
     (case fmlookup (statsByOrg s) orgID of None \<Rightarrow> 0 | Some st \<Rightarrow> total_of c st)"

definition org_days :: "memory_store \<Rightarrow> string \<Rightarrow> org_daily_stats gomap" where
  "org_days s orgID = (case fmlookup (statsDaily s) orgID of None \<Rightarrow> fmempty | Some m \<Rightarrow> m)"

definition day_count :: "counter \<Rightarrow> memory_store \<Rightarrow> string \<Rightarrow> string \<Rightarrow> int" where
  "day_count c s orgID dayKey =
     (case fmlookup (org_days s orgID) dayKey of None \<Rightarrow> 0 | Some d \<Rightarrow> daily_of c d)"

lemma increment_total:
  "org_total c (increment d orgID now s) o' = org_total c s o' + (if c = d \<and> o' = orgID then 1 else 0)"
  by (cases c; cases d)
    (simp_all add: org_total_def increment_defs ensureOrgStatsLocked_def incrementDailyLocked_def
      empty_org_stats_def Let_def split: option.splits)

lemma increment_day:
  "day_count c (increment d orgID now s) o' k =
     day_count c s o' k + (if c = d \<and> o' = orgID \<and> k = FormatDate now then 1 else 0)"
  by (cases c; cases d)
    (simp_all add: day_count_def org_days_def increment_defs ensureOrgStatsLocked_def
      incrementDailyLocked_def empty_day_def Let_def split: option.splits)

end
