(* ===== verification/Queue.thy ===== *)
theory Queue
  imports Stats
begin

text \<open>
  The message queues of \<^verbatim>\<open>internal/store/memory.go\<close> (\<^verbatim>\<open>Enqueue\<close>, \<^verbatim>\<open>Dequeue\<close>) and the
  snapshot of queue metrics the store maintains beside them: recomputed from scratch where
  whole queues are purged, adjusted incrementally where one message or delivery comes or
  goes.
\<close>

section \<open>The code\<close>

text \<open>The loop that looks for the earliest of some times.\<close>

definition oldest_step :: "time \<Rightarrow> time option \<Rightarrow> time option" where
  "oldest_step t oldest =
     (case oldest of None \<Rightarrow> Some t | Some old \<Rightarrow> if t < old then Some t else Some old)"

definition oldest_of :: "time list \<Rightarrow> time option" where
  "oldest_of ts = fold oldest_step ts None"

definition all_queued :: "memory_store \<Rightarrow> message list" where
  "all_queued s = concat (sorted_values (queues s))"

definition computeOldestQueuedAtLocked :: "memory_store \<Rightarrow> time option" where
  "computeOldestQueuedAtLocked s = oldest_of (map Msg_CreatedAt (all_queued s))"

definition computeOldestLeaseExpiryAtLocked :: "memory_store \<Rightarrow> time option" where
  "computeOldestLeaseExpiryAtLocked s =
     oldest_of (map Del_LeaseExpiresAt (sorted_values (messageDeliveries s)))"

definition computeQueueMetricsLocked :: "memory_store \<Rightarrow> queue_metrics" where
  "computeQueueMetricsLocked s =
     \<lparr>QM_AvailableMessages = sum_list (map (\<lambda>q. int (length q)) (sorted_values (queues s))),
      QM_LeasedMessages = int (fmsize (messageDeliveries s)),
      QM_OldestQueuedAt = computeOldestQueuedAtLocked s,
      QM_OldestLeaseExpiryAt = computeOldestLeaseExpiryAtLocked s\<rparr>"

definition recomputeQueueMetricsLocked :: "memory_store \<Rightarrow> memory_store" where
  "recomputeQueueMetricsLocked s = s\<lparr>queueMetrics := computeQueueMetricsLocked s\<rparr>"

definition metricTimeEqual :: "time option \<Rightarrow> time \<Rightarrow> bool" where
  "metricTimeEqual value target \<longleftrightarrow> value = Some target"

definition noteQueuedMessageAddedLocked :: "message \<Rightarrow> memory_store \<Rightarrow> memory_store" where
  "noteQueuedMessageAddedLocked message s =
     (let m = queueMetrics s in
      s\<lparr>queueMetrics := m\<lparr>QM_AvailableMessages := QM_AvailableMessages m + 1,
          QM_OldestQueuedAt := oldest_step (Msg_CreatedAt message) (QM_OldestQueuedAt m)\<rparr>\<rparr>)"

definition noteQueuedMessageRemovedLocked :: "message \<Rightarrow> memory_store \<Rightarrow> memory_store" where
  "noteQueuedMessageRemovedLocked message s =
     (let m = queueMetrics s;
          recomputeOldest = metricTimeEqual (QM_OldestQueuedAt m) (Msg_CreatedAt message);
          m' = (if QM_AvailableMessages m > 0
                then m\<lparr>QM_AvailableMessages := QM_AvailableMessages m - 1\<rparr> else m)
      in s\<lparr>queueMetrics :=
             (if recomputeOldest then m'\<lparr>QM_OldestQueuedAt := computeOldestQueuedAtLocked s\<rparr>
              else m')\<rparr>)"

definition noteDeliveryAddedLocked :: "message_delivery \<Rightarrow> memory_store \<Rightarrow> memory_store" where
  "noteDeliveryAddedLocked delivery s =
     (let m = queueMetrics s in
      s\<lparr>queueMetrics := m\<lparr>QM_LeasedMessages := QM_LeasedMessages m + 1,
          QM_OldestLeaseExpiryAt :=
            oldest_step (Del_LeaseExpiresAt delivery) (QM_OldestLeaseExpiryAt m)\<rparr>\<rparr>)"

definition noteDeliveryRemovedLocked :: "message_delivery \<Rightarrow> memory_store \<Rightarrow> memory_store" where
  "noteDeliveryRemovedLocked delivery s =
     (let m = queueMetrics s;
          recomputeOldest = metricTimeEqual (QM_OldestLeaseExpiryAt m) (Del_LeaseExpiresAt delivery);
          m' = (if QM_LeasedMessages m > 0
                then m\<lparr>QM_LeasedMessages := QM_LeasedMessages m - 1\<rparr> else m)
      in s\<lparr>queueMetrics :=
             (if recomputeOldest
              then m'\<lparr>QM_OldestLeaseExpiryAt := computeOldestLeaseExpiryAtLocked s\<rparr>
              else m')\<rparr>)"

definition GetQueueMetrics :: "memory_store \<Rightarrow> queue_metrics" where
  "GetQueueMetrics s = queueMetrics s"

text \<open>A queue that is absent reads as the nil slice.\<close>

definition queue_of :: "memory_store \<Rightarrow> string \<Rightarrow> message list" where
  "queue_of s u = (case fmlookup (queues s) u of None \<Rightarrow> [] | Some q \<Rightarrow> q)"

definition Enqueue :: "message \<Rightarrow> memory_store \<Rightarrow> (store_error + unit) \<times> memory_store" where
  "Enqueue message s =
     (if Msg_ToAgentUUID message = [] then (Inl ErrAgentNotFound, s)
      else case fmlookup (agents s) (Msg_ToAgentUUID message) of
        None \<Rightarrow> (Inl ErrAgentNotFound, s)
      | Some agent \<Rightarrow>
          if Agent_Status agent = StatusRevoked then (Inl ErrAgentNotFound, s)
          else
            let message = message\<lparr>Msg_ToAgentID := Agent_AgentID agent\<rparr>;
                to = Msg_ToAgentUUID message;
                s = s\<lparr>queues := fmupd to (queue_of s to @ [message]) (queues s)\<rparr>
            in (Inr (), noteQueuedMessageAddedLocked message s))"

definition Dequeue :: "string \<Rightarrow> memory_store \<Rightarrow> message option \<times> memory_store" where
  "Dequeue agentUUID s =
     (case queue_of s agentUUID of
        [] \<Rightarrow> (None, s)
      | msg # rest \<Rightarrow>
          let s = s\<lparr>queues := fmupd agentUUID rest (queues s)\<rparr>
          in (Some msg, noteQueuedMessageRemovedLocked msg s))"

text \<open>
  The purge of queues that \<^verbatim>\<open>RevokeAgent\<close>, \<^verbatim>\<open>DeleteAgent\<close> and \<^verbatim>\<open>DeleteOrg\<close> share: the
  messages that satisfy \<open>p\<close> go, a queue emptied by it goes with them, an empty queue stays.
\<close>

definition purge_queues :: "(message \<Rightarrow> bool) \<Rightarrow> message list gomap \<Rightarrow> message list gomap" where
  "purge_queues p qs =
     fmmap (filter (\<lambda>m. \<not> p m))
       (fmdelete_if (\<lambda>_ q. q \<noteq> [] \<and> filter (\<lambda>m. \<not> p m) q = []) qs)"

definition purged_count :: "(message \<Rightarrow> bool) \<Rightarrow> message list gomap \<Rightarrow> nat" where
  "purged_count p qs = sum_list (map (\<lambda>q. length (filter p q)) (sorted_values qs))"

section \<open>The earliest of a set of times\<close>

lemma fold_oldest:
  "fold oldest_step ts (Some a) = Some (Min (insert a (set ts)))"
proof (induction ts arbitrary: a)
  case (Cons t ts)
  have "fold oldest_step (t # ts) (Some a) = fold oldest_step ts (Some (min t a))"
    by (auto simp: oldest_step_def min_def)
  also have "\<dots> = Some (Min (insert (min t a) (set ts)))" by (rule Cons.IH)
  also have "Min (insert (min t a) (set ts)) = Min (insert a (set (t # ts)))"
    by (cases "ts = []") (simp_all add: min.assoc min.commute min.left_commute)
  finally show ?case .
qed simp

definition oldest_in :: "time set \<Rightarrow> time option" where
  "oldest_in T = (if T = {} then None else Some (Min T))"

lemma oldest_of_in: "oldest_of ts = oldest_in (set ts)"
  by (cases ts) (simp_all add: oldest_of_def oldest_in_def oldest_step_def fold_oldest)

lemma oldest_in_insert:
  assumes "finite T"
  shows "oldest_in (insert t T) = oldest_step t (oldest_in T)"
proof (cases "T = {}")
  case True
  then show ?thesis by (simp add: oldest_in_def oldest_step_def)
next
  case False
  have "Min (insert t T) = min t (Min T)" by (rule Min_insert [OF assms False])
  with False show ?thesis unfolding oldest_in_def oldest_step_def
    by (auto simp del: Min_insert simp: min_def)
qed

lemma oldest_in_remove:
  assumes "finite T" and "insert t T' = T" and "oldest_in T \<noteq> Some t"
  shows "oldest_in T' = oldest_in T"
proof (cases "T' = {}")
  case True
  with assms show ?thesis by (auto simp: oldest_in_def)
next
  case False
  have "finite T'" using assms(1,2) by auto
  then have "oldest_in T = oldest_step t (oldest_in T')"
    using assms(2) oldest_in_insert by metis
  with assms(3) False show ?thesis
    by (auto simp: oldest_in_def oldest_step_def split: if_splits)
qed

section \<open>The metrics as a function of the queues\<close>

definition queued_times :: "memory_store \<Rightarrow> time set" where
  "queued_times s = (\<Union>q \<in> fmran' (queues s). Msg_CreatedAt ` set q)"

definition lease_times :: "memory_store \<Rightarrow> time set" where
  "lease_times s = Del_LeaseExpiresAt ` fmran' (messageDeliveries s)"

definition queued_total :: "message list gomap \<Rightarrow> int" where
  "queued_total qs = (\<Sum>k \<in> fmdom' qs. int (length (the (fmlookup qs k))))"

lemma set_sorted_values: "set (sorted_values m) = fmran' m"
  by (force simp: sorted_values_def sorted_list_of_fmap_def fmlookup_ran'_iff fmlookup_dom_iff
      image_iff)

lemma sum_sorted_values:
  "sum_list (map f (sorted_values m)) = (\<Sum>k \<in> fmdom' m. f (the (fmlookup m k)))"
proof -
  have "sum_list (map f (sorted_values m)) =
      sum_list (map (\<lambda>k. f (the (fmlookup m k))) (sorted_keys m))"
    by (simp add: sorted_values_def sorted_list_of_fmap_def sorted_keys_def comp_def)
  also have "\<dots> = (\<Sum>k \<in> fmdom' m. f (the (fmlookup m k)))"
    by (simp add: sum_list_distinct_conv_sum_set)
  finally show ?thesis .
qed

lemma finite_times [simp]: "finite (queued_times s)" "finite (lease_times s)"
  by (simp_all add: queued_times_def lease_times_def fmran'_alt_def)

lemma computeQueueMetrics_eq:
  "computeQueueMetricsLocked s =
     \<lparr>QM_AvailableMessages = queued_total (queues s),
      QM_LeasedMessages = int (fmsize (messageDeliveries s)),
      QM_OldestQueuedAt = oldest_in (queued_times s),
      QM_OldestLeaseExpiryAt = oldest_in (lease_times s)\<rparr>"
  by (simp add: computeQueueMetricsLocked_def computeOldestQueuedAtLocked_def
      computeOldestLeaseExpiryAtLocked_def oldest_of_in all_queued_def set_sorted_values
      sum_sorted_values queued_total_def queued_times_def lease_times_def image_UN)

lemma computeOldestQueued_eq: "computeOldestQueuedAtLocked s = oldest_in (queued_times s)"
  using computeQueueMetrics_eq [of s] by (simp add: computeQueueMetricsLocked_def)

lemma computeOldestLease_eq: "computeOldestLeaseExpiryAtLocked s = oldest_in (lease_times s)"
  using computeQueueMetrics_eq [of s] by (simp add: computeQueueMetricsLocked_def)

lemma sum_fmupd:
  fixes f :: "'v \<Rightarrow> int"
  shows "(\<Sum>k \<in> fmdom' (fmupd u v m). f (the (fmlookup (fmupd u v m) k))) =
    (\<Sum>k \<in> fmdom' m. f (the (fmlookup m k))) + f v -
    (case fmlookup m u of None \<Rightarrow> 0 | Some w \<Rightarrow> f w)"
proof (cases "fmlookup m u")
  case None
  then have "u \<notin> fmdom' m" by (simp add: fmlookup_dom'_iff)
  moreover have "(\<Sum>k \<in> fmdom' m. f (the (if u = k then Some v else fmlookup m k))) =
      (\<Sum>k \<in> fmdom' m. f (the (fmlookup m k)))"
    using \<open>u \<notin> fmdom' m\<close> by (intro sum.cong) auto
  moreover have "fmdom' (fmupd u v m) = insert u (fmdom' m)" by simp
  moreover have "finite (fmdom' m)" by simp
  ultimately show ?thesis using None by (simp only: sum.insert fmupd_lookup) simp
next
  case (Some w)
  then have "u \<in> fmdom' m" by (simp add: fmlookup_dom'_iff)
  then have "(\<Sum>k \<in> fmdom' m. f (the (fmlookup m k))) =
      f w + (\<Sum>k \<in> fmdom' m - {u}. f (the (fmlookup m k)))"
    using Some by (simp add: sum.remove)
  moreover have "(\<Sum>k \<in> fmdom' m - {u}. f (the (fmlookup (fmupd u v m) k))) =
      (\<Sum>k \<in> fmdom' m - {u}. f (the (fmlookup m k)))"
    by (rule sum.cong) auto
  moreover have "(\<Sum>k \<in> fmdom' (fmupd u v m). f (the (fmlookup (fmupd u v m) k))) =
      f v + (\<Sum>k \<in> fmdom' m - {u}. f (the (fmlookup (fmupd u v m) k)))"
    using \<open>u \<in> fmdom' m\<close>
    by (subst sum.remove [of _ u]) (simp_all add: insert_absorb)
  ultimately show ?thesis using Some by simp
qed

lemma queued_total_upd:
  "queued_total (fmupd u q (queues s)) =
     queued_total (queues s) + int (length q) - int (length (queue_of s u))"
  using sum_fmupd [of "\<lambda>q. int (length q)" u q "queues s"]
  by (simp add: queued_total_def queue_of_def split: option.splits)

lemma queued_times_iff:
  "t \<in> queued_times s \<longleftrightarrow>
    (\<exists>k q. fmlookup (queues s) k = Some q \<and> t \<in> Msg_CreatedAt ` set q)"
  unfolding queued_times_def UN_iff Bex_def fmlookup_ran'_iff by blast

definition other_times :: "memory_store \<Rightarrow> string \<Rightarrow> time set" where
  "other_times s u = {t. \<exists>k q. k \<noteq> u \<and> fmlookup (queues s) k = Some q \<and>
     t \<in> Msg_CreatedAt ` set q}"

lemma ex_fmupd:
  "(\<exists>k w. fmlookup (fmupd u v m) k = Some w \<and> P w) \<longleftrightarrow>
    P v \<or> (\<exists>k w. k \<noteq> u \<and> fmlookup m k = Some w \<and> P w)" (is "?L \<longleftrightarrow> ?R")
proof
  assume ?L
  then obtain k w where "fmlookup (fmupd u v m) k = Some w" and "P w" by blast
  then show ?R by (cases "k = u") auto
next
  assume ?R
  then show ?L
  proof
    assume "P v"
    then show ?L by (intro exI [of _ u] exI [of _ v]) simp
  next
    assume "\<exists>k w. k \<noteq> u \<and> fmlookup m k = Some w \<and> P w"
    then obtain k w where "k \<noteq> u" "fmlookup m k = Some w" "P w" by blast
    then show ?L by (intro exI [of _ k] exI [of _ w]) simp
  qed
qed

lemma queued_times_upd:
  "queued_times (s\<lparr>queues := fmupd u q (queues s)\<rparr>) = Msg_CreatedAt ` set q \<union> other_times s u"
  by (rule set_eqI)
    (simp add: queued_times_iff other_times_def ex_fmupd del: fmupd_lookup)

lemma queued_times_split:
  "queued_times s = Msg_CreatedAt ` set (queue_of s u) \<union> other_times s u"
proof (cases "fmlookup (queues s) u")
  case None
  then have "k \<noteq> u" if "fmlookup (queues s) k = Some q" for k q using that by auto
  then have "queued_times s = other_times s u"
    unfolding set_eq_iff queued_times_iff other_times_def mem_Collect_eq by blast
  with None show ?thesis by (simp add: queue_of_def)
next
  case (Some q)
  then have "fmupd u (queue_of s u) (queues s) = queues s"
    by (simp add: queue_of_def fmupd_same)
  with queued_times_upd [where s = s and u = u and q = "queue_of s u"] show ?thesis by simp
qed

section \<open>The incremental metrics are exact\<close>

text \<open>The snapshot equals what a recomputation would give.\<close>

definition metrics_exact :: "memory_store \<Rightarrow> bool" where
  "metrics_exact s \<longleftrightarrow> queueMetrics s = computeQueueMetricsLocked s"

lemma queued_total_of:
  "queued_total (queues s) = (\<Sum>k \<in> {k. queue_of s k \<noteq> []}. int (length (queue_of s k)))"
proof -
  have "queued_total (queues s) = (\<Sum>k \<in> fmdom' (queues s). int (length (queue_of s k)))"
    unfolding queued_total_def
    by (rule sum.cong) (auto simp: queue_of_def fmlookup_dom'_iff)
  also have "\<dots> = (\<Sum>k \<in> {k. queue_of s k \<noteq> []}. int (length (queue_of s k)))"
    by (rule sum.mono_neutral_right)
      (auto simp: queue_of_def fmlookup_dom'_iff split: option.splits)
  finally show ?thesis .
qed

lemma queued_times_of: "queued_times s = (\<Union>k. Msg_CreatedAt ` set (queue_of s k))"
proof (rule set_eqI)
  fix t
  have "(\<exists>q. fmlookup (queues s) k = Some q \<and> t \<in> Msg_CreatedAt ` set q) \<longleftrightarrow>
      t \<in> Msg_CreatedAt ` set (queue_of s k)" for k
    by (cases "fmlookup (queues s) k") (simp_all add: queue_of_def)
  then show "t \<in> queued_times s \<longleftrightarrow> t \<in> (\<Union>k. Msg_CreatedAt ` set (queue_of s k))"
    unfolding queued_times_iff by blast
qed

lemma metrics_exact_part:
  "queue_of s' = queue_of s \<Longrightarrow> messageDeliveries s' = messageDeliveries s \<Longrightarrow>
    queueMetrics s' = queueMetrics s \<Longrightarrow> metrics_exact s' \<longleftrightarrow> metrics_exact s"
  by (simp add: metrics_exact_def computeQueueMetrics_eq queued_total_of queued_times_of lease_times_def)

lemma metrics_exact_cong:
  "queues s' = queues s \<Longrightarrow> messageDeliveries s' = messageDeliveries s \<Longrightarrow>
    queueMetrics s' = queueMetrics s \<Longrightarrow> metrics_exact s' \<longleftrightarrow> metrics_exact s"
  by (rule metrics_exact_part) (simp_all add: queue_of_def fun_eq_iff)

lemma metrics_exact_recompute [wf_intros]: "metrics_exact (recomputeQueueMetricsLocked s)"
  by (simp add: metrics_exact_def recomputeQueueMetricsLocked_def computeQueueMetrics_eq
      queued_times_def lease_times_def)

lemma metrics_exact_audit [simp]:
  "metrics_exact (appendAuditLocked org actor cat act subj details now s) \<longleftrightarrow> metrics_exact s"
  by (rule metrics_exact_cong) simp_all

lemma note_queued_added_metrics [wf_intros]:
  assumes "metrics_exact s"
  shows "metrics_exact (noteQueuedMessageAddedLocked m
    (s\<lparr>queues := fmupd u (queue_of s u @ [m]) (queues s)\<rparr>))"
proof -
  let ?s = "s\<lparr>queues := fmupd u (queue_of s u @ [m]) (queues s)\<rparr>"
  have "queued_times ?s = insert (Msg_CreatedAt m) (queued_times s)"
    unfolding queued_times_upd by (subst queued_times_split [of s u]) auto
  moreover have "queued_times (noteQueuedMessageAddedLocked m ?s) = queued_times ?s"
    by (simp add: queued_times_def noteQueuedMessageAddedLocked_def Let_def)
  moreover have "lease_times (noteQueuedMessageAddedLocked m ?s) = lease_times s"
    by (simp add: lease_times_def noteQueuedMessageAddedLocked_def Let_def)
  ultimately show ?thesis
    using assms
    by (simp add: metrics_exact_def computeQueueMetrics_eq oldest_in_insert)
      (simp add: noteQueuedMessageAddedLocked_def Let_def queued_total_upd)
qed

lemma queued_total_nonneg: "queued_total qs \<ge> 0"
  by (simp add: queued_total_def sum_nonneg)

lemma note_queued_removed_metrics [wf_intros]:
  assumes exact: "metrics_exact s" and q: "queue_of s u = m # rest"
  shows "metrics_exact (noteQueuedMessageRemovedLocked m (s\<lparr>queues := fmupd u rest (queues s)\<rparr>))"
proof -
  let ?s = "s\<lparr>queues := fmupd u rest (queues s)\<rparr>"
  let ?n = "noteQueuedMessageRemovedLocked m ?s"
  have times: "insert (Msg_CreatedAt m) (queued_times ?s) = queued_times s"
    unfolding queued_times_upd by (subst queued_times_split [of s u]) (auto simp: q)
  have total: "queued_total (queues s) = queued_total (fmupd u rest (queues s)) + 1"
    using q by (simp add: queued_total_upd)
  have old: "oldest_in (queued_times ?s) = oldest_in (queued_times s)"
    if "oldest_in (queued_times s) \<noteq> Some (Msg_CreatedAt m)"
    by (rule oldest_in_remove [OF _ times that]) simp
  have "queued_times ?n = queued_times ?s" and "lease_times ?n = lease_times s"
    by (simp_all add: queued_times_def lease_times_def noteQueuedMessageRemovedLocked_def Let_def)
  then show ?thesis
    using exact old total queued_total_nonneg [of "fmupd u rest (queues s)"]
    by (simp add: metrics_exact_def computeQueueMetrics_eq)
      (auto simp: noteQueuedMessageRemovedLocked_def Let_def metricTimeEqual_def
        computeOldestQueued_eq)
qed

lemma note_delivery_added_metrics [wf_intros]:
  assumes "metrics_exact s" and "fmlookup (messageDeliveries s) d = None"
  shows "metrics_exact (noteDeliveryAddedLocked v
    (s\<lparr>messageDeliveries := fmupd d v (messageDeliveries s)\<rparr>))"
proof -
  let ?s = "s\<lparr>messageDeliveries := fmupd d v (messageDeliveries s)\<rparr>"
  have "fmran' (fmupd d v (messageDeliveries s)) = insert v (fmran' (messageDeliveries s))"
    using assms(2) by (auto simp: fmlookup_ran'_iff split: if_splits) (metis option.distinct(1))+
  then have "lease_times (noteDeliveryAddedLocked v ?s) =
      insert (Del_LeaseExpiresAt v) (lease_times s)"
    by (simp add: lease_times_def noteDeliveryAddedLocked_def Let_def)
  moreover have "queued_times (noteDeliveryAddedLocked v ?s) = queued_times s"
    by (simp add: queued_times_def noteDeliveryAddedLocked_def Let_def)
  ultimately show ?thesis
    using assms
    by (simp add: metrics_exact_def computeQueueMetrics_eq oldest_in_insert)
      (simp add: noteDeliveryAddedLocked_def Let_def fmsize_upd_new)
qed

lemma note_delivery_removed_metrics [wf_intros]:
  assumes exact: "metrics_exact s" and d: "fmlookup (messageDeliveries s) d = Some v"
  shows "metrics_exact (noteDeliveryRemovedLocked v
    (s\<lparr>messageDeliveries := fmdrop d (messageDeliveries s)\<rparr>))"
proof -
  let ?s = "s\<lparr>messageDeliveries := fmdrop d (messageDeliveries s)\<rparr>"
  let ?n = "noteDeliveryRemovedLocked v ?s"
  have "insert v (fmran' (fmdrop d (messageDeliveries s))) = fmran' (messageDeliveries s)"
    using d by (auto simp: fmlookup_ran'_iff split: if_splits) (metis option.inject)+
  then have times: "insert (Del_LeaseExpiresAt v) (lease_times ?s) = lease_times s"
    by (simp add: lease_times_def flip: image_insert)
  have size: "fmsize (messageDeliveries s) = Suc (fmsize (fmdrop d (messageDeliveries s)))"
    using d by (simp add: fmsize_drop)
  have old: "oldest_in (lease_times ?s) = oldest_in (lease_times s)"
    if "oldest_in (lease_times s) \<noteq> Some (Del_LeaseExpiresAt v)"
    by (rule oldest_in_remove [OF _ times that]) simp
  have "queued_times ?n = queued_times s" and "lease_times ?n = lease_times ?s"
    by (simp_all add: queued_times_def lease_times_def noteDeliveryRemovedLocked_def Let_def)
  then show ?thesis
    using exact old size
    by (simp add: metrics_exact_def computeQueueMetrics_eq)
      (auto simp: noteDeliveryRemovedLocked_def Let_def metricTimeEqual_def
        computeOldestLease_eq)
qed

lemma Enqueue_metrics [wf_intros]:
  assumes "metrics_exact s"
  shows "metrics_exact (snd (Enqueue message s))"
  using assms
  by (auto simp: Enqueue_def Let_def note_queued_added_metrics split: option.splits)

lemma Dequeue_metrics [wf_intros]:
  assumes "metrics_exact s"
  shows "metrics_exact (snd (Dequeue u s))"
  using assms
  by (auto simp: Dequeue_def Let_def note_queued_removed_metrics split: list.splits)

section \<open>The contract of a message queue\<close>

text \<open>
  The API layer uses the store through the interface \<^verbatim>\<open>MessageQueueStore\<close> of
  \<^verbatim>\<open>internal/store/contracts.go\<close>, which the memory store and the S3 queue both implement.
  \<open>contents\<close> is the abstract state, one list per receiver; \<open>route\<close> is the identifier the
  store stamps on a message for a live receiver.
\<close>

datatype queue_op = OpEnqueue message | OpDequeue string

text \<open>
  A run of operations, with the messages it accepted and the messages it handed out, each
  with its receiver, in order.
\<close>

fun run_queue ::
  "(message \<Rightarrow> 's \<Rightarrow> (store_error + unit) \<times> 's) \<Rightarrow> (string \<Rightarrow> 's \<Rightarrow> message option \<times> 's) \<Rightarrow>
    queue_op list \<Rightarrow> 's \<Rightarrow> message list \<times> (string \<times> message) list \<times> 's" where
  "run_queue enq deq [] s = ([], [], s)"
| "run_queue enq deq (OpEnqueue m # ops) s =
     (let (r, s') = enq m s; (ins, outs, s'') = run_queue enq deq ops s'
      in (if is_ok r then m # ins else ins, outs, s''))"
| "run_queue enq deq (OpDequeue u # ops) s =
     (let (r, s') = deq u s; (ins, outs, s'') = run_queue enq deq ops s'
      in (ins, (case r of None \<Rightarrow> outs | Some m \<Rightarrow> (u, m) # outs), s''))"

text \<open>The message without the receiver identifier the store stamps on it.\<close>

definition unstamped :: "message \<Rightarrow> message" where
  "unstamped m = m\<lparr>Msg_ToAgentID := []\<rparr>"

definition accepted_for :: "string \<Rightarrow> message list \<Rightarrow> message list" where
  "accepted_for u ms = map unstamped (filter (\<lambda>m. Msg_ToAgentUUID m = u) ms)"

definition handed_to :: "string \<Rightarrow> (string \<times> message) list \<Rightarrow> message list" where
  "handed_to u outs = map (unstamped \<circ> snd) (filter (\<lambda>p. fst p = u) outs)"

locale message_queue =
  fixes enq :: "message \<Rightarrow> 's \<Rightarrow> (store_error + unit) \<times> 's"
    and deq :: "string \<Rightarrow> 's \<Rightarrow> message option \<times> 's"
    and contents :: "'s \<Rightarrow> string \<Rightarrow> message list"
    and route :: "'s \<Rightarrow> string \<Rightarrow> string option"
  assumes enq_ok: "route s (Msg_ToAgentUUID m) = Some a \<Longrightarrow>
      fst (enq m s) = Inr () \<and> contents (snd (enq m s)) =
        (contents s)(Msg_ToAgentUUID m :=
          contents s (Msg_ToAgentUUID m) @ [m\<lparr>Msg_ToAgentID := a\<rparr>])"
    and enq_err: "route s (Msg_ToAgentUUID m) = None \<Longrightarrow>
      \<not> is_ok (fst (enq m s)) \<and> contents (snd (enq m s)) = contents s"
    and deq_empty: "contents s u = [] \<Longrightarrow>
      fst (deq u s) = None \<and> contents (snd (deq u s)) = contents s"
    and deq_cons: "contents s u = m # ms \<Longrightarrow>
      fst (deq u s) = Some m \<and> contents (snd (deq u s)) = (contents s)(u := ms)"
begin

lemma run_history:
  "run_queue enq deq ops s = (ins, outs, s') \<Longrightarrow>
    map unstamped (contents s u) @ accepted_for u ins =
    handed_to u outs @ map unstamped (contents s' u)"
proof (induction ops arbitrary: s ins outs)
  case Nil
  then show ?case by (simp add: accepted_for_def handed_to_def)
next
  case (Cons x ops)
  show ?case
  proof (cases x)
    case (OpEnqueue m)
    obtain r s1 where e: "enq m s = (r, s1)" by fastforce
    obtain ins1 outs1 where r1: "run_queue enq deq ops s1 = (ins1, outs1, s')"
      using Cons.prems OpEnqueue e by (auto split: prod.splits)
    have io: "ins = (if is_ok r then m # ins1 else ins1)" "outs = outs1"
      using Cons.prems OpEnqueue e r1 by auto
    show ?thesis
    proof (cases "route s (Msg_ToAgentUUID m)")
      case None
      from enq_err [OF None] e have "\<not> is_ok r" "contents s1 = contents s" by simp_all
      with Cons.IH [OF r1] io show ?thesis by simp
    next
      case (Some a)
      from enq_ok [OF Some] e have "is_ok r"
        and "contents s1 = (contents s)(Msg_ToAgentUUID m :=
          contents s (Msg_ToAgentUUID m) @ [m\<lparr>Msg_ToAgentID := a\<rparr>])" by (simp_all add: is_ok_def)
      with Cons.IH [OF r1] io show ?thesis
        by (auto simp: accepted_for_def unstamped_def split: if_splits)
    qed
  next
    case (OpDequeue v)
    obtain r s1 where e: "deq v s = (r, s1)" by fastforce
    obtain ins1 outs1 where r1: "run_queue enq deq ops s1 = (ins1, outs1, s')"
      using Cons.prems OpDequeue e by (auto split: prod.splits)
    have io: "ins = ins1" "outs = (case r of None \<Rightarrow> outs1 | Some m \<Rightarrow> (v, m) # outs1)"
      using Cons.prems OpDequeue e r1 by auto
    show ?thesis
    proof (cases "contents s v")
      case Nil
      with deq_empty e Cons.IH [OF r1] io show ?thesis by fastforce
    next
      case (Cons m ms)
      from deq_cons [OF Cons] e have "r = Some m" "contents s1 = (contents s)(v := ms)" by simp_all
      with Cons.IH [OF r1] io \<open>contents s v = m # ms\<close> show ?thesis
        by (auto simp: handed_to_def)
    qed
  qed
qed

end

definition routeOf :: "memory_store \<Rightarrow> string \<Rightarrow> string option" where
  "routeOf s u =
     (if u = [] then None
      else case fmlookup (agents s) u of
        None \<Rightarrow> None
      | Some a \<Rightarrow> if Agent_Status a = StatusRevoked then None else Some (Agent_AgentID a))"

interpretation mq: message_queue Enqueue Dequeue queue_of routeOf
proof
  fix s :: memory_store and m :: message and a
  assume "routeOf s (Msg_ToAgentUUID m) = Some a"
  then show "fst (Enqueue m s) = Inr () \<and> queue_of (snd (Enqueue m s)) =
        (queue_of s)(Msg_ToAgentUUID m :=
          queue_of s (Msg_ToAgentUUID m) @ [m\<lparr>Msg_ToAgentID := a\<rparr>])"
    by (auto simp: routeOf_def Enqueue_def Let_def noteQueuedMessageAddedLocked_def fun_eq_iff
        queue_of_def split: if_splits option.splits)
next
  fix s :: memory_store and m :: message
  assume "routeOf s (Msg_ToAgentUUID m) = None"
  then show "\<not> is_ok (fst (Enqueue m s)) \<and> queue_of (snd (Enqueue m s)) = queue_of s"
    by (auto simp: routeOf_def Enqueue_def is_ok_def split: if_splits option.splits)
next
  fix s :: memory_store and u
  assume "queue_of s u = []"
  then show "fst (Dequeue u s) = None \<and> queue_of (snd (Dequeue u s)) = queue_of s"
    by (simp add: Dequeue_def)
next
  fix s :: memory_store and u m ms
  assume "queue_of s u = m # ms"
  then show "fst (Dequeue u s) = Some m \<and> queue_of (snd (Dequeue u s)) = (queue_of s)(u := ms)"
    by (auto simp: Dequeue_def Let_def noteQueuedMessageRemovedLocked_def fun_eq_iff queue_of_def
        split: option.splits)
qed

end
