(* ===== verification/Metadata.thy ===== *)
theory Metadata
  imports Activity
begin

text \<open>
  Agent metadata of \<^verbatim>\<open>internal/store/memory.go\<close> with the skill helpers of
  \<^verbatim>\<open>internal/store/skill_metadata.go\<close> and \<^verbatim>\<open>internal/model/skill_helpers.go\<close>: the recursive
  merge of a patch, the validation of the agent type, of the advertised skills and of their
  parameters, the activities an agent posts, and the summary of a change for the audit log.
\<close>

section \<open>Tokens and secrets\<close>

definition is_token_char :: "char \<Rightarrow> bool" where
  "is_token_char c \<longleftrightarrow> is_lower c \<or> is_digit c \<or> c \<in> {CHR ''-'', CHR ''_'', CHR ''.''}"

definition normalizeSkillToken :: "string \<Rightarrow> nat \<Rightarrow> string option" where
  "normalizeSkillToken raw minLen =
     (let normalized = ToLower (TrimSpace raw) in
      if length normalized < minLen \<or> length normalized > 64 then None
      else if list_all is_token_char normalized then Some normalized else None)"

definition NormalizeAgentSkillName :: "string \<Rightarrow> string option" where
  "NormalizeAgentSkillName raw = normalizeSkillToken raw 2"

definition NormalizeAgentSkillParameterName :: "string \<Rightarrow> string option" where
  "NormalizeAgentSkillParameterName raw = normalizeSkillToken raw 1"

definition normalizeAgentType :: "string \<Rightarrow> string option" where
  "normalizeAgentType raw =
     (let normalized = ToLower (TrimSpace raw) in
      if length normalized < 2 \<or> length normalized > 64 then None
      else if list_all is_token_char normalized then Some normalized else None)"

definition normalizeAgentTypeOrUnknown :: "string \<Rightarrow> string" where
  "normalizeAgentTypeOrUnknown raw =
     (case normalizeAgentType raw of None \<Rightarrow> AgentTypeUnknown | Some t \<Rightarrow> t)"

definition agentTypeFromMetadata :: "gmap \<Rightarrow> string" where
  "agentTypeFromMetadata metadata =
     (case fmlookup metadata AgentMetadataKeyType of
        Some (GStr raw) \<Rightarrow> normalizeAgentTypeOrUnknown raw
      | _ \<Rightarrow> AgentTypeUnknown)"

definition secret_phrases :: "string list" where
  "secret_phrases =
     [''never pass secrets'', ''never include secrets'', ''do not pass secrets'',
      ''do not include secrets'', ''don'' @ [CHR 0x27] @ ''t pass secrets'',
      ''don'' @ [CHR 0x27] @ ''t include secrets'', ''secrets are forbidden'',
      ''secret values are forbidden'', ''passing secrets is forbidden'', ''never pass tokens'',
      ''do not pass tokens'', ''never pass api keys'', ''do not pass api keys'']"

definition containsSecretProhibition :: "string \<Rightarrow> bool" where
  "containsSecretProhibition value =
     (let normalized = ToLower (TrimSpace value) in
      if normalized = [] then False
      else list_ex (\<lambda>phrase. str_contains normalized phrase) secret_phrases)"

definition strong_markers :: "string list" where
  "strong_markers =
     [''api key'', ''api_key'', ''apikey'', ''access key'', ''password'', ''passwd'',
      ''private key'', ''bearer '', ''token='', ''token:'', ''authorization:'']"

definition containsStrongSecretMarker :: "string \<Rightarrow> bool" where
  "containsStrongSecretMarker value =
     (let normalized = ToLower (TrimSpace value) in
      if normalized = [] then False
      else list_ex (\<lambda>marker. str_contains normalized marker) strong_markers)"

definition containsGenericSecretMarker :: "string \<Rightarrow> bool" where
  "containsGenericSecretMarker value =
     (let normalized = ToLower (TrimSpace value) in
      if normalized = [] then False else str_contains normalized ''secret'')"

definition containsLikelySecret :: "string \<Rightarrow> bool" where
  "containsLikelySecret value =
     (let normalized = ToLower (TrimSpace value) in
      if normalized = [] then False
      else if containsStrongSecretMarker normalized then True
      else containsGenericSecretMarker normalized \<and> \<not> containsSecretProhibition normalized)"

definition firstNonEmpty :: "string list \<Rightarrow> string" where
  "firstNonEmpty values = (case filter (\<lambda>v. TrimSpace v \<noteq> []) values of [] \<Rightarrow> [] | v # _ \<Rightarrow> v)"

section \<open>Skill parameters\<close>

text \<open>
  A match of \<^verbatim>\<open>markdownSkillParameterLinePattern\<close>: the name in backquotes, in double stars or
  bare (the three groups), then a colon and a text.  No alternative can match where another
  one starts, and what follows a repetition is never in its class, so no backtracking is
  needed; \<^verbatim>\<open>\s\<close> does not include the vertical tab.
\<close>

definition re_space :: "char \<Rightarrow> bool" where
  "re_space c \<longleftrightarrow> c \<in> {CHR 0x09, CHR 0x0A, CHR 0x0C, CHR 0x0D, CHR '' ''}"

definition re_word :: "char \<Rightarrow> bool" where
  "re_word c \<longleftrightarrow> is_lower c \<or> is_upper c \<or> is_digit c \<or> c \<in> {CHR ''_'', CHR ''.'', CHR ''-''}"

abbreviation "backquote \<equiv> CHR 0x60"
abbreviation "star \<equiv> CHR 0x2A"

fun match_description :: "string \<Rightarrow> string option" where
  "match_description rest =
     (case dropWhile re_space rest of
        c # cs \<Rightarrow>
          if c = CHR '':'' then
            (let d = dropWhile re_space cs in
             if d = [] \<or> CHR 0x0A \<in> set d then None else Some d)
          else None
      | [] \<Rightarrow> None)"

definition match_name :: "string \<Rightarrow> (string \<times> string) option" where
  "match_name s =
     (case s of
        [] \<Rightarrow> None
      | c # cs \<Rightarrow>
          if c = backquote then
            (let name = takeWhile (\<lambda>x. x \<noteq> backquote) cs; rest = dropWhile (\<lambda>x. x \<noteq> backquote) cs
             in if name = [] \<or> rest = [] then None else Some (name, tl rest))
          else if c = star then
            (let body = tl cs; name = takeWhile (\<lambda>x. x \<noteq> star) body;
                 rest = dropWhile (\<lambda>x. x \<noteq> star) body
             in if cs = [] \<or> hd cs \<noteq> star \<or> name = [] \<or> \<not> prefix [star, star] rest then None
                else Some (name, drop 2 rest))
          else
            (let name = takeWhile re_word s
             in if name = [] then None else Some (name, dropWhile re_word s)))"

definition match_parameter_line :: "string \<Rightarrow> (string \<times> string) option" where
  "match_parameter_line line =
     (case line of
        [] \<Rightarrow> None
      | c # cs \<Rightarrow>
          if c \<noteq> CHR ''-'' then None
          else case match_name (dropWhile re_space cs) of
            None \<Rightarrow> None
          | Some (name, rest) \<Rightarrow>
              (case match_description rest of None \<Rightarrow> None | Some d \<Rightarrow> Some (name, d)))"

definition trim_suffix :: "string \<Rightarrow> string \<Rightarrow> string" where
  "trim_suffix s suf = (if suffix suf s then take (length s - length suf) s else s)"

definition markdownParameterSection :: "string \<Rightarrow> string" where
  "markdownParameterSection line =
     (let n = ToLower (TrimSpace line);
          n = TrimSpace (dropWhile (\<lambda>c. c = CHR ''#'') n);
          n = TrimSpace (trim_suffix n '':'')
      in if n \<in> {''required'', ''required parameters''} then ''required''
         else if n \<in> {''optional'', ''optional parameters''} then ''optional''
         else [])"

definition parameter_entry :: "string \<Rightarrow> string \<Rightarrow> gmap" where
  "parameter_entry name description =
     fmupd ''description'' (GStr description) (fmupd ''name'' (GStr name) fmempty)"

definition check_description :: "string \<Rightarrow> store_error option" where
  "check_description description =
     (if description = [] \<or> length description > 240 then Some ErrInvalidAgentSkills
      else if containsLikelySecret description then Some ErrInvalidSkillDescription
      else None)"

definition entry_name :: "gmap \<Rightarrow> string" where
  "entry_name entry = stringValue (gget entry ''name'')"

definition sortSkillParameterEntries :: "gmap list \<Rightarrow> gmap list" where
  "sortSkillParameterEntries entries = sort_key entry_name entries"

text \<open>
  The loop over the lines: the section, the names seen, the required and the optional
  entries so far.  The groups of the pattern are disjoint, so the one that matched is
  the first that is not blank; a name of blanks alone is refused either way.
\<close>

fun parse_lines ::
  "string \<Rightarrow> string set \<Rightarrow> gmap list \<Rightarrow> gmap list \<Rightarrow> string list \<Rightarrow>
    store_error + gmap list \<times> gmap list" where
  "parse_lines sect seen required optional [] = Inr (required, optional)"
| "parse_lines sect seen required optional (rawLine # rest) =
     (let line = TrimSpace rawLine in
      if line = [] then parse_lines sect seen required optional rest
      else if markdownParameterSection line \<noteq> [] then
        parse_lines (markdownParameterSection line) seen required optional rest
      else case match_parameter_line line of
        None \<Rightarrow> parse_lines sect seen required optional rest
      | Some (rawName, rawDescription) \<Rightarrow>
          if sect = [] then Inl ErrInvalidAgentSkills
          else case NormalizeAgentSkillParameterName (firstNonEmpty [rawName]) of
            None \<Rightarrow> Inl ErrInvalidAgentSkills
          | Some name \<Rightarrow>
              if name \<in> seen then Inl ErrInvalidAgentSkills
              else
                let description = TrimSpace rawDescription in
                (case check_description description of
                   Some e \<Rightarrow> Inl e
                 | None \<Rightarrow>
                     if sect = ''required'' then
                       parse_lines sect (insert name seen)
                         (required @ [parameter_entry name description]) optional rest
                     else
                       parse_lines sect (insert name seen) required
                         (optional @ [parameter_entry name description]) rest))"

definition parseMarkdownSkillParameters :: "string \<Rightarrow> store_error + gmap list \<times> gmap list" where
  "parseMarkdownSkillParameters markdown =
     (case parse_lines [] {} [] [] (split_on (CHR 0x0A) markdown) of
        Inl e \<Rightarrow> Inl e
      | Inr (required, optional) \<Rightarrow>
          if required = [] \<and> optional = [] then Inl ErrInvalidAgentSkills
          else Inr (sortSkillParameterEntries required, sortSkillParameterEntries optional))"

definition buildNormalizedSkillParameters ::
  "string \<Rightarrow> gval \<Rightarrow> gmap list \<Rightarrow> gmap list \<Rightarrow> gmap" where
  "buildNormalizedSkillParameters format schema required optional =
     gmap_of [(''format'', GStr format), (''schema'', schema), (''required'', GMaps required),
       (''optional'', GMaps optional), (''secret_policy'', GStr ''forbidden'')]"

definition normalizeMarkdownSkillParameters :: "string \<Rightarrow> store_error + gmap" where
  "normalizeMarkdownSkillParameters markdown =
     (if TrimSpace markdown = [] then Inl ErrInvalidAgentSkills
      else if \<not> containsSecretProhibition markdown then Inl ErrInvalidSkillDescription
      else case parseMarkdownSkillParameters markdown of
        Inl e \<Rightarrow> Inl e
      | Inr (required, optional) \<Rightarrow>
          Inr (buildNormalizedSkillParameters ''markdown'' (GStr markdown) required optional))"

fun parameter_list :: "string set \<Rightarrow> gmap list \<Rightarrow> gval list \<Rightarrow> store_error + gmap list" where
  "parameter_list seen out [] = Inr (sortSkillParameterEntries out)"
| "parameter_list seen out (GMap entry # items) =
     (case NormalizeAgentSkillParameterName (stringValue (gget entry ''name'')) of
        None \<Rightarrow> Inl ErrInvalidAgentSkills
      | Some name \<Rightarrow>
          if name \<in> seen then Inl ErrInvalidAgentSkills
          else
            let description = TrimSpace (stringValue (gget entry ''description'')) in
            (case check_description description of
               Some e \<Rightarrow> Inl e
             | None \<Rightarrow>
                 parameter_list (insert name seen) (out @ [parameter_entry name description]) items))"
| "parameter_list seen out (_ # items) = Inl ErrInvalidAgentSkills"

fun normalizeSkillParameterList :: "gval \<Rightarrow> store_error + gmap list" where
  "normalizeSkillParameterList GNil = Inr []"
| "normalizeSkillParameterList (GList items) = parameter_list {} [] items"
| "normalizeSkillParameterList (GMaps entries) = parameter_list {} [] (map GMap entries)"
| "normalizeSkillParameterList _ = Inl ErrInvalidAgentSkills"

definition normalizeJSONSkillParameters :: "gmap \<Rightarrow> store_error + gmap" where
  "normalizeJSONSkillParameters raw =
     (let secretPolicy = ToLower (TrimSpace (stringValue (gget raw ''secret_policy'')));
          secretsForbidden = (gget raw ''secrets_forbidden'' = GBool True)
      in if secretPolicy \<noteq> ''forbidden'' \<and> \<not> secretsForbidden then Inl ErrInvalidSkillDescription
      else case normalizeSkillParameterList (gget raw ''required'') of
        Inl e \<Rightarrow> Inl e
      | Inr required \<Rightarrow>
          (case normalizeSkillParameterList (gget raw ''optional'') of
             Inl e \<Rightarrow> Inl e
           | Inr optional \<Rightarrow>
               if required = [] \<and> optional = [] then Inl ErrInvalidAgentSkills
               else
                 let schema = gmap_of [(''required'', GMaps required), (''optional'', GMaps optional),
                       (''secret_policy'', GStr ''forbidden''), (''secrets_forbidden'', GBool True)]
                 in Inr (buildNormalizedSkillParameters ''json'' (GMap schema) required optional)))"

definition normalizeFormattedSkillParameters :: "string \<Rightarrow> gmap \<Rightarrow> store_error + gmap" where
  "normalizeFormattedSkillParameters format raw =
     (if format = ''markdown'' then
        (case fmlookup raw ''schema'' of
           Some (GStr body) \<Rightarrow> normalizeMarkdownSkillParameters (TrimSpace body)
         | Some _ \<Rightarrow> Inl ErrInvalidAgentSkills
         | None \<Rightarrow>
             let body = TrimSpace (stringValue (gget raw ''body'')) in
             if body \<noteq> [] then normalizeMarkdownSkillParameters body
             else Inl ErrInvalidAgentSkills)
      else if format = ''json'' then
        (case fmlookup raw ''schema'' of
           Some (GMap obj) \<Rightarrow> normalizeJSONSkillParameters obj
         | Some _ \<Rightarrow> Inl ErrInvalidAgentSkills
         | None \<Rightarrow>
             if fmlookup raw ''required'' \<noteq> None \<or> fmlookup raw ''optional'' \<noteq> None
               \<or> fmlookup raw ''secret_policy'' \<noteq> None \<or> fmlookup raw ''secrets_forbidden'' \<noteq> None
             then normalizeJSONSkillParameters raw
             else Inl ErrInvalidAgentSkills)
      else Inl ErrInvalidAgentSkills)"

text \<open>\<^verbatim>\<open>nil, nil\<close> of the source is \<^term>\<open>Inr None\<close>.\<close>

fun normalizeSkillParameters :: "gval \<Rightarrow> store_error + gmap option" where
  "normalizeSkillParameters GNil = Inr None"
| "normalizeSkillParameters (GStr body) =
     map_sum id Some (normalizeMarkdownSkillParameters (TrimSpace body))"
| "normalizeSkillParameters (GMap raw) =
     (let format = ToLower (TrimSpace (stringValue (gget raw ''format''))) in
      if format = ''markdown'' \<or> format = ''json''
      then map_sum id Some (normalizeFormattedSkillParameters format raw)
      else map_sum id Some (normalizeJSONSkillParameters raw))"
| "normalizeSkillParameters _ = Inl ErrInvalidAgentSkills"

text \<open>
  \<^verbatim>\<open>ValidateSkillParameterPayloadKeys\<close>; \<open>quoted\<close> is Go's \<^verbatim>\<open>%q\<close>, of which nothing is used
  but that it is a function of the name.
\<close>

definition validateSkillParameterPayloadKeys ::
  "(string \<Rightarrow> string) \<Rightarrow> string gomap \<Rightarrow> string list \<Rightarrow> string set \<Rightarrow> string list" where
  "validateSkillParameterPayloadKeys quoted provided required allowed =
     sort (map (\<lambda>name. ''missing required parameter '' @ quoted name)
         (filter (\<lambda>name. case fmlookup provided name of None \<Rightarrow> True | Some v \<Rightarrow> TrimSpace v = [])
           required) @
       map (\<lambda>name. ''unknown parameter '' @ quoted name)
         (filter (\<lambda>name. name \<notin> allowed) (sorted_keys provided)))"

section \<open>Skills\<close>

fun skill_objects :: "gval list \<Rightarrow> gmap list option" where
  "skill_objects [] = Some []"
| "skill_objects (GMap m # vs) = map_option (\<lambda>ms. m # ms) (skill_objects vs)"
| "skill_objects (_ # vs) = None"

fun skill_entries :: "gval \<Rightarrow> gmap list option" where
  "skill_entries (GMaps ms) = Some ms"
| "skill_entries (GList vs) = skill_objects vs"
| "skill_entries _ = None"

fun raw_string :: "gval \<Rightarrow> string" where
  "raw_string (GStr s) = s"
| "raw_string _ = []"

definition normalize_skill :: "gmap \<Rightarrow> store_error + string \<times> gmap" where
  "normalize_skill entry =
     (case NormalizeAgentSkillName (raw_string (gget entry ''name'')) of
        None \<Rightarrow> Inl ErrInvalidAgentSkills
      | Some name \<Rightarrow>
          let description = TrimSpace (raw_string (gget entry ''description'')) in
          case check_description description of
            Some e \<Rightarrow> Inl e
          | None \<Rightarrow>
              (case fmlookup entry ''parameters'' of
                 None \<Rightarrow> Inr (name, parameter_entry name description)
               | Some rawParameters \<Rightarrow>
                   (case normalizeSkillParameters rawParameters of
                      Inl e \<Rightarrow> Inl e
                    | Inr None \<Rightarrow> Inr (name, parameter_entry name description)
                    | Inr (Some parameters) \<Rightarrow>
                        Inr (name, fmupd ''parameters'' (GMap parameters)
                          (parameter_entry name description)))))"

fun skills_loop :: "gmap gomap \<Rightarrow> gmap list \<Rightarrow> store_error + gmap gomap" where
  "skills_loop entriesByName [] = Inr entriesByName"
| "skills_loop entriesByName (entry # rest) =
     (case normalize_skill entry of
        Inl e \<Rightarrow> Inl e
      | Inr (name, normalizedEntry) \<Rightarrow> skills_loop (fmupd name normalizedEntry entriesByName) rest)"

text \<open>\<^term>\<open>Inr None\<close>: the key is absent.\<close>

definition normalizeAndValidateAgentSkillsMetadata ::
  "gmap \<Rightarrow> string \<Rightarrow> store_error + gmap list option" where
  "normalizeAndValidateAgentSkillsMetadata metadata key =
     (case fmlookup metadata key of
        None \<Rightarrow> Inr None
      | Some GNil \<Rightarrow> Inr (Some [])
      | Some raw \<Rightarrow>
          (case skill_entries raw of
             None \<Rightarrow> Inl ErrInvalidAgentSkills
           | Some entries \<Rightarrow>
               map_sum id (\<lambda>byName. Some (sorted_values byName)) (skills_loop fmempty entries)))"

definition normalize_type_field :: "gmap \<Rightarrow> store_error + gmap" where
  "normalize_type_field metadata =
     (case fmlookup metadata AgentMetadataKeyType of
        None \<Rightarrow> Inr (fmupd AgentMetadataKeyType (GStr AgentTypeUnknown) metadata)
      | Some (GStr raw) \<Rightarrow>
          (case normalizeAgentType raw of
             None \<Rightarrow> Inl ErrInvalidAgentType
           | Some agentType \<Rightarrow> Inr (fmupd AgentMetadataKeyType (GStr agentType) metadata))
      | Some _ \<Rightarrow> Inl ErrInvalidAgentType)"

definition validateAndNormalizeAgentMetadata :: "gmap \<Rightarrow> store_error + gmap" where
  "validateAndNormalizeAgentMetadata metadata =
     (case normalize_type_field metadata of
        Inl e \<Rightarrow> Inl e
      | Inr normalized \<Rightarrow>
          (case normalizeAndValidateAgentSkillsMetadata normalized AgentMetadataKeySkills of
             Inl e \<Rightarrow> Inl e
           | Inr None \<Rightarrow> Inr (fmdrop AgentMetadataKeySkills normalized)
           | Inr (Some skills) \<Rightarrow> Inr (fmupd AgentMetadataKeySkills (GMaps skills) normalized)))"

definition defaultAgentMetadata :: gmap where
  "defaultAgentMetadata = fmupd AgentMetadataKeyType (GStr AgentTypeUnknown) fmempty"

section \<open>The merge of a patch\<close>

text \<open>
  One key of a patch is a function from the value the key has now to the value it gets
  (\<^term>\<open>None\<close> deletes the key); a patch is applied key by key.
\<close>

definition protected_key :: "string \<Rightarrow> bool" where
  "protected_key key \<longleftrightarrow> key \<in> {AgentMetadataKeySystemActivityLog, AgentMetadataKeyPresence}"

definition apply_patch :: "(gval option \<Rightarrow> gval option) gomap \<Rightarrow> gmap \<Rightarrow> gmap" where
  "apply_patch fs current =
     fold (\<lambda>(key, f) merged.
         if protected_key key then merged
         else case f (fmlookup merged key) of
           None \<Rightarrow> fmdrop key merged
         | Some v \<Rightarrow> fmupd key v merged)
       (sorted_list_of_fmap fs) current"

definition existing_map :: "gval option \<Rightarrow> gmap" where
  "existing_map v = (case v of Some (GMap m) \<Rightarrow> m | _ \<Rightarrow> fmempty)"

primrec merge_value :: "gval \<Rightarrow> gval option \<Rightarrow> gval option" where
  "merge_value GNil = (\<lambda>existing. None)"
| "merge_value (GBool b) = (\<lambda>existing. Some (GBool b))"
| "merge_value (GInt n) = (\<lambda>existing. Some (GInt n))"
| "merge_value (GFloat m e) = (\<lambda>existing. Some (GFloat m e))"
| "merge_value (GStr s) = (\<lambda>existing. Some (GStr s))"
| "merge_value (GTime t) = (\<lambda>existing. Some (GTime t))"
| "merge_value (GStrPtr p) = (\<lambda>existing. Some (GStrPtr p))"
| "merge_value (GTimePtr p) = (\<lambda>existing. Some (GTimePtr p))"
| "merge_value (GStrs ss) = (\<lambda>existing. Some (GStrs ss))"
| "merge_value (GMaps ms) = (\<lambda>existing. Some (GMaps ms))"
| "merge_value (GList vs) = (\<lambda>existing. Some (GList vs))"
| "merge_value (GMap m) =
     (\<lambda>existing. Some (GMap (apply_patch (fmmap merge_value m) (existing_map existing))))"

definition mergeMetadataMaps :: "gmap \<Rightarrow> gmap \<Rightarrow> gmap" where
  "mergeMetadataMaps current patch = apply_patch (fmmap merge_value patch) current"

section \<open>Activities\<close>

definition normalizeActivityQualifier :: "string \<Rightarrow> string" where
  "normalizeActivityQualifier value =
     (let trimmed = ToLower (TrimSpace value) in
      if trimmed = [] \<or> containsStrongSecretMarker trimmed then []
      else
        let trimmed = join_with ''_'' (FieldsFunc is_space trimmed)
        in if rune_count trimmed \<le> 64 then trimmed else take_runes 64 trimmed)"

definition set_nonempty :: "string \<Rightarrow> string \<Rightarrow> gmap \<Rightarrow> gmap" where
  "set_nonempty k v m = (if v = [] then m else fmupd k (GStr v) m)"

definition incoming_entry :: "string \<Rightarrow> string \<Rightarrow> gmap \<Rightarrow> gmap" where
  "incoming_entry activity defaultAt item =
     (let q = (\<lambda>k. normalizeActivityQualifier (stringValue (gget item k)));
          entry = gmap_of [(''activity'', GStr activity), (''at'', GStr defaultAt),
            (''source'', GStr ''agent'')];
          entry = set_nonempty ''category'' (q ''category'') entry;
          status = (if q ''status'' = [] then q ''state'' else q ''status'');
          entry = set_nonempty ''status'' status entry;
          action = (if q ''action'' = [] then status else q ''action'')
      in set_nonempty ''action'' action entry)"

fun incoming_loop :: "string \<Rightarrow> gmap list \<Rightarrow> store_error + gmap list" where
  "incoming_loop defaultAt [] = Inr []"
| "incoming_loop defaultAt (item # rest) =
     (let activity = normalizeActivityText (stringValue (gget item ''activity'')) in
      if activity = [] then incoming_loop defaultAt rest
      else if containsStrongSecretMarker activity then Inl ErrInvalidAgentActivity
      else map_sum id (\<lambda>es. incoming_entry activity defaultAt item # es)
        (incoming_loop defaultAt rest))"

definition normalizeIncomingAgentActivities :: "gval \<Rightarrow> time \<Rightarrow> store_error + gmap list" where
  "normalizeIncomingAgentActivities raw now =
     map_sum id (\<lambda>out. dedupeAndTrimActivityEntries out maxAgentActivityEntries)
       (incoming_loop (FormatRFC3339 now) (parseActivityEntries raw))"

definition mergeAgentCustomActivities :: "gval \<Rightarrow> gval \<Rightarrow> time \<Rightarrow> store_error + gmap list" where
  "mergeAgentCustomActivities existingRaw incomingRaw now =
     map_sum id (\<lambda>incoming.
         dedupeAndTrimActivityEntries (parseActivityEntries existingRaw @ incoming)
           maxAgentActivityEntries)
       (normalizeIncomingAgentActivities incomingRaw now)"

definition normalizeSystemAgentActivityEntry :: "gmap \<Rightarrow> time \<Rightarrow> gmap option" where
  "normalizeSystemAgentActivityEntry entry now =
     (case parseActivityEntryObject entry of
        None \<Rightarrow> None
      | Some parsed \<Rightarrow>
          let activity = normalizeActivityText (stringValue (gget parsed ''activity'')) in
          if activity = [] then None
          else
            let parsed = fmupd ''at'' (GStr (FormatRFC3339 now))
                  (fmupd ''source'' (GStr ''system'') (fmupd ''activity'' (GStr activity) parsed));
                keep = (\<lambda>k m. set_nonempty k (stringValue (gget m k)) m)
            in Some (keep ''subject_id'' (keep ''event_id'' (keep ''action''
                 (keep ''category'' parsed)))))"

definition merge_activities :: "gmap \<Rightarrow> gmap \<Rightarrow> time \<Rightarrow> gmap \<Rightarrow> store_error + gmap" where
  "merge_activities current patch now merged =
     (case fmlookup patch AgentMetadataKeyActivities of
        None \<Rightarrow> Inr merged
      | Some rawActivities \<Rightarrow>
          map_sum id (\<lambda>activities.
              if activities = [] then fmdrop AgentMetadataKeyActivities merged
              else fmupd AgentMetadataKeyActivities (GMaps activities) merged)
            (mergeAgentCustomActivities (gget current AgentMetadataKeyActivities) rawActivities now))"

definition mergeAndNormalizeAgentMetadata :: "gmap \<Rightarrow> gmap \<Rightarrow> time \<Rightarrow> store_error + gmap" where
  "mergeAndNormalizeAgentMetadata current patch now =
     (case merge_activities current patch now (mergeMetadataMaps current patch) of
        Inl e \<Rightarrow> Inl e
      | Inr merged \<Rightarrow>
          (case validateAndNormalizeAgentMetadata merged of
             Inl e \<Rightarrow> Inl e
           | Inr normalized \<Rightarrow>
               let existingLog = parseActivityEntries (gget current AgentMetadataKeySystemActivityLog)
               in if existingLog = [] then Inr normalized
                  else Inr (fmupd AgentMetadataKeySystemActivityLog
                    (GMaps (dedupeAndTrimActivityEntries existingLog maxAgentActivityEntries))
                    normalized)))"

section \<open>The summary of a change\<close>

definition containsString :: "string list \<Rightarrow> string \<Rightarrow> bool" where
  "containsString values target0 =
     (let target = TrimSpace target0 in
      if target = [] then False else list_ex (\<lambda>v. TrimSpace v = target) values)"

text \<open>
  \<open>jsonSize\<close> is the length of what \<^verbatim>\<open>json.Marshal\<close> writes, if it can write it.
\<close>

definition metadataAuditSummary :: "(gmap \<Rightarrow> int option) \<Rightarrow> gmap \<Rightarrow> gmap" where
  "metadataAuditSummary jsonSize metadata =
     (let summary = fmupd ''metadata_keys'' (GStrs (sorted_keys metadata)) fmempty in
      case jsonSize metadata of
        None \<Rightarrow> summary
      | Some n \<Rightarrow> fmupd ''metadata_size_bytes'' (GInt n) summary)"

definition skill_names_of :: "gmap list \<Rightarrow> string list" where
  "skill_names_of entries =
     sort (remdups (filter (\<lambda>n. n \<noteq> [])
       (map (\<lambda>entry. ToLower (TrimSpace (stringValue (gget entry ''name'')))) entries)))"

fun gmaps_in :: "gval list \<Rightarrow> gmap list" where
  "gmaps_in [] = []"
| "gmaps_in (GMap m # vs) = m # gmaps_in vs"
| "gmaps_in (_ # vs) = gmaps_in vs"

fun metadataSkillNames :: "gval \<Rightarrow> string list" where
  "metadataSkillNames (GMaps ms) = skill_names_of ms"
| "metadataSkillNames (GList vs) = skill_names_of (gmaps_in vs)"
| "metadataSkillNames (GMap m) = skill_names_of [m]"
| "metadataSkillNames _ = []"

definition nonblank_set :: "string list \<Rightarrow> string list" where
  "nonblank_set values = remdups (filter (\<lambda>v. v \<noteq> []) (map TrimSpace values))"

definition diffStringSets :: "string list \<Rightarrow> string list \<Rightarrow> string list \<times> string list" where
  "diffStringSets before after =
     (let b = nonblank_set before; a = nonblank_set after
      in (sort (filter (\<lambda>v. v \<notin> set b) a), sort (filter (\<lambda>v. v \<notin> set a) b)))"

definition changedAgentMetadataKeys :: "gmap \<Rightarrow> gmap \<Rightarrow> string list" where
  "changedAgentMetadataKeys before after =
     filter (\<lambda>key. key \<noteq> AgentMetadataKeySystemActivityLog \<and> gget before key \<noteq> gget after key)
       (sort (remdups (sorted_keys before @ sorted_keys after)))"

definition agentMetadataChangeAuditSummary :: "gmap \<Rightarrow> gmap \<Rightarrow> gmap" where
  "agentMetadataChangeAuditSummary before after =
     (let changedKeys = changedAgentMetadataKeys before after in
      if changedKeys = [] then fmempty
      else
        let flag = (\<lambda>c k m. if c then fmupd k (GBool True) m else m);
            has = containsString changedKeys;
            out = fmupd ''changed_keys'' (GStrs changedKeys) fmempty;
            out = flag (has ''emoji'') ''emoji_changed'' out;
            out = flag (has ''bio'' \<or> has AgentMetadataKeyProfile) ''bio_changed'' out;
            out = flag (has AgentMetadataKeyHireMe) ''hire_me_changed'' out;
            out = flag (has ''public'') ''public_changed'' out;
            out = flag (has AgentMetadataKeyActivities) ''activities_changed'' out
        in if \<not> has AgentMetadataKeySkills then out
           else
             let (added, removed) = diffStringSets
                   (metadataSkillNames (gget before AgentMetadataKeySkills))
                   (metadataSkillNames (gget after AgentMetadataKeySkills));
                 out = (if added \<noteq> [] then fmupd ''skills_added'' (GStrs added) out else out)
             in if removed \<noteq> [] then fmupd ''skills_removed'' (GStrs removed) out else out)"

section \<open>What validated metadata satisfies\<close>

lemma normalizeAgentType_valid:
  "normalizeAgentType raw = Some t \<Longrightarrow> 2 \<le> length t \<and> length t \<le> 64 \<and> list_all is_token_char t"
  by (auto simp: normalizeAgentType_def Let_def split: if_splits)

text \<open>
  A list of parameters: each has a canonical name and a description that is not empty, not too long
  and without secrets, no two have the same name, and they are sorted by it.
\<close>

definition parameter_ok :: "gmap \<Rightarrow> bool" where
  "parameter_ok entry \<longleftrightarrow>
     (\<exists>n d. entry = parameter_entry n d \<and> n \<noteq> [] \<and> length n \<le> 64 \<and> list_all is_token_char n \<and>
        d \<noteq> [] \<and> length d \<le> 240 \<and> \<not> containsLikelySecret d)"

definition parameters_listed :: "gmap list \<Rightarrow> bool" where
  "parameters_listed entries \<longleftrightarrow>
     list_all parameter_ok entries \<and> distinct (map entry_name entries) \<and> sorted (map entry_name entries)"

text \<open>
  The parameters of a skill: those required and those optional, not both empty, with the rule that
  secrets are forbidden.  The schema repeats the two lists, or it is the text they were read from,
  which forbids secrets somewhere; the rest of that text is not checked.
\<close>

definition skill_parameters_ok :: "gmap \<Rightarrow> bool" where
  "skill_parameters_ok p \<longleftrightarrow>
     (\<exists>required optional. gget p ''required'' = GMaps required \<and> gget p ''optional'' = GMaps optional \<and>
        (required \<noteq> [] \<or> optional \<noteq> []) \<and> parameters_listed required \<and> parameters_listed optional \<and>
        gget p ''secret_policy'' = GStr ''forbidden'' \<and>
        (gget p ''format'' = GStr ''json'' \<and>
           gget p ''schema'' = GMap (gmap_of [(''required'', GMaps required), (''optional'', GMaps optional),
             (''secret_policy'', GStr ''forbidden''), (''secrets_forbidden'', GBool True)]) \<or>
         gget p ''format'' = GStr ''markdown'' \<and>
           (\<exists>markdown. gget p ''schema'' = GStr markdown \<and> containsSecretProhibition markdown) \<and>
           set (map entry_name required) \<inter> set (map entry_name optional) = {}))"

definition skill_ok :: "string \<Rightarrow> gmap \<Rightarrow> bool" where
  "skill_ok name entry \<longleftrightarrow>
     gget entry ''name'' = GStr name \<and> 2 \<le> length name \<and> length name \<le> 64 \<and>
     list_all is_token_char name \<and>
     (\<exists>d. gget entry ''description'' = GStr d \<and> d \<noteq> [] \<and> length d \<le> 240 \<and>
        \<not> containsLikelySecret d) \<and>
     (fmlookup entry ''parameters'' = None \<or>
        (\<exists>p. fmlookup entry ''parameters'' = Some (GMap p) \<and> skill_parameters_ok p))"

lemma parameter_entry_ok:
  assumes "NormalizeAgentSkillParameterName raw = Some n" and "check_description d = None"
  shows "parameter_ok (parameter_entry n d)" "entry_name (parameter_entry n d) = n"
proof -
  have n: "n \<noteq> [] \<and> length n \<le> 64 \<and> list_all is_token_char n"
    using assms(1)
    by (auto simp: NormalizeAgentSkillParameterName_def normalizeSkillToken_def Let_def split: if_splits)
  have "d \<noteq> [] \<and> length d \<le> 240 \<and> \<not> containsLikelySecret d"
    using assms(2) by (auto simp: check_description_def split: if_splits)
  with n show "parameter_ok (parameter_entry n d)" unfolding parameter_ok_def by blast
  have "list_all (\<lambda>c. \<not> is_space c) n"
    using n
    by (auto simp: list_all_iff is_token_char_def is_space_def is_lower_def is_digit_def less_eq_char_def)
  then have "TrimSpace n = n" unfolding TrimSpace_def by (intro trim_by_none) (auto simp: list_all_iff)
  then show "entry_name (parameter_entry n d) = n"
    by (simp add: entry_name_def parameter_entry_def gget_def)
qed

text \<open>What the readers of the parameters have gathered so far.\<close>

definition gathered :: "string set \<Rightarrow> gmap list \<Rightarrow> bool" where
  "gathered seen entries \<longleftrightarrow> list_all parameter_ok entries \<and>
     distinct (map entry_name entries) \<and> set (map entry_name entries) \<subseteq> seen"

lemma gathered_Nil: "gathered seen []"
  by (simp add: gathered_def)

lemma gathered_mono: "gathered seen entries \<Longrightarrow> gathered (insert n seen) entries"
  by (auto simp: gathered_def)

lemma gathered_snoc:
  assumes "gathered seen entries" and "NormalizeAgentSkillParameterName raw = Some n"
    and "check_description d = None" and "n \<notin> seen"
  shows "gathered (insert n seen) (entries @ [parameter_entry n d])"
  using assms parameter_entry_ok [OF assms(2,3)] by (auto simp: gathered_def)

lemma gathered_sort: "gathered seen entries \<Longrightarrow> parameters_listed (sortSkillParameterEntries entries)"
  by (simp add: gathered_def parameters_listed_def sortSkillParameterEntries_def list_all_iff distinct_map)

lemma parameter_list_ok:
  "parameter_list seen out items = Inr entries \<Longrightarrow> gathered seen out \<Longrightarrow> parameters_listed entries"
  by (induction seen out items rule: parameter_list.induct)
    (auto simp: Let_def gathered_sort split: option.splits if_splits dest: gathered_snoc)

lemma normalizeSkillParameterList_ok:
  "normalizeSkillParameterList v = Inr entries \<Longrightarrow> parameters_listed entries"
  by (cases v rule: normalizeSkillParameterList.cases)
    (auto simp: parameters_listed_def dest: parameter_list_ok [OF _ gathered_Nil, unfolded parameters_listed_def])

lemma parse_lines_ok:
  "parse_lines sect seen required optional rows = Inr (required', optional') \<Longrightarrow>
    gathered seen required \<Longrightarrow> gathered seen optional \<Longrightarrow>
    set (map entry_name required) \<inter> set (map entry_name optional) = {} \<Longrightarrow>
    (\<exists>all. gathered all required' \<and> gathered all optional') \<and>
    set (map entry_name required') \<inter> set (map entry_name optional') = {}"
proof (induction rows arbitrary: sect seen required optional)
  case (Cons rawLine rest)
  let ?line = "TrimSpace rawLine"
  show ?case
  proof (cases "?line = [] \<or> markdownParameterSection ?line \<noteq> [] \<or> match_parameter_line ?line = None")
    case True
    have "\<exists>sect'. parse_lines sect' seen required optional rest = Inr (required', optional')"
      using Cons.prems(1) True by (auto simp: Let_def split: if_splits)
    then show ?thesis using Cons.IH Cons.prems(2-4) by blast
  next
    case False
    then obtain rawName rawDescription where m: "match_parameter_line ?line = Some (rawName, rawDescription)" by auto
    let ?d = "TrimSpace rawDescription"
    obtain n where n: "NormalizeAgentSkillParameterName (firstNonEmpty [rawName]) = Some n" "n \<notin> seen"
      "check_description ?d = None" "sect \<noteq> []"
      using Cons.prems(1) False m by (auto simp: Let_def split: option.splits if_splits)
    note snoc = gathered_snoc [OF _ n(1,3,2)]
    have fresh: "n \<notin> set (map entry_name required)" "n \<notin> set (map entry_name optional)"
      using Cons.prems(2,3) n(2) by (auto simp: gathered_def)
    have name: "entry_name (parameter_entry n ?d) = n" by (rule parameter_entry_ok [OF n(1,3)])
    show ?thesis
    proof (cases "sect = ''required''")
      case True
      have "parse_lines sect (insert n seen) (required @ [parameter_entry n ?d]) optional rest = Inr (required', optional')"
        using Cons.prems(1) False m n True by (simp add: Let_def)
      from Cons.IH [OF this snoc [OF Cons.prems(2)] gathered_mono [OF Cons.prems(3)]]
      show ?thesis using Cons.prems(4) fresh name by auto
    next
      case sect: False
      have "parse_lines sect (insert n seen) required (optional @ [parameter_entry n ?d]) rest = Inr (required', optional')"
        using Cons.prems(1) False m n sect by (simp add: Let_def)
      from Cons.IH [OF this gathered_mono [OF Cons.prems(2)] snoc [OF Cons.prems(3)]]
      show ?thesis using Cons.prems(4) fresh name by auto
    qed
  qed
qed auto

lemma build_parameters:
  "gget (buildNormalizedSkillParameters format schema required optional) ''format'' = GStr format"
  "gget (buildNormalizedSkillParameters format schema required optional) ''schema'' = schema"
  "gget (buildNormalizedSkillParameters format schema required optional) ''required'' = GMaps required"
  "gget (buildNormalizedSkillParameters format schema required optional) ''optional'' = GMaps optional"
  "gget (buildNormalizedSkillParameters format schema required optional) ''secret_policy'' = GStr ''forbidden''"
  by (simp_all add: buildNormalizedSkillParameters_def gget_def gmap_of_def)

lemma sorted_entries [simp]:
  "set (map entry_name (sortSkillParameterEntries entries)) = set (map entry_name entries)"
  "sortSkillParameterEntries entries = [] \<longleftrightarrow> entries = []"
  by (simp_all add: sortSkillParameterEntries_def) (metis length_0_conv length_sort)

lemma normalizeMarkdownSkillParameters_ok:
  assumes "normalizeMarkdownSkillParameters markdown = Inr p"
  shows "skill_parameters_ok p"
proof -
  obtain required optional where m: "containsSecretProhibition markdown" "required \<noteq> [] \<or> optional \<noteq> []"
    and run: "parse_lines [] {} [] [] (split_on (CHR 0x0A) markdown) = Inr (required, optional)"
    and p: "p = buildNormalizedSkillParameters ''markdown'' (GStr markdown)
      (sortSkillParameterEntries required) (sortSkillParameterEntries optional)"
    using assms
    by (auto simp: normalizeMarkdownSkillParameters_def parseMarkdownSkillParameters_def
        split: if_splits sum.splits)
  from parse_lines_ok [OF run] obtain all where "gathered all required" "gathered all optional"
    "set (map entry_name required) \<inter> set (map entry_name optional) = {}" by (auto simp: gathered_Nil)
  with m show ?thesis
    unfolding skill_parameters_ok_def p build_parameters
    by (auto simp del: set_map intro!: gathered_sort)
qed

lemma normalizeJSONSkillParameters_ok: "normalizeJSONSkillParameters raw = Inr p \<Longrightarrow> skill_parameters_ok p"
  by (auto simp: normalizeJSONSkillParameters_def Let_def skill_parameters_ok_def build_parameters
      split: if_splits sum.splits dest: normalizeSkillParameterList_ok)

lemma map_sum_SomeD: "map_sum id Some x = Inr (Some p) \<Longrightarrow> x = Inr p"
  by (cases x) auto

lemma normalizeSkillParameters_ok: "normalizeSkillParameters v = Inr (Some p) \<Longrightarrow> skill_parameters_ok p"
  by (cases v rule: normalizeSkillParameters.cases)
    (auto simp: Let_def normalizeFormattedSkillParameters_def
      split: if_splits option.splits gval.splits
      dest!: map_sum_SomeD
      intro: normalizeJSONSkillParameters_ok normalizeMarkdownSkillParameters_ok)

lemma normalize_skill_ok:
  assumes "normalize_skill entry = Inr (name, e)"
  shows "skill_ok name e"
proof -
  have "fmlookup e ''parameters'' = None \<or> (\<exists>p. fmlookup e ''parameters'' = Some (GMap p) \<and> skill_parameters_ok p)"
    using assms
    by (auto simp: normalize_skill_def Let_def parameter_entry_def split: option.splits sum.splits
        dest: normalizeSkillParameters_ok)
  with assms show ?thesis
    by (auto simp: normalize_skill_def Let_def check_description_def NormalizeAgentSkillName_def
        normalizeSkillToken_def skill_ok_def parameter_entry_def
        split: option.splits if_splits sum.splits)
qed

lemma skills_loop_ok:
  "skills_loop m entries = Inr m' \<Longrightarrow> (\<And>n e. fmlookup m n = Some e \<Longrightarrow> skill_ok n e) \<Longrightarrow>
    fmlookup m' n = Some e \<Longrightarrow> skill_ok n e"
proof (induction entries arbitrary: m)
  case (Cons entry rest)
  then obtain name ne where ne: "normalize_skill entry = Inr (name, ne)"
    and loop: "skills_loop (fmupd name ne m) rest = Inr m'"
    by (auto split: sum.splits)
  show ?case
  proof (rule Cons.IH [OF loop _ Cons.prems(3)])
    fix n e
    assume "fmlookup (fmupd name ne m) n = Some e"
    with normalize_skill_ok [OF ne] Cons.prems(2) show "skill_ok n e"
      by (auto split: if_splits)
  qed
qed simp

lemma apply_patch_protected:
  assumes "protected_key key"
  shows "fmlookup (apply_patch fs current) key = fmlookup current key"
proof -
  have "fmlookup (fold (\<lambda>(k, f) merged. if protected_key k then merged
           else case f (fmlookup merged k) of None \<Rightarrow> fmdrop k merged | Some v \<Rightarrow> fmupd k v merged)
         kfs m) key = fmlookup m key" for kfs m
    using assms
    by (induction kfs arbitrary: m) (auto split: option.splits prod.splits)
  then show ?thesis by (simp add: apply_patch_def)
qed

lemma validate_type:
  assumes "validateAndNormalizeAgentMetadata m = Inr m'"
  shows "\<exists>t. fmlookup m' AgentMetadataKeyType = Some (GStr t) \<and> 2 \<le> length t \<and> length t \<le> 64 \<and>
    list_all is_token_char t"
proof -
  obtain n where n: "normalize_type_field m = Inr n"
    using assms by (auto simp: validateAndNormalizeAgentMetadata_def split: sum.splits)
  have "fmlookup m' AgentMetadataKeyType = fmlookup n AgentMetadataKeyType"
    using assms n
    by (auto simp: validateAndNormalizeAgentMetadata_def split: sum.splits option.splits)
  moreover have "list_all is_token_char AgentTypeUnknown" by code_simp
  then have "\<exists>t. fmlookup n AgentMetadataKeyType = Some (GStr t) \<and> 2 \<le> length t \<and> length t \<le> 64 \<and>
      list_all is_token_char t"
    using n normalizeAgentType_valid
    by (fastforce simp: normalize_type_field_def split: option.splits gval.splits)
  ultimately show ?thesis by simp
qed

lemma validate_skills:
  assumes "validateAndNormalizeAgentMetadata m = Inr m'"
    and "fmlookup m' AgentMetadataKeySkills = Some v"
  shows "\<exists>byName. v = GMaps (sorted_values byName) \<and>
    (\<forall>n e. fmlookup byName n = Some e \<longrightarrow> skill_ok n e)"
proof -
  obtain n where n: "normalize_type_field m = Inr n"
    using assms by (auto simp: validateAndNormalizeAgentMetadata_def split: sum.splits)
  with assms obtain skills where skills: "v = GMaps skills"
    and norm: "normalizeAndValidateAgentSkillsMetadata n AgentMetadataKeySkills = Inr (Some skills)"
    by (auto simp: validateAndNormalizeAgentMetadata_def split: sum.splits option.splits)
  show ?thesis
  proof (cases "fmlookup n AgentMetadataKeySkills = Some GNil")
    case True
    with norm have "skills = []" by (simp add: normalizeAndValidateAgentSkillsMetadata_def)
    with skills show ?thesis
      by (intro exI [of _ fmempty]) simp
  next
    case False
    with norm obtain entries where "map_sum id (\<lambda>byName. Some (sorted_values byName))
        (skills_loop fmempty entries) = Inr (Some skills)"
      by (auto simp: normalizeAndValidateAgentSkillsMetadata_def split: option.splits gval.splits)
    then obtain byName where "skills_loop fmempty entries = Inr byName"
      and "skills = sorted_values byName"
      by (cases "skills_loop fmempty entries") auto
    with skills skills_loop_ok [of fmempty entries byName] show ?thesis by auto
  qed
qed

lemma merge_validated:
  assumes "mergeAndNormalizeAgentMetadata current patch now = Inr m"
  shows "\<exists>merged n. validateAndNormalizeAgentMetadata merged = Inr n \<and>
    (\<forall>k. k \<noteq> AgentMetadataKeySystemActivityLog \<longrightarrow> fmlookup m k = fmlookup n k)"
  using assms
  by (force simp: mergeAndNormalizeAgentMetadata_def Let_def split: sum.splits if_splits)


definition sample_patch :: gmap where
  "sample_patch = gmap_of
     [(AgentMetadataKeyType, GStr '' Codex ''),
      (AgentMetadataKeySkills, GList
         [GMap (gmap_of [(''name'', GStr ''Review''), (''description'', GStr ''reads code'')]),
          GMap (gmap_of [(''name'', GStr ''build''), (''description'', GStr ''runs make'')])]),
      (AgentMetadataKeySystemActivityLog, GStr ''forged'')]"

definition sample_merged :: gmap where
  "sample_merged = gmap_of
     [(AgentMetadataKeySkills, GMaps [parameter_entry ''build'' ''runs make'',
         parameter_entry ''review'' ''reads code'']),
      (AgentMetadataKeyType, GStr ''codex'')]"

lemma sample_merge:
  "mergeAndNormalizeAgentMetadata defaultAgentMetadata sample_patch 0 = Inr sample_merged"
  by code_simp

text \<open>A patch with a skill that has a parameter.\<close>

definition skilled_patch :: gmap where
  "skilled_patch = gmap_of
     [(AgentMetadataKeySkills, GList [GMap (gmap_of
         [(''name'', GStr ''Weather''), (''description'', GStr ''looks it up''),
          (''parameters'', GMap (gmap_of [(''secret_policy'', GStr ''forbidden''),
             (''required'', GList [GMap (gmap_of [(''name'', GStr ''City''), (''description'', GStr ''where'')])])]))])])]"

definition skilled_merged :: gmap where
  "skilled_merged = gmap_of
     [(AgentMetadataKeySkills, GMaps [fmupd ''parameters'' (GMap (buildNormalizedSkillParameters ''json''
         (GMap (gmap_of [(''required'', GMaps [parameter_entry ''city'' ''where'']), (''optional'', GMaps []),
            (''secret_policy'', GStr ''forbidden''), (''secrets_forbidden'', GBool True)]))
         [parameter_entry ''city'' ''where''] [])) (parameter_entry ''weather'' ''looks it up'')]),
      (AgentMetadataKeyType, GStr ''unknown'')]"

lemma skilled_merge:
  "mergeAndNormalizeAgentMetadata defaultAgentMetadata skilled_patch 0 = Inr skilled_merged"
  by code_simp


text \<open>The text of the parameters is not searched for secrets.\<close>

lemma markdown_text_unsearched:
  "normalizeMarkdownSkillParameters ''never pass secrets; password: hunter2
Required:
- city: where'' =
     Inr (buildNormalizedSkillParameters ''markdown'' (GStr ''never pass secrets; password: hunter2
Required:
- city: where'') [parameter_entry ''city'' ''where''] [])"
  by code_simp

lemma merge_activities_protected:
  assumes "merge_activities current patch now merged = Inr m"
    and "protected_key k"
  shows "fmlookup m k = fmlookup merged k"
  using assms
  by (auto simp: merge_activities_def protected_key_def mergeAgentCustomActivities_def
      split: option.splits sum.splits)

lemma validate_other:
  assumes "validateAndNormalizeAgentMetadata m = Inr m'"
    and "k \<noteq> AgentMetadataKeyType" and "k \<noteq> AgentMetadataKeySkills"
  shows "fmlookup m' k = fmlookup m k"
  using assms
  by (auto simp: validateAndNormalizeAgentMetadata_def normalize_type_field_def
      split: sum.splits option.splits gval.splits)

text \<open>
  C36: no patch can write the system activity log of an agent: after any accepted update the
  log is what it was, in its normal form (without duplicates, at most 512 entries).
\<close>

theorem system_log_protected:
  assumes "mergeAndNormalizeAgentMetadata current patch now = Inr m"
  shows "fmlookup m AgentMetadataKeySystemActivityLog =
    (let entries = parseActivityEntries (gget current AgentMetadataKeySystemActivityLog) in
     if entries = [] then fmlookup current AgentMetadataKeySystemActivityLog
     else Some (GMaps (dedupeAndTrimActivityEntries entries maxAgentActivityEntries)))"
proof -
  obtain merged n where act: "merge_activities current patch now (mergeMetadataMaps current patch) = Inr merged"
    and valid: "validateAndNormalizeAgentMetadata merged = Inr n"
    and m: "m = (let entries = parseActivityEntries (gget current AgentMetadataKeySystemActivityLog) in
      if entries = [] then n
      else fmupd AgentMetadataKeySystemActivityLog
        (GMaps (dedupeAndTrimActivityEntries entries maxAgentActivityEntries)) n)"
    using assms
    by (auto simp: mergeAndNormalizeAgentMetadata_def Let_def split: sum.splits if_splits)
  have prot: "protected_key AgentMetadataKeySystemActivityLog" by (simp add: protected_key_def)
  have "fmlookup n AgentMetadataKeySystemActivityLog = fmlookup merged AgentMetadataKeySystemActivityLog"
    using validate_other [OF valid] by simp
  also have "\<dots> = fmlookup current AgentMetadataKeySystemActivityLog"
    using merge_activities_protected [OF act prot] apply_patch_protected [OF prot]
    by (simp add: mergeMetadataMaps_def)
  finally show ?thesis by (simp add: m Let_def)
qed

theorem system_log_protected_witness:
  "fmlookup sample_patch AgentMetadataKeySystemActivityLog = Some (GStr ''forged'') \<and>
   fmlookup sample_merged AgentMetadataKeySystemActivityLog = None"
  using system_log_protected [OF sample_merge]
  by (simp add: sample_patch_def gmap_of_def defaultAgentMetadata_def)

end
