(* ===== verification/Index.thy ===== *)
theory Index
  imports Prelude
begin

text \<open>
  Secondary indexes.  Beside each table (identifier to record) the store keeps maps from a
  key of the record to its identifier: human handles, agent token hashes, trust pairs, peer
  base URLs and others.  An index is exact when it holds just the keys of the records that
  have one; this theory has the lemmas the components use to keep it so.
\<close>

definition index_ok :: "('v \<Rightarrow> string option) \<Rightarrow> 'v gomap \<Rightarrow> string gomap \<Rightarrow> bool" where
  "index_ok key tbl idx \<longleftrightarrow>
     (\<forall>k i. fmlookup idx k = Some i \<longleftrightarrow> (\<exists>v. fmlookup tbl i = Some v \<and> key v = Some k))"

lemma index_ok_empty [simp]: "index_ok key fmempty fmempty"
  by (simp add: index_ok_def)

lemma index_ok_lookup:
  "index_ok key tbl idx \<Longrightarrow> fmlookup idx k = Some i \<Longrightarrow>
    \<exists>v. fmlookup tbl i = Some v \<and> key v = Some k"
  by (simp add: index_ok_def)

lemma index_ok_key:
  "index_ok key tbl idx \<Longrightarrow> fmlookup tbl i = Some v \<Longrightarrow> key v = Some k \<Longrightarrow> fmlookup idx k = Some i"
  by (auto simp: index_ok_def)

lemma index_ok_unique:
  "index_ok key tbl idx \<Longrightarrow> fmlookup tbl i = Some v \<Longrightarrow> fmlookup tbl j = Some w \<Longrightarrow>
    key v = Some k \<Longrightarrow> key w = Some k \<Longrightarrow> i = j"
  using index_ok_key [of key tbl idx i v k] index_ok_key [of key tbl idx j w k] by simp

text \<open>A record that is not in the table yet, with a key nobody has.\<close>

lemma index_ok_insert:
  assumes "index_ok key tbl idx" and "fmlookup tbl i = None" and "key v = Some k"
    and "fmlookup idx k = None"
  shows "index_ok key (fmupd i v tbl) (fmupd k i idx)"
  unfolding index_ok_def
proof (intro allI)
  fix k' j
  have "fmlookup idx k' = Some j \<longleftrightarrow> (\<exists>w. fmlookup tbl j = Some w \<and> key w = Some k')"
    using assms(1) by (simp add: index_ok_def)
  then show "fmlookup (fmupd k i idx) k' = Some j \<longleftrightarrow>
      (\<exists>w. fmlookup (fmupd i v tbl) j = Some w \<and> key w = Some k')"
    using assms(2-4) index_ok_key [OF assms(1)]
    by (cases "k' = k"; cases "j = i") force+
qed

lemma index_ok_insert_unindexed:
  assumes "index_ok key tbl idx" and "fmlookup tbl i = None" and "key v = None"
  shows "index_ok key (fmupd i v tbl) idx"
  using assms unfolding index_ok_def by (auto split: if_splits)

text \<open>A record that keeps its key.\<close>

lemma index_ok_update:
  assumes "index_ok key tbl idx" and "fmlookup tbl i = Some v" and "key v' = key v"
  shows "index_ok key (fmupd i v' tbl) idx"
  using assms unfolding index_ok_def by (auto split: if_splits)

text \<open>A record that leaves the table, or stays without a key.\<close>

lemma index_ok_drop:
  assumes "index_ok key tbl idx" and "fmlookup tbl i = Some v" and "key v = Some k"
  shows "index_ok key (fmdrop i tbl) (fmdrop k idx)"
  unfolding index_ok_def
proof (intro allI)
  fix k' j
  have "fmlookup idx k' = Some j \<longleftrightarrow> (\<exists>w. fmlookup tbl j = Some w \<and> key w = Some k')"
    using assms(1) by (simp add: index_ok_def)
  then show "fmlookup (fmdrop k idx) k' = Some j \<longleftrightarrow>
      (\<exists>w. fmlookup (fmdrop i tbl) j = Some w \<and> key w = Some k')"
    using assms(2,3) index_ok_key [OF assms(1)]
    by (cases "k' = k"; cases "j = i") force+
qed

lemma index_ok_drop_unindexed:
  assumes "index_ok key tbl idx" and "\<And>v. fmlookup tbl i = Some v \<Longrightarrow> key v = None"
  shows "index_ok key (fmdrop i tbl) idx"
  using assms unfolding index_ok_def by (auto split: if_splits)


lemma index_ok_unindex:
  assumes "index_ok key tbl idx" and "fmlookup tbl i = Some v" and "key v = Some k"
    and "key v' = None"
  shows "index_ok key (fmupd i v' tbl) (fmdrop k idx)"
proof -
  have "index_ok key (fmupd i v' (fmdrop i tbl)) (fmdrop k idx)"
    by (rule index_ok_insert_unindexed [OF index_ok_drop [OF assms(1-3)]]) (simp_all add: assms(4))
  moreover have "fmupd i v' (fmdrop i tbl) = fmupd i v' tbl" by (rule fmap_ext) simp
  ultimately show ?thesis by simp
qed

text \<open>A record whose key changes to one that nobody else has.\<close>

lemma index_ok_rekey:
  assumes "index_ok key tbl idx" and "fmlookup tbl i = Some v" and "key v = Some k"
    and "key v' = Some k'" and "fmlookup idx k' = None \<or> fmlookup idx k' = Some i"
  shows "index_ok key (fmupd i v' tbl) (fmupd k' i (fmdrop k idx))"
proof -
  have dropped: "index_ok key (fmdrop i tbl) (fmdrop k idx)"
    by (rule index_ok_drop [OF assms(1-3)])
  have "k' = k" if "fmlookup idx k' = Some i"
    using index_ok_lookup [OF assms(1) that] assms(2,3) by simp
  then have "fmlookup (fmdrop k idx) k' = None"
    using assms(5) by (auto split: if_splits)
  from index_ok_insert [OF dropped _ assms(4) this]
  have "index_ok key (fmupd i v' (fmdrop i tbl)) (fmupd k' i (fmdrop k idx))" by simp
  moreover have "fmupd i v' (fmdrop i tbl) = fmupd i v' tbl" by (rule fmap_ext) simp
  ultimately show ?thesis by simp
qed

lemma index_ok_rekey_keep:
  assumes "index_ok key tbl idx" and "fmlookup tbl i = Some v" and "key v = Some k"
    and "key v' = Some k"
  shows "index_ok key (fmupd i v' tbl) (fmupd k i idx)"
proof -
  have "fmupd k i idx = idx"
    using index_ok_key [OF assms(1-3)] by (intro fmap_ext) auto
  with index_ok_update [OF assms(1,2), of v'] assms(3,4) show ?thesis by simp
qed

text \<open>The loop that deletes the records satisfying \<open>p\<close> with their keys.\<close>

definition keys_of :: "('v \<Rightarrow> string) \<Rightarrow> (string \<Rightarrow> 'v \<Rightarrow> bool) \<Rightarrow> 'v gomap \<Rightarrow> string fset" where
  "keys_of key p tbl = key |`| fmran (fmdelete_if (\<lambda>i v. \<not> p i v) tbl)"

lemma keys_of_iff:
  "k |\<in>| keys_of key p tbl \<longleftrightarrow> (\<exists>i v. fmlookup tbl i = Some v \<and> p i v \<and> key v = k)"
proof
  assume "k |\<in>| keys_of key p tbl"
  then obtain v where "v |\<in>| fmran (fmdelete_if (\<lambda>i v. \<not> p i v) tbl)" "key v = k"
    unfolding keys_of_def by blast
  then show "\<exists>i v. fmlookup tbl i = Some v \<and> p i v \<and> key v = k"
    by (auto simp: fmlookup_ran_iff split: option.splits if_splits)
next
  assume "\<exists>i v. fmlookup tbl i = Some v \<and> p i v \<and> key v = k"
  then obtain i v where "fmlookup tbl i = Some v" "p i v" "key v = k" by blast
  then have "fmlookup (fmdelete_if (\<lambda>i v. \<not> p i v) tbl) i = Some v" by simp
  then have "v |\<in>| fmran (fmdelete_if (\<lambda>i v. \<not> p i v) tbl)" by (rule fmranI)
  with \<open>key v = k\<close> show "k |\<in>| keys_of key p tbl" unfolding keys_of_def by blast
qed

lemma index_ok_delete_if:
  assumes "index_ok key tbl idx" and "\<And>i v. fmlookup tbl i = Some v \<Longrightarrow> p i v \<Longrightarrow> key v = Some (kf v)"
  shows "index_ok key (fmdelete_if p tbl) (fmdrop_fset (keys_of kf p tbl) idx)"
  unfolding index_ok_def
proof (intro allI)
  fix k i
  have "fmlookup (fmdrop_fset (keys_of kf p tbl) idx) k = Some i \<longleftrightarrow>
      (\<not> (\<exists>j w. fmlookup tbl j = Some w \<and> p j w \<and> kf w = k)) \<and> fmlookup idx k = Some i"
    by (auto simp: keys_of_iff)
  also have "\<dots> \<longleftrightarrow> (\<exists>v. fmlookup tbl i = Some v \<and> \<not> p i v \<and> key v = Some k)"
  proof
    assume l: "\<not> (\<exists>j w. fmlookup tbl j = Some w \<and> p j w \<and> kf w = k) \<and> fmlookup idx k = Some i"
    then obtain v where v: "fmlookup tbl i = Some v" "key v = Some k"
      using index_ok_lookup [OF assms(1)] by blast
    with l assms(2) [of i v] have "\<not> p i v" by auto
    with v show "\<exists>v. fmlookup tbl i = Some v \<and> \<not> p i v \<and> key v = Some k" by blast
  next
    assume "\<exists>v. fmlookup tbl i = Some v \<and> \<not> p i v \<and> key v = Some k"
    then obtain v where v: "fmlookup tbl i = Some v" "\<not> p i v" "key v = Some k" by blast
    have "p j w \<longrightarrow> kf w \<noteq> k" if "fmlookup tbl j = Some w" for j w
      using assms(2) [OF that] index_ok_unique [OF assms(1) that v(1) _ v(3)] v that by auto
    with v index_ok_key [OF assms(1) v(1,3)]
    show "\<not> (\<exists>j w. fmlookup tbl j = Some w \<and> p j w \<and> kf w = k) \<and> fmlookup idx k = Some i" by blast
  qed
  also have "\<dots> \<longleftrightarrow> (\<exists>v. fmlookup (fmdelete_if p tbl) i = Some v \<and> key v = Some k)"
    by (auto split: option.splits)
  finally show "fmlookup (fmdrop_fset (keys_of kf p tbl) idx) k = Some i \<longleftrightarrow>
      (\<exists>v. fmlookup (fmdelete_if p tbl) i = Some v \<and> key v = Some k)" .
qed

text \<open>The same loop where the deleted records may be unindexed, and no two share a key.\<close>

lemma index_ok_delete_if_keyed:
  assumes ok: "index_ok key tbl idx"
    and kf: "\<And>i v k. fmlookup tbl i = Some v \<Longrightarrow> key v = Some k \<Longrightarrow> kf v = k"
    and uniq: "\<And>i j v w. fmlookup tbl i = Some v \<Longrightarrow> fmlookup tbl j = Some w \<Longrightarrow> kf v = kf w \<Longrightarrow> i = j"
  shows "index_ok key (fmdelete_if p tbl) (fmdrop_fset (keys_of kf p tbl) idx)"
  unfolding index_ok_def
proof (intro allI iffI)
  fix k i
  assume "fmlookup (fmdrop_fset (keys_of kf p tbl) idx) k = Some i"
  then have idx: "fmlookup idx k = Some i" and kept: "k |\<notin>| keys_of kf p tbl"
    by (auto split: if_splits)
  obtain v where v: "fmlookup tbl i = Some v" "key v = Some k"
    using index_ok_lookup [OF ok idx] by blast
  with kept kf [OF v] have "\<not> p i v" by (auto simp: keys_of_iff)
  with v show "\<exists>v. fmlookup (fmdelete_if p tbl) i = Some v \<and> key v = Some k" by simp
next
  fix k i
  assume "\<exists>v. fmlookup (fmdelete_if p tbl) i = Some v \<and> key v = Some k"
  then obtain v where v: "fmlookup tbl i = Some v" "\<not> p i v" "key v = Some k"
    by (auto split: option.splits if_splits)
  have "\<not> p j w" if w: "fmlookup tbl j = Some w" "kf w = k" for j w
  proof -
    have "i = j" using uniq [OF v(1) w(1)] kf [OF v(1,3)] w(2) by simp
    with v(1,2) w(1) show ?thesis by simp
  qed
  then have "k |\<notin>| keys_of kf p tbl" by (auto simp: keys_of_iff)
  with index_ok_key [OF ok v(1,3)] show "fmlookup (fmdrop_fset (keys_of kf p tbl) idx) k = Some i"
    by simp
qed

lemma index_ok_map:
  assumes "\<And>v. key (f v) = key v"
  shows "index_ok key (fmmap f tbl) idx \<longleftrightarrow> index_ok key tbl idx"
proof -
  have "(\<exists>v. fmlookup (fmmap f tbl) i = Some v \<and> key v = Some k) \<longleftrightarrow>
      (\<exists>v. fmlookup tbl i = Some v \<and> key v = Some k)" for i k
    using assms by (cases "fmlookup tbl i") auto
  then show ?thesis by (simp only: index_ok_def)
qed

section \<open>Indexes that reserve\<close>

text \<open>
  An index that holds the key of every record that has one, and maybe keys of records that
  are gone: the URIs and names of deleted agents stay reserved.
\<close>

definition index_covers :: "('v \<Rightarrow> string option) \<Rightarrow> 'v gomap \<Rightarrow> string gomap \<Rightarrow> bool" where
  "index_covers key tbl idx \<longleftrightarrow>
     (\<forall>i v k. fmlookup tbl i = Some v \<longrightarrow> key v = Some k \<longrightarrow> fmlookup idx k = Some i)"

lemma index_covers_empty [simp]: "index_covers key fmempty idx"
  by (simp add: index_covers_def)

lemma index_covers_key:
  "index_covers key tbl idx \<Longrightarrow> fmlookup tbl i = Some v \<Longrightarrow> key v = Some k \<Longrightarrow> fmlookup idx k = Some i"
  by (simp add: index_covers_def)

lemma index_covers_unique:
  "index_covers key tbl idx \<Longrightarrow> fmlookup tbl i = Some v \<Longrightarrow> fmlookup tbl j = Some w \<Longrightarrow>
    key v = Some k \<Longrightarrow> key w = Some k \<Longrightarrow> i = j"
  using index_covers_key [of key tbl idx i v k] index_covers_key [of key tbl idx j w k] by simp

lemma index_ok_covers: "index_ok key tbl idx \<Longrightarrow> index_covers key tbl idx"
  by (auto simp: index_ok_def index_covers_def)

lemma index_covers_insert:
  assumes "index_covers key tbl idx" and "key v = Some k"
    and "fmlookup idx k = None \<or> fmlookup idx k = Some i"
  shows "index_covers key (fmupd i v tbl) (fmupd k i idx)"
  using assms unfolding index_covers_def by (auto split: if_splits)

lemma index_covers_insert_unindexed:
  assumes "index_covers key tbl idx" and "key v = None"
  shows "index_covers key (fmupd i v tbl) idx"
  using assms unfolding index_covers_def by (auto split: if_splits)

lemma index_covers_update:
  assumes "index_covers key tbl idx" and "fmlookup tbl i = Some v" and "key v' = key v"
  shows "index_covers key (fmupd i v' tbl) idx"
  using assms unfolding index_covers_def by (auto split: if_splits)

lemma index_covers_unindex:
  assumes "index_covers key tbl idx" and "fmlookup tbl i = Some v" and "key v = Some k"
    and "key v' = None"
  shows "index_covers key (fmupd i v' tbl) (fmdrop k idx)"
  unfolding index_covers_def
proof (intro allI impI)
  fix j w k'
  assume "fmlookup (fmupd i v' tbl) j = Some w" and "key w = Some k'"
  moreover from this have "j \<noteq> i" using assms(4) by auto
  ultimately have w: "fmlookup tbl j = Some w" "key w = Some k'" by auto
  with \<open>j \<noteq> i\<close> index_covers_unique [OF assms(1) w(1) assms(2)] assms(3) have "k' \<noteq> k" by auto
  with index_covers_key [OF assms(1) w] show "fmlookup (fmdrop k idx) k' = Some j" by simp
qed

lemma index_covers_drop:
  "index_covers key tbl idx \<Longrightarrow> index_covers key (fmdrop i tbl) idx"
  unfolding index_covers_def by (auto split: if_splits)

lemma index_covers_delete_if:
  "index_covers key tbl idx \<Longrightarrow> index_covers key (fmdelete_if p tbl) idx"
  unfolding index_covers_def by (auto split: option.splits)

lemma index_covers_rekey:
  assumes "index_covers key tbl idx" and "fmlookup tbl i = Some v" and "key v = Some k"
    and "key v' = Some k'" and "fmlookup idx k' = None \<or> fmlookup idx k' = Some i"
  shows "index_covers key (fmupd i v' tbl) (fmupd k' i (fmdrop k idx))"
  unfolding index_covers_def
proof (intro allI impI)
  fix j w l
  assume j: "fmlookup (fmupd i v' tbl) j = Some w" and l: "key w = Some l"
  show "fmlookup (fmupd k' i (fmdrop k idx)) l = Some j"
  proof (cases "j = i")
    case True
    with j l assms(4) show ?thesis by auto
  next
    case False
    with j have w: "fmlookup tbl j = Some w" by simp
    have "fmlookup idx l = Some j" by (rule index_covers_key [OF assms(1) w l])
    moreover have "l \<noteq> k" using False index_covers_unique [OF assms(1) w assms(2)] l assms(3) by auto
    moreover have "l \<noteq> k'" using False assms(5) \<open>fmlookup idx l = Some j\<close> by auto
    ultimately show ?thesis by simp
  qed
qed

lemma index_covers_claim:
  assumes "index_covers key tbl idx" and "key v = Some k"
    and "\<And>j w. fmlookup tbl j = Some w \<Longrightarrow> key w = Some k \<Longrightarrow> j = i"
  shows "index_covers key (fmupd i v tbl) (fmupd k i idx)"
  using assms unfolding index_covers_def by (auto split: if_splits)

section \<open>Indexes that only promise what they hold\<close>

definition index_sound :: "('v \<Rightarrow> string option) \<Rightarrow> 'v gomap \<Rightarrow> string gomap \<Rightarrow> bool" where
  "index_sound key tbl idx \<longleftrightarrow>
     (\<forall>k i. fmlookup idx k = Some i \<longrightarrow> (\<exists>v. fmlookup tbl i = Some v \<and> key v = Some k))"

lemma index_sound_empty [simp]: "index_sound key tbl fmempty"
  by (simp add: index_sound_def)

lemma index_sound_lookup:
  "index_sound key tbl idx \<Longrightarrow> fmlookup idx k = Some i \<Longrightarrow> \<exists>v. fmlookup tbl i = Some v \<and> key v = Some k"
  by (simp add: index_sound_def)

lemma index_sound_insert:
  assumes "index_sound key tbl idx" and "fmlookup tbl i = None" and "key v = Some k"
  shows "index_sound key (fmupd i v tbl) (fmupd k i idx)"
  unfolding index_sound_def
proof (intro allI impI)
  fix l j
  assume "fmlookup (fmupd k i idx) l = Some j"
  then show "\<exists>w. fmlookup (fmupd i v tbl) j = Some w \<and> key w = Some l"
    using index_sound_lookup [OF assms(1), of l j] assms(2,3)
    by (cases "l = k"; cases "j = i") auto
qed

lemma index_sound_update:
  assumes "index_sound key tbl idx" and "fmlookup tbl i = Some v" and "key v' = key v"
  shows "index_sound key (fmupd i v' tbl) idx"
  unfolding index_sound_def
proof (intro allI impI)
  fix l j
  assume "fmlookup idx l = Some j"
  from index_sound_lookup [OF assms(1) this] assms(2,3)
  show "\<exists>w. fmlookup (fmupd i v' tbl) j = Some w \<and> key w = Some l"
    by (cases "j = i") auto
qed

text \<open>A record whose key is dropped may change in any way.\<close>

lemma index_sound_drop_key:
  assumes "index_sound key tbl idx" and "fmlookup tbl i = Some v" and "\<And>k'. key v = Some k' \<Longrightarrow> k' = k"
  shows "index_sound key (fmupd i v' tbl) (fmdrop k idx)"
  unfolding index_sound_def
proof (intro allI impI)
  fix l j
  assume "fmlookup (fmdrop k idx) l = Some j"
  then have "l \<noteq> k" and "fmlookup idx l = Some j" by (auto split: if_splits)
  with index_sound_lookup [OF assms(1), of l j] obtain w
    where "fmlookup tbl j = Some w" "key w = Some l" by blast
  with assms(2,3) \<open>l \<noteq> k\<close> show "\<exists>w. fmlookup (fmupd i v' tbl) j = Some w \<and> key w = Some l"
    by (cases "j = i") auto
qed

lemma index_sound_delete_if:
  assumes "index_sound key tbl idx"
    and "\<And>i v k. fmlookup tbl i = Some v \<Longrightarrow> p i v \<Longrightarrow> key v = Some k \<Longrightarrow> q v \<and> kf v = k"
  shows "index_sound key (fmdelete_if p tbl) (fmdrop_fset (keys_of kf (\<lambda>i v. p i v \<and> q v) tbl) idx)"
  unfolding index_sound_def
proof (intro allI impI)
  fix k i
  assume "fmlookup (fmdrop_fset (keys_of kf (\<lambda>i v. p i v \<and> q v) tbl) idx) k = Some i"
  then have idx: "fmlookup idx k = Some i"
    and none: "\<not> (\<exists>j w. fmlookup tbl j = Some w \<and> (p j w \<and> q w) \<and> kf w = k)"
    by (auto simp: keys_of_iff split: if_splits)
  from index_sound_lookup [OF assms(1) idx] obtain v where "fmlookup tbl i = Some v" "key v = Some k"
    by blast
  moreover have "\<not> p i v"
    using none calculation assms(2) [OF calculation(1) _ calculation(2)] by blast
  ultimately show "\<exists>v. fmlookup (fmdelete_if p tbl) i = Some v \<and> key v = Some k" by simp
qed

end
