(* ===== verification/Humans.thy ===== *)
theory Humans
  imports Store Index GoTime
begin

text \<open>
  The humans of \<^verbatim>\<open>internal/store/memory.go\<close>: creation on first sign-in, profile, handle and
  presence, and the search for a free handle.
\<close>

section \<open>The code\<close>

text \<open>
  The loop of \<^verbatim>\<open>claimUniqueHumanHandleLocked\<close> has no bound: it is the value \<^term>\<open>None\<close> where it
  does not return.
\<close>

definition handle_prefix :: "string \<Rightarrow> nat \<Rightarrow> string" where
  "handle_prefix candidate suffixLen =
     (let prefixMax = (if 64 - int suffixLen < 1 then 1 else nat (64 - int suffixLen)) in
      if length candidate > prefixMax then
        let prefix = trim_by is_sep (take prefixMax candidate)
        in if prefix = [] then ''human'' else prefix
      else candidate)"

definition handle_attempt :: "string \<Rightarrow> nat \<Rightarrow> string" where
  "handle_attempt candidate i =
     (let suffix = ''-'' @ show_nat i in handle_prefix candidate (length suffix) @ suffix)"

definition handle_free :: "string gomap \<Rightarrow> string \<Rightarrow> string \<Rightarrow> bool" where
  "handle_free idx handle humanID =
     (case fmlookup idx handle of None \<Rightarrow> True | Some existingID \<Rightarrow> existingID = humanID)"

partial_function (option) claim_loop ::
  "string gomap \<Rightarrow> string \<Rightarrow> string \<Rightarrow> nat \<Rightarrow> string option" where
  "claim_loop idx candidate humanID i =
     (let nxt = handle_attempt candidate i in
      if ValidateHandle nxt = None \<and> handle_free idx nxt humanID then Some nxt
      else claim_loop idx candidate humanID (i + 1))"

declare claim_loop.simps [code]

definition handle_candidate :: "string \<Rightarrow> string" where
  "handle_candidate base =
     (let candidate = normalizeHumanHandleCandidate base
      in if ValidateHandle candidate = None then candidate else ''human'')"

definition claimUniqueHumanHandleLocked ::
  "memory_store \<Rightarrow> string \<Rightarrow> string \<Rightarrow> string option" where
  "claimUniqueHumanHandleLocked s base humanID =
     (let candidate = handle_candidate base in
      if handle_free (humanByHandle s) candidate humanID then Some candidate
      else claim_loop (humanByHandle s) candidate humanID 2)"

definition zero_human :: human where
  "zero_human = \<lparr>Human_HumanID = [], Human_Handle = [], Human_HandleConfirmedAt = None,
     Human_AuthProvider = [], Human_AuthSubject = [], Human_Email = [],
     Human_EmailVerified = False, Human_Metadata = fmempty, Human_CreatedAt = 0\<rparr>"

definition human_at :: "memory_store \<Rightarrow> string \<Rightarrow> human" where
  "human_at s humanID =
     (case fmlookup (humans s) humanID of None \<Rightarrow> zero_human | Some h \<Rightarrow> h)"

definition UpsertHuman ::
  "string \<Rightarrow> string \<Rightarrow> string \<Rightarrow> bool \<Rightarrow> time \<Rightarrow> store_error + string \<Rightarrow> memory_store \<Rightarrow>
    ((store_error + human) \<times> memory_store) option" where
  "UpsertHuman provider subject email emailVerified now idFactory s =
     (let key = authKey provider subject in
      case fmlookup (humanByAuthKey s) key of
        Some humanID \<Rightarrow>
          let h = human_at s humanID;
              h = (if email \<noteq> [] \<and> \<not> EqualFold (Human_Email h) email
                   then h\<lparr>Human_Email := email\<rparr> else h);
              h = h\<lparr>Human_EmailVerified := emailVerified\<rparr>
          in (case (if Human_Handle h = []
                    then claimUniqueHumanHandleLocked s (normalizeHumanHandleCandidate subject) humanID
                    else Some (Human_Handle h)) of
               None \<Rightarrow> None
             | Some hdl \<Rightarrow>
                 let h = h\<lparr>Human_Handle := hdl\<rparr>
                 in Some (Inr h, s\<lparr>humans := fmupd humanID h (humans s),
                      humanByHandle := fmupd (Human_Handle h) (Human_HumanID h) (humanByHandle s)\<rparr>))
      | None \<Rightarrow>
          (case idFactory of
             Inl e \<Rightarrow> Some (Inl e, s)
           | Inr humanID \<Rightarrow>
               (case claimUniqueHumanHandleLocked s (normalizeHumanHandleCandidate subject) [] of
                  None \<Rightarrow> None
                | Some hdl \<Rightarrow>
                    let h = \<lparr>Human_HumanID = humanID, Human_Handle = hdl,
                          Human_HandleConfirmedAt = None, Human_AuthProvider = provider,
                          Human_AuthSubject = subject, Human_Email = email,
                          Human_EmailVerified = emailVerified, Human_Metadata = fmempty,
                          Human_CreatedAt = now\<rparr>
                    in Some (Inr h, s\<lparr>humans := fmupd humanID h (humans s),
                         humanByAuthKey := fmupd key humanID (humanByAuthKey s),
                         humanByHandle := fmupd (Human_Handle h) (Human_HumanID h)
                           (humanByHandle s)\<rparr>))))"

definition UpdateHumanProfile ::
  "string \<Rightarrow> string \<Rightarrow> bool \<Rightarrow> time \<Rightarrow> memory_store \<Rightarrow> (store_error + human) \<times> memory_store" where
  "UpdateHumanProfile humanID handle confirmHandle now s =
     (case fmlookup (humans s) humanID of
        None \<Rightarrow> (Inl ErrHumanNotFound, s)
      | Some h \<Rightarrow>
          let nextHandle = normalizeHumanHandleCandidate handle in
          if handle \<noteq> [] \<and> ValidateHandle nextHandle \<noteq> None then (Inl ErrInvalidHandle, s)
          else if handle \<noteq> [] \<and> \<not> handle_free (humanByHandle s) nextHandle humanID
          then (Inl ErrHumanHandleTaken, s)
          else
            let idx = (if handle = [] then humanByHandle s
                  else fmupd nextHandle humanID
                    (if Human_Handle h \<noteq> [] \<and> Human_Handle h \<noteq> nextHandle
                     then fmdrop (Human_Handle h) (humanByHandle s) else humanByHandle s));
                h = (if handle = [] then h else h\<lparr>Human_Handle := nextHandle\<rparr>);
                h = (if confirmHandle then h\<lparr>Human_HandleConfirmedAt := Some now\<rparr> else h)
            in (Inr h, s\<lparr>humanByHandle := idx, humans := fmupd humanID h (humans s)\<rparr>))"

definition UpdateHumanMetadata ::
  "string \<Rightarrow> gmap \<Rightarrow> time \<Rightarrow> memory_store \<Rightarrow> (store_error + human) \<times> memory_store" where
  "UpdateHumanMetadata humanID metadata now s =
     (case fmlookup (humans s) humanID of
        None \<Rightarrow> (Inl ErrHumanNotFound, s)
      | Some h \<Rightarrow>
          let h = h\<lparr>Human_Metadata := fmdrop HumanMetadataKeyPresence metadata\<rparr>
          in (Inr h, s\<lparr>humans := fmupd humanID h (humans s)\<rparr>))"

definition trim_field :: "string \<Rightarrow> gmap \<Rightarrow> gmap" where
  "trim_field key out =
     (let v = TrimSpace (stringValue (gget out key)) in if v \<noteq> [] then fmupd key (GStr v) out else out)"

definition normalizeAgentPresence :: "gmap \<Rightarrow> gmap" where
  "normalizeAgentPresence presence =
     (if presence = fmempty then fmempty
      else
        let out = presence;
            status = ToLower (TrimSpace (stringValue (gget out ''status'')));
            out = (if status \<noteq> [] then fmupd ''status'' (GStr status) out else out)
        in trim_field ''updated_at'' (trim_field ''session_key'' (trim_field ''transport'' out)))"

definition normalizeHumanPresence :: "gmap \<Rightarrow> gmap" where
  "normalizeHumanPresence presence = normalizeAgentPresence presence"

definition presence_status :: "gmap \<Rightarrow> string" where
  "presence_status p = ToLower (TrimSpace (stringValue (gget p ''status'')))"

definition presence_at :: "gmap gomap \<Rightarrow> string \<Rightarrow> gmap" where
  "presence_at m k = (case fmlookup m k of None \<Rightarrow> fmempty | Some p \<Rightarrow> p)"

definition SetHumanPresence ::
  "string \<Rightarrow> gmap \<Rightarrow> time \<Rightarrow> memory_store \<Rightarrow> (store_error + human \<times> bool) \<times> memory_store" where
  "SetHumanPresence humanID presence now s =
     (case fmlookup (humans s) humanID of
        None \<Rightarrow> (Inl ErrHumanNotFound, s)
      | Some human \<Rightarrow>
          let next = normalizeHumanPresence presence;
              next = (if fmlookup next ''updated_at'' = None
                      then fmupd ''updated_at'' (GStr (FormatRFC3339 now)) next else next);
              prevStatus = presence_status (presence_at (humanPresence s) humanID);
              nextStatus = presence_status next
          in (Inr (human, prevStatus \<noteq> nextStatus \<and> nextStatus \<noteq> []),
              s\<lparr>humanPresence := fmupd humanID next (humanPresence s)\<rparr>))"

definition GetHumanPresence :: "string \<Rightarrow> memory_store \<Rightarrow> store_error + gmap option" where
  "GetHumanPresence humanID s =
     (if fmlookup (humans s) humanID = None then Inl ErrHumanNotFound
      else
        let presence = presence_at (humanPresence s) humanID
        in if presence = fmempty then Inr None else Inr (Some presence))"

definition GetHuman :: "string \<Rightarrow> memory_store \<Rightarrow> store_error + human" where
  "GetHuman humanID s =
     (case fmlookup (humans s) humanID of None \<Rightarrow> Inl ErrHumanNotFound | Some h \<Rightarrow> Inr h)"

section \<open>The search for a free handle\<close>

lemma claim_loop_sound:
  assumes "claim_loop idx candidate humanID i = Some r"
  shows "ValidateHandle r = None \<and> handle_free idx r humanID"
proof (rule claim_loop.raw_induct [where P = "\<lambda>idx candidate humanID i r.
    ValidateHandle r = None \<and> handle_free idx r humanID", OF _ assms], goal_cases)
  case (1 rec idx candidate humanID i r)
  then show ?case unfolding Let_def by (auto split: if_splits)
qed

lemma ValidateHandle_human [simp]: "ValidateHandle ''human'' = None"
  by code_simp

lemma handle_candidate_valid: "ValidateHandle (handle_candidate base) = None"
  by (simp add: handle_candidate_def Let_def)

lemma claimUnique_sound:
  "claimUniqueHumanHandleLocked s base humanID = Some r \<Longrightarrow>
    ValidateHandle r = None \<and> handle_free (humanByHandle s) r humanID"
  by (auto simp: claimUniqueHumanHandleLocked_def Let_def handle_candidate_valid
      dest: claim_loop_sound split: if_splits)

lemma claim_loop_terminates:
  assumes "i \<le> n" and "ValidateHandle (handle_attempt candidate n) = None"
    and "handle_free idx (handle_attempt candidate n) humanID"
  shows "\<exists>r. claim_loop idx candidate humanID i = Some r"
  using assms(1)
proof (induction "n - i" arbitrary: i)
  case 0
  then have "i = n" by simp
  with assms(2,3) show ?case by (subst claim_loop.simps) (simp add: Let_def)
next
  case (Suc d)
  then have "d = n - (i + 1)" and "i + 1 \<le> n" by simp_all
  from Suc.hyps(1) [OF this] show ?case by (subst claim_loop.simps) (simp add: Let_def)
qed

text \<open>A candidate that leaves room for the suffix is kept whole, and stays valid.\<close>

lemma IsBlocked_suffix:
  assumes h: "ValidateHandle h = None" and d: "d \<noteq> []" "\<forall>c \<in> set d. is_digit c"
  shows "\<not> IsBlocked (h @ CHR ''-'' # d)"
proof -
  have lower: "list_all is_lower w" if "w \<in> blockedSet" for w
  proof -
    have "\<forall>w \<in> blockedSet. list_all is_lower w"
      by (simp add: blockedSet_def is_lower_def less_eq_char_def)
    with that show ?thesis by blast
  qed
  have digit: "\<not> is_lower c" if "is_digit c" for c
    using that by (auto simp: is_digit_def is_lower_def less_eq_char_def)
  have alnum: "is_alnum c" if "c \<in> set d" for c
    using d(2) that by (simp add: is_alnum_def)
  have chars: "list_all (\<lambda>c. is_alnum c \<or> is_sep c) (h @ CHR ''-'' # d)"
    using ValidateHandle_chars [OF h] alnum by (auto simp: list_all_iff is_sep_def)
  have norm: "ToLower (TrimSpace (h @ CHR ''-'' # d)) = h @ CHR ''-'' # d"
    by (simp only: canonical_trim [OF chars] canonical_lower [OF chars])
  have hchars: "list_all (\<lambda>c. is_alnum c \<or> is_sep c) h"
    using ValidateHandle_chars [OF h] by (auto simp: list_all_iff)
  have hnorm: "ToLower (TrimSpace h) = h"
    by (simp only: canonical_trim [OF hchars] canonical_lower [OF hchars])
  have "\<not> is_alnum (CHR ''-'')"
    by (simp add: is_alnum_def is_lower_def is_digit_def less_eq_char_def)
  then have tokens: "splitAlphaNumTokens (h @ CHR ''-'' # d) = splitAlphaNumTokens h @ [d]"
    using d alnum by (simp add: splitAlphaNumTokens_def FieldsFunc_def split_by_append split_by_none)
  have compact: "compactAlphaNum (h @ CHR ''-'' # d) = compactAlphaNum h @ d"
    using \<open>\<not> is_alnum (CHR ''-'')\<close> alnum by (simp add: compactAlphaNum_def filter_id_conv)
  have nb: "w @ d \<notin> blockedSet" for w
    using d lower [of "w @ d"] digit by (cases d) auto
  have "h \<noteq> []" using h by auto
  have "\<not> IsBlocked h" using h by (auto simp: ValidateHandle_def split: if_splits)
  then show ?thesis
    using nb [of "[]"] nb [of "compactAlphaNum h"] d(1) \<open>h \<noteq> []\<close>
    by (auto simp: IsBlocked_def Let_def norm hnorm tokens compact split: if_splits)
qed

lemma handle_attempt_valid:
  assumes h: "ValidateHandle h = None" and len: "length h + 1 + length (show_nat i) \<le> MaxLength"
  shows "handle_attempt h i = h @ CHR ''-'' # show_nat i"
    and "ValidateHandle (h @ CHR ''-'' # show_nat i) = None"
proof -
  show "handle_attempt h i = h @ CHR ''-'' # show_nat i"
  proof -
    have "length h \<le> (if 64 - int (length (''-'' @ show_nat i)) < 1 then 1
        else nat (64 - int (length (''-'' @ show_nat i))))"
      using len by auto
    then show ?thesis
      unfolding handle_attempt_def handle_prefix_def Let_def
      by (subst if_not_P [OF iffD2 [OF not_less]]) simp_all
  qed
  obtain c cs where hc: "h = c # cs" and "handleRegex h"
    using h by (cases h) (auto simp: ValidateHandle_def split: if_splits)
  moreover have "\<forall>d \<in> set (show_nat i). is_alnum d"
    using show_nat_digits by (auto simp: is_alnum_def)
  ultimately have "handleRegex (h @ CHR ''-'' # show_nat i)"
    using len by (auto simp: list_all_iff)
  with IsBlocked_suffix [OF h, of "show_nat i"] show_nat_digits
  show "ValidateHandle (h @ CHR ''-'' # show_nat i) = None"
    by (auto simp: ValidateHandle_def)
qed

lemma free_attempt_exists:
  assumes h: "ValidateHandle h = None" and len: "length h + 1 + k \<le> MaxLength"
    and room: "fmsize idx + 3 \<le> 10 ^ k"
  shows "\<exists>n \<ge> 2. ValidateHandle (handle_attempt h n) = None \<and> fmlookup idx (handle_attempt h n) = None"
proof -
  have kpos: "0 < k" using room by (cases k) auto
  have digits: "length (show_nat n) \<le> k" if "n < fmsize idx + 3" for n
    using that room kpos by (intro length_show_nat) auto
  have attempt: "handle_attempt h n = h @ CHR ''-'' # show_nat n"
    and valid: "ValidateHandle (handle_attempt h n) = None" if "n < fmsize idx + 3" for n
    using handle_attempt_valid [OF h, of n] digits [OF that] len by simp_all
  have "inj_on (handle_attempt h) {2..<2 + fmsize idx + 1}"
    by (rule inj_onI) (simp add: attempt)
  from fresh_key_exists [OF this] obtain n where "2 \<le> n" "n < 2 + fmsize idx + 1"
    "fmlookup idx (handle_attempt h n) = None" by blast
  with valid [of n] show ?thesis by auto
qed

lemma claimUnique_returns:
  assumes len: "length (handle_candidate base) + 1 + k \<le> MaxLength"
    and room: "fmsize (humanByHandle s) + 3 \<le> 10 ^ k"
  shows "\<exists>r. claimUniqueHumanHandleLocked s base humanID = Some r"
proof -
  obtain n where "2 \<le> n" and "ValidateHandle (handle_attempt (handle_candidate base) n) = None"
    and "fmlookup (humanByHandle s) (handle_attempt (handle_candidate base) n) = None"
    using free_attempt_exists [OF handle_candidate_valid len room] by blast
  then have "\<exists>r. claim_loop (humanByHandle s) (handle_candidate base) humanID 2 = Some r"
    by (intro claim_loop_terminates [where n = n]) (simp_all add: handle_free_def)
  then show ?thesis by (simp add: claimUniqueHumanHandleLocked_def Let_def)
qed

text \<open>
  C39: the search for a human handle returns, as long as the candidate leaves room for a dash
  and a \<open>k\<close>-digit counter and fewer than \<open>10 ^ k - 2\<close> handles are taken, and what it returns
  is a valid handle that nobody but the human itself holds.
\<close>

theorem claimUniqueHumanHandle_correct:
  assumes "length (handle_candidate base) + 1 + k \<le> MaxLength"
    and "fmsize (humanByHandle s) + 3 \<le> 10 ^ k"
  shows "\<exists>r. claimUniqueHumanHandleLocked s base humanID = Some r \<and> ValidateHandle r = None \<and>
    (\<forall>other. fmlookup (humanByHandle s) r = Some other \<longrightarrow> other = humanID)"
  using claimUnique_returns [OF assms] claimUnique_sound
  by (fastforce simp: handle_free_def split: option.splits)

definition alice_taken :: memory_store where
  "alice_taken = NewMemoryStore\<lparr>humanByHandle := fmupd ''alice'' ''h1'' fmempty\<rparr>"

theorem claimUniqueHumanHandle_correct_witness:
  "claimUniqueHumanHandleLocked alice_taken ''Alice'' ''h2'' = Some ''alice-2'' \<and>
   (\<exists>r. claimUniqueHumanHandleLocked alice_taken ''Alice'' ''h2'' = Some r \<and>
     ValidateHandle r = None \<and>
     (\<forall>other. fmlookup (humanByHandle alice_taken) r = Some other \<longrightarrow> other = ''h2''))"
proof
  have cand: "handle_candidate ''Alice'' = ''alice''" by code_simp
  have size: "fmsize (humanByHandle alice_taken) = 1"
    by (simp add: alice_taken_def fmsize_upd_new)
  have att: "handle_attempt ''alice'' 2 = ''alice-2''" and "ValidateHandle ''alice-2'' = None"
    by code_simp+
  then show "claimUniqueHumanHandleLocked alice_taken ''Alice'' ''h2'' = Some ''alice-2''"
    by (simp add: claimUniqueHumanHandleLocked_def cand handle_free_def alice_taken_def)
      (subst claim_loop.simps, simp add: handle_free_def Let_def)
  show "\<exists>r. claimUniqueHumanHandleLocked alice_taken ''Alice'' ''h2'' = Some r \<and>
     ValidateHandle r = None \<and>
     (\<forall>other. fmlookup (humanByHandle alice_taken) r = Some other \<longrightarrow> other = ''h2'')"
    using claimUniqueHumanHandle_correct [of "''Alice''" 1 alice_taken "''h2''"] cand size by simp
qed

section \<open>Handles identify humans\<close>

definition humans_wf :: "memory_store \<Rightarrow> bool" where
  "humans_wf s \<longleftrightarrow>
     index_ok (\<lambda>h. Some (Human_Handle h)) (humans s) (humanByHandle s) \<and>
     (\<forall>i h. fmlookup (humans s) i = Some h \<longrightarrow>
        Human_HumanID h = i \<and> i \<noteq> [] \<and> ValidateHandle (Human_Handle h) = None) \<and>
     (\<forall>k i. fmlookup (humanByAuthKey s) k = Some i \<longrightarrow> (\<exists>h. fmlookup (humans s) i = Some h))"

lemma humans_wf_free:
  assumes "humans_wf s" and "handle_free (humanByHandle s) handle humanID"
  shows "fmlookup (humanByHandle s) handle = None \<or> fmlookup (humanByHandle s) handle = Some humanID"
  using assms(2) by (auto simp: handle_free_def split: option.splits)

lemma humans_wf_no_empty:
  assumes "humans_wf s" and "handle_free (humanByHandle s) handle []"
  shows "fmlookup (humanByHandle s) handle = None"
  using assms index_ok_lookup [of _ "humans s" "humanByHandle s"]
  by (fastforce simp: handle_free_def humans_wf_def split: option.splits)

lemma UpsertHuman_wf [wf_intros]:
  assumes wf: "humans_wf s"
    and fresh: "\<And>i. idFactory = Inr i \<Longrightarrow> i \<noteq> [] \<and> fmlookup (humans s) i = None"
    and run: "UpsertHuman provider subject email emailVerified now idFactory s = Some (r, s')"
  shows "humans_wf s'"
proof (cases "fmlookup (humanByAuthKey s) (authKey provider subject)")
  case (Some i)
  then obtain h where h: "fmlookup (humans s) i = Some h" and id: "Human_HumanID h = i" "i \<noteq> []"
    and valid: "ValidateHandle (Human_Handle h) = None"
    using wf unfolding humans_wf_def by blast
  have ne: "Human_Handle h \<noteq> []" using ValidateHandle_ne [OF valid] .
  let ?h = "(if email \<noteq> [] \<and> \<not> EqualFold (Human_Email h) email
      then h\<lparr>Human_Email := email\<rparr> else h)\<lparr>Human_EmailVerified := emailVerified\<rparr>"
  have "s' = s\<lparr>humans := fmupd i ?h (humans s),
      humanByHandle := fmupd (Human_Handle h) i (humanByHandle s)\<rparr>"
    using run Some h id ne by (auto simp: UpsertHuman_def Let_def human_at_def split: if_splits)
  then obtain h' where h': "Human_Handle h' = Human_Handle h" "Human_HumanID h' = i"
    and s': "s' = s\<lparr>humans := fmupd i h' (humans s),
      humanByHandle := fmupd (Human_Handle h) i (humanByHandle s)\<rparr>"
    using that [of ?h] id by (simp split: if_splits)
  have "index_ok (\<lambda>h. Some (Human_Handle h)) (humans s') (humanByHandle s')"
    using wf index_ok_rekey_keep [of "\<lambda>h. Some (Human_Handle h)", OF _ h, of _ "Human_Handle h" h'] h'
    unfolding s' humans_wf_def by simp
  with wf h' id valid h show ?thesis
    by (auto simp: s' humans_wf_def)
next
  case None
  show ?thesis
  proof (cases idFactory)
    case (Inl e)
    with run None wf show ?thesis by (simp add: UpsertHuman_def)
  next
    case (Inr i)
    with run None obtain hdl where claim: "claimUniqueHumanHandleLocked s
        (normalizeHumanHandleCandidate subject) [] = Some hdl"
      by (auto simp: UpsertHuman_def Let_def split: option.splits)
    from claimUnique_sound [OF claim] have valid: "ValidateHandle hdl = None"
      and free: "fmlookup (humanByHandle s) hdl = None"
      using humans_wf_no_empty [OF wf] by auto
    define h where "h = \<lparr>Human_HumanID = i, Human_Handle = hdl, Human_HandleConfirmedAt = None,
      Human_AuthProvider = provider, Human_AuthSubject = subject, Human_Email = email,
      Human_EmailVerified = emailVerified, Human_Metadata = fmempty, Human_CreatedAt = now\<rparr>"
    then have h: "Human_Handle h = hdl" "Human_HumanID h = i" by simp_all
    from run None Inr claim have s': "s' = s\<lparr>humans := fmupd i h (humans s),
        humanByAuthKey := fmupd (authKey provider subject) i (humanByAuthKey s),
        humanByHandle := fmupd hdl i (humanByHandle s)\<rparr>"
      by (simp add: UpsertHuman_def Let_def h_def)
    have "index_ok (\<lambda>h. Some (Human_Handle h)) (humans s') (humanByHandle s')"
      using wf h fresh [OF Inr] free unfolding s' humans_wf_def
      by (auto intro!: index_ok_insert)
    with wf h valid fresh [OF Inr] show ?thesis
      by (auto simp: s' humans_wf_def)
  qed
qed

lemma UpdateHumanProfile_wf [wf_intros]:
  assumes wf: "humans_wf s"
  shows "humans_wf (snd (UpdateHumanProfile humanID handle confirm now s))"
proof (cases "fst (UpdateHumanProfile humanID handle confirm now s)")
  case (Inl e)
  then have "snd (UpdateHumanProfile humanID handle confirm now s) = s"
    by (auto simp: UpdateHumanProfile_def Let_def split: option.splits if_splits)
  with wf show ?thesis by simp
next
  case (Inr h')
  let ?n = "normalizeHumanHandleCandidate handle"
  from Inr obtain h where h: "fmlookup (humans s) humanID = Some h"
    and ok: "handle \<noteq> [] \<Longrightarrow> ValidateHandle ?n = None \<and> handle_free (humanByHandle s) ?n humanID"
    by (auto simp: UpdateHumanProfile_def Let_def split: option.splits if_splits)
  have id: "Human_HumanID h = humanID" "humanID \<noteq> []" and valid: "ValidateHandle (Human_Handle h) = None"
    and idx: "index_ok (\<lambda>h. Some (Human_Handle h)) (humans s) (humanByHandle s)"
    using wf h by (auto simp: humans_wf_def)
  have ne: "Human_Handle h \<noteq> []" using ValidateHandle_ne [OF valid] .
  have h': "Human_HumanID h' = humanID"
    "Human_Handle h' = (if handle = [] then Human_Handle h else ?n)"
    using Inr h ok id
    by (auto simp: UpdateHumanProfile_def Let_def split: option.splits if_splits)
  let ?idx = "if handle = [] then humanByHandle s
       else fmupd ?n humanID (if Human_Handle h \<noteq> ?n then fmdrop (Human_Handle h) (humanByHandle s)
         else humanByHandle s)"
  have s': "snd (UpdateHumanProfile humanID handle confirm now s) =
      s\<lparr>humanByHandle := ?idx, humans := fmupd humanID h' (humans s)\<rparr>"
    using Inr h ok ne
    by (auto simp: UpdateHumanProfile_def Let_def split: option.splits if_splits)
  have "index_ok (\<lambda>h. Some (Human_Handle h)) (fmupd humanID h' (humans s)) ?idx"
    using index_ok_update [OF idx h, of h'] index_ok_rekey [OF idx h, of _ h' ?n]
      index_ok_rekey_keep [OF idx h, of ?n h'] h' humans_wf_free [OF wf] ok
    by auto
  with wf h' id valid ok show ?thesis
    unfolding s' humans_wf_def by auto
qed

lemma UpdateHumanMetadata_wf [wf_intros]:
  assumes "humans_wf s"
  shows "humans_wf (snd (UpdateHumanMetadata humanID metadata now s))"
proof (cases "fmlookup (humans s) humanID")
  case None
  with assms show ?thesis by (simp add: UpdateHumanMetadata_def)
next
  case (Some h)
  with assms show ?thesis
    by (auto simp: UpdateHumanMetadata_def Let_def humans_wf_def
        intro!: index_ok_update [of _ "humans s" "humanByHandle s" humanID h])
qed

lemma SetHumanPresence_wf [wf_intros]:
  "humans_wf s \<Longrightarrow> humans_wf (snd (SetHumanPresence humanID presence now s))"
  by (auto simp: SetHumanPresence_def Let_def humans_wf_def split: option.splits)

end
