(* ===== verification/Agents.thy ===== *)
theory Agents
  imports Queue Metadata Humans
begin

text \<open>
  The agents of \<^verbatim>\<open>internal/store/memory.go\<close>: registration, bind tokens, token rotation,
  revocation and deletion, metadata and presence, handles and references.
\<close>

section \<open>Owners, names and URIs\<close>

text \<open>
  The checks on the owner that \<^verbatim>\<open>RegisterAgent\<close> and \<^verbatim>\<open>RedeemBindToken\<close> both make, up to the
  name index; \<open>denied\<close> is the check on the actor, which only \<^verbatim>\<open>RegisterAgent\<close> has.
\<close>

definition ownerHandleLocked ::
  "memory_store \<Rightarrow> string \<Rightarrow> string option \<Rightarrow> string \<Rightarrow> bool \<Rightarrow> store_error + string option" where
  "ownerHandleLocked s orgID ownerHumanID agentHandle denied =
     (case ownerHumanID of
        Some owner \<Rightarrow>
          if orgID \<noteq> [] \<and> membershipRoleLocked s orgID owner = [] then Inl ErrMembershipNotFound
          else if orgID = [] \<and> denied then Inl ErrUnauthorizedRole
          else (case fmlookup (humans s) owner of
              None \<Rightarrow> Inl ErrHumanNotFound
            | Some human \<Rightarrow>
                if ValidateHandle (Human_Handle human) \<noteq> None then Inl ErrInvalidHandle
                else if fmlookup (humanOwnedAgentNameIdx s)
                    (humanOwnedAgentNameKey orgID owner agentHandle) \<noteq> None
                then Inl ErrAgentExists
                else Inr (Some (Human_Handle human)))
      | None \<Rightarrow>
          if orgID = [] then Inl ErrMembershipNotFound
          else if fmlookup (orgOwnedAgentNameIdx s) (orgOwnedAgentNameKey orgID agentHandle) \<noteq> None
          then Inl ErrAgentExists
          else Inr None)"

definition agentURILocked ::
  "memory_store \<Rightarrow> string \<Rightarrow> string option \<Rightarrow> string \<Rightarrow> bool \<Rightarrow> store_error + string" where
  "agentURILocked s orgID ownerHandle agentHandle denied =
     (if orgID = [] then
        (case ownerHandle of
           None \<Rightarrow> Inl ErrMembershipNotFound
         | Some oh \<Rightarrow> Inr (BuildHumanAgentURI oh agentHandle))
      else (case fmlookup (orgs s) orgID of
          None \<Rightarrow> Inl ErrOrgNotFound
        | Some org \<Rightarrow>
            if denied then Inl ErrUnauthorizedRole
            else Inr (BuildAgentURI (Org_Handle org) ownerHandle agentHandle)))"

definition addNameKey ::
  "string \<Rightarrow> string option \<Rightarrow> string \<Rightarrow> string \<Rightarrow> memory_store \<Rightarrow> memory_store" where
  "addNameKey orgID ownerHumanID agentHandle agentUUID s =
     (case ownerHumanID of
        Some owner \<Rightarrow> s\<lparr>humanOwnedAgentNameIdx := fmupd (humanOwnedAgentNameKey orgID owner agentHandle)
          agentUUID (humanOwnedAgentNameIdx s)\<rparr>
      | None \<Rightarrow> s\<lparr>orgOwnedAgentNameIdx := fmupd (orgOwnedAgentNameKey orgID agentHandle)
          agentUUID (orgOwnedAgentNameIdx s)\<rparr>)"

definition dropNameKey :: "string \<Rightarrow> string option \<Rightarrow> string \<Rightarrow> memory_store \<Rightarrow> memory_store" where
  "dropNameKey orgID ownerHumanID agentHandle s =
     (case ownerHumanID of
        Some owner \<Rightarrow> s\<lparr>humanOwnedAgentNameIdx :=
          fmdrop (humanOwnedAgentNameKey orgID owner agentHandle) (humanOwnedAgentNameIdx s)\<rparr>
      | None \<Rightarrow> s\<lparr>orgOwnedAgentNameIdx :=
          fmdrop (orgOwnedAgentNameKey orgID agentHandle) (orgOwnedAgentNameIdx s)\<rparr>)"

text \<open>The new agent goes into the table, its indexes and an (empty) queue.\<close>

definition installAgent :: "agent \<Rightarrow> memory_store \<Rightarrow> memory_store" where
  "installAgent agent s =
     (let u = Agent_AgentUUID agent;
          s = s\<lparr>agents := fmupd u agent (agents s),
            agentByURI := fmupd (Agent_AgentID agent) u (agentByURI s),
            agentTokenIdx := fmupd (Agent_TokenHash agent) u (agentTokenIdx s)\<rparr>;
          s = addNameKey (Agent_OrgID agent) (Agent_OwnerHumanID agent) (Agent_Handle agent) u s
      in s\<lparr>queues := fmupd u (queue_of s u) (queues s)\<rparr>)"

definition agentCreationAuditDetails :: "agent \<Rightarrow> string \<Rightarrow> string \<Rightarrow> gmap" where
  "agentCreationAuditDetails agent creationFlow bindID0 =
     (let details = gmap_of
           [(''agent_id'', GStr (TrimSpace (Agent_AgentID agent))),
            (''agent_uuid'', GStr (TrimSpace (Agent_AgentUUID agent))),
            (''handle'', GStr (TrimSpace (Agent_Handle agent))),
            (''owner_human_id'', GStrPtr (Agent_OwnerHumanID agent)),
            (''creation_flow'', GStr (TrimSpace creationFlow))];
          bindID = TrimSpace bindID0
      in if bindID \<noteq> [] then fmupd ''bind_id'' (GStr bindID) details else details)"

section \<open>Registration\<close>

text \<open>\<open>newUUID\<close> is the result of \<^verbatim>\<open>newRandomUUID\<close>.\<close>

definition RegisterAgent ::
  "string \<Rightarrow> string \<Rightarrow> string option \<Rightarrow> string \<Rightarrow> string \<Rightarrow> time \<Rightarrow> bool \<Rightarrow> store_error + string \<Rightarrow>
    memory_store \<Rightarrow> (store_error + agent) \<times> memory_store" where
  "RegisterAgent orgID agentID ownerHumanID tokenHash actorHumanID now isSuperAdmin newUUID s =
     (let agentHandle = normalizeAgentNameKey agentID in
      if ValidateHandle agentHandle \<noteq> None then (Inl ErrInvalidHandle, s)
      else case ownerHandleLocked s orgID ownerHumanID agentHandle
          (\<not> isSuperAdmin \<and> Some actorHumanID \<noteq> ownerHumanID) of
        Inl e \<Rightarrow> (Inl e, s)
      | Inr ownerHandle \<Rightarrow>
      case agentURILocked s orgID ownerHandle agentHandle (\<not> isSuperAdmin \<and>
          \<not> hasRoleAtLeast (membershipRoleLocked s orgID actorHumanID) RoleMember) of
        Inl e \<Rightarrow> (Inl e, s)
      | Inr agentURI \<Rightarrow>
      if fmlookup (agentByURI s) agentURI \<noteq> None then (Inl ErrAgentExists, s)
      else case newUUID of
        Inl e \<Rightarrow> (Inl e, s)
      | Inr agentUUID \<Rightarrow>
          let agent = \<lparr>Agent_AgentUUID = agentUUID, Agent_AgentID = agentURI,
                Agent_Handle = agentHandle, Agent_HandleFinalizedAt = Some now,
                Agent_OrgID = orgID, Agent_OwnerHumanID = ownerHumanID, Agent_HostAgentUUID = [],
                Agent_TokenHash = tokenHash, Agent_Status = StatusActive,
                Agent_Metadata = defaultAgentMetadata, Agent_CreatedBy = actorHumanID,
                Agent_CreatedAt = now, Agent_RevokedAt = None\<rparr>;
              s = installAgent agent s;
              s = appendAuditLocked orgID actorHumanID ''agent'' ''create'' agentUUID
                (agentCreationAuditDetails agent ''register'' []) now s;
              s = (if orgID \<noteq> [] then
                appendAuditLocked orgID actorHumanID ''agent'' ''register'' agentUUID
                  (gmap_of [(''agent_id'', GStr agentURI), (''agent_uuid'', GStr agentUUID),
                    (''owner_human_id'', GStrPtr ownerHumanID), (''handle'', GStr agentHandle)])
                  now s else s)
          in (Inr agent, s))"

section \<open>Bind tokens\<close>

definition bindTokenAllowed ::
  "memory_store \<Rightarrow> string \<Rightarrow> string option \<Rightarrow> string \<Rightarrow> bool \<Rightarrow> store_error option" where
  "bindTokenAllowed s orgID ownerHumanID actorHumanID isSuperAdmin =
     (if orgID \<noteq> [] then
        (let actorRole = membershipRoleLocked s orgID actorHumanID in
         if fmlookup (orgs s) orgID = None then Some ErrOrgNotFound
         else if \<not> isSuperAdmin \<and> \<not> hasRoleAtLeast actorRole RoleMember then Some ErrUnauthorizedRole
         else case ownerHumanID of
           None \<Rightarrow> None
         | Some owner \<Rightarrow>
             if membershipRoleLocked s orgID owner = [] then Some ErrMembershipNotFound
             else if \<not> isSuperAdmin \<and> actorHumanID \<noteq> owner \<and> \<not> hasRoleAtLeast actorRole RoleAdmin
             then Some ErrUnauthorizedRole
             else None)
      else
        (case ownerHumanID of
           None \<Rightarrow> Some ErrMembershipNotFound
         | Some owner \<Rightarrow>
             if TrimSpace owner = [] then Some ErrMembershipNotFound
             else if fmlookup (humans s) owner = None then Some ErrMembershipNotFound
             else if \<not> isSuperAdmin \<and> actorHumanID \<noteq> owner then Some ErrUnauthorizedRole
             else None))"

definition putBind :: "bind_token \<Rightarrow> memory_store \<Rightarrow> memory_store" where
  "putBind bind s =
     s\<lparr>binds := fmupd (Bind_BindID bind) bind (binds s),
       bindByHash := fmupd (Bind_TokenHash bind) (Bind_BindID bind) (bindByHash s)\<rparr>"

definition CreateBindToken ::
  "string \<Rightarrow> string option \<Rightarrow> string \<Rightarrow> string \<Rightarrow> string \<Rightarrow> time \<Rightarrow> time \<Rightarrow> bool \<Rightarrow> memory_store \<Rightarrow>
    (store_error + bind_token) \<times> memory_store" where
  "CreateBindToken orgID ownerHumanID actorHumanID bindID bindTokenHash expiresAt now isSuperAdmin s =
     (case bindTokenAllowed s orgID ownerHumanID actorHumanID isSuperAdmin of
        Some e \<Rightarrow> (Inl e, s)
      | None \<Rightarrow>
          if fmlookup (bindByHash s) bindTokenHash \<noteq> None then (Inl ErrInvalidToken, s)
          else
            let bind = \<lparr>Bind_BindID = bindID, Bind_OrgID = orgID, Bind_OwnerHumanID = ownerHumanID,
                  Bind_HostAgentUUID = [], Bind_TokenHash = bindTokenHash,
                  Bind_CreatedBy = actorHumanID, Bind_CreatedAt = now, Bind_ExpiresAt = expiresAt,
                  Bind_UsedAt = None\<rparr>;
                s = putBind bind s;
                s = (if orgID \<noteq> [] then
                  appendAuditLocked orgID actorHumanID ''agent_bind'' ''create'' bindID
                    (gmap_of [(''owner_human_id'', GStrPtr ownerHumanID),
                      (''expires_at'', GTime expiresAt)]) now s else s)
            in (Inr bind, s))"

definition CreateAgentInviteBindToken ::
  "string \<Rightarrow> string \<Rightarrow> string \<Rightarrow> time \<Rightarrow> time \<Rightarrow> memory_store \<Rightarrow>
    (store_error + bind_token) \<times> memory_store" where
  "CreateAgentInviteBindToken hostAgentUUID bindID bindTokenHash expiresAt now s =
     (case fmlookup (agents s) (TrimSpace hostAgentUUID) of
        None \<Rightarrow> (Inl ErrAgentNotFound, s)
      | Some host \<Rightarrow>
          if Agent_Status host = StatusRevoked then (Inl ErrAgentNotFound, s)
          else if TrimSpace (Agent_HostAgentUUID host) \<noteq> [] then (Inl ErrHostedAgentRestricted, s)
          else if fmlookup (bindByHash s) bindTokenHash \<noteq> None then (Inl ErrInvalidToken, s)
          else
            let bind = \<lparr>Bind_BindID = bindID, Bind_OrgID = Agent_OrgID host,
                  Bind_OwnerHumanID = None, Bind_HostAgentUUID = Agent_AgentUUID host,
                  Bind_TokenHash = bindTokenHash, Bind_CreatedBy = Agent_AgentUUID host,
                  Bind_CreatedAt = now, Bind_ExpiresAt = expiresAt, Bind_UsedAt = None\<rparr>;
                s = putBind bind s;
                s = (if Agent_OrgID host \<noteq> [] then
                  appendAuditLocked (Agent_OrgID host) (Agent_AgentUUID host) ''agent_bind'' ''create''
                    bindID (gmap_of [(''host_agent_uuid'', GStr (Agent_AgentUUID host)),
                      (''expires_at'', GTime expiresAt)]) now s else s)
            in (Inr bind, s))"

text \<open>The edge that ties a hosted agent to its host, approved on both sides from the start.\<close>

definition installHostTrust :: "bind_token \<Rightarrow> string \<Rightarrow> string \<Rightarrow> time \<Rightarrow> memory_store \<Rightarrow> memory_store" where
  "installHostTrust bind agentUUID edgeID now s =
     (let (leftID, rightID) = canonicalPair (Bind_HostAgentUUID bind) agentUUID;
          edge = \<lparr>Edge_EdgeID = edgeID, Edge_EdgeType = ''agent'', Edge_LeftID = leftID,
            Edge_RightID = rightID, Edge_State = StatusActive, Edge_LeftApproved = True,
            Edge_RightApproved = True, Edge_CreatedBy = Bind_HostAgentUUID bind,
            Edge_CreatedAt = now, Edge_UpdatedAt = now\<rparr>;
          s = s\<lparr>agentTrusts := fmupd edgeID edge (agentTrusts s),
            agentTrustByPair := fmupd (pairKey leftID rightID) edgeID (agentTrustByPair s)\<rparr>
      in appendAuditLocked (Bind_OrgID bind) (Bind_HostAgentUUID bind) ''trust_agent'' ''request''
           edgeID (gmap_of [(''agent_uuid'', GStr (Bind_HostAgentUUID bind)),
             (''peer_agent_uuid'', GStr agentUUID), (''state'', GStr StatusActive),
             (''source'', GStr ''agent_invite'')]) now s)"

definition redeem_bind ::
  "bind_token \<Rightarrow> agent \<Rightarrow> string \<Rightarrow> time \<Rightarrow> memory_store \<Rightarrow> memory_store" where
  "redeem_bind bind agent edgeID now s =
     (let s = installAgent agent s;
          s = s\<lparr>binds := fmupd (Bind_BindID bind) (bind\<lparr>Bind_UsedAt := Some now\<rparr>) (binds s)\<rparr>;
          s = appendAuditLocked (Bind_OrgID bind) (Bind_CreatedBy bind) ''agent'' ''create''
            (Agent_AgentUUID agent) (agentCreationAuditDetails agent ''bind'' (Bind_BindID bind)) now s;
          s = (if Bind_HostAgentUUID bind \<noteq> []
            then installHostTrust bind (Agent_AgentUUID agent) edgeID now s else s)
      in if Bind_OrgID bind \<noteq> [] then
           appendAuditLocked (Bind_OrgID bind) (Bind_CreatedBy bind) ''agent_bind'' ''redeem''
             (Bind_BindID bind) (gmap_of [(''agent_id'', GStr (Agent_AgentID agent)),
               (''agent_uuid'', GStr (Agent_AgentUUID agent))]) now s
         else s)"

text \<open>
  \<open>newUUID\<close> and \<open>newEdgeID\<close> are the results of the two calls of \<^verbatim>\<open>newRandomUUID\<close>; the second
  is made only for a hosted agent.
\<close>

definition RedeemBindToken ::
  "string \<Rightarrow> string \<Rightarrow> string \<Rightarrow> time \<Rightarrow> store_error + string \<Rightarrow> store_error + string \<Rightarrow>
    memory_store \<Rightarrow> (store_error + agent) \<times> memory_store" where
  "RedeemBindToken bindTokenHash agentID agentTokenHash now newUUID newEdgeID s =
     (case fmlookup (bindByHash s) bindTokenHash of
        None \<Rightarrow> (Inl ErrBindNotFound, s)
      | Some bindID \<Rightarrow>
      case fmlookup (binds s) bindID of
        None \<Rightarrow> (Inl ErrBindNotFound, s)
      | Some bind \<Rightarrow>
      if Bind_UsedAt bind \<noteq> None then (Inl ErrBindUsed, s)
      else if now > Bind_ExpiresAt bind then (Inl ErrBindExpired, s)
      else
      let agentHandle = normalizeAgentNameKey agentID in
      if ValidateHandle agentHandle \<noteq> None then (Inl ErrInvalidHandle, s)
      else case ownerHandleLocked s (Bind_OrgID bind) (Bind_OwnerHumanID bind) agentHandle False of
        Inl e \<Rightarrow> (Inl e, s)
      | Inr ownerHandle \<Rightarrow>
      case agentURILocked s (Bind_OrgID bind) ownerHandle agentHandle False of
        Inl e \<Rightarrow> (Inl e, s)
      | Inr agentURI \<Rightarrow>
      if fmlookup (agentByURI s) agentURI \<noteq> None then (Inl ErrAgentExists, s)
      else case newUUID of
        Inl e \<Rightarrow> (Inl e, s)
      | Inr agentUUID \<Rightarrow>
      case (if Bind_HostAgentUUID bind \<noteq> [] then newEdgeID else Inr []) of
        Inl e \<Rightarrow> (Inl e, s)
      | Inr edgeID \<Rightarrow>
          let agent = \<lparr>Agent_AgentUUID = agentUUID, Agent_AgentID = agentURI,
                Agent_Handle = agentHandle, Agent_HandleFinalizedAt = None,
                Agent_OrgID = Bind_OrgID bind, Agent_OwnerHumanID = Bind_OwnerHumanID bind,
                Agent_HostAgentUUID = Bind_HostAgentUUID bind, Agent_TokenHash = agentTokenHash,
                Agent_Status = StatusActive, Agent_Metadata = defaultAgentMetadata,
                Agent_CreatedBy = Bind_CreatedBy bind, Agent_CreatedAt = now,
                Agent_RevokedAt = None\<rparr>
          in (Inr agent, redeem_bind bind agent edgeID now s))"

definition PeekBindToken :: "string \<Rightarrow> memory_store \<Rightarrow> store_error + bind_token" where
  "PeekBindToken bindTokenHash s =
     (case fmlookup (bindByHash s) bindTokenHash of
        None \<Rightarrow> Inl ErrBindNotFound
      | Some bindID \<Rightarrow>
          if bindID = [] then Inl ErrBindNotFound
          else (case fmlookup (binds s) bindID of
              None \<Rightarrow> Inl ErrBindNotFound
            | Some bind \<Rightarrow> Inr bind))"

section \<open>Tokens and revocation\<close>

definition AgentUUIDForTokenHash :: "string \<Rightarrow> memory_store \<Rightarrow> store_error + string" where
  "AgentUUIDForTokenHash tokenHash s =
     (case fmlookup (agentTokenIdx s) tokenHash of
        None \<Rightarrow> Inl ErrInvalidToken
      | Some agentUUID \<Rightarrow>
          (case fmlookup (agents s) agentUUID of
             None \<Rightarrow> Inl ErrInvalidToken
           | Some agent \<Rightarrow>
               if Agent_Status agent = StatusRevoked then Inl ErrInvalidToken else Inr agentUUID))"

definition RotateAgentToken ::
  "string \<Rightarrow> string \<Rightarrow> string \<Rightarrow> time \<Rightarrow> bool \<Rightarrow> memory_store \<Rightarrow> (store_error + unit) \<times> memory_store" where
  "RotateAgentToken agentUUID actorHumanID tokenHash now isSuperAdmin s =
     (case fmlookup (agents s) agentUUID of
        None \<Rightarrow> (Inl ErrAgentNotFound, s)
      | Some agent \<Rightarrow>
          if Agent_Status agent = StatusRevoked then (Inl ErrAgentNotFound, s)
          else if \<not> isSuperAdmin \<and> \<not> canManageAgentLocked s agent actorHumanID
          then (Inl ErrUnauthorizedRole, s)
          else
            let s = s\<lparr>agents := fmupd agentUUID (agent\<lparr>Agent_TokenHash := tokenHash\<rparr>) (agents s),
                  agentTokenIdx := fmupd tokenHash agentUUID
                    (fmdrop (Agent_TokenHash agent) (agentTokenIdx s))\<rparr>
            in (Inr (), appendAuditLocked (Agent_OrgID agent) actorHumanID ''agent'' ''rotate_token''
                 agentUUID (gmap_of [(''agent_id'', GStr (Agent_AgentID agent))]) now s))"

definition edge_of_agent :: "string \<Rightarrow> trust_edge \<Rightarrow> bool" where
  "edge_of_agent u edge \<longleftrightarrow> Edge_LeftID edge = u \<or> Edge_RightID edge = u"

definition revoke_edge :: "time \<Rightarrow> trust_edge \<Rightarrow> trust_edge" where
  "revoke_edge now edge =
     edge\<lparr>Edge_State := StatusRevoked, Edge_LeftApproved := False, Edge_RightApproved := False,
       Edge_UpdatedAt := now\<rparr>"

definition revokeEdgesOf :: "string \<Rightarrow> time \<Rightarrow> trust_edge gomap \<Rightarrow> trust_edge gomap" where
  "revokeEdgesOf u now edges =
     fmmap (\<lambda>e. if edge_of_agent u e \<and> Edge_State e \<noteq> StatusRevoked then revoke_edge now e else e) edges"

definition message_of :: "string \<Rightarrow> message \<Rightarrow> bool" where
  "message_of u m \<longleftrightarrow> Msg_FromAgentUUID m = u \<or> Msg_ToAgentUUID m = u"

definition count_entries :: "('v \<Rightarrow> bool) \<Rightarrow> 'v gomap \<Rightarrow> int" where
  "count_entries p m = int (fmsize (fmdelete_if (\<lambda>_ v. \<not> p v) m))"

definition RevokeAgent ::
  "string \<Rightarrow> string \<Rightarrow> time \<Rightarrow> bool \<Rightarrow> memory_store \<Rightarrow> (store_error + unit) \<times> memory_store" where
  "RevokeAgent agentUUID actorHumanID now isSuperAdmin s =
     (case fmlookup (agents s) agentUUID of
        None \<Rightarrow> (Inl ErrAgentNotFound, s)
      | Some agent \<Rightarrow>
          if \<not> isSuperAdmin \<and> \<not> canManageAgentLocked s agent actorHumanID
          then (Inl ErrUnauthorizedRole, s)
          else if Agent_Status agent = StatusRevoked then (Inr (), s)
          else
            let s = s\<lparr>agentTokenIdx := fmdrop (Agent_TokenHash agent) (agentTokenIdx s)\<rparr>;
                s = dropNameKey (Agent_OrgID agent) (Agent_OwnerHumanID agent) (Agent_Handle agent) s;
                s = s\<lparr>agentByURI := fmdrop (Agent_AgentID agent) (agentByURI s),
                  agentPresence := fmdrop agentUUID (agentPresence s),
                  agents := fmupd agentUUID
                    (agent\<lparr>Agent_Status := StatusRevoked, Agent_RevokedAt := Some now\<rparr>) (agents s)\<rparr>;
                revokedTrustEdges = count_entries
                  (\<lambda>e. edge_of_agent agentUUID e \<and> Edge_State e \<noteq> StatusRevoked) (agentTrusts s);
                s = s\<lparr>agentTrusts := revokeEdgesOf agentUUID now (agentTrusts s)\<rparr>;
                purgedMessages = int (purged_count (message_of agentUUID) (queues s));
                s = s\<lparr>queues := purge_queues (message_of agentUUID) (queues s)\<rparr>;
                s = recomputeQueueMetricsLocked s
            in (Inr (), appendAuditLocked (Agent_OrgID agent) actorHumanID ''agent'' ''revoke'' agentUUID
                 (gmap_of [(''agent_id'', GStr (Agent_AgentID agent)),
                   (''revoked_agent_trust_edges'', GInt revokedTrustEdges),
                   (''purged_queued_messages'', GInt purgedMessages)]) now s))"

definition pair_of_edge :: "trust_edge \<Rightarrow> string" where
  "pair_of_edge e = pairKey (Edge_LeftID e) (Edge_RightID e)"

definition DeleteAgent ::
  "string \<Rightarrow> string \<Rightarrow> time \<Rightarrow> bool \<Rightarrow> memory_store \<Rightarrow> (store_error + unit) \<times> memory_store" where
  "DeleteAgent agentUUID actorHumanID now isSuperAdmin s =
     (case fmlookup (agents s) agentUUID of
        None \<Rightarrow> (Inl ErrAgentNotFound, s)
      | Some agent \<Rightarrow>
          if \<not> isSuperAdmin \<and> \<not> canDeleteAgentLocked s agent actorHumanID
          then (Inl ErrUnauthorizedRole, s)
          else
            let s = s\<lparr>archivedAgents := fmupd agentUUID
                    (agent\<lparr>Agent_Status := StatusDeleted, Agent_RevokedAt := Some now\<rparr>)
                    (archivedAgents s),
                  agentTokenIdx := fmdrop (Agent_TokenHash agent) (agentTokenIdx s),
                  agentPresence := fmdrop agentUUID (agentPresence s),
                  agents := fmdrop agentUUID (agents s)\<rparr>;
                mine = (\<lambda>_ e. edge_of_agent agentUUID e);
                deletedTrustEdges = count_entries (edge_of_agent agentUUID) (agentTrusts s);
                s = s\<lparr>agentTrustByPair :=
                    fmdrop_fset (keys_of pair_of_edge mine (agentTrusts s)) (agentTrustByPair s),
                  agentTrusts := fmdelete_if mine (agentTrusts s)\<rparr>;
                rest = fmdrop agentUUID (queues s);
                purgedMessages = int (length (queue_of s agentUUID)
                  + purged_count (message_of agentUUID) rest);
                s = s\<lparr>queues := purge_queues (message_of agentUUID) rest\<rparr>;
                s = recomputeQueueMetricsLocked s
            in (Inr (), appendAuditLocked (Agent_OrgID agent) actorHumanID ''agent'' ''delete'' agentUUID
                 (gmap_of [(''agent_id'', GStr (Agent_AgentID agent)),
                   (''deleted_agent_trusts'', GInt deletedTrustEdges),
                   (''purged_queued_messages'', GInt purgedMessages),
                   (''deleted_previous_status'', GStr (Agent_Status agent))]) now s))"

section \<open>Metadata and presence\<close>

definition metadataUpdateSummary ::
  "(gmap \<Rightarrow> int option) \<Rightarrow> agent \<Rightarrow> gmap \<Rightarrow> gmap" where
  "metadataUpdateSummary jsonSize agent previousMetadata =
     fmupd ''agent_id'' (GStr (Agent_AgentID agent))
       (metadataAuditSummary jsonSize (Agent_Metadata agent))
     ++\<^sub>f agentMetadataChangeAuditSummary previousMetadata (Agent_Metadata agent)"

definition putAgentMetadata ::
  "(gmap \<Rightarrow> int option) \<Rightarrow> agent \<Rightarrow> string \<Rightarrow> gmap \<Rightarrow> string \<Rightarrow> string \<Rightarrow> time \<Rightarrow> memory_store \<Rightarrow>
    (store_error + agent) \<times> memory_store" where
  "putAgentMetadata jsonSize agent agentUUID metadata actorHumanID action now s =
     (case mergeAndNormalizeAgentMetadata (Agent_Metadata agent) metadata now of
        Inl e \<Rightarrow> (Inl e, s)
      | Inr normalizedMetadata \<Rightarrow>
          let previousMetadata = Agent_Metadata agent;
              agent = agent\<lparr>Agent_Metadata := normalizedMetadata\<rparr>;
              s = s\<lparr>agents := fmupd agentUUID agent (agents s)\<rparr>;
              summary = metadataUpdateSummary jsonSize agent previousMetadata
          in (Inr agent, appendAuditLocked (Agent_OrgID agent) actorHumanID ''agent'' action agentUUID
               summary now s))"

definition UpdateAgentMetadata ::
  "(gmap \<Rightarrow> int option) \<Rightarrow> string \<Rightarrow> gmap \<Rightarrow> string \<Rightarrow> time \<Rightarrow> bool \<Rightarrow> memory_store \<Rightarrow>
    (store_error + agent) \<times> memory_store" where
  "UpdateAgentMetadata jsonSize agentUUID metadata actorHumanID now isSuperAdmin s =
     (case fmlookup (agents s) agentUUID of
        None \<Rightarrow> (Inl ErrAgentNotFound, s)
      | Some agent \<Rightarrow>
          if Agent_Status agent = StatusRevoked then (Inl ErrAgentNotFound, s)
          else if \<not> isSuperAdmin \<and> \<not> canManageAgentLocked s agent actorHumanID
          then (Inl ErrUnauthorizedRole, s)
          else putAgentMetadata jsonSize agent agentUUID metadata actorHumanID ''set_metadata'' now s)"

definition UpdateAgentMetadataSelf ::
  "(gmap \<Rightarrow> int option) \<Rightarrow> string \<Rightarrow> gmap \<Rightarrow> time \<Rightarrow> memory_store \<Rightarrow>
    (store_error + agent) \<times> memory_store" where
  "UpdateAgentMetadataSelf jsonSize agentUUID metadata now s =
     (case fmlookup (agents s) agentUUID of
        None \<Rightarrow> (Inl ErrAgentNotFound, s)
      | Some agent \<Rightarrow>
          if Agent_Status agent = StatusRevoked then (Inl ErrAgentNotFound, s)
          else putAgentMetadata jsonSize agent agentUUID metadata [] ''set_metadata_self'' now s)"

definition SetAgentPresence ::
  "string \<Rightarrow> gmap \<Rightarrow> time \<Rightarrow> memory_store \<Rightarrow> (store_error + agent \<times> bool) \<times> memory_store" where
  "SetAgentPresence agentUUID presence now s =
     (case fmlookup (agents s) agentUUID of
        None \<Rightarrow> (Inl ErrAgentNotFound, s)
      | Some agent \<Rightarrow>
          if Agent_Status agent = StatusRevoked then (Inl ErrAgentNotFound, s)
          else
            let next = normalizeAgentPresence presence;
                next = (if fmlookup next ''updated_at'' = None
                        then fmupd ''updated_at'' (GStr (FormatRFC3339 now)) next else next);
                prevStatus = presence_status (presence_at (agentPresence s) agentUUID);
                nextStatus = presence_status next
            in (Inr (agent, prevStatus \<noteq> nextStatus \<and> nextStatus \<noteq> []),
                s\<lparr>agentPresence := fmupd agentUUID next (agentPresence s)\<rparr>))"

definition GetAgentPresence :: "string \<Rightarrow> memory_store \<Rightarrow> store_error + gmap option" where
  "GetAgentPresence agentUUID s =
     (case fmlookup (agents s) agentUUID of
        None \<Rightarrow> Inl ErrAgentNotFound
      | Some agent \<Rightarrow>
          if Agent_Status agent = StatusRevoked then Inl ErrAgentNotFound
          else
            let presence = presence_at (agentPresence s) agentUUID
            in if presence = fmempty then Inr None else Inr (Some presence))"

definition RecordAgentSystemActivity ::
  "string \<Rightarrow> gmap \<Rightarrow> time \<Rightarrow> memory_store \<Rightarrow> (store_error + agent) \<times> memory_store" where
  "RecordAgentSystemActivity agentUUID entry now s =
     (case fmlookup (agents s) (TrimSpace agentUUID) of
        None \<Rightarrow> (Inl ErrAgentNotFound, s)
      | Some agent \<Rightarrow>
          if Agent_Status agent = StatusRevoked then (Inl ErrAgentNotFound, s)
          else case normalizeSystemAgentActivityEntry entry now of
            None \<Rightarrow> (Inr agent, s)
          | Some normalized \<Rightarrow>
              let metadata = Agent_Metadata agent;
                  existing = parseActivityEntries (gget metadata AgentMetadataKeySystemActivityLog);
                  metadata = fmupd AgentMetadataKeySystemActivityLog
                    (GMaps (dedupeAndTrimActivityEntries (existing @ [normalized])
                      maxAgentActivityEntries)) metadata;
                  agent = agent\<lparr>Agent_Metadata := metadata\<rparr>;
                  s = s\<lparr>agents := fmupd (Agent_AgentUUID agent) agent (agents s)\<rparr>;
                  s = (if TrimSpace (Agent_OrgID agent) \<noteq> [] then
                    appendAuditLocked (Agent_OrgID agent) [] ''agent_activity'' ''record''
                      (Agent_AgentUUID agent)
                      (gmap_of [(''agent_id'', GStr (Agent_AgentID agent)),
                        (''activity'', GStr (stringValue (gget normalized ''activity''))),
                        (''category'', GStr (stringValue (gget normalized ''category''))),
                        (''action'', GStr (stringValue (gget normalized ''action'')))]) now s
                    else s)
              in (Inr agent, s))"

section \<open>Handles and references\<close>

definition finalizeOwnerHandle :: "memory_store \<Rightarrow> agent \<Rightarrow> store_error + string option" where
  "finalizeOwnerHandle s agent =
     (case Agent_OwnerHumanID agent of
        None \<Rightarrow> Inr None
      | Some owner \<Rightarrow>
          (case fmlookup (humans s) owner of
             None \<Rightarrow> Inl ErrHumanNotFound
           | Some human \<Rightarrow>
               if ValidateHandle (Human_Handle human) \<noteq> None then Inl ErrInvalidHandle
               else Inr (Some (Human_Handle human))))"

definition taken_by_other :: "string gomap \<Rightarrow> string \<Rightarrow> string \<Rightarrow> bool" where
  "taken_by_other idx key u =
     (case fmlookup idx key of None \<Rightarrow> False | Some owner \<Rightarrow> owner \<noteq> u)"

definition nameKeyTaken :: "memory_store \<Rightarrow> agent \<Rightarrow> string \<Rightarrow> bool" where
  "nameKeyTaken s agent nextHandle =
     (case Agent_OwnerHumanID agent of
        Some owner \<Rightarrow> taken_by_other (humanOwnedAgentNameIdx s)
          (humanOwnedAgentNameKey (Agent_OrgID agent) owner nextHandle) (Agent_AgentUUID agent)
      | None \<Rightarrow> taken_by_other (orgOwnedAgentNameIdx s)
          (orgOwnedAgentNameKey (Agent_OrgID agent) nextHandle) (Agent_AgentUUID agent))"

definition FinalizeAgentHandleSelf ::
  "string \<Rightarrow> string \<Rightarrow> time \<Rightarrow> memory_store \<Rightarrow> (store_error + agent) \<times> memory_store" where
  "FinalizeAgentHandleSelf agentUUID handle now s =
     (case fmlookup (agents s) agentUUID of
        None \<Rightarrow> (Inl ErrAgentNotFound, s)
      | Some agent \<Rightarrow>
          if Agent_Status agent = StatusRevoked then (Inl ErrAgentNotFound, s)
          else
          let nextHandle = normalizeAgentNameKey handle in
          if ValidateHandle nextHandle \<noteq> None then (Inl ErrInvalidHandle, s)
          else if Agent_HandleFinalizedAt agent \<noteq> None then
            (if Agent_Handle agent = nextHandle then (Inr agent, s)
             else (Inl ErrAgentHandleLocked, s))
          else case finalizeOwnerHandle s agent of
            Inl e \<Rightarrow> (Inl e, s)
          | Inr ownerHandle \<Rightarrow>
          case agentURILocked s (Agent_OrgID agent) ownerHandle nextHandle False of
            Inl e \<Rightarrow> (Inl e, s)
          | Inr nextAgentURI \<Rightarrow>
          if taken_by_other (agentByURI s) nextAgentURI (Agent_AgentUUID agent)
          then (Inl ErrAgentExists, s)
          else if nameKeyTaken s agent nextHandle then (Inl ErrAgentExists, s)
          else
            let u = Agent_AgentUUID agent;
                s = dropNameKey (Agent_OrgID agent) (Agent_OwnerHumanID agent) (Agent_Handle agent) s;
                s = addNameKey (Agent_OrgID agent) (Agent_OwnerHumanID agent) nextHandle u s;
                oldURI = Agent_AgentID agent;
                agent = agent\<lparr>Agent_Handle := nextHandle, Agent_AgentID := nextAgentURI,
                  Agent_HandleFinalizedAt := Some now\<rparr>;
                s = s\<lparr>agentByURI := fmupd nextAgentURI u (fmdrop oldURI (agentByURI s)),
                  agents := fmupd u agent (agents s)\<rparr>
            in (Inr agent, appendAuditLocked (Agent_OrgID agent) [] ''agent'' ''finalize_handle_self''
                 agentUUID (gmap_of [(''agent_id'', GStr nextAgentURI), (''agent_uuid'', GStr u),
                   (''handle'', GStr nextHandle)]) now s))"

definition live_agent :: "memory_store \<Rightarrow> string \<Rightarrow> bool" where
  "live_agent s u =
     (case fmlookup (agents s) u of None \<Rightarrow> False | Some a \<Rightarrow> Agent_Status a \<noteq> StatusRevoked)"

text \<open>
  The last resort of \<^verbatim>\<open>resolveAgentRefLocked\<close>: the only live agent with that handle.  The
  source stops at the second match, in the order of the map; what it returns does not
  depend on the order.
\<close>

definition resolveAgentRefLocked :: "memory_store \<Rightarrow> string \<Rightarrow> store_error + string" where
  "resolveAgentRefLocked s agentRef =
     (let ref = NormalizeAgentRef agentRef in
      if ref = [] then Inl ErrAgentNotFound
      else if live_agent s ref then Inr ref
      else
        let byURI = fmlookup (agentByURI s) ref in
        if byURI \<noteq> None \<and> live_agent s (the byURI) then Inr (the byURI)
        else if CHR ''/'' \<in> set ref then Inl ErrAgentNotFound
        else (case filter (\<lambda>u. live_agent s u \<and>
                 Agent_Handle (the (fmlookup (agents s) u)) = ref) (sorted_keys (agents s)) of
            [] \<Rightarrow> Inl ErrAgentNotFound
          | [match] \<Rightarrow> if match = [] then Inl ErrAgentNotFound else Inr match
          | match # others \<Rightarrow> Inl ErrAgentAmbiguous))"

definition ResolveAgentUUID :: "string \<Rightarrow> memory_store \<Rightarrow> store_error + string" where
  "ResolveAgentUUID agentRef s = resolveAgentRefLocked s agentRef"

text \<open>\<open>urlPath\<close> is the path \<^verbatim>\<open>url.Parse\<close> finds, if it can parse the URI.\<close>

definition agentRefFromURI :: "(string \<Rightarrow> string option) \<Rightarrow> string \<Rightarrow> string" where
  "agentRefFromURI urlPath agentURI =
     (case urlPath (TrimSpace agentURI) of
        None \<Rightarrow> []
      | Some p \<Rightarrow>
          let path = trim_by (\<lambda>c. c = CHR ''/'') (TrimSpace p) in
          if path = [] then []
          else if prefix ''orgs/'' path \<or> prefix ''humans/'' path then []
          else path)"

definition ResolveAgentUUIDByURI ::
  "(string \<Rightarrow> string option) \<Rightarrow> string \<Rightarrow> memory_store \<Rightarrow> store_error + string" where
  "ResolveAgentUUIDByURI urlPath agentURI s =
     (let ref = agentRefFromURI urlPath agentURI in
      if ref = [] then Inl ErrAgentNotFound else resolveAgentRefLocked s ref)"

definition GetAgentByUUID :: "string \<Rightarrow> memory_store \<Rightarrow> store_error + agent" where
  "GetAgentByUUID agentUUID s =
     (case fmlookup (agents s) agentUUID of
        None \<Rightarrow> Inl ErrAgentNotFound
      | Some agent \<Rightarrow>
          if Agent_Status agent = StatusRevoked then Inl ErrAgentNotFound else Inr agent)"

definition GetAgentURI :: "string \<Rightarrow> memory_store \<Rightarrow> store_error + string" where
  "GetAgentURI agentUUID s = map_sum id Agent_AgentID (GetAgentByUUID agentUUID s)"

definition CountActiveHumanOwnedAgents :: "string \<Rightarrow> memory_store \<Rightarrow> int" where
  "CountActiveHumanOwnedAgents humanID s =
     count_entries (\<lambda>a. Agent_OwnerHumanID a = Some humanID \<and> Agent_Status a = StatusActive) (agents s)"

section \<open>The transfer to an organisation\<close>

definition transferable :: "string \<Rightarrow> agent \<Rightarrow> bool" where
  "transferable humanID a \<longleftrightarrow>
     Agent_Status a \<noteq> StatusRevoked \<and> Agent_OrgID a = [] \<and> Agent_OwnerHumanID a = Some humanID"

definition transferAgent ::
  "organization \<Rightarrow> string \<Rightarrow> string \<Rightarrow> string \<Rightarrow> time \<Rightarrow> string \<Rightarrow> memory_store \<Rightarrow> memory_store" where
  "transferAgent org orgID humanID ownerHandle now agentUUID s =
     (case fmlookup (agents s) agentUUID of
        None \<Rightarrow> s
      | Some agent \<Rightarrow>
          let oldAgentID = Agent_AgentID agent;
              nextAgentID = BuildAgentURI (Org_Handle org) (Some ownerHandle) (Agent_Handle agent);
              nextNameKey = humanOwnedAgentNameKey orgID humanID (Agent_Handle agent)
          in if taken_by_other (humanOwnedAgentNameIdx s) nextNameKey agentUUID then s
             else if taken_by_other (agentByURI s) nextAgentID agentUUID then s
             else
               let s = s\<lparr>humanOwnedAgentNameIdx := fmupd nextNameKey agentUUID
                       (fmdrop (humanOwnedAgentNameKey [] humanID (Agent_Handle agent))
                         (humanOwnedAgentNameIdx s)),
                     agentByURI := fmupd nextAgentID agentUUID (fmdrop oldAgentID (agentByURI s)),
                     agents := fmupd agentUUID
                       (agent\<lparr>Agent_OrgID := orgID, Agent_AgentID := nextAgentID\<rparr>) (agents s)\<rparr>
               in appendAuditLocked orgID humanID ''agent'' ''transfer_on_invite_accept'' agentUUID
                    (gmap_of [(''old_org_id'', GStr []), (''new_org_id'', GStr orgID),
                      (''old_agent_id'', GStr oldAgentID), (''new_agent_id'', GStr nextAgentID)]) now s)"

definition transferHumanOwnedAgentsToOrgLocked ::
  "string \<Rightarrow> string \<Rightarrow> time \<Rightarrow> memory_store \<Rightarrow> memory_store" where
  "transferHumanOwnedAgentsToOrgLocked orgID0 humanID0 now s =
     (let orgID = TrimSpace orgID0; humanID = TrimSpace humanID0 in
      if orgID = [] \<or> humanID = [] then s
      else case fmlookup (orgs s) orgID of
        None \<Rightarrow> s
      | Some org \<Rightarrow>
      case fmlookup (humans s) humanID of
        None \<Rightarrow> s
      | Some human \<Rightarrow>
          if ValidateHandle (Human_Handle human) \<noteq> None then s
          else
            let agentIDs = sorted_keys (fmdelete_if (\<lambda>_ a. \<not> transferable humanID a) (agents s))
            in fold (transferAgent org orgID humanID (Human_Handle human) now) agentIDs s)"

end
