(* ===== verification/AgentIndex.thy ===== *)
theory AgentIndex
  imports Agents
begin

text \<open>
  The invariant of the agent table and its indexes, and that every operation on agents keeps
  it: tokens, URIs and names identify the live agents.
\<close>

section \<open>The invariant\<close>

definition token_key :: "agent \<Rightarrow> string option" where
  "token_key a = (if Agent_Status a = StatusRevoked then None else Some (Agent_TokenHash a))"

definition uri_key :: "agent \<Rightarrow> string option" where
  "uri_key a = (if Agent_Status a = StatusRevoked then None else Some (Agent_AgentID a))"

definition org_name_key :: "agent \<Rightarrow> string option" where
  "org_name_key a =
     (if Agent_Status a = StatusRevoked \<or> Agent_OwnerHumanID a \<noteq> None then None
      else Some (orgOwnedAgentNameKey (Agent_OrgID a) (Agent_Handle a)))"

definition human_name_key :: "agent \<Rightarrow> string option" where
  "human_name_key a =
     (if Agent_Status a = StatusRevoked then None
      else map_option (\<lambda>owner. humanOwnedAgentNameKey (Agent_OrgID a) owner (Agent_Handle a))
        (Agent_OwnerHumanID a))"

definition uuids_ok :: "agent gomap \<Rightarrow> bool" where
  "uuids_ok C \<longleftrightarrow> (\<forall>u a. fmlookup C u = Some a \<longrightarrow> Agent_AgentUUID a = u)"

definition distinct_hashes :: "agent gomap \<Rightarrow> bool" where
  "distinct_hashes C \<longleftrightarrow>
     (\<forall>i j a b. fmlookup C i = Some a \<longrightarrow> fmlookup C j = Some b \<longrightarrow>
        Agent_TokenHash a = Agent_TokenHash b \<longrightarrow> i = j)"

definition agents_wf :: "memory_store \<Rightarrow> bool" where
  "agents_wf s \<longleftrightarrow>
     uuids_ok (agent_cores s) \<and> distinct_hashes (agent_cores s) \<and>
     index_ok token_key (agent_cores s) (agentTokenIdx s) \<and>
     index_covers uri_key (agent_cores s) (agentByURI s) \<and>
     index_covers org_name_key (agent_cores s) (orgOwnedAgentNameIdx s) \<and>
     index_covers human_name_key (agent_cores s) (humanOwnedAgentNameIdx s)"

definition fresh_hash :: "string \<Rightarrow> memory_store \<Rightarrow> bool" where
  "fresh_hash h s \<longleftrightarrow> (\<forall>u a. fmlookup (agents s) u = Some a \<longrightarrow> Agent_TokenHash a \<noteq> h)"

lemma fresh_hashD: "fresh_hash h s \<Longrightarrow> fmlookup (agents s) u = Some a \<Longrightarrow> Agent_TokenHash a \<noteq> h"
  by (simp add: fresh_hash_def)

lemmas agent_keys_def = token_key_def uri_key_def org_name_key_def human_name_key_def

lemma agent_keys_core [simp]:
  "token_key (agent_core a) = token_key a"
  "uri_key (agent_core a) = uri_key a"
  "org_name_key (agent_core a) = org_name_key a"
  "human_name_key (agent_core a) = human_name_key a"
  by (simp_all add: agent_keys_def)

lemma agent_cores_lookup [simp]:
  "fmlookup (agent_cores s) u = map_option agent_core (fmlookup (agents s) u)"
  by (simp add: agent_cores_def)

lemma agent_cores_upd:
  "agents t = fmupd u a (agents s) \<Longrightarrow> agent_cores t = fmupd u (agent_core a) (agent_cores s)"
  by (simp add: agent_cores_def fmmap_fmupd)

lemma agent_cores_drop: "agents t = fmdrop u (agents s) \<Longrightarrow> agent_cores t = fmdrop u (agent_cores s)"
  by (simp add: agent_cores_def)

lemma fmmap_core [simp]: "fmmap agent_core (agents s) = agent_cores s"
  by (simp add: agent_cores_def)

lemma agents_wf_cong:
  "agent_cores s' = agent_cores s \<Longrightarrow> agentTokenIdx s' = agentTokenIdx s \<Longrightarrow>
    agentByURI s' = agentByURI s \<Longrightarrow> orgOwnedAgentNameIdx s' = orgOwnedAgentNameIdx s \<Longrightarrow>
    humanOwnedAgentNameIdx s' = humanOwnedAgentNameIdx s \<Longrightarrow> agents_wf s' \<longleftrightarrow> agents_wf s"
  by (simp add: agents_wf_def)

lemma agents_wf_audit [simp]:
  "agents_wf (appendAuditLocked org actor cat act subj details now s) \<longleftrightarrow> agents_wf s"
  by (rule agents_wf_cong) simp_all

lemma agents_wf_new: "agents_wf NewMemoryStore"
proof -
  have "agents NewMemoryStore = fmempty" by (simp add: NewMemoryStore_def)
  then have "agent_cores NewMemoryStore = fmempty" by (simp add: agent_cores_def del: fmmap_core)
  then show ?thesis
    by (simp add: agents_wf_def uuids_ok_def distinct_hashes_def NewMemoryStore_def)
qed

lemma agents_wf_uuid:
  assumes "agents_wf s" and "fmlookup (agents s) u = Some a"
  shows "Agent_AgentUUID a = u"
proof -
  have "fmlookup (agent_cores s) u = Some (agent_core a)" using assms(2) by simp
  with assms(1) have "Agent_AgentUUID (agent_core a) = u"
    unfolding agents_wf_def uuids_ok_def by blast
  then show ?thesis by simp
qed

section \<open>Preservation\<close>

lemma uuids_ok_upd: "uuids_ok C \<Longrightarrow> Agent_AgentUUID a = u \<Longrightarrow> uuids_ok (fmupd u a C)"
  by (simp add: uuids_ok_def)

lemma distinct_hashes_upd:
  assumes "distinct_hashes C"
    and "\<And>v b. fmlookup C v = Some b \<Longrightarrow> v \<noteq> u \<Longrightarrow> Agent_TokenHash b \<noteq> Agent_TokenHash a"
  shows "distinct_hashes (fmupd u a C)"
  using assms unfolding distinct_hashes_def by (auto split: if_splits) metis+

lemma distinct_hashes_keep:
  assumes "distinct_hashes C" and "fmlookup C u = Some a" and "Agent_TokenHash a' = Agent_TokenHash a"
  shows "distinct_hashes (fmupd u a' C)"
proof (rule distinct_hashes_upd [OF assms(1)])
  fix v b
  assume "fmlookup C v = Some b" and "v \<noteq> u"
  with assms show "Agent_TokenHash b \<noteq> Agent_TokenHash a'"
    unfolding distinct_hashes_def by metis
qed

lemma distinct_hashes_drop: "distinct_hashes C \<Longrightarrow> distinct_hashes (fmdrop u C)"
  unfolding distinct_hashes_def by (auto split: if_splits)

lemma distinct_hashes_delete_if: "distinct_hashes C \<Longrightarrow> distinct_hashes (fmdelete_if p C)"
  unfolding distinct_hashes_def by (auto split: option.splits if_splits)

lemma uuids_ok_drop: "uuids_ok C \<Longrightarrow> uuids_ok (fmdrop u C)"
  by (simp add: uuids_ok_def)

lemma fresh_hash_idx:
  assumes "agents_wf s" and "fresh_hash h s"
  shows "fmlookup (agentTokenIdx s) h = None"
proof (rule ccontr)
  assume "fmlookup (agentTokenIdx s) h \<noteq> None"
  then obtain u where "fmlookup (agentTokenIdx s) h = Some u" by auto
  moreover have "index_ok token_key (agent_cores s) (agentTokenIdx s)"
    using assms(1) by (simp add: agents_wf_def)
  ultimately obtain a where "fmlookup (agents s) u = Some a" "token_key a = Some h"
    using index_ok_lookup by fastforce
  with assms(2) show False by (auto simp: fresh_hash_def token_key_def split: if_splits)
qed

text \<open>The name of an agent is not taken in the index it belongs to.\<close>

definition name_free :: "memory_store \<Rightarrow> agent \<Rightarrow> bool" where
  "name_free s a \<longleftrightarrow>
     (\<forall>k. org_name_key a = Some k \<longrightarrow> fmlookup (orgOwnedAgentNameIdx s) k = None) \<and>
     (\<forall>k. human_name_key a = Some k \<longrightarrow> fmlookup (humanOwnedAgentNameIdx s) k = None)"

lemma ownerHandle_name_free:
  assumes "ownerHandleLocked s (Agent_OrgID a) (Agent_OwnerHumanID a) (Agent_Handle a) denied = Inr r"
  shows "name_free s a"
  using assms
  by (auto simp: ownerHandleLocked_def name_free_def org_name_key_def human_name_key_def
      split: option.splits if_splits)

lemma installAgent_wf:
  assumes wf: "agents_wf s" and u: "fmlookup (agents s) (Agent_AgentUUID a) = None"
    and live: "Agent_Status a \<noteq> StatusRevoked" and hash: "fresh_hash (Agent_TokenHash a) s"
    and uri: "fmlookup (agentByURI s) (Agent_AgentID a) = None" and name: "name_free s a"
  shows "agents_wf (installAgent a s)"
proof -
  let ?u = "Agent_AgentUUID a" and ?C = "agent_cores s" and ?a = "agent_core a"
  have C: "fmlookup ?C ?u = None" using u by simp
  have "index_ok token_key (fmupd ?u ?a ?C) (fmupd (Agent_TokenHash a) ?u (agentTokenIdx s))"
    using wf C fresh_hash_idx [OF wf hash] live
    by (intro index_ok_insert) (auto simp: agents_wf_def token_key_def)
  moreover have "index_covers uri_key (fmupd ?u ?a ?C) (fmupd (Agent_AgentID a) ?u (agentByURI s))"
    using wf uri live by (intro index_covers_insert) (auto simp: agents_wf_def uri_key_def)
  moreover have "distinct_hashes (fmupd ?u ?a ?C)"
    using wf hash by (intro distinct_hashes_upd) (auto simp: agents_wf_def fresh_hash_def)
  moreover have "uuids_ok (fmupd ?u ?a ?C)"
    using wf by (intro uuids_ok_upd) (auto simp: agents_wf_def)
  moreover have "index_covers org_name_key (fmupd ?u ?a ?C)
      (orgOwnedAgentNameIdx (installAgent a s))"
  proof (cases "Agent_OwnerHumanID a")
    case None
    then have key: "org_name_key a = Some (orgOwnedAgentNameKey (Agent_OrgID a) (Agent_Handle a))"
      using live by (simp add: org_name_key_def)
    with None wf name show ?thesis
      by (auto simp: installAgent_def addNameKey_def Let_def agents_wf_def name_free_def
          intro!: index_covers_insert)
  next
    case (Some owner)
    with wf show ?thesis
      by (auto simp: installAgent_def addNameKey_def Let_def agents_wf_def org_name_key_def
          intro!: index_covers_insert_unindexed)
  qed
  moreover have "index_covers human_name_key (fmupd ?u ?a ?C)
      (humanOwnedAgentNameIdx (installAgent a s))"
  proof (cases "Agent_OwnerHumanID a")
    case None
    with wf show ?thesis
      by (auto simp: installAgent_def addNameKey_def Let_def agents_wf_def human_name_key_def
          intro!: index_covers_insert_unindexed)
  next
    case (Some owner)
    then have key: "human_name_key a =
        Some (humanOwnedAgentNameKey (Agent_OrgID a) owner (Agent_Handle a))"
      using live by (simp add: human_name_key_def)
    with Some wf name show ?thesis
      by (auto simp: installAgent_def addNameKey_def Let_def agents_wf_def name_free_def
          intro!: index_covers_insert)
  qed
  moreover have "agent_cores (installAgent a s) = fmupd ?u ?a ?C"
    "agentTokenIdx (installAgent a s) = fmupd (Agent_TokenHash a) ?u (agentTokenIdx s)"
    "agentByURI (installAgent a s) = fmupd (Agent_AgentID a) ?u (agentByURI s)"
    by (auto simp: installAgent_def addNameKey_def Let_def
        intro!: agent_cores_upd split: option.splits)
  ultimately show ?thesis by (simp add: agents_wf_def)
qed

lemma RegisterAgent_result:
  assumes "RegisterAgent orgID agentID owner tokenHash actor now super newUUID s = (Inr a, s')"
  shows "newUUID = Inr (Agent_AgentUUID a)" and "Agent_TokenHash a = tokenHash"
    and "Agent_Status a = StatusActive" and "fmlookup (agentByURI s) (Agent_AgentID a) = None"
    and "name_free s a"
    and "\<And>P. (\<And>org actor cat act subj details now s. P (appendAuditLocked org actor cat act subj details now s) \<longleftrightarrow> P s) \<Longrightarrow>
      P s' \<longleftrightarrow> P (installAgent a s)"
proof -
  obtain oh uri u where oh: "ownerHandleLocked s orgID owner (normalizeAgentNameKey agentID)
      (\<not> super \<and> Some actor \<noteq> owner) = Inr oh" and "newUUID = Inr u"
    and "fmlookup (agentByURI s) uri = None"
    and a: "a = \<lparr>Agent_AgentUUID = u, Agent_AgentID = uri,
                Agent_Handle = normalizeAgentNameKey agentID, Agent_HandleFinalizedAt = Some now,
                Agent_OrgID = orgID, Agent_OwnerHumanID = owner, Agent_HostAgentUUID = [],
                Agent_TokenHash = tokenHash, Agent_Status = StatusActive,
                Agent_Metadata = defaultAgentMetadata, Agent_CreatedBy = actor,
                Agent_CreatedAt = now, Agent_RevokedAt = None\<rparr>"
    using assms by (auto simp: RegisterAgent_def Let_def split: if_splits sum.splits)
  then show "newUUID = Inr (Agent_AgentUUID a)" "Agent_TokenHash a = tokenHash"
    "Agent_Status a = StatusActive" "fmlookup (agentByURI s) (Agent_AgentID a) = None"
    by simp_all
  show "name_free s a" by (rule ownerHandle_name_free) (use oh a in simp)
  fix P
  assume "\<And>org actor cat act subj details now s.
    P (appendAuditLocked org actor cat act subj details now s) \<longleftrightarrow> P s"
  then show "P s' \<longleftrightarrow> P (installAgent a s)"
    using assms by (auto simp: RegisterAgent_def Let_def split: if_splits sum.splits)
qed

lemma RegisterAgent_error:
  "RegisterAgent orgID agentID owner tokenHash actor now super newUUID s = (Inl e, s') \<Longrightarrow> s' = s"
  by (auto simp: RegisterAgent_def Let_def split: if_splits sum.splits)

lemma RegisterAgent_wf [wf_intros]:
  assumes wf: "agents_wf s" and hash: "fresh_hash tokenHash s"
    and fresh: "\<And>u. newUUID = Inr u \<Longrightarrow> fmlookup (agents s) u = None"
  shows "agents_wf (snd (RegisterAgent orgID agentID owner tokenHash actor now super newUUID s))"
proof (cases "RegisterAgent orgID agentID owner tokenHash actor now super newUUID s")
  case (Pair r s')
  show ?thesis
  proof (cases r)
    case (Inl e)
    with Pair RegisterAgent_error wf show ?thesis by fastforce
  next
    case (Inr a)
    note r = RegisterAgent_result [OF Pair [unfolded Inr]]
    have "agents_wf (installAgent a s)"
      using wf hash fresh r by (intro installAgent_wf) auto
    with r(6) [of agents_wf] Pair show ?thesis by simp
  qed
qed

lemma installHostTrust_agents [simp]:
  "agents_wf (installHostTrust bind u edgeID now s) \<longleftrightarrow> agents_wf s"
  unfolding installHostTrust_def Let_def case_prod_beta agents_wf_audit
  by (rule agents_wf_cong) (simp_all add: agent_cores_def del: fmmap_core)

lemma redeem_bind_agents: "agents_wf (redeem_bind bind a edgeID now s) \<longleftrightarrow> agents_wf (installAgent a s)"
proof -
  have "agents_wf (t\<lparr>binds := m\<rparr>) \<longleftrightarrow> agents_wf t" for t m
    by (rule agents_wf_cong) (simp_all add: agent_cores_def del: fmmap_core)
  then show ?thesis by (simp add: redeem_bind_def Let_def)
qed

lemma RedeemBindToken_result:
  assumes "RedeemBindToken h agentID tokenHash now newUUID newEdgeID s = (Inr a, s')"
  obtains bind edgeID where "fmlookup (bindByHash s) h \<noteq> None"
    and "fmlookup (binds s) (the (fmlookup (bindByHash s) h)) = Some bind"
    and "Bind_UsedAt bind = None" and "now \<le> Bind_ExpiresAt bind"
    and "newUUID = Inr (Agent_AgentUUID a)" and "Agent_TokenHash a = tokenHash"
    and "Agent_Status a = StatusActive" and "fmlookup (agentByURI s) (Agent_AgentID a) = None"
    and "name_free s a" and "Agent_HostAgentUUID a = Bind_HostAgentUUID bind"
    and "Bind_HostAgentUUID bind \<noteq> [] \<Longrightarrow> newEdgeID = Inr edgeID"
    and "s' = redeem_bind bind a edgeID now s"
proof -
  obtain bindID bind where b: "fmlookup (bindByHash s) h = Some bindID"
    "fmlookup (binds s) bindID = Some bind" "Bind_UsedAt bind = None" "\<not> now > Bind_ExpiresAt bind"
    using assms by (auto simp: RedeemBindToken_def split: option.splits if_splits)
  let ?h = "normalizeAgentNameKey agentID"
  obtain oh uri where o: "ownerHandleLocked s (Bind_OrgID bind) (Bind_OwnerHumanID bind) ?h False = Inr oh"
    "agentURILocked s (Bind_OrgID bind) oh ?h False = Inr uri" "fmlookup (agentByURI s) uri = None"
    using assms b by (auto simp: RedeemBindToken_def Let_def split: if_splits sum.splits)
  obtain u edgeID where u: "newUUID = Inr u"
    "(if Bind_HostAgentUUID bind \<noteq> [] then newEdgeID else Inr []) = Inr edgeID"
    using assms b o by (auto simp: RedeemBindToken_def Let_def split: if_splits sum.splits)
  have a: "a = \<lparr>Agent_AgentUUID = u, Agent_AgentID = uri, Agent_Handle = ?h,
      Agent_HandleFinalizedAt = None, Agent_OrgID = Bind_OrgID bind,
      Agent_OwnerHumanID = Bind_OwnerHumanID bind, Agent_HostAgentUUID = Bind_HostAgentUUID bind,
      Agent_TokenHash = tokenHash, Agent_Status = StatusActive,
      Agent_Metadata = defaultAgentMetadata, Agent_CreatedBy = Bind_CreatedBy bind,
      Agent_CreatedAt = now, Agent_RevokedAt = None\<rparr>"
    and s': "s' = redeem_bind bind a edgeID now s"
    using assms b o u by (auto simp: RedeemBindToken_def Let_def split: if_splits)
  have "name_free s a" by (rule ownerHandle_name_free [where denied = False]) (use o a in simp)
  with that [of bind edgeID] a b o u s' show ?thesis by (auto split: if_splits)
qed

lemma RedeemBindToken_error:
  "RedeemBindToken h agentID tokenHash now newUUID newEdgeID s = (Inl e, s') \<Longrightarrow> s' = s"
  by (auto simp: RedeemBindToken_def Let_def split: if_splits sum.splits option.splits)

lemma RedeemBindToken_wf [wf_intros]:
  assumes wf: "agents_wf s" and hash: "fresh_hash tokenHash s"
    and fresh: "\<And>u. newUUID = Inr u \<Longrightarrow> fmlookup (agents s) u = None"
  shows "agents_wf (snd (RedeemBindToken h agentID tokenHash now newUUID newEdgeID s))"
proof (cases "RedeemBindToken h agentID tokenHash now newUUID newEdgeID s")
  case (Pair r s')
  show ?thesis
  proof (cases r)
    case (Inl e)
    with Pair RedeemBindToken_error wf show ?thesis by fastforce
  next
    case (Inr a)
    from RedeemBindToken_result [OF Pair [unfolded Inr]] obtain bind edgeID
      where "newUUID = Inr (Agent_AgentUUID a)" "Agent_TokenHash a = tokenHash"
        "Agent_Status a = StatusActive" "fmlookup (agentByURI s) (Agent_AgentID a) = None"
        "name_free s a" "s' = redeem_bind bind a edgeID now s" by blast
    with Pair show ?thesis
      using wf hash fresh by (simp add: redeem_bind_agents installAgent_wf)
  qed
qed

text \<open>
  The steps that change one agent: its token, its status, its handle, its organisation.
\<close>

lemma rotate_step_wf:
  assumes wf: "agents_wf s" and hash: "fresh_hash tokenHash s"
    and a: "fmlookup (agents s) u = Some a" and live: "Agent_Status a \<noteq> StatusRevoked"
  shows "agents_wf (s\<lparr>agents := fmupd u (a\<lparr>Agent_TokenHash := tokenHash\<rparr>) (agents s),
    agentTokenIdx := fmupd tokenHash u (fmdrop (Agent_TokenHash a) (agentTokenIdx s))\<rparr>)"
    (is "agents_wf ?s")
proof -
  have C: "fmlookup (agent_cores s) u = Some (agent_core a)" using a by simp
  let ?C = "fmupd u (agent_core (a\<lparr>Agent_TokenHash := tokenHash\<rparr>)) (agent_cores s)"
  have ct: "agent_cores ?s = ?C" by (rule agent_cores_upd) simp
  show ?thesis
    unfolding agents_wf_def ct
  proof (intro conjI)
    show "uuids_ok ?C"
      using wf agents_wf_uuid [OF wf a] by (simp add: agents_wf_def uuids_ok_upd)
    show "distinct_hashes ?C"
      using wf unfolding agents_wf_def
      by (intro distinct_hashes_upd) (auto dest: fresh_hashD [OF hash])
    show "index_ok token_key ?C (agentTokenIdx ?s)"
      using wf C live fresh_hash_idx [OF wf hash]
      by (auto simp: agents_wf_def token_key_def intro!: index_ok_rekey)
    show "index_covers uri_key ?C (agentByURI ?s)"
      using wf C by (auto simp: agents_wf_def uri_key_def intro!: index_covers_update)
    show "index_covers org_name_key ?C (orgOwnedAgentNameIdx ?s)"
      using wf C by (auto simp: agents_wf_def org_name_key_def intro!: index_covers_update)
    show "index_covers human_name_key ?C (humanOwnedAgentNameIdx ?s)"
      using wf C by (auto simp: agents_wf_def human_name_key_def intro!: index_covers_update)
  qed
qed

lemma RotateAgentToken_wf [wf_intros]:
  assumes "agents_wf s" and "fresh_hash tokenHash s"
  shows "agents_wf (snd (RotateAgentToken u actor tokenHash now super s))"
  using assms rotate_step_wf by (auto simp: RotateAgentToken_def Let_def split: option.split)

text \<open>Dropping the keys of an agent that is about to lose them.\<close>

lemma dropNameKey_frame [simp]:
  "agents (dropNameKey o1 o2 h s) = agents s" "agentTokenIdx (dropNameKey o1 o2 h s) = agentTokenIdx s"
  "agentByURI (dropNameKey o1 o2 h s) = agentByURI s" "humans (dropNameKey o1 o2 h s) = humans s"
  "orgs (dropNameKey o1 o2 h s) = orgs s" "queues (dropNameKey o1 o2 h s) = queues s"
  "agentTrusts (dropNameKey o1 o2 h s) = agentTrusts s"
  "messageDeliveries (dropNameKey o1 o2 h s) = messageDeliveries s"
  by (simp_all add: dropNameKey_def split: option.split)

lemma revoke_step_wf:
  assumes wf: "agents_wf s" and a: "fmlookup (agents s) u = Some a"
    and live: "Agent_Status a \<noteq> StatusRevoked"
    and t: "agents t = fmupd u (a\<lparr>Agent_Status := StatusRevoked, Agent_RevokedAt := r\<rparr>) (agents s)"
      "agentTokenIdx t = fmdrop (Agent_TokenHash a) (agentTokenIdx s)"
      "agentByURI t = fmdrop (Agent_AgentID a) (agentByURI s)"
      "orgOwnedAgentNameIdx t = orgOwnedAgentNameIdx
        (dropNameKey (Agent_OrgID a) (Agent_OwnerHumanID a) (Agent_Handle a) s)"
      "humanOwnedAgentNameIdx t = humanOwnedAgentNameIdx
        (dropNameKey (Agent_OrgID a) (Agent_OwnerHumanID a) (Agent_Handle a) s)"
  shows "agents_wf t"
proof -
  let ?b = "agent_core (a\<lparr>Agent_Status := StatusRevoked, Agent_RevokedAt := r\<rparr>)"
  have C: "fmlookup (agent_cores s) u = Some (agent_core a)" using a by simp
  have ct: "agent_cores t = fmupd u ?b (agent_cores s)"
    by (rule agent_cores_upd [OF t(1)])
  note idx = wf [unfolded agents_wf_def]
  show ?thesis
    unfolding agents_wf_def ct t(2,3)
  proof (intro conjI)
    show "uuids_ok (fmupd u ?b (agent_cores s))"
      using idx agents_wf_uuid [OF wf a] by (simp add: uuids_ok_upd)
    show "distinct_hashes (fmupd u ?b (agent_cores s))"
      using idx C by (auto intro!: distinct_hashes_keep)
    show "index_ok token_key (fmupd u ?b (agent_cores s)) (fmdrop (Agent_TokenHash a) (agentTokenIdx s))"
      using idx C live by (intro index_ok_unindex) (auto simp: token_key_def)
    show "index_covers uri_key (fmupd u ?b (agent_cores s)) (fmdrop (Agent_AgentID a) (agentByURI s))"
      using idx C live by (intro index_covers_unindex) (auto simp: uri_key_def)
    show "index_covers org_name_key (fmupd u ?b (agent_cores s)) (orgOwnedAgentNameIdx t)"
    proof (cases "Agent_OwnerHumanID a")
      case None
      with idx C live show ?thesis unfolding t(4)
        by (simp add: dropNameKey_def)
          (rule index_covers_unindex, auto simp: org_name_key_def)
    next
      case (Some owner)
      with idx C show ?thesis unfolding t(4)
        by (simp add: dropNameKey_def index_covers_insert_unindexed org_name_key_def)
    qed
    show "index_covers human_name_key (fmupd u ?b (agent_cores s)) (humanOwnedAgentNameIdx t)"
    proof (cases "Agent_OwnerHumanID a")
      case (Some owner)
      with idx C live show ?thesis unfolding t(5)
        by (simp add: dropNameKey_def)
          (rule index_covers_unindex, auto simp: human_name_key_def)
    next
      case None
      with idx C show ?thesis unfolding t(5)
        by (simp add: dropNameKey_def index_covers_insert_unindexed human_name_key_def)
    qed
  qed
qed

lemma RevokeAgent_wf [wf_intros]:
  assumes "agents_wf s"
  shows "agents_wf (snd (RevokeAgent u actor now super s))"
proof (cases "fmlookup (agents s) u")
  case None
  with assms show ?thesis by (simp add: RevokeAgent_def)
next
  case (Some a)
  show ?thesis
  proof (cases "Agent_Status a = StatusRevoked")
    case True
    with Some assms show ?thesis by (simp add: RevokeAgent_def)
  next
    case False
    from revoke_step_wf [OF assms Some False] have step: "agents_wf t"
      if "agents t = fmupd u (a\<lparr>Agent_Status := StatusRevoked, Agent_RevokedAt := Some now\<rparr>) (agents s)"
        "agentTokenIdx t = fmdrop (Agent_TokenHash a) (agentTokenIdx s)"
        "agentByURI t = fmdrop (Agent_AgentID a) (agentByURI s)"
        "orgOwnedAgentNameIdx t = orgOwnedAgentNameIdx
          (dropNameKey (Agent_OrgID a) (Agent_OwnerHumanID a) (Agent_Handle a) s)"
        "humanOwnedAgentNameIdx t = humanOwnedAgentNameIdx
          (dropNameKey (Agent_OrgID a) (Agent_OwnerHumanID a) (Agent_Handle a) s)" for t
      using that by blast
    show ?thesis
      using Some False assms
      by (simp add: RevokeAgent_def Let_def recomputeQueueMetricsLocked_def)
        (intro conjI impI step, simp_all add: dropNameKey_def split: option.split)
  qed
qed

lemma delete_step_wf:
  assumes wf: "agents_wf s" and a: "fmlookup (agents s) u = Some a"
    and t: "agents t = fmdrop u (agents s)"
      "agentTokenIdx t = fmdrop (Agent_TokenHash a) (agentTokenIdx s)"
      "agentByURI t = agentByURI s" "orgOwnedAgentNameIdx t = orgOwnedAgentNameIdx s"
      "humanOwnedAgentNameIdx t = humanOwnedAgentNameIdx s"
  shows "agents_wf t"
proof -
  have C: "fmlookup (agent_cores s) u = Some (agent_core a)" using a by simp
  have ct: "agent_cores t = fmdrop u (agent_cores s)"
    by (rule agent_cores_drop [OF t(1)])
  note idx = wf [unfolded agents_wf_def]
  have tok: "index_ok token_key (fmdrop u (agent_cores s)) (agentTokenIdx t)"
  proof (cases "token_key a")
    case (Some k)
    with idx C show ?thesis unfolding t(2)
      by (auto simp: token_key_def split: if_splits intro!: index_ok_drop)
  next
    case None
    have "fmlookup (agentTokenIdx s) (Agent_TokenHash a) = None"
    proof (rule ccontr)
      assume "fmlookup (agentTokenIdx s) (Agent_TokenHash a) \<noteq> None"
      then obtain v where "fmlookup (agentTokenIdx s) (Agent_TokenHash a) = Some v" by auto
      with idx obtain b where b: "fmlookup (agent_cores s) v = Some b"
        and k: "token_key b = Some (Agent_TokenHash a)"
        using index_ok_lookup by blast
      then have "Agent_TokenHash b = Agent_TokenHash (agent_core a)"
        by (auto simp: token_key_def split: if_splits)
      with idx b C have "v = u" unfolding distinct_hashes_def by blast
      with b C have "Some b = Some (agent_core a)" by metis
      with k None show False by simp
    qed
    then have "fmdrop (Agent_TokenHash a) (agentTokenIdx s) = agentTokenIdx s"
      by (rule fmsize_drop_none)
    moreover have "token_key v = None" if "fmlookup (agent_cores s) u = Some v" for v
      using that C None by (metis agent_keys_core(1) option.inject)
    ultimately show ?thesis unfolding t(2) using idx
      by (simp only: index_ok_drop_unindexed)
  qed
  show ?thesis
    unfolding agents_wf_def ct
    using idx tok t(3-5)
    by (simp add: uuids_ok_drop distinct_hashes_drop index_covers_drop)
qed

lemma DeleteAgent_wf [wf_intros]:
  assumes "agents_wf s"
  shows "agents_wf (snd (DeleteAgent u actor now super s))"
proof (cases "fmlookup (agents s) u")
  case None
  with assms show ?thesis by (simp add: DeleteAgent_def)
next
  case (Some a)
  have step: "agents_wf t"
    if "agents t = fmdrop u (agents s)" "agentTokenIdx t = fmdrop (Agent_TokenHash a) (agentTokenIdx s)"
      "agentByURI t = agentByURI s" "orgOwnedAgentNameIdx t = orgOwnedAgentNameIdx s"
      "humanOwnedAgentNameIdx t = humanOwnedAgentNameIdx s" for t
    using delete_step_wf [OF assms Some] that by blast
  show ?thesis
    using Some assms
    by (simp add: DeleteAgent_def Let_def recomputeQueueMetricsLocked_def)
      (intro conjI impI step, simp_all)
qed

lemma taken_by_other_free:
  "\<not> taken_by_other idx k u \<Longrightarrow> fmlookup idx k = None \<or> fmlookup idx k = Some u"
  by (auto simp: taken_by_other_def split: option.splits)

lemma rename_step_wf:
  assumes wf: "agents_wf s" and a: "fmlookup (agents s) u = Some a"
    and live: "Agent_Status a \<noteq> StatusRevoked"
    and same: "Agent_AgentUUID a' = Agent_AgentUUID a" "Agent_TokenHash a' = Agent_TokenHash a"
      "Agent_Status a' = Agent_Status a" "Agent_OwnerHumanID a' = Agent_OwnerHumanID a"
    and uri: "\<not> taken_by_other (agentByURI s) (Agent_AgentID a') u"
    and name: "\<And>k. org_name_key a' = Some k \<Longrightarrow> \<not> taken_by_other (orgOwnedAgentNameIdx s) k u"
      "\<And>k. human_name_key a' = Some k \<Longrightarrow> \<not> taken_by_other (humanOwnedAgentNameIdx s) k u"
    and t: "agents t = fmupd u a' (agents s)" "agentTokenIdx t = agentTokenIdx s"
      "agentByURI t = fmupd (Agent_AgentID a') u (fmdrop (Agent_AgentID a) (agentByURI s))"
    and n: "n = addNameKey (Agent_OrgID a') (Agent_OwnerHumanID a) (Agent_Handle a') u
      (dropNameKey (Agent_OrgID a) (Agent_OwnerHumanID a) (Agent_Handle a) s)"
      "orgOwnedAgentNameIdx t = orgOwnedAgentNameIdx n"
      "humanOwnedAgentNameIdx t = humanOwnedAgentNameIdx n"
  shows "agents_wf t"
proof -
  let ?C = "fmupd u (agent_core a') (agent_cores s)"
  have C: "fmlookup (agent_cores s) u = Some (agent_core a)" using a by simp
  have ct: "agent_cores t = ?C" by (rule agent_cores_upd [OF t(1)])
  note idx = wf [unfolded agents_wf_def]
  show ?thesis
    unfolding agents_wf_def ct t(2,3)
  proof (intro conjI)
    show "uuids_ok ?C" using idx agents_wf_uuid [OF wf a] same by (simp add: uuids_ok_upd)
    show "distinct_hashes ?C" using idx C same by (auto intro!: distinct_hashes_keep)
    show "index_ok token_key ?C (agentTokenIdx s)"
      using idx C same by (intro index_ok_update) (auto simp: token_key_def)
    show "index_covers uri_key ?C (fmupd (Agent_AgentID a') u (fmdrop (Agent_AgentID a) (agentByURI s)))"
      using idx C live same taken_by_other_free [OF uri]
      by (intro index_covers_rekey) (auto simp: uri_key_def)
    show "index_covers org_name_key ?C (orgOwnedAgentNameIdx t)"
    proof (cases "Agent_OwnerHumanID a")
      case None
      then have "org_name_key a' = Some (orgOwnedAgentNameKey (Agent_OrgID a') (Agent_Handle a'))"
        using live same by (simp add: org_name_key_def)
      with None idx C live same name(1) taken_by_other_free show ?thesis
        unfolding n(2) n(1)
        by (simp add: addNameKey_def dropNameKey_def)
          (rule index_covers_rekey, auto simp: org_name_key_def)
    next
      case (Some owner)
      with idx C same show ?thesis unfolding n(2) n(1)
        by (simp add: addNameKey_def dropNameKey_def index_covers_insert_unindexed org_name_key_def)
    qed
    show "index_covers human_name_key ?C (humanOwnedAgentNameIdx t)"
    proof (cases "Agent_OwnerHumanID a")
      case (Some owner)
      then have "human_name_key a' =
          Some (humanOwnedAgentNameKey (Agent_OrgID a') owner (Agent_Handle a'))"
        using live same by (simp add: human_name_key_def)
      with Some idx C live same name(2) taken_by_other_free show ?thesis
        unfolding n(3) n(1)
        by (simp add: addNameKey_def dropNameKey_def)
          (rule index_covers_rekey, auto simp: human_name_key_def)
    next
      case None
      with idx C same show ?thesis unfolding n(3) n(1)
        by (simp add: addNameKey_def dropNameKey_def index_covers_insert_unindexed human_name_key_def)
    qed
  qed
qed

lemma nameKeyTaken_free:
  assumes "\<not> nameKeyTaken s a h" and "Agent_AgentUUID a = u"
  shows "org_name_key (a\<lparr>Agent_Handle := h, Agent_AgentID := x, Agent_HandleFinalizedAt := y\<rparr>) = Some k \<Longrightarrow>
      \<not> taken_by_other (orgOwnedAgentNameIdx s) k u"
    and "human_name_key (a\<lparr>Agent_Handle := h, Agent_AgentID := x, Agent_HandleFinalizedAt := y\<rparr>) = Some k \<Longrightarrow>
      \<not> taken_by_other (humanOwnedAgentNameIdx s) k u"
  using assms
  by (auto simp: nameKeyTaken_def org_name_key_def human_name_key_def split: if_splits option.splits)

lemma FinalizeAgentHandleSelf_wf [wf_intros]:
  assumes wf: "agents_wf s"
  shows "agents_wf (snd (FinalizeAgentHandleSelf u handle now s))"
proof (cases "fmlookup (agents s) u")
  case None
  with wf show ?thesis by (simp add: FinalizeAgentHandleSelf_def)
next
  case (Some a)
  have u: "Agent_AgentUUID a = u" by (rule agents_wf_uuid [OF wf Some])
  let ?h = "normalizeAgentNameKey handle"
  show ?thesis
  proof (cases "Agent_Status a = StatusRevoked")
    case True
    with Some wf show ?thesis by (simp add: FinalizeAgentHandleSelf_def)
  next
    case live: False
    show ?thesis
    proof (cases "nameKeyTaken s a ?h")
      case True
      with Some live wf show ?thesis
        by (simp add: FinalizeAgentHandleSelf_def Let_def split: sum.split)
    next
      case free: False
      have step: "agents_wf t"
        if "\<not> taken_by_other (agentByURI s) uri u"
          and "agents t = fmupd u (a\<lparr>Agent_Handle := ?h, Agent_AgentID := uri,
            Agent_HandleFinalizedAt := Some now\<rparr>) (agents s)"
          "agentTokenIdx t = agentTokenIdx s"
          "agentByURI t = fmupd uri u (fmdrop (Agent_AgentID a) (agentByURI s))"
          "orgOwnedAgentNameIdx t = orgOwnedAgentNameIdx (addNameKey (Agent_OrgID a)
            (Agent_OwnerHumanID a) ?h u (dropNameKey (Agent_OrgID a) (Agent_OwnerHumanID a) (Agent_Handle a) s))"
          "humanOwnedAgentNameIdx t = humanOwnedAgentNameIdx (addNameKey (Agent_OrgID a)
            (Agent_OwnerHumanID a) ?h u (dropNameKey (Agent_OrgID a) (Agent_OwnerHumanID a) (Agent_Handle a) s))"
        for t uri
        by (rule rename_step_wf [OF wf Some live, where a' = "a\<lparr>Agent_Handle := ?h,
              Agent_AgentID := uri, Agent_HandleFinalizedAt := Some now\<rparr>"])
          (use that nameKeyTaken_free [OF free u] in \<open>simp_all\<close>)
      show ?thesis
        using Some live free wf u
        by (simp add: FinalizeAgentHandleSelf_def Let_def split: sum.split)
          (intro conjI allI impI, erule step, simp_all add: addNameKey_def dropNameKey_def
            split: option.split)
    qed
  qed
qed

lemma agents_wf_metadata:
  assumes "agents_wf s" and "fmlookup (agents s) u = Some a"
  shows "agents_wf (s\<lparr>agents := fmupd u (a\<lparr>Agent_Metadata := m\<rparr>) (agents s)\<rparr>)" (is "agents_wf ?s")
proof -
  have "agent_cores ?s = fmupd u (agent_core (a\<lparr>Agent_Metadata := m\<rparr>)) (agent_cores s)"
    by (rule agent_cores_upd) simp
  also have "\<dots> = agent_cores s" using assms(2) by (intro fmupd_same) simp
  finally have "agents_wf ?s \<longleftrightarrow> agents_wf s" by (rule agents_wf_cong) simp_all
  with assms(1) show ?thesis by simp
qed

lemma putAgentMetadata_wf:
  "agents_wf s \<Longrightarrow> fmlookup (agents s) u = Some a \<Longrightarrow>
    agents_wf (snd (putAgentMetadata jsonSize a u metadata actor action now s))"
  by (simp add: putAgentMetadata_def Let_def agents_wf_metadata split: sum.split)

lemma UpdateAgentMetadata_wf [wf_intros]:
  "agents_wf s \<Longrightarrow> agents_wf (snd (UpdateAgentMetadata jsonSize u metadata actor now super s))"
  by (simp add: UpdateAgentMetadata_def putAgentMetadata_wf split: option.split)

lemma UpdateAgentMetadataSelf_wf [wf_intros]:
  "agents_wf s \<Longrightarrow> agents_wf (snd (UpdateAgentMetadataSelf jsonSize u metadata now s))"
  by (simp add: UpdateAgentMetadataSelf_def putAgentMetadata_wf split: option.split)

lemma SetAgentPresence_wf [wf_intros]:
  assumes "agents_wf s"
  shows "agents_wf (snd (SetAgentPresence u presence now s))"
proof -
  have "agents_wf (s\<lparr>agentPresence := m\<rparr>)" for m
    using assms by (simp add: agents_wf_def agent_cores_def del: fmmap_core)
  with assms show ?thesis by (simp add: SetAgentPresence_def Let_def split: option.split)
qed

lemma RecordAgentSystemActivity_wf [wf_intros]:
  assumes "agents_wf s"
  shows "agents_wf (snd (RecordAgentSystemActivity u entry now s))"
proof (cases "fmlookup (agents s) (TrimSpace u)")
  case None
  with assms show ?thesis by (simp add: RecordAgentSystemActivity_def)
next
  case (Some a)
  have "Agent_AgentUUID a = TrimSpace u" by (rule agents_wf_uuid [OF assms Some])
  with assms Some agents_wf_metadata [OF assms Some] show ?thesis
    by (simp add: RecordAgentSystemActivity_def Let_def split: option.split)
qed

section \<open>The transfer keeps the invariant\<close>

lemma transferAgent_step:
  assumes wf: "agents_wf s" and a: "fmlookup (agents s) u = Some a" and own: "transferable humanID a"
  shows "agents_wf (transferAgent org orgID humanID ownerHandle now u s)"
proof -
  let ?uri = "BuildAgentURI (Org_Handle org) (Some ownerHandle) (Agent_Handle a)"
  let ?key = "humanOwnedAgentNameKey orgID humanID (Agent_Handle a)"
  have a': "Agent_Status a \<noteq> StatusRevoked" "Agent_OrgID a = []" "Agent_OwnerHumanID a = Some humanID"
    using own by (simp_all add: transferable_def)
  show ?thesis
  proof (cases "taken_by_other (humanOwnedAgentNameIdx s) ?key u \<or> taken_by_other (agentByURI s) ?uri u")
    case True
    with wf a show ?thesis by (auto simp: transferAgent_def Let_def)
  next
    case False
    have "agents_wf t"
      if "agents t = fmupd u (a\<lparr>Agent_OrgID := orgID, Agent_AgentID := ?uri\<rparr>) (agents s)"
        "agentTokenIdx t = agentTokenIdx s"
        "agentByURI t = fmupd ?uri u (fmdrop (Agent_AgentID a) (agentByURI s))"
        "orgOwnedAgentNameIdx t = orgOwnedAgentNameIdx s"
        "humanOwnedAgentNameIdx t = fmupd ?key u
          (fmdrop (humanOwnedAgentNameKey [] humanID (Agent_Handle a)) (humanOwnedAgentNameIdx s))" for t
      by (rule rename_step_wf [OF wf a a'(1), where a' = "a\<lparr>Agent_OrgID := orgID, Agent_AgentID := ?uri\<rparr>"
            and n = "addNameKey orgID (Agent_OwnerHumanID a) (Agent_Handle a) u
              (dropNameKey (Agent_OrgID a) (Agent_OwnerHumanID a) (Agent_Handle a) s)"])
        (use that a' False in \<open>simp_all add: addNameKey_def dropNameKey_def org_name_key_def human_name_key_def\<close>)
    with False a show ?thesis by (simp add: transferAgent_def Let_def)
  qed
qed

lemma transferAgent_others:
  "v \<noteq> u \<Longrightarrow> fmlookup (agent_cores (transferAgent org orgID humanID oh now u s)) v = fmlookup (agent_cores s) v"
proof -
  assume "v \<noteq> u"
  have "fmlookup (agent_cores t) v = fmlookup (agent_cores s) v"
    if "agents t = fmupd u b (agents s)" for t b
    unfolding agent_cores_upd [OF that] using \<open>v \<noteq> u\<close> by simp
  then show ?thesis
    by (simp add: transferAgent_def Let_def del: agent_cores_lookup split: option.split)
qed

lemma transferable_core: "transferable humanID (agent_core a) = transferable humanID a"
  by (simp add: transferable_def)

lemma transferHumanOwnedAgents_wf [wf_intros]:
  assumes "agents_wf s"
  shows "agents_wf (transferHumanOwnedAgentsToOrgLocked orgID humanID now s)"
proof -
  have loop: "agents_wf (fold (transferAgent org oid hid oh now) us s)"
    if "agents_wf s" "distinct us"
      "\<forall>u \<in> set us. \<exists>a. fmlookup (agent_cores s) u = Some a \<and> transferable hid a"
    for us s org oid hid oh
    using that
  proof (induction us arbitrary: s)
    case (Cons u us)
    then obtain a where a: "fmlookup (agents s) u = Some a" and own: "transferable hid a"
      by (auto simp: transferable_core)
    have "\<forall>v \<in> set us. \<exists>a. fmlookup (agent_cores (transferAgent org oid hid oh now u s)) v = Some a
        \<and> transferable hid a"
    proof
      fix v
      assume "v \<in> set us"
      with Cons.prems have "v \<noteq> u" by auto
      with Cons.prems \<open>v \<in> set us\<close> show "\<exists>a. fmlookup (agent_cores
          (transferAgent org oid hid oh now u s)) v = Some a \<and> transferable hid a"
        unfolding transferAgent_others [OF \<open>v \<noteq> u\<close>] by simp
    qed
    with Cons.IH [OF transferAgent_step [OF Cons.prems(1) a own]] Cons.prems show ?case by simp
  qed simp
  have sel: "\<forall>u \<in> set (sorted_keys (fmdelete_if (\<lambda>_ a. \<not> transferable hid a) (agents s))).
      \<exists>a. fmlookup (agent_cores s) u = Some a \<and> transferable hid a" for hid
  proof
    fix u
    assume "u \<in> set (sorted_keys (fmdelete_if (\<lambda>_ a. \<not> transferable hid a) (agents s)))"
    then obtain a where "fmlookup (agents s) u = Some a" "transferable hid a"
      by (auto simp: fmlookup_dom'_iff split: option.splits if_splits)
    then show "\<exists>a. fmlookup (agent_cores s) u = Some a \<and> transferable hid a"
      by (simp add: transferable_core)
  qed
  show ?thesis
    using assms loop [OF assms distinct_sorted_keys sel]
    by (simp add: transferHumanOwnedAgentsToOrgLocked_def Let_def split: option.split)
qed

end
