(* ===== verification/Trust.thy ===== *)
theory Trust
  imports AgentIndex
begin

text \<open>
  Trust edges of \<^verbatim>\<open>internal/store/memory.go\<close>: between two organisations or two agents, asked
  for, approved, blocked and revoked by the people who manage an end; and the decision
  whether one agent may send to another.
\<close>

section \<open>The code\<close>

definition reopen :: "trust_edge \<Rightarrow> trust_edge" where
  "reopen edge =
     (if Edge_State edge = StatusBlocked \<or> Edge_State edge = StatusRevoked
      then edge\<lparr>Edge_State := StatusPending, Edge_LeftApproved := False,
        Edge_RightApproved := False\<rparr>
      else edge)"

definition approve_side :: "bool \<Rightarrow> trust_edge \<Rightarrow> trust_edge" where
  "approve_side isLeft edge =
     (if isLeft then edge\<lparr>Edge_LeftApproved := True\<rparr> else edge\<lparr>Edge_RightApproved := True\<rparr>)"

definition settle_state :: "time \<Rightarrow> trust_edge \<Rightarrow> trust_edge" where
  "settle_state now edge =
     edge\<lparr>Edge_State := (if Edge_LeftApproved edge \<and> Edge_RightApproved edge
         then StatusActive else StatusPending),
       Edge_UpdatedAt := now\<rparr>"

definition applyTrustRequest :: "trust_edge \<Rightarrow> bool \<Rightarrow> time \<Rightarrow> trust_edge" where
  "applyTrustRequest edge isLeftRequester now =
     settle_state now (approve_side isLeftRequester (reopen edge))"

definition applyAgentTrustRequest :: "trust_edge \<Rightarrow> bool \<Rightarrow> bool \<Rightarrow> time \<Rightarrow> trust_edge" where
  "applyAgentTrustRequest edge isLeftRequester requesterCanApprove now =
     settle_state now
       (if requesterCanApprove then approve_side isLeftRequester (reopen edge) else reopen edge)"

definition activate_edge :: "time \<Rightarrow> trust_edge \<Rightarrow> trust_edge" where
  "activate_edge now edge =
     edge\<lparr>Edge_LeftApproved := True, Edge_RightApproved := True, Edge_State := StatusActive,
       Edge_UpdatedAt := now\<rparr>"

definition close_edge :: "string \<Rightarrow> time \<Rightarrow> trust_edge \<Rightarrow> trust_edge" where
  "close_edge state now edge =
     edge\<lparr>Edge_State := state, Edge_LeftApproved := False, Edge_RightApproved := False,
       Edge_UpdatedAt := now\<rparr>"

definition opposite :: "trust_edge \<Rightarrow> string \<Rightarrow> string" where
  "opposite edge i = (if Edge_LeftID edge = i then Edge_RightID edge else Edge_LeftID edge)"

definition zero_edge :: trust_edge where
  "zero_edge = \<lparr>Edge_EdgeID = [], Edge_EdgeType = [], Edge_LeftID = [], Edge_RightID = [],
     Edge_State = [], Edge_LeftApproved = False, Edge_RightApproved = False,
     Edge_CreatedBy = [], Edge_CreatedAt = 0, Edge_UpdatedAt = 0\<rparr>"

definition edge_at :: "trust_edge gomap \<Rightarrow> string \<Rightarrow> trust_edge" where
  "edge_at m i = (case fmlookup m i of None \<Rightarrow> zero_edge | Some e \<Rightarrow> e)"

definition new_edge :: "string \<Rightarrow> string \<Rightarrow> string \<Rightarrow> string \<Rightarrow> string \<Rightarrow> time \<Rightarrow> trust_edge" where
  "new_edge edgeID edgeType leftID rightID actorHumanID now =
     \<lparr>Edge_EdgeID = edgeID, Edge_EdgeType = edgeType, Edge_LeftID = leftID,
      Edge_RightID = rightID, Edge_State = StatusPending, Edge_LeftApproved = False,
      Edge_RightApproved = False, Edge_CreatedBy = actorHumanID, Edge_CreatedAt = now,
      Edge_UpdatedAt = now\<rparr>"

definition org_request_details :: "trust_edge \<Rightarrow> string \<Rightarrow> gmap" where
  "org_request_details edge side =
     gmap_of [(''peer_org_id'', GStr (opposite edge side)), (''state'', GStr (Edge_State edge))]"

definition agent_request_details :: "trust_edge \<Rightarrow> string \<Rightarrow> gmap" where
  "agent_request_details edge side =
     gmap_of [(''agent_uuid'', GStr (TrimSpace side)),
       (''peer_agent_uuid'', GStr (opposite edge side)), (''state'', GStr (Edge_State edge))]"

text \<open>
  \<^verbatim>\<open>createOrJoinTrustLocked\<close>, its two halves.  The result is the edge and whether it is new.
\<close>

definition createOrJoinOrgTrustLocked ::
  "string \<Rightarrow> string \<Rightarrow> string \<Rightarrow> string \<Rightarrow> time \<Rightarrow> bool \<Rightarrow> memory_store \<Rightarrow>
    (store_error + trust_edge \<times> bool) \<times> memory_store" where
  "createOrJoinOrgTrustLocked leftInput rightInput actorHumanID edgeID now isSuperAdmin s =
     (let (leftID, rightID) = canonicalPair leftInput rightInput in
      if fmlookup (orgs s) leftID = None then (Inl ErrOrgNotFound, s)
      else if fmlookup (orgs s) rightID = None then (Inl ErrOrgNotFound, s)
      else if \<not> isSuperAdmin \<and>
          \<not> hasRoleAtLeast (membershipRoleLocked s leftInput actorHumanID) RoleAdmin
      then (Inl ErrUnauthorizedRole, s)
      else
        let key = pairKey leftID rightID in
        case fmlookup (orgTrustByPair s) key of
          Some existingID \<Rightarrow>
            let edge = edge_at (orgTrusts s) existingID;
                edge = applyTrustRequest edge (leftInput = Edge_LeftID edge) now;
                s = s\<lparr>orgTrusts := fmupd existingID edge (orgTrusts s)\<rparr>
            in (Inr (edge, False), appendAuditLocked leftInput actorHumanID ''trust_org'' ''request''
                 (Edge_EdgeID edge) (org_request_details edge leftInput) now s)
        | None \<Rightarrow>
            let edge = new_edge edgeID ''org'' leftID rightID actorHumanID now;
                edge = applyTrustRequest edge (leftInput = Edge_LeftID edge) now;
                s = s\<lparr>orgTrusts := fmupd (Edge_EdgeID edge) edge (orgTrusts s),
                  orgTrustByPair := fmupd key (Edge_EdgeID edge) (orgTrustByPair s)\<rparr>
            in (Inr (edge, True), appendAuditLocked leftInput actorHumanID ''trust_org'' ''request''
                 (Edge_EdgeID edge) (org_request_details edge leftInput) now s))"

definition managesBoth :: "memory_store \<Rightarrow> trust_edge \<Rightarrow> string \<Rightarrow> bool" where
  "managesBoth s edge actorHumanID \<longleftrightarrow>
     canManageAgentLockedByID s (Edge_LeftID edge) actorHumanID \<and>
     canManageAgentLockedByID s (Edge_RightID edge) actorHumanID"

definition createOrJoinAgentTrustLocked ::
  "string \<Rightarrow> string \<Rightarrow> string \<Rightarrow> string \<Rightarrow> time \<Rightarrow> bool \<Rightarrow> memory_store \<Rightarrow>
    (store_error + trust_edge \<times> bool) \<times> memory_store" where
  "createOrJoinAgentTrustLocked leftInput rightInput actorHumanID edgeID now isSuperAdmin s =
     (let (leftID, rightID) = canonicalPair leftInput rightInput in
      if fmlookup (agents s) leftID = None then (Inl ErrAgentNotFound, s)
      else if fmlookup (agents s) rightID = None then (Inl ErrAgentNotFound, s)
      else case fmlookup (agents s) leftInput of
        None \<Rightarrow> (Inl ErrAgentNotFound, s)
      | Some actorSideAgent \<Rightarrow>
          let actorSideOrg = Agent_OrgID actorSideAgent;
              actorCanApprove = isSuperAdmin \<or> canManageAgentLocked s actorSideAgent actorHumanID
          in if \<not> isSuperAdmin \<and> \<not> canRequestAgentTrustLocked s actorSideAgent actorHumanID
          then (Inl ErrUnauthorizedRole, s)
          else
            let key = pairKey leftID rightID;
                decide = (\<lambda>edge. let edge' = applyAgentTrustRequest edge
                      (leftInput = Edge_LeftID edge) actorCanApprove now
                    in if isSuperAdmin \<or> managesBoth s edge' actorHumanID
                       then activate_edge now edge' else edge');
                audit = (\<lambda>edge s. appendAuditLocked actorSideOrg actorHumanID ''trust_agent''
                    ''request'' (Edge_EdgeID edge) (agent_request_details edge leftInput) now s)
            in case fmlookup (agentTrustByPair s) key of
              Some existingID \<Rightarrow>
                let edge = decide (edge_at (agentTrusts s) existingID)
                in (Inr (edge, False),
                    audit edge (s\<lparr>agentTrusts := fmupd existingID edge (agentTrusts s)\<rparr>))
            | None \<Rightarrow>
                let edge = decide (new_edge edgeID ''agent'' leftID rightID actorHumanID now)
                in (Inr (edge, True),
                    audit edge (s\<lparr>agentTrusts := fmupd (Edge_EdgeID edge) edge (agentTrusts s),
                      agentTrustByPair := fmupd key (Edge_EdgeID edge) (agentTrustByPair s)\<rparr>)))"

definition createOrJoinTrustLocked ::
  "string \<Rightarrow> string \<Rightarrow> string \<Rightarrow> string \<Rightarrow> string \<Rightarrow> time \<Rightarrow> bool \<Rightarrow> memory_store \<Rightarrow>
    (store_error + trust_edge \<times> bool) \<times> memory_store" where
  "createOrJoinTrustLocked edgeType leftInput rightInput actorHumanID edgeID now isSuperAdmin s =
     (if edgeType \<noteq> ''org'' \<and> edgeType \<noteq> ''agent'' then (Inl ErrInvalidEdgeType, s)
      else if leftInput = rightInput then (Inl ErrSelfTrust, s)
      else if edgeType = ''org''
      then createOrJoinOrgTrustLocked leftInput rightInput actorHumanID edgeID now isSuperAdmin s
      else createOrJoinAgentTrustLocked leftInput rightInput actorHumanID edgeID now isSuperAdmin s)"

definition CreateOrJoinOrgTrust ::
  "string \<Rightarrow> string \<Rightarrow> string \<Rightarrow> string \<Rightarrow> time \<Rightarrow> bool \<Rightarrow> memory_store \<Rightarrow>
    (store_error + trust_edge \<times> bool) \<times> memory_store" where
  "CreateOrJoinOrgTrust orgID peerOrgID actorHumanID edgeID now isSuperAdmin s =
     createOrJoinTrustLocked ''org'' orgID peerOrgID actorHumanID edgeID now isSuperAdmin s"

definition CreateOrJoinAgentTrust ::
  "string \<Rightarrow> string \<Rightarrow> string \<Rightarrow> string \<Rightarrow> string \<Rightarrow> time \<Rightarrow> bool \<Rightarrow> memory_store \<Rightarrow>
    (store_error + trust_edge \<times> bool) \<times> memory_store" where
  "CreateOrJoinAgentTrust orgID agentUUID peerAgentUUID actorHumanID edgeID now isSuperAdmin s =
     (case fmlookup (agents s) agentUUID of
        None \<Rightarrow> (Inl ErrAgentNotFound, s)
      | Some a \<Rightarrow>
          if Agent_Status a = StatusRevoked then (Inl ErrAgentNotFound, s)
          else if orgID \<noteq> [] \<and> Agent_OrgID a \<noteq> orgID then (Inl ErrUnauthorizedRole, s)
          else if \<not> isSuperAdmin \<and> \<not> canRequestAgentTrustLocked s a actorHumanID
          then (Inl ErrUnauthorizedRole, s)
          else if \<not> live_agent s peerAgentUUID then (Inl ErrAgentNotFound, s)
          else createOrJoinTrustLocked ''agent'' agentUUID peerAgentUUID actorHumanID edgeID now
            isSuperAdmin s)"

text \<open>The edge, the side of the actor (left or right) and the organisation to audit.\<close>

definition loadEdgeForActorLocked ::
  "memory_store \<Rightarrow> string \<Rightarrow> string \<Rightarrow> string \<Rightarrow> bool \<Rightarrow> store_error + trust_edge \<times> bool \<times> string" where
  "loadEdgeForActorLocked s edgeType edgeID actorHumanID isSuperAdmin =
     (if edgeType \<noteq> ''org'' \<and> edgeType \<noteq> ''agent'' then Inl ErrInvalidEdgeType
      else case fmlookup (if edgeType = ''org'' then orgTrusts s else agentTrusts s) edgeID of
        None \<Rightarrow> Inl ErrTrustNotFound
      | Some edge \<Rightarrow>
          if edgeType = ''org'' then
            (if isSuperAdmin then Inr (edge, True, Edge_LeftID edge)
             else if hasRoleAtLeast (membershipRoleLocked s (Edge_LeftID edge) actorHumanID) RoleAdmin
             then Inr (edge, True, Edge_LeftID edge)
             else if hasRoleAtLeast (membershipRoleLocked s (Edge_RightID edge) actorHumanID) RoleAdmin
             then Inr (edge, False, Edge_RightID edge)
             else Inl ErrUnauthorizedRole)
          else
            (case (fmlookup (agents s) (Edge_LeftID edge), fmlookup (agents s) (Edge_RightID edge)) of
               (Some leftAgent, Some rightAgent) \<Rightarrow>
                 if isSuperAdmin then Inr (edge, True, Agent_OrgID leftAgent)
                 else if canManageAgentLocked s leftAgent actorHumanID
                 then Inr (edge, True, Agent_OrgID leftAgent)
                 else if canManageAgentLocked s rightAgent actorHumanID
                 then Inr (edge, False, Agent_OrgID rightAgent)
                 else Inl ErrUnauthorizedRole
             | _ \<Rightarrow> Inl ErrAgentNotFound))"

definition storeEdgeLocked :: "string \<Rightarrow> trust_edge \<Rightarrow> memory_store \<Rightarrow> memory_store" where
  "storeEdgeLocked edgeType edge s =
     (if edgeType = ''org'' then s\<lparr>orgTrusts := fmupd (Edge_EdgeID edge) edge (orgTrusts s)\<rparr>
      else s\<lparr>agentTrusts := fmupd (Edge_EdgeID edge) edge (agentTrusts s)\<rparr>)"

definition edge_details :: "trust_edge \<Rightarrow> gmap" where
  "edge_details edge =
     gmap_of [(''agent_uuid'', GStr (Edge_LeftID edge)), (''peer_agent_uuid'', GStr (Edge_RightID edge))]"

definition approve_edge :: "bool \<Rightarrow> time \<Rightarrow> trust_edge \<Rightarrow> trust_edge" where
  "approve_edge actorLeft now edge =
     settle_state now (approve_side actorLeft
       (if Edge_State edge = StatusRevoked \<or> Edge_State edge = StatusBlocked
        then edge\<lparr>Edge_State := StatusPending\<rparr> else edge))"

definition approveTrustLocked ::
  "string \<Rightarrow> string \<Rightarrow> string \<Rightarrow> time \<Rightarrow> bool \<Rightarrow> memory_store \<Rightarrow>
    (store_error + trust_edge) \<times> memory_store" where
  "approveTrustLocked edgeType edgeID actorHumanID now isSuperAdmin s =
     (case loadEdgeForActorLocked s edgeType edgeID actorHumanID isSuperAdmin of
        Inl e \<Rightarrow> (Inl e, s)
      | Inr (edge, actorLeft, orgID) \<Rightarrow>
          let edge = (if edgeType = ''agent'' \<and> (isSuperAdmin \<or> managesBoth s edge actorHumanID)
                then activate_edge now edge else approve_edge actorLeft now edge);
              s = storeEdgeLocked edgeType edge s
          in (Inr edge, appendAuditLocked orgID actorHumanID (''trust_'' @ edgeType) ''approve''
               (Edge_EdgeID edge) (fmupd ''state'' (GStr (Edge_State edge)) (edge_details edge)) now s))"

definition closeTrustLocked ::
  "string \<Rightarrow> string \<Rightarrow> string \<Rightarrow> string \<Rightarrow> string \<Rightarrow> time \<Rightarrow> bool \<Rightarrow> memory_store \<Rightarrow>
    (store_error + trust_edge) \<times> memory_store" where
  "closeTrustLocked state action edgeType edgeID actorHumanID now isSuperAdmin s =
     (case loadEdgeForActorLocked s edgeType edgeID actorHumanID isSuperAdmin of
        Inl e \<Rightarrow> (Inl e, s)
      | Inr (edge, _, orgID) \<Rightarrow>
          let edge = close_edge state now edge;
              s = storeEdgeLocked edgeType edge s
          in (Inr edge, appendAuditLocked orgID actorHumanID (''trust_'' @ edgeType) action
               (Edge_EdgeID edge) (edge_details edge) now s))"

definition blockTrustLocked ::
  "string \<Rightarrow> string \<Rightarrow> string \<Rightarrow> time \<Rightarrow> bool \<Rightarrow> memory_store \<Rightarrow>
    (store_error + trust_edge) \<times> memory_store" where
  "blockTrustLocked edgeType edgeID actorHumanID now isSuperAdmin s =
     closeTrustLocked StatusBlocked ''block'' edgeType edgeID actorHumanID now isSuperAdmin s"

definition revokeTrustLocked ::
  "string \<Rightarrow> string \<Rightarrow> string \<Rightarrow> time \<Rightarrow> bool \<Rightarrow> memory_store \<Rightarrow>
    (store_error + trust_edge) \<times> memory_store" where
  "revokeTrustLocked edgeType edgeID actorHumanID now isSuperAdmin s =
     closeTrustLocked StatusRevoked ''revoke'' edgeType edgeID actorHumanID now isSuperAdmin s"

definition ApproveOrgTrust ::
  "string \<Rightarrow> string \<Rightarrow> time \<Rightarrow> bool \<Rightarrow> memory_store \<Rightarrow>
    (store_error + trust_edge) \<times> memory_store" where
  "ApproveOrgTrust edgeID actorHumanID now isSuperAdmin s =
     approveTrustLocked ''org'' edgeID actorHumanID now isSuperAdmin s"

definition BlockOrgTrust ::
  "string \<Rightarrow> string \<Rightarrow> time \<Rightarrow> bool \<Rightarrow> memory_store \<Rightarrow>
    (store_error + trust_edge) \<times> memory_store" where
  "BlockOrgTrust edgeID actorHumanID now isSuperAdmin s =
     blockTrustLocked ''org'' edgeID actorHumanID now isSuperAdmin s"

definition RevokeOrgTrust ::
  "string \<Rightarrow> string \<Rightarrow> time \<Rightarrow> bool \<Rightarrow> memory_store \<Rightarrow>
    (store_error + trust_edge) \<times> memory_store" where
  "RevokeOrgTrust edgeID actorHumanID now isSuperAdmin s =
     revokeTrustLocked ''org'' edgeID actorHumanID now isSuperAdmin s"

definition ApproveAgentTrust ::
  "string \<Rightarrow> string \<Rightarrow> time \<Rightarrow> bool \<Rightarrow> memory_store \<Rightarrow>
    (store_error + trust_edge) \<times> memory_store" where
  "ApproveAgentTrust edgeID actorHumanID now isSuperAdmin s =
     approveTrustLocked ''agent'' edgeID actorHumanID now isSuperAdmin s"

definition BlockAgentTrust ::
  "string \<Rightarrow> string \<Rightarrow> time \<Rightarrow> bool \<Rightarrow> memory_store \<Rightarrow>
    (store_error + trust_edge) \<times> memory_store" where
  "BlockAgentTrust edgeID actorHumanID now isSuperAdmin s =
     blockTrustLocked ''agent'' edgeID actorHumanID now isSuperAdmin s"

definition RevokeAgentTrust ::
  "string \<Rightarrow> string \<Rightarrow> time \<Rightarrow> bool \<Rightarrow> memory_store \<Rightarrow>
    (store_error + trust_edge) \<times> memory_store" where
  "RevokeAgentTrust edgeID actorHumanID now isSuperAdmin s =
     revokeTrustLocked ''agent'' edgeID actorHumanID now isSuperAdmin s"

section \<open>Who may send to whom\<close>

definition hostedAgentPairAllowed :: "agent \<Rightarrow> agent \<Rightarrow> bool" where
  "hostedAgentPairAllowed sender receiver =
     (let senderHost = TrimSpace (Agent_HostAgentUUID sender);
          receiverHost = TrimSpace (Agent_HostAgentUUID receiver)
      in if senderHost \<noteq> [] \<and> senderHost \<noteq> Agent_AgentUUID receiver then False
         else if receiverHost \<noteq> [] \<and> receiverHost \<noteq> Agent_AgentUUID sender then False
         else True)"

definition active_pair :: "trust_edge gomap \<Rightarrow> string gomap \<Rightarrow> string \<Rightarrow> string \<Rightarrow> bool" where
  "active_pair edges byPair a b =
     (case fmlookup byPair (pairKey a b) of
        None \<Rightarrow> False
      | Some edgeID \<Rightarrow>
          (case fmlookup edges edgeID of
             None \<Rightarrow> False
           | Some edge \<Rightarrow> Edge_State edge = StatusActive))"

definition canPublishLocked :: "memory_store \<Rightarrow> agent \<Rightarrow> agent \<Rightarrow> bool" where
  "canPublishLocked s sender receiver =
     (if \<not> hostedAgentPairAllowed sender receiver then False
      else
        let senderOrgID = TrimSpace (Agent_OrgID sender);
            receiverOrgID = TrimSpace (Agent_OrgID receiver)
        in if senderOrgID \<noteq> [] \<and> receiverOrgID \<noteq> [] \<and> senderOrgID \<noteq> receiverOrgID
             \<and> \<not> active_pair (orgTrusts s) (orgTrustByPair s) senderOrgID receiverOrgID
           then False
           else active_pair (agentTrusts s) (agentTrustByPair s)
             (Agent_AgentUUID sender) (Agent_AgentUUID receiver))"

text \<open>The organisations of the two agents are returned with \<^verbatim>\<open>ErrNoTrustPath\<close> too.\<close>

definition CanPublish :: "string \<Rightarrow> string \<Rightarrow> memory_store \<Rightarrow> string \<times> string \<times> store_error option" where
  "CanPublish senderAgentUUID receiverAgentUUID s =
     (case GetAgentByUUID senderAgentUUID s of
        Inl e \<Rightarrow> ([], [], Some e)
      | Inr sender \<Rightarrow>
      case GetAgentByUUID receiverAgentUUID s of
        Inl e \<Rightarrow> ([], [], Some e)
      | Inr receiver \<Rightarrow>
          (Agent_OrgID sender, Agent_OrgID receiver,
           if canPublishLocked s sender receiver then None else Some ErrNoTrustPath))"

definition ListTalkablePeers :: "string \<Rightarrow> memory_store \<Rightarrow> store_error + string list" where
  "ListTalkablePeers agentUUID s =
     (case GetAgentByUUID agentUUID s of
        Inl e \<Rightarrow> Inl e
      | Inr agent \<Rightarrow> Inr (filter (\<lambda>peerUUID. peerUUID \<noteq> agentUUID \<and> live_agent s peerUUID \<and>
          canPublishLocked s agent (the (fmlookup (agents s) peerUUID))) (sorted_keys (agents s))))"

section \<open>Well-formed edges\<close>

definition edge_ends :: "trust_edge \<Rightarrow> bool" where
  "edge_ends e \<longleftrightarrow>
     Edge_LeftID e < Edge_RightID e \<and> plain (Edge_LeftID e) \<and> plain (Edge_RightID e)"

definition edge_ok :: "trust_edge \<Rightarrow> bool" where
  "edge_ok e \<longleftrightarrow>
     edge_ends e \<and>
     (Edge_State e = StatusActive \<longleftrightarrow> Edge_LeftApproved e \<and> Edge_RightApproved e) \<and>
     (Edge_State e \<in> {StatusBlocked, StatusRevoked} \<longrightarrow>
        \<not> Edge_LeftApproved e \<and> \<not> Edge_RightApproved e)"

definition pair_key :: "trust_edge \<Rightarrow> string option" where
  "pair_key e = Some (pair_of_edge e)"

definition edges_ok :: "trust_edge gomap \<Rightarrow> string gomap \<Rightarrow> bool" where
  "edges_ok T P \<longleftrightarrow>
     (\<forall>i e. fmlookup T i = Some e \<longrightarrow> Edge_EdgeID e = i \<and> edge_ok e) \<and> index_ok pair_key T P"

definition trust_wf :: "memory_store \<Rightarrow> bool" where
  "trust_wf s \<longleftrightarrow>
     edges_ok (orgTrusts s) (orgTrustByPair s) \<and> edges_ok (agentTrusts s) (agentTrustByPair s)"

lemmas edge_fun_defs =
  reopen_def approve_side_def settle_state_def applyTrustRequest_def applyAgentTrustRequest_def
  activate_edge_def close_edge_def approve_edge_def

lemma edge_ids [simp]:
  "Edge_EdgeID (applyTrustRequest e l n) = Edge_EdgeID e"
  "Edge_LeftID (applyTrustRequest e l n) = Edge_LeftID e"
  "Edge_RightID (applyTrustRequest e l n) = Edge_RightID e"
  "Edge_EdgeID (applyAgentTrustRequest e l c n) = Edge_EdgeID e"
  "Edge_LeftID (applyAgentTrustRequest e l c n) = Edge_LeftID e"
  "Edge_RightID (applyAgentTrustRequest e l c n) = Edge_RightID e"
  "Edge_EdgeID (activate_edge n e) = Edge_EdgeID e"
  "Edge_LeftID (activate_edge n e) = Edge_LeftID e"
  "Edge_RightID (activate_edge n e) = Edge_RightID e"
  "Edge_EdgeID (approve_edge l n e) = Edge_EdgeID e"
  "Edge_LeftID (approve_edge l n e) = Edge_LeftID e"
  "Edge_RightID (approve_edge l n e) = Edge_RightID e"
  "Edge_EdgeID (close_edge st n e) = Edge_EdgeID e"
  "Edge_LeftID (close_edge st n e) = Edge_LeftID e"
  "Edge_RightID (close_edge st n e) = Edge_RightID e"
  by (simp_all add: edge_fun_defs)

lemma edge_ends_same [simp]:
  "edge_ends (settle_state n e) = edge_ends e" "edge_ends (approve_side l e) = edge_ends e"
  "edge_ends (reopen e) = edge_ends e"
  "edge_ends (applyTrustRequest e l n) = edge_ends e"
  "edge_ends (applyAgentTrustRequest e l c n) = edge_ends e"
  "edge_ends (activate_edge n e) = edge_ends e" "edge_ends (approve_edge l n e) = edge_ends e"
  "edge_ends (close_edge st n e) = edge_ends e"
  by (simp_all add: edge_ends_def edge_fun_defs)

lemma settle_ok: "edge_ends e \<Longrightarrow> edge_ok (settle_state n e)"
  by (auto simp: edge_ok_def) (auto simp: settle_state_def split: if_splits)

lemma edge_ok_funs [simp]:
  "edge_ends e \<Longrightarrow> edge_ok (applyTrustRequest e l n)"
  "edge_ends e \<Longrightarrow> edge_ok (applyAgentTrustRequest e l c n)"
  "edge_ends e \<Longrightarrow> edge_ok (activate_edge n e)"
  "edge_ends e \<Longrightarrow> edge_ok (approve_edge l n e)"
  "edge_ends e \<Longrightarrow> st \<in> {StatusBlocked, StatusRevoked} \<Longrightarrow> edge_ok (close_edge st n e)"
proof -
  assume e: "edge_ends e"
  then show "edge_ok (applyTrustRequest e l n)" "edge_ok (applyAgentTrustRequest e l c n)"
    by (simp_all add: applyTrustRequest_def applyAgentTrustRequest_def settle_ok)
  have "edge_ends (e\<lparr>Edge_State := st\<rparr>)" for st using e by (simp add: edge_ends_def)
  with e show "edge_ok (approve_edge l n e)" by (simp add: approve_edge_def settle_ok)
  have "Edge_State (activate_edge n e) = StatusActive" "Edge_LeftApproved (activate_edge n e)"
    "Edge_RightApproved (activate_edge n e)" by (simp_all add: activate_edge_def)
  with e show "edge_ok (activate_edge n e)" by (simp add: edge_ok_def)
  have "Edge_State (close_edge st n e) = st" "\<not> Edge_LeftApproved (close_edge st n e)"
    "\<not> Edge_RightApproved (close_edge st n e)" by (simp_all add: close_edge_def)
  with e show "st \<in> {StatusBlocked, StatusRevoked} \<Longrightarrow> edge_ok (close_edge st n e)"
    by (auto simp: edge_ok_def)
qed

lemma edge_ok_ends: "edge_ok e \<Longrightarrow> edge_ends e"
  by (simp add: edge_ok_def)

lemma edges_okD:
  "edges_ok T P \<Longrightarrow> fmlookup T i = Some e \<Longrightarrow> Edge_EdgeID e = i \<and> edge_ok e \<and> edge_ends e"
  by (auto simp: edges_ok_def edge_ok_def)

lemma edges_ok_update:
  assumes "edges_ok T P" and "fmlookup T i = Some e" and "edge_ok e'"
    and "Edge_EdgeID e' = Edge_EdgeID e" "Edge_LeftID e' = Edge_LeftID e" "Edge_RightID e' = Edge_RightID e"
  shows "edges_ok (fmupd i e' T) P"
proof -
  have "index_ok pair_key (fmupd i e' T) P"
    using assms by (intro index_ok_update [OF _ assms(2)])
      (auto simp: edges_ok_def pair_key_def pair_of_edge_def)
  with assms show ?thesis by (auto simp: edges_ok_def)
qed

lemma edges_ok_insert:
  assumes "edges_ok T P" and "fmlookup T (Edge_EdgeID e) = None" and "edge_ok e"
    and "fmlookup P (pair_of_edge e) = None"
  shows "edges_ok (fmupd (Edge_EdgeID e) e T) (fmupd (pair_of_edge e) (Edge_EdgeID e) P)"
proof -
  have "index_ok pair_key (fmupd (Edge_EdgeID e) e T) (fmupd (pair_of_edge e) (Edge_EdgeID e) P)"
    using assms by (intro index_ok_insert) (auto simp: edges_ok_def pair_key_def)
  with assms show ?thesis by (auto simp: edges_ok_def)
qed

lemma edges_ok_delete_if:
  assumes "edges_ok T P"
  shows "edges_ok (fmdelete_if p T) (fmdrop_fset (keys_of pair_of_edge p T) P)"
proof -
  have "index_ok pair_key (fmdelete_if p T) (fmdrop_fset (keys_of pair_of_edge p T) P)"
    using assms by (intro index_ok_delete_if) (auto simp: edges_ok_def pair_key_def)
  with assms show ?thesis by (auto simp: edges_ok_def split: option.splits if_splits)
qed

lemma revoke_edge_simps [simp]:
  "Edge_EdgeID (revoke_edge n e) = Edge_EdgeID e" "Edge_LeftID (revoke_edge n e) = Edge_LeftID e"
  "Edge_RightID (revoke_edge n e) = Edge_RightID e" "edge_ok e \<Longrightarrow> edge_ok (revoke_edge n e)"
  "Edge_State (revoke_edge n e) = StatusRevoked"
  by (auto simp: revoke_edge_def edge_ok_def edge_ends_def)

lemma edges_ok_revokeEdgesOf:
  assumes "edges_ok T P"
  shows "edges_ok (revokeEdgesOf u now T) P"
proof -
  let ?f = "\<lambda>e. if edge_of_agent u e \<and> Edge_State e \<noteq> StatusRevoked then revoke_edge now e else e"
  have key: "pair_key (?f e) = pair_key e" for e
    by (simp add: pair_key_def pair_of_edge_def)
  have "index_ok pair_key (fmmap ?f T) P"
    using assms index_ok_map [of pair_key ?f, OF key] by (simp add: edges_ok_def)
  with assms show ?thesis
    unfolding edges_ok_def revokeEdgesOf_def by auto
qed

lemma canonicalPair_ends:
  assumes "canonicalPair a b = (l, r)" and "a \<noteq> b" and "plain a" and "plain b"
  shows "l < r \<and> plain l \<and> plain r \<and> {l, r} = {a, b}"
  using assms by (auto simp: canonicalPair_def split: if_splits)

definition ids_plain :: "memory_store \<Rightarrow> bool" where
  "ids_plain s \<longleftrightarrow>
     (\<forall>i x. fmlookup (orgs s) i = Some x \<longrightarrow> plain i) \<and>
     (\<forall>u a. fmlookup (agents s) u = Some a \<longrightarrow> plain u)"

lemma canonicalPair_idem: "canonicalPair a b = (l, r) \<Longrightarrow> canonicalPair l r = (l, r)"
  by (auto simp: canonicalPair_def split: if_splits)

lemma trust_wf_cong:
  "orgTrusts s' = orgTrusts s \<Longrightarrow> orgTrustByPair s' = orgTrustByPair s \<Longrightarrow>
    agentTrusts s' = agentTrusts s \<Longrightarrow> agentTrustByPair s' = agentTrustByPair s \<Longrightarrow>
    trust_wf s' \<longleftrightarrow> trust_wf s"
  by (simp add: trust_wf_def)

lemma trust_wf_audit [simp]:
  "trust_wf (appendAuditLocked org actor cat act subj details now s) \<longleftrightarrow> trust_wf s"
  by (rule trust_wf_cong) simp_all

lemma trust_wf_new: "trust_wf NewMemoryStore"
  by (simp add: trust_wf_def edges_ok_def NewMemoryStore_def)

lemma new_edge_simps [simp]:
  "Edge_EdgeID (new_edge i t l r a n) = i" "Edge_LeftID (new_edge i t l r a n) = l"
  "Edge_RightID (new_edge i t l r a n) = r" "Edge_LeftApproved (new_edge i t l r a n) = False"
  "Edge_RightApproved (new_edge i t l r a n) = False" "Edge_State (new_edge i t l r a n) = StatusPending"
  "edge_ends (new_edge i t l r a n) \<longleftrightarrow> l < r \<and> plain l \<and> plain r"
  by (simp_all add: new_edge_def edge_ends_def)

lemma edges_lookup_some:
  "edges_ok T P \<Longrightarrow> fmlookup P k = Some i \<Longrightarrow> \<exists>e. fmlookup T i = Some e \<and> pair_of_edge e = k"
  using index_ok_lookup [of pair_key T P k i] by (auto simp: edges_ok_def pair_key_def)

lemma createOrJoinOrgTrust_wf:
  assumes wf: "trust_wf s" and plain: "ids_plain s" and ne: "leftInput \<noteq> rightInput"
    and fresh: "fmlookup (orgTrusts s) edgeID = None"
  shows "trust_wf (snd (createOrJoinOrgTrustLocked leftInput rightInput actor edgeID now super s))"
proof -
  obtain l r where lr: "canonicalPair leftInput rightInput = (l, r)" by fastforce
  have ends: "l < r \<and> plain l \<and> plain r"
    if "fmlookup (orgs s) l \<noteq> None" "fmlookup (orgs s) r \<noteq> None"
  proof -
    have "plain leftInput" "plain rightInput"
      using that plain lr by (auto simp: ids_plain_def canonicalPair_def split: if_splits)
    with canonicalPair_ends [OF lr ne] show ?thesis by blast
  qed
  have ok: "edges_ok (orgTrusts s) (orgTrustByPair s)" and ag: "edges_ok (agentTrusts s) (agentTrustByPair s)"
    using wf by (simp_all add: trust_wf_def)
  have upd: "edges_ok (fmupd i (applyTrustRequest (edge_at (orgTrusts s) i) b now) (orgTrusts s))
      (orgTrustByPair s)" if "fmlookup (orgTrustByPair s) k = Some i" for i b k
  proof -
    obtain e where e: "fmlookup (orgTrusts s) i = Some e"
      using edges_lookup_some [OF ok] \<open>fmlookup (orgTrustByPair s) k = Some i\<close> by blast
    then show ?thesis using edges_okD [OF ok e]
      by (simp add: edge_at_def edges_ok_update [OF ok e])
  qed
  have ins: "edges_ok (fmupd edgeID (applyTrustRequest (new_edge edgeID t l r a n) b now) (orgTrusts s))
      (fmupd (pairKey l r) edgeID (orgTrustByPair s))"
    if "fmlookup (orgTrustByPair s) (pairKey l r) = None" "fmlookup (orgs s) l \<noteq> None"
      "fmlookup (orgs s) r \<noteq> None" for t a n b
    using edges_ok_insert [OF ok, of "applyTrustRequest (new_edge edgeID t l r a n) b now"]
      that fresh ends by (simp add: pair_of_edge_def)
  show ?thesis
    using wf upd ins ag
    by (auto simp: createOrJoinOrgTrustLocked_def Let_def lr trust_wf_def split: option.split)
qed

lemma createOrJoinAgentTrust_wf:
  assumes wf: "trust_wf s" and plain: "ids_plain s" and ne: "leftInput \<noteq> rightInput"
    and fresh: "fmlookup (agentTrusts s) edgeID = None"
  shows "trust_wf (snd (createOrJoinAgentTrustLocked leftInput rightInput actor edgeID now super s))"
proof -
  obtain l r where lr: "canonicalPair leftInput rightInput = (l, r)" by fastforce
  have ends: "l < r \<and> plain l \<and> plain r"
    if "fmlookup (agents s) l \<noteq> None" "fmlookup (agents s) r \<noteq> None"
  proof -
    have "plain leftInput" "plain rightInput"
      using that plain lr by (auto simp: ids_plain_def canonicalPair_def split: if_splits)
    with canonicalPair_ends [OF lr ne] show ?thesis by blast
  qed
  have ok: "edges_ok (agentTrusts s) (agentTrustByPair s)" and og: "edges_ok (orgTrusts s) (orgTrustByPair s)"
    using wf by (simp_all add: trust_wf_def)
  have upd: "edges_ok (fmupd i (applyAgentTrustRequest (edge_at (agentTrusts s) i) b c now) (agentTrusts s))
      (agentTrustByPair s)"
    "edges_ok (fmupd i (activate_edge now (applyAgentTrustRequest (edge_at (agentTrusts s) i) b c now))
      (agentTrusts s)) (agentTrustByPair s)"
    if "fmlookup (agentTrustByPair s) k = Some i" for i b c k
  proof -
    obtain e where e: "fmlookup (agentTrusts s) i = Some e"
      using edges_lookup_some [OF ok] \<open>fmlookup (agentTrustByPair s) k = Some i\<close> by blast
    then show "edges_ok (fmupd i (applyAgentTrustRequest (edge_at (agentTrusts s) i) b c now) (agentTrusts s))
        (agentTrustByPair s)"
      "edges_ok (fmupd i (activate_edge now (applyAgentTrustRequest (edge_at (agentTrusts s) i) b c now))
        (agentTrusts s)) (agentTrustByPair s)"
      using edges_okD [OF ok e] by (simp_all add: edge_at_def edges_ok_update [OF ok e])
  qed
  have ins: "edges_ok (fmupd edgeID (applyAgentTrustRequest (new_edge edgeID t l r a n) b c now) (agentTrusts s))
      (fmupd (pairKey l r) edgeID (agentTrustByPair s))"
    "edges_ok (fmupd edgeID (activate_edge now (applyAgentTrustRequest (new_edge edgeID t l r a n) b c now))
      (agentTrusts s)) (fmupd (pairKey l r) edgeID (agentTrustByPair s))"
    if "fmlookup (agentTrustByPair s) (pairKey l r) = None" "fmlookup (agents s) l \<noteq> None"
      "fmlookup (agents s) r \<noteq> None" for t a n b c
    using edges_ok_insert [OF ok, of "applyAgentTrustRequest (new_edge edgeID t l r a n) b c now"]
      edges_ok_insert [OF ok, of "activate_edge now (applyAgentTrustRequest (new_edge edgeID t l r a n) b c now)"]
      that fresh ends by (simp_all add: pair_of_edge_def)
  show ?thesis
    using wf upd ins og
    by (auto simp: createOrJoinAgentTrustLocked_def Let_def lr trust_wf_def split: option.split)
qed

end
