(* ===== verification/Orgs.thy ===== *)
theory Orgs
  imports Trust
begin

text \<open>
  Organisations of \<^verbatim>\<open>internal/store/memory.go\<close>: creation and deletion, personal organisations,
  invites, memberships and access keys.
\<close>

section \<open>Creation\<close>

definition memID_of :: "string \<Rightarrow> string" where
  "memID_of orgID = ''m-'' @ orgID"

definition owner_membership :: "string \<Rightarrow> string \<Rightarrow> time \<Rightarrow> membership" where
  "owner_membership orgID humanID now =
     \<lparr>Mem_MembershipID = memID_of orgID, Mem_OrgID = orgID, Mem_HumanID = humanID,
      Mem_Role = RoleOwner, Mem_Status = StatusActive, Mem_CreatedAt = now\<rparr>"

text \<open>The organisation and the membership of its owner enter the store together.\<close>

definition installOrg :: "organization \<Rightarrow> string \<Rightarrow> string \<Rightarrow> time \<Rightarrow> memory_store \<Rightarrow> memory_store" where
  "installOrg org handleKey humanID now s =
     s\<lparr>orgs := fmupd (Org_OrgID org) org (orgs s),
       orgByHandle := fmupd handleKey (Org_OrgID org) (orgByHandle s),
       memberships := fmupd (memID_of (Org_OrgID org))
         (owner_membership (Org_OrgID org) humanID now) (memberships s),
       membershipByOrgUser := fmupd (orgHumanKey (Org_OrgID org) humanID)
         (memID_of (Org_OrgID org)) (membershipByOrgUser s)\<rparr>"

definition CreateOrg ::
  "string \<Rightarrow> string \<Rightarrow> string \<Rightarrow> string \<Rightarrow> time \<Rightarrow> memory_store \<Rightarrow>
    (store_error + organization \<times> membership) \<times> memory_store" where
  "CreateOrg handle displayName creatorHumanID orgID now s =
     (if fmlookup (humans s) creatorHumanID = None then (Inl ErrHumanNotFound, s)
      else
        let handleKey = normalizeOrgHandleKey handle in
        if ValidateHandle handleKey \<noteq> None then (Inl ErrInvalidHandle, s)
        else if fmlookup (orgByHandle s) handleKey \<noteq> None \<and>
            fmlookup (orgByHandle s) handleKey \<noteq> Some []
        then (Inl ErrOrgHandleTaken, s)
        else
          let name = (if TrimSpace displayName = [] then handleKey else displayName);
              org = \<lparr>Org_OrgID = orgID, Org_Handle = handleKey, Org_DisplayName = TrimSpace name,
                Org_Metadata = fmempty, Org_CreatedAt = now, Org_CreatedBy = creatorHumanID\<rparr>;
              s = installOrg org handleKey creatorHumanID now s;
              s = snd (ensureOrgStatsLocked orgID s)
          in (Inr (org, owner_membership orgID creatorHumanID now),
              appendAuditLocked orgID creatorHumanID ''org'' ''create'' orgID fmempty now s))"

definition org_handle_free :: "string gomap \<Rightarrow> string \<Rightarrow> bool" where
  "org_handle_free idx handleKey \<longleftrightarrow>
     fmlookup idx handleKey = None \<or> fmlookup idx handleKey = Some []"

text \<open>The loop of \<^verbatim>\<open>ensurePersonalOrgLocked\<close>; \<^term>\<open>None\<close> where it does not return.\<close>

partial_function (option) personal_handle_loop ::
  "string gomap \<Rightarrow> string \<Rightarrow> string \<Rightarrow> nat \<Rightarrow> string option" where
  "personal_handle_loop idx baseHandle handle i =
     (if org_handle_free idx (normalizeOrgHandleKey handle) then Some handle
      else personal_handle_loop idx baseHandle (baseHandle @ ''-'' @ show_nat i) (i + 1))"

declare personal_handle_loop.simps [code]

definition personal_base_handle :: "string \<Rightarrow> string \<Rightarrow> string" where
  "personal_base_handle humanHandle humanID =
     (let base = normalizeOrgHandleKey (''personal-'' @ humanHandle);
          base = (if TrimSpace base = [] \<or> base = ''personal-''
                  then normalizeOrgHandleKey (''personal-'' @ humanID) else base)
      in if ValidateHandle base \<noteq> None then normalizeOrgHandleKey (''personal-'' @ humanID)
         else base)"

definition personal_org_of :: "memory_store \<Rightarrow> string \<Rightarrow> organization option" where
  "personal_org_of s humanID =
     (case fmlookup (personalOrgByHuman s) humanID of
        None \<Rightarrow> None
      | Some orgID \<Rightarrow> fmlookup (orgs s) orgID)"

definition ensurePersonalOrgLocked ::
  "string \<Rightarrow> time \<Rightarrow> store_error + string \<Rightarrow> memory_store \<Rightarrow>
    ((store_error + organization) \<times> memory_store) option" where
  "ensurePersonalOrgLocked humanID now idFactory s =
     (case fmlookup (humans s) humanID of
        None \<Rightarrow> Some (Inl ErrHumanNotFound, s)
      | Some human \<Rightarrow>
      case personal_org_of s humanID of
        Some org \<Rightarrow> Some (Inr org, s)
      | None \<Rightarrow>
          let baseHandle = personal_base_handle (Human_Handle human) humanID in
          case personal_handle_loop (orgByHandle s) baseHandle baseHandle 2 of
            None \<Rightarrow> None
          | Some handle \<Rightarrow>
          case idFactory of
            Inl e \<Rightarrow> Some (Inl e, s)
          | Inr orgID \<Rightarrow>
              let org = \<lparr>Org_OrgID = orgID, Org_Handle = handle,
                    Org_DisplayName = ''Personal '' @ Human_Handle human,
                    Org_Metadata = fmempty, Org_CreatedAt = now, Org_CreatedBy = humanID\<rparr>;
                  s = installOrg org (normalizeOrgHandleKey handle) humanID now s;
                  s = s\<lparr>personalOrgByHuman := fmupd humanID orgID (personalOrgByHuman s)\<rparr>;
                  s = snd (ensureOrgStatsLocked orgID s)
              in Some (Inr org, appendAuditLocked orgID humanID ''org'' ''create'' orgID
                   (gmap_of [(''mode'', GStr ''auto_personal'')]) now s))"

definition EnsurePersonalOrg ::
  "string \<Rightarrow> time \<Rightarrow> store_error + string \<Rightarrow> memory_store \<Rightarrow>
    ((store_error + organization) \<times> memory_store) option" where
  "EnsurePersonalOrg humanID now idFactory s = ensurePersonalOrgLocked humanID now idFactory s"

section \<open>Deletion\<close>

definition in_org :: "string \<Rightarrow> agent \<Rightarrow> bool" where
  "in_org orgID a \<longleftrightarrow> Agent_OrgID a = orgID"

definition deletedIn :: "memory_store \<Rightarrow> string \<Rightarrow> string \<Rightarrow> bool" where
  "deletedIn s orgID u =
     (case fmlookup (agents s) u of None \<Rightarrow> False | Some a \<Rightarrow> in_org orgID a)"

definition deleteOrgAgents :: "string \<Rightarrow> time \<Rightarrow> memory_store \<Rightarrow> memory_store" where
  "deleteOrgAgents orgID now s =
     (let dead = (\<lambda>_ a. in_org orgID a) in
      s\<lparr>archivedAgents := archivedAgents s ++\<^sub>f
          fmmap (\<lambda>a. a\<lparr>Agent_Status := StatusDeleted, Agent_RevokedAt := Some now\<rparr>)
            (fmdelete_if (\<lambda>u a. \<not> dead u a) (agents s)),
        agentTokenIdx := fmdrop_fset (keys_of Agent_TokenHash dead (agents s)) (agentTokenIdx s),
        agentPresence := fmdelete_if (\<lambda>u _. deletedIn s orgID u) (agentPresence s),
        agents := fmdelete_if dead (agents s)\<rparr>)"

definition dead_end :: "(string \<Rightarrow> bool) \<Rightarrow> trust_edge \<Rightarrow> bool" where
  "dead_end dead e \<longleftrightarrow> dead (Edge_LeftID e) \<or> dead (Edge_RightID e)"

definition deleteOrgTrusts :: "string \<Rightarrow> (string \<Rightarrow> bool) \<Rightarrow> memory_store \<Rightarrow> memory_store" where
  "deleteOrgTrusts orgID dead s =
     s\<lparr>agentTrustByPair := fmdrop_fset (keys_of pair_of_edge (\<lambda>_. dead_end dead) (agentTrusts s))
         (agentTrustByPair s),
       agentTrusts := fmdelete_if (\<lambda>_. dead_end dead) (agentTrusts s),
       orgTrustByPair := fmdrop_fset (keys_of pair_of_edge (\<lambda>_. dead_end (\<lambda>i. i = orgID)) (orgTrusts s))
         (orgTrustByPair s),
       orgTrusts := fmdelete_if (\<lambda>_. dead_end (\<lambda>i. i = orgID)) (orgTrusts s)\<rparr>"

definition deleteOrgQueues :: "(string \<Rightarrow> bool) \<Rightarrow> memory_store \<Rightarrow> memory_store" where
  "deleteOrgQueues dead s =
     recomputeQueueMetricsLocked
       (s\<lparr>queues := purge_queues (\<lambda>m. dead (Msg_FromAgentUUID m) \<or> dead (Msg_ToAgentUUID m))
          (fmdelete_if (\<lambda>u _. dead u) (queues s))\<rparr>)"

definition deleteOrgRecords :: "string \<Rightarrow> memory_store \<Rightarrow> memory_store" where
  "deleteOrgRecords orgID s =
     s\<lparr>bindByHash := fmdrop_fset (keys_of Bind_TokenHash (\<lambda>_ b. Bind_OrgID b = orgID) (binds s))
         (bindByHash s),
       binds := fmdelete_if (\<lambda>_ b. Bind_OrgID b = orgID) (binds s),
       inviteBySecretHash := fmdrop_fset (keys_of Inv_InviteSecret
           (\<lambda>_ i. Inv_OrgID i = orgID \<and> Inv_InviteSecret i \<noteq> []) (invites s)) (inviteBySecretHash s),
       invites := fmdelete_if (\<lambda>_ i. Inv_OrgID i = orgID) (invites s),
       membershipByOrgUser := fmdrop_fset (keys_of (\<lambda>m. orgHumanKey orgID (Mem_HumanID m))
           (\<lambda>_ m. Mem_OrgID m = orgID) (memberships s)) (membershipByOrgUser s),
       memberships := fmdelete_if (\<lambda>_ m. Mem_OrgID m = orgID) (memberships s),
       orgAccessKeyByHash := fmdrop_fset (keys_of Key_TokenHash
           (\<lambda>_ k. Key_OrgID k = orgID) (orgAccessKeys s)) (orgAccessKeyByHash s),
       orgAccessKeys := fmdelete_if (\<lambda>_ k. Key_OrgID k = orgID) (orgAccessKeys s),
       personalOrgByHuman := fmdelete_if (\<lambda>_ oid. oid = orgID) (personalOrgByHuman s)\<rparr>"

definition DeleteOrg ::
  "string \<Rightarrow> string \<Rightarrow> bool \<Rightarrow> time \<Rightarrow> memory_store \<Rightarrow> (store_error + unit) \<times> memory_store" where
  "DeleteOrg orgID actorHumanID isSuperAdmin now s =
     (case fmlookup (orgs s) orgID of
        None \<Rightarrow> (Inl ErrOrgNotFound, s)
      | Some org \<Rightarrow>
          if \<not> isSuperAdmin \<and> membershipRoleLocked s orgID actorHumanID \<noteq> RoleOwner
          then (Inl ErrUnauthorizedRole, s)
          else
            let dead = deletedIn s orgID;
                deletedAgents = count_entries (in_org orgID) (agents s);
                s = deleteOrgAgents orgID now s;
                s = deleteOrgTrusts orgID dead s;
                s = deleteOrgQueues dead s;
                s = deleteOrgRecords orgID s;
                s = appendAuditLocked orgID actorHumanID ''org'' ''delete'' orgID
                  (gmap_of [(''deleted_agents'', GInt deletedAgents)]) now s
            in (Inr (), s\<lparr>archivedOrgs := fmupd orgID org (archivedOrgs s),
                 orgs := fmdrop orgID (orgs s)\<rparr>))"

section \<open>Invites\<close>

text \<open>\<open>zeroTime\<close> is the instant \<^verbatim>\<open>time.Time\{\}\<close> stands for: year 1.\<close>

definition zeroTime :: time where
  "zeroTime = - 62135596800 * Second"

definition deriveInviteStatus :: "invite \<Rightarrow> time \<Rightarrow> invite" where
  "deriveInviteStatus invite now =
     (if Inv_Status invite = StatusPending \<and> Inv_ExpiresAt invite \<noteq> zeroTime \<and>
         now > Inv_ExpiresAt invite
      then invite\<lparr>Inv_Status := StatusExpired,
        Inv_RevokedAt := (if Inv_RevokedAt invite = None then Some (Inv_ExpiresAt invite)
          else Inv_RevokedAt invite)\<rparr>
      else invite)"

definition invite_clash :: "memory_store \<Rightarrow> string \<Rightarrow> string \<Rightarrow> time \<Rightarrow> bool" where
  "invite_clash s orgID email now \<longleftrightarrow>
     list_ex (\<lambda>inv. Inv_OrgID inv = orgID \<and> EqualFold (Inv_Email inv) email \<and>
         Inv_Status (deriveInviteStatus inv now) = StatusPending) (sorted_values (invites s)) \<or>
     list_ex (\<lambda>m. Mem_OrgID m = orgID \<and> Mem_Status m = StatusActive \<and>
         (case fmlookup (humans s) (Mem_HumanID m) of
            None \<Rightarrow> False
          | Some h \<Rightarrow> EqualFold (TrimSpace (Human_Email h)) email)) (sorted_values (memberships s))"

definition CreateInvite ::
  "string \<Rightarrow> string \<Rightarrow> string \<Rightarrow> string \<Rightarrow> string \<Rightarrow> string \<Rightarrow> time \<Rightarrow> time \<Rightarrow> bool \<Rightarrow> memory_store \<Rightarrow>
    (store_error + invite) \<times> memory_store" where
  "CreateInvite orgID email role actorHumanID inviteID inviteSecretHash expiresAt now isSuperAdmin s =
     (if fmlookup (orgs s) orgID = None then (Inl ErrOrgNotFound, s)
      else if \<not> isSuperAdmin \<and> \<not> hasRoleAtLeast (membershipRoleLocked s orgID actorHumanID) RoleAdmin
      then (Inl ErrUnauthorizedRole, s)
      else if \<not> isValidRole role \<or> role = RoleOwner then (Inl ErrInvalidRole, s)
      else if inviteSecretHash = [] then (Inl ErrInviteInvalid, s)
      else if fmlookup (inviteBySecretHash s) inviteSecretHash \<noteq> None then (Inl ErrInviteInvalid, s)
      else if \<not> expiresAt > now then (Inl ErrInviteInvalid, s)
      else
        let normalizedEmail = ToLower (TrimSpace email) in
        if invite_clash s orgID normalizedEmail now then (Inl ErrInviteExists, s)
        else
          let invite = \<lparr>Inv_InviteID = inviteID, Inv_OrgID = orgID, Inv_Email = normalizedEmail,
                Inv_Role = role, Inv_Status = StatusPending, Inv_CreatedBy = actorHumanID,
                Inv_CreatedAt = now, Inv_ExpiresAt = expiresAt, Inv_AcceptedAt = None,
                Inv_RevokedAt = None, Inv_InviteSecret = inviteSecretHash\<rparr>;
              s = s\<lparr>invites := fmupd inviteID invite (invites s),
                inviteBySecretHash := fmupd inviteSecretHash inviteID (inviteBySecretHash s)\<rparr>
          in (Inr invite, appendAuditLocked orgID actorHumanID ''invite'' ''create'' inviteID
               (gmap_of [(''email'', GStr normalizedEmail), (''role'', GStr role),
                 (''expires_at'', GTime expiresAt)]) now s))"

text \<open>The invite is spent: accepted, and its secret forgotten.\<close>

definition spendInvite :: "string \<Rightarrow> invite \<Rightarrow> time \<Rightarrow> memory_store \<Rightarrow> memory_store" where
  "spendInvite inviteID invite now s =
     s\<lparr>invites := fmupd inviteID
         (invite\<lparr>Inv_Status := StatusActive, Inv_AcceptedAt := Some now\<rparr>) (invites s),
       inviteBySecretHash := fmdrop (Inv_InviteSecret invite) (inviteBySecretHash s)\<rparr>"

definition active_membership :: "memory_store \<Rightarrow> string \<Rightarrow> string \<Rightarrow> membership option" where
  "active_membership s orgID humanID =
     (case fmlookup (membershipByOrgUser s) (orgHumanKey orgID humanID) of
        None \<Rightarrow> None
      | Some i \<Rightarrow>
          (case fmlookup (memberships s) i of
             None \<Rightarrow> None
           | Some m \<Rightarrow> if Mem_Status m = StatusActive then Some m else None))"

definition acceptInviteLocked ::
  "string \<Rightarrow> string \<Rightarrow> string \<Rightarrow> time \<Rightarrow> store_error + string \<Rightarrow> memory_store \<Rightarrow>
    (store_error + membership) \<times> memory_store" where
  "acceptInviteLocked inviteID humanID humanEmail now idFactory s =
     (case fmlookup (invites s) inviteID of
        None \<Rightarrow> (Inl ErrInviteNotFound, s)
      | Some invite \<Rightarrow>
          if Inv_Status invite = StatusPending \<and> now > Inv_ExpiresAt invite then
            (Inl ErrInviteInvalid,
             s\<lparr>invites := fmupd inviteID
                 (invite\<lparr>Inv_Status := StatusExpired, Inv_RevokedAt := Some now\<rparr>) (invites s),
               inviteBySecretHash := fmdrop (Inv_InviteSecret invite) (inviteBySecretHash s)\<rparr>)
          else if Inv_Status invite \<noteq> StatusPending then (Inl ErrInviteInvalid, s)
          else if Inv_Email invite \<noteq> [] \<and> \<not> EqualFold (Inv_Email invite) humanEmail
          then (Inl ErrInviteInvalid, s)
          else if fmlookup (humans s) humanID = None then (Inl ErrHumanNotFound, s)
          else case active_membership s (Inv_OrgID invite) humanID of
            Some m \<Rightarrow>
              (Inr m, transferHumanOwnedAgentsToOrgLocked (Inv_OrgID invite) humanID now
                 (spendInvite inviteID invite now s))
          | None \<Rightarrow>
              (case idFactory of
                 Inl e \<Rightarrow> (Inl e, s)
               | Inr memID \<Rightarrow>
                   let mem = \<lparr>Mem_MembershipID = memID, Mem_OrgID = Inv_OrgID invite,
                         Mem_HumanID = humanID, Mem_Role = Inv_Role invite,
                         Mem_Status = StatusActive, Mem_CreatedAt = now\<rparr>;
                       s = s\<lparr>memberships := fmupd memID mem (memberships s),
                         membershipByOrgUser := fmupd (orgHumanKey (Inv_OrgID invite) humanID) memID
                           (membershipByOrgUser s)\<rparr>;
                       s = spendInvite inviteID invite now s;
                       s = transferHumanOwnedAgentsToOrgLocked (Inv_OrgID invite) humanID now s
                   in (Inr mem, appendAuditLocked (Inv_OrgID invite) humanID ''invite'' ''accept''
                        inviteID fmempty now s)))"

definition AcceptInvite ::
  "string \<Rightarrow> string \<Rightarrow> string \<Rightarrow> time \<Rightarrow> store_error + string \<Rightarrow> memory_store \<Rightarrow>
    (store_error + membership) \<times> memory_store" where
  "AcceptInvite inviteID humanID humanEmail now idFactory s =
     acceptInviteLocked inviteID humanID humanEmail now idFactory s"

definition AcceptInviteBySecretHash ::
  "string \<Rightarrow> string \<Rightarrow> string \<Rightarrow> time \<Rightarrow> store_error + string \<Rightarrow> memory_store \<Rightarrow>
    (store_error + membership) \<times> memory_store" where
  "AcceptInviteBySecretHash inviteSecretHash humanID humanEmail now idFactory s =
     (case fmlookup (inviteBySecretHash s) inviteSecretHash of
        None \<Rightarrow> (Inl ErrInviteNotFound, s)
      | Some inviteID \<Rightarrow>
          if inviteID = [] then (Inl ErrInviteNotFound, s)
          else acceptInviteLocked inviteID humanID humanEmail now idFactory s)"

definition RevokeInvite ::
  "string \<Rightarrow> string \<Rightarrow> string \<Rightarrow> bool \<Rightarrow> time \<Rightarrow> memory_store \<Rightarrow>
    (store_error + invite) \<times> memory_store" where
  "RevokeInvite inviteID actorHumanID actorEmail isSuperAdmin now s =
     (case fmlookup (invites s) inviteID of
        None \<Rightarrow> (Inl ErrInviteNotFound, s)
      | Some invite \<Rightarrow>
          let allowed = (EqualFold (Inv_Email invite) (TrimSpace actorEmail) \<or>
                hasRoleAtLeast (membershipRoleLocked s (Inv_OrgID invite) actorHumanID) RoleAdmin \<or>
                isSuperAdmin)
          in if \<not> allowed then (Inl ErrUnauthorizedRole, s)
             else if Inv_Status invite = StatusRevoked then (Inr invite, s)
             else
               let revoked = invite\<lparr>Inv_Status := StatusRevoked, Inv_RevokedAt := Some now\<rparr>;
                   s = s\<lparr>inviteBySecretHash := fmdrop (Inv_InviteSecret invite) (inviteBySecretHash s),
                     invites := fmupd inviteID revoked (invites s)\<rparr>
               in (Inr revoked, appendAuditLocked (Inv_OrgID invite) actorHumanID ''invite'' ''revoke''
                    inviteID fmempty now s))"

section \<open>Memberships\<close>

definition RevokeMembership ::
  "string \<Rightarrow> string \<Rightarrow> string \<Rightarrow> bool \<Rightarrow> time \<Rightarrow> memory_store \<Rightarrow>
    (store_error + membership) \<times> memory_store" where
  "RevokeMembership orgID humanID actorHumanID isSuperAdmin now s =
     (if fmlookup (orgs s) orgID = None then (Inl ErrOrgNotFound, s)
      else case fmlookup (membershipByOrgUser s) (orgHumanKey orgID humanID) of
        None \<Rightarrow> (Inl ErrMembershipNotFound, s)
      | Some targetMembershipID \<Rightarrow>
      case fmlookup (memberships s) targetMembershipID of
        None \<Rightarrow> (Inl ErrMembershipNotFound, s)
      | Some target \<Rightarrow>
          if Mem_Status target \<noteq> StatusActive then (Inl ErrMembershipNotFound, s)
          else
          let actorRole = membershipRoleLocked s orgID actorHumanID in
          if \<not> isSuperAdmin \<and> \<not> hasRoleAtLeast actorRole RoleAdmin then (Inl ErrUnauthorizedRole, s)
          else if Mem_Role target = RoleOwner then (Inl ErrCannotRevokeOwner, s)
          else if \<not> isSuperAdmin \<and> actorRole = RoleAdmin \<and> Mem_Role target = RoleAdmin
          then (Inl ErrUnauthorizedRole, s)
          else
            let target = target\<lparr>Mem_Status := StatusRevoked\<rparr>;
                s = s\<lparr>memberships := fmupd targetMembershipID target (memberships s)\<rparr>
            in (Inr target, appendAuditLocked orgID actorHumanID ''membership'' ''revoke'' humanID
                 (gmap_of [(''role'', GStr (Mem_Role target))]) now s))"

definition UpdateOrgMetadata ::
  "(gmap \<Rightarrow> int option) \<Rightarrow> string \<Rightarrow> gmap \<Rightarrow> string \<Rightarrow> bool \<Rightarrow> time \<Rightarrow> memory_store \<Rightarrow>
    (store_error + organization) \<times> memory_store" where
  "UpdateOrgMetadata jsonSize orgID metadata actorHumanID isSuperAdmin now s =
     (case fmlookup (orgs s) orgID of
        None \<Rightarrow> (Inl ErrOrgNotFound, s)
      | Some org \<Rightarrow>
          if \<not> isSuperAdmin \<and> \<not> hasRoleAtLeast (membershipRoleLocked s orgID actorHumanID) RoleAdmin
          then (Inl ErrUnauthorizedRole, s)
          else
            let org = org\<lparr>Org_Metadata := metadata\<rparr>;
                s = s\<lparr>orgs := fmupd orgID org (orgs s)\<rparr>
            in (Inr org, appendAuditLocked orgID actorHumanID ''org'' ''set_metadata'' orgID
                 (metadataAuditSummary jsonSize metadata) now s))"

section \<open>Access keys\<close>

definition normalizeOrgAccessScopes :: "string list \<Rightarrow> string list" where
  "normalizeOrgAccessScopes scopes =
     sort (remdups (filter (\<lambda>sc. sc \<in> {OrgAccessScopeListHumans, OrgAccessScopeListAgents})
       (map (\<lambda>raw. ToLower (TrimSpace raw)) scopes)))"

definition orgAccessScopeAllowed :: "string list \<Rightarrow> string \<Rightarrow> bool" where
  "orgAccessScopeAllowed scopes required = list_ex (\<lambda>sc. sc = required) scopes"

definition CreateOrgAccessKey ::
  "string \<Rightarrow> string \<Rightarrow> string list \<Rightarrow> time option \<Rightarrow> string \<Rightarrow> string \<Rightarrow> string \<Rightarrow> time \<Rightarrow> bool \<Rightarrow>
    memory_store \<Rightarrow> (store_error + org_access_key) \<times> memory_store" where
  "CreateOrgAccessKey orgID label scopes expiresAt actorHumanID keyID tokenHash now isSuperAdmin s =
     (if fmlookup (orgs s) orgID = None then (Inl ErrOrgNotFound, s)
      else if \<not> isSuperAdmin \<and> \<not> hasRoleAtLeast (membershipRoleLocked s orgID actorHumanID) RoleAdmin
      then (Inl ErrUnauthorizedRole, s)
      else if fmlookup (orgAccessKeyByHash s) tokenHash \<noteq> None then (Inl ErrOrgAccessKeyInvalid, s)
      else
        let normalizedScopes = normalizeOrgAccessScopes scopes in
        if normalizedScopes = [] then (Inl ErrOrgAccessScopeDenied, s)
        else
          let label = (if TrimSpace label = [] then ''Organization Access Key'' else label);
              key = \<lparr>Key_KeyID = keyID, Key_OrgID = orgID, Key_Label = TrimSpace label,
                Key_Scopes = normalizedScopes, Key_Status = StatusActive,
                Key_CreatedBy = actorHumanID, Key_CreatedAt = now, Key_ExpiresAt = expiresAt,
                Key_LastUsedAt = None, Key_RevokedAt = None, Key_TokenHash = tokenHash\<rparr>;
              s = s\<lparr>orgAccessKeys := fmupd keyID key (orgAccessKeys s),
                orgAccessKeyByHash := fmupd tokenHash keyID (orgAccessKeyByHash s)\<rparr>
          in (Inr key, appendAuditLocked orgID actorHumanID ''org_access_key'' ''create'' keyID
               (gmap_of [(''label'', GStr (Key_Label key)), (''scopes'', GStrs normalizedScopes),
                 (''expires_at'', GTimePtr expiresAt)]) now s))"

definition RevokeOrgAccessKey ::
  "string \<Rightarrow> string \<Rightarrow> string \<Rightarrow> bool \<Rightarrow> time \<Rightarrow> memory_store \<Rightarrow>
    (store_error + org_access_key) \<times> memory_store" where
  "RevokeOrgAccessKey orgID keyID actorHumanID isSuperAdmin now s =
     (if fmlookup (orgs s) orgID = None then (Inl ErrOrgNotFound, s)
      else case fmlookup (orgAccessKeys s) keyID of
        None \<Rightarrow> (Inl ErrOrgAccessKeyNotFound, s)
      | Some key \<Rightarrow>
          if Key_OrgID key \<noteq> orgID then (Inl ErrOrgAccessKeyNotFound, s)
          else if \<not> isSuperAdmin \<and>
              \<not> hasRoleAtLeast (membershipRoleLocked s orgID actorHumanID) RoleAdmin
          then (Inl ErrUnauthorizedRole, s)
          else if Key_Status key = StatusRevoked then (Inr key, s)
          else
            let revoked = key\<lparr>Key_Status := StatusRevoked, Key_RevokedAt := Some now\<rparr>;
                s = s\<lparr>orgAccessKeyByHash := fmdrop (Key_TokenHash key) (orgAccessKeyByHash s),
                  orgAccessKeys := fmupd keyID revoked (orgAccessKeys s)\<rparr>
            in (Inr revoked, appendAuditLocked orgID actorHumanID ''org_access_key'' ''revoke'' keyID
                 fmempty now s))"

definition AuthorizeOrgAccessByName ::
  "string \<Rightarrow> string \<Rightarrow> string \<Rightarrow> time \<Rightarrow> memory_store \<Rightarrow>
    (store_error + organization \<times> org_access_key) \<times> memory_store" where
  "AuthorizeOrgAccessByName orgName accessKeyHash requiredScope now s =
     (case fmlookup (orgByHandle s) (normalizeOrgHandleKey orgName) of
        None \<Rightarrow> (Inl ErrOrgNotFound, s)
      | Some orgID \<Rightarrow>
      if orgID = [] then (Inl ErrOrgNotFound, s)
      else case fmlookup (orgs s) orgID of
        None \<Rightarrow> (Inl ErrOrgNotFound, s)
      | Some org \<Rightarrow>
      case fmlookup (orgAccessKeyByHash s) accessKeyHash of
        None \<Rightarrow> (Inl ErrOrgAccessKeyNotFound, s)
      | Some keyID \<Rightarrow>
      if keyID = [] then (Inl ErrOrgAccessKeyNotFound, s)
      else case fmlookup (orgAccessKeys s) keyID of
        None \<Rightarrow> (Inl ErrOrgAccessKeyNotFound, s)
      | Some key \<Rightarrow>
          if Key_OrgID key \<noteq> orgID then (Inl ErrOrgAccessKeyNotFound, s)
          else if Key_Status key \<noteq> StatusActive \<or> Key_RevokedAt key \<noteq> None
          then (Inl ErrOrgAccessKeyInvalid, s)
          else if Key_ExpiresAt key \<noteq> None \<and> now > the (Key_ExpiresAt key)
          then (Inl ErrOrgAccessKeyInvalid, s)
          else if \<not> orgAccessScopeAllowed (Key_Scopes key) requiredScope
          then (Inl ErrOrgAccessScopeDenied, s)
          else
            let used = key\<lparr>Key_LastUsedAt := Some now\<rparr>
            in (Inr (org, used), s\<lparr>orgAccessKeys := fmupd keyID used (orgAccessKeys s)\<rparr>))"

end
