(* ===== verification/TrustSafety.thy ===== *)
theory TrustSafety
  imports Trust
begin

text \<open>
  Trust edges stay well formed under every operation, nobody approves for a side they do not
  control, and a message is let through only along approved edges.
\<close>

section \<open>Preservation\<close>

lemma loadEdge_some:
  "loadEdgeForActorLocked s ty i actor super = Inr (e, l, org) \<Longrightarrow>
    fmlookup (if ty = ''org'' then orgTrusts s else agentTrusts s) i = Some e"
  by (auto simp: loadEdgeForActorLocked_def split: if_splits option.splits)

lemma storeEdge_wf:
  assumes wf: "trust_wf s"
    and e: "fmlookup (if ty = ''org'' then orgTrusts s else agentTrusts s) i = Some e"
    and e': "edge_ok e'" "Edge_EdgeID e' = Edge_EdgeID e" "Edge_LeftID e' = Edge_LeftID e"
      "Edge_RightID e' = Edge_RightID e"
  shows "trust_wf (storeEdgeLocked ty e' s)"
proof (cases "ty = ''org''")
  case True
  with e have e: "fmlookup (orgTrusts s) i = Some e" by simp
  have ok: "edges_ok (orgTrusts s) (orgTrustByPair s)" using wf by (simp add: trust_wf_def)
  with edges_okD [OF ok e] have "Edge_EdgeID e = i" by simp
  with True wf edges_ok_update [OF ok e e'] e' show ?thesis
    by (simp add: trust_wf_def storeEdgeLocked_def)
next
  case False
  with e have e: "fmlookup (agentTrusts s) i = Some e" by simp
  have ok: "edges_ok (agentTrusts s) (agentTrustByPair s)" using wf by (simp add: trust_wf_def)
  with edges_okD [OF ok e] have "Edge_EdgeID e = i" by simp
  with False wf edges_ok_update [OF ok e e'] e' show ?thesis
    by (simp add: trust_wf_def storeEdgeLocked_def)
qed

lemma loaded_edge_ok:
  assumes "trust_wf s" and "loadEdgeForActorLocked s ty i actor super = Inr (e, l, org)"
  shows "edge_ok e"
  using loadEdge_some [OF assms(2)] assms(1) edges_okD
  by (fastforce simp: trust_wf_def split: if_splits)

lemma approveTrust_wf [wf_intros]:
  assumes wf: "trust_wf s"
  shows "trust_wf (snd (approveTrustLocked ty i actor now super s))"
proof (cases "loadEdgeForActorLocked s ty i actor super")
  case (Inl e)
  with wf show ?thesis by (simp add: approveTrustLocked_def)
next
  case (Inr r)
  then obtain e l org where load: "loadEdgeForActorLocked s ty i actor super = Inr (e, l, org)"
    by (cases r) auto
  have "edge_ends e" using loaded_edge_ok [OF wf load] by (rule edge_ok_ends)
  then have "trust_wf (storeEdgeLocked ty (activate_edge now e) s)"
    "trust_wf (storeEdgeLocked ty (approve_edge l now e) s)"
    by (simp_all add: storeEdge_wf [OF wf loadEdge_some [OF load]])
  with load show ?thesis by (auto simp: approveTrustLocked_def Let_def)
qed

lemma closeTrust_wf:
  assumes wf: "trust_wf s" and st: "st \<in> {StatusBlocked, StatusRevoked}"
  shows "trust_wf (snd (closeTrustLocked st act ty i actor now super s))"
proof (cases "loadEdgeForActorLocked s ty i actor super")
  case (Inl e)
  with wf show ?thesis by (simp add: closeTrustLocked_def)
next
  case (Inr r)
  then obtain e l org where load: "loadEdgeForActorLocked s ty i actor super = Inr (e, l, org)"
    by (cases r) auto
  have less: "edge_ends e" using loaded_edge_ok [OF wf load] by (rule edge_ok_ends)
  have "trust_wf (storeEdgeLocked ty (close_edge st now e) s)"
    by (rule storeEdge_wf [OF wf loadEdge_some [OF load]]) (use edge_ok_funs(5) [OF less st] in simp_all)
  with load show ?thesis by (simp add: closeTrustLocked_def Let_def)
qed

lemma trust_ops_wf [wf_intros]:
  assumes "trust_wf s"
  shows "trust_wf (snd (ApproveOrgTrust i actor now super s))"
    "trust_wf (snd (BlockOrgTrust i actor now super s))"
    "trust_wf (snd (RevokeOrgTrust i actor now super s))"
    "trust_wf (snd (ApproveAgentTrust i actor now super s))"
    "trust_wf (snd (BlockAgentTrust i actor now super s))"
    "trust_wf (snd (RevokeAgentTrust i actor now super s))"
  using assms
  by (simp_all add: ApproveOrgTrust_def BlockOrgTrust_def RevokeOrgTrust_def ApproveAgentTrust_def
      BlockAgentTrust_def RevokeAgentTrust_def blockTrustLocked_def revokeTrustLocked_def
      approveTrust_wf closeTrust_wf)

lemma CreateOrJoinOrgTrust_wf [wf_intros]:
  assumes "trust_wf s" and "ids_plain s" and "fmlookup (orgTrusts s) edgeID = None"
  shows "trust_wf (snd (CreateOrJoinOrgTrust o1 o2 actor edgeID now super s))"
  using assms
  by (simp add: CreateOrJoinOrgTrust_def createOrJoinTrustLocked_def createOrJoinOrgTrust_wf)

lemma CreateOrJoinAgentTrust_wf [wf_intros]:
  assumes "trust_wf s" and "ids_plain s" and "fmlookup (agentTrusts s) edgeID = None"
  shows "trust_wf (snd (CreateOrJoinAgentTrust org a b actor edgeID now super s))"
  using assms
  by (simp add: CreateOrJoinAgentTrust_def createOrJoinTrustLocked_def createOrJoinAgentTrust_wf
      split: option.split)

lemma installAgent_trusts [simp]:
  "orgTrusts (installAgent a s) = orgTrusts s" "orgTrustByPair (installAgent a s) = orgTrustByPair s"
  "agentTrusts (installAgent a s) = agentTrusts s"
  "agentTrustByPair (installAgent a s) = agentTrustByPair s"
  by (simp_all add: installAgent_def addNameKey_def Let_def split: option.split)

lemma RegisterAgent_trust_wf [wf_intros]:
  "trust_wf s \<Longrightarrow> trust_wf (snd (RegisterAgent orgID agentID owner h actor now super newUUID s))"
  by (simp add: RegisterAgent_def Let_def trust_wf_def split: sum.split)

lemma installHostTrust_trust_wf:
  assumes wf: "trust_wf s" and ne: "Bind_HostAgentUUID bind \<noteq> u"
    and plain: "plain (Bind_HostAgentUUID bind)" "plain u"
    and fresh: "fmlookup (agentTrusts s) edgeID = None"
      "fmlookup (agentTrustByPair s) (pairKey (Bind_HostAgentUUID bind) u) = None"
  shows "trust_wf (installHostTrust bind u edgeID now s)"
proof -
  obtain l r where lr: "canonicalPair (Bind_HostAgentUUID bind) u = (l, r)" by fastforce
  have less: "l < r \<and> plain l \<and> plain r" using canonicalPair_ends [OF lr ne plain] by blast
  have key: "pairKey (Bind_HostAgentUUID bind) u = pairKey l r"
    by (simp add: pairKey_def lr canonicalPair_idem [OF lr])
  let ?e = "\<lparr>Edge_EdgeID = edgeID, Edge_EdgeType = ''agent'', Edge_LeftID = l, Edge_RightID = r,
    Edge_State = StatusActive, Edge_LeftApproved = True, Edge_RightApproved = True,
    Edge_CreatedBy = Bind_HostAgentUUID bind, Edge_CreatedAt = now, Edge_UpdatedAt = now\<rparr>"
  have "edges_ok (fmupd edgeID ?e (agentTrusts s)) (fmupd (pairKey l r) edgeID (agentTrustByPair s))"
    using edges_ok_insert [of "agentTrusts s" "agentTrustByPair s" ?e] wf fresh less
    by (simp add: trust_wf_def pair_of_edge_def edge_ok_def edge_ends_def key)
  with wf show ?thesis by (simp add: installHostTrust_def lr trust_wf_def)
qed

lemma RedeemBindToken_trust_wf [wf_intros]:
  assumes wf: "trust_wf s"
    and fresh: "\<And>i. newEdgeID = Inr i \<Longrightarrow> fmlookup (agentTrusts s) i = None"
      "\<And>u h. newUUID = Inr u \<Longrightarrow> fmlookup (agentTrustByPair s) (pairKey h u) = None"
    and host: "\<And>u i bind. newUUID = Inr u \<Longrightarrow> fmlookup (binds s) i = Some bind \<Longrightarrow>
      Bind_HostAgentUUID bind \<noteq> u \<and> plain (Bind_HostAgentUUID bind) \<and> plain u"
  shows "trust_wf (snd (RedeemBindToken h agentID tokenHash now newUUID newEdgeID s))"
proof (cases "RedeemBindToken h agentID tokenHash now newUUID newEdgeID s")
  case (Pair r s')
  show ?thesis
  proof (cases r)
    case (Inl e)
    with Pair RedeemBindToken_error wf show ?thesis by fastforce
  next
    case (Inr a)
    from RedeemBindToken_result [OF Pair [unfolded Inr]] obtain bind edgeID
      where b: "fmlookup (binds s) (the (fmlookup (bindByHash s) h)) = Some bind"
        and u: "newUUID = Inr (Agent_AgentUUID a)"
        and e: "Bind_HostAgentUUID bind \<noteq> [] \<Longrightarrow> newEdgeID = Inr edgeID"
        and s': "s' = redeem_bind bind a edgeID now s" by blast
    define t where "t = appendAuditLocked (Bind_OrgID bind) (Bind_CreatedBy bind) ''agent'' ''create''
      (Agent_AgentUUID a) (agentCreationAuditDetails a ''bind'' (Bind_BindID bind)) now
      ((installAgent a s)\<lparr>binds := fmupd (Bind_BindID bind) (bind\<lparr>Bind_UsedAt := Some now\<rparr>)
        (binds (installAgent a s))\<rparr>)"
    have t: "trust_wf t" using wf by (simp add: trust_wf_def t_def)
    have "trust_wf (installHostTrust bind (Agent_AgentUUID a) edgeID now t)"
      if "Bind_HostAgentUUID bind \<noteq> []"
      using t host [OF u b] fresh(1) [OF e [OF that]] fresh(2) [OF u]
      by (intro installHostTrust_trust_wf) (simp_all add: t_def)
    with t have "trust_wf (redeem_bind bind a edgeID now s)"
      unfolding redeem_bind_def Let_def t_def [symmetric] by simp
    with Pair s' show ?thesis by simp
  qed
qed

lemma RevokeAgent_trust_wf [wf_intros]:
  assumes "trust_wf s"
  shows "trust_wf (snd (RevokeAgent u actor now super s))"
  using assms edges_ok_revokeEdgesOf
  by (auto simp: RevokeAgent_def Let_def trust_wf_def recomputeQueueMetricsLocked_def dropNameKey_def
      split: option.split)

lemma DeleteAgent_trust_wf [wf_intros]:
  assumes "trust_wf s"
  shows "trust_wf (snd (DeleteAgent u actor now super s))"
  using assms edges_ok_delete_if
  by (auto simp: DeleteAgent_def Let_def trust_wf_def recomputeQueueMetricsLocked_def
      split: option.split)

section \<open>Approval needs control of the side\<close>

definition controls :: "string \<Rightarrow> memory_store \<Rightarrow> string \<Rightarrow> string \<Rightarrow> bool" where
  "controls ty s side actorHumanID \<longleftrightarrow>
     (if ty = ''org'' then hasRoleAtLeast (membershipRoleLocked s side actorHumanID) RoleAdmin
      else canManageAgentLockedByID s side actorHumanID)"

definition side_approved :: "string \<Rightarrow> trust_edge \<Rightarrow> bool" where
  "side_approved side e \<longleftrightarrow>
     (Edge_LeftID e = side \<and> Edge_LeftApproved e) \<or> (Edge_RightID e = side \<and> Edge_RightApproved e)"

definition edges_of :: "string \<Rightarrow> memory_store \<Rightarrow> trust_edge gomap" where
  "edges_of ty s = (if ty = ''org'' then orgTrusts s else agentTrusts s)"

datatype trust_op =
    RequestTrust string string string
  | ApproveTrust string
  | BlockTrust string
  | RevokeTrust string

fun run_trust_op :: "string \<Rightarrow> string \<Rightarrow> bool \<Rightarrow> time \<Rightarrow> trust_op \<Rightarrow> memory_store \<Rightarrow> memory_store" where
  "run_trust_op ty actor super now (RequestTrust a b i) s =
     snd (createOrJoinTrustLocked ty a b actor i now super s)"
| "run_trust_op ty actor super now (ApproveTrust i) s = snd (approveTrustLocked ty i actor now super s)"
| "run_trust_op ty actor super now (BlockTrust i) s = snd (blockTrustLocked ty i actor now super s)"
| "run_trust_op ty actor super now (RevokeTrust i) s = snd (revokeTrustLocked ty i actor now super s)"

lemma loadEdge_controls:
  assumes "loadEdgeForActorLocked s ty i actor False = Inr (e, l, org)"
  shows "controls ty s (if l then Edge_LeftID e else Edge_RightID e) actor"
  using assms
  by (auto simp: loadEdgeForActorLocked_def controls_def canManageAgentLockedByID_def
      split: if_splits option.splits)

lemma edge_at_Some [simp]: "fmlookup m i = Some e \<Longrightarrow> edge_at m i = e"
  by (simp add: edge_at_def)

lemma approve_edge_side:
  assumes "edge_ok e" and "side_approved side (approve_edge l n e)"
  shows "side_approved side e \<or> side = (if l then Edge_LeftID e else Edge_RightID e)"
  using assms by (auto simp: side_approved_def edge_fun_defs edge_ok_def split: if_splits)

lemma applyTrustRequest_side:
  assumes "side_approved side (applyTrustRequest e l n)"
  shows "side_approved side e \<or> side = (if l then Edge_LeftID e else Edge_RightID e)"
  using assms by (auto simp: side_approved_def edge_fun_defs split: if_splits)

lemma applyAgentTrustRequest_side:
  assumes "side_approved side (applyAgentTrustRequest e l c n)"
  shows "side_approved side e \<or> (c \<and> side = (if l then Edge_LeftID e else Edge_RightID e))"
  using assms by (auto simp: side_approved_def edge_fun_defs split: if_splits)

lemma activate_edge_side:
  "side_approved side (activate_edge n e) \<Longrightarrow> side = Edge_LeftID e \<or> side = Edge_RightID e"
  by (auto simp: side_approved_def activate_edge_def)

lemma close_edge_side [simp]: "\<not> side_approved side (close_edge st n e)"
  by (simp add: side_approved_def close_edge_def)

lemma new_edge_side [simp]: "\<not> side_approved side (new_edge i t l r a n)"
  by (simp add: side_approved_def)

lemma approve_step_side:
  assumes wf: "trust_wf s" and ctl: "\<not> controls ty s side actor"
    and e': "fmlookup (edges_of ty (snd (approveTrustLocked ty i actor now False s))) j = Some e'"
    and app: "side_approved side e'"
  shows "\<exists>e. fmlookup (edges_of ty s) j = Some e \<and> side_approved side e"
proof (cases "loadEdgeForActorLocked s ty i actor False")
  case (Inl err)
  with e' app show ?thesis by (simp add: approveTrustLocked_def)
next
  case (Inr r)
  then obtain e l org where load: "loadEdgeForActorLocked s ty i actor False = Inr (e, l, org)"
    by (cases r) auto
  define f where "f = (if ty = ''agent'' \<and> managesBoth s e actor then activate_edge now e
    else approve_edge l now e)"
  have tys: "ty = ''org'' \<or> ty = ''agent''"
    using load by (auto simp: loadEdgeForActorLocked_def split: if_splits)
  have old: "fmlookup (edges_of ty s) i = Some e"
    using loadEdge_some [OF load] by (simp add: edges_of_def)
  have id: "Edge_EdgeID e = i"
    using wf old edges_okD by (fastforce simp: trust_wf_def edges_of_def split: if_splits)
  have "Edge_EdgeID f = i" using id by (simp add: f_def)
  then have "fmlookup (fmupd i f (edges_of ty s)) j = Some e'"
    using e' load tys
    by (auto simp: approveTrustLocked_def Let_def storeEdgeLocked_def edges_of_def f_def)
  moreover have "side_approved side e" if "side_approved side f"
  proof (cases "ty = ''agent'' \<and> managesBoth s e actor")
    case True
    with ctl have "side \<noteq> Edge_LeftID e" "side \<noteq> Edge_RightID e"
      by (auto simp: controls_def managesBoth_def)
    with True that activate_edge_side show ?thesis by (auto simp: f_def)
  next
    case False
    with that approve_edge_side [OF loaded_edge_ok [OF wf load]] loadEdge_controls [OF load] ctl
    show ?thesis by (auto simp: f_def)
  qed
  ultimately show ?thesis using old app by (cases "j = i") auto
qed

lemma close_step_side:
  assumes wf: "trust_wf s"
    and e': "fmlookup (edges_of ty (snd (closeTrustLocked st act ty i actor now super s))) j = Some e'"
    and app: "side_approved side e'"
  shows "\<exists>e. fmlookup (edges_of ty s) j = Some e \<and> side_approved side e"
proof (cases "loadEdgeForActorLocked s ty i actor super")
  case (Inl err)
  with e' app show ?thesis by (simp add: closeTrustLocked_def)
next
  case (Inr r)
  then obtain e l org where load: "loadEdgeForActorLocked s ty i actor super = Inr (e, l, org)"
    by (cases r) auto
  have tys: "ty = ''org'' \<or> ty = ''agent''"
    using load by (auto simp: loadEdgeForActorLocked_def split: if_splits)
  have "fmlookup (fmupd (Edge_EdgeID e) (close_edge st now e) (edges_of ty s)) j = Some e'"
    using e' load tys
    by (auto simp: closeTrustLocked_def Let_def storeEdgeLocked_def edges_of_def)
  with app show ?thesis by (cases "j = Edge_EdgeID e") auto
qed

lemma same_pair_ends:
  assumes "edge_ends e" and "pair_of_edge e = pairKey l r" and "l < r" and "plain l" and "plain r"
  shows "Edge_LeftID e = l \<and> Edge_RightID e = r"
proof -
  have "{Edge_LeftID e, Edge_RightID e} = {l, r}"
    using assms pairKey_inject by (simp add: edge_ends_def pair_of_edge_def)
  with assms(1,3) show ?thesis by (auto simp: edge_ends_def doubleton_eq_iff)
qed

lemma request_org_side:
  assumes wf: "trust_wf s" and plain: "ids_plain s" and ne: "a \<noteq> b"
    and ctl: "\<not> controls ''org'' s side actor"
    and e': "fmlookup (orgTrusts (snd (createOrJoinOrgTrustLocked a b actor i now False s))) j = Some e'"
    and app: "side_approved side e'"
  shows "\<exists>e. fmlookup (orgTrusts s) j = Some e \<and> side_approved side e"
proof (cases "fmlookup (orgTrusts s) j = Some e'")
  case True
  with app show ?thesis by blast
next
  case False
  obtain l r where lr: "canonicalPair a b = (l, r)" by fastforce
  have role: "hasRoleAtLeast (membershipRoleLocked s a actor) RoleAdmin"
    and found: "fmlookup (orgs s) l \<noteq> None" "fmlookup (orgs s) r \<noteq> None"
    using e' False by (auto simp: createOrJoinOrgTrustLocked_def Let_def lr split: if_splits)
  have side: "side \<noteq> a" using role ctl by (auto simp: controls_def)
  have "plain a" "plain b"
    using found plain lr by (auto simp: ids_plain_def canonicalPair_def split: if_splits)
  then have ends: "l < r" "plain l" "plain r" "{l, r} = {a, b}"
    using canonicalPair_ends [OF lr ne] by blast+
  have step: "side_approved side e"
    if "e' = applyTrustRequest e (a = Edge_LeftID e) now" "Edge_LeftID e = l" "Edge_RightID e = r" for e
  proof -
    have "a = (if a = Edge_LeftID e then Edge_LeftID e else Edge_RightID e)"
      using that ends by (auto simp: doubleton_eq_iff)
    then show ?thesis using applyTrustRequest_side [of side e "a = Edge_LeftID e" now] that(1) app side by auto
  qed
  show ?thesis
  proof (cases "fmlookup (orgTrustByPair s) (pairKey l r)")
    case None
    then have "e' = applyTrustRequest (new_edge i ''org'' l r actor now)
        (a = Edge_LeftID (new_edge i ''org'' l r actor now)) now"
      using e' False role found
      by (auto simp: createOrJoinOrgTrustLocked_def Let_def lr split: if_splits)
    from step [OF this] show ?thesis by simp
  next
    case (Some k)
    with wf obtain e where e: "fmlookup (orgTrusts s) k = Some e" "pair_of_edge e = pairKey l r"
      using edges_lookup_some by (fastforce simp: trust_wf_def)
    have "edge_ends e" using wf e(1) edges_okD by (fastforce simp: trust_wf_def)
    with same_pair_ends e ends have "Edge_LeftID e = l" "Edge_RightID e = r" by blast+
    moreover have "j = k" "e' = applyTrustRequest e (a = Edge_LeftID e) now"
      using e' False Some role found e
      by (auto simp: createOrJoinOrgTrustLocked_def Let_def lr split: if_splits)
    ultimately show ?thesis using step e by blast
  qed
qed

lemma request_agent_side:
  assumes wf: "trust_wf s" and plain: "ids_plain s" and ne: "a \<noteq> b"
    and ctl: "\<not> controls ''agent'' s side actor"
    and e': "fmlookup (agentTrusts (snd (createOrJoinAgentTrustLocked a b actor i now False s))) j = Some e'"
    and app: "side_approved side e'"
  shows "\<exists>e. fmlookup (agentTrusts s) j = Some e \<and> side_approved side e"
proof (cases "fmlookup (agentTrusts s) j = Some e'")
  case True
  with app show ?thesis by blast
next
  case False
  obtain l r where lr: "canonicalPair a b = (l, r)" by fastforce
  obtain aa where found: "fmlookup (agents s) l \<noteq> None" "fmlookup (agents s) r \<noteq> None"
    and aa: "fmlookup (agents s) a = Some aa" and req: "canRequestAgentTrustLocked s aa actor"
    using e' False
    by (auto simp: createOrJoinAgentTrustLocked_def Let_def lr split: if_splits option.splits)
  have side: "\<not> (canManageAgentLocked s aa actor \<and> side = a)"
    using ctl aa by (auto simp: controls_def canManageAgentLockedByID_def)
  have "plain a" "plain b"
    using found plain lr by (auto simp: ids_plain_def canonicalPair_def split: if_splits)
  then have ends: "l < r" "plain l" "plain r" "{l, r} = {a, b}"
    using canonicalPair_ends [OF lr ne] by blast+
  have step: "side_approved side e"
    if e'_eq: "e' = (let f = applyAgentTrustRequest e (a = Edge_LeftID e) (canManageAgentLocked s aa actor) now
        in if managesBoth s f actor then activate_edge now f else f)"
      and lr: "Edge_LeftID e = l" "Edge_RightID e = r" for e
  proof -
    let ?f = "applyAgentTrustRequest e (a = Edge_LeftID e) (canManageAgentLocked s aa actor) now"
    have "a = (if a = Edge_LeftID e then Edge_LeftID e else Edge_RightID e)"
      using lr ends by (auto simp: doubleton_eq_iff)
    then have f: "side_approved side e" if "side_approved side ?f"
      using applyAgentTrustRequest_side [OF that] side by auto
    show ?thesis
    proof (cases "managesBoth s ?f actor")
      case True
      with ctl have "side \<noteq> Edge_LeftID ?f" "side \<noteq> Edge_RightID ?f"
        by (auto simp: controls_def managesBoth_def)
      moreover have "e' = activate_edge now ?f" using True e'_eq by (simp add: Let_def)
      ultimately show ?thesis using app activate_edge_side [of side now ?f] by simp
    next
      case False
      with e'_eq app f show ?thesis by (simp add: Let_def)
    qed
  qed
  show ?thesis
  proof (cases "fmlookup (agentTrustByPair s) (pairKey l r)")
    case None
    have "e' = (let e = new_edge i ''agent'' l r actor now;
          f = applyAgentTrustRequest e (a = Edge_LeftID e) (canManageAgentLocked s aa actor) now
        in if managesBoth s f actor then activate_edge now f else f)"
      using e' False found aa req None
      by (auto simp: createOrJoinAgentTrustLocked_def Let_def lr split: if_splits)
    then have "side_approved side (new_edge i ''agent'' l r actor now)"
      by (intro step) (simp_all add: Let_def)
    then show ?thesis by simp
  next
    case (Some k)
    with wf obtain e where e: "fmlookup (agentTrusts s) k = Some e" "pair_of_edge e = pairKey l r"
      using edges_lookup_some by (fastforce simp: trust_wf_def)
    have "edge_ends e" using wf e(1) edges_okD by (fastforce simp: trust_wf_def)
    with same_pair_ends e ends have "Edge_LeftID e = l" "Edge_RightID e = r" by blast+
    moreover have "j = k" "e' = (let f = applyAgentTrustRequest e (a = Edge_LeftID e)
          (canManageAgentLocked s aa actor) now
        in if managesBoth s f actor then activate_edge now f else f)"
      using e' False found aa req Some e
      by (auto simp: createOrJoinAgentTrustLocked_def Let_def lr split: if_splits)
    ultimately show ?thesis using step e by blast
  qed
qed

lemma trust_op_side:
  assumes "trust_wf s" and "ids_plain s" and "\<not> controls ty s side actor"
    and "fmlookup (edges_of ty (run_trust_op ty actor False now op s)) j = Some e'"
    and "side_approved side e'"
  shows "\<exists>e. fmlookup (edges_of ty s) j = Some e \<and> side_approved side e"
proof (cases op)
  case (RequestTrust a b i)
  show ?thesis
  proof (cases "(ty = ''org'' \<or> ty = ''agent'') \<and> a \<noteq> b")
    case True
    with RequestTrust assms request_org_side [OF assms(1,2)] request_agent_side [OF assms(1,2)]
    show ?thesis
      by (auto simp: createOrJoinTrustLocked_def edges_of_def)
  next
    case False
    then have "snd (createOrJoinTrustLocked ty a b actor i now False s) = s"
      by (auto simp: createOrJoinTrustLocked_def)
    with RequestTrust assms show ?thesis by simp
  qed
next
  case (ApproveTrust i)
  with assms approve_step_side show ?thesis by simp
next
  case (BlockTrust i)
  with assms close_step_side show ?thesis by (simp add: blockTrustLocked_def)
next
  case (RevokeTrust i)
  with assms close_step_side show ?thesis by (simp add: revokeTrustLocked_def)
qed

section \<open>Publishing\<close>

lemma pairKey_sym: "pairKey a b = pairKey b a"
  by (rule pairKey_commute)

lemma active_pair_sym: "active_pair E P a b = active_pair E P b a"
  by (simp add: active_pair_def pairKey_sym [of a b])

lemma hostedAgentPair_sym: "hostedAgentPairAllowed a b = hostedAgentPairAllowed b a"
  by (auto simp: hostedAgentPairAllowed_def Let_def)

lemma canPublish_sym: "canPublishLocked s a b = canPublishLocked s b a"
  by (auto simp: canPublishLocked_def Let_def hostedAgentPair_sym [of a b] active_pair_sym
      split: if_splits)

lemma active_pair_edge:
  assumes ok: "edges_ok E P" and pair: "active_pair E P a b" and plain: "plain a" "plain b"
  shows "\<exists>i e. fmlookup E i = Some e \<and> {Edge_LeftID e, Edge_RightID e} = {a, b} \<and>
    Edge_State e = StatusActive \<and> Edge_LeftApproved e \<and> Edge_RightApproved e"
proof -
  obtain i e where i: "fmlookup P (pairKey a b) = Some i" and e: "fmlookup E i = Some e"
    and act: "Edge_State e = StatusActive"
    using pair by (auto simp: active_pair_def split: option.splits)
  have "pair_of_edge e = pairKey a b" using edges_lookup_some [OF ok i] e by auto
  moreover have "edge_ends e" "edge_ok e" using edges_okD [OF ok e] by auto
  ultimately have "{Edge_LeftID e, Edge_RightID e} = {a, b}"
    using pairKey_inject plain by (simp add: edge_ends_def pair_of_edge_def)
  with e act \<open>edge_ok e\<close> show ?thesis by (auto simp: edge_ok_def)
qed

end
