(* ===== verification/OrgSafety.thy ===== *)
theory OrgSafety
  imports Orgs TrustSafety
begin

text \<open>
  Organisations keep an owner and a handle of their own under every operation.
\<close>

section \<open>What the transfer of agents leaves alone\<close>

lemma transferAgent_fields:
  "orgs (transferAgent org i h oh now u s) = orgs s"
  "orgByHandle (transferAgent org i h oh now u s) = orgByHandle s"
  "personalOrgByHuman (transferAgent org i h oh now u s) = personalOrgByHuman s"
  "humans (transferAgent org i h oh now u s) = humans s"
  "humanByHandle (transferAgent org i h oh now u s) = humanByHandle s"
  "humanByAuthKey (transferAgent org i h oh now u s) = humanByAuthKey s"
  "memberships (transferAgent org i h oh now u s) = memberships s"
  "membershipByOrgUser (transferAgent org i h oh now u s) = membershipByOrgUser s"
  "invites (transferAgent org i h oh now u s) = invites s"
  "inviteBySecretHash (transferAgent org i h oh now u s) = inviteBySecretHash s"
  "orgAccessKeys (transferAgent org i h oh now u s) = orgAccessKeys s"
  "orgAccessKeyByHash (transferAgent org i h oh now u s) = orgAccessKeyByHash s"
  "binds (transferAgent org i h oh now u s) = binds s"
  "bindByHash (transferAgent org i h oh now u s) = bindByHash s"
  "orgTrusts (transferAgent org i h oh now u s) = orgTrusts s"
  "orgTrustByPair (transferAgent org i h oh now u s) = orgTrustByPair s"
  "agentTrusts (transferAgent org i h oh now u s) = agentTrusts s"
  "agentTrustByPair (transferAgent org i h oh now u s) = agentTrustByPair s"
  "queues (transferAgent org i h oh now u s) = queues s"
  "messageRecords (transferAgent org i h oh now u s) = messageRecords s"
  "messageByClientMsg (transferAgent org i h oh now u s) = messageByClientMsg s"
  "messageDeliveries (transferAgent org i h oh now u s) = messageDeliveries s"
  "queueMetrics (transferAgent org i h oh now u s) = queueMetrics s"
  "peerInstances (transferAgent org i h oh now u s) = peerInstances s"
  "peerByCanonicalBase (transferAgent org i h oh now u s) = peerByCanonicalBase s"
  "remoteOrgTrusts (transferAgent org i h oh now u s) = remoteOrgTrusts s"
  "remoteOrgTrustByKey (transferAgent org i h oh now u s) = remoteOrgTrustByKey s"
  "remoteAgentTrusts (transferAgent org i h oh now u s) = remoteAgentTrusts s"
  "remoteAgentTrustByKey (transferAgent org i h oh now u s) = remoteAgentTrustByKey s"
  "peerOutbounds (transferAgent org i h oh now u s) = peerOutbounds s"
  "peerOutboundByPeer (transferAgent org i h oh now u s) = peerOutboundByPeer s"
  by (simp_all add: transferAgent_def Let_def split: option.split)

lemma transferHumanOwnedAgents_frame:
  assumes "\<And>org i h oh now u s. f (transferAgent org i h oh now u s) = f s"
  shows "f (transferHumanOwnedAgentsToOrgLocked i h now s) = f s"
  by (simp add: transferHumanOwnedAgentsToOrgLocked_def Let_def fold_frame [of f, OF assms]
      split: option.split)

lemmas transfer_fields [simp] =
  transferAgent_fields [THEN transferHumanOwnedAgents_frame]

section \<open>The invariant of organisations\<close>

definition owner_ok :: "memory_store \<Rightarrow> string \<Rightarrow> bool" where
  "owner_ok s i \<longleftrightarrow>
     (\<exists>h mid m. fmlookup (membershipByOrgUser s) (orgHumanKey i h) = Some mid \<and>
        fmlookup (memberships s) mid = Some m \<and> Mem_OrgID m = i \<and> Mem_HumanID m = h \<and>
        Mem_Role m = RoleOwner \<and> Mem_Status m = StatusActive)"

definition org_handle_key :: "organization \<Rightarrow> string option" where
  "org_handle_key org = Some (normalizeOrgHandleKey (Org_Handle org))"

definition orgs_wf :: "memory_store \<Rightarrow> bool" where
  "orgs_wf s \<longleftrightarrow>
     (\<forall>i org. fmlookup (orgs s) i = Some org \<longrightarrow>
        Org_OrgID org = i \<and> plain i \<and> i \<noteq> [] \<and> owner_ok s i) \<and>
     index_covers org_handle_key (orgs s) (orgByHandle s)"

definition fresh_org :: "string \<Rightarrow> memory_store \<Rightarrow> bool" where
  "fresh_org i s \<longleftrightarrow>
     plain i \<and> i \<noteq> [] \<and> fmlookup (orgs s) i = None \<and> fmlookup (memberships s) (memID_of i) = None"

lemma orgs_wf_cong:
  "orgs s' = orgs s \<Longrightarrow> orgByHandle s' = orgByHandle s \<Longrightarrow> memberships s' = memberships s \<Longrightarrow>
    membershipByOrgUser s' = membershipByOrgUser s \<Longrightarrow> orgs_wf s' \<longleftrightarrow> orgs_wf s"
  by (simp add: orgs_wf_def owner_ok_def)

lemma orgs_wf_audit [simp]:
  "orgs_wf (appendAuditLocked org actor cat act subj details now s) \<longleftrightarrow> orgs_wf s"
  by (rule orgs_wf_cong) simp_all

lemma ensureOrgStats_fields [simp]:
  "orgs (snd (ensureOrgStatsLocked i s)) = orgs s"
  "orgByHandle (snd (ensureOrgStatsLocked i s)) = orgByHandle s"
  "memberships (snd (ensureOrgStatsLocked i s)) = memberships s"
  "membershipByOrgUser (snd (ensureOrgStatsLocked i s)) = membershipByOrgUser s"
  "agents (snd (ensureOrgStatsLocked i s)) = agents s"
  by (simp_all add: ensureOrgStatsLocked_def Let_def split: option.split)

lemma orgs_wf_stats [simp]: "orgs_wf (snd (ensureOrgStatsLocked i s)) \<longleftrightarrow> orgs_wf s"
  by (rule orgs_wf_cong) simp_all

lemma orgs_wf_new: "orgs_wf NewMemoryStore"
  by (simp add: orgs_wf_def NewMemoryStore_def)

lemma orgHumanKey_other: "plain i \<Longrightarrow> plain j \<Longrightarrow> i \<noteq> j \<Longrightarrow> orgHumanKey i h \<noteq> orgHumanKey j g"
  by (simp add: plain_def orgHumanKey_inject)

lemma installOrg_wf:
  assumes wf: "orgs_wf s" and fresh: "fresh_org (Org_OrgID org) s"
    and key: "k = normalizeOrgHandleKey (Org_Handle org)" and free: "org_handle_free (orgByHandle s) k"
  shows "orgs_wf (installOrg org k h now s)"
proof -
  let ?i = "Org_OrgID org" and ?s = "installOrg org k h now s"
  have new: "owner_ok ?s ?i"
    unfolding owner_ok_def
    by (intro exI [of _ h] exI [of _ "memID_of ?i"] exI [of _ "owner_membership ?i h now"])
      (simp add: installOrg_def owner_membership_def)
  have old: "owner_ok ?s j" if j: "fmlookup (orgs s) j = Some x" for j x
  proof -
    have "owner_ok s j" "plain j" using wf j by (auto simp: orgs_wf_def)
    then obtain g mid m where m: "fmlookup (membershipByOrgUser s) (orgHumanKey j g) = Some mid"
      "fmlookup (memberships s) mid = Some m" "Mem_OrgID m = j" "Mem_HumanID m = g"
      "Mem_Role m = RoleOwner" "Mem_Status m = StatusActive"
      by (auto simp: owner_ok_def)
    have "j \<noteq> ?i" "plain ?i" "mid \<noteq> memID_of ?i" using fresh j m by (auto simp: fresh_org_def)
    then have "orgHumanKey ?i h \<noteq> orgHumanKey j g" "memID_of ?i \<noteq> mid"
      using orgHumanKey_other [of ?i j h g] \<open>plain j\<close> by auto
    then show ?thesis
      unfolding owner_ok_def using m
      by (intro exI [of _ g] exI [of _ mid] exI [of _ m]) (simp add: installOrg_def)
  qed
  have "j = ?i" if "fmlookup (orgs s) j = Some w" "org_handle_key w = Some k" for j w
  proof -
    have "fmlookup (orgByHandle s) k = Some j"
      using wf that index_covers_key by (fastforce simp: orgs_wf_def)
    with free have "j = []" by (auto simp: org_handle_free_def)
    with wf that show ?thesis by (auto simp: orgs_wf_def)
  qed
  then have "index_covers org_handle_key (fmupd ?i org (orgs s)) (fmupd k ?i (orgByHandle s))"
    using wf key by (intro index_covers_claim) (auto simp: orgs_wf_def org_handle_key_def)
  with new old wf fresh show ?thesis
    by (auto simp: orgs_wf_def fresh_org_def installOrg_def split: if_splits)
qed

lemma normalizeOrgHandleKey_idem [simp]:
  "normalizeOrgHandleKey (normalizeOrgHandleKey h) = normalizeOrgHandleKey h"
  by (simp add: normalizeOrgHandleKey_def normalizeHumanHandleCandidate_def)

lemma CreateOrg_wf [wf_intros]:
  assumes "orgs_wf s" and "fresh_org orgID s"
  shows "orgs_wf (snd (CreateOrg handle displayName creator orgID now s))"
proof (cases "org_handle_free (orgByHandle s) (normalizeOrgHandleKey handle)")
  case True
  have "orgs_wf (installOrg \<lparr>Org_OrgID = orgID, Org_Handle = normalizeOrgHandleKey handle,
      Org_DisplayName = name, Org_Metadata = fmempty, Org_CreatedAt = now, Org_CreatedBy = creator\<rparr>
      (normalizeOrgHandleKey handle) creator now s)" for name
    using assms True by (intro installOrg_wf) simp_all
  then show ?thesis
    using assms(1) by (simp add: CreateOrg_def Let_def)
next
  case False
  with assms show ?thesis by (simp add: CreateOrg_def Let_def org_handle_free_def)
qed

lemma personal_loop_free:
  assumes "personal_handle_loop idx base handle i = Some r"
  shows "org_handle_free idx (normalizeOrgHandleKey r)"
proof (rule personal_handle_loop.raw_induct [where P = "\<lambda>idx base handle i r.
    org_handle_free idx (normalizeOrgHandleKey r)", OF _ assms], goal_cases)
  case (1 rec idx base handle i r)
  then show ?case by (auto split: if_splits)
qed

lemma ensurePersonalOrg_wf [wf_intros]:
  assumes wf: "orgs_wf s" and fresh: "\<And>i. idFactory = Inr i \<Longrightarrow> fresh_org i s"
    and run: "ensurePersonalOrgLocked humanID now idFactory s = Some (r, s')"
  shows "orgs_wf s'"
proof -
  have inst: "orgs_wf (t\<lparr>personalOrgByHuman := m\<rparr>) \<longleftrightarrow> orgs_wf t" for t m
    by (rule orgs_wf_cong) simp_all
  show ?thesis
    using run wf fresh personal_loop_free
    by (auto simp: ensurePersonalOrgLocked_def Let_def inst
        split: option.splits sum.splits intro!: installOrg_wf)
qed

text \<open>Memberships that change without touching an owner.\<close>

lemma orgs_wf_membership:
  assumes wf: "orgs_wf s"
    and t: "orgs t = orgs s" "orgByHandle t = orgByHandle s"
    and keep: "\<And>i h mid m. fmlookup (membershipByOrgUser s) (orgHumanKey i h) = Some mid \<Longrightarrow>
      fmlookup (memberships s) mid = Some m \<Longrightarrow> Mem_Role m = RoleOwner \<Longrightarrow> Mem_Status m = StatusActive \<Longrightarrow>
      fmlookup (membershipByOrgUser t) (orgHumanKey i h) = Some mid \<and>
      fmlookup (memberships t) mid = Some m"
  shows "orgs_wf t"
  using assms unfolding orgs_wf_def owner_ok_def by simp blast

lemma acceptInvite_orgs_wf [wf_intros]:
  assumes wf: "orgs_wf s" and fresh: "\<And>i. idFactory = Inr i \<Longrightarrow> fmlookup (memberships s) i = None"
  shows "orgs_wf (snd (acceptInviteLocked inviteID humanID email now idFactory s))"
proof (cases "fmlookup (invites s) inviteID")
  case None
  with wf show ?thesis by (simp add: acceptInviteLocked_def)
next
  case (Some inv)
  have trivial: "orgs_wf (t\<lparr>invites := x, inviteBySecretHash := y\<rparr>) \<longleftrightarrow> orgs_wf t" for t x y
    by (rule orgs_wf_cong) simp_all
  have transfer: "orgs_wf (transferHumanOwnedAgentsToOrgLocked i h now t) \<longleftrightarrow> orgs_wf t" for i h t
    by (rule orgs_wf_cong) simp_all
  have new: "orgs_wf (s\<lparr>memberships := fmupd memID mem (memberships s),
      membershipByOrgUser := fmupd (orgHumanKey (Inv_OrgID inv) humanID) memID (membershipByOrgUser s)\<rparr>)"
    if "idFactory = Inr memID" "active_membership s (Inv_OrgID inv) humanID = None" for memID mem
    by (rule orgs_wf_membership [OF wf])
      (use that fresh [OF that(1)] in \<open>auto simp: active_membership_def\<close>)
  show ?thesis
    using Some wf new
    by (auto simp: acceptInviteLocked_def Let_def spendInvite_def trivial transfer
        split: option.split sum.split)
qed

lemma AcceptInvite_orgs_wf [wf_intros]:
  assumes "orgs_wf s" and "\<And>i. idFactory = Inr i \<Longrightarrow> fmlookup (memberships s) i = None"
  shows "orgs_wf (snd (AcceptInvite inviteID humanID email now idFactory s))"
    and "orgs_wf (snd (AcceptInviteBySecretHash h humanID email now idFactory s))"
  using assms acceptInvite_orgs_wf
  by (simp_all add: AcceptInvite_def AcceptInviteBySecretHash_def split: option.split)

lemma RevokeMembership_orgs_wf [wf_intros]:
  assumes wf: "orgs_wf s"
  shows "orgs_wf (snd (RevokeMembership orgID humanID actor super now s))"
proof -
  have step: "orgs_wf (s\<lparr>memberships := fmupd mid (m\<lparr>Mem_Status := StatusRevoked\<rparr>) (memberships s)\<rparr>)"
    if "fmlookup (memberships s) mid = Some m" "Mem_Role m \<noteq> RoleOwner" for mid m
    by (rule orgs_wf_membership [OF wf]) (use that in auto)
  with wf show ?thesis
    by (auto simp: RevokeMembership_def Let_def split: option.split)
qed

lemma UpdateOrgMetadata_orgs_wf [wf_intros]:
  assumes wf: "orgs_wf s"
  shows "orgs_wf (snd (UpdateOrgMetadata jsonSize orgID metadata actor super now s))"
proof -
  have "orgs_wf (s\<lparr>orgs := fmupd orgID (org\<lparr>Org_Metadata := metadata\<rparr>) (orgs s)\<rparr>)"
    if "fmlookup (orgs s) orgID = Some org" for org
    using wf that
    by (auto simp: orgs_wf_def owner_ok_def org_handle_key_def intro!: index_covers_update)
  with wf show ?thesis by (auto simp: UpdateOrgMetadata_def Let_def split: option.split)
qed

definition deleteOrgAll :: "string \<Rightarrow> time \<Rightarrow> memory_store \<Rightarrow> memory_store" where
  "deleteOrgAll orgID now s =
     deleteOrgRecords orgID (deleteOrgQueues (deletedIn s orgID)
       (deleteOrgTrusts orgID (deletedIn s orgID) (deleteOrgAgents orgID now s)))"

lemma DeleteOrg_cases:
  obtains (refused) e where "DeleteOrg orgID actor super now s = (Inl e, s)"
  | (deleted) org details where "fmlookup (orgs s) orgID = Some org"
      "DeleteOrg orgID actor super now s =
        (Inr (), (appendAuditLocked orgID actor ''org'' ''delete'' orgID details now
          (deleteOrgAll orgID now s))
          \<lparr>archivedOrgs := fmupd orgID org (archivedOrgs (deleteOrgAll orgID now s)),
           orgs := fmdrop orgID (orgs (deleteOrgAll orgID now s))\<rparr>)"
proof (cases "fmlookup (orgs s) orgID")
  case None
  then show ?thesis by (intro refused) (simp add: DeleteOrg_def)
next
  case (Some org)
  show ?thesis
  proof (cases "\<not> super \<and> membershipRoleLocked s orgID actor \<noteq> RoleOwner")
    case True
    with Some show ?thesis by (intro refused) (simp add: DeleteOrg_def)
  next
    case False
    show ?thesis
      by (rule deleted [OF Some])
        (simp only: DeleteOrg_def Some option.case if_not_P [OF False] Let_def deleteOrgAll_def, simp)
  qed
qed

lemma deleteOrgAll_fields:
  "orgs (deleteOrgAll orgID now s) = orgs s"
  "orgByHandle (deleteOrgAll orgID now s) = orgByHandle s"
  "memberships (deleteOrgAll orgID now s) = fmdelete_if (\<lambda>_ m. Mem_OrgID m = orgID) (memberships s)"
  "membershipByOrgUser (deleteOrgAll orgID now s) =
     fmdrop_fset (keys_of (\<lambda>m. orgHumanKey orgID (Mem_HumanID m))
       (\<lambda>_ m. Mem_OrgID m = orgID) (memberships s)) (membershipByOrgUser s)"
  "archivedOrgs (deleteOrgAll orgID now s) = archivedOrgs s"
  by (simp_all add: deleteOrgAll_def deleteOrgRecords_def deleteOrgQueues_def
      deleteOrgTrusts_def deleteOrgAgents_def recomputeQueueMetricsLocked_def Let_def)

lemma DeleteOrg_orgs_wf [wf_intros]:
  assumes wf: "orgs_wf s"
  shows "orgs_wf (snd (DeleteOrg orgID actor super now s))"
proof (cases rule: DeleteOrg_cases [of orgID actor super now s])
  case refused
  with wf show ?thesis by simp
next
  case (deleted org details)
  let ?t = "snd (DeleteOrg orgID actor super now s)"
  have plain: "plain orgID" using wf deleted(1) by (auto simp: orgs_wf_def)
  have kept: "owner_ok ?t j" if owner: "owner_ok s j" and j: "plain j" "j \<noteq> orgID" for j
  proof -
    obtain g mid m where m: "fmlookup (membershipByOrgUser s) (orgHumanKey j g) = Some mid"
      "fmlookup (memberships s) mid = Some m" "Mem_OrgID m = j" "Mem_HumanID m = g"
      "Mem_Role m = RoleOwner" "Mem_Status m = StatusActive"
      using owner by (auto simp: owner_ok_def)
    have "orgHumanKey orgID x \<noteq> orgHumanKey j g" for x
      using orgHumanKey_other [OF j(1) plain j(2)] by metis
    then have "fmlookup (membershipByOrgUser ?t) (orgHumanKey j g) = Some mid"
      using m(1) by (simp add: deleted(2) deleteOrgAll_fields keys_of_iff)
    moreover have "fmlookup (memberships ?t) mid = Some m"
      using m(2,3) j(2) by (simp add: deleted(2) deleteOrgAll_fields)
    ultimately show ?thesis unfolding owner_ok_def using m by blast
  qed
  have "orgs ?t = fmdrop orgID (orgs s)" "orgByHandle ?t = orgByHandle s"
    by (simp_all add: deleted(2) deleteOrgAll_fields)
  with wf kept show ?thesis
    by (simp add: orgs_wf_def index_covers_drop)
qed

end
