(* ===== verification/OrgAccess.thy ===== *)
theory OrgAccess
  imports OrgSafety
begin

text \<open>
  Agents and trust under the operations on organisations, and what invites, access keys and
  membership revocation let through.
\<close>

section \<open>Agents under the operations on organisations\<close>

lemma agents_wf_same:
  "agents s' = agents s \<Longrightarrow> agentTokenIdx s' = agentTokenIdx s \<Longrightarrow>
    agentByURI s' = agentByURI s \<Longrightarrow> orgOwnedAgentNameIdx s' = orgOwnedAgentNameIdx s \<Longrightarrow>
    humanOwnedAgentNameIdx s' = humanOwnedAgentNameIdx s \<Longrightarrow> agents_wf s' \<longleftrightarrow> agents_wf s"
  by (rule agents_wf_cong) (simp_all add: agent_cores_def del: fmmap_core)

lemma core_in_org [simp]: "in_org i (agent_core a) = in_org i a"
  by (simp add: in_org_def)

lemma keys_of_cores:
  assumes "\<And>a. kf (agent_core a) = kf a" and "\<And>i a. p i (agent_core a) = p i a"
  shows "keys_of kf p (agents s) = keys_of kf p (agent_cores s)"
proof (rule fset_eqI)
  fix k
  have "k |\<in>| keys_of kf p (agent_cores s) \<longleftrightarrow>
      (\<exists>i a. fmlookup (agents s) i = Some a \<and> p i (agent_core a) \<and> kf (agent_core a) = k)"
    unfolding keys_of_iff agent_cores_lookup map_option_eq_Some by blast
  then show "k |\<in>| keys_of kf p (agents s) \<longleftrightarrow> k |\<in>| keys_of kf p (agent_cores s)"
    by (simp add: keys_of_iff assms)
qed

lemma uuids_ok_delete_if: "uuids_ok C \<Longrightarrow> uuids_ok (fmdelete_if p C)"
  unfolding uuids_ok_def by (auto split: option.splits if_splits)

lemma deleteOrgAgents_wf:
  assumes wf: "agents_wf s"
  shows "agents_wf (deleteOrgAgents orgID now s)"
proof -
  let ?t = "deleteOrgAgents orgID now s" and ?C = "agent_cores s"
  let ?p = "\<lambda>_. in_org orgID :: agent \<Rightarrow> bool"
  have cores: "agent_cores ?t = fmdelete_if ?p ?C"
    by (rule fmap_ext) (simp add: deleteOrgAgents_def Let_def split: option.split)
  have "keys_of Agent_TokenHash ?p (agents s) = keys_of Agent_TokenHash ?p ?C"
    by (rule keys_of_cores) simp_all
  then have tokens: "agentTokenIdx ?t = fmdrop_fset (keys_of Agent_TokenHash ?p ?C) (agentTokenIdx s)"
    by (simp add: deleteOrgAgents_def Let_def)
  have same: "agentByURI ?t = agentByURI s" "orgOwnedAgentNameIdx ?t = orgOwnedAgentNameIdx s"
    "humanOwnedAgentNameIdx ?t = humanOwnedAgentNameIdx s"
    by (simp_all add: deleteOrgAgents_def Let_def)
  have exact: "index_ok token_key (fmdelete_if ?p ?C)
      (fmdrop_fset (keys_of Agent_TokenHash ?p ?C) (agentTokenIdx s))"
  proof (rule index_ok_delete_if_keyed)
    show "index_ok token_key ?C (agentTokenIdx s)" using wf by (simp add: agents_wf_def)
    show "Agent_TokenHash v = k" if "token_key v = Some k" for v k
      using that by (simp add: token_key_def split: if_splits)
    show "i = j" if "fmlookup ?C i = Some v" "fmlookup ?C j = Some w"
      "Agent_TokenHash v = Agent_TokenHash w" for i j v w
      using wf that unfolding agents_wf_def distinct_hashes_def by blast
  qed
  have "uuids_ok ?C" "distinct_hashes ?C" "index_covers uri_key ?C (agentByURI s)"
    "index_covers org_name_key ?C (orgOwnedAgentNameIdx s)"
    "index_covers human_name_key ?C (humanOwnedAgentNameIdx s)"
    using wf by (simp_all add: agents_wf_def)
  with exact show ?thesis
    unfolding agents_wf_def cores tokens same
    by (simp add: uuids_ok_delete_if distinct_hashes_delete_if index_covers_delete_if)
qed

lemma DeleteOrg_agents_wf [wf_intros]:
  assumes wf: "agents_wf s"
  shows "agents_wf (snd (DeleteOrg orgID actor super now s))"
proof (cases rule: DeleteOrg_cases [of orgID actor super now s])
  case refused
  with wf show ?thesis by simp
next
  case (deleted org details)
  let ?a = "appendAuditLocked orgID actor ''org'' ''delete'' orgID details now (deleteOrgAll orgID now s)"
  have "agents_wf (snd (DeleteOrg orgID actor super now s)) \<longleftrightarrow> agents_wf ?a"
    by (rule agents_wf_same) (simp_all add: deleted(2))
  moreover have "agents_wf (deleteOrgAll orgID now s) \<longleftrightarrow> agents_wf (deleteOrgAgents orgID now s)"
    by (rule agents_wf_same) (simp_all add: deleteOrgAll_def deleteOrgRecords_def
        deleteOrgQueues_def deleteOrgTrusts_def recomputeQueueMetricsLocked_def)
  ultimately show ?thesis using deleteOrgAgents_wf [OF wf] by simp
qed

definition joinOrg :: "membership \<Rightarrow> memory_store \<Rightarrow> memory_store" where
  "joinOrg mem s = s\<lparr>memberships := fmupd (Mem_MembershipID mem) mem (memberships s),
     membershipByOrgUser := fmupd (orgHumanKey (Mem_OrgID mem) (Mem_HumanID mem))
       (Mem_MembershipID mem) (membershipByOrgUser s)\<rparr>"

definition expireInvite :: "string \<Rightarrow> invite \<Rightarrow> time \<Rightarrow> memory_store \<Rightarrow> memory_store" where
  "expireInvite inviteID invite now s =
     s\<lparr>invites := fmupd inviteID
         (invite\<lparr>Inv_Status := StatusExpired, Inv_RevokedAt := Some now\<rparr>) (invites s),
       inviteBySecretHash := fmdrop (Inv_InviteSecret invite) (inviteBySecretHash s)\<rparr>"

definition invite_admits :: "invite \<Rightarrow> string \<Rightarrow> time \<Rightarrow> bool" where
  "invite_admits iv email now \<longleftrightarrow> Inv_Status iv = StatusPending \<and> now \<le> Inv_ExpiresAt iv \<and>
     (Inv_Email iv \<noteq> [] \<longrightarrow> EqualFold (Inv_Email iv) email)"

lemma acceptInvite_cases:
  obtains (refused) e where "acceptInviteLocked i h email now f s = (Inl e, s)"
  | (expired) iv where "fmlookup (invites s) i = Some iv" "Inv_Status iv = StatusPending"
      "Inv_ExpiresAt iv < now"
      "acceptInviteLocked i h email now f s = (Inl ErrInviteInvalid, expireInvite i iv now s)"
  | (known) iv m where "fmlookup (invites s) i = Some iv" "invite_admits iv email now"
      "fmlookup (humans s) h \<noteq> None" "active_membership s (Inv_OrgID iv) h = Some m"
      "acceptInviteLocked i h email now f s = (Inr m,
         transferHumanOwnedAgentsToOrgLocked (Inv_OrgID iv) h now (spendInvite i iv now s))"
  | (joined) iv m where "fmlookup (invites s) i = Some iv" "invite_admits iv email now"
      "fmlookup (humans s) h \<noteq> None" "active_membership s (Inv_OrgID iv) h = None"
      "f = Inr (Mem_MembershipID m)" "Mem_OrgID m = Inv_OrgID iv" "Mem_HumanID m = h"
      "Mem_Role m = Inv_Role iv" "Mem_Status m = StatusActive"
      "acceptInviteLocked i h email now f s = (Inr m,
         appendAuditLocked (Inv_OrgID iv) h ''invite'' ''accept'' i fmempty now
           (transferHumanOwnedAgentsToOrgLocked (Inv_OrgID iv) h now
             (spendInvite i iv now (joinOrg m s))))"
proof (cases "fmlookup (invites s) i")
  case None
  then show ?thesis by (intro refused) (simp add: acceptInviteLocked_def)
next
  case (Some iv)
  consider (late) "Inv_Status iv = StatusPending" "Inv_ExpiresAt iv < now"
    | (no) "\<not> (Inv_Status iv = StatusPending \<and> now > Inv_ExpiresAt iv)"
      "\<not> invite_admits iv email now \<or> fmlookup (humans s) h = None"
    | (yes) "invite_admits iv email now" "fmlookup (humans s) h \<noteq> None"
    by (auto simp: invite_admits_def)
  then show ?thesis
  proof cases
    case late
    with Some show ?thesis
      by (intro expired) (simp_all add: acceptInviteLocked_def expireInvite_def)
  next
    case no
    with Some have "\<exists>e. acceptInviteLocked i h email now f s = (Inl e, s)"
      by (auto simp: acceptInviteLocked_def invite_admits_def)
    then show ?thesis using refused by blast
  next
    case yes
    show ?thesis
    proof (cases "active_membership s (Inv_OrgID iv) h")
      case (Some m)
      with \<open>fmlookup (invites s) i = Some iv\<close> yes show ?thesis
        by (intro known) (auto simp: acceptInviteLocked_def invite_admits_def)
    next
      case None
      show ?thesis
      proof (cases f)
        case (Inl e)
        with None Some yes show ?thesis
          by (intro refused [of e]) (auto simp: acceptInviteLocked_def invite_admits_def)
      next
        case (Inr memID)
        with None Some yes show ?thesis
          by (intro joined [of iv "\<lparr>Mem_MembershipID = memID, Mem_OrgID = Inv_OrgID iv,
              Mem_HumanID = h, Mem_Role = Inv_Role iv, Mem_Status = StatusActive,
              Mem_CreatedAt = now\<rparr>"])
            (auto simp: acceptInviteLocked_def invite_admits_def joinOrg_def Let_def)
      qed
    qed
  qed
qed

lemmas invite_steps = spendInvite_def joinOrg_def expireInvite_def

lemma agents_wf_invite_steps [simp]:
  "agents_wf (spendInvite i iv now s) \<longleftrightarrow> agents_wf s"
  "agents_wf (expireInvite i iv now s) \<longleftrightarrow> agents_wf s" "agents_wf (joinOrg m s) \<longleftrightarrow> agents_wf s"
  by (rule agents_wf_same; simp add: invite_steps)+

lemma trust_wf_invite_steps [simp]:
  "trust_wf (spendInvite i iv now s) \<longleftrightarrow> trust_wf s"
  "trust_wf (expireInvite i iv now s) \<longleftrightarrow> trust_wf s" "trust_wf (joinOrg m s) \<longleftrightarrow> trust_wf s"
  "trust_wf (transferHumanOwnedAgentsToOrgLocked org h now s) \<longleftrightarrow> trust_wf s"
  by (simp_all add: trust_wf_def invite_steps)

lemma acceptInvite_agents_wf [wf_intros]:
  assumes "agents_wf s"
  shows "agents_wf (snd (acceptInviteLocked i h email now f s))"
  by (cases rule: acceptInvite_cases [of i h email now f s])
    (simp_all add: assms transferHumanOwnedAgents_wf)

lemma AcceptInvite_agents_wf [wf_intros]:
  assumes "agents_wf s"
  shows "agents_wf (snd (AcceptInvite inviteID humanID email now idFactory s))"
    and "agents_wf (snd (AcceptInviteBySecretHash h humanID email now idFactory s))"
  using assms acceptInvite_agents_wf
  by (simp_all add: AcceptInvite_def AcceptInviteBySecretHash_def split: option.split)

section \<open>Trust under the operations on organisations\<close>

lemma DeleteOrg_trust_wf [wf_intros]:
  assumes wf: "trust_wf s"
  shows "trust_wf (snd (DeleteOrg orgID actor super now s))"
proof (cases rule: DeleteOrg_cases [of orgID actor super now s])
  case refused
  with wf show ?thesis by simp
next
  case (deleted org details)
  let ?d = "deletedIn s orgID"
  have "trust_wf (deleteOrgTrusts orgID ?d (deleteOrgAgents orgID now s))"
    using wf edges_ok_delete_if
    by (simp add: deleteOrgTrusts_def deleteOrgAgents_def trust_wf_def Let_def)
  moreover have "trust_wf (snd (DeleteOrg orgID actor super now s)) \<longleftrightarrow>
      trust_wf (deleteOrgTrusts orgID ?d (deleteOrgAgents orgID now s))"
    by (rule trust_wf_cong) (simp_all add: deleted(2) deleteOrgAll_def deleteOrgRecords_def
        deleteOrgQueues_def recomputeQueueMetricsLocked_def)
  ultimately show ?thesis by simp
qed

lemma acceptInvite_trust_wf [wf_intros]:
  assumes "trust_wf s"
  shows "trust_wf (snd (acceptInviteLocked i h email now f s))"
  by (cases rule: acceptInvite_cases [of i h email now f s]) (simp_all add: assms)

section \<open>What invites let through\<close>

lemma active_membership_known:
  "active_membership s org h = Some m \<Longrightarrow> Mem_Status m = StatusActive"
  by (auto simp: active_membership_def split: option.splits if_splits)

lemma active_membership_role:
  "membershipRoleLocked s org h = (case active_membership s org h of None \<Rightarrow> [] | Some m \<Rightarrow> Mem_Role m)"
  by (simp add: membershipRoleLocked_def active_membership_def split: option.split)

lemma spent_invite:
  "fmlookup (invites (spendInvite i iv now s)) i =
     Some (iv\<lparr>Inv_Status := StatusActive, Inv_AcceptedAt := Some now\<rparr>)"
  "fmlookup (inviteBySecretHash (spendInvite i iv now s)) (Inv_InviteSecret iv) = None"
  by (simp_all add: spendInvite_def)

lemma spent_role:
  "membershipRoleLocked (transferHumanOwnedAgentsToOrgLocked org h now (spendInvite i iv n s)) =
     membershipRoleLocked s"
  by (rule ext)+ (simp add: membershipRoleLocked_def spendInvite_def cong: option.case_cong)

lemma joined_role:
  "Mem_Status m = StatusActive \<Longrightarrow>
    membershipRoleLocked (joinOrg m s) (Mem_OrgID m) (Mem_HumanID m) = Mem_Role m"
  by (simp add: membershipRoleLocked_def joinOrg_def)

lemma role_audit [simp]:
  "membershipRoleLocked (appendAuditLocked org actor cat act subj details now s) = membershipRoleLocked s"
  by (rule ext)+ (simp add: membershipRoleLocked_def cong: option.case_cong)

lemma accepted_again: "fmlookup (invites s) i = Some iv \<Longrightarrow> Inv_Status iv \<noteq> StatusPending \<Longrightarrow>
    acceptInviteLocked i h email now f s = (Inl ErrInviteInvalid, s)"
  by (simp add: acceptInviteLocked_def)

text \<open>
  C22: an invite lets in only who it was made for, and once.  If it is accepted, it was
  pending, not past its deadline and (when it names an address) for that address; the human
  then has a role in the invite's organisation, the invite's own unless they had one
  already; and neither the invite nor its secret can be used again by anybody.
\<close>

theorem acceptInvite_once:
  assumes "AcceptInvite i h email now f s = (Inr m, s')"
  shows "\<exists>iv. fmlookup (invites s) i = Some iv \<and> Inv_Status iv = StatusPending \<and>
      now \<le> Inv_ExpiresAt iv \<and> (Inv_Email iv \<noteq> [] \<longrightarrow> EqualFold (Inv_Email iv) email) \<and>
      fmlookup (humans s) h \<noteq> None \<and>
      membershipRoleLocked s' (Inv_OrgID iv) h =
        (case active_membership s (Inv_OrgID iv) h of None \<Rightarrow> Inv_Role iv | Some k \<Rightarrow> Mem_Role k) \<and>
      fmlookup (inviteBySecretHash s') (Inv_InviteSecret iv) = None \<and>
      (\<forall>h' email' now' f'. AcceptInvite i h' email' now' f' s' = (Inl ErrInviteInvalid, s'))"
proof (cases rule: acceptInvite_cases [of i h email now f s])
  case (known iv k)
  with assms have s': "s' = transferHumanOwnedAgentsToOrgLocked (Inv_OrgID iv) h now (spendInvite i iv now s)"
    by (simp add: AcceptInvite_def)
  have "acceptInviteLocked i h' email' now' f' s' = (Inl ErrInviteInvalid, s')" for h' email' now' f'
    unfolding s' by (rule accepted_again) (simp add: spent_invite, simp)
  with known s' show ?thesis
    by (intro exI [of _ iv])
      (simp add: AcceptInvite_def invite_admits_def spent_role active_membership_role spent_invite)
next
  case (joined iv k)
  with assms have s': "s' = appendAuditLocked (Inv_OrgID iv) h ''invite'' ''accept'' i fmempty now
      (transferHumanOwnedAgentsToOrgLocked (Inv_OrgID iv) h now (spendInvite i iv now (joinOrg k s)))"
    by (simp add: AcceptInvite_def)
  have "acceptInviteLocked i h' email' now' f' s' = (Inl ErrInviteInvalid, s')" for h' email' now' f'
    unfolding s' by (rule accepted_again) (simp add: spent_invite, simp)
  with joined s' joined_role [of k s] show ?thesis
    by (intro exI [of _ iv])
      (simp add: AcceptInvite_def invite_admits_def spent_role spent_invite)
qed (use assms in \<open>simp_all add: AcceptInvite_def\<close>)

definition invited_store :: memory_store where
  "invited_store = NewMemoryStore\<lparr>
     humans := fmupd ''h2'' (zero_human\<lparr>Human_HumanID := ''h2''\<rparr>) fmempty,
     invites := fmupd ''i1'' \<lparr>Inv_InviteID = ''i1'', Inv_OrgID = ''o1'', Inv_Email = ''bob@x.org'',
       Inv_Role = RoleMember, Inv_Status = StatusPending, Inv_CreatedBy = ''h1'', Inv_CreatedAt = 0,
       Inv_ExpiresAt = 100, Inv_AcceptedAt = None, Inv_RevokedAt = None, Inv_InviteSecret = ''sec''\<rparr>
       fmempty,
     inviteBySecretHash := fmupd ''sec'' ''i1'' fmempty\<rparr>"

theorem acceptInvite_once_witness:
  "\<exists>m s'. AcceptInvite ''i1'' ''h2'' ''Bob@x.org'' 50 (Inr ''m1'') invited_store = (Inr m, s') \<and>
     membershipRoleLocked s' ''o1'' ''h2'' = RoleMember \<and>
     AcceptInvite ''i1'' ''h3'' ''bob@x.org'' 60 (Inr ''m2'') s' = (Inl ErrInviteInvalid, s')"
proof -
  have fold: "EqualFold ''bob@x.org'' ''Bob@x.org''" by code_simp
  obtain m s' where run: "AcceptInvite ''i1'' ''h2'' ''Bob@x.org'' 50 (Inr ''m1'') invited_store = (Inr m, s')"
    by (simp add: AcceptInvite_def acceptInviteLocked_def invited_store_def fold
        NewMemoryStore_def active_membership_def Let_def)
  from acceptInvite_once [OF this]
  have "membershipRoleLocked s' ''o1'' ''h2'' = RoleMember"
    "AcceptInvite ''i1'' ''h3'' ''bob@x.org'' 60 (Inr ''m2'') s' = (Inl ErrInviteInvalid, s')"
    by (auto simp: invited_store_def NewMemoryStore_def active_membership_def)
  with run show ?thesis by blast
qed

section \<open>What revoking a membership takes\<close>

lemma revokeMembership_ok:
  assumes "RevokeMembership org h actor super now s = (Inr m, s')"
  obtains mid t where "fmlookup (membershipByOrgUser s) (orgHumanKey org h) = Some mid"
    "fmlookup (memberships s) mid = Some t" "Mem_Status t = StatusActive"
    "m = t\<lparr>Mem_Status := StatusRevoked\<rparr>" "Mem_Role t \<noteq> RoleOwner"
    "super \<or> hasRoleAtLeast (membershipRoleLocked s org actor) RoleAdmin \<and>
       \<not> (membershipRoleLocked s org actor = RoleAdmin \<and> Mem_Role t = RoleAdmin)"
    "s' = appendAuditLocked org actor ''membership'' ''revoke'' h
       (gmap_of [(''role'', GStr (Mem_Role t))]) now (s\<lparr>memberships := fmupd mid m (memberships s)\<rparr>)"
proof -
  have "fmlookup (orgs s) org \<noteq> None"
    using assms by (cases "fmlookup (orgs s) org") (simp_all add: RevokeMembership_def)
  moreover obtain mid where mid: "fmlookup (membershipByOrgUser s) (orgHumanKey org h) = Some mid"
    using assms calculation
    by (cases "fmlookup (membershipByOrgUser s) (orgHumanKey org h)") (auto simp: RevokeMembership_def)
  moreover obtain t where t: "fmlookup (memberships s) mid = Some t"
    using assms calculation
    by (cases "fmlookup (memberships s) mid") (auto simp: RevokeMembership_def)
  ultimately show ?thesis
    using assms by (intro that [of mid t])
      (auto simp: RevokeMembership_def Let_def split: if_split_asm)
qed

text \<open>
  C21: only a super admin, or somebody who outranks the member and is at least an admin, revokes a
  membership: an owner never loses theirs, an admin loses it to an owner or a super admin, and nobody
  but a super admin revokes in an organisation they have no role in.
\<close>

theorem revokeMembership_rank:
  assumes "RevokeMembership org h actor super now s = (Inr m, s')"
  shows "membershipRoleLocked s org h = Mem_Role m \<and> Mem_Role m \<noteq> RoleOwner \<and>
    membershipRoleLocked s' org h = [] \<and>
    (super \<or> roleRank (membershipRoleLocked s org actor) \<ge> 3 \<and>
      roleRank (membershipRoleLocked s org actor) > roleRank (Mem_Role m))"
proof (rule revokeMembership_ok [OF assms])
  fix mid t
  assume key: "fmlookup (membershipByOrgUser s) (orgHumanKey org h) = Some mid"
    "fmlookup (memberships s) mid = Some t" "Mem_Status t = StatusActive"
    and m: "m = t\<lparr>Mem_Status := StatusRevoked\<rparr>" and owner: "Mem_Role t \<noteq> RoleOwner"
    and rank: "super \<or> hasRoleAtLeast (membershipRoleLocked s org actor) RoleAdmin \<and>
       \<not> (membershipRoleLocked s org actor = RoleAdmin \<and> Mem_Role t = RoleAdmin)"
    and s': "s' = appendAuditLocked org actor ''membership'' ''revoke'' h
       (gmap_of [(''role'', GStr (Mem_Role t))]) now (s\<lparr>memberships := fmupd mid m (memberships s)\<rparr>)"
  have "membershipRoleLocked s org h = Mem_Role m" "membershipRoleLocked s' org h = []"
    using key m by (simp_all add: membershipRoleLocked_def s')
  moreover have "super \<or> roleRank (membershipRoleLocked s org actor) \<ge> 3 \<and>
      roleRank (membershipRoleLocked s org actor) > roleRank (Mem_Role t)"
    using rank owner by (auto simp: hasRoleAtLeast_def roleRank_def split: if_splits)
  ultimately show ?thesis using m owner by simp
qed

definition staffed :: memory_store where
  "staffed = NewMemoryStore\<lparr>
     orgs := fmupd ''o1'' \<lparr>Org_OrgID = ''o1'', Org_Handle = ''acme'', Org_DisplayName = ''Acme'',
       Org_Metadata = fmempty, Org_CreatedAt = 0, Org_CreatedBy = ''h1''\<rparr> fmempty,
     memberships := fmupd ''m2'' \<lparr>Mem_MembershipID = ''m2'', Mem_OrgID = ''o1'', Mem_HumanID = ''h2'',
         Mem_Role = RoleAdmin, Mem_Status = StatusActive, Mem_CreatedAt = 0\<rparr>
       (fmupd ''m1'' \<lparr>Mem_MembershipID = ''m1'', Mem_OrgID = ''o1'', Mem_HumanID = ''h1'',
         Mem_Role = RoleOwner, Mem_Status = StatusActive, Mem_CreatedAt = 0\<rparr> fmempty),
     membershipByOrgUser := fmupd (orgHumanKey ''o1'' ''h2'') ''m2''
       (fmupd (orgHumanKey ''o1'' ''h1'') ''m1'' fmempty)\<rparr>"

theorem revokeMembership_rank_witness:
  "\<exists>m s'. RevokeMembership ''o1'' ''h2'' ''h1'' False 5 staffed = (Inr m, s') \<and>
     Mem_Role m = RoleAdmin \<and> membershipRoleLocked s' ''o1'' ''h2'' = []"
proof -
  have key: "orgHumanKey ''o1'' ''h1'' \<noteq> orgHumanKey ''o1'' ''h2''" by (simp add: orgHumanKey_def)
  then have roles: "membershipRoleLocked staffed ''o1'' ''h1'' = RoleOwner"
    "membershipRoleLocked staffed ''o1'' ''h2'' = RoleAdmin"
    by (auto simp: membershipRoleLocked_def staffed_def)
  obtain m s' where run: "RevokeMembership ''o1'' ''h2'' ''h1'' False 5 staffed = (Inr m, s')"
    using roles key
    by (auto simp: RevokeMembership_def staffed_def hasRoleAtLeast_def roleRank_def Let_def)
  with revokeMembership_rank [OF run] roles show ?thesis by auto
qed

end
