(* ===== verification/PersonalOrgs.thy ===== *)
theory PersonalOrgs
  imports OrgAccess
begin

text \<open>
  The personal organisation of \<^verbatim>\<open>ensurePersonalOrgLocked\<close>: when the search for its handle
  returns, what the call then leaves in the store, and when it never returns.
\<close>

section \<open>Handles with a counter\<close>

lemma trim_by_Cons:
  assumes "\<not> p c"
  shows "\<exists>ys. trim_by p (c # xs) = c # ys"
proof -
  have "trim_by p (c # xs) = rev (dropWhile p (rev xs @ [c]))"
    using assms by (simp add: trim_by_def)
  then show ?thesis using assms
    by (cases "\<forall>x \<in> set xs. p x") (auto simp: dropWhile_append)
qed

lemma prefix_normalize_loop: "prefix b (normalize_loop rs prevSep b)"
proof (induction rs prevSep b rule: normalize_loop.induct)
  case (2 r rs prevSep b)
  then show ?case
    by (auto dest: append_prefixD)
qed simp

lemma Normalize_ne:
  assumes c: "is_alnum c"
  shows "Normalize (c # cs) \<noteq> []"
proof -
  have low: "lower_char c = c" and sp: "\<not> is_space c" and sep: "\<not> is_sep c"
    using c alnum_sep_not_space not_alnum_and_sep by auto
  obtain ys where inp: "TrimSpace (ToLower (c # cs)) = c # ys"
    using trim_by_Cons [where p = is_space and c = c] sp low by (auto simp: TrimSpace_def ToLower_def)
  have "prefix [c] (normalize_loop (c # ys) False [])"
    using prefix_normalize_loop [of "[c]" ys False] c by simp
  then obtain zs where "normalize_loop (c # ys) False [] = c # zs"
    by (auto simp: prefix_def)
  with trim_by_Cons [where p = is_sep and c = c] sep obtain ws where
    out: "trim_by is_sep (normalize_loop (c # ys) False []) = c # ws" by metis
  then show ?thesis
    using trim_by_Cons [where p = is_sep and c = c and xs = "take 63 ws"] sep by (auto simp: Normalize_def inp Let_def)
qed

lemma canonical_suffix_body:
  assumes h: "canonical_handle h" "h \<noteq> []" and d: "d \<noteq> []" "\<forall>c \<in> set d. is_digit c"
  shows "handle_body (h @ CHR ''-'' # d)" "is_alnum (last (h @ CHR ''-'' # d))"
proof -
  have alnum: "is_alnum c" if "c \<in> set d" for c using d(2) that by (simp add: is_alnum_def)
  then have sep: "\<not> is_sep c" if "c \<in> set d" for c using that not_alnum_and_sep by blast
  have "successively (\<lambda>x y. \<not> (is_sep x \<and> is_sep y)) d"
    using sep by (induction d) (auto simp: successively_Cons)
  moreover have "\<not> is_sep (last h)"
    using h not_alnum_and_sep by (auto simp: canonical_handle_def)
  ultimately show "handle_body (h @ CHR ''-'' # d)"
    using h d alnum sep
    by (auto simp: canonical_handle_def handle_body_def successively_append_iff successively_Cons
        list_all_iff hd_append)
  show "is_alnum (last (h @ CHR ''-'' # d))" using d alnum by simp
qed

lemma Normalize_suffix:
  assumes h: "canonical_handle h" "h \<noteq> []" and d: "d \<noteq> []" "\<forall>c \<in> set d. is_digit c"
    and len: "length h + 1 + length d \<le> MaxLength"
  shows "Normalize (h @ CHR ''-'' # d) = h @ CHR ''-'' # d"
  using canonical_suffix_body [OF h d] len
  by (intro Normalize_canonical_id) (simp add: canonical_handle_def)

text \<open>A base of 63 or 64 characters leaves no room: the counter is cut off again.\<close>

lemma Normalize_suffix_cut:
  assumes h: "canonical_handle h" and len: "63 \<le> length h"
    and d: "d \<noteq> []" "\<forall>c \<in> set d. is_digit c"
  shows "Normalize (h @ CHR ''-'' # d) = h"
proof -
  let ?r = "h @ CHR ''-'' # d"
  have ne: "h \<noteq> []" using len by auto
  note body = canonical_suffix_body [OF h ne d]
  have chars: "list_all (\<lambda>c. is_alnum c \<or> is_sep c) ?r" using body(1) by (simp add: handle_body_def)
  have "trim_by is_sep ?r = ?r"
    using body ne h by (intro trim_by_id)
      (auto simp: canonical_handle_def handle_body_def hd_append dest!: not_alnum_and_sep)
  moreover have "normalize_loop ?r False [] = ?r"
    using body(1) by (simp add: normalize_loop_id)
  moreover have "64 < length ?r" using len d(1) by (cases d) auto
  ultimately have "Normalize ?r = trim_by is_sep (take 64 ?r)"
    unfolding Normalize_def canonical_lower [OF chars] canonical_trim [OF chars] Let_def
    by (subst if_not_P) simp_all
  moreover have "length h = 63 \<or> length h = 64" using h len by (auto simp: canonical_handle_def)
  moreover have "trim_by is_sep h = h" "trim_by is_sep (h @ ''-'') = h"
  proof -
    have last: "\<not> is_sep (last h)" using h ne not_alnum_and_sep by (auto simp: canonical_handle_def)
    have first: "\<not> is_sep (hd h)"
      using h ne not_alnum_and_sep by (auto simp: canonical_handle_def handle_body_def)
    show same: "trim_by is_sep h = h" using last first by (intro trim_by_id) auto
    have "dropWhile is_sep (h @ ''-'') = h @ ''-''" "dropWhile is_sep h = h"
      using first ne by (cases h; simp)+
    with same show "trim_by is_sep (h @ ''-'') = h" by (simp add: trim_by_def)
  qed
  ultimately show ?thesis by auto
qed

lemma personal_base_canonical:
  "canonical_handle (personal_base_handle hh hid)" "personal_base_handle hh hid \<noteq> []"
  "normalizeOrgHandleKey (personal_base_handle hh hid) = personal_base_handle hh hid"
proof -
  have "\<exists>cs. personal_base_handle hh hid = Normalize (CHR ''p'' # cs)"
    by (auto simp: personal_base_handle_def normalizeOrgHandleKey_def
        normalizeHumanHandleCandidate_def Let_def)
  then obtain cs where b: "personal_base_handle hh hid = Normalize (CHR ''p'' # cs)" by blast
  have "is_alnum (CHR ''p'')" by (simp add: is_alnum_def is_lower_def less_eq_char_def)
  with b show "canonical_handle (personal_base_handle hh hid)" "personal_base_handle hh hid \<noteq> []"
    "normalizeOrgHandleKey (personal_base_handle hh hid) = personal_base_handle hh hid"
    using Normalize_ne Normalize_canonical
    by (simp_all add: normalizeOrgHandleKey_def normalizeHumanHandleCandidate_def)
qed

section \<open>When the search returns\<close>

lemma personal_loop_terminates:
  assumes "i \<le> n" and "org_handle_free idx (normalizeOrgHandleKey (base @ ''-'' @ show_nat n))"
  shows "\<exists>r. personal_handle_loop idx base (base @ ''-'' @ show_nat i) (i + 1) = Some r"
  using assms(1)
proof (induction "n - i" arbitrary: i)
  case 0
  then have "i = n" by simp
  with assms(2) show ?case by (subst personal_handle_loop.simps) simp
next
  case (Suc d)
  then have "d = n - (i + 1)" and "i + 1 \<le> n" by simp_all
  from Suc.hyps(1) [OF this] show ?case by (subst personal_handle_loop.simps) simp
qed

lemma personal_loop_returns:
  assumes base: "canonical_handle base" "base \<noteq> []"
    and len: "length base + 1 + k \<le> MaxLength" and room: "fmsize idx + 3 \<le> 10 ^ k"
  shows "\<exists>r. personal_handle_loop idx base base 2 = Some r"
proof -
  let ?f = "\<lambda>n. base @ ''-'' @ show_nat n"
  have kpos: "0 < k" using room by (cases k) auto
  have key: "normalizeOrgHandleKey (?f n) = ?f n" if "n < fmsize idx + 3" for n
  proof -
    have "length (show_nat n) \<le> k" using that room kpos by (intro length_show_nat) auto
    then show ?thesis
      using Normalize_suffix [OF base, of "show_nat n"] show_nat_digits [of n] len
      by (simp add: normalizeOrgHandleKey_def normalizeHumanHandleCandidate_def)
  qed
  have "inj_on ?f {2..<2 + fmsize idx + 1}" by (rule inj_onI) simp
  from fresh_key_exists [OF this] obtain n where "2 \<le> n" "n < 2 + fmsize idx + 1"
    "fmlookup idx (?f n) = None" by blast
  with key [of n] have "org_handle_free idx (normalizeOrgHandleKey (?f n))"
    unfolding org_handle_free_def using \<open>n < 2 + fmsize idx + 1\<close> by (metis add_Suc_right numeral_2_eq_2 numeral_3_eq_3 add.commute add_Suc plus_1_eq_Suc)
  with \<open>2 \<le> n\<close> have "\<exists>r. personal_handle_loop idx base (?f 2) (2 + 1) = Some r"
    by (intro personal_loop_terminates) simp_all
  then show ?thesis
    by (subst personal_handle_loop.simps) (auto simp: numeral_3_eq_3 numeral_2_eq_2)
qed

lemma ensureOrgStats_personal [simp]:
  "humans (snd (ensureOrgStatsLocked i s)) = humans s"
  "personalOrgByHuman (snd (ensureOrgStatsLocked i s)) = personalOrgByHuman s"
  by (simp_all add: ensureOrgStatsLocked_def Let_def split: option.split)

lemma ensurePersonalOrg_found:
  "fmlookup (humans s) h = Some hu \<Longrightarrow> personal_org_of s h = Some org \<Longrightarrow>
    EnsurePersonalOrg h now f s = Some (Inr org, s)"
  by (simp add: EnsurePersonalOrg_def ensurePersonalOrgLocked_def)

lemma ensurePersonalOrg_new:
  assumes h: "fmlookup (humans s) h = Some hu" "personal_org_of s h = None"
    and loop: "personal_handle_loop (orgByHandle s) (personal_base_handle (Human_Handle hu) h)
      (personal_base_handle (Human_Handle hu) h) 2 = Some r"
  shows "\<exists>org s'. EnsurePersonalOrg h now (Inr i) s = Some (Inr org, s') \<and> Org_OrgID org = i \<and>
    Org_Handle org = r \<and> fmlookup (humans s') h = Some hu \<and> personal_org_of s' h = Some org \<and>
    membershipRoleLocked s' i h = RoleOwner"
proof -
  let ?org = "\<lparr>Org_OrgID = i, Org_Handle = r, Org_DisplayName = ''Personal '' @ Human_Handle hu,
    Org_Metadata = fmempty, Org_CreatedAt = now, Org_CreatedBy = h\<rparr>"
  let ?s = "appendAuditLocked i h ''org'' ''create'' i
    (gmap_of [(''mode'', GStr ''auto_personal'')]) now (snd (ensureOrgStatsLocked i
      ((installOrg ?org (normalizeOrgHandleKey r) h now s)
        \<lparr>personalOrgByHuman := fmupd h i (personalOrgByHuman s)\<rparr>)))"
  have "EnsurePersonalOrg h now (Inr i) s = Some (Inr ?org, ?s)"
    using h loop by (simp add: EnsurePersonalOrg_def ensurePersonalOrgLocked_def Let_def installOrg_def)
  moreover have "fmlookup (humans ?s) h = Some hu" "personal_org_of ?s h = Some ?org"
    "membershipRoleLocked ?s i h = RoleOwner"
    using h(1) by (simp_all add: personal_org_of_def installOrg_def membershipRoleLocked_def
        owner_membership_def)
  ultimately show ?thesis by (intro exI [of _ ?org] exI [of _ ?s]) simp
qed

text \<open>
  C30: every human has a personal organisation after \<^verbatim>\<open>EnsurePersonalOrg\<close>, and the same one at
  every later call: the search for its handle ends, as long as the handle it starts from leaves
  room for a dash and a \<open>k\<close>-digit counter and fewer than \<open>10 ^ k - 2\<close> handles are taken; a
  new organisation gets a handle nobody has, and the human is its owner.
\<close>

theorem ensurePersonalOrg_returns:
  assumes h: "fmlookup (humans s) h = Some hu"
    and len: "length (personal_base_handle (Human_Handle hu) h) + 1 + k \<le> MaxLength"
    and room: "fmsize (orgByHandle s) + 3 \<le> 10 ^ k"
  shows "\<exists>org s'. EnsurePersonalOrg h now (Inr i) s = Some (Inr org, s') \<and>
    personal_org_of s' h = Some org \<and>
    (\<forall>now' f. EnsurePersonalOrg h now' f s' = Some (Inr org, s')) \<and>
    (personal_org_of s h = None \<longrightarrow> Org_OrgID org = i \<and> membershipRoleLocked s' i h = RoleOwner \<and>
      org_handle_free (orgByHandle s) (normalizeOrgHandleKey (Org_Handle org)))"
proof (cases "personal_org_of s h")
  case (Some org)
  with h show ?thesis by (auto intro!: exI [of _ s] simp: ensurePersonalOrg_found)
next
  case None
  let ?base = "personal_base_handle (Human_Handle hu) h"
  obtain r where loop: "personal_handle_loop (orgByHandle s) ?base ?base 2 = Some r"
    using personal_loop_returns [OF personal_base_canonical(1,2) len room] by blast
  from ensurePersonalOrg_new [OF h None loop] obtain org s' where
    run: "EnsurePersonalOrg h now (Inr i) s = Some (Inr org, s')" "Org_OrgID org = i"
      "Org_Handle org = r" "fmlookup (humans s') h = Some hu" "personal_org_of s' h = Some org"
      "membershipRoleLocked s' i h = RoleOwner" by blast
  with personal_loop_free [OF loop] ensurePersonalOrg_found [OF run(4,5)] show ?thesis by blast
qed

definition two_humans :: memory_store where
  "two_humans = NewMemoryStore\<lparr>
     humans := fmupd ''h1'' (zero_human\<lparr>Human_HumanID := ''h1'', Human_Handle := ''ann''\<rparr>) fmempty,
     orgByHandle := fmupd ''personal-ann'' ''o1'' fmempty\<rparr>"

theorem ensurePersonalOrg_returns_witness:
  "\<exists>org s'. EnsurePersonalOrg ''h1'' 5 (Inr ''o2'') two_humans = Some (Inr org, s') \<and>
     personal_org_of s' ''h1'' = Some org \<and> membershipRoleLocked s' ''o2'' ''h1'' = RoleOwner"
proof -
  have base: "personal_base_handle ''ann'' ''h1'' = ''personal-ann''" by code_simp
  have size: "fmsize (orgByHandle two_humans) = 1" by (simp add: two_humans_def fmsize_upd_new)
  have h: "fmlookup (humans two_humans) ''h1'' =
      Some (zero_human\<lparr>Human_HumanID := ''h1'', Human_Handle := ''ann''\<rparr>)"
    by (simp add: two_humans_def)
  have "personal_org_of two_humans ''h1'' = None"
    by (simp add: two_humans_def NewMemoryStore_def personal_org_of_def)
  with ensurePersonalOrg_returns [OF h, of 1 5 "''o2''"] show ?thesis
    by (auto simp: base size)
qed

section \<open>When it never returns\<close>

lemma personal_loop_stuck:
  assumes base: "canonical_handle base" "63 \<le> length base"
    and taken: "\<not> org_handle_free idx base" and handle: "normalizeOrgHandleKey handle = base"
  shows "personal_handle_loop idx base handle i = None"
proof (rule ccontr)
  assume "personal_handle_loop idx base handle i \<noteq> None"
  then obtain r where run: "personal_handle_loop idx base handle i = Some r" by blast
  have "base = base \<longrightarrow> \<not> org_handle_free idx base \<longrightarrow> normalizeOrgHandleKey handle = base \<longrightarrow> False"
  proof (rule personal_handle_loop.raw_induct [where P = "\<lambda>idx b handle i r. b = base \<longrightarrow>
      \<not> org_handle_free idx base \<longrightarrow> normalizeOrgHandleKey handle = base \<longrightarrow> False", OF _ run], goal_cases)
    case (1 rec idx b handle i r)
    have key: "normalizeOrgHandleKey (base @ ''-'' @ show_nat i) = base"
      using Normalize_suffix_cut [OF base, of "show_nat i"] show_nat_digits [of i]
      by (simp add: normalizeOrgHandleKey_def normalizeHumanHandleCandidate_def)
    show ?case
    proof (intro impI)
      assume c: "b = base" "\<not> org_handle_free idx base" "normalizeOrgHandleKey handle = base"
      with 1(2) have "rec idx base (base @ ''-'' @ show_nat i) (i + 1) = Some r" by simp
      from 1(1) [OF this] c(2) key show False by blast
    qed
  qed
  with taken handle show False by blast
qed

text \<open>
  C31: a handle of 63 or 64 characters leaves no room for the counter: every candidate
  normalises back to the handle the search started from, so when that one is taken, the call
  never returns (it holds the store's lock while it searches).
\<close>

theorem ensurePersonalOrg_diverges:
  assumes h: "fmlookup (humans s) h = Some hu" "personal_org_of s h = None"
    and long: "63 \<le> length (personal_base_handle (Human_Handle hu) h)"
    and taken: "fmlookup (orgByHandle s) (personal_base_handle (Human_Handle hu) h) = Some i" "i \<noteq> []"
  shows "EnsurePersonalOrg h now f s = None"
proof -
  let ?base = "personal_base_handle (Human_Handle hu) h"
  have "personal_handle_loop (orgByHandle s) ?base ?base 2 = None"
    using taken long by (intro personal_loop_stuck)
      (simp_all add: personal_base_canonical org_handle_free_def)
  with h show ?thesis by (simp add: EnsurePersonalOrg_def ensurePersonalOrgLocked_def Let_def)
qed

definition long_handle :: string where
  "long_handle = replicate 60 (CHR ''a'')"

definition crowded :: memory_store where
  "crowded = NewMemoryStore\<lparr>
     humans := fmupd ''h2'' (zero_human\<lparr>Human_HumanID := ''h2'', Human_Handle := long_handle\<rparr>) fmempty,
     orgByHandle := fmupd (''personal-'' @ replicate 55 (CHR ''a'')) ''o1'' fmempty\<rparr>"

theorem ensurePersonalOrg_diverges_witness:
  "EnsurePersonalOrg ''h2'' 5 (Inr ''o2'') crowded = None"
proof -
  have base: "personal_base_handle long_handle ''h2'' = ''personal-'' @ replicate 55 (CHR ''a'')"
    by code_simp
  have h: "fmlookup (humans crowded) ''h2'' =
      Some (zero_human\<lparr>Human_HumanID := ''h2'', Human_Handle := long_handle\<rparr>)"
    by (simp add: crowded_def)
  show ?thesis
    by (rule ensurePersonalOrg_diverges [OF h, where i = "''o1''"])
      (simp_all add: crowded_def base NewMemoryStore_def personal_org_of_def)
qed

end
