(* ===== verification/Federation.thy ===== *)
theory Federation
  imports GoSort Orgs
begin

text \<open>
  Federation between hubs in \<^verbatim>\<open>internal/store/memory.go\<close>: peer instances, trusts in remote
  organisations and agents, and the outbox of messages for each peer.
\<close>

section \<open>The code: peers\<close>

definition CreatePeerInstance ::
  "string \<Rightarrow> string \<Rightarrow> string \<Rightarrow> string \<Rightarrow> string \<Rightarrow> time \<Rightarrow> memory_store \<Rightarrow>
    (store_error + peer_instance) \<times> memory_store" where
  "CreatePeerInstance canonicalBaseURL deliveryBaseURL sharedSecret actorHumanID peerID now s =
     (if TrimSpace canonicalBaseURL = [] \<or> TrimSpace deliveryBaseURL = [] \<or> TrimSpace sharedSecret = []
      then (Inl ErrInvalidToken, s)
      else if fmlookup (peerInstances s) (TrimSpace peerID) \<noteq> None then (Inl ErrPeerInstanceExists, s)
      else
        let baseKey = normalizeBaseURL canonicalBaseURL;
            clash = (case fmlookup (peerByCanonicalBase s) baseKey of
                None \<Rightarrow> False
              | Some existingID \<Rightarrow>
                  (case fmlookup (peerInstances s) existingID of
                     None \<Rightarrow> False
                   | Some existing \<Rightarrow> Peer_Status existing = StatusActive))
        in if clash then (Inl ErrPeerInstanceExists, s)
        else
          let peer = \<lparr>Peer_PeerID = peerID, Peer_CanonicalBaseURL = baseKey,
                Peer_DeliveryBaseURL = normalizeBaseURL deliveryBaseURL,
                Peer_SharedSecret = TrimSpace sharedSecret, Peer_Status = StatusActive,
                Peer_CreatedBy = actorHumanID, Peer_CreatedAt = now, Peer_UpdatedAt = now,
                Peer_LastSuccessfulAt = None, Peer_LastFailureAt = None, Peer_LastFailureReason = []\<rparr>
          in (Inr peer, s\<lparr>peerInstances := fmupd peerID peer (peerInstances s),
                peerByCanonicalBase := fmupd baseKey peerID (peerByCanonicalBase s)\<rparr>))"

definition ListPeerInstances :: "memory_store \<Rightarrow> peer_instance list" where
  "ListPeerInstances s =
     sort_by (lex_less Peer_CanonicalBaseURL Peer_PeerID) (sorted_values (peerInstances s))"

definition GetPeerInstance :: "string \<Rightarrow> memory_store \<Rightarrow> store_error + peer_instance" where
  "GetPeerInstance peerID s =
     (case fmlookup (peerInstances s) (TrimSpace peerID) of
        None \<Rightarrow> Inl ErrPeerInstanceNotFound
      | Some peer \<Rightarrow> Inr peer)"

definition ResolvePeerByCanonicalBase :: "string \<Rightarrow> memory_store \<Rightarrow> store_error + peer_instance" where
  "ResolvePeerByCanonicalBase canonicalBaseURL s =
     (case fmlookup (peerByCanonicalBase s) (normalizeBaseURL canonicalBaseURL) of
        None \<Rightarrow> Inl ErrPeerInstanceNotFound
      | Some peerID \<Rightarrow>
          (case fmlookup (peerInstances s) peerID of
             None \<Rightarrow> Inl ErrPeerInstanceNotFound
           | Some peer \<Rightarrow> Inr peer))"

definition key_of_rot :: "remote_org_trust \<Rightarrow> string" where
  "key_of_rot t = remoteOrgTrustKey (ROT_LocalOrgID t) (ROT_PeerID t) (ROT_RemoteOrgHandle t)"

definition key_of_rat :: "remote_agent_trust \<Rightarrow> string" where
  "key_of_rat t = remoteAgentTrustKey (RAT_LocalAgentUUID t) (RAT_PeerID t) (RAT_RemoteAgentURI t)"

definition DeletePeerInstance ::
  "string \<Rightarrow> time \<Rightarrow> memory_store \<Rightarrow> (store_error + peer_instance) \<times> memory_store" where
  "DeletePeerInstance peerID now s =
     (case fmlookup (peerInstances s) (TrimSpace peerID) of
        None \<Rightarrow> (Inl ErrPeerInstanceNotFound, s)
      | Some peer \<Rightarrow>
          let p = Peer_PeerID peer;
              s = s\<lparr>peerInstances := fmdrop p (peerInstances s),
                peerByCanonicalBase := fmdrop (Peer_CanonicalBaseURL peer) (peerByCanonicalBase s),
                peerOutboundByPeer := fmdrop p (peerOutboundByPeer s),
                peerOutbounds := fmdelete_if (\<lambda>_ x. Out_PeerID x = p) (peerOutbounds s)\<rparr>;
              s = s\<lparr>remoteOrgTrustByKey := fmdrop_fset
                  (keys_of key_of_rot (\<lambda>_ t. ROT_PeerID t = p) (remoteOrgTrusts s)) (remoteOrgTrustByKey s),
                remoteOrgTrusts := fmdelete_if (\<lambda>_ t. ROT_PeerID t = p) (remoteOrgTrusts s)\<rparr>;
              s = s\<lparr>remoteAgentTrustByKey := fmdrop_fset
                  (keys_of key_of_rat (\<lambda>_ t. RAT_PeerID t = p) (remoteAgentTrusts s)) (remoteAgentTrustByKey s),
                remoteAgentTrusts := fmdelete_if (\<lambda>_ t. RAT_PeerID t = p) (remoteAgentTrusts s)\<rparr>
          in (Inr (peer\<lparr>Peer_Status := StatusRevoked, Peer_UpdatedAt := now\<rparr>), s))"

definition RecordPeerDeliverySuccess :: "string \<Rightarrow> time \<Rightarrow> memory_store \<Rightarrow> memory_store" where
  "RecordPeerDeliverySuccess peerID now s =
     (case fmlookup (peerInstances s) (TrimSpace peerID) of
        None \<Rightarrow> s
      | Some peer \<Rightarrow>
          s\<lparr>peerInstances := fmupd (Peer_PeerID peer)
            (peer\<lparr>Peer_LastSuccessfulAt := Some now, Peer_LastFailureAt := None,
              Peer_LastFailureReason := [], Peer_UpdatedAt := now\<rparr>) (peerInstances s)\<rparr>)"

definition RecordPeerDeliveryFailure :: "string \<Rightarrow> string \<Rightarrow> time \<Rightarrow> memory_store \<Rightarrow> memory_store" where
  "RecordPeerDeliveryFailure peerID reason now s =
     (case fmlookup (peerInstances s) (TrimSpace peerID) of
        None \<Rightarrow> s
      | Some peer \<Rightarrow>
          s\<lparr>peerInstances := fmupd (Peer_PeerID peer)
            (peer\<lparr>Peer_LastFailureAt := Some now, Peer_LastFailureReason := TrimSpace reason,
              Peer_UpdatedAt := now\<rparr>) (peerInstances s)\<rparr>)"

section \<open>The code: trusts in remote organisations and agents\<close>

text \<open>An index that names a missing record reads the zero record, as the source does.\<close>

definition zero_rot :: remote_org_trust where
  "zero_rot = \<lparr>ROT_TrustID = [], ROT_LocalOrgID = [], ROT_PeerID = [], ROT_RemoteOrgHandle = [],
     ROT_Status = [], ROT_CreatedBy = [], ROT_CreatedAt = zeroTime, ROT_UpdatedAt = zeroTime\<rparr>"

definition CreateRemoteOrgTrust ::
  "string \<Rightarrow> string \<Rightarrow> string \<Rightarrow> string \<Rightarrow> string \<Rightarrow> time \<Rightarrow> memory_store \<Rightarrow>
    (store_error + remote_org_trust) \<times> memory_store" where
  "CreateRemoteOrgTrust localOrgID peerID remoteOrgHandle actorHumanID trustID now s =
     (if fmlookup (orgs s) localOrgID = None then (Inl ErrOrgNotFound, s)
      else if fmlookup (peerInstances s) peerID = None then (Inl ErrPeerInstanceNotFound, s)
      else
        let key = remoteOrgTrustKey localOrgID peerID remoteOrgHandle in
        case fmlookup (remoteOrgTrustByKey s) key of
          Some existingID \<Rightarrow>
            let existing = (case fmlookup (remoteOrgTrusts s) existingID of
                  None \<Rightarrow> zero_rot | Some t \<Rightarrow> t);
                existing = existing\<lparr>ROT_Status := StatusActive, ROT_UpdatedAt := now\<rparr>
            in (Inr existing, s\<lparr>remoteOrgTrusts := fmupd existingID existing (remoteOrgTrusts s)\<rparr>)
        | None \<Rightarrow>
            let trust = \<lparr>ROT_TrustID = trustID, ROT_LocalOrgID = localOrgID, ROT_PeerID = peerID,
                  ROT_RemoteOrgHandle = Normalize remoteOrgHandle, ROT_Status = StatusActive,
                  ROT_CreatedBy = actorHumanID, ROT_CreatedAt = now, ROT_UpdatedAt = now\<rparr>
            in (Inr trust, s\<lparr>remoteOrgTrusts := fmupd trustID trust (remoteOrgTrusts s),
                 remoteOrgTrustByKey := fmupd key trustID (remoteOrgTrustByKey s)\<rparr>))"

definition ListRemoteOrgTrusts :: "memory_store \<Rightarrow> remote_org_trust list" where
  "ListRemoteOrgTrusts s =
     sort_by (lex_less ROT_LocalOrgID ROT_RemoteOrgHandle) (sorted_values (remoteOrgTrusts s))"

definition DeleteRemoteOrgTrust ::
  "string \<Rightarrow> time \<Rightarrow> memory_store \<Rightarrow> (store_error + remote_org_trust) \<times> memory_store" where
  "DeleteRemoteOrgTrust trustID now s =
     (case fmlookup (remoteOrgTrusts s) (TrimSpace trustID) of
        None \<Rightarrow> (Inl ErrRemoteOrgTrustNotFound, s)
      | Some t \<Rightarrow>
          (Inr (t\<lparr>ROT_Status := StatusRevoked, ROT_UpdatedAt := now\<rparr>),
           s\<lparr>remoteOrgTrusts := fmdrop (ROT_TrustID t) (remoteOrgTrusts s),
             remoteOrgTrustByKey := fmdrop (key_of_rot t) (remoteOrgTrustByKey s)\<rparr>))"

definition HasActiveRemoteOrgTrust :: "string \<Rightarrow> string \<Rightarrow> string \<Rightarrow> memory_store \<Rightarrow> bool" where
  "HasActiveRemoteOrgTrust localOrgID peerID remoteOrgHandle s =
     (case fmlookup (remoteOrgTrustByKey s) (remoteOrgTrustKey localOrgID peerID remoteOrgHandle) of
        None \<Rightarrow> False
      | Some trustID \<Rightarrow>
          (case fmlookup (remoteOrgTrusts s) trustID of
             None \<Rightarrow> False
           | Some t \<Rightarrow> ROT_Status t = StatusActive))"

definition zero_rat :: remote_agent_trust where
  "zero_rat = \<lparr>RAT_TrustID = [], RAT_LocalAgentUUID = [], RAT_PeerID = [], RAT_RemoteAgentURI = [],
     RAT_Status = [], RAT_CreatedBy = [], RAT_CreatedAt = zeroTime, RAT_UpdatedAt = zeroTime\<rparr>"

definition CreateRemoteAgentTrust ::
  "string \<Rightarrow> string \<Rightarrow> string \<Rightarrow> string \<Rightarrow> string \<Rightarrow> time \<Rightarrow> memory_store \<Rightarrow>
    (store_error + remote_agent_trust) \<times> memory_store" where
  "CreateRemoteAgentTrust localAgentUUID peerID remoteAgentURI actorHumanID trustID now s =
     (if \<not> live_agent s localAgentUUID then (Inl ErrAgentNotFound, s)
      else if fmlookup (peerInstances s) peerID = None then (Inl ErrPeerInstanceNotFound, s)
      else
        let key = remoteAgentTrustKey localAgentUUID peerID remoteAgentURI in
        case fmlookup (remoteAgentTrustByKey s) key of
          Some existingID \<Rightarrow>
            let existing = (case fmlookup (remoteAgentTrusts s) existingID of
                  None \<Rightarrow> zero_rat | Some t \<Rightarrow> t);
                existing = existing\<lparr>RAT_Status := StatusActive, RAT_UpdatedAt := now\<rparr>
            in (Inr existing, s\<lparr>remoteAgentTrusts := fmupd existingID existing (remoteAgentTrusts s)\<rparr>)
        | None \<Rightarrow>
            let trust = \<lparr>RAT_TrustID = trustID, RAT_LocalAgentUUID = localAgentUUID, RAT_PeerID = peerID,
                  RAT_RemoteAgentURI = TrimSpace remoteAgentURI, RAT_Status = StatusActive,
                  RAT_CreatedBy = actorHumanID, RAT_CreatedAt = now, RAT_UpdatedAt = now\<rparr>
            in (Inr trust, s\<lparr>remoteAgentTrusts := fmupd trustID trust (remoteAgentTrusts s),
                 remoteAgentTrustByKey := fmupd key trustID (remoteAgentTrustByKey s)\<rparr>))"

definition ListRemoteAgentTrusts :: "memory_store \<Rightarrow> remote_agent_trust list" where
  "ListRemoteAgentTrusts s =
     sort_by (lex_less RAT_LocalAgentUUID RAT_RemoteAgentURI) (sorted_values (remoteAgentTrusts s))"

definition ListRemoteAgentTrustsForLocalAgent ::
  "string \<Rightarrow> memory_store \<Rightarrow> store_error + remote_agent_trust list" where
  "ListRemoteAgentTrustsForLocalAgent agentUUID s =
     (if \<not> live_agent s agentUUID then Inl ErrAgentNotFound
      else Inr (sort_by (lex_less RAT_RemoteAgentURI RAT_TrustID)
        (filter (\<lambda>t. \<not> (RAT_LocalAgentUUID t \<noteq> agentUUID \<or> RAT_Status t \<noteq> StatusActive))
          (sorted_values (remoteAgentTrusts s)))))"

definition DeleteRemoteAgentTrust ::
  "string \<Rightarrow> time \<Rightarrow> memory_store \<Rightarrow> (store_error + remote_agent_trust) \<times> memory_store" where
  "DeleteRemoteAgentTrust trustID now s =
     (case fmlookup (remoteAgentTrusts s) (TrimSpace trustID) of
        None \<Rightarrow> (Inl ErrRemoteAgentTrustNotFound, s)
      | Some t \<Rightarrow>
          (Inr (t\<lparr>RAT_Status := StatusRevoked, RAT_UpdatedAt := now\<rparr>),
           s\<lparr>remoteAgentTrusts := fmdrop (RAT_TrustID t) (remoteAgentTrusts s),
             remoteAgentTrustByKey := fmdrop (key_of_rat t) (remoteAgentTrustByKey s)\<rparr>))"

definition HasActiveRemoteAgentTrust :: "string \<Rightarrow> string \<Rightarrow> string \<Rightarrow> memory_store \<Rightarrow> bool" where
  "HasActiveRemoteAgentTrust localAgentUUID peerID remoteAgentURI s =
     (case fmlookup (remoteAgentTrustByKey s) (remoteAgentTrustKey localAgentUUID peerID remoteAgentURI) of
        None \<Rightarrow> False
      | Some trustID \<Rightarrow>
          (case fmlookup (remoteAgentTrusts s) trustID of
             None \<Rightarrow> False
           | Some t \<Rightarrow> RAT_Status t = StatusActive))"

section \<open>The code: the outbox\<close>

definition outbox_of :: "memory_store \<Rightarrow> string \<Rightarrow> string list" where
  "outbox_of s p = (case fmlookup (peerOutboundByPeer s) p of None \<Rightarrow> [] | Some q \<Rightarrow> q)"

definition EnqueuePeerOutbound ::
  "string \<Rightarrow> string \<Rightarrow> message \<Rightarrow> time \<Rightarrow> memory_store \<Rightarrow> (store_error + peer_outbound) \<times> memory_store" where
  "EnqueuePeerOutbound peerID outboundID m now s =
     (if fmlookup (peerInstances s) peerID = None then (Inl ErrPeerInstanceNotFound, s)
      else
        let outbound = \<lparr>Out_OutboundID = outboundID, Out_PeerID = peerID,
              Out_MessageID = Msg_MessageID m, Out_Message = m, Out_Status = StatusPending,
              Out_CreatedAt = now, Out_UpdatedAt = now, Out_AttemptCount = 0, Out_NextAttemptAt = now,
              Out_LastAttemptAt = None, Out_LastError = [], Out_LastDeliveredAt = None\<rparr>
        in (Inr outbound, s\<lparr>peerOutbounds := fmupd outboundID outbound (peerOutbounds s),
             peerOutboundByPeer := fmupd peerID (outbox_of s peerID @ [outboundID])
               (peerOutboundByPeer s)\<rparr>))"

definition due_before :: "peer_outbound \<Rightarrow> peer_outbound \<Rightarrow> bool" where
  "due_before a b \<longleftrightarrow>
     (if Out_PeerID a = Out_PeerID b then
        (if Out_NextAttemptAt a = Out_NextAttemptAt b then Out_OutboundID a < Out_OutboundID b
         else Out_NextAttemptAt a < Out_NextAttemptAt b)
      else Out_PeerID a < Out_PeerID b)"

definition ListDuePeerOutbounds :: "time \<Rightarrow> int \<Rightarrow> memory_store \<Rightarrow> peer_outbound list" where
  "ListDuePeerOutbounds now limit s =
     (let limit = (if limit \<le> 0 then 32 else limit) in
      take (nat limit) (sort_by due_before
        (filter (\<lambda>x. Out_Status x = StatusPending \<and> \<not> Out_NextAttemptAt x > now)
          (sorted_values (peerOutbounds s)))))"

definition MarkPeerOutboundRetry ::
  "string \<Rightarrow> string \<Rightarrow> time \<Rightarrow> time \<Rightarrow> memory_store \<Rightarrow> (store_error + peer_outbound) \<times> memory_store" where
  "MarkPeerOutboundRetry outboundID reason nextAttemptAt now s =
     (case fmlookup (peerOutbounds s) (TrimSpace outboundID) of
        None \<Rightarrow> (Inl ErrMessageNotFound, s)
      | Some x \<Rightarrow>
          let x = x\<lparr>Out_AttemptCount := Out_AttemptCount x + 1, Out_LastAttemptAt := Some now,
                Out_LastError := TrimSpace reason, Out_NextAttemptAt := nextAttemptAt,
                Out_UpdatedAt := now\<rparr>
          in (Inr x, s\<lparr>peerOutbounds := fmupd (Out_OutboundID x) x (peerOutbounds s)\<rparr>))"

definition MarkPeerOutboundDelivered ::
  "string \<Rightarrow> time \<Rightarrow> memory_store \<Rightarrow> (store_error + peer_outbound) \<times> memory_store" where
  "MarkPeerOutboundDelivered outboundID now s =
     (case fmlookup (peerOutbounds s) (TrimSpace outboundID) of
        None \<Rightarrow> (Inl ErrMessageNotFound, s)
      | Some x \<Rightarrow>
          let x = x\<lparr>Out_AttemptCount := Out_AttemptCount x + 1, Out_LastAttemptAt := Some now,
                Out_LastDeliveredAt := Some now, Out_Status := StatusActive, Out_UpdatedAt := now\<rparr>;
              filtered = filter (\<lambda>i. i \<noteq> Out_OutboundID x) (outbox_of s (Out_PeerID x));
              byPeer = (if filtered = [] then fmdrop (Out_PeerID x) (peerOutboundByPeer s)
                else fmupd (Out_PeerID x) filtered (peerOutboundByPeer s))
          in (Inr x, s\<lparr>peerOutboundByPeer := byPeer,
               peerOutbounds := fmdrop (Out_OutboundID x) (peerOutbounds s)\<rparr>))"

interpretation peers_by_base: comparator "lex_less Peer_CanonicalBaseURL Peer_PeerID"
  by (rule lex_less_comparator)

interpretation org_trusts_by_org: comparator "lex_less ROT_LocalOrgID ROT_RemoteOrgHandle"
  by (rule lex_less_comparator)

interpretation agent_trusts_by_agent: comparator "lex_less RAT_LocalAgentUUID RAT_RemoteAgentURI"
  by (rule lex_less_comparator)

interpretation agent_trusts_by_uri: comparator "lex_less RAT_RemoteAgentURI RAT_TrustID"
  by (rule lex_less_comparator)

interpretation due: comparator due_before
  by unfold_locales (auto simp: due_before_def split: if_splits)

end
