(* ===== verification/FederationSafety.thy ===== *)
theory FederationSafety
  imports Federation
begin

text \<open>
  The federation tables of the store stay consistent: each trust names a peer that exists,
  the indexes are exact, the outbox of a peer lists just its pending messages.
\<close>

section \<open>The invariant\<close>

definition peers_ok :: "peer_instance gomap \<Rightarrow> string gomap \<Rightarrow> bool" where
  "peers_ok P B \<longleftrightarrow>
     (\<forall>i p. fmlookup P i = Some p \<longrightarrow> Peer_PeerID p = i \<and> TrimSpace i = i \<and> plain i \<and>
        Peer_Status p = StatusActive) \<and>
     index_ok (\<lambda>p. Some (Peer_CanonicalBaseURL p)) P B"

definition org_trusts_ok :: "peer_instance gomap \<Rightarrow> remote_org_trust gomap \<Rightarrow> string gomap \<Rightarrow> bool" where
  "org_trusts_ok P T K \<longleftrightarrow>
     (\<forall>i t. fmlookup T i = Some t \<longrightarrow> ROT_TrustID t = i \<and> ROT_Status t = StatusActive \<and>
        plain (TrimSpace (ROT_LocalOrgID t)) \<and> fmlookup P (ROT_PeerID t) \<noteq> None) \<and>
     index_ok (Some \<circ> key_of_rot) T K"

definition agent_trusts_ok :: "peer_instance gomap \<Rightarrow> remote_agent_trust gomap \<Rightarrow> string gomap \<Rightarrow> bool" where
  "agent_trusts_ok P T K \<longleftrightarrow>
     (\<forall>i t. fmlookup T i = Some t \<longrightarrow> RAT_TrustID t = i \<and> RAT_Status t = StatusActive \<and>
        plain (TrimSpace (RAT_LocalAgentUUID t)) \<and> fmlookup P (RAT_PeerID t) \<noteq> None) \<and>
     index_ok (Some \<circ> key_of_rat) T K"

definition outbox_ok ::
  "peer_instance gomap \<Rightarrow> peer_outbound gomap \<Rightarrow> (string \<Rightarrow> string list) \<Rightarrow> bool" where
  "outbox_ok P X Q \<longleftrightarrow>
     (\<forall>i x. fmlookup X i = Some x \<longrightarrow> Out_OutboundID x = i \<and> TrimSpace i = i \<and>
        Out_Status x = StatusPending \<and> fmlookup P (Out_PeerID x) \<noteq> None) \<and>
     (\<forall>p. distinct (Q p)) \<and>
     (\<forall>p i. i \<in> set (Q p) \<longleftrightarrow> (\<exists>x. fmlookup X i = Some x \<and> Out_PeerID x = p))"

definition federation_wf :: "memory_store \<Rightarrow> bool" where
  "federation_wf s \<longleftrightarrow> peers_ok (peerInstances s) (peerByCanonicalBase s) \<and>
     org_trusts_ok (peerInstances s) (remoteOrgTrusts s) (remoteOrgTrustByKey s) \<and>
     agent_trusts_ok (peerInstances s) (remoteAgentTrusts s) (remoteAgentTrustByKey s) \<and>
     outbox_ok (peerInstances s) (peerOutbounds s) (outbox_of s)"

lemma federation_wfD:
  assumes "federation_wf s"
  shows "peers_ok (peerInstances s) (peerByCanonicalBase s)"
    "org_trusts_ok (peerInstances s) (remoteOrgTrusts s) (remoteOrgTrustByKey s)"
    "agent_trusts_ok (peerInstances s) (remoteAgentTrusts s) (remoteAgentTrustByKey s)"
    "outbox_ok (peerInstances s) (peerOutbounds s) (outbox_of s)"
  using assms by (simp_all add: federation_wf_def)

lemma peerD:
  assumes "peers_ok P B" and "fmlookup P i = Some p"
  shows "Peer_PeerID p = i" "TrimSpace i = i" "plain i" "Peer_Status p = StatusActive"
    "fmlookup B (Peer_CanonicalBaseURL p) = Some i"
  using assms index_ok_key [of _ P B i p] by (auto simp: peers_ok_def)

lemma outboundD:
  assumes "outbox_ok P X Q" and "fmlookup X i = Some x"
  shows "Out_OutboundID x = i" "TrimSpace i = i" "Out_Status x = StatusPending"
    "fmlookup P (Out_PeerID x) \<noteq> None" "i \<in> set (Q (Out_PeerID x))"
  using assms unfolding outbox_ok_def by blast+

lemma outbox_of_cong: "peerOutboundByPeer s' = peerOutboundByPeer s \<Longrightarrow> outbox_of s' = outbox_of s"
  by (rule ext) (simp add: outbox_of_def)

lemma federation_wf_cong:
  assumes "peerInstances s' = peerInstances s" "peerByCanonicalBase s' = peerByCanonicalBase s"
    "remoteOrgTrusts s' = remoteOrgTrusts s" "remoteOrgTrustByKey s' = remoteOrgTrustByKey s"
    "remoteAgentTrusts s' = remoteAgentTrusts s" "remoteAgentTrustByKey s' = remoteAgentTrustByKey s"
    "peerOutbounds s' = peerOutbounds s" "peerOutboundByPeer s' = peerOutboundByPeer s"
  shows "federation_wf s' \<longleftrightarrow> federation_wf s"
  using assms outbox_of_cong [OF assms(8)] by (simp add: federation_wf_def)

lemma federation_wf_start: "federation_wf NewMemoryStore"
  by (simp add: federation_wf_def peers_ok_def org_trusts_ok_def agent_trusts_ok_def outbox_ok_def
      NewMemoryStore_def outbox_of_def)

section \<open>Every operation keeps it\<close>

lemma more_peers:
  assumes "fmlookup P i = None"
  shows "org_trusts_ok P T K \<Longrightarrow> org_trusts_ok (fmupd i p P) T K"
    "agent_trusts_ok P U L \<Longrightarrow> agent_trusts_ok (fmupd i p P) U L"
    "outbox_ok P X Q \<Longrightarrow> outbox_ok (fmupd i p P) X Q"
  using assms unfolding org_trusts_ok_def agent_trusts_ok_def outbox_ok_def by auto

lemma same_peers:
  assumes "fmlookup P i = Some q"
  shows "org_trusts_ok P T K \<Longrightarrow> org_trusts_ok (fmupd i p P) T K"
    "agent_trusts_ok P U L \<Longrightarrow> agent_trusts_ok (fmupd i p P) U L"
    "outbox_ok P X Q \<Longrightarrow> outbox_ok (fmupd i p P) X Q"
  using assms unfolding org_trusts_ok_def agent_trusts_ok_def outbox_ok_def by auto

lemma CreatePeerInstance_ok:
  assumes wf: "federation_wf s" and run: "CreatePeerInstance b d k a i now s = (Inr p, s')"
    and i: "TrimSpace i = i"
  shows "fmlookup (peerInstances s) i = None" "fmlookup (peerByCanonicalBase s) (normalizeBaseURL b) = None"
    "Peer_PeerID p = i" "Peer_CanonicalBaseURL p = normalizeBaseURL b" "Peer_Status p = StatusActive"
    "s' = s\<lparr>peerInstances := fmupd i p (peerInstances s),
      peerByCanonicalBase := fmupd (normalizeBaseURL b) i (peerByCanonicalBase s)\<rparr>"
proof -
  have none: "fmlookup (peerInstances s) i = None"
    using run i by (auto simp: CreatePeerInstance_def split: if_splits)
  then show "fmlookup (peerInstances s) i = None" .
  note peers = federation_wfD(1) [OF wf]
  show "fmlookup (peerByCanonicalBase s) (normalizeBaseURL b) = None"
  proof (rule ccontr)
    assume "fmlookup (peerByCanonicalBase s) (normalizeBaseURL b) \<noteq> None"
    then obtain j where j: "fmlookup (peerByCanonicalBase s) (normalizeBaseURL b) = Some j" by blast
    then obtain q where q: "fmlookup (peerInstances s) j = Some q"
      using index_ok_lookup [OF peers [unfolded peers_ok_def, THEN conjunct2] j] by blast
    from j q peerD(4) [OF peers q] run show False
      by (auto simp: CreatePeerInstance_def Let_def split: if_splits)
  qed
  show "Peer_PeerID p = i" "Peer_CanonicalBaseURL p = normalizeBaseURL b" "Peer_Status p = StatusActive"
    "s' = s\<lparr>peerInstances := fmupd i p (peerInstances s),
      peerByCanonicalBase := fmupd (normalizeBaseURL b) i (peerByCanonicalBase s)\<rparr>"
    using run none i by (auto simp: CreatePeerInstance_def Let_def split: if_splits)
qed

lemma CreatePeerInstance_wf [wf_intros]:
  assumes wf: "federation_wf s" and i: "TrimSpace i = i" "plain i"
  shows "federation_wf (snd (CreatePeerInstance b d k a i now s))"
proof (cases "CreatePeerInstance b d k a i now s")
  case (Pair r s')
  show ?thesis
  proof (cases r)
    case (Inl e)
    with Pair have "s' = s" by (auto simp: CreatePeerInstance_def Let_def split: if_splits)
    with Pair wf show ?thesis by simp
  next
    case (Inr p)
    note ok = CreatePeerInstance_ok [OF wf Pair [unfolded Inr] i(1)]
    note w = federation_wfD [OF wf]
    have "index_ok (\<lambda>p. Some (Peer_CanonicalBaseURL p)) (fmupd i p (peerInstances s))
        (fmupd (normalizeBaseURL b) i (peerByCanonicalBase s))"
      by (rule index_ok_insert) (use w(1) ok in \<open>simp_all add: peers_ok_def\<close>)
    then have "peers_ok (fmupd i p (peerInstances s)) (fmupd (normalizeBaseURL b) i (peerByCanonicalBase s))"
      using w(1) ok(3,5) i by (auto simp: peers_ok_def)
    with more_peers [OF ok(1)] w(2-4) show ?thesis
      unfolding Pair snd_conv ok(6) federation_wf_def
      by (simp add: outbox_of_cong [of "s\<lparr>peerInstances := x, peerByCanonicalBase := y\<rparr>" s for x y])
  qed
qed

lemma peer_update_wf:
  assumes wf: "federation_wf s" and p: "fmlookup (peerInstances s) i = Some p"
    and q: "Peer_PeerID q = Peer_PeerID p" "Peer_CanonicalBaseURL q = Peer_CanonicalBaseURL p"
      "Peer_Status q = Peer_Status p"
  shows "federation_wf (s\<lparr>peerInstances := fmupd i q (peerInstances s)\<rparr>)"
proof -
  note w = federation_wfD [OF wf]
  have "peers_ok (fmupd i q (peerInstances s)) (peerByCanonicalBase s)"
    using w(1) p q index_ok_update [of _ "peerInstances s" "peerByCanonicalBase s" i p q]
    by (auto simp: peers_ok_def)
  with same_peers [OF p] w(2-4) show ?thesis
    unfolding federation_wf_def
    by (simp add: outbox_of_cong [of "s\<lparr>peerInstances := x\<rparr>" s for x])
qed

lemma RecordPeerDelivery_wf [wf_intros]:
  assumes wf: "federation_wf s"
  shows "federation_wf (RecordPeerDeliverySuccess i now s)"
    and "federation_wf (RecordPeerDeliveryFailure i reason now s)"
proof -
  have id: "Peer_PeerID p = TrimSpace i" if "fmlookup (peerInstances s) (TrimSpace i) = Some p" for p
    by (rule peerD(1) [OF federation_wfD(1) [OF wf] that])
  show "federation_wf (RecordPeerDeliverySuccess i now s)"
    "federation_wf (RecordPeerDeliveryFailure i reason now s)"
    using wf by (auto simp: RecordPeerDeliverySuccess_def RecordPeerDeliveryFailure_def id
        intro: peer_update_wf split: option.split)
qed

lemma CreateRemoteOrgTrust_wf [wf_intros]:
  assumes wf: "federation_wf s" and i: "fmlookup (remoteOrgTrusts s) i = None"
    and org: "plain (TrimSpace org)"
  shows "federation_wf (snd (CreateRemoteOrgTrust org p h a i now s))"
proof -
  note w = federation_wfD [OF wf]
  note K = w(2) [unfolded org_trusts_ok_def, THEN conjunct2]
  let ?key = "remoteOrgTrustKey org p h"
  have step: "federation_wf (s\<lparr>remoteOrgTrusts := T, remoteOrgTrustByKey := L\<rparr>)"
    if "org_trusts_ok (peerInstances s) T L" for T L
    using w that unfolding federation_wf_def
    by (simp add: outbox_of_cong [of "s\<lparr>remoteOrgTrusts := x, remoteOrgTrustByKey := y\<rparr>" s for x y])
  show ?thesis
  proof (cases "fmlookup (orgs s) org = None \<or> fmlookup (peerInstances s) p = None")
    case True
    with wf show ?thesis by (auto simp: CreateRemoteOrgTrust_def)
  next
    case False
    show ?thesis
    proof (cases "fmlookup (remoteOrgTrustByKey s) ?key")
      case (Some j)
      then obtain t where t: "fmlookup (remoteOrgTrusts s) j = Some t"
        using index_ok_lookup [OF K] by blast
      let ?t = "t\<lparr>ROT_Status := StatusActive, ROT_UpdatedAt := now\<rparr>"
      have "index_ok (Some \<circ> key_of_rot) (fmupd j ?t (remoteOrgTrusts s)) (remoteOrgTrustByKey s)"
        by (rule index_ok_update [OF K t]) (simp add: key_of_rot_def)
      then have "org_trusts_ok (peerInstances s) (fmupd j ?t (remoteOrgTrusts s)) (remoteOrgTrustByKey s)"
        using w(2) t by (auto simp: org_trusts_ok_def)
      from step [OF this] show ?thesis
        using False Some t by (auto simp: CreateRemoteOrgTrust_def Let_def)
    next
      case None
      let ?t = "\<lparr>ROT_TrustID = i, ROT_LocalOrgID = org, ROT_PeerID = p,
        ROT_RemoteOrgHandle = Normalize h, ROT_Status = StatusActive,
        ROT_CreatedBy = a, ROT_CreatedAt = now, ROT_UpdatedAt = now\<rparr>"
      have "index_ok (Some \<circ> key_of_rot) (fmupd i ?t (remoteOrgTrusts s))
          (fmupd ?key i (remoteOrgTrustByKey s))"
        by (rule index_ok_insert [OF K i _ None]) (simp add: key_of_rot_def remoteOrgTrustKey_def)
      then have "org_trusts_ok (peerInstances s) (fmupd i ?t (remoteOrgTrusts s))
          (fmupd ?key i (remoteOrgTrustByKey s))"
        using w(2) org False by (auto simp: org_trusts_ok_def)
      from step [OF this] show ?thesis
        using False None by (auto simp: CreateRemoteOrgTrust_def Let_def)
    qed
  qed
qed

lemma CreateRemoteAgentTrust_wf [wf_intros]:
  assumes wf: "federation_wf s" and i: "fmlookup (remoteAgentTrusts s) i = None"
    and u: "plain (TrimSpace u)"
  shows "federation_wf (snd (CreateRemoteAgentTrust u p r a i now s))"
proof -
  note w = federation_wfD [OF wf]
  note K = w(3) [unfolded agent_trusts_ok_def, THEN conjunct2]
  let ?key = "remoteAgentTrustKey u p r"
  have step: "federation_wf (s\<lparr>remoteAgentTrusts := T, remoteAgentTrustByKey := L\<rparr>)"
    if "agent_trusts_ok (peerInstances s) T L" for T L
    using w that unfolding federation_wf_def
    by (simp add: outbox_of_cong [of "s\<lparr>remoteAgentTrusts := x, remoteAgentTrustByKey := y\<rparr>" s for x y])
  show ?thesis
  proof (cases "\<not> live_agent s u \<or> fmlookup (peerInstances s) p = None")
    case True
    with wf show ?thesis by (auto simp: CreateRemoteAgentTrust_def)
  next
    case False
    show ?thesis
    proof (cases "fmlookup (remoteAgentTrustByKey s) ?key")
      case (Some j)
      then obtain t where t: "fmlookup (remoteAgentTrusts s) j = Some t"
        using index_ok_lookup [OF K] by blast
      let ?t = "t\<lparr>RAT_Status := StatusActive, RAT_UpdatedAt := now\<rparr>"
      have "index_ok (Some \<circ> key_of_rat) (fmupd j ?t (remoteAgentTrusts s)) (remoteAgentTrustByKey s)"
        by (rule index_ok_update [OF K t]) (simp add: key_of_rat_def)
      then have "agent_trusts_ok (peerInstances s) (fmupd j ?t (remoteAgentTrusts s)) (remoteAgentTrustByKey s)"
        using w(3) t by (auto simp: agent_trusts_ok_def)
      from step [OF this] show ?thesis
        using False Some t by (auto simp: CreateRemoteAgentTrust_def Let_def)
    next
      case None
      let ?t = "\<lparr>RAT_TrustID = i, RAT_LocalAgentUUID = u, RAT_PeerID = p,
        RAT_RemoteAgentURI = TrimSpace r, RAT_Status = StatusActive,
        RAT_CreatedBy = a, RAT_CreatedAt = now, RAT_UpdatedAt = now\<rparr>"
      have "index_ok (Some \<circ> key_of_rat) (fmupd i ?t (remoteAgentTrusts s))
          (fmupd ?key i (remoteAgentTrustByKey s))"
        by (rule index_ok_insert [OF K i _ None]) (simp add: key_of_rat_def remoteAgentTrustKey_def)
      then have "agent_trusts_ok (peerInstances s) (fmupd i ?t (remoteAgentTrusts s))
          (fmupd ?key i (remoteAgentTrustByKey s))"
        using w(3) u False by (auto simp: agent_trusts_ok_def)
      from step [OF this] show ?thesis
        using False None by (auto simp: CreateRemoteAgentTrust_def Let_def)
    qed
  qed
qed

lemma DeleteRemoteTrust_wf [wf_intros]:
  assumes wf: "federation_wf s"
  shows "federation_wf (snd (DeleteRemoteOrgTrust i now s))"
    and "federation_wf (snd (DeleteRemoteAgentTrust i now s))"
proof -
  note w = federation_wfD [OF wf]
  show "federation_wf (snd (DeleteRemoteOrgTrust i now s))"
  proof (cases "fmlookup (remoteOrgTrusts s) (TrimSpace i)")
    case None
    with wf show ?thesis by (simp add: DeleteRemoteOrgTrust_def)
  next
    case (Some t)
    have id: "ROT_TrustID t = TrimSpace i" using w(2) Some by (simp add: org_trusts_ok_def)
    have "index_ok (Some \<circ> key_of_rot) (fmdrop (TrimSpace i) (remoteOrgTrusts s))
        (fmdrop (key_of_rot t) (remoteOrgTrustByKey s))"
      by (rule index_ok_drop [OF _ Some]) (use w(2) in \<open>simp_all add: org_trusts_ok_def\<close>)
    with w Some id show ?thesis
      by (simp add: DeleteRemoteOrgTrust_def federation_wf_def org_trusts_ok_def
          outbox_of_cong [of "s\<lparr>remoteOrgTrusts := x, remoteOrgTrustByKey := y\<rparr>" s for x y])
  qed
  show "federation_wf (snd (DeleteRemoteAgentTrust i now s))"
  proof (cases "fmlookup (remoteAgentTrusts s) (TrimSpace i)")
    case None
    with wf show ?thesis by (simp add: DeleteRemoteAgentTrust_def)
  next
    case (Some t)
    have id: "RAT_TrustID t = TrimSpace i" using w(3) Some by (simp add: agent_trusts_ok_def)
    have "index_ok (Some \<circ> key_of_rat) (fmdrop (TrimSpace i) (remoteAgentTrusts s))
        (fmdrop (key_of_rat t) (remoteAgentTrustByKey s))"
      by (rule index_ok_drop [OF _ Some]) (use w(3) in \<open>simp_all add: agent_trusts_ok_def\<close>)
    with w Some id show ?thesis
      by (simp add: DeleteRemoteAgentTrust_def federation_wf_def agent_trusts_ok_def
          outbox_of_cong [of "s\<lparr>remoteAgentTrusts := x, remoteAgentTrustByKey := y\<rparr>" s for x y])
  qed
qed

text \<open>The outbox.\<close>

lemma outbox_wf_step:
  assumes wf: "federation_wf s" and ok: "outbox_ok (peerInstances s) X (outbox_of (s\<lparr>peerOutboundByPeer := Q\<rparr>))"
  shows "federation_wf (s\<lparr>peerOutboundByPeer := Q, peerOutbounds := X\<rparr>)"
  using federation_wfD [OF wf] ok unfolding federation_wf_def
  by (simp add: outbox_of_cong [of "s\<lparr>peerOutboundByPeer := Q, peerOutbounds := X\<rparr>"
      "s\<lparr>peerOutboundByPeer := Q\<rparr>"])

lemma outbox_of_upd:
  "outbox_of (s\<lparr>peerOutboundByPeer := fmupd p q (peerOutboundByPeer s)\<rparr>) = (outbox_of s)(p := q)"
  "outbox_of (s\<lparr>peerOutboundByPeer := fmdrop p (peerOutboundByPeer s)\<rparr>) = (outbox_of s)(p := [])"
  by (auto simp: outbox_of_def fun_eq_iff)

lemma EnqueuePeerOutbound_wf [wf_intros]:
  assumes wf: "federation_wf s" and i: "fmlookup (peerOutbounds s) i = None" "TrimSpace i = i"
  shows "federation_wf (snd (EnqueuePeerOutbound p i m now s))"
proof (cases "fmlookup (peerInstances s) p")
  case None
  with wf show ?thesis by (simp add: EnqueuePeerOutbound_def)
next
  case (Some peer)
  note o = federation_wfD(4) [OF wf]
  let ?x = "\<lparr>Out_OutboundID = i, Out_PeerID = p, Out_MessageID = Msg_MessageID m, Out_Message = m,
    Out_Status = StatusPending, Out_CreatedAt = now, Out_UpdatedAt = now, Out_AttemptCount = 0,
    Out_NextAttemptAt = now, Out_LastAttemptAt = None, Out_LastError = [], Out_LastDeliveredAt = None\<rparr>"
  let ?X = "fmupd i ?x (peerOutbounds s)" and ?Q = "(outbox_of s)(p := outbox_of s p @ [i])"
  have fresh: "i \<notin> set (outbox_of s q)" for q using o i(1) unfolding outbox_ok_def by simp
  have "outbox_ok (peerInstances s) ?X ?Q"
    unfolding outbox_ok_def
  proof (intro conjI allI)
    show "distinct (?Q q)" for q using o fresh by (simp add: outbox_ok_def)
    show "fmlookup ?X j = Some x \<longrightarrow> Out_OutboundID x = j \<and> TrimSpace j = j \<and>
        Out_Status x = StatusPending \<and> fmlookup (peerInstances s) (Out_PeerID x) \<noteq> None" for j x
      using o i(2) Some by (auto simp: outbox_ok_def)
    show "j \<in> set (?Q q) \<longleftrightarrow> (\<exists>x. fmlookup ?X j = Some x \<and> Out_PeerID x = q)" for q j
      using o fresh by (cases "j = i") (auto simp: outbox_ok_def)
  qed
  then have "federation_wf (s\<lparr>peerOutbounds := ?X,
      peerOutboundByPeer := fmupd p (outbox_of s p @ [i]) (peerOutboundByPeer s)\<rparr>)"
    using federation_wfD [OF wf] unfolding federation_wf_def
    by (simp add: outbox_of_cong [of "s\<lparr>peerOutbounds := X, peerOutboundByPeer := Q\<rparr>"
        "s\<lparr>peerOutboundByPeer := Q\<rparr>" for X Q] outbox_of_upd)
  then show ?thesis by (simp add: EnqueuePeerOutbound_def Some Let_def)
qed

lemma MarkPeerOutboundRetry_wf [wf_intros]:
  assumes wf: "federation_wf s"
  shows "federation_wf (snd (MarkPeerOutboundRetry i reason next now s))"
proof (cases "fmlookup (peerOutbounds s) (TrimSpace i)")
  case None
  with wf show ?thesis by (simp add: MarkPeerOutboundRetry_def)
next
  case (Some x)
  note o = federation_wfD(4) [OF wf]
  have id: "Out_OutboundID x = TrimSpace i" by (rule outboundD(1) [OF o Some])
  have "outbox_ok (peerInstances s) (fmupd (TrimSpace i) y (peerOutbounds s)) (outbox_of s)"
    if "Out_OutboundID y = TrimSpace i" "Out_PeerID y = Out_PeerID x" "Out_Status y = Out_Status x" for y
    unfolding outbox_ok_def
  proof (intro conjI allI)
    show "distinct (outbox_of s q)" for q using o by (simp add: outbox_ok_def)
    show "fmlookup (fmupd (TrimSpace i) y (peerOutbounds s)) j = Some z \<longrightarrow> Out_OutboundID z = j \<and>
        TrimSpace j = j \<and> Out_Status z = StatusPending \<and> fmlookup (peerInstances s) (Out_PeerID z) \<noteq> None" for j z
      using o that Some outboundD(3,4) [OF o Some] by (auto simp: outbox_ok_def)
    show "j \<in> set (outbox_of s q) \<longleftrightarrow>
        (\<exists>z. fmlookup (fmupd (TrimSpace i) y (peerOutbounds s)) j = Some z \<and> Out_PeerID z = q)" for q j
      using o that Some by (cases "j = TrimSpace i") (auto simp: outbox_ok_def)
  qed
  moreover have "s\<lparr>peerOutbounds := X\<rparr> = s\<lparr>peerOutboundByPeer := peerOutboundByPeer s, peerOutbounds := X\<rparr>" for X
    by simp
  ultimately show ?thesis
    using outbox_wf_step [OF wf, of _ "peerOutboundByPeer s"] id
    by (simp add: MarkPeerOutboundRetry_def Some Let_def)
qed

lemma MarkPeerOutboundDelivered_eq:
  assumes wf: "federation_wf s" and x: "fmlookup (peerOutbounds s) (TrimSpace i) = Some x"
  shows "outbox_of (snd (MarkPeerOutboundDelivered i now s)) =
      (outbox_of s)(Out_PeerID x := filter (\<lambda>j. j \<noteq> TrimSpace i) (outbox_of s (Out_PeerID x)))"
    "peerOutbounds (snd (MarkPeerOutboundDelivered i now s)) = fmdrop (TrimSpace i) (peerOutbounds s)"
    "peerInstances (snd (MarkPeerOutboundDelivered i now s)) = peerInstances s"
proof -
  have id: "Out_OutboundID x = TrimSpace i"
    by (rule outboundD(1) [OF federation_wfD(4) [OF wf] x])
  show "outbox_of (snd (MarkPeerOutboundDelivered i now s)) =
      (outbox_of s)(Out_PeerID x := filter (\<lambda>j. j \<noteq> TrimSpace i) (outbox_of s (Out_PeerID x)))"
    by (rule ext) (simp add: MarkPeerOutboundDelivered_def x Let_def id outbox_of_def)
  show "peerOutbounds (snd (MarkPeerOutboundDelivered i now s)) = fmdrop (TrimSpace i) (peerOutbounds s)"
    "peerInstances (snd (MarkPeerOutboundDelivered i now s)) = peerInstances s"
    by (simp_all add: MarkPeerOutboundDelivered_def x Let_def id)
qed

lemma MarkPeerOutboundDelivered_wf [wf_intros]:
  assumes wf: "federation_wf s"
  shows "federation_wf (snd (MarkPeerOutboundDelivered i now s))"
proof (cases "fmlookup (peerOutbounds s) (TrimSpace i)")
  case None
  with wf show ?thesis by (simp add: MarkPeerOutboundDelivered_def)
next
  case (Some x)
  note o = federation_wfD(4) [OF wf] and eq = MarkPeerOutboundDelivered_eq [OF wf Some, of now]
  have "outbox_ok (peerInstances s) (fmdrop (TrimSpace i) (peerOutbounds s))
      ((outbox_of s)(Out_PeerID x := filter (\<lambda>j. j \<noteq> TrimSpace i) (outbox_of s (Out_PeerID x))))"
    (is "outbox_ok _ ?X ?Q")
    unfolding outbox_ok_def
  proof (intro conjI allI)
    show "distinct (?Q q)" for q using o by (simp add: outbox_ok_def)
    show "fmlookup ?X j = Some z \<longrightarrow> Out_OutboundID z = j \<and> TrimSpace j = j \<and>
        Out_Status z = StatusPending \<and> fmlookup (peerInstances s) (Out_PeerID z) \<noteq> None" for j z
      using o by (auto simp: outbox_ok_def)
    show "j \<in> set (?Q q) \<longleftrightarrow> (\<exists>z. fmlookup ?X j = Some z \<and> Out_PeerID z = q)" for q j
      using o Some by (cases "j = TrimSpace i") (auto simp: outbox_ok_def)
  qed
  moreover have "federation_wf (snd (MarkPeerOutboundDelivered i now s)) \<longleftrightarrow>
      outbox_ok (peerInstances s) (peerOutbounds (snd (MarkPeerOutboundDelivered i now s)))
        (outbox_of (snd (MarkPeerOutboundDelivered i now s)))"
    using federation_wfD [OF wf] unfolding federation_wf_def
    by (simp add: eq(3)) (simp add: MarkPeerOutboundDelivered_def Some Let_def)
  ultimately show ?thesis unfolding eq(1,2) by blast
qed

text \<open>The end of a peering takes its trusts and its outbox along.\<close>

lemma DeletePeerInstance_ok:
  fixes now
  assumes wf: "federation_wf s" and p: "fmlookup (peerInstances s) (TrimSpace i) = Some p"
  defines "s' \<equiv> snd (DeletePeerInstance i now s)" and "j \<equiv> TrimSpace i"
  shows "peerInstances s' = fmdrop j (peerInstances s)"
    "peerByCanonicalBase s' = fmdrop (Peer_CanonicalBaseURL p) (peerByCanonicalBase s)"
    "remoteOrgTrusts s' = fmdelete_if (\<lambda>_ t. ROT_PeerID t = j) (remoteOrgTrusts s)"
    "remoteOrgTrustByKey s' = fmdrop_fset (keys_of key_of_rot (\<lambda>_ t. ROT_PeerID t = j) (remoteOrgTrusts s))
       (remoteOrgTrustByKey s)"
    "remoteAgentTrusts s' = fmdelete_if (\<lambda>_ t. RAT_PeerID t = j) (remoteAgentTrusts s)"
    "remoteAgentTrustByKey s' = fmdrop_fset (keys_of key_of_rat (\<lambda>_ t. RAT_PeerID t = j) (remoteAgentTrusts s))
       (remoteAgentTrustByKey s)"
    "peerOutbounds s' = fmdelete_if (\<lambda>_ x. Out_PeerID x = j) (peerOutbounds s)"
    "outbox_of s' = (outbox_of s)(j := [])"
proof -
  have id: "Peer_PeerID p = j"
    unfolding j_def by (rule peerD(1) [OF federation_wfD(1) [OF wf] p])
  note defs = s'_def DeletePeerInstance_def p [folded j_def] j_def [symmetric] Let_def
  show "peerInstances s' = fmdrop j (peerInstances s)"
    "peerByCanonicalBase s' = fmdrop (Peer_CanonicalBaseURL p) (peerByCanonicalBase s)"
    "remoteOrgTrusts s' = fmdelete_if (\<lambda>_ t. ROT_PeerID t = j) (remoteOrgTrusts s)"
    "remoteOrgTrustByKey s' = fmdrop_fset (keys_of key_of_rot (\<lambda>_ t. ROT_PeerID t = j) (remoteOrgTrusts s))
       (remoteOrgTrustByKey s)"
    "remoteAgentTrusts s' = fmdelete_if (\<lambda>_ t. RAT_PeerID t = j) (remoteAgentTrusts s)"
    "remoteAgentTrustByKey s' = fmdrop_fset (keys_of key_of_rat (\<lambda>_ t. RAT_PeerID t = j) (remoteAgentTrusts s))
       (remoteAgentTrustByKey s)"
    "peerOutbounds s' = fmdelete_if (\<lambda>_ x. Out_PeerID x = j) (peerOutbounds s)"
    "outbox_of s' = (outbox_of s)(j := [])"
    by (simp_all add: defs id outbox_of_def fun_eq_iff)
qed

lemma DeletePeerInstance_wf [wf_intros]:
  assumes wf: "federation_wf s"
  shows "federation_wf (snd (DeletePeerInstance i now s))"
proof (cases "fmlookup (peerInstances s) (TrimSpace i)")
  case None
  with wf show ?thesis by (simp add: DeletePeerInstance_def)
next
  case (Some p)
  let ?j = "TrimSpace i" and ?P = "fmdrop (TrimSpace i) (peerInstances s)"
  note w = federation_wfD [OF wf]
  have "index_ok (\<lambda>p. Some (Peer_CanonicalBaseURL p)) ?P
      (fmdrop (Peer_CanonicalBaseURL p) (peerByCanonicalBase s))"
    by (rule index_ok_drop [OF _ Some]) (use w(1) in \<open>simp_all add: peers_ok_def\<close>)
  then have peers: "peers_ok ?P (fmdrop (Peer_CanonicalBaseURL p) (peerByCanonicalBase s))"
    using w(1) by (auto simp: peers_ok_def)
  have "index_ok (Some \<circ> key_of_rot) (fmdelete_if (\<lambda>_ t. ROT_PeerID t = ?j) (remoteOrgTrusts s))
      (fmdrop_fset (keys_of key_of_rot (\<lambda>_ t. ROT_PeerID t = ?j) (remoteOrgTrusts s)) (remoteOrgTrustByKey s))"
    by (rule index_ok_delete_if) (use w(2) in \<open>simp_all add: org_trusts_ok_def\<close>)
  then have rot: "org_trusts_ok ?P (fmdelete_if (\<lambda>_ t. ROT_PeerID t = ?j) (remoteOrgTrusts s))
      (fmdrop_fset (keys_of key_of_rot (\<lambda>_ t. ROT_PeerID t = ?j) (remoteOrgTrusts s)) (remoteOrgTrustByKey s))"
    using w(2) by (auto simp: org_trusts_ok_def split: option.splits)
  have "index_ok (Some \<circ> key_of_rat) (fmdelete_if (\<lambda>_ t. RAT_PeerID t = ?j) (remoteAgentTrusts s))
      (fmdrop_fset (keys_of key_of_rat (\<lambda>_ t. RAT_PeerID t = ?j) (remoteAgentTrusts s)) (remoteAgentTrustByKey s))"
    by (rule index_ok_delete_if) (use w(3) in \<open>simp_all add: agent_trusts_ok_def\<close>)
  then have rat: "agent_trusts_ok ?P (fmdelete_if (\<lambda>_ t. RAT_PeerID t = ?j) (remoteAgentTrusts s))
      (fmdrop_fset (keys_of key_of_rat (\<lambda>_ t. RAT_PeerID t = ?j) (remoteAgentTrusts s)) (remoteAgentTrustByKey s))"
    using w(3) by (auto simp: agent_trusts_ok_def split: option.splits)
  have out: "outbox_ok ?P (fmdelete_if (\<lambda>_ x. Out_PeerID x = ?j) (peerOutbounds s)) ((outbox_of s)(?j := []))"
    using w(4) by (auto simp: outbox_ok_def split: option.splits)
  from peers rot rat out show ?thesis
    unfolding federation_wf_def DeletePeerInstance_ok [OF wf Some] by blast
qed

end
