(* ===== verification/Messages.thy ===== *)
theory Messages
  imports GoSort Agents
begin

text \<open>
  Message records and deliveries of \<^verbatim>\<open>internal/store/memory.go\<close>: a record per accepted
  message, a delivery per lease of it, and the moves between queued, leased, acked and
  forwarded.  The queues themselves are in \<open>Queue\<close>; the API layer moves messages between
  the two (\<open>Delivery\<close>).
\<close>

section \<open>The code\<close>

definition normalizedArchiveContentType :: "string \<Rightarrow> string" where
  "normalizedArchiveContentType contentType =
     (if TrimSpace contentType = [] then ''unknown'' else TrimSpace contentType)"

definition messageAuditDetails :: "message \<Rightarrow> gmap" where
  "messageAuditDetails m =
     (let details = gmap_of
        [(''from_agent_uuid'', GStr (TrimSpace (Msg_FromAgentUUID m))),
         (''to_agent_uuid'', GStr (TrimSpace (Msg_ToAgentUUID m))),
         (''from_agent_id'', GStr (TrimSpace (Msg_FromAgentID m))),
         (''to_agent_id'', GStr (TrimSpace (Msg_ToAgentID m))),
         (''from_agent_uri'', GStr (TrimSpace (Msg_FromAgentURI m))),
         (''to_agent_uri'', GStr (TrimSpace (Msg_ToAgentURI m))),
         (''sender_org_id'', GStr (TrimSpace (Msg_SenderOrgID m))),
         (''receiver_org_id'', GStr (TrimSpace (Msg_ReceiverOrgID m))),
         (''receiver_peer_id'', GStr (TrimSpace (Msg_ReceiverPeerID m))),
         (''content_type'', GStr (normalizedArchiveContentType (Msg_ContentType m)))]
      in case Msg_ClientMsgID m of
           None \<Rightarrow> details
         | Some c \<Rightarrow> fmupd ''client_msg_id'' (GStr (TrimSpace c)) details)"

text \<open>
  \<^verbatim>\<open>if orgID := strings.TrimSpace(...); orgID != "" \{ s.appendAuditLocked(orgID, "",
  "message", ...) \}\<close>, as every message operation ends.
\<close>

definition auditMessage ::
  "string \<Rightarrow> string \<Rightarrow> message \<Rightarrow> gmap \<Rightarrow> time \<Rightarrow> memory_store \<Rightarrow> memory_store" where
  "auditMessage org action m details now s =
     (if TrimSpace org = [] then s
      else appendAuditLocked (TrimSpace org) [] ''message'' action (Msg_MessageID m) details now s)"

definition agentHasPriorOutboundMessageLocked :: "string \<Rightarrow> memory_store \<Rightarrow> bool" where
  "agentHasPriorOutboundMessageLocked agentUUID s =
     (let agentUUID = TrimSpace agentUUID in
      if agentUUID = [] then False
      else list_ex (\<lambda>r. TrimSpace (Msg_FromAgentUUID (Rec_Message r)) = agentUUID)
        (sorted_values (messageRecords s)))"

definition client_key :: "message \<Rightarrow> string option" where
  "client_key m = map_option (messageClientKey (Msg_FromAgentUUID m)) (Msg_ClientMsgID m)"

definition replayRecord :: "string \<Rightarrow> message_record \<Rightarrow> time \<Rightarrow> memory_store \<Rightarrow> message_record \<times> memory_store" where
  "replayRecord i r now s =
     (let r = r\<lparr>Rec_IdempotentReplays := Rec_IdempotentReplays r + 1, Rec_UpdatedAt := now\<rparr>
      in (r, s\<lparr>messageRecords := fmupd i r (messageRecords s)\<rparr>))"

definition new_record :: "message \<Rightarrow> time \<Rightarrow> message_record" where
  "new_record m now =
     \<lparr>Rec_Message = m, Rec_Status = MessageDeliveryQueued, Rec_AcceptedAt = now, Rec_UpdatedAt = now,
      Rec_FirstReceivedAt = None, Rec_LastLeasedAt = None, Rec_LeaseExpiresAt = None,
      Rec_AckedAt = None, Rec_LastDeliveryID = None, Rec_DeliveryAttempts = 0, Rec_RequeueCount = 0,
      Rec_IdempotentReplays = 0, Rec_LastFailureReason = [], Rec_LastFailureAt = None\<rparr>"

definition insertRecord :: "message \<Rightarrow> time \<Rightarrow> memory_store \<Rightarrow> message_record \<times> memory_store" where
  "insertRecord m now s =
     (let first = \<not> agentHasPriorOutboundMessageLocked (Msg_FromAgentUUID m) s;
          s = s\<lparr>messageRecords := fmupd (Msg_MessageID m) (new_record m now) (messageRecords s),
            messageByClientMsg := (case client_key m of None \<Rightarrow> messageByClientMsg s
              | Some k \<Rightarrow> fmupd k (Msg_MessageID m) (messageByClientMsg s))\<rparr>;
          details = messageAuditDetails m;
          details = (if first then fmupd ''first_message'' (GBool True) details else details)
      in (new_record m now, auditMessage (Msg_SenderOrgID m) ''publish'' m details now s))"

text \<open>The result says whether the message was a replay of an earlier one.\<close>

definition CreateOrGetMessageRecord ::
  "message \<Rightarrow> time \<Rightarrow> memory_store \<Rightarrow> (store_error + message_record \<times> bool) \<times> memory_store" where
  "CreateOrGetMessageRecord m acceptedAt s =
     (if TrimSpace (Msg_MessageID m) = [] then (Inl ErrMessageNotFound, s)
      else case fmlookup (messageRecords s) (Msg_MessageID m) of
        Some existing \<Rightarrow>
          let (r, s) = replayRecord (Msg_MessageID m) existing acceptedAt s
          in (Inr (r, True), auditMessage (Msg_SenderOrgID (Rec_Message r)) ''publish_replay''
               (Rec_Message r) (messageAuditDetails (Rec_Message r)) acceptedAt s)
      | None \<Rightarrow>
      case client_key m of
        None \<Rightarrow> (let (r, s) = insertRecord m acceptedAt s in (Inr (r, False), s))
      | Some k \<Rightarrow>
          (case fmlookup (messageByClientMsg s) k of
             None \<Rightarrow> (let (r, s) = insertRecord m acceptedAt s in (Inr (r, False), s))
           | Some existingID \<Rightarrow>
               (case fmlookup (messageRecords s) existingID of
                  None \<Rightarrow>
                    let s = s\<lparr>messageByClientMsg := fmdrop k (messageByClientMsg s)\<rparr>;
                        (r, s) = insertRecord m acceptedAt s
                    in (Inr (r, False), s)
                | Some existing \<Rightarrow>
                    let (r, s) = replayRecord existingID existing acceptedAt s;
                        s = incrementDuplicateLocked (Msg_SenderOrgID (Rec_Message r)) acceptedAt s
                    in (Inr (r, True), auditMessage (Msg_SenderOrgID (Rec_Message r)) ''publish_replay''
                         (Rec_Message r) (messageAuditDetails (Rec_Message r)) acceptedAt s))))"

definition MarkMessageForwarded ::
  "string \<Rightarrow> time \<Rightarrow> memory_store \<Rightarrow> (store_error + message_record) \<times> memory_store" where
  "MarkMessageForwarded messageID forwardedAt s =
     (case fmlookup (messageRecords s) (TrimSpace messageID) of
        None \<Rightarrow> (Inl ErrMessageNotFound, s)
      | Some r \<Rightarrow>
          let r = r\<lparr>Rec_Status := MessageForwarded, Rec_UpdatedAt := forwardedAt,
                Rec_LastFailureAt := None, Rec_LastFailureReason := []\<rparr>;
              m = Rec_Message r;
              s = s\<lparr>messageRecords := fmupd (Msg_MessageID m) r (messageRecords s)\<rparr>
          in (Inr r, auditMessage (Msg_SenderOrgID m) ''forward'' m (messageAuditDetails m) forwardedAt s))"

definition AbortMessageRecord ::
  "string \<Rightarrow> time \<Rightarrow> memory_store \<Rightarrow> (store_error + unit) \<times> memory_store" where
  "AbortMessageRecord messageID timeNow s =
     (case fmlookup (messageRecords s) messageID of
        None \<Rightarrow> (Inl ErrMessageNotFound, s)
      | Some r \<Rightarrow>
          let m = Rec_Message r;
              s = s\<lparr>messageRecords := fmdrop messageID (messageRecords s),
                messageByClientMsg := (case client_key m of None \<Rightarrow> messageByClientMsg s
                  | Some k \<Rightarrow> fmdrop k (messageByClientMsg s))\<rparr>
          in (Inr (), auditMessage (Msg_SenderOrgID m) ''publish_abort'' m (messageAuditDetails m) timeNow s))"

definition GetMessageRecord :: "memory_store \<Rightarrow> string \<Rightarrow> store_error + message_record" where
  "GetMessageRecord s messageID =
     (case fmlookup (messageRecords s) messageID of None \<Rightarrow> Inl ErrMessageNotFound | Some r \<Rightarrow> Inr r)"

text \<open>Newest first, by message id where the times agree.\<close>

definition newer_record :: "message_record \<Rightarrow> message_record \<Rightarrow> bool" where
  "newer_record a b \<longleftrightarrow>
     (let x = Rec_Message a; y = Rec_Message b in
      if Msg_CreatedAt x = Msg_CreatedAt y then Msg_MessageID x > Msg_MessageID y
      else Msg_CreatedAt x > Msg_CreatedAt y)"

interpretation newest_first: comparator newer_record
  by unfold_locales (auto simp: newer_record_def Let_def split: if_splits)

definition ListMessageRecordsForAgent :: "memory_store \<Rightarrow> string \<Rightarrow> store_error + message_record list" where
  "ListMessageRecordsForAgent s agentUUID =
     (let agentUUID = TrimSpace agentUUID in
      if agentUUID = [] then Inl ErrAgentNotFound
      else if fmlookup (agents s) agentUUID = None then Inl ErrAgentNotFound
      else Inr (sort_by newer_record (filter
        (\<lambda>r. Msg_FromAgentUUID (Rec_Message r) = agentUUID \<or> Msg_ToAgentUUID (Rec_Message r) = agentUUID)
        (sorted_values (messageRecords s)))))"

definition leased_record :: "message_record \<Rightarrow> string \<Rightarrow> time \<Rightarrow> time \<Rightarrow> message_record" where
  "leased_record r deliveryID leasedAt leaseExpiresAt =
     r\<lparr>Rec_Status := MessageDeliveryLeased, Rec_UpdatedAt := leasedAt,
       Rec_FirstReceivedAt := (if Rec_FirstReceivedAt r = None then Some leasedAt
         else Rec_FirstReceivedAt r),
       Rec_LastLeasedAt := Some leasedAt, Rec_LeaseExpiresAt := Some leaseExpiresAt,
       Rec_DeliveryAttempts := Rec_DeliveryAttempts r + 1, Rec_LastDeliveryID := Some deliveryID\<rparr>"

definition LeaseMessage ::
  "string \<Rightarrow> string \<Rightarrow> string \<Rightarrow> time \<Rightarrow> time \<Rightarrow> memory_store \<Rightarrow>
    (store_error + message_delivery \<times> message_record) \<times> memory_store" where
  "LeaseMessage messageID receiverAgentUUID deliveryID leasedAt leaseExpiresAt s =
     (case fmlookup (messageRecords s) messageID of
        None \<Rightarrow> (Inl ErrMessageNotFound, s)
      | Some r \<Rightarrow>
          if Msg_ToAgentUUID (Rec_Message r) \<noteq> receiverAgentUUID then (Inl ErrMessageDeliveryMismatch, s)
          else
            let r = leased_record r deliveryID leasedAt leaseExpiresAt;
                m = Rec_Message r;
                s = (if Rec_DeliveryAttempts r > 1
                     then incrementRedeliveredLocked (Msg_SenderOrgID m) leasedAt s else s);
                delivery = \<lparr>Del_DeliveryID = deliveryID, Del_MessageID = Msg_MessageID m,
                  Del_AgentUUID = receiverAgentUUID, Del_Attempt = Rec_DeliveryAttempts r,
                  Del_LeasedAt = leasedAt, Del_LeaseExpiresAt = leaseExpiresAt\<rparr>;
                s = s\<lparr>messageRecords := fmupd messageID r (messageRecords s)\<rparr>;
                s = s\<lparr>messageDeliveries := fmupd deliveryID delivery (messageDeliveries s)\<rparr>;
                s = noteDeliveryAddedLocked delivery s;
                details = fmupd ''attempt'' (GInt (Rec_DeliveryAttempts r))
                  (fmupd ''delivery_id'' (GStr deliveryID) (messageAuditDetails m))
            in (Inr (delivery, r), auditMessage (Msg_ReceiverOrgID m) ''lease'' m details leasedAt s))"

text \<open>\<^verbatim>\<open>delete(s.messageDeliveries, deliveryID); s.noteDeliveryRemovedLocked(delivery)\<close>\<close>

definition endDelivery :: "string \<Rightarrow> message_delivery \<Rightarrow> memory_store \<Rightarrow> memory_store" where
  "endDelivery deliveryID delivery s =
     noteDeliveryRemovedLocked delivery
       (s\<lparr>messageDeliveries := fmdrop deliveryID (messageDeliveries s)\<rparr>)"

definition acked_record :: "message_record \<Rightarrow> time \<Rightarrow> message_record" where
  "acked_record r ackedAt =
     r\<lparr>Rec_Status := MessageDeliveryAcked, Rec_UpdatedAt := ackedAt, Rec_AckedAt := Some ackedAt,
       Rec_LeaseExpiresAt := None, Rec_LastFailureAt := None, Rec_LastFailureReason := []\<rparr>"

definition AckMessageDelivery ::
  "string \<Rightarrow> string \<Rightarrow> time \<Rightarrow> memory_store \<Rightarrow> (store_error + message_record) \<times> memory_store" where
  "AckMessageDelivery receiverAgentUUID deliveryID ackedAt s =
     (case fmlookup (messageDeliveries s) deliveryID of
        None \<Rightarrow> (Inl ErrMessageDeliveryNotFound, s)
      | Some delivery \<Rightarrow>
          if Del_AgentUUID delivery \<noteq> receiverAgentUUID then (Inl ErrMessageDeliveryMismatch, s)
          else case fmlookup (messageRecords s) (Del_MessageID delivery) of
            None \<Rightarrow> (Inl ErrMessageNotFound, endDelivery deliveryID delivery s)
          | Some r \<Rightarrow>
              let r = acked_record r ackedAt;
                  m = Rec_Message r;
                  s = endDelivery deliveryID delivery s;
                  s = s\<lparr>messageRecords := fmupd (Del_MessageID delivery) r (messageRecords s)\<rparr>;
                  s = incrementAckedLocked (Msg_SenderOrgID m) ackedAt s;
                  details = fmupd ''delivery_id'' (GStr deliveryID) (messageAuditDetails m)
              in (Inr r, auditMessage (Msg_ReceiverOrgID m) ''ack'' m details ackedAt s))"

definition requeued_record :: "message_record \<Rightarrow> string \<Rightarrow> time \<Rightarrow> message_record" where
  "requeued_record r reason now =
     r\<lparr>Rec_Status := MessageDeliveryQueued, Rec_UpdatedAt := now, Rec_LeaseExpiresAt := None,
       Rec_RequeueCount := Rec_RequeueCount r + 1, Rec_LastFailureReason := reason,
       Rec_LastFailureAt := Some now\<rparr>"

definition requeue_details :: "string \<Rightarrow> string \<Rightarrow> message \<Rightarrow> gmap" where
  "requeue_details deliveryID reason m =
     fmupd ''reason'' (GStr reason) (fmupd ''delivery_id'' (GStr deliveryID) (messageAuditDetails m))"

definition ReleaseMessageDelivery ::
  "string \<Rightarrow> string \<Rightarrow> time \<Rightarrow> string \<Rightarrow> memory_store \<Rightarrow>
    (store_error + message \<times> message_record) \<times> memory_store" where
  "ReleaseMessageDelivery receiverAgentUUID deliveryID now reason s =
     (case fmlookup (messageDeliveries s) deliveryID of
        None \<Rightarrow> (Inl ErrMessageDeliveryNotFound, s)
      | Some delivery \<Rightarrow>
          if Del_AgentUUID delivery \<noteq> receiverAgentUUID then (Inl ErrMessageDeliveryMismatch, s)
          else case fmlookup (messageRecords s) (Del_MessageID delivery) of
            None \<Rightarrow> (Inl ErrMessageNotFound,
              s\<lparr>messageDeliveries := fmdrop deliveryID (messageDeliveries s)\<rparr>)
          | Some r \<Rightarrow>
              let s = endDelivery deliveryID delivery s;
                  r = requeued_record r (TrimSpace reason) now;
                  m = Rec_Message r;
                  s = s\<lparr>messageRecords := fmupd (Del_MessageID delivery) r (messageRecords s)\<rparr>;
                  details = requeue_details deliveryID (TrimSpace reason) m
              in (Inr (m, r), auditMessage (Msg_ReceiverOrgID m) ''nack'' m details now s))"

text \<open>One round of the loop of \<^verbatim>\<open>ExpireMessageLeases\<close>, and the loop.\<close>

definition expireDelivery ::
  "time \<Rightarrow> string \<Rightarrow> message list \<times> memory_store \<Rightarrow> message list \<times> memory_store" where
  "expireDelivery now deliveryID acc =
     (let (out, s) = acc in
      case fmlookup (messageDeliveries s) deliveryID of
        None \<Rightarrow> (out, s)
      | Some delivery \<Rightarrow>
          if Del_LeaseExpiresAt delivery > now then (out, s)
          else case fmlookup (messageRecords s) (Del_MessageID delivery) of
            None \<Rightarrow> (out, endDelivery deliveryID delivery s)
          | Some r \<Rightarrow>
              let s = endDelivery deliveryID delivery s;
                  r = requeued_record r ''lease_expired'' now;
                  m = Rec_Message r;
                  s = s\<lparr>messageRecords := fmupd (Del_MessageID delivery) r (messageRecords s)\<rparr>;
                  s = incrementExpiredLocked (Msg_SenderOrgID m) now s;
                  details = requeue_details deliveryID ''lease_expired'' m
              in (out @ [m], auditMessage (Msg_ReceiverOrgID m) ''lease_expire'' m details now s))"

definition ExpireMessageLeases :: "time \<Rightarrow> memory_store \<Rightarrow> message list \<times> memory_store" where
  "ExpireMessageLeases now s = fold (expireDelivery now) (sorted_keys (messageDeliveries s)) ([], s)"

definition RecordMessageQueued :: "string \<Rightarrow> time \<Rightarrow> memory_store \<Rightarrow> memory_store" where
  "RecordMessageQueued orgID timeNow s = incrementQueuedLocked orgID timeNow s"

definition RecordMessageDropped :: "string \<Rightarrow> time \<Rightarrow> memory_store \<Rightarrow> memory_store" where
  "RecordMessageDropped orgID timeNow s =
     (let s = incrementDroppedLocked orgID timeNow s in
      if TrimSpace orgID = [] then s
      else appendAuditLocked orgID [] ''message'' ''drop'' orgID
        (gmap_of [(''reason'', GStr ''no_trust_path_or_policy'')]) timeNow s)"

section \<open>What the operations leave alone\<close>

lemma increment_fields:
  fixes c orgID now s
  defines "t \<equiv> increment c orgID now s"
  shows "orgs t = orgs s" "orgByHandle t = orgByHandle s"
    "personalOrgByHuman t = personalOrgByHuman s" "archivedOrgs t = archivedOrgs s"
    "humans t = humans s" "humanByAuthKey t = humanByAuthKey s"
    "humanByHandle t = humanByHandle s" "archivedHumans t = archivedHumans s"
    "humanPresence t = humanPresence s" "memberships t = memberships s"
    "membershipByOrgUser t = membershipByOrgUser s" "invites t = invites s"
    "inviteBySecretHash t = inviteBySecretHash s" "orgAccessKeys t = orgAccessKeys s"
    "orgAccessKeyByHash t = orgAccessKeyByHash s" "archivedAgents t = archivedAgents s"
    "agentByURI t = agentByURI s" "agentTokenIdx t = agentTokenIdx s"
    "orgOwnedAgentNameIdx t = orgOwnedAgentNameIdx s"
    "humanOwnedAgentNameIdx t = humanOwnedAgentNameIdx s" "queues t = queues s"
    "messageRecords t = messageRecords s" "messageByClientMsg t = messageByClientMsg s"
    "messageDeliveries t = messageDeliveries s" "queueMetrics t = queueMetrics s"
    "binds t = binds s" "bindByHash t = bindByHash s" "orgTrusts t = orgTrusts s"
    "orgTrustByPair t = orgTrustByPair s" "agentTrusts t = agentTrusts s"
    "agentTrustByPair t = agentTrustByPair s" "peerInstances t = peerInstances s"
    "peerByCanonicalBase t = peerByCanonicalBase s" "remoteOrgTrusts t = remoteOrgTrusts s"
    "remoteOrgTrustByKey t = remoteOrgTrustByKey s" "remoteAgentTrusts t = remoteAgentTrusts s"
    "remoteAgentTrustByKey t = remoteAgentTrustByKey s" "peerOutbounds t = peerOutbounds s"
    "peerOutboundByPeer t = peerOutboundByPeer s" "agentPresence t = agentPresence s"
    "agents t = agents s" "auditByOrg t = auditByOrg s"
  unfolding t_def
  by (cases c; simp add: increment_defs ensureOrgStatsLocked_def incrementDailyLocked_def Let_def
      split: option.split)+

lemmas counter_fields [simp, stats_frame] =
  increment_fields [where c = Queued, simplified] increment_fields [where c = Dropped, simplified]
  increment_fields [where c = Acked, simplified] increment_fields [where c = Expired, simplified]
  increment_fields [where c = Redelivered, simplified]
  increment_fields [where c = Duplicate, simplified]

lemma auditMessage_fields [simp, audit_frame]:
  fixes org action m details now s
  defines "t \<equiv> auditMessage org action m details now s"
  shows "orgs t = orgs s" "orgByHandle t = orgByHandle s"
    "personalOrgByHuman t = personalOrgByHuman s" "archivedOrgs t = archivedOrgs s"
    "humans t = humans s" "humanByAuthKey t = humanByAuthKey s"
    "humanByHandle t = humanByHandle s" "archivedHumans t = archivedHumans s"
    "humanPresence t = humanPresence s" "memberships t = memberships s"
    "membershipByOrgUser t = membershipByOrgUser s" "invites t = invites s"
    "inviteBySecretHash t = inviteBySecretHash s" "orgAccessKeys t = orgAccessKeys s"
    "orgAccessKeyByHash t = orgAccessKeyByHash s" "archivedAgents t = archivedAgents s"
    "agentByURI t = agentByURI s" "agentTokenIdx t = agentTokenIdx s"
    "orgOwnedAgentNameIdx t = orgOwnedAgentNameIdx s"
    "humanOwnedAgentNameIdx t = humanOwnedAgentNameIdx s" "queues t = queues s"
    "messageRecords t = messageRecords s" "messageByClientMsg t = messageByClientMsg s"
    "messageDeliveries t = messageDeliveries s" "queueMetrics t = queueMetrics s"
    "binds t = binds s" "bindByHash t = bindByHash s" "orgTrusts t = orgTrusts s"
    "orgTrustByPair t = orgTrustByPair s" "agentTrusts t = agentTrusts s"
    "agentTrustByPair t = agentTrustByPair s" "peerInstances t = peerInstances s"
    "peerByCanonicalBase t = peerByCanonicalBase s" "remoteOrgTrusts t = remoteOrgTrusts s"
    "remoteOrgTrustByKey t = remoteOrgTrustByKey s" "remoteAgentTrusts t = remoteAgentTrusts s"
    "remoteAgentTrustByKey t = remoteAgentTrustByKey s" "peerOutbounds t = peerOutbounds s"
    "peerOutboundByPeer t = peerOutboundByPeer s" "agentPresence t = agentPresence s"
    "agent_cores t = agent_cores s"
  unfolding t_def by (simp_all add: auditMessage_def)

lemma noteDelivery_fields [simp, metrics_frame]:
  fixes v s
  defines "t \<equiv> noteDeliveryAddedLocked v s"
  shows "orgs t = orgs s" "orgByHandle t = orgByHandle s"
    "personalOrgByHuman t = personalOrgByHuman s" "archivedOrgs t = archivedOrgs s"
    "humans t = humans s" "humanByAuthKey t = humanByAuthKey s"
    "humanByHandle t = humanByHandle s" "archivedHumans t = archivedHumans s"
    "humanPresence t = humanPresence s" "memberships t = memberships s"
    "membershipByOrgUser t = membershipByOrgUser s" "invites t = invites s"
    "inviteBySecretHash t = inviteBySecretHash s" "orgAccessKeys t = orgAccessKeys s"
    "orgAccessKeyByHash t = orgAccessKeyByHash s" "archivedAgents t = archivedAgents s"
    "agentByURI t = agentByURI s" "agentTokenIdx t = agentTokenIdx s"
    "orgOwnedAgentNameIdx t = orgOwnedAgentNameIdx s"
    "humanOwnedAgentNameIdx t = humanOwnedAgentNameIdx s" "queues t = queues s"
    "messageRecords t = messageRecords s" "messageByClientMsg t = messageByClientMsg s"
    "messageDeliveries t = messageDeliveries s" "binds t = binds s" "bindByHash t = bindByHash s"
    "orgTrusts t = orgTrusts s" "orgTrustByPair t = orgTrustByPair s"
    "agentTrusts t = agentTrusts s" "agentTrustByPair t = agentTrustByPair s"
    "peerInstances t = peerInstances s" "peerByCanonicalBase t = peerByCanonicalBase s"
    "remoteOrgTrusts t = remoteOrgTrusts s" "remoteOrgTrustByKey t = remoteOrgTrustByKey s"
    "remoteAgentTrusts t = remoteAgentTrusts s"
    "remoteAgentTrustByKey t = remoteAgentTrustByKey s" "peerOutbounds t = peerOutbounds s"
    "peerOutboundByPeer t = peerOutboundByPeer s" "agentPresence t = agentPresence s"
    "agents t = agents s"
  unfolding t_def by (simp_all add: noteDeliveryAddedLocked_def Let_def)

lemma endDelivery_fields [simp, metrics_frame]:
  fixes d v s
  defines "t \<equiv> endDelivery d v s"
  shows "orgs t = orgs s" "orgByHandle t = orgByHandle s"
    "personalOrgByHuman t = personalOrgByHuman s" "archivedOrgs t = archivedOrgs s"
    "humans t = humans s" "humanByAuthKey t = humanByAuthKey s"
    "humanByHandle t = humanByHandle s" "archivedHumans t = archivedHumans s"
    "humanPresence t = humanPresence s" "memberships t = memberships s"
    "membershipByOrgUser t = membershipByOrgUser s" "invites t = invites s"
    "inviteBySecretHash t = inviteBySecretHash s" "orgAccessKeys t = orgAccessKeys s"
    "orgAccessKeyByHash t = orgAccessKeyByHash s" "archivedAgents t = archivedAgents s"
    "agentByURI t = agentByURI s" "agentTokenIdx t = agentTokenIdx s"
    "orgOwnedAgentNameIdx t = orgOwnedAgentNameIdx s"
    "humanOwnedAgentNameIdx t = humanOwnedAgentNameIdx s" "queues t = queues s"
    "messageRecords t = messageRecords s" "messageByClientMsg t = messageByClientMsg s"
    "binds t = binds s" "bindByHash t = bindByHash s" "orgTrusts t = orgTrusts s"
    "orgTrustByPair t = orgTrustByPair s" "agentTrusts t = agentTrusts s"
    "agentTrustByPair t = agentTrustByPair s" "peerInstances t = peerInstances s"
    "peerByCanonicalBase t = peerByCanonicalBase s" "remoteOrgTrusts t = remoteOrgTrusts s"
    "remoteOrgTrustByKey t = remoteOrgTrustByKey s" "remoteAgentTrusts t = remoteAgentTrusts s"
    "remoteAgentTrustByKey t = remoteAgentTrustByKey s" "peerOutbounds t = peerOutbounds s"
    "peerOutboundByPeer t = peerOutboundByPeer s" "agentPresence t = agentPresence s"
    "agents t = agents s"
    "messageDeliveries t = fmdrop d (messageDeliveries s)"
  unfolding t_def by (simp_all add: endDelivery_def noteDeliveryRemovedLocked_def Let_def)

lemma agent_cores_same: "agents t = agents s \<Longrightarrow> agent_cores t = agent_cores s"
  by (simp add: agent_cores_def)

end
