(* ===== verification/MessageFlow.thy ===== *)
theory MessageFlow
  imports Messages
begin

text \<open>
  Where a message is.  Between the operations of the store a message may be in the hands of
  a request that has taken it from one place and not yet put it into another (dequeued and
  not yet leased, released and not yet requeued); requests interleave, because each
  operation takes the store's lock on its own.  Whatever they do, a message is never in two
  places at once, and one that was acknowledged is never handed out again.
\<close>

section \<open>Custody of messages\<close>

abbreviation "mid \<equiv> Msg_MessageID"
abbreviation "mto \<equiv> Msg_ToAgentUUID"

definition held :: "string \<Rightarrow> string \<Rightarrow> message_record gomap \<Rightarrow> bool" where
  "held i u R \<longleftrightarrow> (\<exists>r. fmlookup R i = Some r \<and> Rec_Status r = MessageDeliveryQueued \<and> mto (Rec_Message r) = u)"

definition queues_ok :: "(string \<Rightarrow> message list) \<Rightarrow> message_record gomap \<Rightarrow> bool" where
  "queues_ok Q R \<longleftrightarrow> Q [] = [] \<and> (\<forall>u. distinct (map mid (Q u)) \<and>
     (\<forall>m \<in> set (Q u). mto m = u \<and> held (mid m) u R))"

definition deliveries_ok :: "message_record gomap \<Rightarrow> message_delivery gomap \<Rightarrow> bool" where
  "deliveries_ok R D \<longleftrightarrow> (\<forall>d v. fmlookup D d = Some v \<longrightarrow>
     (\<exists>r. fmlookup R (Del_MessageID v) = Some r \<and> Rec_Status r = MessageDeliveryLeased \<and>
        Rec_LastDeliveryID r = Some d \<and> mto (Rec_Message r) = Del_AgentUUID v \<and>
        mto (Rec_Message r) \<noteq> []))"

definition records_ok :: "message_record gomap \<Rightarrow> bool" where
  "records_ok R \<longleftrightarrow> (\<forall>i r. fmlookup R i = Some r \<longrightarrow> mid (Rec_Message r) = i)"

definition hands_ok :: "(string \<Rightarrow> message list) \<Rightarrow> message_record gomap \<Rightarrow> message list \<Rightarrow> bool" where
  "hands_ok Q R H \<longleftrightarrow> distinct (map mid H) \<and>
     (\<forall>m \<in> set H. mto m \<noteq> [] \<and> held (mid m) (mto m) R \<and> mid m \<notin> mid ` set (Q (mto m)))"

definition custody ::
  "(string \<Rightarrow> message list) \<Rightarrow> message_record gomap \<Rightarrow> message_delivery gomap \<Rightarrow> message list \<Rightarrow> bool" where
  "custody Q R D H \<longleftrightarrow> queues_ok Q R \<and> deliveries_ok R D \<and> records_ok R \<and> hands_ok Q R H"

lemma custodyD:
  assumes "custody Q R D H"
  shows "queues_ok Q R" "deliveries_ok R D" "records_ok R" "hands_ok Q R H"
  using assms by (simp_all add: custody_def)

lemma queuedD:
  assumes "queues_ok Q R" and "m \<in> set (Q u)"
  shows "mto m = u" "held (mid m) u R" "u \<noteq> []"
  using assms by (auto simp: queues_ok_def)

lemma handD:
  assumes "hands_ok Q R H" and "m \<in> set H"
  shows "mto m \<noteq> []" "held (mid m) (mto m) R" "mid m \<notin> mid ` set (Q (mto m))"
  using assms by (simp_all add: hands_ok_def)

lemma recordD: "records_ok R \<Longrightarrow> fmlookup R i = Some r \<Longrightarrow> mid (Rec_Message r) = i"
  by (simp add: records_ok_def)

lemma held_upd: "held i u (fmupd j r R) \<longleftrightarrow> (if j = i then
    Rec_Status r = MessageDeliveryQueued \<and> mto (Rec_Message r) = u else held i u R)"
  by (auto simp: held_def)

lemma held_drop: "held i u (fmdrop j R) \<longleftrightarrow> j \<noteq> i \<and> held i u R"
  by (auto simp: held_def)

lemma held_status: "held i u R \<Longrightarrow> fmlookup R i = Some r \<Longrightarrow>
    Rec_Status r = MessageDeliveryQueued \<and> mto (Rec_Message r) = u"
  by (auto simp: held_def)

lemma held_some: "held i u R \<Longrightarrow> fmlookup R i \<noteq> None"
  by (auto simp: held_def)

lemma delivery_record:
  assumes "deliveries_ok R D" and "fmlookup D d = Some v"
  obtains r where "fmlookup R (Del_MessageID v) = Some r" "Rec_Status r = MessageDeliveryLeased"
    "Rec_LastDeliveryID r = Some d" "mto (Rec_Message r) = Del_AgentUUID v" "mto (Rec_Message r) \<noteq> []"
  using assms unfolding deliveries_ok_def by blast

lemma deliveries_ok_upd:
  assumes ok: "deliveries_ok R D" and nod: "\<And>d v. fmlookup D d = Some v \<Longrightarrow> Del_MessageID v \<noteq> i"
  shows "deliveries_ok (fmupd i r R) D"
  unfolding deliveries_ok_def
proof (intro allI impI)
  fix d v assume v: "fmlookup D d = Some v"
  obtain q where "fmlookup R (Del_MessageID v) = Some q" "Rec_Status q = MessageDeliveryLeased"
    "Rec_LastDeliveryID q = Some d" "mto (Rec_Message q) = Del_AgentUUID v" "mto (Rec_Message q) \<noteq> []"
    using delivery_record [OF ok v] by metis
  with nod [OF v] show "\<exists>q. fmlookup (fmupd i r R) (Del_MessageID v) = Some q \<and>
      Rec_Status q = MessageDeliveryLeased \<and> Rec_LastDeliveryID q = Some d \<and>
      mto (Rec_Message q) = Del_AgentUUID v \<and> mto (Rec_Message q) \<noteq> []"
    by (intro exI [of _ q]) simp
qed

lemma queues_ok_mono:
  assumes ok: "queues_ok Q R"
    and keep: "\<And>i u m. m \<in> set (Q u) \<Longrightarrow> mid m = i \<Longrightarrow> u \<noteq> [] \<Longrightarrow> held i u R \<Longrightarrow> held i u R'"
  shows "queues_ok Q R'"
  unfolding queues_ok_def
proof (intro conjI allI ballI)
  show "Q [] = []" "distinct (map mid (Q u))" for u using ok by (simp_all add: queues_ok_def)
  show "mto m = u" "held (mid m) u R'" if "m \<in> set (Q u)" for m u
    using queuedD [of Q R m u, OF ok that] keep [OF that] by blast+
qed

lemma hands_ok_mono:
  assumes "hands_ok Q R H"
    and "\<And>i u m. m \<in> set H \<Longrightarrow> mid m = i \<Longrightarrow> u \<noteq> [] \<Longrightarrow> held i u R \<Longrightarrow> held i u R'"
  shows "hands_ok Q R' H"
  using assms unfolding hands_ok_def by blast

text \<open>A record that no queue, no request and no delivery holds may change as it likes.\<close>

lemma custody_upd_free:
  assumes c: "custody Q R D H" and r: "mid (Rec_Message r) = i"
    and free: "\<And>u. u \<noteq> [] \<Longrightarrow> \<not> held i u R" and nod: "\<And>d v. fmlookup D d = Some v \<Longrightarrow> Del_MessageID v \<noteq> i"
  shows "custody Q (fmupd i r R) D H"
proof -
  note c = custodyD [OF c]
  have keep: "u \<noteq> [] \<Longrightarrow> held j u R \<Longrightarrow> held j u (fmupd i r R)" for j u
    using free [of u] by (cases "j = i") (auto simp: held_upd)
  have "records_ok (fmupd i r R)" using c(3) r by (auto simp: records_ok_def)
  moreover have "queues_ok Q (fmupd i r R)" by (rule queues_ok_mono [OF c(1)]) (rule keep)
  moreover have "hands_ok Q (fmupd i r R) H" by (rule hands_ok_mono [OF c(4)]) (rule keep)
  moreover have "deliveries_ok (fmupd i r R) D" by (rule deliveries_ok_upd [OF c(2)]) (rule nod)
  ultimately show ?thesis by (simp add: custody_def)
qed

text \<open>A record may change in everything but its message, its status and its last delivery.\<close>

lemma custody_upd_same:
  assumes c: "custody Q R D H" and r: "fmlookup R i = Some r"
    and same: "Rec_Message r' = Rec_Message r" "Rec_Status r' = Rec_Status r"
      "Rec_LastDeliveryID r' = Rec_LastDeliveryID r"
  shows "custody Q (fmupd i r' R) D H"
proof -
  note c = custodyD [OF c]
  have keep: "held j u (fmupd i r' R) = held j u R" for j u
    using r same by (auto simp: held_def)
  have "deliveries_ok (fmupd i r' R) D"
    unfolding deliveries_ok_def
  proof (intro allI impI)
    fix d v assume v: "fmlookup D d = Some v"
    obtain q where q: "fmlookup R (Del_MessageID v) = Some q" "Rec_Status q = MessageDeliveryLeased"
      "Rec_LastDeliveryID q = Some d" "mto (Rec_Message q) = Del_AgentUUID v" "mto (Rec_Message q) \<noteq> []"
      using delivery_record [OF c(2) v] by metis
    show "\<exists>q. fmlookup (fmupd i r' R) (Del_MessageID v) = Some q \<and>
        Rec_Status q = MessageDeliveryLeased \<and> Rec_LastDeliveryID q = Some d \<and>
        mto (Rec_Message q) = Del_AgentUUID v \<and> mto (Rec_Message q) \<noteq> []"
    proof (cases "Del_MessageID v = i")
      case True
      with q r same show ?thesis by (intro exI [of _ r']) simp
    next
      case False
      with q show ?thesis by (intro exI [of _ q]) simp
    qed
  qed
  moreover have "records_ok (fmupd i r' R)"
    using c(3) r same by (auto simp: records_ok_def)
  ultimately show ?thesis using c by (simp add: custody_def queues_ok_def hands_ok_def keep)
qed

lemma no_delivery:
  assumes "deliveries_ok R D" and "fmlookup D d = Some v"
  shows "fmlookup R (Del_MessageID v) \<noteq> None" "\<not> held (Del_MessageID v) u R"
  using assms by (auto elim!: delivery_record [rotated] simp: held_def)

lemma custody_new:
  assumes c: "custody Q R D H" and i: "fmlookup R (mid m) = None"
    and r: "Rec_Message r = m" "Rec_Status r = MessageDeliveryQueued"
  shows "custody Q (fmupd (mid m) r R) D H"
    and "mto m \<noteq> [] \<Longrightarrow> custody Q (fmupd (mid m) r R) D (m # H)"
proof -
  note k = custodyD [OF c]
  have free: "\<not> held (mid m) u R" for u using i by (simp add: held_def)
  have nod: "Del_MessageID v \<noteq> mid m" if "fmlookup D d = Some v" for d v
    using no_delivery(1) [OF k(2) that] i by auto
  show c': "custody Q (fmupd (mid m) r R) D H"
    using c r free nod by (intro custody_upd_free) auto
  assume m: "mto m \<noteq> []"
  have h: "mid x \<noteq> mid m" if "x \<in> set H" for x
    using handD(2) [OF k(4) that] free by metis
  have q: "mid x \<noteq> mid m" if "x \<in> set (Q u)" for x u
    using queuedD(2) [OF k(1) that] free by metis
  have "held (mid m) (mto m) (fmupd (mid m) r R)" using r by (simp add: held_upd)
  moreover have "mid m \<notin> mid ` set H" "mid m \<notin> mid ` set (Q (mto m))" using h q by force+
  ultimately show "custody Q (fmupd (mid m) r R) D (m # H)"
    using custodyD [OF c'] m by (simp add: custody_def hands_ok_def)
qed

lemma hand_other:
  assumes "hands_ok Q R H" and "m \<in> set H" and "x \<in> set (remove1 m H)"
  shows "mid x \<noteq> mid m" and "x \<in> set H"
proof -
  have d: "distinct H" "inj_on mid (set H)" using assms(1) by (simp_all add: hands_ok_def distinct_map)
  with assms(3) have "x \<in> set H" "x \<noteq> m" by auto
  with d(2) assms(2) show "mid x \<noteq> mid m" "x \<in> set H" by (auto simp: inj_on_def)
qed

lemma hands_remove:
  assumes "hands_ok Q R H"
  shows "hands_ok Q R (remove1 m H)"
proof -
  have d: "distinct H" "inj_on mid (set H)" using assms by (simp_all add: hands_ok_def distinct_map)
  have "set (remove1 m H) \<subseteq> set H" by (rule set_remove1_subset)
  with d have "distinct (map mid (remove1 m H))"
    by (simp add: distinct_map inj_on_subset)
  with assms \<open>set (remove1 m H) \<subseteq> set H\<close> show ?thesis unfolding hands_ok_def by blast
qed

lemma custody_drop: "custody Q R D H \<Longrightarrow> custody Q R D (remove1 m H)"
  by (simp add: custody_def hands_remove)

lemma custody_enqueue:
  assumes c: "custody Q R D H" and m: "m \<in> set H" and m': "mid m' = mid m" "mto m' = mto m"
  shows "custody (Q(mto m := Q (mto m) @ [m'])) R D (remove1 m H)"
proof -
  let ?Q = "Q(mto m := Q (mto m) @ [m'])"
  note k = custodyD [OF c] and h = handD [OF custodyD(4) [OF c] m]
  have "?Q [] = []" using k(1) h(1) by (simp add: queues_ok_def)
  moreover have "distinct (map mid (?Q u))" for u
    using k(1) h(3) m'(1) by (simp add: queues_ok_def)
  moreover have "mto x = u \<and> held (mid x) u R" if "x \<in> set (?Q u)" for x u
    using that queuedD(1,2) [OF k(1)] h(2) m' by (auto split: if_splits)
  ultimately have "queues_ok ?Q R" unfolding queues_ok_def by blast
  moreover have "hands_ok ?Q R (remove1 m H)"
    unfolding hands_ok_def
  proof (intro conjI ballI)
    show "distinct (map mid (remove1 m H))" using hands_remove [OF k(4)] by (simp add: hands_ok_def)
    fix x assume x: "x \<in> set (remove1 m H)"
    note o = hand_other [OF k(4) m x]
    note hx = handD [OF k(4) o(2)]
    show "mto x \<noteq> []" "held (mid x) (mto x) R" by (fact hx)+
    show "mid x \<notin> mid ` set (?Q (mto x))" using hx(3) o(1) m'(1) by auto
  qed
  ultimately show ?thesis using k by (simp add: custody_def)
qed

lemma custody_dequeue:
  assumes c: "custody Q R D H" and q: "Q u = m # rest"
  shows "custody (Q(u := rest)) R D (m # H)"
proof -
  let ?Q = "Q(u := rest)"
  note k = custodyD [OF c]
  have "m \<in> set (Q u)" using q by simp
  note m = queuedD [OF k(1) this]
  have dist: "distinct (map mid (Q v))" for v using k(1) by (simp add: queues_ok_def)
  then have rest: "mid m \<notin> mid ` set rest" "distinct (map mid rest)"
    using dist [of u] by (simp_all add: q)
  have sub: "set (?Q v) \<subseteq> set (Q v)" for v using q by auto
  have "?Q [] = []" using k(1) m(3) by (simp add: queues_ok_def)
  moreover have "distinct (map mid (?Q v))" for v using dist rest(2) by simp
  moreover have "mto x = v \<and> held (mid x) v R" if "x \<in> set (?Q v)" for x v
    using that sub queuedD(1,2) [OF k(1)] by blast
  ultimately have "queues_ok ?Q R" unfolding queues_ok_def by blast
  moreover have "mid x \<noteq> mid m" if x: "x \<in> set H" for x
  proof
    assume eq: "mid x = mid m"
    note h = handD [OF k(4) x]
    have "mto x = u" using h(2) m(2) eq by (auto simp: held_def)
    with h(3) eq \<open>m \<in> set (Q u)\<close> show False by auto
  qed
  then have "mid m \<notin> mid ` set H" by force
  moreover have "mid x \<notin> mid ` set (?Q (mto x))" if "x \<in> set H" for x
    using handD(3) [OF k(4) that] sub [of "mto x"] by blast
  ultimately show ?thesis
    using k m rest by (simp add: custody_def hands_ok_def)
qed

text \<open>A message in hand is held by nothing else, so its record may go, or be leased.\<close>

lemma hand_exclusive:
  assumes c: "custody Q R D H" and m: "m \<in> set H"
  shows "\<And>x u. x \<in> set (Q u) \<Longrightarrow> mid x \<noteq> mid m" "\<And>x. x \<in> set (remove1 m H) \<Longrightarrow> mid x \<noteq> mid m"
    "\<And>d v. fmlookup D d = Some v \<Longrightarrow> Del_MessageID v \<noteq> mid m"
proof -
  note k = custodyD [OF c] and h = handD [OF custodyD(4) [OF c] m]
  show "mid x \<noteq> mid m" if x: "x \<in> set (Q u)" for x u
  proof
    assume eq: "mid x = mid m"
    have "u = mto m" using queuedD(2) [of Q R x u, OF k(1) x] h(2) eq by (auto simp: held_def)
    with x have "mid x \<in> mid ` set (Q (mto m))" by blast
    with h(3) eq show False by simp
  qed
  show "mid x \<noteq> mid m" if "x \<in> set (remove1 m H)" for x
    using hand_other(1) [OF k(4) m that] .
  show "Del_MessageID v \<noteq> mid m" if "fmlookup D d = Some v" for d v
    using no_delivery(2) [OF k(2) that, of "mto m"] h(2) by metis
qed

lemma custody_rest:
  assumes c: "custody Q R D H" and m: "m \<in> set H"
    and keep: "\<And>j u. j \<noteq> mid m \<Longrightarrow> held j u R \<Longrightarrow> held j u R'"
  shows "queues_ok Q R'" "hands_ok Q R' (remove1 m H)"
proof -
  note k = custodyD [OF c] and x = hand_exclusive [OF c m]
  show "queues_ok Q R'"
  proof (rule queues_ok_mono [OF k(1)])
    show "held i u R'" if "y \<in> set (Q u)" "mid y = i" "held i u R" for i u y
      using x(1) [OF that(1)] keep that(2,3) by blast
  qed
  show "hands_ok Q R' (remove1 m H)"
  proof (rule hands_ok_mono [OF hands_remove [OF k(4)]])
    show "held i u R'" if "y \<in> set (remove1 m H)" "mid y = i" "held i u R" for i u y
      using x(2) [OF that(1)] keep that(2,3) by blast
  qed
qed

lemma custody_abort:
  assumes c: "custody Q R D H" and m: "m \<in> set H"
  shows "custody Q (fmdrop (mid m) R) D (remove1 m H)"
proof -
  note k = custodyD [OF c] and x = hand_exclusive [OF c m]
  have keep: "j \<noteq> mid m \<Longrightarrow> held j u R \<Longrightarrow> held j u (fmdrop (mid m) R)" for j u
    by (simp add: held_drop)
  have "deliveries_ok (fmdrop (mid m) R) D"
    unfolding deliveries_ok_def
  proof (intro allI impI)
    fix d v assume v: "fmlookup D d = Some v"
    show "\<exists>r. fmlookup (fmdrop (mid m) R) (Del_MessageID v) = Some r \<and>
        Rec_Status r = MessageDeliveryLeased \<and> Rec_LastDeliveryID r = Some d \<and>
        mto (Rec_Message r) = Del_AgentUUID v \<and> mto (Rec_Message r) \<noteq> []"
      using k(2) v x(3) [OF v] unfolding deliveries_ok_def by simp
  qed
  moreover have "records_ok (fmdrop (mid m) R)" using k(3) by (simp add: records_ok_def)
  ultimately show ?thesis
    using custody_rest [OF c m keep] by (simp add: custody_def)
qed

lemma custody_lease:
  assumes c: "custody Q R D H" and m: "m \<in> set H" and r: "fmlookup R (mid m) = Some r"
    and d: "fmlookup D d = None"
    and r': "Rec_Message r' = Rec_Message r" "Rec_Status r' = MessageDeliveryLeased"
      "Rec_LastDeliveryID r' = Some d"
    and v: "Del_MessageID v = mid m" "Del_AgentUUID v = mto (Rec_Message r)"
  shows "custody Q (fmupd (mid m) r' R) (fmupd d v D) (remove1 m H)"
proof -
  note k = custodyD [OF c] and x = hand_exclusive [OF c m] and h = handD [OF custodyD(4) [OF c] m]
  have to: "mto (Rec_Message r) \<noteq> []" using h(1,2) r by (auto simp: held_def)
  have keep: "j \<noteq> mid m \<Longrightarrow> held j u R \<Longrightarrow> held j u (fmupd (mid m) r' R)" for j u
    by (simp add: held_upd)
  have "deliveries_ok (fmupd (mid m) r' R) D" by (rule deliveries_ok_upd [OF k(2)]) (rule x(3))
  then have "deliveries_ok (fmupd (mid m) r' R) (fmupd d v D)"
    using r' v to unfolding deliveries_ok_def by auto
  moreover have "records_ok (fmupd (mid m) r' R)"
    using k(3) r r'(1) by (auto simp: records_ok_def)
  ultimately show ?thesis
    using custody_rest [OF c m keep] by (simp add: custody_def)
qed

text \<open>The only delivery of a message ends: nothing holds the message any more.\<close>

lemma delivery_exclusive:
  assumes c: "custody Q R D H" and d: "fmlookup D d = Some v"
  shows "\<not> held (Del_MessageID v) u R"
    "\<And>e w. fmlookup (fmdrop d D) e = Some w \<Longrightarrow> Del_MessageID w \<noteq> Del_MessageID v"
proof -
  note k = custodyD [OF c]
  show "\<not> held (Del_MessageID v) u R" by (rule no_delivery(2) [OF k(2) d])
  fix e w assume w: "fmlookup (fmdrop d D) e = Some w"
  then have w': "fmlookup D e = Some w" "e \<noteq> d" by (auto split: if_splits)
  obtain r where "fmlookup R (Del_MessageID v) = Some r" "Rec_LastDeliveryID r = Some d"
    using delivery_record [OF k(2) d] by metis
  moreover obtain q where "fmlookup R (Del_MessageID w) = Some q" "Rec_LastDeliveryID q = Some e"
    using delivery_record [OF k(2) w'(1)] by metis
  ultimately show "Del_MessageID w \<noteq> Del_MessageID v" using w'(2) by auto
qed

lemma deliveries_ok_fmdrop: "deliveries_ok R D \<Longrightarrow> deliveries_ok R (fmdrop d D)"
  unfolding deliveries_ok_def by simp

lemma custody_end:
  assumes c: "custody Q R D H" and d: "fmlookup D d = Some v"
    and r: "mid (Rec_Message r) = Del_MessageID v"
  shows "custody Q (fmupd (Del_MessageID v) r R) (fmdrop d D) H"
proof (rule custody_upd_free)
  show "custody Q R (fmdrop d D) H" using c by (simp add: custody_def deliveries_ok_fmdrop)
  show "\<not> held (Del_MessageID v) u R" for u by (rule delivery_exclusive(1) [OF c d])
  show "Del_MessageID w \<noteq> Del_MessageID v" if "fmlookup (fmdrop d D) e = Some w" for e w
    by (rule delivery_exclusive(2) [OF c d that])
qed (rule r)

lemma custody_release:
  assumes c: "custody Q R D H" and d: "fmlookup D d = Some v"
    and r: "fmlookup R (Del_MessageID v) = Some r"
    and r': "Rec_Message r' = Rec_Message r" "Rec_Status r' = MessageDeliveryQueued"
  shows "custody Q (fmupd (Del_MessageID v) r' R) (fmdrop d D) (Rec_Message r # H)"
proof -
  note k = custodyD [OF c]
  have id: "mid (Rec_Message r) = Del_MessageID v" by (rule recordD [OF k(3) r])
  have c': "custody Q (fmupd (Del_MessageID v) r' R) (fmdrop d D) H"
    by (rule custody_end [OF c d]) (simp add: r' id)
  have to: "mto (Rec_Message r) \<noteq> []" using delivery_record [OF k(2) d] r by (metis option.inject)
  have free: "\<not> held (Del_MessageID v) u R" for u by (rule delivery_exclusive(1) [OF c d])
  have h: "mid x \<noteq> Del_MessageID v" if "x \<in> set H" for x
    using handD(2) [OF k(4) that] free by metis
  have q: "mid x \<noteq> Del_MessageID v" if "x \<in> set (Q u)" for x u
    using queuedD(2) [OF k(1) that] free by metis
  have "held (Del_MessageID v) (mto (Rec_Message r)) (fmupd (Del_MessageID v) r' R)"
    using r' by (simp add: held_upd)
  moreover have "Del_MessageID v \<notin> mid ` set H" "Del_MessageID v \<notin> mid ` set (Q u)" for u
    using h q by force+
  ultimately show ?thesis using custodyD [OF c'] to id by (simp add: custody_def hands_ok_def)
qed

lemma custody_shrink:
  assumes c: "custody Q R D H" and sub: "\<And>u. \<exists>p. Q' u = filter p (Q u)"
  shows "custody Q' R D H"
proof -
  note k = custodyD [OF c]
  have set: "set (Q' u) \<subseteq> set (Q u)" for u using sub [of u] by auto
  have "queues_ok Q' R"
    unfolding queues_ok_def
  proof (intro conjI allI ballI)
    show "Q' [] = []" using sub [of "[]"] k(1) by (auto simp: queues_ok_def)
    show "distinct (map mid (Q' u))" for u
      using k(1) sub [of u] by (auto simp: queues_ok_def distinct_map_filter)
    show "mto m = u" "held (mid m) u R" if "m \<in> set (Q' u)" for m u
      using queuedD(1,2) [OF k(1)] set that by blast+
  qed
  moreover have "hands_ok Q' R H" using k(4) set unfolding hands_ok_def by blast
  ultimately show ?thesis using k by (simp add: custody_def)
qed

section \<open>The abstract machine\<close>

text \<open>
  The moves of messages between queues, requests, deliveries and records, as a step relation
  on the four: first the moves of requests that succeed, then the ways a request or an
  administrator lets go of a message.
\<close>

type_synonym places =
  "(string \<Rightarrow> message list) \<times> message_record gomap \<times> message_delivery gomap \<times> message list"

inductive move :: "places \<Rightarrow> places \<Rightarrow> bool" where
  touch: "fmlookup R i = Some r \<Longrightarrow> Rec_Message r' = Rec_Message r \<Longrightarrow> Rec_Status r' = Rec_Status r \<Longrightarrow>
    Rec_LastDeliveryID r' = Rec_LastDeliveryID r \<Longrightarrow> move (Q, R, D, H) (Q, fmupd i r' R, D, H)"
| accept: "fmlookup R (mid m) = None \<Longrightarrow> Rec_Message r = m \<Longrightarrow> Rec_Status r = MessageDeliveryQueued \<Longrightarrow>
    mto m \<noteq> [] \<Longrightarrow> move (Q, R, D, H) (Q, fmupd (mid m) r R, D, m # H)"
| accept_remote: "fmlookup R (mid m) = None \<Longrightarrow> Rec_Message r = m \<Longrightarrow>
    Rec_Status r = MessageDeliveryQueued \<Longrightarrow> mto m = [] \<Longrightarrow> move (Q, R, D, H) (Q, fmupd (mid m) r R, D, H)"
| forward: "fmlookup R i = Some r \<Longrightarrow> mto (Rec_Message r) = [] \<Longrightarrow> Rec_Message r' = Rec_Message r \<Longrightarrow>
    move (Q, R, D, H) (Q, fmupd i r' R, D, H)"
| put: "m \<in> set H \<Longrightarrow> mid m' = mid m \<Longrightarrow> mto m' = mto m \<Longrightarrow>
    move (Q, R, D, H) (Q(mto m := Q (mto m) @ [m']), R, D, remove1 m H)"
| get: "Q u = m # rest \<Longrightarrow> move (Q, R, D, H) (Q(u := rest), R, D, m # H)"
| lease: "m \<in> set H \<Longrightarrow> fmlookup R (mid m) = Some r \<Longrightarrow> fmlookup D d = None \<Longrightarrow>
    Rec_Message r' = Rec_Message r \<Longrightarrow> Rec_Status r' = MessageDeliveryLeased \<Longrightarrow>
    Rec_LastDeliveryID r' = Some d \<Longrightarrow> Del_MessageID v = mid m \<Longrightarrow> Del_AgentUUID v = mto (Rec_Message r) \<Longrightarrow>
    move (Q, R, D, H) (Q, fmupd (mid m) r' R, fmupd d v D, remove1 m H)"
| acknowledge: "fmlookup D d = Some v \<Longrightarrow> fmlookup R (Del_MessageID v) = Some r \<Longrightarrow>
    Rec_Message r' = Rec_Message r \<Longrightarrow> Rec_Status r' = MessageDeliveryAcked \<Longrightarrow>
    move (Q, R, D, H) (Q, fmupd (Del_MessageID v) r' R, fmdrop d D, H)"
| release: "fmlookup D d = Some v \<Longrightarrow> fmlookup R (Del_MessageID v) = Some r \<Longrightarrow>
    Rec_Message r' = Rec_Message r \<Longrightarrow> Rec_Status r' = MessageDeliveryQueued \<Longrightarrow>
    move (Q, R, D, H) (Q, fmupd (Del_MessageID v) r' R, fmdrop d D, Rec_Message r # H)"

inductive let_go :: "places \<Rightarrow> places \<Rightarrow> bool" where
  forget: "let_go (Q, R, D, H) (Q, R, D, remove1 m H)"
| abort: "m \<in> set H \<Longrightarrow> let_go (Q, R, D, H) (Q, fmdrop (mid m) R, D, remove1 m H)"
| purge: "(\<And>u. \<exists>p. Q' u = filter p (Q u)) \<Longrightarrow> let_go (Q, R, D, H) (Q', R, D, H)"

definition in_custody :: "places \<Rightarrow> bool" where
  "in_custody = (\<lambda>(Q, R, D, H). custody Q R D H)"

lemma in_custody_iff [simp]: "in_custody (Q, R, D, H) \<longleftrightarrow> custody Q R D H"
  by (simp add: in_custody_def)

lemma custody_remote:
  assumes c: "custody Q R D H" and i: "fmlookup R i = Some r" and to: "mto (Rec_Message r) = []"
    and r': "Rec_Message r' = Rec_Message r"
  shows "custody Q (fmupd i r' R) D H"
proof (rule custody_upd_free [OF c])
  note k = custodyD [OF c]
  show "mid (Rec_Message r') = i" using recordD [OF k(3) i] r' by simp
  show "\<not> held i u R" if "u \<noteq> []" for u using i to that by (auto simp: held_def)
  show "Del_MessageID v \<noteq> i" if "fmlookup D d = Some v" for d v
    using delivery_record [OF k(2) that] i to by (metis option.inject)
qed

lemma move_custody: "move p q \<Longrightarrow> in_custody p \<Longrightarrow> in_custody q"
proof (induction rule: move.induct)
  case (touch R i r r' Q D H)
  then show ?case by (simp add: custody_upd_same)
next
  case (accept R m r Q D H)
  then show ?case by (simp add: custody_new(2))
next
  case (accept_remote R m r Q D H)
  then show ?case by (simp add: custody_new(1))
next
  case (forward R i r r' Q D H)
  then show ?case by (simp add: custody_remote)
next
  case (put m H m' Q R D)
  then show ?case by (simp add: custody_enqueue)
next
  case (get Q u m rest R D H)
  then show ?case by (simp add: custody_dequeue)
next
  case (lease m H R r D d r' v Q)
  then show ?case by (simp add: custody_lease)
next
  case (acknowledge D d v R r r' Q H)
  then have "mid (Rec_Message r') = Del_MessageID v"
    using recordD [of R "Del_MessageID v" r] by (simp add: custody_def)
  with acknowledge show ?case by (simp add: custody_end)
next
  case (release D d v R r r' Q H)
  then show ?case by (simp add: custody_release)
qed

lemma let_go_custody: "let_go p q \<Longrightarrow> in_custody p \<Longrightarrow> in_custody q"
proof (induction rule: let_go.induct)
  case (forget Q R D H m)
  then show ?case by (simp add: custody_drop)
next
  case (abort m H Q R D)
  then show ?case by (simp add: custody_abort)
next
  case (purge Q' Q R D H)
  then show ?case using custody_shrink [of Q R D H Q'] by simp
qed

section \<open>One place at a time\<close>

datatype place = InQueue string nat | InHand nat | OnLease string

fun at_place :: "places \<Rightarrow> string \<Rightarrow> place \<Rightarrow> bool" where
  "at_place (Q, R, D, H) i (InQueue u n) \<longleftrightarrow> n < length (Q u) \<and> mid (Q u ! n) = i"
| "at_place (Q, R, D, H) i (InHand n) \<longleftrightarrow> n < length H \<and> mid (H ! n) = i"
| "at_place (Q, R, D, H) i (OnLease d) \<longleftrightarrow>
     (case fmlookup D d of None \<Rightarrow> False | Some v \<Rightarrow> Del_MessageID v = i)"

lemma place_status:
  assumes c: "custody Q R D H" and p: "at_place (Q, R, D, H) i p"
  obtains r where "fmlookup R i = Some r" "mto (Rec_Message r) \<noteq> []"
    "Rec_Status r = (case p of OnLease d \<Rightarrow> MessageDeliveryLeased | _ \<Rightarrow> MessageDeliveryQueued)"
    "case p of InQueue u n \<Rightarrow> mto (Rec_Message r) = u | InHand n \<Rightarrow> mto (Rec_Message r) = mto (H ! n)
     | OnLease d \<Rightarrow> Rec_LastDeliveryID r = Some d"
proof (cases p)
  case (InQueue u n)
  with p have m: "Q u ! n \<in> set (Q u)" "mid (Q u ! n) = i" by simp_all
  note q = queuedD [OF custodyD(1) [OF c] m(1)]
  then obtain r where "fmlookup R i = Some r" "Rec_Status r = MessageDeliveryQueued"
    "mto (Rec_Message r) = u" using m(2) by (auto simp: held_def)
  with q InQueue show ?thesis by (intro that [of r]) auto
next
  case (InHand n)
  with p have m: "H ! n \<in> set H" "mid (H ! n) = i" by simp_all
  note h = handD [OF custodyD(4) [OF c] m(1)]
  then obtain r where "fmlookup R i = Some r" "Rec_Status r = MessageDeliveryQueued"
    "mto (Rec_Message r) = mto (H ! n)" using m(2) by (auto simp: held_def)
  with h InHand show ?thesis by (intro that [of r]) auto
next
  case (OnLease d)
  with p obtain v where v: "fmlookup D d = Some v" "Del_MessageID v = i"
    by (auto split: option.splits)
  obtain r where "fmlookup R i = Some r" "Rec_Status r = MessageDeliveryLeased"
    "Rec_LastDeliveryID r = Some d" "mto (Rec_Message r) \<noteq> []"
    using delivery_record [OF custodyD(2) [OF c] v(1)] v(2) by metis
  with OnLease show ?thesis by (intro that [of r]) auto
qed

lemma one_place:
  assumes c: "custody Q R D H" and p: "at_place (Q, R, D, H) i p" and q: "at_place (Q, R, D, H) i q"
  shows "p = q"
proof -
  obtain r where r: "fmlookup R i = Some r"
    "Rec_Status r = (case p of OnLease d \<Rightarrow> MessageDeliveryLeased | _ \<Rightarrow> MessageDeliveryQueued)"
    "case p of InQueue u n \<Rightarrow> mto (Rec_Message r) = u | InHand n \<Rightarrow> mto (Rec_Message r) = mto (H ! n)
     | OnLease d \<Rightarrow> Rec_LastDeliveryID r = Some d" by (rule place_status [OF c p])
  obtain r' where r': "fmlookup R i = Some r'"
    "Rec_Status r' = (case q of OnLease d \<Rightarrow> MessageDeliveryLeased | _ \<Rightarrow> MessageDeliveryQueued)"
    "case q of InQueue u n \<Rightarrow> mto (Rec_Message r') = u | InHand n \<Rightarrow> mto (Rec_Message r') = mto (H ! n)
     | OnLease d \<Rightarrow> Rec_LastDeliveryID r' = Some d" by (rule place_status [OF c q])
  have same: "r' = r" using r(1) r'(1) by simp
  have dq: "distinct (map mid (Q u))" for u using custodyD(1) [OF c] by (simp add: queues_ok_def)
  have dh: "distinct (map mid H)" using custodyD(4) [OF c] by (simp add: hands_ok_def)
  have apart: False if "H ! n \<in> set H" "mid (H ! n) = i" "Q (mto (H ! n)) ! k \<in> set (Q (mto (H ! n)))"
    "mid (Q (mto (H ! n)) ! k) = i" for n k
  proof -
    have "i \<in> mid ` set (Q (mto (H ! n)))" using that(3,4) by (metis imageI)
    with handD(3) [OF custodyD(4) [OF c] that(1)] that(2) show False by simp
  qed
  show ?thesis
  proof (cases p)
    case p': (InQueue u n)
    show ?thesis
    proof (cases q)
      case (InQueue v k)
      then have "u = v" using p' r(3) r'(3) same by simp
      moreover have "n = k"
        using dq [of u] p q p' InQueue calculation by (auto simp: distinct_conv_nth)
      ultimately show ?thesis using p' InQueue by simp
    next
      case (InHand k)
      then have "u = mto (H ! k)" using p' r(3) r'(3) same by simp
      then show ?thesis using apart [of k n] p q p' InHand by simp
    next
      case (OnLease d)
      then show ?thesis using p' r(2) r'(2) same by simp
    qed
  next
    case p': (InHand n)
    show ?thesis
    proof (cases q)
      case (InQueue v k)
      then have "v = mto (H ! n)" using p' r(3) r'(3) same by simp
      then show ?thesis using apart [of n k] p q p' InQueue by simp
    next
      case (InHand k)
      then show ?thesis using dh p q p' by (auto simp: distinct_conv_nth)
    next
      case (OnLease d)
      then show ?thesis using p' r(2) r'(2) same by simp
    qed
  next
    case p': (OnLease d)
    then show ?thesis using r(2,3) r'(2,3) same by (cases q) simp_all
  qed
qed

section \<open>What was acknowledged stays so\<close>

definition is_acked :: "places \<Rightarrow> string \<Rightarrow> bool" where
  "is_acked = (\<lambda>(Q, R, D, H) i. \<exists>r. fmlookup R i = Some r \<and> Rec_Status r = MessageDeliveryAcked \<and>
     mto (Rec_Message r) \<noteq> [])"

lemma acked_no_place:
  assumes c: "custody Q R D H" and a: "is_acked (Q, R, D, H) i"
  shows "\<not> at_place (Q, R, D, H) i p"
proof
  assume "at_place (Q, R, D, H) i p"
  then obtain r where "fmlookup R i = Some r"
    "Rec_Status r = (case p of OnLease d \<Rightarrow> MessageDeliveryLeased | _ \<Rightarrow> MessageDeliveryQueued)"
    by (rule place_status [OF c])
  with a show False by (auto simp: is_acked_def split: place.splits)
qed

lemma is_acked_upd:
  "is_acked (Q, R, D, H) i \<Longrightarrow> j \<noteq> i \<Longrightarrow> is_acked (Q', fmupd j r R, D', H') i"
  "is_acked (Q, R, D, H) i \<Longrightarrow> is_acked (Q', R, D', H') i"
  "is_acked (Q, R, D, H) i \<Longrightarrow> j \<noteq> i \<Longrightarrow> is_acked (Q', fmdrop j R, D', H') i"
  by (auto simp: is_acked_def)

lemma hand_not_acked:
  "custody Q R D H \<Longrightarrow> is_acked (Q, R, D, H) i \<Longrightarrow> m \<in> set H \<Longrightarrow> mid m \<noteq> i"
  using handD(2) [of Q R H m] by (auto simp: custody_def is_acked_def held_def)

lemma delivery_not_acked:
  "custody Q R D H \<Longrightarrow> is_acked (Q, R, D, H) i \<Longrightarrow> fmlookup D d = Some v \<Longrightarrow> Del_MessageID v \<noteq> i"
  using delivery_record [of R D d v] by (fastforce simp: custody_def is_acked_def)

lemma move_acked: "move p q \<Longrightarrow> in_custody p \<Longrightarrow> is_acked p i \<Longrightarrow> is_acked q i"
proof (induction rule: move.induct)
  case (touch R j r r' Q D H)
  then show ?case by (cases "j = i") (auto simp: is_acked_def)
next
  case (accept R m r Q D H)
  then have "mid m \<noteq> i" by (auto simp: is_acked_def)
  with accept show ?case by (simp add: is_acked_upd(1))
next
  case (accept_remote R m r Q D H)
  then have "mid m \<noteq> i" by (auto simp: is_acked_def)
  with accept_remote show ?case by (simp add: is_acked_upd(1))
next
  case (forward R j r r' Q D H)
  then have "j \<noteq> i" by (auto simp: is_acked_def)
  with forward show ?case by (simp add: is_acked_upd(1))
next
  case (put m H m' Q R D)
  then show ?case by (simp add: is_acked_def)
next
  case (get Q u m rest R D H)
  then show ?case by (simp add: is_acked_def)
next
  case (lease m H R r D d r' v Q)
  then have "mid m \<noteq> i" using hand_not_acked [of Q R D H i m] by simp
  with lease show ?case by (simp add: is_acked_upd(1))
next
  case (acknowledge D d v R r r' Q H)
  then have "Del_MessageID v \<noteq> i" using delivery_not_acked [of Q R D H i d v] by simp
  with acknowledge show ?case by (simp add: is_acked_upd(1))
next
  case (release D d v R r r' Q H)
  then have "Del_MessageID v \<noteq> i" using delivery_not_acked [of Q R D H i d v] by simp
  with release show ?case by (simp add: is_acked_upd(1))
qed

lemma let_go_acked: "let_go p q \<Longrightarrow> in_custody p \<Longrightarrow> is_acked p i \<Longrightarrow> is_acked q i"
proof (induction rule: let_go.induct)
  case (abort m H Q R D)
  then have "mid m \<noteq> i" using hand_not_acked [of Q R D H i m] by simp
  with abort show ?case by (simp add: is_acked_upd(3))
qed (auto intro: is_acked_upd(2))

section \<open>Nothing is lost on the way\<close>

text \<open>While no request lets go of a message, every message not acknowledged is somewhere.\<close>

definition accounted :: "places \<Rightarrow> bool" where
  "accounted = (\<lambda>(Q, R, D, H). \<forall>i r. fmlookup R i = Some r \<longrightarrow> mto (Rec_Message r) \<noteq> [] \<longrightarrow>
     Rec_Status r = MessageDeliveryAcked \<or>
     (Rec_Status r = MessageDeliveryQueued \<and> (i \<in> mid ` set H \<or> (\<exists>u. i \<in> mid ` set (Q u)))) \<or>
     (Rec_Status r = MessageDeliveryLeased \<and> (\<exists>d v. fmlookup D d = Some v \<and> Del_MessageID v = i)))"

definition somewhere :: "places \<Rightarrow> string \<Rightarrow> message_record \<Rightarrow> bool" where
  "somewhere = (\<lambda>(Q, R, D, H) i r. Rec_Status r = MessageDeliveryAcked \<or>
     (Rec_Status r = MessageDeliveryQueued \<and> (i \<in> mid ` set H \<or> (\<exists>u. i \<in> mid ` set (Q u)))) \<or>
     (Rec_Status r = MessageDeliveryLeased \<and> (\<exists>d v. fmlookup D d = Some v \<and> Del_MessageID v = i)))"

lemma accounted_iff: "accounted (Q, R, D, H) \<longleftrightarrow>
    (\<forall>i r. fmlookup R i = Some r \<longrightarrow> mto (Rec_Message r) \<noteq> [] \<longrightarrow> somewhere (Q, R, D, H) i r)"
  by (simp add: accounted_def somewhere_def)

lemma accountedD: "accounted (Q, R, D, H) \<Longrightarrow> fmlookup R i = Some r \<Longrightarrow> mto (Rec_Message r) \<noteq> [] \<Longrightarrow>
    somewhere (Q, R, D, H) i r"
  by (simp add: accounted_iff)

text \<open>A record changes; the others stay where they are.\<close>

lemma accounted_upd:
  assumes a: "accounted (Q, R, D, H)"
    and new: "mto (Rec_Message r) \<noteq> [] \<Longrightarrow> somewhere (Q', fmupd i r R, D', H') i r"
    and old: "\<And>j q. j \<noteq> i \<Longrightarrow> somewhere (Q, R, D, H) j q \<Longrightarrow> somewhere (Q', fmupd i r R, D', H') j q"
  shows "accounted (Q', fmupd i r R, D', H')"
  unfolding accounted_iff
proof (intro allI impI)
  fix j q
  assume j: "fmlookup (fmupd i r R) j = Some q" "mto (Rec_Message q) \<noteq> []"
  show "somewhere (Q', fmupd i r R, D', H') j q"
  proof (cases "j = i")
    case True
    with j new show ?thesis by simp
  next
    case False
    with j have "somewhere (Q, R, D, H) j q" by (intro accountedD [OF a]) auto
    with old [OF False] show ?thesis by simp
  qed
qed

lemma accounted_keep:
  assumes a: "accounted (Q, R, D, H)"
    and old: "\<And>j q. somewhere (Q, R, D, H) j q \<Longrightarrow> somewhere (Q', R, D', H') j q"
  shows "accounted (Q', R, D', H')"
  using a old unfolding accounted_iff by blast

lemma id_of_rest: "j \<in> mid ` set H \<Longrightarrow> j \<noteq> mid m \<Longrightarrow> j \<in> mid ` set (remove1 m H)"
proof -
  assume "j \<in> mid ` set H" "j \<noteq> mid m"
  then obtain x where "x \<in> set H" "mid x = j" "x \<noteq> m" by auto
  then have "x \<in> set (remove1 m H)" by (simp add: in_set_remove1)
  with \<open>mid x = j\<close> show ?thesis by blast
qed

lemma somewhere_more:
  assumes "somewhere (Q, R, D, H) j q"
    and "j \<in> mid ` set H \<or> (\<exists>u. j \<in> mid ` set (Q u)) \<Longrightarrow> j \<in> mid ` set H' \<or> (\<exists>u. j \<in> mid ` set (Q' u))"
    and "\<And>d v. fmlookup D d = Some v \<Longrightarrow> Del_MessageID v = j \<Longrightarrow>
      \<exists>d v. fmlookup D' d = Some v \<and> Del_MessageID v = j"
  shows "somewhere (Q', R', D', H') j q"
  using assms unfolding somewhere_def by simp blast

lemma somewhere_status:
  "somewhere (Q, R, D, H) j q \<Longrightarrow> Rec_Status q' = Rec_Status q \<Longrightarrow> somewhere (Q, R', D, H) j q'"
  by (simp add: somewhere_def)

lemma move_accounted: "move p q \<Longrightarrow> in_custody p \<Longrightarrow> accounted p \<Longrightarrow> accounted q"
proof (induction rule: move.induct)
  case (touch R i r r' Q D H)
  show ?case
  proof (rule accounted_upd [OF touch.prems(2)])
    show "somewhere (Q, fmupd i r' R, D, H) i r'" if "mto (Rec_Message r') \<noteq> []"
      by (rule somewhere_status [OF accountedD [OF touch.prems(2) touch(1)]]) (use touch that in simp_all)
  qed (simp add: somewhere_status)
next
  case (accept R m r Q D H)
  show ?case
  proof (rule accounted_upd [OF accept.prems(2)])
    show "somewhere (Q, fmupd (mid m) r R, D, m # H) (mid m) r"
      using accept(3) by (simp add: somewhere_def)
  qed (erule somewhere_more, auto)
next
  case (accept_remote R m r Q D H)
  show ?case
    by (rule accounted_upd [OF accept_remote.prems(2)])
      (use accept_remote in \<open>simp_all add: somewhere_status\<close>)
next
  case (forward R i r r' Q D H)
  show ?case
    by (rule accounted_upd [OF forward.prems(2)]) (use forward in \<open>simp_all add: somewhere_status\<close>)
next
  case (put m H m' Q R D)
  define Q' where "Q' = Q(mto m := Q (mto m) @ [m'])"
  have new: "mid m \<in> mid ` set (Q' (mto m))" using put(2) by (simp add: Q'_def)
  have sub: "mid ` set (Q u) \<subseteq> mid ` set (Q' u)" for u by (auto simp: Q'_def)
  have ids: "j \<in> mid ` set (remove1 m H) \<or> (\<exists>u. j \<in> mid ` set (Q' u))"
    if j: "j \<in> mid ` set H \<or> (\<exists>u. j \<in> mid ` set (Q u))" for j
    using j
  proof
    assume h: "j \<in> mid ` set H"
    show ?thesis
    proof (cases "j = mid m")
      case True
      with new show ?thesis by metis
    next
      case False
      from id_of_rest [OF h False] show ?thesis ..
    qed
  next
    assume "\<exists>u. j \<in> mid ` set (Q u)"
    with sub show ?thesis by blast
  qed
  show ?case unfolding Q'_def [symmetric]
    by (rule accounted_keep [OF put.prems(2)]) (erule somewhere_more, erule ids, blast)
next
  case (get Q u m rest R D H)
  define Q' where "Q' = Q(u := rest)"
  have sub: "mid ` set (Q v) \<subseteq> insert (mid m) (mid ` set (Q' v))" for v
    using get(1) by (auto simp: Q'_def)
  have ids: "j \<in> mid ` set (m # H) \<or> (\<exists>u. j \<in> mid ` set (Q' u))"
    if j: "j \<in> mid ` set H \<or> (\<exists>u. j \<in> mid ` set (Q u))" for j
    using j
  proof
    assume "\<exists>u. j \<in> mid ` set (Q u)"
    then obtain v where "j \<in> mid ` set (Q v)" ..
    with sub [of v] have "j = mid m \<or> j \<in> mid ` set (Q' v)" by blast
    then show ?thesis by auto
  qed simp
  show ?case unfolding Q'_def [symmetric]
    by (rule accounted_keep [OF get.prems(2)]) (erule somewhere_more, erule ids, blast)
next
  case (lease m H R r D d r' v Q)
  show ?case
  proof (rule accounted_upd [OF lease.prems(2)])
    have "fmlookup (fmupd d v D) d = Some v" by simp
    with lease(5,7) show "somewhere (Q, fmupd (mid m) r' R, fmupd d v D, remove1 m H) (mid m) r'"
      unfolding somewhere_def prod.case by blast
    show "somewhere (Q, fmupd (mid m) r' R, fmupd d v D, remove1 m H) j q"
      if "j \<noteq> mid m" "somewhere (Q, R, D, H) j q" for j q
    proof -
      have "\<exists>e w. fmlookup (fmupd d v D) e = Some w \<and> Del_MessageID w = j"
        if "fmlookup D e = Some w" "Del_MessageID w = j" for e w
        using that lease(3) by (intro exI [of _ e] exI [of _ w]) auto
      with that id_of_rest [of j H m] show ?thesis by (intro somewhere_more [OF that(2)]) blast+
    qed
  qed
next
  case (acknowledge D d v R r r' Q H)
  show ?case
  proof (rule accounted_upd [OF acknowledge.prems(2)])
    show "somewhere (Q, fmupd (Del_MessageID v) r' R, fmdrop d D, H) (Del_MessageID v) r'"
      using acknowledge(4) by (simp add: somewhere_def)
    show "somewhere (Q, fmupd (Del_MessageID v) r' R, fmdrop d D, H) j q"
      if "j \<noteq> Del_MessageID v" "somewhere (Q, R, D, H) j q" for j q
    proof -
      have "\<exists>e w. fmlookup (fmdrop d D) e = Some w \<and> Del_MessageID w = j"
        if "fmlookup D e = Some w" "Del_MessageID w = j" for e w
        using that acknowledge(1) \<open>j \<noteq> Del_MessageID v\<close> by (intro exI [of _ e] exI [of _ w]) auto
      then show ?thesis by (intro somewhere_more [OF that(2)]) auto
    qed
  qed
next
  case (release D d v R r r' Q H)
  have id: "mid (Rec_Message r) = Del_MessageID v"
    using release(2) release.prems(1) recordD [of R "Del_MessageID v" r] by (simp add: custody_def)
  show ?case
  proof (rule accounted_upd [OF release.prems(2)])
    show "somewhere (Q, fmupd (Del_MessageID v) r' R, fmdrop d D, Rec_Message r # H) (Del_MessageID v) r'"
      using release(4) id by (simp add: somewhere_def)
    show "somewhere (Q, fmupd (Del_MessageID v) r' R, fmdrop d D, Rec_Message r # H) j q"
      if "j \<noteq> Del_MessageID v" "somewhere (Q, R, D, H) j q" for j q
    proof -
      have "\<exists>e w. fmlookup (fmdrop d D) e = Some w \<and> Del_MessageID w = j"
        if "fmlookup D e = Some w" "Del_MessageID w = j" for e w
        using that release(1) \<open>j \<noteq> Del_MessageID v\<close> by (intro exI [of _ e] exI [of _ w]) auto
      then show ?thesis by (intro somewhere_more [OF that(2)]) auto
    qed
  qed
qed

lemma accounted_place:
  assumes a: "accounted (Q, R, D, H)" and r: "fmlookup R i = Some r" "mto (Rec_Message r) \<noteq> []"
  shows "Rec_Status r = MessageDeliveryAcked \<or> (\<exists>p. at_place (Q, R, D, H) i p)"
proof -
  have q: "\<exists>p. at_place (Q, R, D, H) i p" if i: "i \<in> mid ` set (Q u)" for u
  proof -
    obtain m where "m \<in> set (Q u)" "mid m = i" using i by auto
    then obtain n where "n < length (Q u)" "mid (Q u ! n) = i" by (auto simp: in_set_conv_nth)
    then show ?thesis by (intro exI [of _ "InQueue u n"]) simp
  qed
  have h: "\<exists>p. at_place (Q, R, D, H) i p" if i: "i \<in> mid ` set H"
  proof -
    obtain m where "m \<in> set H" "mid m = i" using i by auto
    then obtain n where "n < length H" "mid (H ! n) = i" by (auto simp: in_set_conv_nth)
    then show ?thesis by (intro exI [of _ "InHand n"]) simp
  qed
  have d: "\<exists>p. at_place (Q, R, D, H) i p" if "fmlookup D d = Some v" "Del_MessageID v = i" for d v
    using that by (intro exI [of _ "OnLease d"]) simp
  show ?thesis
    using accountedD [OF a r] unfolding somewhere_def prod.case using q h d by blast
qed

end
