(* ===== verification/Custody.thy ===== *)
theory Custody
  imports MessageFlow OrgSafety
begin

text \<open>
  The store's message operations as moves of the abstract machine: each one, whatever
  request calls it and however requests interleave, is a step of \<open>move\<close> or \<open>let_go\<close>.  From
  the machine's invariants follow the properties of the store: one place per message,
  acknowledgements are final, nothing is lost unless a request lets go of it.
\<close>

section \<open>Requests and the store\<close>

definition places_of :: "memory_store \<Rightarrow> message list \<Rightarrow> places" where
  "places_of s H = (queue_of s, messageRecords s, messageDeliveries s, H)"

text \<open>
  One step of some request on the store, and the messages in the hands of requests: those
  just accepted, dequeued, released or expired.  \<open>elsewhere\<close> is any operation that touches
  neither queues nor records nor deliveries.
\<close>

inductive request :: "memory_store \<times> message list \<Rightarrow> memory_store \<times> message list \<Rightarrow> bool" where
  publish: "CreateOrGetMessageRecord m t s = (Inr (r, False), s') \<Longrightarrow> mto m \<noteq> [] \<Longrightarrow>
    request (s, H) (s', m # H)"
| publish_remote: "CreateOrGetMessageRecord m t s = (Inr (r, False), s') \<Longrightarrow> mto m = [] \<Longrightarrow>
    request (s, H) (s', H)"
| publish_again: "CreateOrGetMessageRecord m t s = (Inr (r, True), s') \<Longrightarrow> request (s, H) (s', H)"
| enqueue: "m \<in> set H \<Longrightarrow> Enqueue m s = (Inr (), s') \<Longrightarrow> request (s, H) (s', remove1 m H)"
| dequeue: "Dequeue u s = (Some m, s') \<Longrightarrow> request (s, H) (s', m # H)"
| lease: "m \<in> set H \<Longrightarrow> fmlookup (messageDeliveries s) d = None \<Longrightarrow>
    LeaseMessage (mid m) (mto m) d t e s = (Inr x, s') \<Longrightarrow> request (s, H) (s', remove1 m H)"
| ack: "AckMessageDelivery u d t s = (Inr r, s') \<Longrightarrow> request (s, H) (s', H)"
| nack: "ReleaseMessageDelivery u d t reason s = (Inr (m, r), s') \<Longrightarrow> request (s, H) (s', m # H)"
| expire: "ExpireMessageLeases t s = (ms, s') \<Longrightarrow> request (s, H) (s', rev ms @ H)"
| forwarded: "fmlookup (messageRecords s) (TrimSpace i) = Some q \<Longrightarrow> mto (Rec_Message q) = [] \<Longrightarrow>
    MarkMessageForwarded i t s = (Inr r, s') \<Longrightarrow> request (s, H) (s', H)"
| elsewhere: "queue_of s' = queue_of s \<Longrightarrow> messageRecords s' = messageRecords s \<Longrightarrow>
    messageDeliveries s' = messageDeliveries s \<Longrightarrow> queueMetrics s' = queueMetrics s \<Longrightarrow>
    request (s, H) (s', H)"

text \<open>
  What makes a message go: a request gives up (it could not be requeued, no delivery id), a
  publish is aborted, an administrator revokes or deletes an agent or an organisation.
\<close>

inductive mishap :: "memory_store \<times> message list \<Rightarrow> memory_store \<times> message list \<Rightarrow> bool" where
  give_up: "mishap (s, H) (s, remove1 m H)"
| abort: "m \<in> set H \<Longrightarrow> AbortMessageRecord (mid m) t s = (Inr (), s') \<Longrightarrow> mishap (s, H) (s', remove1 m H)"
| revoke_agent: "RevokeAgent u a t super s = (x, s') \<Longrightarrow> mishap (s, H) (s', H)"
| delete_agent: "DeleteAgent u a t super s = (y, s') \<Longrightarrow> mishap (s, H) (s', H)"
| delete_org: "DeleteOrg i a super t s = (y, s') \<Longrightarrow> mishap (s, H) (s', H)"

section \<open>The operations as moves\<close>

lemma queue_of_cong: "queues s' = queues s \<Longrightarrow> queue_of s' = queue_of s"
  by (rule ext) (simp add: queue_of_def)

lemma places_stay:
  assumes "queues s' = queues s" and "messageRecords s' = R" and "messageDeliveries s' = D"
  shows "places_of s' H = (queue_of s, R, D, H)"
  using assms queue_of_cong [OF assms(1)] by (simp add: places_of_def)

lemma replayRecord_fields:
  "replayRecord i r t s = (q, s') \<Longrightarrow> messageRecords s' = fmupd i q (messageRecords s) \<and>
    queues s' = queues s \<and> messageDeliveries s' = messageDeliveries s \<and> queueMetrics s' = queueMetrics s \<and>
    Rec_Message q = Rec_Message r \<and> Rec_Status q = Rec_Status r \<and>
    Rec_LastDeliveryID q = Rec_LastDeliveryID r"
  by (auto simp: replayRecord_def Let_def)

lemma insertRecord_fields:
  "insertRecord m t s = (q, s') \<Longrightarrow> messageRecords s' = fmupd (mid m) q (messageRecords s) \<and>
    queues s' = queues s \<and> messageDeliveries s' = messageDeliveries s \<and> queueMetrics s' = queueMetrics s \<and>
    q = new_record m t"
  by (auto simp: insertRecord_def Let_def)

definition replayed :: "memory_store \<Rightarrow> memory_store \<Rightarrow> bool" where
  "replayed s s' \<longleftrightarrow> (\<exists>i r q. fmlookup (messageRecords s) i = Some r \<and>
     messageRecords s' = fmupd i q (messageRecords s) \<and> Rec_Message q = Rec_Message r \<and>
     Rec_Status q = Rec_Status r \<and> Rec_LastDeliveryID q = Rec_LastDeliveryID r)"

lemma CreateOrGet_places:
  assumes "CreateOrGetMessageRecord m t s = (Inr (q, b), s')"
  shows "queues s' = queues s \<and> messageDeliveries s' = messageDeliveries s \<and>
    queueMetrics s' = queueMetrics s \<and> (if b then replayed s s'
     else fmlookup (messageRecords s) (mid m) = None \<and> q = new_record m t \<and>
       messageRecords s' = fmupd (mid m) q (messageRecords s))"
proof -
  have ne: "TrimSpace (mid m) \<noteq> []" using assms by (auto simp: CreateOrGetMessageRecord_def)
  show ?thesis
  proof (cases "fmlookup (messageRecords s) (mid m)")
    case (Some r)
    obtain q' u where run: "replayRecord (mid m) r t s = (q', u)" by fastforce
    note rep = replayRecord_fields [OF this]
    from assms ne Some run have "q = q'" "b" "queues s' = queues u" "messageDeliveries s' = messageDeliveries u"
      "messageRecords s' = messageRecords u" "queueMetrics s' = queueMetrics u"
      by (auto simp: CreateOrGetMessageRecord_def)
    with rep Some show ?thesis unfolding replayed_def by (metis (no_types))
  next
    case None
    have fresh: ?thesis if "insertRecord m t u = (q, s')" "b = False" "queues u = queues s"
      "messageDeliveries u = messageDeliveries s" "messageRecords u = messageRecords s"
      "queueMetrics u = queueMetrics s" for u
      using insertRecord_fields [OF that(1)] that None by simp
    show ?thesis
    proof (cases "client_key m")
      case k: None
      with assms ne None show ?thesis
        by (intro fresh [of s]) (auto simp: CreateOrGetMessageRecord_def split: prod.splits)
    next
      case k: (Some k)
      show ?thesis
      proof (cases "fmlookup (messageByClientMsg s) k")
        case i: None
        with k assms ne None show ?thesis
          by (intro fresh [of s]) (auto simp: CreateOrGetMessageRecord_def split: prod.splits)
      next
        case i: (Some i)
        show ?thesis
        proof (cases "fmlookup (messageRecords s) i")
          case r: None
          with i k assms ne None show ?thesis
            by (intro fresh [of "s\<lparr>messageByClientMsg := fmdrop k (messageByClientMsg s)\<rparr>"])
              (auto simp: CreateOrGetMessageRecord_def Let_def split: prod.splits)
        next
          case r: (Some r)
          obtain q' u where rep: "replayRecord i r t s = (q', u)" by fastforce
          from r i k assms ne None rep have "b" "queues s' = queues u"
            "messageDeliveries s' = messageDeliveries u" "messageRecords s' = messageRecords u"
            "queueMetrics s' = queueMetrics u"
            by (auto simp: CreateOrGetMessageRecord_def Let_def)
          with r replayRecord_fields [OF rep] show ?thesis unfolding replayed_def by (metis (no_types))
        qed
      qed
    qed
  qed
qed

lemma sim_replay:
  assumes "replayed s s'" and "queues s' = queues s" and "messageDeliveries s' = messageDeliveries s"
  shows "move (places_of s H) (places_of s' H)"
proof -
  obtain i r q where r: "fmlookup (messageRecords s) i = Some r"
    and q: "messageRecords s' = fmupd i q (messageRecords s)" and same: "Rec_Message q = Rec_Message r"
    "Rec_Status q = Rec_Status r" "Rec_LastDeliveryID q = Rec_LastDeliveryID r"
    using assms(1) unfolding replayed_def by blast
  show ?thesis
    unfolding places_stay [OF assms(2) q assms(3)] places_of_def [of s]
    by (rule move.touch [OF r same])
qed

lemma sim_enqueue:
  assumes "Enqueue m s = (Inr (), s')" and "m \<in> set H"
  shows "move (places_of s H) (places_of s' (remove1 m H))"
proof -
  obtain a where s': "s' = noteQueuedMessageAddedLocked (m\<lparr>Msg_ToAgentID := a\<rparr>)
      (s\<lparr>queues := fmupd (mto m) (queue_of s (mto m) @ [m\<lparr>Msg_ToAgentID := a\<rparr>]) (queues s)\<rparr>)"
    using assms(1) by (auto simp: Enqueue_def Let_def split: if_splits option.splits)
  have "queue_of s' = (queue_of s)(mto m := queue_of s (mto m) @ [m\<lparr>Msg_ToAgentID := a\<rparr>])"
    by (rule ext) (simp add: s' queue_of_def noteQueuedMessageAddedLocked_def Let_def)
  moreover have "messageRecords s' = messageRecords s" "messageDeliveries s' = messageDeliveries s"
    by (simp_all add: s' noteQueuedMessageAddedLocked_def Let_def)
  ultimately show ?thesis
    using move.put [OF assms(2), of "m\<lparr>Msg_ToAgentID := a\<rparr>"] by (simp add: places_of_def)
qed

lemma sim_dequeue:
  assumes "Dequeue u s = (Some m, s')"
  shows "move (places_of s H) (places_of s' (m # H))"
proof -
  obtain rest where q: "queue_of s u = m # rest"
    and s': "s' = noteQueuedMessageRemovedLocked m (s\<lparr>queues := fmupd u rest (queues s)\<rparr>)"
    using assms by (auto simp: Dequeue_def Let_def split: list.splits)
  have "queue_of s' = (queue_of s)(u := rest)"
    by (rule ext) (simp add: s' queue_of_def noteQueuedMessageRemovedLocked_def Let_def)
  moreover have "messageRecords s' = messageRecords s" "messageDeliveries s' = messageDeliveries s"
    by (simp_all add: s' noteQueuedMessageRemovedLocked_def Let_def)
  ultimately show ?thesis
    using move.get [of "queue_of s", OF q] by (simp add: places_of_def)
qed

lemma LeaseMessage_ok:
  assumes "LeaseMessage i u d t e s = (Inr (v, r'), s')"
  obtains r where "fmlookup (messageRecords s) i = Some r" "mto (Rec_Message r) = u"
    "r' = leased_record r d t e" "Del_MessageID v = mid (Rec_Message r)" "Del_AgentUUID v = u"
    "Del_DeliveryID v = d" "Del_LeaseExpiresAt v = e"
    "queues s' = queues s" "messageRecords s' = fmupd i r' (messageRecords s)"
    "messageDeliveries s' = fmupd d v (messageDeliveries s)"
proof (cases "fmlookup (messageRecords s) i")
  case None
  with assms show ?thesis by (simp add: LeaseMessage_def)
next
  case (Some r)
  show ?thesis
  proof (cases "mto (Rec_Message r) = u")
    case False
    then show ?thesis using assms unfolding LeaseMessage_def Some by simp
  next
    case True
    have m: "Rec_Message (leased_record r d t e) = Rec_Message r" by (simp add: leased_record_def)
    note run = assms [unfolded LeaseMessage_def Some option.case True [symmetric] Let_def m, simplified]
    show ?thesis by (rule that [OF Some True]) (insert run True, (elim conjE, hypsubst?, simp)+)
  qed
qed

lemma sim_lease:
  assumes c: "in_custody (places_of s H)" and m: "m \<in> set H"
    and d: "fmlookup (messageDeliveries s) d = None"
    and run: "LeaseMessage (mid m) (mto m) d t e s = (Inr x, s')"
  shows "move (places_of s H) (places_of s' (remove1 m H))"
proof -
  obtain v r' where x: "x = (v, r')" by fastforce
  from run [unfolded x] obtain r where r: "fmlookup (messageRecords s) (mid m) = Some r"
    "mto (Rec_Message r) = mto m" and r': "r' = leased_record r d t e"
    and v: "Del_MessageID v = mid (Rec_Message r)" "Del_AgentUUID v = mto m"
    and s': "queues s' = queues s" "messageRecords s' = fmupd (mid m) r' (messageRecords s)"
    "messageDeliveries s' = fmupd d v (messageDeliveries s)" by (rule LeaseMessage_ok) blast
  have "records_ok (messageRecords s)" using c by (simp add: places_of_def custody_def)
  from recordD [OF this r(1)] have id: "Del_MessageID v = mid m" "Del_AgentUUID v = mto (Rec_Message r)"
    using v r(2) by simp_all
  show ?thesis
    unfolding places_stay [OF s'] places_of_def [of s]
    by (rule move.lease [OF m r(1) d _ _ _ id]) (simp_all add: r' leased_record_def)
qed

lemma AckMessageDelivery_ok:
  assumes "AckMessageDelivery u d t s = (Inr r', s')"
  obtains v r where "fmlookup (messageDeliveries s) d = Some v" "Del_AgentUUID v = u"
    "fmlookup (messageRecords s) (Del_MessageID v) = Some r" "r' = acked_record r t"
    "queues s' = queues s" "messageRecords s' = fmupd (Del_MessageID v) r' (messageRecords s)"
    "messageDeliveries s' = fmdrop d (messageDeliveries s)"
proof (cases "fmlookup (messageDeliveries s) d")
  case None
  with assms show ?thesis by (simp add: AckMessageDelivery_def)
next
  case (Some v)
  show ?thesis
  proof (cases "Del_AgentUUID v = u")
    case False
    then show ?thesis using assms unfolding AckMessageDelivery_def Some by simp
  next
    case u: True
    show ?thesis
    proof (cases "fmlookup (messageRecords s) (Del_MessageID v)")
      case None
      then show ?thesis using assms u unfolding AckMessageDelivery_def Some by simp
    next
      case r: (Some r)
      note run = assms [unfolded AckMessageDelivery_def Some r option.case u [symmetric] Let_def, simplified]
      show ?thesis by (rule that [OF Some u r]) (insert run, (elim conjE, hypsubst, simp)+)
    qed
  qed
qed

lemma sim_ack:
  assumes "AckMessageDelivery u d t s = (Inr r', s')"
  shows "move (places_of s H) (places_of s' H)"
  using assms
proof (rule AckMessageDelivery_ok)
  fix v r
  assume v: "fmlookup (messageDeliveries s) d = Some v"
    and r: "fmlookup (messageRecords s) (Del_MessageID v) = Some r" and r': "r' = acked_record r t"
    and s': "queues s' = queues s" "messageRecords s' = fmupd (Del_MessageID v) r' (messageRecords s)"
    "messageDeliveries s' = fmdrop d (messageDeliveries s)"
  show ?thesis
    unfolding places_stay [OF s'] places_of_def [of s]
    by (rule move.acknowledge [OF v r]) (simp_all add: r' acked_record_def)
qed

lemma ReleaseMessageDelivery_ok:
  assumes "ReleaseMessageDelivery u d t reason s = (Inr (m, r'), s')"
  obtains v r where "fmlookup (messageDeliveries s) d = Some v" "Del_AgentUUID v = u"
    "fmlookup (messageRecords s) (Del_MessageID v) = Some r" "m = Rec_Message r"
    "r' = requeued_record r (TrimSpace reason) t"
    "queues s' = queues s" "messageRecords s' = fmupd (Del_MessageID v) r' (messageRecords s)"
    "messageDeliveries s' = fmdrop d (messageDeliveries s)"
proof (cases "fmlookup (messageDeliveries s) d")
  case None
  with assms show ?thesis by (simp add: ReleaseMessageDelivery_def)
next
  case (Some v)
  show ?thesis
  proof (cases "Del_AgentUUID v = u")
    case False
    then show ?thesis using assms unfolding ReleaseMessageDelivery_def Some by simp
  next
    case u: True
    show ?thesis
    proof (cases "fmlookup (messageRecords s) (Del_MessageID v)")
      case None
      then show ?thesis using assms u unfolding ReleaseMessageDelivery_def Some by simp
    next
      case r: (Some r)
      have m: "Rec_Message (requeued_record r x t) = Rec_Message r" for x
        by (simp add: requeued_record_def)
      note run = assms [unfolded ReleaseMessageDelivery_def Some r option.case u [symmetric] Let_def m,
        simplified]
      show ?thesis by (rule that [OF Some u r]) (insert run, (elim conjE, hypsubst, simp)+)
    qed
  qed
qed

lemma sim_release:
  assumes v: "fmlookup (messageDeliveries s) d = Some v"
    and r: "fmlookup (messageRecords s) (Del_MessageID v) = Some r" and r': "r' = requeued_record r reason t"
    and s': "queues s' = queues s" "messageRecords s' = fmupd (Del_MessageID v) r' (messageRecords s)"
    "messageDeliveries s' = fmdrop d (messageDeliveries s)"
  shows "move (places_of s H) (places_of s' (Rec_Message r # H))"
  unfolding places_stay [OF s'] places_of_def [of s]
  by (rule move.release [OF v r]) (simp_all add: r' requeued_record_def)

lemma sim_nack:
  assumes "ReleaseMessageDelivery u d t reason s = (Inr (m, r'), s')"
  shows "move (places_of s H) (places_of s' (m # H))"
  using assms
proof (rule ReleaseMessageDelivery_ok)
  fix v r
  assume v: "fmlookup (messageDeliveries s) d = Some v"
    and r: "fmlookup (messageRecords s) (Del_MessageID v) = Some r" and m: "m = Rec_Message r"
    and r': "r' = requeued_record r (TrimSpace reason) t"
    and s': "queues s' = queues s" "messageRecords s' = fmupd (Del_MessageID v) r' (messageRecords s)"
    "messageDeliveries s' = fmdrop d (messageDeliveries s)"
  show ?thesis unfolding m by (rule sim_release [OF v r r' s'])
qed

lemma sim_expire_one:
  assumes c: "in_custody (places_of s H)" and run: "expireDelivery t d (out, s) = (out', s')"
  shows "move\<^sup>*\<^sup>* (places_of s H) (places_of s' (rev (drop (length out) out') @ H)) \<and> prefix out out'"
proof (cases "fmlookup (messageDeliveries s) d")
  case None
  with run show ?thesis by (simp add: expireDelivery_def)
next
  case (Some v)
  show ?thesis
  proof (cases "Del_LeaseExpiresAt v > t")
    case True
    with Some run show ?thesis by (simp add: expireDelivery_def)
  next
    case False
    have "deliveries_ok (messageRecords s) (messageDeliveries s)"
      using c by (simp add: places_of_def custody_def)
    then obtain r where r: "fmlookup (messageRecords s) (Del_MessageID v) = Some r"
      using delivery_record [OF _ Some] by metis
    define q where "q = requeued_record r ''lease_expired'' t"
    have msg: "Rec_Message q = Rec_Message r" by (simp add: q_def requeued_record_def)
    note fin = run [unfolded expireDelivery_def Let_def prod.case Some option.case r,
      folded q_def, unfolded msg if_not_P [OF False] prod.inject]
    have out: "out' = out @ [Rec_Message r]" using fin by (elim conjE) (rule sym)
    have s': "queues s' = queues s" "messageRecords s' = fmupd (Del_MessageID v) q (messageRecords s)"
      "messageDeliveries s' = fmdrop d (messageDeliveries s)"
      by (simp_all add: conjunct2 [OF fin, symmetric])
    have "move (places_of s H) (places_of s' (Rec_Message r # H))"
      by (rule sim_release [OF Some r q_def s'])
    with out show ?thesis by auto
  qed
qed

lemma moves_custody: "move\<^sup>*\<^sup>* p q \<Longrightarrow> in_custody p \<Longrightarrow> in_custody q"
  by (induction rule: rtranclp_induct) (auto intro: move_custody)

lemma sim_expire_loop:
  assumes "in_custody (places_of s H)" and "fold (expireDelivery t) ds (out, s) = (out', s')"
  shows "move\<^sup>*\<^sup>* (places_of s H) (places_of s' (rev (drop (length out) out') @ H)) \<and> prefix out out'"
  using assms
proof (induction ds arbitrary: out s H)
  case (Cons d ds)
  obtain out1 s1 where one: "expireDelivery t d (out, s) = (out1, s1)" by fastforce
  from sim_expire_one [OF Cons.prems(1) one]
  have m1: "move\<^sup>*\<^sup>* (places_of s H) (places_of s1 (rev (drop (length out) out1) @ H))"
    and p1: "prefix out out1" by simp_all
  have rest: "fold (expireDelivery t) ds (out1, s1) = (out', s')" using Cons.prems(2) one by simp
  from Cons.IH [OF moves_custody [OF m1 Cons.prems(1)] rest]
  have m2: "move\<^sup>*\<^sup>* (places_of s1 (rev (drop (length out) out1) @ H))
      (places_of s' (rev (drop (length out1) out') @ rev (drop (length out) out1) @ H))"
    and p2: "prefix out1 out'" by simp_all
  have "rev (drop (length out1) out') @ rev (drop (length out) out1) = rev (drop (length out) out')"
    using p1 p2 by (auto simp: prefix_def)
  with m1 m2 p1 p2 show ?case
    using rtranclp_trans [OF m1 m2] prefix_order.trans [OF p1 p2] by (metis append_assoc)
qed simp

lemma sim_expire:
  assumes "in_custody (places_of s H)" and "ExpireMessageLeases t s = (ms, s')"
  shows "move\<^sup>*\<^sup>* (places_of s H) (places_of s' (rev ms @ H))"
  using sim_expire_loop [OF assms(1) assms(2) [unfolded ExpireMessageLeases_def]]
  by (elim conjE) (simp only: list.size drop_0)

lemma move_stay:
  assumes "queue_of s' = queue_of s" and "messageRecords s' = messageRecords s"
    and "messageDeliveries s' = messageDeliveries s"
  shows "move\<^sup>*\<^sup>* (places_of s H) (places_of s' H)"
  unfolding places_of_def assms by (rule rtranclp.rtrancl_refl)

lemma sim_forwarded:
  assumes c: "in_custody (places_of s H)"
    and i: "fmlookup (messageRecords s) (TrimSpace i) = Some q" "mto (Rec_Message q) = []"
    and run: "MarkMessageForwarded i t s = (Inr r, s')"
  shows "move (places_of s H) (places_of s' H)"
proof -
  have "records_ok (messageRecords s)" using c by (simp add: places_of_def custody_def)
  then have id: "mid (Rec_Message q) = TrimSpace i" by (rule recordD [OF _ i(1)])
  define q' where "q' = q\<lparr>Rec_Status := MessageForwarded, Rec_UpdatedAt := t,
    Rec_LastFailureAt := None, Rec_LastFailureReason := []\<rparr>"
  have msg: "Rec_Message q' = Rec_Message q" by (simp add: q'_def)
  note fin = run [unfolded MarkMessageForwarded_def i(1) option.case Let_def, folded q'_def,
    unfolded msg id prod.inject sum.inject]
  have s': "queues s' = queues s" "messageRecords s' = fmupd (TrimSpace i) q' (messageRecords s)"
    "messageDeliveries s' = messageDeliveries s"
    by (simp_all add: conjunct2 [OF fin, symmetric])
  with i msg show ?thesis unfolding places_stay [OF s'] places_of_def [of s] by (intro move.forward)
qed

text \<open>Every step of a request is some moves of the machine.\<close>

lemma request_moves:
  assumes "request x y" and "in_custody (places_of (fst x) (snd x))"
  shows "move\<^sup>*\<^sup>* (places_of (fst x) (snd x)) (places_of (fst y) (snd y))"
  using assms
proof (induction rule: request.induct)
  case (publish m t s r s' H)
  from CreateOrGet_places [OF publish(1)] have p: "queues s' = queues s"
    "messageRecords s' = fmupd (mid m) r (messageRecords s)" "messageDeliveries s' = messageDeliveries s"
    "fmlookup (messageRecords s) (mid m) = None" "r = new_record m t" by simp_all
  have "move (places_of s H) (places_of s' (m # H))"
    unfolding places_stay [OF p(1-3)] places_of_def [of s]
    by (rule move.accept [OF p(4)]) (simp_all add: p(5) new_record_def publish(2))
  then show ?case by auto
next
  case (publish_remote m t s r s' H)
  from CreateOrGet_places [OF publish_remote(1)] have p: "queues s' = queues s"
    "messageRecords s' = fmupd (mid m) r (messageRecords s)" "messageDeliveries s' = messageDeliveries s"
    "fmlookup (messageRecords s) (mid m) = None" "r = new_record m t" by simp_all
  have "move (places_of s H) (places_of s' H)"
    unfolding places_stay [OF p(1-3)] places_of_def [of s]
    by (rule move.accept_remote [OF p(4)]) (simp_all add: p(5) new_record_def publish_remote(2))
  then show ?case by auto
next
  case (publish_again m t s r s' H)
  with CreateOrGet_places [OF publish_again(1)] sim_replay [of s s' H] show ?case by auto
next
  case (enqueue m H s s')
  with sim_enqueue [of m s s' H] show ?case by auto
next
  case (dequeue u s m s' H)
  with sim_dequeue [of u s m s' H] show ?case by auto
next
  case (lease m H s d t e x s')
  with sim_lease [of s H m d t e x s'] show ?case by auto
next
  case (ack u d t s r s' H)
  with sim_ack [of u d t s r s' H] show ?case by auto
next
  case (nack u d t reason s m r s' H)
  from sim_nack [OF nack(1)] show ?case by auto
next
  case (expire t s ms s' H)
  with sim_expire [of s H t ms s'] show ?case by simp
next
  case (forwarded s i q t r s' H)
  with sim_forwarded [of s H i q t r s'] show ?case by auto
next
  case (elsewhere s' s H)
  with move_stay [of s' s H] show ?case by simp
qed

section \<open>What goes\<close>

definition list_at :: "message list gomap \<Rightarrow> string \<Rightarrow> message list" where
  "list_at qs u = (case fmlookup qs u of None \<Rightarrow> [] | Some q \<Rightarrow> q)"

lemma queue_of_list_at: "queue_of s = list_at (queues s)"
  by (rule ext) (simp add: queue_of_def list_at_def)

lemma list_at_purge: "list_at (purge_queues p qs) u = filter (\<lambda>m. \<not> p m) (list_at qs u)"
  by (auto simp: list_at_def purge_queues_def filter_empty_conv split: option.split)

lemma list_at_drop: "list_at (fmdrop v qs) u = (if u = v then [] else list_at qs u)"
  by (simp add: list_at_def)

lemma list_at_delete: "list_at (fmdelete_if (\<lambda>u _. p u) qs) u = (if p u then [] else list_at qs u)"
  by (simp add: list_at_def split: option.split)

text \<open>A purge keeps, of each queue, the messages that satisfy some predicate.\<close>

lemma sim_purge:
  assumes "\<And>u. \<exists>p. queue_of s' u = filter p (queue_of s u)"
    and "messageRecords s' = messageRecords s" "messageDeliveries s' = messageDeliveries s"
  shows "let_go (places_of s H) (places_of s' H)"
  using assms(2,3) let_go.purge [of "queue_of s'" "queue_of s", OF assms(1)] by (simp add: places_of_def)

lemma some_filter: "\<exists>p. [] = filter p q" "\<exists>p. q = filter p q" "\<exists>p. filter f q = filter p q"
  by (rule exI [of _ "\<lambda>_. False"], simp) (rule exI [of _ "\<lambda>_. True"], simp, blast)

lemma dropNameKey_queues:
  "queues (dropNameKey i h n s) = queues s"
  "messageRecords (dropNameKey i h n s) = messageRecords s"
  "messageDeliveries (dropNameKey i h n s) = messageDeliveries s"
  by (simp_all add: dropNameKey_def split: option.split)

lemma purge_stay:
  assumes "queues s' = queues s" "messageRecords s' = messageRecords s"
    "messageDeliveries s' = messageDeliveries s"
  shows "let_go (places_of s H) (places_of s' H)"
  by (rule sim_purge [OF _ assms(2,3)]) (simp add: queue_of_cong [OF assms(1)] some_filter)

lemma RevokeAgent_fields:
  assumes "RevokeAgent u a t super s = (x, s')"
  shows "(queues s' = queues s \<or> queues s' = purge_queues (message_of u) (queues s)) \<and>
    messageRecords s' = messageRecords s \<and> messageDeliveries s' = messageDeliveries s"
proof (cases "fmlookup (agents s) u")
  case None
  with assms show ?thesis by (simp add: RevokeAgent_def)
next
  case (Some g)
  have "snd (RevokeAgent u a t super s) = s'" using assms by simp
  then show ?thesis
    unfolding RevokeAgent_def Some option.case
    by (auto simp: Let_def recomputeQueueMetricsLocked_def dropNameKey_queues split: if_split_asm)
qed

lemma DeleteAgent_fields:
  assumes "DeleteAgent u a t super s = (x, s')"
  shows "(queues s' = queues s \<or> queues s' = purge_queues (message_of u) (fmdrop u (queues s))) \<and>
    messageRecords s' = messageRecords s \<and> messageDeliveries s' = messageDeliveries s"
proof (cases "fmlookup (agents s) u")
  case None
  with assms show ?thesis by (simp add: DeleteAgent_def)
next
  case (Some g)
  have "snd (DeleteAgent u a t super s) = s'" using assms by simp
  then show ?thesis
    unfolding DeleteAgent_def Some option.case
    by (auto simp: Let_def recomputeQueueMetricsLocked_def split: if_split_asm)
qed

lemma DeleteOrg_queue_fields:
  assumes "DeleteOrg i a super t s = (x, s')"
  shows "(queues s' = queues s \<or> queues s' = purge_queues
      (\<lambda>m. deletedIn s i (Msg_FromAgentUUID m) \<or> deletedIn s i (Msg_ToAgentUUID m))
      (fmdelete_if (\<lambda>u _. deletedIn s i u) (queues s))) \<and>
    messageRecords s' = messageRecords s \<and> messageDeliveries s' = messageDeliveries s"
proof (cases rule: DeleteOrg_cases [of i a super t s])
  case refused
  with assms show ?thesis by simp
next
  case (deleted org details)
  have fields: "messageRecords (deleteOrgAll i t s) = messageRecords s"
    "messageDeliveries (deleteOrgAll i t s) = messageDeliveries s"
    "queues (deleteOrgAll i t s) = purge_queues
      (\<lambda>m. deletedIn s i (Msg_FromAgentUUID m) \<or> deletedIn s i (Msg_ToAgentUUID m))
      (fmdelete_if (\<lambda>u _. deletedIn s i u) (queues s))"
    by (simp_all add: deleteOrgAll_def deleteOrgRecords_def deleteOrgQueues_def
        deleteOrgTrusts_def deleteOrgAgents_def recomputeQueueMetricsLocked_def Let_def)
  have "snd (DeleteOrg i a super t s) = s'" using assms by simp
  then show ?thesis unfolding deleted(2) using fields by auto
qed

lemma sim_abort:
  assumes c: "in_custody (places_of s H)" and m: "m \<in> set H"
    and run: "AbortMessageRecord (mid m) t s = (Inr (), s')"
  shows "let_go (places_of s H) (places_of s' (remove1 m H))"
proof -
  obtain r where r: "fmlookup (messageRecords s) (mid m) = Some r"
    using run by (auto simp: AbortMessageRecord_def split: option.splits)
  note fin = run [unfolded AbortMessageRecord_def r option.case Let_def prod.inject]
  have s': "queues s' = queues s" "messageRecords s' = fmdrop (mid m) (messageRecords s)"
    "messageDeliveries s' = messageDeliveries s"
    by (simp_all add: conjunct2 [OF fin, symmetric])
  show ?thesis unfolding places_stay [OF s'] places_of_def [of s] by (rule let_go.abort [OF m])
qed

lemma mishap_lets_go:
  assumes "mishap x y" and "in_custody (places_of (fst x) (snd x))"
  shows "let_go (places_of (fst x) (snd x)) (places_of (fst y) (snd y))"
  using assms
proof (induction rule: mishap.induct)
  case (give_up s H m)
  then show ?case by (simp add: places_of_def let_go.forget)
next
  case (abort m H t s s')
  with sim_abort [of s H m t s'] show ?case by simp
next
  case (revoke_agent u a t super s x s' H)
  from RevokeAgent_fields [OF revoke_agent(1)] have f: "messageRecords s' = messageRecords s"
    "messageDeliveries s' = messageDeliveries s" and
    q: "queues s' = queues s \<or> queues s' = purge_queues (message_of u) (queues s)" by blast+
  have "\<exists>p. queue_of s' v = filter p (queue_of s v)" for v
    using q by (auto simp: queue_of_list_at list_at_purge some_filter)
  then show ?case by (auto intro: sim_purge [OF _ f])
next
  case (delete_agent u a t super s x s' H)
  from DeleteAgent_fields [OF delete_agent(1)] have f: "messageRecords s' = messageRecords s"
    "messageDeliveries s' = messageDeliveries s" and
    q: "queues s' = queues s \<or> queues s' = purge_queues (message_of u) (fmdrop u (queues s))" by blast+
  have "\<exists>p. queue_of s' v = filter p (queue_of s v)" for v
    using q by (auto simp: queue_of_list_at list_at_purge list_at_drop some_filter)
  then show ?case by (auto intro: sim_purge [OF _ f])
next
  case (delete_org i a super t s x s' H)
  from DeleteOrg_queue_fields [OF delete_org(1)] have f: "messageRecords s' = messageRecords s"
    "messageDeliveries s' = messageDeliveries s" and
    q: "queues s' = queues s \<or> queues s' = purge_queues
      (\<lambda>m. deletedIn s i (Msg_FromAgentUUID m) \<or> deletedIn s i (Msg_ToAgentUUID m))
      (fmdelete_if (\<lambda>u _. deletedIn s i u) (queues s))" by blast+
  have "\<exists>p. queue_of s' v = filter p (queue_of s v)" for v
    using q by (auto simp: queue_of_list_at list_at_purge list_at_delete some_filter)
  then show ?case by (auto intro: sim_purge [OF _ f])
qed

end
