(* ===== verification/MessageSafety.thy ===== *)
theory MessageSafety
  imports Custody
begin

text \<open>
  What the message operations promise, for every interleaving of requests from the empty
  store: one place per message, final acknowledgements, nothing lost on the way, exact queue
  metrics, first in first out.
\<close>

section \<open>The queue metrics\<close>

lemma metrics_exact_eq:
  "metrics_exact s \<longleftrightarrow> queueMetrics s =
     \<lparr>QM_AvailableMessages = queued_total (queues s),
      QM_LeasedMessages = int (fmsize (messageDeliveries s)),
      QM_OldestQueuedAt = oldest_in (queued_times s),
      QM_OldestLeaseExpiryAt = oldest_in (lease_times s)\<rparr>"
  by (simp add: metrics_exact_def computeQueueMetrics_eq)

lemma audited_metrics [simp]:
  "metrics_exact (auditMessage org act m det now s) \<longleftrightarrow> metrics_exact s"
  by (rule metrics_exact_cong) simp_all

lemma counted_metrics [simp]:
  "metrics_exact (incrementAckedLocked org now s) \<longleftrightarrow> metrics_exact s"
  "metrics_exact (incrementExpiredLocked org now s) \<longleftrightarrow> metrics_exact s"
  "metrics_exact (incrementRedeliveredLocked org now s) \<longleftrightarrow> metrics_exact s"
  by (rule metrics_exact_cong; simp)+

lemma records_metrics [simp]:
  "metrics_exact (s\<lparr>messageRecords := R\<rparr>) \<longleftrightarrow> metrics_exact s"
  "metrics_exact (s\<lparr>messageByClientMsg := K\<rparr>) \<longleftrightarrow> metrics_exact s"
  by (rule metrics_exact_cong; simp)+

lemma LeaseMessage_metrics [wf_intros]:
  assumes exact: "metrics_exact s" and d: "fmlookup (messageDeliveries s) d = None"
  shows "metrics_exact (snd (LeaseMessage i u d t e s))"
proof (cases "fmlookup (messageRecords s) i")
  case None
  with exact show ?thesis by (simp add: LeaseMessage_def)
next
  case (Some r)
  have added: "metrics_exact (noteDeliveryAddedLocked v (z\<lparr>messageDeliveries := fmupd d v (messageDeliveries s)\<rparr>))"
    if "metrics_exact z" "messageDeliveries z = messageDeliveries s" for v z
    using note_delivery_added_metrics [of z d v] that d by simp
  show ?thesis
    unfolding LeaseMessage_def Some option.case Let_def
    by (simp add: exact added)
qed

lemma endDelivery_metrics [wf_intros]:
  assumes "metrics_exact s" and "fmlookup (messageDeliveries s) d = Some v"
  shows "metrics_exact (endDelivery d v s)"
  unfolding endDelivery_def by (rule note_delivery_removed_metrics [OF assms])

lemma AckMessageDelivery_metrics [wf_intros]:
  assumes "metrics_exact s"
  shows "metrics_exact (snd (AckMessageDelivery u d t s))"
proof (cases "fmlookup (messageDeliveries s) d")
  case None
  with assms show ?thesis by (simp add: AckMessageDelivery_def)
next
  case (Some v)
  note ended = endDelivery_metrics [OF assms Some]
  show ?thesis
    unfolding AckMessageDelivery_def Some option.case Let_def
    by (cases "fmlookup (messageRecords s) (Del_MessageID v)") (simp_all add: assms ended)
qed

text \<open>A release that finds no record forgets to count: only then do the metrics drift.\<close>

lemma ReleaseMessageDelivery_metrics [wf_intros]:
  assumes "metrics_exact s"
    and "\<And>v. fmlookup (messageDeliveries s) d = Some v \<Longrightarrow> fmlookup (messageRecords s) (Del_MessageID v) \<noteq> None"
  shows "metrics_exact (snd (ReleaseMessageDelivery u d t reason s))"
proof (cases "fmlookup (messageDeliveries s) d")
  case None
  with assms show ?thesis by (simp add: ReleaseMessageDelivery_def)
next
  case (Some v)
  note ended = endDelivery_metrics [OF assms(1) Some]
  obtain r where r: "fmlookup (messageRecords s) (Del_MessageID v) = Some r"
    using assms(2) [OF Some] by blast
  show ?thesis
    unfolding ReleaseMessageDelivery_def Some option.case r Let_def
    by (simp add: assms(1) ended)
qed

lemma expireDelivery_metrics:
  assumes "metrics_exact (snd acc)"
  shows "metrics_exact (snd (expireDelivery t d acc))"
proof -
  obtain out s where acc: "acc = (out, s)" by fastforce
  show ?thesis
  proof (cases "fmlookup (messageDeliveries s) d")
    case None
    with assms acc show ?thesis by (simp add: expireDelivery_def)
  next
    case (Some v)
    note ended = endDelivery_metrics [OF assms [unfolded acc snd_conv] Some]
    show ?thesis
      unfolding expireDelivery_def acc Let_def prod.case Some option.case
      by (cases "fmlookup (messageRecords s) (Del_MessageID v)")
        (use assms acc ended in simp_all)
  qed
qed

lemma ExpireMessageLeases_metrics [wf_intros]:
  "metrics_exact s \<Longrightarrow> metrics_exact (snd (ExpireMessageLeases t s))"
proof -
  have "metrics_exact (snd (fold (expireDelivery t) ds acc))" if "metrics_exact (snd acc)" for ds acc
    using that by (induction ds arbitrary: acc) (simp_all add: expireDelivery_metrics)
  from this [of "([], s)"] show "metrics_exact s \<Longrightarrow> ?thesis" by (simp add: ExpireMessageLeases_def)
qed

lemma RevokeAgent_metrics [wf_intros]:
  assumes "metrics_exact s"
  shows "metrics_exact (snd (RevokeAgent u a t super s))"
proof (cases "fmlookup (agents s) u")
  case None
  with assms show ?thesis by (simp add: RevokeAgent_def)
next
  case (Some g)
  show ?thesis
    unfolding RevokeAgent_def Some option.case Let_def
    by (simp add: assms metrics_exact_recompute)
qed

lemma DeleteAgent_metrics [wf_intros]:
  assumes "metrics_exact s"
  shows "metrics_exact (snd (DeleteAgent u a t super s))"
proof (cases "fmlookup (agents s) u")
  case None
  with assms show ?thesis by (simp add: DeleteAgent_def)
next
  case (Some g)
  show ?thesis
    unfolding DeleteAgent_def Some option.case Let_def
    by (simp add: assms metrics_exact_recompute)
qed

lemma DeleteOrg_metrics [wf_intros]:
  assumes "metrics_exact s"
  shows "metrics_exact (snd (DeleteOrg i a super t s))"
proof (cases rule: DeleteOrg_cases [of i a super t s])
  case refused
  with assms show ?thesis by simp
next
  case (deleted org details)
  have "metrics_exact (snd (DeleteOrg i a super t s)) \<longleftrightarrow> metrics_exact (deleteOrgAll i t s)"
    unfolding deleted(2) by (rule metrics_exact_cong) simp_all
  also have "\<dots> \<longleftrightarrow> metrics_exact (deleteOrgQueues (deletedIn s i)
      (deleteOrgTrusts i (deletedIn s i) (deleteOrgAgents i t s)))"
    unfolding deleteOrgAll_def by (rule metrics_exact_cong) (simp_all add: deleteOrgRecords_def)
  finally show ?thesis by (simp add: deleteOrgQueues_def metrics_exact_recompute)
qed

lemma request_metrics:
  assumes "request x y" and "in_custody (places_of (fst x) (snd x))" and "metrics_exact (fst x)"
  shows "metrics_exact (fst y)"
  using assms
proof (induction rule: request.induct)
  case (publish m t s r s' H)
  with CreateOrGet_places [OF publish(1)] show ?case by (simp add: metrics_exact_cong [of s' s])
next
  case (publish_remote m t s r s' H)
  with CreateOrGet_places [OF publish_remote(1)] show ?case by (simp add: metrics_exact_cong [of s' s])
next
  case (publish_again m t s r s' H)
  with CreateOrGet_places [OF publish_again(1)] show ?case by (simp add: metrics_exact_cong [of s' s])
next
  case (enqueue m H s s')
  with Enqueue_metrics [of s m] show ?case by simp
next
  case (dequeue u s m s' H)
  with Dequeue_metrics [of s u] show ?case by simp
next
  case (lease m H s d t e x s')
  with LeaseMessage_metrics [of s d "mid m" "mto m" t e] show ?case by simp
next
  case (ack u d t s r s' H)
  with AckMessageDelivery_metrics [of s u d t] show ?case by simp
next
  case (nack u d t reason s m r s' H)
  have "fmlookup (messageRecords s) (Del_MessageID v) \<noteq> None"
    if "fmlookup (messageDeliveries s) d = Some v" for v
    using nack.prems(1) no_delivery(1) [OF _ that, of "messageRecords s"]
    by (simp add: places_of_def custody_def)
  with nack ReleaseMessageDelivery_metrics [of s d u t reason] show ?case by simp
next
  case (expire t s ms s' H)
  with ExpireMessageLeases_metrics [of s t] show ?case by simp
next
  case (forwarded s i q t r s' H)
  then have "s' = snd (MarkMessageForwarded i t s)" by simp
  with forwarded(1,5) show ?case by (simp add: MarkMessageForwarded_def Let_def)
next
  case (elsewhere s' s H)
  then show ?case by (simp add: metrics_exact_part [of s' s])
qed

lemma mishap_metrics:
  assumes "mishap x y" and "metrics_exact (fst x)"
  shows "metrics_exact (fst y)"
  using assms
proof (induction rule: mishap.induct)
  case (abort m H t s s')
  then have s': "s' = snd (AbortMessageRecord (mid m) t s)" by simp
  show ?case
    using abort(3) unfolding s'
    by (cases "fmlookup (messageRecords s) (mid m)")
      (simp_all add: AbortMessageRecord_def Let_def)
next
  case (revoke_agent u a t super s x s' H)
  with RevokeAgent_metrics [of s u a t super] show ?case by simp
next
  case (delete_agent u a t super s x s' H)
  with DeleteAgent_metrics [of s u a t super] show ?case by simp
next
  case (delete_org i a super t s x s' H)
  with DeleteOrg_metrics [of s i a super t] show ?case by simp
qed simp

section \<open>The contract of a message store\<close>

text \<open>
  A store whose steps are moves of the abstract machine, or let go of a message, keeps every
  message in one place, and its acknowledgements are final.
\<close>

locale message_custody =
  fixes view :: "'s \<Rightarrow> places"
    and start :: 's
    and works :: "'s \<Rightarrow> 's \<Rightarrow> bool"
    and loses :: "'s \<Rightarrow> 's \<Rightarrow> bool"
  assumes view_start: "view start = (\<lambda>_. [], fmempty, fmempty, [])"
    and works_moves: "works x y \<Longrightarrow> in_custody (view x) \<Longrightarrow> move\<^sup>*\<^sup>* (view x) (view y)"
    and loses_lets_go: "loses x y \<Longrightarrow> in_custody (view x) \<Longrightarrow> let_go (view x) (view y)"
begin

lemma moves_acked: "move\<^sup>*\<^sup>* p q \<Longrightarrow> in_custody p \<Longrightarrow> is_acked p i \<Longrightarrow> is_acked q i"
proof (induction rule: rtranclp_induct)
  case (step q r)
  then show ?case by (metis move_acked moves_custody)
qed

lemma moves_accounted: "move\<^sup>*\<^sup>* p q \<Longrightarrow> in_custody p \<Longrightarrow> accounted p \<Longrightarrow> accounted q"
proof (induction rule: rtranclp_induct)
  case (step q r)
  then show ?case by (metis move_accounted moves_custody)
qed

lemma step_custody:
  assumes "works x y \<or> loses x y" and "in_custody (view x)"
  shows "in_custody (view y)"
  using assms works_moves loses_lets_go moves_custody let_go_custody by metis

lemma run_custody:
  assumes "(\<lambda>x y. works x y \<or> loses x y)\<^sup>*\<^sup>* start x"
  shows "in_custody (view x)"
  using assms
proof (induction rule: rtranclp_induct)
  case base
  show ?case
    by (simp add: view_start custody_def queues_ok_def deliveries_ok_def records_ok_def hands_ok_def)
next
  case (step x y)
  then show ?case by (metis step_custody)
qed

lemma run_one_place:
  assumes "(\<lambda>x y. works x y \<or> loses x y)\<^sup>*\<^sup>* start x"
    and "at_place (view x) i p" and "at_place (view x) i q"
  shows "p = q"
  using run_custody [OF assms(1)] assms(2,3) by (cases "view x") (auto intro: one_place)

lemma run_acked:
  assumes "(\<lambda>x y. works x y \<or> loses x y)\<^sup>*\<^sup>* x y"
    and "in_custody (view x)" and "is_acked (view x) i"
  shows "in_custody (view y) \<and> is_acked (view y) i \<and> \<not> at_place (view y) i p"
proof -
  from assms have y: "in_custody (view y) \<and> is_acked (view y) i"
  proof (induction rule: rtranclp_induct)
    case (step y z)
    then show ?case by (metis step_custody works_moves loses_lets_go moves_acked let_go_acked)
  qed simp
  then show ?thesis by (cases "view y") (auto dest: acked_no_place)
qed

lemma run_accounted:
  assumes "works\<^sup>*\<^sup>* start x"
  shows "in_custody (view x) \<and> accounted (view x)"
  using assms
proof (induction rule: rtranclp_induct)
  case base
  show ?case
    by (simp add: view_start accounted_def custody_def queues_ok_def deliveries_ok_def
        records_ok_def hands_ok_def)
next
  case (step x y)
  then show ?case by (metis step_custody works_moves moves_accounted)
qed

end

definition view_of :: "memory_store \<times> message list \<Rightarrow> places" where
  "view_of x = places_of (fst x) (snd x)"

lemma view_of_pair [simp]: "view_of (s, H) = (queue_of s, messageRecords s, messageDeliveries s, H)"
  by (simp add: view_of_def places_of_def)

interpretation ms: message_custody view_of "(NewMemoryStore, [])" request mishap
proof
  show "view_of (NewMemoryStore, []) = (\<lambda>_. [], fmempty, fmempty, [])"
    by (simp add: NewMemoryStore_def queue_of_def fun_eq_iff)
qed (simp_all add: view_of_def request_moves mishap_lets_go)

text \<open>Any number of steps of any requests, with and without losses.\<close>

definition store_run :: "memory_store \<times> message list \<Rightarrow> memory_store \<times> message list \<Rightarrow> bool" where
  "store_run = (\<lambda>x y. request x y \<or> mishap x y)\<^sup>*\<^sup>*"

section \<open>A run\<close>

lemma fmran_single: "fmran' (fmupd k v fmempty) = {v}"
  by (auto simp: fmlookup_ran'_iff split: if_splits)

text \<open>One message is published to one agent, queued, taken, leased and acknowledged.\<close>

definition demo_message :: message where
  "demo_message = \<lparr>Msg_MessageID = ''m1'', Msg_FromAgentUUID = ''a1'', Msg_ToAgentUUID = ''a2'',
     Msg_FromAgentID = [], Msg_ToAgentID = [], Msg_FromAgentURI = [], Msg_ToAgentURI = [],
     Msg_SenderOrgID = [], Msg_ReceiverOrgID = [], Msg_ReceiverPeerID = [], Msg_ContentType = [],
     Msg_Payload = [], Msg_ClientMsgID = None, Msg_CreatedAt = 1\<rparr>"

definition demo_agent :: agent where
  "demo_agent = \<lparr>Agent_AgentUUID = ''a2'', Agent_AgentID = [], Agent_Handle = ''bob'',
     Agent_HandleFinalizedAt = None, Agent_OrgID = [], Agent_OwnerHumanID = None,
     Agent_HostAgentUUID = [], Agent_TokenHash = ''t'', Agent_Status = StatusActive,
     Agent_Metadata = fmempty, Agent_CreatedBy = [], Agent_CreatedAt = 0, Agent_RevokedAt = None\<rparr>"

definition demo_start :: memory_store where
  "demo_start = NewMemoryStore\<lparr>agents := fmupd ''a2'' demo_agent fmempty\<rparr>"

definition demo_published :: memory_store where
  "demo_published = snd (CreateOrGetMessageRecord demo_message 1 demo_start)"

definition demo_queued :: memory_store where
  "demo_queued = snd (Enqueue demo_message demo_published)"

definition demo_taken :: memory_store where
  "demo_taken = snd (Dequeue ''a2'' demo_queued)"

definition demo_leased :: memory_store where
  "demo_leased = snd (LeaseMessage ''m1'' ''a2'' ''d1'' 2 9 demo_taken)"

definition demo_acked :: memory_store where
  "demo_acked = snd (AckMessageDelivery ''a2'' ''d1'' 3 demo_leased)"

lemma demo_trim: "TrimSpace ''m1'' = ''m1''" "TrimSpace ''a1'' = ''a1''"
  by code_simp+

lemma demo_published: "CreateOrGetMessageRecord demo_message 1 demo_start =
    (Inr (new_record demo_message 1, False), demo_published)"
  and demo_published_eq: "demo_published = demo_start
    \<lparr>messageRecords := fmupd ''m1'' (new_record demo_message 1) fmempty\<rparr>"
  unfolding demo_published_def
  by (simp_all add: CreateOrGetMessageRecord_def demo_trim demo_start_def NewMemoryStore_def
      insertRecord_def client_key_def auditMessage_def Let_def demo_message_def)

lemma demo_queued: "Enqueue demo_message demo_published = (Inr (), demo_queued)"
  and demo_queued_eq: "queues demo_queued = fmupd ''a2'' [demo_message] fmempty"
  "messageRecords demo_queued = fmupd ''m1'' (new_record demo_message 1) fmempty"
  "messageDeliveries demo_queued = fmempty"
  unfolding demo_queued_def
  by (simp_all add: demo_published_eq Enqueue_def demo_start_def demo_agent_def NewMemoryStore_def
      demo_message_def Let_def queue_of_def noteQueuedMessageAddedLocked_def)

lemma demo_taken: "Dequeue ''a2'' demo_queued = (Some demo_message, demo_taken)"
  and demo_taken_eq: "queues demo_taken = fmupd ''a2'' [] (fmupd ''a2'' [demo_message] fmempty)"
  "messageRecords demo_taken = fmupd ''m1'' (new_record demo_message 1) fmempty"
  "messageDeliveries demo_taken = fmempty"
  unfolding demo_taken_def
  by (simp_all add: demo_queued_eq Dequeue_def Let_def queue_of_def noteQueuedMessageRemovedLocked_def)

lemma demo_leased: "\<exists>x. LeaseMessage ''m1'' ''a2'' ''d1'' 2 9 demo_taken = (Inr x, demo_leased)"
  and demo_leased_eq: "queue_of demo_leased = (\<lambda>_. [])"
  "messageRecords demo_leased = fmupd ''m1'' (leased_record (new_record demo_message 1) ''d1'' 2 9)
     (fmupd ''m1'' (new_record demo_message 1) fmempty)"
  "messageDeliveries demo_leased = fmupd ''d1'' \<lparr>Del_DeliveryID = ''d1'', Del_MessageID = ''m1'',
     Del_AgentUUID = ''a2'', Del_Attempt = 1, Del_LeasedAt = 2, Del_LeaseExpiresAt = 9\<rparr> fmempty"
  unfolding demo_leased_def
  by (simp_all add: demo_taken_eq LeaseMessage_def new_record_def leased_record_def demo_message_def
      Let_def fun_eq_iff queue_of_def)

lemma demo_acked: "\<exists>r. AckMessageDelivery ''a2'' ''d1'' 3 demo_leased = (Inr r, demo_acked)"
  and demo_acked_eq: "\<exists>r. fmlookup (messageRecords demo_acked) ''m1'' = Some r \<and>
    Rec_Status r = MessageDeliveryAcked \<and> mto (Rec_Message r) \<noteq> []"
  unfolding demo_acked_def
  by (simp_all add: demo_leased_eq AckMessageDelivery_def acked_record_def leased_record_def
      new_record_def demo_message_def Let_def)

lemma demo_requests:
  "request (NewMemoryStore, []) (demo_start, [])"
  "request (demo_start, []) (demo_published, [demo_message])"
  "request (demo_published, [demo_message]) (demo_queued, [])"
  "request (demo_queued, []) (demo_taken, [demo_message])"
  "request (demo_taken, [demo_message]) (demo_leased, [])"
  "request (demo_leased, []) (demo_acked, [])"
proof -
  show "request (NewMemoryStore, []) (demo_start, [])"
    by (rule request.elsewhere) (simp_all add: demo_start_def queue_of_def fun_eq_iff)
  show "request (demo_start, []) (demo_published, [demo_message])"
    by (rule request.publish [OF demo_published]) (simp add: demo_message_def)
  show "request (demo_published, [demo_message]) (demo_queued, [])"
    using request.enqueue [of demo_message "[demo_message]", OF _ demo_queued] by simp
  show "request (demo_queued, []) (demo_taken, [demo_message])"
    by (rule request.dequeue [OF demo_taken])
  obtain x where "LeaseMessage (mid demo_message) (mto demo_message) ''d1'' 2 9 demo_taken = (Inr x, demo_leased)"
    using demo_leased by (auto simp: demo_message_def)
  from request.lease [of demo_message "[demo_message]", OF _ _ this]
  show "request (demo_taken, [demo_message]) (demo_leased, [])"
    by (simp add: demo_taken_eq)
  show "request (demo_leased, []) (demo_acked, [])"
    using demo_acked by (auto intro: request.ack)
qed

lemma demo_works:
  "request\<^sup>*\<^sup>* (NewMemoryStore, []) (demo_queued, [])"
  "request\<^sup>*\<^sup>* (NewMemoryStore, []) (demo_acked, [])"
proof -
  have step: "request x y \<Longrightarrow> request\<^sup>*\<^sup>* y z \<Longrightarrow> request\<^sup>*\<^sup>* x z" for x y z
    by (rule converse_rtranclp_into_rtranclp)
  show queued: "request\<^sup>*\<^sup>* (NewMemoryStore, []) (demo_queued, [])"
    by (rule demo_requests(1) [THEN step], rule demo_requests(2) [THEN step],
        rule demo_requests(3) [THEN step]) simp
  have "request\<^sup>*\<^sup>* (demo_queued, []) (demo_acked, [])"
    by (rule demo_requests(4) [THEN step], rule demo_requests(5) [THEN step],
        rule demo_requests(6) [THEN step]) simp
  with queued show "request\<^sup>*\<^sup>* (NewMemoryStore, []) (demo_acked, [])" by (rule rtranclp_trans)
qed

lemma works_store_run: "request\<^sup>*\<^sup>* x y \<Longrightarrow> store_run x y"
  unfolding store_run_def by (erule rtranclp_mono [THEN predicate2D, rotated]) blast

section \<open>Properties\<close>

text \<open>
  C1: in every state that requests reach from the empty store, however they interleave and
  whatever they let go of, a message is in at most one place: one position of one queue, the
  hands of one request, or one delivery.
\<close>

theorem message_one_place:
  assumes "store_run (NewMemoryStore, []) x"
    and "at_place (view_of x) i p" and "at_place (view_of x) i q"
  shows "p = q"
  using assms unfolding store_run_def by (rule ms.run_one_place)

theorem message_one_place_witness:
  "InQueue ''a2'' 0 = InQueue ''a2'' 0 \<and> store_run (NewMemoryStore, []) (demo_queued, [])"
proof
  have run: "store_run (NewMemoryStore, []) (demo_queued, [])"
    by (rule works_store_run [OF demo_works(1)])
  have "at_place (view_of (demo_queued, [])) ''m1'' (InQueue ''a2'' 0)"
    by (simp add: queue_of_def demo_queued_eq demo_message_def)
  from message_one_place [OF run this this] show "InQueue ''a2'' 0 = InQueue ''a2'' 0" .
  show "store_run (NewMemoryStore, []) (demo_queued, [])" by (rule run)
qed

text \<open>
  C2: an acknowledgement is final.  Whatever requests do after a local message was
  acknowledged, its record stays acknowledged, and the message is in no queue, in no request
  and under no lease again, so it is never delivered a second time.
\<close>

theorem acknowledged_is_final:
  assumes "store_run (NewMemoryStore, []) x" and "is_acked (view_of x) i" and "store_run x y"
  shows "is_acked (view_of y) i \<and> \<not> at_place (view_of y) i p"
  using ms.run_acked [of x y i p] ms.run_custody [of x] assms unfolding store_run_def by blast

theorem acknowledged_is_final_witness:
  "is_acked (view_of (demo_acked, [])) ''m1'' \<and> \<not> at_place (view_of (demo_acked, [])) ''m1'' (InHand 0)"
proof -
  have run: "store_run (NewMemoryStore, []) (demo_acked, [])"
    by (rule works_store_run [OF demo_works(2)])
  have acked: "is_acked (view_of (demo_acked, [])) ''m1''"
    using demo_acked_eq by (simp add: is_acked_def)
  have "store_run (demo_acked, []) (demo_acked, [])" by (simp add: store_run_def)
  from acknowledged_is_final [OF run acked this] show ?thesis .
qed

text \<open>
  C3: nothing is lost on the way.  As long as no request gives up on a message and nobody
  aborts a publish or removes an agent or an organisation, every accepted message for a
  local agent is acknowledged, or in a queue, in the hands of a request, or under a lease.
\<close>

theorem message_not_lost:
  assumes "request\<^sup>*\<^sup>* (NewMemoryStore, []) (s, H)"
    and "fmlookup (messageRecords s) i = Some r" and "Msg_ToAgentUUID (Rec_Message r) \<noteq> []"
  shows "Rec_Status r = MessageDeliveryAcked \<or> (\<exists>p. at_place (view_of (s, H)) i p)"
  using ms.run_accounted [OF assms(1)] accounted_place [of "queue_of s" "messageRecords s"] assms(2,3)
  by simp

theorem message_not_lost_witness:
  "\<exists>p. at_place (view_of (demo_queued, [])) ''m1'' p"
  using message_not_lost [OF demo_works(1), of "''m1''" "new_record demo_message 1"]
  by (simp add: demo_queued_eq new_record_def demo_message_def)

text \<open>
  C15: the queue metrics the store maintains incrementally are those a recomputation from all
  queues and deliveries would give, in every reachable state: the counts never drift and the
  two oldest times are never stale.
\<close>

theorem queue_metrics_exact:
  assumes "store_run (NewMemoryStore, []) x"
  shows "GetQueueMetrics (fst x) = computeQueueMetricsLocked (fst x)"
proof -
  have "metrics_exact (fst x) \<and> in_custody (view_of x)"
    using assms unfolding store_run_def
  proof (induction rule: rtranclp_induct)
    case base
    have "metrics_exact NewMemoryStore"
      by (simp add: metrics_exact_def computeQueueMetricsLocked_def NewMemoryStore_def
          computeOldestQueuedAtLocked_def all_queued_def computeOldestLeaseExpiryAtLocked_def
          oldest_of_def)
    then show ?case using ms.run_custody [of "(NewMemoryStore, [])"] by simp
  next
    case (step x y)
    have "metrics_exact (fst y)"
      using step request_metrics [of x y] mishap_metrics [of x y] unfolding view_of_def by blast
    with ms.step_custody step show ?case by blast
  qed
  then show ?thesis by (simp add: metrics_exact_def GetQueueMetrics_def)
qed

theorem queue_metrics_exact_witness:
  "QM_AvailableMessages (GetQueueMetrics demo_queued) = 1 \<and>
    QM_OldestQueuedAt (GetQueueMetrics demo_queued) = Some 1"
proof -
  have run: "store_run (NewMemoryStore, []) (demo_queued, [])"
    by (rule works_store_run [OF demo_works(1)])
  from queue_metrics_exact [OF this]
  have "GetQueueMetrics demo_queued = computeQueueMetricsLocked demo_queued" by simp
  then show ?thesis
    by (simp add: computeQueueMetrics_eq demo_queued_eq queued_total_def queued_times_def
        fmran_single oldest_in_def demo_message_def)
qed

text \<open>
  C14: the queues are first in, first out.  For every sequence of enqueues and dequeues and
  every receiver, what was queued before followed by what was accepted is what was handed
  out followed by what is still queued, in that order (but for the receiver's current
  identifier, which \<^verbatim>\<open>Enqueue\<close> stamps on each message).
\<close>

theorem queue_fifo:
  assumes "run_queue Enqueue Dequeue ops s = (ins, outs, s')"
  shows "map unstamped (queue_of s u) @ accepted_for u ins =
    handed_to u outs @ map unstamped (queue_of s' u)"
  using assms by (rule mq.run_history)

theorem queue_fifo_witness:
  "\<exists>outs s'. run_queue Enqueue Dequeue [OpEnqueue demo_message, OpDequeue ''a2''] demo_published =
      ([demo_message], outs, s') \<and>
    [unstamped demo_message] = handed_to ''a2'' outs @ map unstamped (queue_of s' ''a2'')"
proof -
  have run: "run_queue Enqueue Dequeue [OpEnqueue demo_message, OpDequeue ''a2''] demo_published =
      ([demo_message], [(''a2'', demo_message)], demo_taken)"
    by (simp add: demo_queued demo_taken)
  have "queue_of demo_published ''a2'' = []"
    by (simp add: demo_published_eq demo_start_def NewMemoryStore_def queue_of_def)
  then show ?thesis
    using run queue_fifo [OF run, of "''a2''"] by (simp add: accepted_for_def demo_message_def)
qed

lemma message_error_cases:
  "Enqueue m s = (Inl e, s') \<Longrightarrow> s' = s"
  "CreateOrGetMessageRecord m t s = (Inl e, s') \<Longrightarrow> s' = s"
  "LeaseMessage i u d t t' s = (Inl e, s') \<Longrightarrow> s' = s"
  "MarkMessageForwarded i t s = (Inl e, s') \<Longrightarrow> s' = s"
  "AbortMessageRecord i t s = (Inl e, s') \<Longrightarrow> s' = s"
  unfolding Enqueue_def CreateOrGetMessageRecord_def LeaseMessage_def MarkMessageForwarded_def
    AbortMessageRecord_def Let_def
  by (auto split: option.splits if_splits prod.splits)

text \<open>
  C16: a message operation that returns an error has changed nothing: publish, enqueue, lease,
  acknowledge, release, forward and abort leave the store as it was, in every reachable state.
\<close>

theorem message_errors_change_nothing:
  assumes run: "store_run (NewMemoryStore, []) (s, H)"
  shows "(Enqueue m s = (Inl e, s') \<or> CreateOrGetMessageRecord m t s = (Inl e, s') \<or>
      LeaseMessage i u d t t' s = (Inl e, s') \<or> AckMessageDelivery u d t s = (Inl e, s') \<or>
      ReleaseMessageDelivery u d t reason s = (Inl e, s') \<or> MarkMessageForwarded i t s = (Inl e, s') \<or>
      AbortMessageRecord i t s = (Inl e, s')) \<longrightarrow> s' = s"
proof -
  have "custody (queue_of s) (messageRecords s) (messageDeliveries s) H"
    using ms.run_custody [of "(s, H)"] run by (simp add: store_run_def)
  then have found: "fmlookup (messageRecords s) (Del_MessageID v) \<noteq> None"
    if "fmlookup (messageDeliveries s) d = Some v" for v
    using no_delivery(1) [OF _ that, of "messageRecords s"] by (simp add: custody_def)
  have ack: "s' = s" if "AckMessageDelivery u d t s = (Inl e, s')"
    using that found unfolding AckMessageDelivery_def Let_def
    by (auto split: option.splits if_splits)
  have release: "s' = s" if "ReleaseMessageDelivery u d t reason s = (Inl e, s')"
    using that found unfolding ReleaseMessageDelivery_def Let_def
    by (auto split: option.splits if_splits)
  show ?thesis by (intro impI, elim disjE) (erule message_error_cases ack release)+
qed

theorem message_errors_change_nothing_witness:
  "AckMessageDelivery ''a3'' ''d1'' 3 demo_queued = (Inl ErrMessageDeliveryNotFound, demo_queued)"
proof -
  have run: "store_run (NewMemoryStore, []) (demo_queued, [])"
    by (rule works_store_run [OF demo_works(1)])
  have "fst (AckMessageDelivery ''a3'' ''d1'' 3 demo_queued) = Inl ErrMessageDeliveryNotFound"
    by (simp add: AckMessageDelivery_def demo_queued_eq)
  then have "AckMessageDelivery ''a3'' ''d1'' 3 demo_queued =
      (Inl ErrMessageDeliveryNotFound, snd (AckMessageDelivery ''a3'' ''d1'' 3 demo_queued))" (is "?run = (_, ?s)")
    by (metis prod.collapse)
  moreover from this have "?s = demo_queued"
    by (intro message_errors_change_nothing [OF run, rule_format]) (rule disjI2, rule disjI2, rule disjI2, erule disjI1)
  ultimately show ?thesis by simp
qed

end
