(* ===== verification/Parts.thy ===== *)
theory Parts
  imports OrgAccess FederationSafety MessageSafety
begin

text \<open>
  The store as six parts: the tables that humans, agents, trust, organisations, federation
  and messages keep.  Most operations touch one or two parts; this theory says, operation by
  operation, which parts stay as they are.
\<close>

section \<open>The parts\<close>

definition "humans_part s = (humans s, humanByAuthKey s, humanByHandle s)"

definition "agents_part s =
  (agent_cores s, agentTokenIdx s, agentByURI s, orgOwnedAgentNameIdx s, humanOwnedAgentNameIdx s)"

definition "trust_part s = (orgTrusts s, orgTrustByPair s, agentTrusts s, agentTrustByPair s)"

definition "orgs_part s = (orgs s, orgByHandle s, memberships s, membershipByOrgUser s)"

definition "fed_part s =
  (peerInstances s, peerByCanonicalBase s, remoteOrgTrusts s, remoteOrgTrustByKey s,
   remoteAgentTrusts s, remoteAgentTrustByKey s, peerOutbounds s, peerOutboundByPeer s)"

definition "binds_part s = (binds s, bindByHash s)"

definition "flow_part s = (queue_of s, messageRecords s, messageDeliveries s, queueMetrics s)"

lemmas parts_def = humans_part_def agents_part_def trust_part_def orgs_part_def fed_part_def
  flow_part_def binds_part_def

text \<open>The invariants depend on their parts only.\<close>

lemma humans_wf_part: "humans_part s' = humans_part s \<Longrightarrow> humans_wf s' \<longleftrightarrow> humans_wf s"
  by (simp add: humans_part_def humans_wf_def)

lemma agents_wf_part: "agents_part s' = agents_part s \<Longrightarrow> agents_wf s' \<longleftrightarrow> agents_wf s"
  by (simp add: agents_part_def agents_wf_def)

lemma trust_wf_part: "trust_part s' = trust_part s \<Longrightarrow> trust_wf s' \<longleftrightarrow> trust_wf s"
  by (simp add: trust_part_def trust_wf_def)

lemma orgs_wf_part: "orgs_part s' = orgs_part s \<Longrightarrow> orgs_wf s' \<longleftrightarrow> orgs_wf s"
  by (simp add: orgs_part_def orgs_wf_def owner_ok_def)

lemma federation_wf_part: "fed_part s' = fed_part s \<Longrightarrow> federation_wf s' \<longleftrightarrow> federation_wf s"
  by (intro federation_wf_cong) (simp_all add: fed_part_def)

section \<open>What updates of other fields leave alone\<close>

lemma queue_of_upd_same [simp]:
  "queue_of (z\<lparr>queues := fmupd u (queue_of s u) (queues s)\<rparr>) = queue_of s"
  by (auto simp: queue_of_def fun_eq_iff)

lemma agent_cores_update [simp]:
  "agent_cores (s\<lparr>orgs := x1\<rparr>) = agent_cores s"
  "agent_cores (s\<lparr>orgByHandle := x2\<rparr>) = agent_cores s"
  "agent_cores (s\<lparr>personalOrgByHuman := x3\<rparr>) = agent_cores s"
  "agent_cores (s\<lparr>archivedOrgs := x4\<rparr>) = agent_cores s"
  "agent_cores (s\<lparr>humans := x5\<rparr>) = agent_cores s"
  "agent_cores (s\<lparr>humanByAuthKey := x6\<rparr>) = agent_cores s"
  "agent_cores (s\<lparr>humanByHandle := x7\<rparr>) = agent_cores s"
  "agent_cores (s\<lparr>archivedHumans := x8\<rparr>) = agent_cores s"
  "agent_cores (s\<lparr>humanPresence := x9\<rparr>) = agent_cores s"
  "agent_cores (s\<lparr>memberships := x10\<rparr>) = agent_cores s"
  "agent_cores (s\<lparr>membershipByOrgUser := x11\<rparr>) = agent_cores s"
  "agent_cores (s\<lparr>invites := x12\<rparr>) = agent_cores s"
  "agent_cores (s\<lparr>inviteBySecretHash := x13\<rparr>) = agent_cores s"
  "agent_cores (s\<lparr>orgAccessKeys := x14\<rparr>) = agent_cores s"
  "agent_cores (s\<lparr>orgAccessKeyByHash := x15\<rparr>) = agent_cores s"
  "agent_cores (s\<lparr>archivedAgents := x16\<rparr>) = agent_cores s"
  "agent_cores (s\<lparr>agentByURI := x17\<rparr>) = agent_cores s"
  "agent_cores (s\<lparr>agentTokenIdx := x18\<rparr>) = agent_cores s"
  "agent_cores (s\<lparr>orgOwnedAgentNameIdx := x19\<rparr>) = agent_cores s"
  "agent_cores (s\<lparr>humanOwnedAgentNameIdx := x20\<rparr>) = agent_cores s"
  "agent_cores (s\<lparr>queues := x21\<rparr>) = agent_cores s"
  "agent_cores (s\<lparr>messageRecords := x22\<rparr>) = agent_cores s"
  "agent_cores (s\<lparr>messageByClientMsg := x23\<rparr>) = agent_cores s"
  "agent_cores (s\<lparr>messageDeliveries := x24\<rparr>) = agent_cores s"
  "agent_cores (s\<lparr>queueMetrics := x25\<rparr>) = agent_cores s"
  "agent_cores (s\<lparr>binds := x26\<rparr>) = agent_cores s"
  "agent_cores (s\<lparr>bindByHash := x27\<rparr>) = agent_cores s"
  "agent_cores (s\<lparr>orgTrusts := x28\<rparr>) = agent_cores s"
  "agent_cores (s\<lparr>orgTrustByPair := x29\<rparr>) = agent_cores s"
  "agent_cores (s\<lparr>agentTrusts := x30\<rparr>) = agent_cores s"
  "agent_cores (s\<lparr>agentTrustByPair := x31\<rparr>) = agent_cores s"
  "agent_cores (s\<lparr>peerInstances := x32\<rparr>) = agent_cores s"
  "agent_cores (s\<lparr>peerByCanonicalBase := x33\<rparr>) = agent_cores s"
  "agent_cores (s\<lparr>remoteOrgTrusts := x34\<rparr>) = agent_cores s"
  "agent_cores (s\<lparr>remoteOrgTrustByKey := x35\<rparr>) = agent_cores s"
  "agent_cores (s\<lparr>remoteAgentTrusts := x36\<rparr>) = agent_cores s"
  "agent_cores (s\<lparr>remoteAgentTrustByKey := x37\<rparr>) = agent_cores s"
  "agent_cores (s\<lparr>peerOutbounds := x38\<rparr>) = agent_cores s"
  "agent_cores (s\<lparr>peerOutboundByPeer := x39\<rparr>) = agent_cores s"
  "agent_cores (s\<lparr>agentPresence := x40\<rparr>) = agent_cores s"
  "agent_cores (s\<lparr>auditByOrg := x41\<rparr>) = agent_cores s"
  "agent_cores (s\<lparr>statsByOrg := x42\<rparr>) = agent_cores s"
  "agent_cores (s\<lparr>statsDaily := x43\<rparr>) = agent_cores s"
  by (simp_all add: agent_cores_def del: fmmap_core)

lemma queue_of_frame:
  "queue_of (s\<lparr>orgs := x1\<rparr>) = queue_of s"
  "queue_of (s\<lparr>orgByHandle := x2\<rparr>) = queue_of s"
  "queue_of (s\<lparr>personalOrgByHuman := x3\<rparr>) = queue_of s"
  "queue_of (s\<lparr>archivedOrgs := x4\<rparr>) = queue_of s"
  "queue_of (s\<lparr>humans := x5\<rparr>) = queue_of s"
  "queue_of (s\<lparr>humanByAuthKey := x6\<rparr>) = queue_of s"
  "queue_of (s\<lparr>humanByHandle := x7\<rparr>) = queue_of s"
  "queue_of (s\<lparr>archivedHumans := x8\<rparr>) = queue_of s"
  "queue_of (s\<lparr>humanPresence := x9\<rparr>) = queue_of s"
  "queue_of (s\<lparr>memberships := x10\<rparr>) = queue_of s"
  "queue_of (s\<lparr>membershipByOrgUser := x11\<rparr>) = queue_of s"
  "queue_of (s\<lparr>invites := x12\<rparr>) = queue_of s"
  "queue_of (s\<lparr>inviteBySecretHash := x13\<rparr>) = queue_of s"
  "queue_of (s\<lparr>orgAccessKeys := x14\<rparr>) = queue_of s"
  "queue_of (s\<lparr>orgAccessKeyByHash := x15\<rparr>) = queue_of s"
  "queue_of (s\<lparr>archivedAgents := x16\<rparr>) = queue_of s"
  "queue_of (s\<lparr>agentByURI := x17\<rparr>) = queue_of s"
  "queue_of (s\<lparr>agentTokenIdx := x18\<rparr>) = queue_of s"
  "queue_of (s\<lparr>orgOwnedAgentNameIdx := x19\<rparr>) = queue_of s"
  "queue_of (s\<lparr>humanOwnedAgentNameIdx := x20\<rparr>) = queue_of s"
  "queue_of (s\<lparr>messageRecords := x22\<rparr>) = queue_of s"
  "queue_of (s\<lparr>messageByClientMsg := x23\<rparr>) = queue_of s"
  "queue_of (s\<lparr>messageDeliveries := x24\<rparr>) = queue_of s"
  "queue_of (s\<lparr>queueMetrics := x25\<rparr>) = queue_of s"
  "queue_of (s\<lparr>binds := x26\<rparr>) = queue_of s"
  "queue_of (s\<lparr>bindByHash := x27\<rparr>) = queue_of s"
  "queue_of (s\<lparr>orgTrusts := x28\<rparr>) = queue_of s"
  "queue_of (s\<lparr>orgTrustByPair := x29\<rparr>) = queue_of s"
  "queue_of (s\<lparr>agentTrusts := x30\<rparr>) = queue_of s"
  "queue_of (s\<lparr>agentTrustByPair := x31\<rparr>) = queue_of s"
  "queue_of (s\<lparr>peerInstances := x32\<rparr>) = queue_of s"
  "queue_of (s\<lparr>peerByCanonicalBase := x33\<rparr>) = queue_of s"
  "queue_of (s\<lparr>remoteOrgTrusts := x34\<rparr>) = queue_of s"
  "queue_of (s\<lparr>remoteOrgTrustByKey := x35\<rparr>) = queue_of s"
  "queue_of (s\<lparr>remoteAgentTrusts := x36\<rparr>) = queue_of s"
  "queue_of (s\<lparr>remoteAgentTrustByKey := x37\<rparr>) = queue_of s"
  "queue_of (s\<lparr>peerOutbounds := x38\<rparr>) = queue_of s"
  "queue_of (s\<lparr>peerOutboundByPeer := x39\<rparr>) = queue_of s"
  "queue_of (s\<lparr>agentPresence := x40\<rparr>) = queue_of s"
  "queue_of (s\<lparr>auditByOrg := x41\<rparr>) = queue_of s"
  "queue_of (s\<lparr>statsByOrg := x42\<rparr>) = queue_of s"
  "queue_of (s\<lparr>statsDaily := x43\<rparr>) = queue_of s"
  "queue_of (s\<lparr>agents := y\<rparr>) = queue_of s"
  by (simp_all add: queue_of_def fun_eq_iff)

lemma queue_of_appendAudit [simp]: "queue_of (appendAuditLocked o1 a c act sub det now s) = queue_of s"
  by (rule queue_of_cong) simp

lemma queue_of_recompute [simp]: "queue_of (recomputeQueueMetricsLocked s) = queue_of s"
  by (rule queue_of_cong) (simp add: recomputeQueueMetricsLocked_def)

section \<open>Operation by operation\<close>

lemma UpdateHumanProfile_parts [simp]:
  "agents_part (snd (UpdateHumanProfile h a c now s)) = agents_part s"
  "trust_part (snd (UpdateHumanProfile h a c now s)) = trust_part s"
  "orgs_part (snd (UpdateHumanProfile h a c now s)) = orgs_part s"
  "fed_part (snd (UpdateHumanProfile h a c now s)) = fed_part s"
  "flow_part (snd (UpdateHumanProfile h a c now s)) = flow_part s"
  "binds_part (snd (UpdateHumanProfile h a c now s)) = binds_part s"
  by (simp_all add: UpdateHumanProfile_def
      parts_def Let_def queue_of_frame split: option.split sum.split prod.split)

lemma UpdateHumanMetadata_parts [simp]:
  "agents_part (snd (UpdateHumanMetadata h m now s)) = agents_part s"
  "trust_part (snd (UpdateHumanMetadata h m now s)) = trust_part s"
  "orgs_part (snd (UpdateHumanMetadata h m now s)) = orgs_part s"
  "fed_part (snd (UpdateHumanMetadata h m now s)) = fed_part s"
  "flow_part (snd (UpdateHumanMetadata h m now s)) = flow_part s"
  "binds_part (snd (UpdateHumanMetadata h m now s)) = binds_part s"
  by (simp_all add: UpdateHumanMetadata_def
      parts_def Let_def queue_of_frame split: option.split sum.split prod.split)

lemma SetHumanPresence_parts [simp]:
  "agents_part (snd (SetHumanPresence h m now s)) = agents_part s"
  "trust_part (snd (SetHumanPresence h m now s)) = trust_part s"
  "orgs_part (snd (SetHumanPresence h m now s)) = orgs_part s"
  "fed_part (snd (SetHumanPresence h m now s)) = fed_part s"
  "flow_part (snd (SetHumanPresence h m now s)) = flow_part s"
  "binds_part (snd (SetHumanPresence h m now s)) = binds_part s"
  by (simp_all add: SetHumanPresence_def
      parts_def Let_def queue_of_frame split: option.split sum.split prod.split)

lemma CreateBindToken_parts [simp]:
  "humans_part (snd (CreateBindToken o1 o2 a i h e now super s)) = humans_part s"
  "agents_part (snd (CreateBindToken o1 o2 a i h e now super s)) = agents_part s"
  "trust_part (snd (CreateBindToken o1 o2 a i h e now super s)) = trust_part s"
  "orgs_part (snd (CreateBindToken o1 o2 a i h e now super s)) = orgs_part s"
  "fed_part (snd (CreateBindToken o1 o2 a i h e now super s)) = fed_part s"
  "flow_part (snd (CreateBindToken o1 o2 a i h e now super s)) = flow_part s"
  by (simp_all add: CreateBindToken_def putBind_def
      parts_def Let_def queue_of_frame split: option.split sum.split prod.split)

lemma CreateAgentInviteBindToken_parts [simp]:
  "humans_part (snd (CreateAgentInviteBindToken u i h e now s)) = humans_part s"
  "agents_part (snd (CreateAgentInviteBindToken u i h e now s)) = agents_part s"
  "trust_part (snd (CreateAgentInviteBindToken u i h e now s)) = trust_part s"
  "orgs_part (snd (CreateAgentInviteBindToken u i h e now s)) = orgs_part s"
  "fed_part (snd (CreateAgentInviteBindToken u i h e now s)) = fed_part s"
  "flow_part (snd (CreateAgentInviteBindToken u i h e now s)) = flow_part s"
  by (simp_all add: CreateAgentInviteBindToken_def putBind_def
      parts_def Let_def queue_of_frame split: option.split sum.split prod.split)

lemma RotateAgentToken_parts [simp]:
  "humans_part (snd (RotateAgentToken u a h now super s)) = humans_part s"
  "trust_part (snd (RotateAgentToken u a h now super s)) = trust_part s"
  "orgs_part (snd (RotateAgentToken u a h now super s)) = orgs_part s"
  "fed_part (snd (RotateAgentToken u a h now super s)) = fed_part s"
  "flow_part (snd (RotateAgentToken u a h now super s)) = flow_part s"
  "binds_part (snd (RotateAgentToken u a h now super s)) = binds_part s"
  by (simp_all add: RotateAgentToken_def
      parts_def Let_def queue_of_frame split: option.split sum.split prod.split)

lemma RevokeAgent_parts [simp]:
  "humans_part (snd (RevokeAgent u a now super s)) = humans_part s"
  "orgs_part (snd (RevokeAgent u a now super s)) = orgs_part s"
  "fed_part (snd (RevokeAgent u a now super s)) = fed_part s"
  "binds_part (snd (RevokeAgent u a now super s)) = binds_part s"
  by (simp_all add: RevokeAgent_def recomputeQueueMetricsLocked_def dropNameKey_def
      parts_def Let_def queue_of_frame split: option.split sum.split prod.split)

lemma DeleteAgent_parts [simp]:
  "humans_part (snd (DeleteAgent u a now super s)) = humans_part s"
  "orgs_part (snd (DeleteAgent u a now super s)) = orgs_part s"
  "fed_part (snd (DeleteAgent u a now super s)) = fed_part s"
  "binds_part (snd (DeleteAgent u a now super s)) = binds_part s"
  by (simp_all add: DeleteAgent_def recomputeQueueMetricsLocked_def
      parts_def Let_def queue_of_frame split: option.split sum.split prod.split)

lemma UpdateAgentMetadata_parts [simp]:
  "humans_part (snd (UpdateAgentMetadata js u m a now super s)) = humans_part s"
  "trust_part (snd (UpdateAgentMetadata js u m a now super s)) = trust_part s"
  "orgs_part (snd (UpdateAgentMetadata js u m a now super s)) = orgs_part s"
  "fed_part (snd (UpdateAgentMetadata js u m a now super s)) = fed_part s"
  "flow_part (snd (UpdateAgentMetadata js u m a now super s)) = flow_part s"
  "binds_part (snd (UpdateAgentMetadata js u m a now super s)) = binds_part s"
  by (simp_all add: UpdateAgentMetadata_def putAgentMetadata_def
      parts_def Let_def queue_of_frame split: option.split sum.split prod.split)

lemma UpdateAgentMetadataSelf_parts [simp]:
  "humans_part (snd (UpdateAgentMetadataSelf js u m now s)) = humans_part s"
  "trust_part (snd (UpdateAgentMetadataSelf js u m now s)) = trust_part s"
  "orgs_part (snd (UpdateAgentMetadataSelf js u m now s)) = orgs_part s"
  "fed_part (snd (UpdateAgentMetadataSelf js u m now s)) = fed_part s"
  "flow_part (snd (UpdateAgentMetadataSelf js u m now s)) = flow_part s"
  "binds_part (snd (UpdateAgentMetadataSelf js u m now s)) = binds_part s"
  by (simp_all add: UpdateAgentMetadataSelf_def putAgentMetadata_def
      parts_def Let_def queue_of_frame split: option.split sum.split prod.split)

lemma SetAgentPresence_parts [simp]:
  "humans_part (snd (SetAgentPresence u m now s)) = humans_part s"
  "agents_part (snd (SetAgentPresence u m now s)) = agents_part s"
  "trust_part (snd (SetAgentPresence u m now s)) = trust_part s"
  "orgs_part (snd (SetAgentPresence u m now s)) = orgs_part s"
  "fed_part (snd (SetAgentPresence u m now s)) = fed_part s"
  "flow_part (snd (SetAgentPresence u m now s)) = flow_part s"
  "binds_part (snd (SetAgentPresence u m now s)) = binds_part s"
  by (simp_all add: SetAgentPresence_def
      parts_def Let_def queue_of_frame split: option.split sum.split prod.split)

lemma RecordAgentSystemActivity_parts [simp]:
  "humans_part (snd (RecordAgentSystemActivity u m now s)) = humans_part s"
  "trust_part (snd (RecordAgentSystemActivity u m now s)) = trust_part s"
  "orgs_part (snd (RecordAgentSystemActivity u m now s)) = orgs_part s"
  "fed_part (snd (RecordAgentSystemActivity u m now s)) = fed_part s"
  "flow_part (snd (RecordAgentSystemActivity u m now s)) = flow_part s"
  "binds_part (snd (RecordAgentSystemActivity u m now s)) = binds_part s"
  by (simp_all add: RecordAgentSystemActivity_def
      parts_def Let_def queue_of_frame split: option.split sum.split prod.split)

lemma FinalizeAgentHandleSelf_parts [simp]:
  "humans_part (snd (FinalizeAgentHandleSelf u h now s)) = humans_part s"
  "trust_part (snd (FinalizeAgentHandleSelf u h now s)) = trust_part s"
  "orgs_part (snd (FinalizeAgentHandleSelf u h now s)) = orgs_part s"
  "fed_part (snd (FinalizeAgentHandleSelf u h now s)) = fed_part s"
  "flow_part (snd (FinalizeAgentHandleSelf u h now s)) = flow_part s"
  "binds_part (snd (FinalizeAgentHandleSelf u h now s)) = binds_part s"
  by (simp_all add: FinalizeAgentHandleSelf_def dropNameKey_def addNameKey_def
      parts_def Let_def queue_of_frame split: option.split sum.split prod.split)

lemma RevokeInvite_parts [simp]:
  "humans_part (snd (RevokeInvite i a e super now s)) = humans_part s"
  "agents_part (snd (RevokeInvite i a e super now s)) = agents_part s"
  "trust_part (snd (RevokeInvite i a e super now s)) = trust_part s"
  "orgs_part (snd (RevokeInvite i a e super now s)) = orgs_part s"
  "fed_part (snd (RevokeInvite i a e super now s)) = fed_part s"
  "flow_part (snd (RevokeInvite i a e super now s)) = flow_part s"
  "binds_part (snd (RevokeInvite i a e super now s)) = binds_part s"
  by (simp_all add: RevokeInvite_def
      parts_def Let_def queue_of_frame split: option.split sum.split prod.split)

lemma CreateInvite_parts [simp]:
  "humans_part (snd (CreateInvite o1 e r a i h ex now super s)) = humans_part s"
  "agents_part (snd (CreateInvite o1 e r a i h ex now super s)) = agents_part s"
  "trust_part (snd (CreateInvite o1 e r a i h ex now super s)) = trust_part s"
  "orgs_part (snd (CreateInvite o1 e r a i h ex now super s)) = orgs_part s"
  "fed_part (snd (CreateInvite o1 e r a i h ex now super s)) = fed_part s"
  "flow_part (snd (CreateInvite o1 e r a i h ex now super s)) = flow_part s"
  "binds_part (snd (CreateInvite o1 e r a i h ex now super s)) = binds_part s"
  by (simp_all add: CreateInvite_def
      parts_def Let_def queue_of_frame split: option.split sum.split prod.split)

lemma RevokeMembership_parts [simp]:
  "humans_part (snd (RevokeMembership o1 h a super now s)) = humans_part s"
  "agents_part (snd (RevokeMembership o1 h a super now s)) = agents_part s"
  "trust_part (snd (RevokeMembership o1 h a super now s)) = trust_part s"
  "fed_part (snd (RevokeMembership o1 h a super now s)) = fed_part s"
  "flow_part (snd (RevokeMembership o1 h a super now s)) = flow_part s"
  "binds_part (snd (RevokeMembership o1 h a super now s)) = binds_part s"
  by (simp_all add: RevokeMembership_def
      parts_def Let_def queue_of_frame split: option.split sum.split prod.split)

lemma UpdateOrgMetadata_parts [simp]:
  "humans_part (snd (UpdateOrgMetadata js o1 m a super now s)) = humans_part s"
  "agents_part (snd (UpdateOrgMetadata js o1 m a super now s)) = agents_part s"
  "trust_part (snd (UpdateOrgMetadata js o1 m a super now s)) = trust_part s"
  "fed_part (snd (UpdateOrgMetadata js o1 m a super now s)) = fed_part s"
  "flow_part (snd (UpdateOrgMetadata js o1 m a super now s)) = flow_part s"
  "binds_part (snd (UpdateOrgMetadata js o1 m a super now s)) = binds_part s"
  by (simp_all add: UpdateOrgMetadata_def
      parts_def Let_def queue_of_frame split: option.split sum.split prod.split)

lemma CreateOrgAccessKey_parts [simp]:
  "humans_part (snd (CreateOrgAccessKey o1 l sc ex a k h now super s)) = humans_part s"
  "agents_part (snd (CreateOrgAccessKey o1 l sc ex a k h now super s)) = agents_part s"
  "trust_part (snd (CreateOrgAccessKey o1 l sc ex a k h now super s)) = trust_part s"
  "orgs_part (snd (CreateOrgAccessKey o1 l sc ex a k h now super s)) = orgs_part s"
  "fed_part (snd (CreateOrgAccessKey o1 l sc ex a k h now super s)) = fed_part s"
  "flow_part (snd (CreateOrgAccessKey o1 l sc ex a k h now super s)) = flow_part s"
  "binds_part (snd (CreateOrgAccessKey o1 l sc ex a k h now super s)) = binds_part s"
  by (simp_all add: CreateOrgAccessKey_def
      parts_def Let_def queue_of_frame split: option.split sum.split prod.split)

lemma RevokeOrgAccessKey_parts [simp]:
  "humans_part (snd (RevokeOrgAccessKey o1 k a super now s)) = humans_part s"
  "agents_part (snd (RevokeOrgAccessKey o1 k a super now s)) = agents_part s"
  "trust_part (snd (RevokeOrgAccessKey o1 k a super now s)) = trust_part s"
  "orgs_part (snd (RevokeOrgAccessKey o1 k a super now s)) = orgs_part s"
  "fed_part (snd (RevokeOrgAccessKey o1 k a super now s)) = fed_part s"
  "flow_part (snd (RevokeOrgAccessKey o1 k a super now s)) = flow_part s"
  "binds_part (snd (RevokeOrgAccessKey o1 k a super now s)) = binds_part s"
  by (simp_all add: RevokeOrgAccessKey_def
      parts_def Let_def queue_of_frame split: option.split sum.split prod.split)

lemma AuthorizeOrgAccessByName_parts [simp]:
  "humans_part (snd (AuthorizeOrgAccessByName n h sc now s)) = humans_part s"
  "agents_part (snd (AuthorizeOrgAccessByName n h sc now s)) = agents_part s"
  "trust_part (snd (AuthorizeOrgAccessByName n h sc now s)) = trust_part s"
  "orgs_part (snd (AuthorizeOrgAccessByName n h sc now s)) = orgs_part s"
  "fed_part (snd (AuthorizeOrgAccessByName n h sc now s)) = fed_part s"
  "flow_part (snd (AuthorizeOrgAccessByName n h sc now s)) = flow_part s"
  "binds_part (snd (AuthorizeOrgAccessByName n h sc now s)) = binds_part s"
  by (simp_all add: AuthorizeOrgAccessByName_def
      parts_def Let_def queue_of_frame split: option.split sum.split prod.split)

lemma CreateOrg_parts [simp]:
  "humans_part (snd (CreateOrg h d a i now s)) = humans_part s"
  "agents_part (snd (CreateOrg h d a i now s)) = agents_part s"
  "trust_part (snd (CreateOrg h d a i now s)) = trust_part s"
  "fed_part (snd (CreateOrg h d a i now s)) = fed_part s"
  "flow_part (snd (CreateOrg h d a i now s)) = flow_part s"
  "binds_part (snd (CreateOrg h d a i now s)) = binds_part s"
  by (simp_all add: CreateOrg_def installOrg_def ensureOrgStatsLocked_def
      parts_def Let_def queue_of_frame split: option.split sum.split prod.split)

lemma RegisterAgent_parts [simp]:
  "humans_part (snd (RegisterAgent o1 n ow h a now super nu s)) = humans_part s"
  "trust_part (snd (RegisterAgent o1 n ow h a now super nu s)) = trust_part s"
  "orgs_part (snd (RegisterAgent o1 n ow h a now super nu s)) = orgs_part s"
  "fed_part (snd (RegisterAgent o1 n ow h a now super nu s)) = fed_part s"
  "flow_part (snd (RegisterAgent o1 n ow h a now super nu s)) = flow_part s"
  "binds_part (snd (RegisterAgent o1 n ow h a now super nu s)) = binds_part s"
  by (simp_all add: RegisterAgent_def installAgent_def addNameKey_def
      parts_def Let_def queue_of_frame split: option.split sum.split prod.split)

lemma RedeemBindToken_parts [simp]:
  "humans_part (snd (RedeemBindToken b n h now nu ne s)) = humans_part s"
  "orgs_part (snd (RedeemBindToken b n h now nu ne s)) = orgs_part s"
  "fed_part (snd (RedeemBindToken b n h now nu ne s)) = fed_part s"
  "flow_part (snd (RedeemBindToken b n h now nu ne s)) = flow_part s"
  by (simp_all add: RedeemBindToken_def redeem_bind_def installHostTrust_def installAgent_def addNameKey_def
      parts_def Let_def queue_of_frame split: option.split sum.split prod.split)

lemma CreateOrJoinOrgTrust_parts [simp]:
  "humans_part (snd (CreateOrJoinOrgTrust o1 o2 a i now super s)) = humans_part s"
  "agents_part (snd (CreateOrJoinOrgTrust o1 o2 a i now super s)) = agents_part s"
  "orgs_part (snd (CreateOrJoinOrgTrust o1 o2 a i now super s)) = orgs_part s"
  "fed_part (snd (CreateOrJoinOrgTrust o1 o2 a i now super s)) = fed_part s"
  "flow_part (snd (CreateOrJoinOrgTrust o1 o2 a i now super s)) = flow_part s"
  "binds_part (snd (CreateOrJoinOrgTrust o1 o2 a i now super s)) = binds_part s"
  by (simp_all add: CreateOrJoinOrgTrust_def createOrJoinTrustLocked_def createOrJoinOrgTrustLocked_def
      parts_def Let_def queue_of_frame split: option.split sum.split prod.split)

lemma CreateOrJoinAgentTrust_parts [simp]:
  "humans_part (snd (CreateOrJoinAgentTrust o1 u v a i now super s)) = humans_part s"
  "agents_part (snd (CreateOrJoinAgentTrust o1 u v a i now super s)) = agents_part s"
  "orgs_part (snd (CreateOrJoinAgentTrust o1 u v a i now super s)) = orgs_part s"
  "fed_part (snd (CreateOrJoinAgentTrust o1 u v a i now super s)) = fed_part s"
  "flow_part (snd (CreateOrJoinAgentTrust o1 u v a i now super s)) = flow_part s"
  "binds_part (snd (CreateOrJoinAgentTrust o1 u v a i now super s)) = binds_part s"
  by (simp_all add: CreateOrJoinAgentTrust_def createOrJoinTrustLocked_def createOrJoinAgentTrustLocked_def
      parts_def Let_def queue_of_frame split: option.split sum.split prod.split)

lemma ApproveOrgTrust_parts [simp]:
  "humans_part (snd (ApproveOrgTrust i a now super s)) = humans_part s"
  "agents_part (snd (ApproveOrgTrust i a now super s)) = agents_part s"
  "orgs_part (snd (ApproveOrgTrust i a now super s)) = orgs_part s"
  "fed_part (snd (ApproveOrgTrust i a now super s)) = fed_part s"
  "flow_part (snd (ApproveOrgTrust i a now super s)) = flow_part s"
  "binds_part (snd (ApproveOrgTrust i a now super s)) = binds_part s"
  by (simp_all add: ApproveOrgTrust_def approveTrustLocked_def storeEdgeLocked_def
      parts_def Let_def queue_of_frame split: option.split sum.split prod.split)

lemma BlockOrgTrust_parts [simp]:
  "humans_part (snd (BlockOrgTrust i a now super s)) = humans_part s"
  "agents_part (snd (BlockOrgTrust i a now super s)) = agents_part s"
  "orgs_part (snd (BlockOrgTrust i a now super s)) = orgs_part s"
  "fed_part (snd (BlockOrgTrust i a now super s)) = fed_part s"
  "flow_part (snd (BlockOrgTrust i a now super s)) = flow_part s"
  "binds_part (snd (BlockOrgTrust i a now super s)) = binds_part s"
  by (simp_all add: BlockOrgTrust_def blockTrustLocked_def closeTrustLocked_def storeEdgeLocked_def
      parts_def Let_def queue_of_frame split: option.split sum.split prod.split)

lemma RevokeOrgTrust_parts [simp]:
  "humans_part (snd (RevokeOrgTrust i a now super s)) = humans_part s"
  "agents_part (snd (RevokeOrgTrust i a now super s)) = agents_part s"
  "orgs_part (snd (RevokeOrgTrust i a now super s)) = orgs_part s"
  "fed_part (snd (RevokeOrgTrust i a now super s)) = fed_part s"
  "flow_part (snd (RevokeOrgTrust i a now super s)) = flow_part s"
  "binds_part (snd (RevokeOrgTrust i a now super s)) = binds_part s"
  by (simp_all add: RevokeOrgTrust_def revokeTrustLocked_def closeTrustLocked_def storeEdgeLocked_def
      parts_def Let_def queue_of_frame split: option.split sum.split prod.split)

lemma ApproveAgentTrust_parts [simp]:
  "humans_part (snd (ApproveAgentTrust i a now super s)) = humans_part s"
  "agents_part (snd (ApproveAgentTrust i a now super s)) = agents_part s"
  "orgs_part (snd (ApproveAgentTrust i a now super s)) = orgs_part s"
  "fed_part (snd (ApproveAgentTrust i a now super s)) = fed_part s"
  "flow_part (snd (ApproveAgentTrust i a now super s)) = flow_part s"
  "binds_part (snd (ApproveAgentTrust i a now super s)) = binds_part s"
  by (simp_all add: ApproveAgentTrust_def approveTrustLocked_def storeEdgeLocked_def
      parts_def Let_def queue_of_frame split: option.split sum.split prod.split)

lemma BlockAgentTrust_parts [simp]:
  "humans_part (snd (BlockAgentTrust i a now super s)) = humans_part s"
  "agents_part (snd (BlockAgentTrust i a now super s)) = agents_part s"
  "orgs_part (snd (BlockAgentTrust i a now super s)) = orgs_part s"
  "fed_part (snd (BlockAgentTrust i a now super s)) = fed_part s"
  "flow_part (snd (BlockAgentTrust i a now super s)) = flow_part s"
  "binds_part (snd (BlockAgentTrust i a now super s)) = binds_part s"
  by (simp_all add: BlockAgentTrust_def blockTrustLocked_def closeTrustLocked_def storeEdgeLocked_def
      parts_def Let_def queue_of_frame split: option.split sum.split prod.split)

lemma RevokeAgentTrust_parts [simp]:
  "humans_part (snd (RevokeAgentTrust i a now super s)) = humans_part s"
  "agents_part (snd (RevokeAgentTrust i a now super s)) = agents_part s"
  "orgs_part (snd (RevokeAgentTrust i a now super s)) = orgs_part s"
  "fed_part (snd (RevokeAgentTrust i a now super s)) = fed_part s"
  "flow_part (snd (RevokeAgentTrust i a now super s)) = flow_part s"
  "binds_part (snd (RevokeAgentTrust i a now super s)) = binds_part s"
  by (simp_all add: RevokeAgentTrust_def revokeTrustLocked_def closeTrustLocked_def storeEdgeLocked_def
      parts_def Let_def queue_of_frame split: option.split sum.split prod.split)

lemma CreatePeerInstance_parts [simp]:
  "humans_part (snd (CreatePeerInstance b d k a i now s)) = humans_part s"
  "agents_part (snd (CreatePeerInstance b d k a i now s)) = agents_part s"
  "trust_part (snd (CreatePeerInstance b d k a i now s)) = trust_part s"
  "orgs_part (snd (CreatePeerInstance b d k a i now s)) = orgs_part s"
  "flow_part (snd (CreatePeerInstance b d k a i now s)) = flow_part s"
  "binds_part (snd (CreatePeerInstance b d k a i now s)) = binds_part s"
  by (simp_all add: CreatePeerInstance_def
      parts_def Let_def queue_of_frame split: option.split sum.split prod.split)

lemma DeletePeerInstance_parts [simp]:
  "humans_part (snd (DeletePeerInstance i now s)) = humans_part s"
  "agents_part (snd (DeletePeerInstance i now s)) = agents_part s"
  "trust_part (snd (DeletePeerInstance i now s)) = trust_part s"
  "orgs_part (snd (DeletePeerInstance i now s)) = orgs_part s"
  "flow_part (snd (DeletePeerInstance i now s)) = flow_part s"
  "binds_part (snd (DeletePeerInstance i now s)) = binds_part s"
  by (simp_all add: DeletePeerInstance_def
      parts_def Let_def queue_of_frame split: option.split sum.split prod.split)

lemma CreateRemoteOrgTrust_parts [simp]:
  "humans_part (snd (CreateRemoteOrgTrust o1 p h a i now s)) = humans_part s"
  "agents_part (snd (CreateRemoteOrgTrust o1 p h a i now s)) = agents_part s"
  "trust_part (snd (CreateRemoteOrgTrust o1 p h a i now s)) = trust_part s"
  "orgs_part (snd (CreateRemoteOrgTrust o1 p h a i now s)) = orgs_part s"
  "flow_part (snd (CreateRemoteOrgTrust o1 p h a i now s)) = flow_part s"
  "binds_part (snd (CreateRemoteOrgTrust o1 p h a i now s)) = binds_part s"
  by (simp_all add: CreateRemoteOrgTrust_def
      parts_def Let_def queue_of_frame split: option.split sum.split prod.split)

lemma DeleteRemoteOrgTrust_parts [simp]:
  "humans_part (snd (DeleteRemoteOrgTrust i now s)) = humans_part s"
  "agents_part (snd (DeleteRemoteOrgTrust i now s)) = agents_part s"
  "trust_part (snd (DeleteRemoteOrgTrust i now s)) = trust_part s"
  "orgs_part (snd (DeleteRemoteOrgTrust i now s)) = orgs_part s"
  "flow_part (snd (DeleteRemoteOrgTrust i now s)) = flow_part s"
  "binds_part (snd (DeleteRemoteOrgTrust i now s)) = binds_part s"
  by (simp_all add: DeleteRemoteOrgTrust_def
      parts_def Let_def queue_of_frame split: option.split sum.split prod.split)

lemma CreateRemoteAgentTrust_parts [simp]:
  "humans_part (snd (CreateRemoteAgentTrust u p r a i now s)) = humans_part s"
  "agents_part (snd (CreateRemoteAgentTrust u p r a i now s)) = agents_part s"
  "trust_part (snd (CreateRemoteAgentTrust u p r a i now s)) = trust_part s"
  "orgs_part (snd (CreateRemoteAgentTrust u p r a i now s)) = orgs_part s"
  "flow_part (snd (CreateRemoteAgentTrust u p r a i now s)) = flow_part s"
  "binds_part (snd (CreateRemoteAgentTrust u p r a i now s)) = binds_part s"
  by (simp_all add: CreateRemoteAgentTrust_def
      parts_def Let_def queue_of_frame split: option.split sum.split prod.split)

lemma DeleteRemoteAgentTrust_parts [simp]:
  "humans_part (snd (DeleteRemoteAgentTrust i now s)) = humans_part s"
  "agents_part (snd (DeleteRemoteAgentTrust i now s)) = agents_part s"
  "trust_part (snd (DeleteRemoteAgentTrust i now s)) = trust_part s"
  "orgs_part (snd (DeleteRemoteAgentTrust i now s)) = orgs_part s"
  "flow_part (snd (DeleteRemoteAgentTrust i now s)) = flow_part s"
  "binds_part (snd (DeleteRemoteAgentTrust i now s)) = binds_part s"
  by (simp_all add: DeleteRemoteAgentTrust_def
      parts_def Let_def queue_of_frame split: option.split sum.split prod.split)

lemma EnqueuePeerOutbound_parts [simp]:
  "humans_part (snd (EnqueuePeerOutbound p i m now s)) = humans_part s"
  "agents_part (snd (EnqueuePeerOutbound p i m now s)) = agents_part s"
  "trust_part (snd (EnqueuePeerOutbound p i m now s)) = trust_part s"
  "orgs_part (snd (EnqueuePeerOutbound p i m now s)) = orgs_part s"
  "flow_part (snd (EnqueuePeerOutbound p i m now s)) = flow_part s"
  "binds_part (snd (EnqueuePeerOutbound p i m now s)) = binds_part s"
  by (simp_all add: EnqueuePeerOutbound_def
      parts_def Let_def queue_of_frame split: option.split sum.split prod.split)

lemma MarkPeerOutboundRetry_parts [simp]:
  "humans_part (snd (MarkPeerOutboundRetry i r n now s)) = humans_part s"
  "agents_part (snd (MarkPeerOutboundRetry i r n now s)) = agents_part s"
  "trust_part (snd (MarkPeerOutboundRetry i r n now s)) = trust_part s"
  "orgs_part (snd (MarkPeerOutboundRetry i r n now s)) = orgs_part s"
  "flow_part (snd (MarkPeerOutboundRetry i r n now s)) = flow_part s"
  "binds_part (snd (MarkPeerOutboundRetry i r n now s)) = binds_part s"
  by (simp_all add: MarkPeerOutboundRetry_def
      parts_def Let_def queue_of_frame split: option.split sum.split prod.split)

lemma MarkPeerOutboundDelivered_parts [simp]:
  "humans_part (snd (MarkPeerOutboundDelivered i now s)) = humans_part s"
  "agents_part (snd (MarkPeerOutboundDelivered i now s)) = agents_part s"
  "trust_part (snd (MarkPeerOutboundDelivered i now s)) = trust_part s"
  "orgs_part (snd (MarkPeerOutboundDelivered i now s)) = orgs_part s"
  "flow_part (snd (MarkPeerOutboundDelivered i now s)) = flow_part s"
  "binds_part (snd (MarkPeerOutboundDelivered i now s)) = binds_part s"
  by (simp_all add: MarkPeerOutboundDelivered_def
      parts_def Let_def queue_of_frame split: option.split sum.split prod.split)

lemma UpsertHuman_parts:
  assumes "UpsertHuman provider subject email verified now f s = Some (r, s')"
  shows "agents_part s' = agents_part s" "trust_part s' = trust_part s" "orgs_part s' = orgs_part s"
    "fed_part s' = fed_part s" "flow_part s' = flow_part s" "binds_part s' = binds_part s"
  using assms
  by (auto simp: UpsertHuman_def Let_def parts_def queue_of_frame split: option.splits sum.splits)

lemma EnsurePersonalOrg_parts:
  assumes "EnsurePersonalOrg h now f s = Some (r, s')"
  shows "humans_part s' = humans_part s" "agents_part s' = agents_part s" "trust_part s' = trust_part s"
    "fed_part s' = fed_part s" "flow_part s' = flow_part s" "binds_part s' = binds_part s"
  using assms
  by (auto simp: EnsurePersonalOrg_def ensurePersonalOrgLocked_def installOrg_def
      ensureOrgStatsLocked_def Let_def parts_def queue_of_frame split: option.splits sum.splits)

lemma DeleteOrg_parts [simp]:
  "humans_part (snd (DeleteOrg i a super now s)) = humans_part s"
  "fed_part (snd (DeleteOrg i a super now s)) = fed_part s"
proof -
  have "humans_part (deleteOrgAll i now s) = humans_part s" "fed_part (deleteOrgAll i now s) = fed_part s"
    by (simp_all add: parts_def deleteOrgAll_def deleteOrgRecords_def deleteOrgQueues_def
        deleteOrgTrusts_def deleteOrgAgents_def recomputeQueueMetricsLocked_def Let_def)
  then show "humans_part (snd (DeleteOrg i a super now s)) = humans_part s"
    "fed_part (snd (DeleteOrg i a super now s)) = fed_part s"
    by (cases rule: DeleteOrg_cases [of i a super now s]; simp add: parts_def)+
qed

lemma transferAgent_parts:
  "humans_part (transferAgent org i h oh now u s) = humans_part s"
  "trust_part (transferAgent org i h oh now u s) = trust_part s"
  "orgs_part (transferAgent org i h oh now u s) = orgs_part s"
  "fed_part (transferAgent org i h oh now u s) = fed_part s"
  "flow_part (transferAgent org i h oh now u s) = flow_part s"
  "binds_part (transferAgent org i h oh now u s) = binds_part s"
  by (simp_all add: transferAgent_def parts_def Let_def queue_of_frame split: option.split)

lemmas transfer_parts [simp] = transferAgent_parts [THEN transferHumanOwnedAgents_frame]

lemma invite_step_parts [simp]:
  "humans_part (spendInvite i iv now s) = humans_part s" "trust_part (spendInvite i iv now s) = trust_part s"
  "fed_part (spendInvite i iv now s) = fed_part s" "flow_part (spendInvite i iv now s) = flow_part s"
  "binds_part (spendInvite i iv now s) = binds_part s"
  "humans_part (joinOrg m s) = humans_part s" "trust_part (joinOrg m s) = trust_part s"
  "fed_part (joinOrg m s) = fed_part s" "flow_part (joinOrg m s) = flow_part s"
  "binds_part (joinOrg m s) = binds_part s"
  "humans_part (expireInvite i iv now s) = humans_part s" "trust_part (expireInvite i iv now s) = trust_part s"
  "fed_part (expireInvite i iv now s) = fed_part s" "flow_part (expireInvite i iv now s) = flow_part s"
  "binds_part (expireInvite i iv now s) = binds_part s"
  by (simp_all add: invite_steps parts_def queue_of_frame)

lemma audit_parts [simp]:
  "humans_part (appendAuditLocked o1 a c act sub det now s) = humans_part s"
  "agents_part (appendAuditLocked o1 a c act sub det now s) = agents_part s"
  "trust_part (appendAuditLocked o1 a c act sub det now s) = trust_part s"
  "orgs_part (appendAuditLocked o1 a c act sub det now s) = orgs_part s"
  "fed_part (appendAuditLocked o1 a c act sub det now s) = fed_part s"
  "flow_part (appendAuditLocked o1 a c act sub det now s) = flow_part s"
  "binds_part (appendAuditLocked o1 a c act sub det now s) = binds_part s"
  by (simp_all add: parts_def)

lemma acceptInvite_parts:
  "humans_part (snd (acceptInviteLocked i h e now f s)) = humans_part s"
  "trust_part (snd (acceptInviteLocked i h e now f s)) = trust_part s"
  "fed_part (snd (acceptInviteLocked i h e now f s)) = fed_part s"
  "flow_part (snd (acceptInviteLocked i h e now f s)) = flow_part s"
  "binds_part (snd (acceptInviteLocked i h e now f s)) = binds_part s"
  by (cases rule: acceptInvite_cases [of i h e now f s]; simp)+

lemma AcceptInvite_parts [simp]:
  "humans_part (snd (AcceptInvite i h e now f s)) = humans_part s"
  "trust_part (snd (AcceptInvite i h e now f s)) = trust_part s"
  "fed_part (snd (AcceptInvite i h e now f s)) = fed_part s"
  "flow_part (snd (AcceptInvite i h e now f s)) = flow_part s"
  "binds_part (snd (AcceptInvite i h e now f s)) = binds_part s"
  "humans_part (snd (AcceptInviteBySecretHash i h e now f s)) = humans_part s"
  "trust_part (snd (AcceptInviteBySecretHash i h e now f s)) = trust_part s"
  "fed_part (snd (AcceptInviteBySecretHash i h e now f s)) = fed_part s"
  "flow_part (snd (AcceptInviteBySecretHash i h e now f s)) = flow_part s"
  "binds_part (snd (AcceptInviteBySecretHash i h e now f s)) = binds_part s"
  by (simp_all add: AcceptInvite_def AcceptInviteBySecretHash_def acceptInvite_parts split: option.split)

lemma RecordPeerDelivery_parts [simp]:
  "humans_part (RecordPeerDeliverySuccess i now s) = humans_part s"
  "agents_part (RecordPeerDeliverySuccess i now s) = agents_part s"
  "trust_part (RecordPeerDeliverySuccess i now s) = trust_part s"
  "orgs_part (RecordPeerDeliverySuccess i now s) = orgs_part s"
  "flow_part (RecordPeerDeliverySuccess i now s) = flow_part s"
  "binds_part (RecordPeerDeliverySuccess i now s) = binds_part s"
  "humans_part (RecordPeerDeliveryFailure i r now s) = humans_part s"
  "agents_part (RecordPeerDeliveryFailure i r now s) = agents_part s"
  "trust_part (RecordPeerDeliveryFailure i r now s) = trust_part s"
  "orgs_part (RecordPeerDeliveryFailure i r now s) = orgs_part s"
  "flow_part (RecordPeerDeliveryFailure i r now s) = flow_part s"
  "binds_part (RecordPeerDeliveryFailure i r now s) = binds_part s"
  by (simp_all add: RecordPeerDeliverySuccess_def RecordPeerDeliveryFailure_def parts_def
      queue_of_frame split: option.split)

end
