(* ===== verification/BindTokens.thy ===== *)
theory BindTokens
  imports Parts
begin

text \<open>
  The one-time tokens that let an agent register itself: the index by hash agrees with the
  table, every operation keeps it so, and a token that was redeemed is never redeemed again.
\<close>

section \<open>The table and its index\<close>

definition binds_wf :: "memory_store \<Rightarrow> bool" where
  "binds_wf s \<longleftrightarrow>
     (\<forall>i b. fmlookup (binds s) i = Some b \<longrightarrow> Bind_BindID b = i \<and> plain (Bind_HostAgentUUID b)) \<and>
     index_ok (Some \<circ> Bind_TokenHash) (binds s) (bindByHash s)"

lemma binds_wfD:
  assumes "binds_wf s"
  shows "fmlookup (binds s) i = Some b \<Longrightarrow> Bind_BindID b = i"
    "fmlookup (binds s) i = Some b \<Longrightarrow> plain (Bind_HostAgentUUID b)"
    "index_ok (Some \<circ> Bind_TokenHash) (binds s) (bindByHash s)"
  using assms by (auto simp: binds_wf_def)

lemma binds_wf_part: "binds_part s' = binds_part s \<Longrightarrow> binds_wf s' \<longleftrightarrow> binds_wf s"
  by (simp add: binds_part_def binds_wf_def)

lemma binds_wf_start: "binds_wf NewMemoryStore"
  by (simp add: binds_wf_def NewMemoryStore_def)

lemma binds_wf_audit [simp]: "binds_wf (appendAuditLocked o1 a c act sub det now s) \<longleftrightarrow> binds_wf s"
  by (rule binds_wf_part) (simp add: binds_part_def)

lemma putBind_wf:
  assumes wf: "binds_wf s" and "fmlookup (binds s) (Bind_BindID b) = None"
    and "fmlookup (bindByHash s) (Bind_TokenHash b) = None" and "plain (Bind_HostAgentUUID b)"
  shows "binds_wf (putBind b s)"
proof -
  have "index_ok (Some \<circ> Bind_TokenHash) (fmupd (Bind_BindID b) b (binds s))
      (fmupd (Bind_TokenHash b) (Bind_BindID b) (bindByHash s))"
    by (rule index_ok_insert [OF binds_wfD(3) [OF wf]]) (use assms in simp_all)
  with wf assms(4) show ?thesis by (simp add: binds_wf_def putBind_def)
qed

lemma CreateBindToken_wf [wf_intros]:
  assumes "binds_wf s" and "fmlookup (binds s) i = None"
  shows "binds_wf (snd (CreateBindToken org ow a i h e now super s))"
  using assms by (simp add: CreateBindToken_def Let_def putBind_wf plain_def split: option.split)

lemma CreateAgentInviteBindToken_wf [wf_intros]:
  assumes "binds_wf s" and "fmlookup (binds s) i = None" and "agents_wf s"
    and "\<And>v. fmlookup (agents s) v \<noteq> None \<Longrightarrow> plain v"
  shows "binds_wf (snd (CreateAgentInviteBindToken u i h e now s))"
proof (cases "fmlookup (agents s) (TrimSpace u)")
  case None
  with assms show ?thesis by (simp add: CreateAgentInviteBindToken_def)
next
  case (Some a)
  then have "plain (Agent_AgentUUID a)"
    using agents_wf_uuid [OF assms(3) Some] assms(4) [of "TrimSpace u"] by simp
  with assms(1,2) show ?thesis
    by (simp add: CreateAgentInviteBindToken_def Some Let_def putBind_wf)
qed

section \<open>Redeeming\<close>

lemma redeem_bind_binds [simp]:
  "binds (redeem_bind b a i now s) = fmupd (Bind_BindID b) (b\<lparr>Bind_UsedAt := Some now\<rparr>) (binds s)"
  "bindByHash (redeem_bind b a i now s) = bindByHash s"
  by (simp_all add: redeem_bind_def installHostTrust_def installAgent_def addNameKey_def Let_def
      split: prod.split option.split)

lemma RedeemBindToken_binds:
  assumes wf: "binds_wf s" and run: "RedeemBindToken h n th now f g s = (Inr a, s')"
  obtains i b where "fmlookup (bindByHash s) h = Some i" and "fmlookup (binds s) i = Some b"
    and "Bind_TokenHash b = h" and "Bind_UsedAt b = None" and "now \<le> Bind_ExpiresAt b"
    and "binds s' = fmupd i (b\<lparr>Bind_UsedAt := Some now\<rparr>) (binds s)" and "bindByHash s' = bindByHash s"
proof -
  obtain b e where b: "fmlookup (bindByHash s) h \<noteq> None"
    "fmlookup (binds s) (the (fmlookup (bindByHash s) h)) = Some b" "Bind_UsedAt b = None"
    "now \<le> Bind_ExpiresAt b" "s' = redeem_bind b a e now s"
    using RedeemBindToken_result [OF run] by metis
  obtain i where i: "fmlookup (bindByHash s) h = Some i" using b(1) by blast
  obtain v where "fmlookup (binds s) i = Some v" "Bind_TokenHash v = h"
    using index_ok_lookup [OF binds_wfD(3) [OF wf] i] by auto
  with b i binds_wfD(1) [OF wf, of i b] show ?thesis by (intro that [of i b]) simp_all
qed

lemma RedeemBindToken_binds_wf [wf_intros]:
  assumes wf: "binds_wf s"
  shows "binds_wf (snd (RedeemBindToken h n th now f g s))"
proof (cases "RedeemBindToken h n th now f g s")
  case (Pair r s')
  show ?thesis
  proof (cases r)
    case (Inl e)
    with Pair RedeemBindToken_error wf show ?thesis by fastforce
  next
    case (Inr a)
    obtain i b where b: "fmlookup (binds s) i = Some b" "bindByHash s' = bindByHash s"
      "binds s' = fmupd i (b\<lparr>Bind_UsedAt := Some now\<rparr>) (binds s)"
      using RedeemBindToken_binds [OF wf Pair [unfolded Inr]] by metis
    have "index_ok (Some \<circ> Bind_TokenHash) (binds s') (bindByHash s')"
      unfolding b by (rule index_ok_update [OF binds_wfD(3) [OF wf] b(1)]) simp
    with b Pair binds_wfD(1,2) [OF wf] show ?thesis by (auto simp: binds_wf_def)
  qed
qed

lemma DeleteOrg_binds:
  "binds (snd (DeleteOrg i a super now s)) = binds s \<and>
     bindByHash (snd (DeleteOrg i a super now s)) = bindByHash s \<or>
   binds (snd (DeleteOrg i a super now s)) = fmdelete_if (\<lambda>_ b. Bind_OrgID b = i) (binds s) \<and>
     bindByHash (snd (DeleteOrg i a super now s)) =
       fmdrop_fset (keys_of Bind_TokenHash (\<lambda>_ b. Bind_OrgID b = i) (binds s)) (bindByHash s)"
  by (cases rule: DeleteOrg_cases [of i a super now s])
    (simp_all add: deleteOrgAll_def deleteOrgRecords_def deleteOrgQueues_def deleteOrgTrusts_def
      deleteOrgAgents_def recomputeQueueMetricsLocked_def Let_def)

lemma DeleteOrg_binds_wf [wf_intros]:
  assumes wf: "binds_wf s"
  shows "binds_wf (snd (DeleteOrg i a super now s))"
  using DeleteOrg_binds [of i a super now s]
proof
  assume "binds (snd (DeleteOrg i a super now s)) = fmdelete_if (\<lambda>_ b. Bind_OrgID b = i) (binds s) \<and>
     bindByHash (snd (DeleteOrg i a super now s)) =
       fmdrop_fset (keys_of Bind_TokenHash (\<lambda>_ b. Bind_OrgID b = i) (binds s)) (bindByHash s)"
  then show ?thesis
    using index_ok_delete_if [OF binds_wfD(3) [OF wf], of "\<lambda>_ b. Bind_OrgID b = i" Bind_TokenHash]
      binds_wfD(1,2) [OF wf] by (auto simp: binds_wf_def split: if_splits option.splits)
qed (use wf in \<open>simp add: binds_wf_def\<close>)

text \<open>A used token stays used: what redeeming it answers from then on.\<close>

definition bind_spent :: "string \<Rightarrow> memory_store \<Rightarrow> bool" where
  "bind_spent h s \<longleftrightarrow> (\<forall>i b. fmlookup (bindByHash s) h = Some i \<longrightarrow> fmlookup (binds s) i = Some b \<longrightarrow>
     Bind_UsedAt b \<noteq> None)"

lemma bind_spent_part: "binds_part s' = binds_part s \<Longrightarrow> bind_spent h s' \<longleftrightarrow> bind_spent h s"
  by (simp add: binds_part_def bind_spent_def)

lemma redeem_spent:
  assumes "binds_wf s" and "RedeemBindToken h n th now f g s = (Inr a, s')"
  shows "\<not> bind_spent h s" "bind_spent h s'"
proof -
  obtain i b where b: "fmlookup (bindByHash s) h = Some i" "fmlookup (binds s) i = Some b"
    "Bind_UsedAt b = None" "binds s' = fmupd i (b\<lparr>Bind_UsedAt := Some now\<rparr>) (binds s)"
    "bindByHash s' = bindByHash s"
    using RedeemBindToken_binds [OF assms] by metis
  show "\<not> bind_spent h s" using b(1-3) by (auto simp: bind_spent_def)
  show "bind_spent h s'" using b by (simp add: bind_spent_def)
qed

lemma spent_refused:
  assumes "bind_spent h s"
  shows "fst (RedeemBindToken h n th now f g s) \<in> {Inl ErrBindUsed, Inl ErrBindNotFound} \<and>
    snd (RedeemBindToken h n th now f g s) = s"
  using assms by (auto simp: RedeemBindToken_def bind_spent_def split: option.splits)

lemma redeem_other_spent:
  assumes wf: "binds_wf s" and "bind_spent h s"
  shows "bind_spent h (snd (RedeemBindToken k n th now f g s))"
proof (cases "RedeemBindToken k n th now f g s")
  case (Pair r s')
  show ?thesis
  proof (cases r)
    case (Inl e)
    with Pair RedeemBindToken_error assms show ?thesis by fastforce
  next
    case (Inr a)
    obtain i b where "binds s' = fmupd i (b\<lparr>Bind_UsedAt := Some now\<rparr>) (binds s)"
      "bindByHash s' = bindByHash s"
      using RedeemBindToken_binds [OF wf Pair [unfolded Inr]] by metis
    with assms(2) Pair show ?thesis by (auto simp: bind_spent_def)
  qed
qed

lemma create_other_spent:
  assumes "bind_spent h s" and "k \<noteq> h" and "fmlookup (binds s) i = None"
    and "index_ok (Some \<circ> Bind_TokenHash) (binds s) (bindByHash s)"
  shows "bind_spent h (snd (CreateBindToken org ow a i k e now super s))"
    and "bind_spent h (snd (CreateAgentInviteBindToken u i k e now s))"
proof -
  have "fmlookup (bindByHash s) h \<noteq> Some i"
    using assms(3) index_ok_lookup [OF assms(4), of h i] by auto
  then have put: "bind_spent h (putBind b s)" if "Bind_BindID b = i" "Bind_TokenHash b = k" for b
    using assms(1,2) that by (auto simp: bind_spent_def putBind_def)
  have audit: "bind_spent h (appendAuditLocked o1 a c act sub det now s) \<longleftrightarrow> bind_spent h s" for o1 a c act sub det now s
    by (rule bind_spent_part) (simp add: binds_part_def)
  show "bind_spent h (snd (CreateBindToken org ow a i k e now super s))"
    using assms(1) by (simp add: CreateBindToken_def Let_def audit put split: option.split)
  show "bind_spent h (snd (CreateAgentInviteBindToken u i k e now s))"
    using assms(1) by (simp add: CreateAgentInviteBindToken_def Let_def audit put split: option.split)
qed

lemma delete_org_spent: "bind_spent h s \<Longrightarrow> bind_spent h (snd (DeleteOrg i a super now s))"
  using DeleteOrg_binds [of i a super now s] by (auto simp: bind_spent_def split: if_splits option.splits)

end
