(* ===== verification/Control.thy ===== *)
theory Control
  imports BindTokens
begin

text \<open>
  The control plane as a state machine: every mutating operation of the store but the message
  operations as a command, what the identifier generators promise, and the invariants that
  hold in every reachable state.
\<close>

section \<open>Commands\<close>

datatype (discs_sels) human_command =
    DoUpsertHuman string string string bool time "store_error + string"
  | DoUpdateHumanProfile string string bool time
  | DoUpdateHumanMetadata string gmap time
  | DoSetHumanPresence string gmap time

fun run_human :: "human_command \<Rightarrow> memory_store \<Rightarrow> memory_store option" where
  "run_human (DoUpsertHuman x1 x2 x3 x4 x5 x6) s =
     map_option snd (UpsertHuman x1 x2 x3 x4 x5 x6 s)"
| "run_human (DoUpdateHumanProfile x1 x2 x3 x4) s = Some (snd (UpdateHumanProfile x1 x2 x3 x4 s))"
| "run_human (DoUpdateHumanMetadata x1 x2 x3) s = Some (snd (UpdateHumanMetadata x1 x2 x3 s))"
| "run_human (DoSetHumanPresence x1 x2 x3) s = Some (snd (SetHumanPresence x1 x2 x3 s))"

datatype (discs_sels) org_command =
    DoCreateOrg string string string string time
  | DoEnsurePersonalOrg string time "store_error + string"
  | DoDeleteOrg string string bool time
  | DoCreateInvite string string string string string string time time bool
  | DoAcceptInvite string string string time "store_error + string"
  | DoAcceptInviteBySecretHash string string string time "store_error + string"
  | DoRevokeInvite string string string bool time
  | DoRevokeMembership string string string bool time
  | DoUpdateOrgMetadata "gmap \<Rightarrow> int option" string gmap string bool time
  | DoCreateOrgAccessKey string string "string list" "time option" string string string time bool
  | DoRevokeOrgAccessKey string string string bool time
  | DoAuthorizeOrgAccessByName string string string time

fun run_org :: "org_command \<Rightarrow> memory_store \<Rightarrow> memory_store option" where
  "run_org (DoCreateOrg x1 x2 x3 x4 x5) s = Some (snd (CreateOrg x1 x2 x3 x4 x5 s))"
| "run_org (DoEnsurePersonalOrg x1 x2 x3) s = map_option snd (EnsurePersonalOrg x1 x2 x3 s)"
| "run_org (DoDeleteOrg x1 x2 x3 x4) s = Some (snd (DeleteOrg x1 x2 x3 x4 s))"
| "run_org (DoCreateInvite x1 x2 x3 x4 x5 x6 x7 x8 x9) s =
     Some (snd (CreateInvite x1 x2 x3 x4 x5 x6 x7 x8 x9 s))"
| "run_org (DoAcceptInvite x1 x2 x3 x4 x5) s = Some (snd (AcceptInvite x1 x2 x3 x4 x5 s))"
| "run_org (DoAcceptInviteBySecretHash x1 x2 x3 x4 x5) s =
     Some (snd (AcceptInviteBySecretHash x1 x2 x3 x4 x5 s))"
| "run_org (DoRevokeInvite x1 x2 x3 x4 x5) s = Some (snd (RevokeInvite x1 x2 x3 x4 x5 s))"
| "run_org (DoRevokeMembership x1 x2 x3 x4 x5) s = Some (snd (RevokeMembership x1 x2 x3 x4 x5 s))"
| "run_org (DoUpdateOrgMetadata x1 x2 x3 x4 x5 x6) s =
     Some (snd (UpdateOrgMetadata x1 x2 x3 x4 x5 x6 s))"
| "run_org (DoCreateOrgAccessKey x1 x2 x3 x4 x5 x6 x7 x8 x9) s =
     Some (snd (CreateOrgAccessKey x1 x2 x3 x4 x5 x6 x7 x8 x9 s))"
| "run_org (DoRevokeOrgAccessKey x1 x2 x3 x4 x5) s =
     Some (snd (RevokeOrgAccessKey x1 x2 x3 x4 x5 s))"
| "run_org (DoAuthorizeOrgAccessByName x1 x2 x3 x4) s =
     Some (snd (AuthorizeOrgAccessByName x1 x2 x3 x4 s))"

datatype (discs_sels) agent_command =
    DoRegisterAgent string string "string option" string string time bool "store_error + string"
  | DoCreateBindToken string "string option" string string string time time bool
  | DoCreateAgentInviteBindToken string string string time time
  | DoRedeemBindToken string string string time "store_error + string" "store_error + string"
  | DoRotateAgentToken string string string time bool
  | DoRevokeAgent string string time bool
  | DoDeleteAgent string string time bool
  | DoUpdateAgentMetadata "gmap \<Rightarrow> int option" string gmap string time bool
  | DoUpdateAgentMetadataSelf "gmap \<Rightarrow> int option" string gmap time
  | DoSetAgentPresence string gmap time
  | DoRecordAgentSystemActivity string gmap time
  | DoFinalizeAgentHandleSelf string string time

fun run_agent :: "agent_command \<Rightarrow> memory_store \<Rightarrow> memory_store option" where
  "run_agent (DoRegisterAgent x1 x2 x3 x4 x5 x6 x7 x8) s =
     Some (snd (RegisterAgent x1 x2 x3 x4 x5 x6 x7 x8 s))"
| "run_agent (DoCreateBindToken x1 x2 x3 x4 x5 x6 x7 x8) s =
     Some (snd (CreateBindToken x1 x2 x3 x4 x5 x6 x7 x8 s))"
| "run_agent (DoCreateAgentInviteBindToken x1 x2 x3 x4 x5) s =
     Some (snd (CreateAgentInviteBindToken x1 x2 x3 x4 x5 s))"
| "run_agent (DoRedeemBindToken x1 x2 x3 x4 x5 x6) s =
     Some (snd (RedeemBindToken x1 x2 x3 x4 x5 x6 s))"
| "run_agent (DoRotateAgentToken x1 x2 x3 x4 x5) s =
     Some (snd (RotateAgentToken x1 x2 x3 x4 x5 s))"
| "run_agent (DoRevokeAgent x1 x2 x3 x4) s = Some (snd (RevokeAgent x1 x2 x3 x4 s))"
| "run_agent (DoDeleteAgent x1 x2 x3 x4) s = Some (snd (DeleteAgent x1 x2 x3 x4 s))"
| "run_agent (DoUpdateAgentMetadata x1 x2 x3 x4 x5 x6) s =
     Some (snd (UpdateAgentMetadata x1 x2 x3 x4 x5 x6 s))"
| "run_agent (DoUpdateAgentMetadataSelf x1 x2 x3 x4) s =
     Some (snd (UpdateAgentMetadataSelf x1 x2 x3 x4 s))"
| "run_agent (DoSetAgentPresence x1 x2 x3) s = Some (snd (SetAgentPresence x1 x2 x3 s))"
| "run_agent (DoRecordAgentSystemActivity x1 x2 x3) s =
     Some (snd (RecordAgentSystemActivity x1 x2 x3 s))"
| "run_agent (DoFinalizeAgentHandleSelf x1 x2 x3) s =
     Some (snd (FinalizeAgentHandleSelf x1 x2 x3 s))"

datatype (discs_sels) trust_command =
    DoCreateOrJoinOrgTrust string string string string time bool
  | DoCreateOrJoinAgentTrust string string string string string time bool
  | DoApproveOrgTrust string string time bool
  | DoBlockOrgTrust string string time bool
  | DoRevokeOrgTrust string string time bool
  | DoApproveAgentTrust string string time bool
  | DoBlockAgentTrust string string time bool
  | DoRevokeAgentTrust string string time bool

fun run_trust :: "trust_command \<Rightarrow> memory_store \<Rightarrow> memory_store option" where
  "run_trust (DoCreateOrJoinOrgTrust x1 x2 x3 x4 x5 x6) s =
     Some (snd (CreateOrJoinOrgTrust x1 x2 x3 x4 x5 x6 s))"
| "run_trust (DoCreateOrJoinAgentTrust x1 x2 x3 x4 x5 x6 x7) s =
     Some (snd (CreateOrJoinAgentTrust x1 x2 x3 x4 x5 x6 x7 s))"
| "run_trust (DoApproveOrgTrust x1 x2 x3 x4) s = Some (snd (ApproveOrgTrust x1 x2 x3 x4 s))"
| "run_trust (DoBlockOrgTrust x1 x2 x3 x4) s = Some (snd (BlockOrgTrust x1 x2 x3 x4 s))"
| "run_trust (DoRevokeOrgTrust x1 x2 x3 x4) s = Some (snd (RevokeOrgTrust x1 x2 x3 x4 s))"
| "run_trust (DoApproveAgentTrust x1 x2 x3 x4) s = Some (snd (ApproveAgentTrust x1 x2 x3 x4 s))"
| "run_trust (DoBlockAgentTrust x1 x2 x3 x4) s = Some (snd (BlockAgentTrust x1 x2 x3 x4 s))"
| "run_trust (DoRevokeAgentTrust x1 x2 x3 x4) s = Some (snd (RevokeAgentTrust x1 x2 x3 x4 s))"

datatype (discs_sels) federation_command =
    DoCreatePeerInstance string string string string string time
  | DoDeletePeerInstance string time
  | DoRecordPeerDeliverySuccess string time
  | DoRecordPeerDeliveryFailure string string time
  | DoCreateRemoteOrgTrust string string string string string time
  | DoDeleteRemoteOrgTrust string time
  | DoCreateRemoteAgentTrust string string string string string time
  | DoDeleteRemoteAgentTrust string time
  | DoEnqueuePeerOutbound string string message time
  | DoMarkPeerOutboundRetry string string time time
  | DoMarkPeerOutboundDelivered string time

fun run_federation :: "federation_command \<Rightarrow> memory_store \<Rightarrow> memory_store option" where
  "run_federation (DoCreatePeerInstance x1 x2 x3 x4 x5 x6) s =
     Some (snd (CreatePeerInstance x1 x2 x3 x4 x5 x6 s))"
| "run_federation (DoDeletePeerInstance x1 x2) s = Some (snd (DeletePeerInstance x1 x2 s))"
| "run_federation (DoRecordPeerDeliverySuccess x1 x2) s =
     Some (RecordPeerDeliverySuccess x1 x2 s)"
| "run_federation (DoRecordPeerDeliveryFailure x1 x2 x3) s =
     Some (RecordPeerDeliveryFailure x1 x2 x3 s)"
| "run_federation (DoCreateRemoteOrgTrust x1 x2 x3 x4 x5 x6) s =
     Some (snd (CreateRemoteOrgTrust x1 x2 x3 x4 x5 x6 s))"
| "run_federation (DoDeleteRemoteOrgTrust x1 x2) s = Some (snd (DeleteRemoteOrgTrust x1 x2 s))"
| "run_federation (DoCreateRemoteAgentTrust x1 x2 x3 x4 x5 x6) s =
     Some (snd (CreateRemoteAgentTrust x1 x2 x3 x4 x5 x6 s))"
| "run_federation (DoDeleteRemoteAgentTrust x1 x2) s =
     Some (snd (DeleteRemoteAgentTrust x1 x2 s))"
| "run_federation (DoEnqueuePeerOutbound x1 x2 x3 x4) s =
     Some (snd (EnqueuePeerOutbound x1 x2 x3 x4 s))"
| "run_federation (DoMarkPeerOutboundRetry x1 x2 x3 x4) s =
     Some (snd (MarkPeerOutboundRetry x1 x2 x3 x4 s))"
| "run_federation (DoMarkPeerOutboundDelivered x1 x2) s =
     Some (snd (MarkPeerOutboundDelivered x1 x2 s))"

datatype control_op =
    HumanCommand human_command
  | OrgCommand org_command
  | AgentCommand agent_command
  | TrustCommand trust_command
  | FederationCommand federation_command

fun run_control :: "control_op \<Rightarrow> memory_store \<Rightarrow> memory_store option" where
  "run_control (HumanCommand c) s = run_human c s"
| "run_control (OrgCommand c) s = run_org c s"
| "run_control (AgentCommand c) s = run_agent c s"
| "run_control (TrustCommand c) s = run_trust c s"
| "run_control (FederationCommand c) s = run_federation c s"

section \<open>What the identifier generators promise\<close>

text \<open>
  Identifiers are random UUIDs: new, not blank, without NUL bytes; token hashes are hashes of
  new random tokens.
\<close>

definition fresh_agent_uuid :: "string \<Rightarrow> memory_store \<Rightarrow> bool" where
  "fresh_agent_uuid u s \<longleftrightarrow> plain u \<and> fmlookup (agents s) u = None \<and>
     (\<forall>h. fmlookup (agentTrustByPair s) (pairKey h u) = None) \<and>
     (\<forall>i b. fmlookup (binds s) i = Some b \<longrightarrow> Bind_HostAgentUUID b \<noteq> u)"

fun fresh_human :: "human_command \<Rightarrow> memory_store \<Rightarrow> bool" where
  "fresh_human (DoUpsertHuman x1 x2 x3 x4 x5 f) s \<longleftrightarrow>
     (\<forall>i. f = Inr i \<longrightarrow> i \<noteq> [] \<and> fmlookup (humans s) i = None)"
| "fresh_human _ s \<longleftrightarrow> True"

fun fresh_for_org :: "org_command \<Rightarrow> memory_store \<Rightarrow> bool" where
  "fresh_for_org (DoCreateOrg x1 x2 x3 i x5) s \<longleftrightarrow> fresh_org i s"
| "fresh_for_org (DoEnsurePersonalOrg x1 x2 f) s \<longleftrightarrow> (\<forall>i. f = Inr i \<longrightarrow> fresh_org i s)"
| "fresh_for_org (DoAcceptInvite x1 x2 x3 x4 f) s \<longleftrightarrow>
     (\<forall>i. f = Inr i \<longrightarrow> fmlookup (memberships s) i = None)"
| "fresh_for_org (DoAcceptInviteBySecretHash x1 x2 x3 x4 f) s \<longleftrightarrow>
     (\<forall>i. f = Inr i \<longrightarrow> fmlookup (memberships s) i = None)"
| "fresh_for_org _ s \<longleftrightarrow> True"

fun fresh_for_agent :: "agent_command \<Rightarrow> memory_store \<Rightarrow> bool" where
  "fresh_for_agent (DoRegisterAgent x1 x2 x3 h x5 x6 x7 f) s \<longleftrightarrow>
     fresh_hash h s \<and> (\<forall>u. f = Inr u \<longrightarrow> fresh_agent_uuid u s)"
| "fresh_for_agent (DoRedeemBindToken x1 x2 h x4 f g) s \<longleftrightarrow>
     fresh_hash h s \<and> (\<forall>u. f = Inr u \<longrightarrow> fresh_agent_uuid u s) \<and>
     (\<forall>i. g = Inr i \<longrightarrow> fmlookup (agentTrusts s) i = None)"
| "fresh_for_agent (DoCreateBindToken x1 x2 x3 i x5 x6 x7 x8) s \<longleftrightarrow> fmlookup (binds s) i = None"
| "fresh_for_agent (DoCreateAgentInviteBindToken x1 i x3 x4 x5) s \<longleftrightarrow> fmlookup (binds s) i = None"
| "fresh_for_agent (DoRotateAgentToken x1 x2 h x4 x5) s \<longleftrightarrow> fresh_hash h s"
| "fresh_for_agent _ s \<longleftrightarrow> True"

fun fresh_for_trust :: "trust_command \<Rightarrow> memory_store \<Rightarrow> bool" where
  "fresh_for_trust (DoCreateOrJoinOrgTrust x1 x2 x3 i x5 x6) s \<longleftrightarrow> fmlookup (orgTrusts s) i = None"
| "fresh_for_trust (DoCreateOrJoinAgentTrust x1 x2 x3 x4 i x6 x7) s \<longleftrightarrow> fmlookup (agentTrusts s) i = None"
| "fresh_for_trust _ s \<longleftrightarrow> True"

fun fresh_for_federation :: "federation_command \<Rightarrow> memory_store \<Rightarrow> bool" where
  "fresh_for_federation (DoCreatePeerInstance x1 x2 x3 x4 i x6) s \<longleftrightarrow> TrimSpace i = i \<and> plain i"
| "fresh_for_federation (DoCreateRemoteOrgTrust x1 x2 x3 x4 i x6) s \<longleftrightarrow>
     fmlookup (remoteOrgTrusts s) i = None"
| "fresh_for_federation (DoCreateRemoteAgentTrust x1 x2 x3 x4 i x6) s \<longleftrightarrow>
     fmlookup (remoteAgentTrusts s) i = None"
| "fresh_for_federation (DoEnqueuePeerOutbound x1 i x3 x4) s \<longleftrightarrow>
     fmlookup (peerOutbounds s) i = None \<and> TrimSpace i = i"
| "fresh_for_federation _ s \<longleftrightarrow> True"

fun fresh_op :: "control_op \<Rightarrow> memory_store \<Rightarrow> bool" where
  "fresh_op (HumanCommand c) s \<longleftrightarrow> fresh_human c s"
| "fresh_op (OrgCommand c) s \<longleftrightarrow> fresh_for_org c s"
| "fresh_op (AgentCommand c) s \<longleftrightarrow> fresh_for_agent c s"
| "fresh_op (TrustCommand c) s \<longleftrightarrow> fresh_for_trust c s"
| "fresh_op (FederationCommand c) s \<longleftrightarrow> fresh_for_federation c s"

section \<open>Which commands leave which part alone\<close>

lemma run_human_parts:
  assumes "run_human c s = Some s'"
  shows "agents_part s' = agents_part s" "trust_part s' = trust_part s" "orgs_part s' = orgs_part s"
    "fed_part s' = fed_part s" "flow_part s' = flow_part s" "binds_part s' = binds_part s"
  using assms by (cases c; auto dest: UpsertHuman_parts)+

lemma run_org_parts:
  assumes "run_org c s = Some s'"
  shows "humans_part s' = humans_part s" "fed_part s' = fed_part s"
    "\<not> is_DoDeleteOrg c \<Longrightarrow> trust_part s' = trust_part s"
    "\<not> is_DoDeleteOrg c \<Longrightarrow> flow_part s' = flow_part s"
    "\<not> is_DoDeleteOrg c \<Longrightarrow> binds_part s' = binds_part s"
    "\<not> (is_DoDeleteOrg c \<or> is_DoAcceptInvite c \<or> is_DoAcceptInviteBySecretHash c) \<Longrightarrow>
      agents_part s' = agents_part s"
    "is_DoCreateInvite c \<or> is_DoRevokeInvite c \<or> is_DoCreateOrgAccessKey c \<or>
      is_DoRevokeOrgAccessKey c \<or> is_DoAuthorizeOrgAccessByName c \<Longrightarrow> orgs_part s' = orgs_part s"
  using assms by (cases c; auto dest: EnsurePersonalOrg_parts)+

lemma run_agent_parts:
  assumes "run_agent c s = Some s'"
  shows "humans_part s' = humans_part s" "orgs_part s' = orgs_part s" "fed_part s' = fed_part s"
    "\<not> (is_DoRevokeAgent c \<or> is_DoDeleteAgent c) \<Longrightarrow> flow_part s' = flow_part s"
    "\<not> (is_DoRevokeAgent c \<or> is_DoDeleteAgent c \<or> is_DoRedeemBindToken c) \<Longrightarrow> trust_part s' = trust_part s"
    "\<not> (is_DoCreateBindToken c \<or> is_DoCreateAgentInviteBindToken c \<or> is_DoRedeemBindToken c) \<Longrightarrow>
      binds_part s' = binds_part s"
    "is_DoCreateBindToken c \<or> is_DoCreateAgentInviteBindToken c \<or> is_DoSetAgentPresence c \<Longrightarrow>
      agents_part s' = agents_part s"
  using assms by (cases c; auto)+

lemma run_trust_parts:
  assumes "run_trust c s = Some s'"
  shows "humans_part s' = humans_part s" "agents_part s' = agents_part s" "orgs_part s' = orgs_part s"
    "fed_part s' = fed_part s" "flow_part s' = flow_part s" "binds_part s' = binds_part s"
  using assms by (cases c; auto)+

lemma run_federation_parts:
  assumes "run_federation c s = Some s'"
  shows "humans_part s' = humans_part s" "agents_part s' = agents_part s" "trust_part s' = trust_part s"
    "orgs_part s' = orgs_part s" "flow_part s' = flow_part s" "binds_part s' = binds_part s"
  using assms by (cases c; auto)+

section \<open>The invariant\<close>

definition agents_dom :: "memory_store \<Rightarrow> string fset" where
  "agents_dom s = fmdom (agent_cores s)"

definition agents_plain :: "memory_store \<Rightarrow> bool" where
  "agents_plain s \<longleftrightarrow> (\<forall>u. u |\<in>| agents_dom s \<longrightarrow> plain u)"

definition control_wf :: "memory_store \<Rightarrow> bool" where
  "control_wf s \<longleftrightarrow> humans_wf s \<and> orgs_wf s \<and> agents_wf s \<and> trust_wf s \<and> federation_wf s \<and>
     agents_plain s \<and> binds_wf s"

lemma control_wfD:
  assumes "control_wf s"
  shows "humans_wf s" "orgs_wf s" "agents_wf s" "trust_wf s" "federation_wf s" "agents_plain s" "binds_wf s"
  using assms by (simp_all add: control_wf_def)

lemma agents_dom_iff: "u |\<in>| agents_dom s \<longleftrightarrow> fmlookup (agents s) u \<noteq> None"
  by (simp add: agents_dom_def fmlookup_dom_iff)

lemma control_wf_ids: "control_wf s \<Longrightarrow> ids_plain s"
  by (auto simp: control_wf_def ids_plain_def orgs_wf_def agents_plain_def agents_dom_iff)

lemma agents_dom_upd [simp]:
  "agents_dom (s\<lparr>agents := fmupd u b (agents t)\<rparr>) = finsert u (agents_dom t)"
  "agents_dom (s\<lparr>agents := fmdrop u (agents t)\<rparr>) = agents_dom t |-| {|u|}"
  by (simp_all add: agents_dom_def agent_cores_def del: fmmap_core)

lemma agents_dom_part: "agents_part s' = agents_part s \<Longrightarrow> agents_dom s' = agents_dom s"
  by (simp add: agents_part_def agents_dom_def)

lemma agents_dom_audit [simp]: "agents_dom (appendAuditLocked o1 a c act sub det now s) = agents_dom s"
  by (simp add: agents_dom_def)

lemma agents_plain_sub: "agents_plain s \<Longrightarrow> agents_dom s' |\<subseteq>| agents_dom s \<Longrightarrow> agents_plain s'"
  by (auto simp: agents_plain_def)

lemma control_wf_start: "control_wf NewMemoryStore"
proof -
  have "humans_wf NewMemoryStore" by (simp add: humans_wf_def NewMemoryStore_def)
  moreover have "trust_wf NewMemoryStore" by (simp add: trust_wf_def edges_ok_def NewMemoryStore_def)
  moreover have "agents_plain NewMemoryStore"
    by (simp add: agents_plain_def agents_dom_iff NewMemoryStore_def)
  ultimately show ?thesis
    by (simp add: control_wf_def orgs_wf_new agents_wf_new federation_wf_start binds_wf_start)
qed

section \<open>No command adds an agent but two\<close>

lemma agents_dom_frame [simp]:
  "agents_dom (s\<lparr>orgs := x1\<rparr>) = agents_dom s"
  "agents_dom (s\<lparr>orgByHandle := x2\<rparr>) = agents_dom s"
  "agents_dom (s\<lparr>personalOrgByHuman := x3\<rparr>) = agents_dom s"
  "agents_dom (s\<lparr>archivedOrgs := x4\<rparr>) = agents_dom s"
  "agents_dom (s\<lparr>humans := x5\<rparr>) = agents_dom s"
  "agents_dom (s\<lparr>humanByAuthKey := x6\<rparr>) = agents_dom s"
  "agents_dom (s\<lparr>humanByHandle := x7\<rparr>) = agents_dom s"
  "agents_dom (s\<lparr>archivedHumans := x8\<rparr>) = agents_dom s"
  "agents_dom (s\<lparr>humanPresence := x9\<rparr>) = agents_dom s"
  "agents_dom (s\<lparr>memberships := x10\<rparr>) = agents_dom s"
  "agents_dom (s\<lparr>membershipByOrgUser := x11\<rparr>) = agents_dom s"
  "agents_dom (s\<lparr>invites := x12\<rparr>) = agents_dom s"
  "agents_dom (s\<lparr>inviteBySecretHash := x13\<rparr>) = agents_dom s"
  "agents_dom (s\<lparr>orgAccessKeys := x14\<rparr>) = agents_dom s"
  "agents_dom (s\<lparr>orgAccessKeyByHash := x15\<rparr>) = agents_dom s"
  "agents_dom (s\<lparr>archivedAgents := x16\<rparr>) = agents_dom s"
  "agents_dom (s\<lparr>agentByURI := x17\<rparr>) = agents_dom s"
  "agents_dom (s\<lparr>agentTokenIdx := x18\<rparr>) = agents_dom s"
  "agents_dom (s\<lparr>orgOwnedAgentNameIdx := x19\<rparr>) = agents_dom s"
  "agents_dom (s\<lparr>humanOwnedAgentNameIdx := x20\<rparr>) = agents_dom s"
  "agents_dom (s\<lparr>queues := x21\<rparr>) = agents_dom s"
  "agents_dom (s\<lparr>messageRecords := x22\<rparr>) = agents_dom s"
  "agents_dom (s\<lparr>messageByClientMsg := x23\<rparr>) = agents_dom s"
  "agents_dom (s\<lparr>messageDeliveries := x24\<rparr>) = agents_dom s"
  "agents_dom (s\<lparr>queueMetrics := x25\<rparr>) = agents_dom s"
  "agents_dom (s\<lparr>binds := x26\<rparr>) = agents_dom s"
  "agents_dom (s\<lparr>bindByHash := x27\<rparr>) = agents_dom s"
  "agents_dom (s\<lparr>orgTrusts := x28\<rparr>) = agents_dom s"
  "agents_dom (s\<lparr>orgTrustByPair := x29\<rparr>) = agents_dom s"
  "agents_dom (s\<lparr>agentTrusts := x30\<rparr>) = agents_dom s"
  "agents_dom (s\<lparr>agentTrustByPair := x31\<rparr>) = agents_dom s"
  "agents_dom (s\<lparr>peerInstances := x32\<rparr>) = agents_dom s"
  "agents_dom (s\<lparr>peerByCanonicalBase := x33\<rparr>) = agents_dom s"
  "agents_dom (s\<lparr>remoteOrgTrusts := x34\<rparr>) = agents_dom s"
  "agents_dom (s\<lparr>remoteOrgTrustByKey := x35\<rparr>) = agents_dom s"
  "agents_dom (s\<lparr>remoteAgentTrusts := x36\<rparr>) = agents_dom s"
  "agents_dom (s\<lparr>remoteAgentTrustByKey := x37\<rparr>) = agents_dom s"
  "agents_dom (s\<lparr>peerOutbounds := x38\<rparr>) = agents_dom s"
  "agents_dom (s\<lparr>peerOutboundByPeer := x39\<rparr>) = agents_dom s"
  "agents_dom (s\<lparr>agentPresence := x40\<rparr>) = agents_dom s"
  "agents_dom (s\<lparr>auditByOrg := x41\<rparr>) = agents_dom s"
  "agents_dom (s\<lparr>statsByOrg := x42\<rparr>) = agents_dom s"
  "agents_dom (s\<lparr>statsDaily := x43\<rparr>) = agents_dom s"
  by (simp_all add: agents_dom_def)

lemma agents_dom_names [simp]:
  "agents_dom (dropNameKey o1 o2 h s) = agents_dom s" "agents_dom (addNameKey o1 o2 h u s) = agents_dom s"
  "agents_dom (recomputeQueueMetricsLocked s) = agents_dom s"
  by (simp_all add: dropNameKey_def addNameKey_def recomputeQueueMetricsLocked_def split: option.split)

lemma agents_dom_found: "fmlookup (agents s) u = Some a \<Longrightarrow> finsert u (agents_dom s) = agents_dom s"
  by (rule finsert_absorb) (simp add: agents_dom_iff)

lemma agent_ops_dom:
  "agents_dom (snd (RotateAgentToken u a h now super s)) = agents_dom s"
  "agents_dom (snd (UpdateAgentMetadata js u m a now super s)) = agents_dom s"
  "agents_dom (snd (UpdateAgentMetadataSelf js u m now s)) = agents_dom s"
  "agents_dom (snd (RevokeAgent u a now super s)) = agents_dom s"
  "agents_dom (snd (DeleteAgent u a now super s)) |\<subseteq>| agents_dom s"
  by (cases "fmlookup (agents s) u"; simp add: RotateAgentToken_def UpdateAgentMetadata_def
      UpdateAgentMetadataSelf_def putAgentMetadata_def RevokeAgent_def DeleteAgent_def Let_def
      agents_dom_found split: sum.split; blast?)+

lemma agent_self_dom:
  assumes wf: "agents_wf s"
  shows "agents_dom (snd (RecordAgentSystemActivity u m now s)) = agents_dom s"
    and "agents_dom (snd (FinalizeAgentHandleSelf u h now s)) = agents_dom s"
proof -
  show "agents_dom (snd (RecordAgentSystemActivity u m now s)) = agents_dom s"
    by (cases "fmlookup (agents s) (TrimSpace u)")
      (simp_all add: RecordAgentSystemActivity_def Let_def agents_wf_uuid [OF wf] agents_dom_found
        split: option.split)
  show "agents_dom (snd (FinalizeAgentHandleSelf u h now s)) = agents_dom s"
    by (cases "fmlookup (agents s) u")
      (simp_all add: FinalizeAgentHandleSelf_def Let_def agents_wf_uuid [OF wf] agents_dom_found
        split: sum.split)
qed

lemma transferAgent_dom: "agents_dom (transferAgent org i h oh now u s) = agents_dom s"
  by (simp add: transferAgent_def Let_def agents_dom_found split: option.split)

lemmas transfer_dom [simp] = transferHumanOwnedAgents_frame [of agents_dom, OF transferAgent_dom]

lemma invite_dom:
  "agents_dom (snd (AcceptInvite i h e now f s)) = agents_dom s"
  "agents_dom (snd (AcceptInviteBySecretHash i h e now f s)) = agents_dom s"
proof -
  have "agents_dom (snd (acceptInviteLocked i h e now f s)) = agents_dom s" for i
    by (cases rule: acceptInvite_cases [of i h e now f s]) (simp_all add: invite_steps)
  then show "agents_dom (snd (AcceptInvite i h e now f s)) = agents_dom s"
    "agents_dom (snd (AcceptInviteBySecretHash i h e now f s)) = agents_dom s"
    by (simp_all add: AcceptInvite_def AcceptInviteBySecretHash_def split: option.split)
qed

lemma DeleteOrg_dom: "agents_dom (snd (DeleteOrg i a super now s)) |\<subseteq>| agents_dom s"
proof (cases rule: DeleteOrg_cases [of i a super now s])
  case (deleted org details)
  have "agents (deleteOrgAll i now s) = fmdelete_if (\<lambda>_ a. in_org i a) (agents s)"
    by (simp add: deleteOrgAll_def deleteOrgRecords_def deleteOrgQueues_def deleteOrgTrusts_def
        deleteOrgAgents_def recomputeQueueMetricsLocked_def Let_def)
  then have "u |\<in>| agents_dom (deleteOrgAll i now s) \<Longrightarrow> u |\<in>| agents_dom s" for u
    by (auto simp: agents_dom_iff split: option.splits)
  then show ?thesis unfolding deleted(2) by auto
qed simp

lemma installAgent_dom: "agents_dom (installAgent a s) = finsert (Agent_AgentUUID a) (agents_dom s)"
  by (simp add: installAgent_def Let_def)

lemma RegisterAgent_dom:
  assumes "agents_plain s" and "\<And>u. f = Inr u \<Longrightarrow> plain u"
  shows "agents_plain (snd (RegisterAgent o1 n ow h a now super f s))"
proof (cases "RegisterAgent o1 n ow h a now super f s")
  case (Pair r s')
  show ?thesis
  proof (cases r)
    case (Inl e)
    with Pair RegisterAgent_error assms(1) show ?thesis by fastforce
  next
    case (Inr g)
    note res = RegisterAgent_result [OF Pair [unfolded Inr]]
    have "agents_plain s' \<longleftrightarrow> agents_plain (installAgent g s)"
      by (rule res(6)) (simp add: agents_plain_def)
    then show ?thesis using Pair assms res(1) by (simp add: agents_plain_def installAgent_dom)
  qed
qed

lemma redeem_bind_dom: "agents_dom (redeem_bind b a i now s) = agents_dom (installAgent a s)"
  by (simp add: redeem_bind_def installHostTrust_def Let_def split: prod.split)

lemma RedeemBindToken_dom:
  assumes "agents_plain s" and "\<And>u. f = Inr u \<Longrightarrow> plain u"
  shows "agents_plain (snd (RedeemBindToken h n th now f g s))"
proof (cases "RedeemBindToken h n th now f g s")
  case (Pair r s')
  show ?thesis
  proof (cases r)
    case (Inl e)
    with Pair RedeemBindToken_error assms(1) show ?thesis by fastforce
  next
    case (Inr a)
    from RedeemBindToken_result [OF Pair [unfolded Inr]] obtain b i
      where "f = Inr (Agent_AgentUUID a)" "s' = redeem_bind b a i now s" by metis
    with Pair assms show ?thesis by (simp add: agents_plain_def redeem_bind_dom installAgent_dom)
  qed
qed

section \<open>Every command keeps the invariant\<close>

lemma run_org_agents:
  assumes "agents_wf s" and "agents_plain s" and "run_org c s = Some s'"
  shows "agents_wf s' \<and> agents_plain s'"
proof (cases "is_DoDeleteOrg c \<or> is_DoAcceptInvite c \<or> is_DoAcceptInviteBySecretHash c")
  case True
  note wf = DeleteOrg_agents_wf [OF assms(1)] AcceptInvite_agents_wf [OF assms(1)]
    agents_plain_sub [OF assms(2) DeleteOrg_dom]
  have dom: "agents_plain (snd (AcceptInvite i h e now f s))"
    "agents_plain (snd (AcceptInviteBySecretHash i h e now f s))" for i h e now f
    using assms(2) by (simp_all add: agents_plain_def invite_dom)
  from True assms(3) [symmetric] show ?thesis by (cases c) (simp_all add: wf dom)
next
  case False
  then have "agents_part s' = agents_part s" using run_org_parts(6) [OF assms(3)] by blast
  note same = agents_wf_part [OF this] agents_dom_part [OF this]
  from assms(1,2) show ?thesis by (simp add: same agents_plain_def)
qed

lemma run_org_orgs:
  assumes "orgs_wf s" and "fresh_for_org c s" and "run_org c s = Some s'"
  shows "orgs_wf s'"
proof (cases "is_DoCreateInvite c \<or> is_DoRevokeInvite c \<or> is_DoCreateOrgAccessKey c \<or>
      is_DoRevokeOrgAccessKey c \<or> is_DoAuthorizeOrgAccessByName c")
  case True
  with assms show ?thesis using orgs_wf_part [OF run_org_parts(7) [OF assms(3)]] by blast
next
  case False
  note wf = CreateOrg_wf [OF assms(1)] DeleteOrg_orgs_wf [OF assms(1)] AcceptInvite_orgs_wf [OF assms(1)]
    RevokeMembership_orgs_wf [OF assms(1)] UpdateOrgMetadata_orgs_wf [OF assms(1)]
  have personal: "orgs_wf s'" if "map_option snd (EnsurePersonalOrg h now f s) = Some s'"
    "\<forall>i. f = Inr i \<longrightarrow> fresh_org i s" for h now f
    using that ensurePersonalOrg_wf [OF assms(1)] by (fastforce simp: EnsurePersonalOrg_def)
  show ?thesis
  proof (cases "is_DoEnsurePersonalOrg c")
    case True
    with assms(2,3) personal show ?thesis by (cases c) auto
  next
    case no: False
    with False assms(2) assms(3) [symmetric] show ?thesis by (cases c) (simp_all add: wf)
  qed
qed

lemma run_org_wf:
  assumes wf: "control_wf s" and "fresh_for_org c s" and run: "run_org c s = Some s'"
  shows "control_wf s'"
proof -
  note w = control_wfD [OF wf] and p = run_org_parts [OF run]
  have "trust_wf s'"
  proof (cases "is_DoDeleteOrg c")
    case True
    then show ?thesis using run DeleteOrg_trust_wf [OF w(4)] by (cases c) auto
  qed (use p(3) w(4) trust_wf_part in blast)
  moreover have "binds_wf s'"
  proof (cases "is_DoDeleteOrg c")
    case True
    then show ?thesis using run DeleteOrg_binds_wf [OF w(7)] by (cases c) auto
  next
    case False
    with p(5) w(7) binds_wf_part show ?thesis by blast
  qed
  ultimately show ?thesis
    using run_org_agents [OF w(3,6) run] run_org_orgs [OF w(2) assms(2) run]
      humans_wf_part [OF p(1)] federation_wf_part [OF p(2)] w(1,5)
    by (simp add: control_wf_def)
qed

lemma run_human_wf:
  assumes wf: "control_wf s" and fresh: "fresh_human c s" and run: "run_human c s = Some s'"
  shows "control_wf s'"
proof -
  note w = control_wfD [OF wf] and p = run_human_parts [OF run]
  have "humans_wf s'"
  proof (cases c)
    case (DoUpsertHuman x1 x2 x3 x4 x5 f)
    with run fresh UpsertHuman_wf [OF w(1), of f x1 x2 x3 x4 x5] show ?thesis by auto
  qed (use run [symmetric] in \<open>simp_all add: UpdateHumanProfile_wf [OF w(1)]
      UpdateHumanMetadata_wf [OF w(1)] SetHumanPresence_wf [OF w(1)]\<close>)
  moreover have "agents_plain s'" "binds_wf s'"
    using w(6,7) p(6) by (simp_all add: agents_plain_def agents_dom_part [OF p(1)] binds_wf_part [OF p(6)])
  ultimately show ?thesis
    using w agents_wf_part [OF p(1)] trust_wf_part [OF p(2)] orgs_wf_part [OF p(3)]
      federation_wf_part [OF p(4)] by (simp add: control_wf_def)
qed

lemma run_trust_wf:
  assumes wf: "control_wf s" and fresh: "fresh_for_trust c s" and run: "run_trust c s = Some s'"
  shows "control_wf s'"
proof -
  note w = control_wfD [OF wf] and p = run_trust_parts [OF run]
  have "trust_wf s'"
    using run [symmetric] fresh
    by (cases c) (simp_all add: trust_ops_wf [OF w(4)] CreateOrJoinOrgTrust_wf [OF w(4) control_wf_ids [OF wf]]
      CreateOrJoinAgentTrust_wf [OF w(4) control_wf_ids [OF wf]])
  moreover have "agents_plain s'" "binds_wf s'"
    using w(6,7) p(6) by (simp_all add: agents_plain_def agents_dom_part [OF p(2)] binds_wf_part [OF p(6)])
  ultimately show ?thesis
    using w agents_wf_part [OF p(2)] humans_wf_part [OF p(1)] orgs_wf_part [OF p(3)]
      federation_wf_part [OF p(4)] by (simp add: control_wf_def)
qed

lemma plain_TrimSpace: "plain i \<Longrightarrow> plain (TrimSpace i)"
  using set_trim_by by (fastforce simp: plain_def TrimSpace_def)

lemma run_federation_wf:
  assumes wf: "control_wf s" and fresh: "fresh_for_federation c s" and run: "run_federation c s = Some s'"
  shows "control_wf s'"
proof -
  note w = control_wfD [OF wf] and p = run_federation_parts [OF run]
  have org: "federation_wf (snd (CreateRemoteOrgTrust o1 pr h a i now s))"
    if "fmlookup (remoteOrgTrusts s) i = None" for o1 pr h a i now
  proof (cases "fmlookup (orgs s) o1")
    case None
    with w(5) show ?thesis by (simp add: CreateRemoteOrgTrust_def)
  next
    case (Some org)
    with w(2) have "plain o1" by (auto simp: orgs_wf_def)
    with CreateRemoteOrgTrust_wf [OF w(5) that] show ?thesis by (simp add: plain_TrimSpace)
  qed
  have agent: "federation_wf (snd (CreateRemoteAgentTrust u pr r a i now s))"
    if "fmlookup (remoteAgentTrusts s) i = None" for u pr r a i now
  proof (cases "live_agent s u")
    case False
    with w(5) show ?thesis by (simp add: CreateRemoteAgentTrust_def)
  next
    case True
    with w(6) have "plain u"
      by (auto simp: agents_plain_def agents_dom_iff live_agent_def split: option.splits)
    with CreateRemoteAgentTrust_wf [OF w(5) that] show ?thesis by (simp add: plain_TrimSpace)
  qed
  have "federation_wf s'"
    using run [symmetric] fresh
    by (cases c) (simp_all add: org agent CreatePeerInstance_wf [OF w(5)] DeletePeerInstance_wf [OF w(5)]
      RecordPeerDelivery_wf [OF w(5)] DeleteRemoteTrust_wf [OF w(5)] EnqueuePeerOutbound_wf [OF w(5)]
      MarkPeerOutboundRetry_wf [OF w(5)] MarkPeerOutboundDelivered_wf [OF w(5)])
  moreover have "agents_plain s'" "binds_wf s'"
    using w(6,7) p(6) by (simp_all add: agents_plain_def agents_dom_part [OF p(2)] binds_wf_part [OF p(6)])
  ultimately show ?thesis
    using w agents_wf_part [OF p(2)] humans_wf_part [OF p(1)] orgs_wf_part [OF p(4)]
      trust_wf_part [OF p(3)] by (simp add: control_wf_def)
qed

lemma fresh_uuidD:
  assumes "fresh_agent_uuid u s"
  shows "plain u" "fmlookup (agents s) u = None" "fmlookup (agentTrustByPair s) (pairKey h u) = None"
    "fmlookup (binds s) i = Some b \<Longrightarrow> Bind_HostAgentUUID b \<noteq> u"
  using assms by (auto simp: fresh_agent_uuid_def)

lemma run_agent_agents:
  assumes wf: "agents_wf s" and fresh: "fresh_for_agent c s" and run: "run_agent c s = Some s'"
  shows "agents_wf s'"
proof (cases "is_DoCreateBindToken c \<or> is_DoCreateAgentInviteBindToken c \<or> is_DoSetAgentPresence c")
  case True
  from agents_wf_part [OF run_agent_parts(7) [OF run True]] wf show ?thesis by simp
next
  case False
  note ops = RotateAgentToken_wf [OF wf] RevokeAgent_wf [OF wf] DeleteAgent_wf [OF wf]
    UpdateAgentMetadata_wf [OF wf] UpdateAgentMetadataSelf_wf [OF wf]
    RecordAgentSystemActivity_wf [OF wf] FinalizeAgentHandleSelf_wf [OF wf]
    RegisterAgent_wf [OF wf] RedeemBindToken_wf [OF wf]
  from False run [symmetric] fresh show ?thesis
    by (cases c) (simp_all add: ops fresh_agent_uuid_def)
qed

lemma run_agent_plain:
  assumes wf: "agents_wf s" and plain: "agents_plain s" and fresh: "fresh_for_agent c s"
    and run: "run_agent c s = Some s'"
  shows "agents_plain s'"
proof (cases "is_DoCreateBindToken c \<or> is_DoCreateAgentInviteBindToken c \<or> is_DoSetAgentPresence c")
  case True
  from agents_dom_part [OF run_agent_parts(7) [OF run True]] plain show ?thesis
    by (simp add: agents_plain_def)
next
  case False
  note ops = agents_plain_sub [OF plain] agent_ops_dom agent_self_dom [OF wf] RegisterAgent_dom [OF plain]
    RedeemBindToken_dom [OF plain]
  from False run [symmetric] fresh show ?thesis
    by (cases c) (simp_all add: ops fresh_agent_uuid_def)
qed

lemma run_agent_trust:
  assumes wf: "trust_wf s" and binds: "binds_wf s" and fresh: "fresh_for_agent c s"
    and run: "run_agent c s = Some s'"
  shows "trust_wf s'"
proof (cases "is_DoRevokeAgent c \<or> is_DoDeleteAgent c \<or> is_DoRedeemBindToken c")
  case True
  have redeem: "trust_wf (snd (RedeemBindToken h n th now f g s))"
    if "\<forall>u. f = Inr u \<longrightarrow> fresh_agent_uuid u s" "\<forall>i. g = Inr i \<longrightarrow> fmlookup (agentTrusts s) i = None"
    for h n th now f g
  proof (rule RedeemBindToken_trust_wf [OF wf])
    fix u i b
    assume u: "f = Inr u" and b: "fmlookup (binds s) i = Some b"
    with that(1) have "fresh_agent_uuid u s" by simp
    from fresh_uuidD(4) [OF this b] fresh_uuidD(1) [OF this] binds_wfD(2) [OF binds b]
    show "Bind_HostAgentUUID b \<noteq> u \<and> plain (Bind_HostAgentUUID b) \<and> plain u" by simp
  qed (use that in \<open>simp_all add: fresh_agent_uuid_def\<close>)
  from True run [symmetric] fresh show ?thesis
    by (cases c) (simp_all add: RevokeAgent_trust_wf [OF wf] DeleteAgent_trust_wf [OF wf] redeem)
next
  case False
  from trust_wf_part [OF run_agent_parts(5) [OF run False]] wf show ?thesis by simp
qed

lemma run_agent_binds:
  assumes wf: "binds_wf s" and agents: "agents_wf s" "agents_plain s" and fresh: "fresh_for_agent c s"
    and run: "run_agent c s = Some s'"
  shows "binds_wf s'"
proof (cases "is_DoCreateBindToken c \<or> is_DoCreateAgentInviteBindToken c \<or> is_DoRedeemBindToken c")
  case True
  have known: "fmlookup (agents s) v \<noteq> None \<Longrightarrow> plain v" for v
    using agents(2) by (simp add: agents_plain_def agents_dom_iff)
  have invite: "binds_wf (snd (CreateAgentInviteBindToken u i h e now s))"
    if "fmlookup (binds s) i = None" for u i h e now
    by (rule CreateAgentInviteBindToken_wf [OF wf that agents(1)]) (rule known)
  from True run [symmetric] fresh show ?thesis
    by (cases c) (simp_all add: CreateBindToken_wf [OF wf] RedeemBindToken_binds_wf [OF wf] invite)
next
  case False
  from binds_wf_part [OF run_agent_parts(6) [OF run False]] wf show ?thesis by simp
qed

lemma run_agent_wf:
  assumes wf: "control_wf s" and fresh: "fresh_for_agent c s" and run: "run_agent c s = Some s'"
  shows "control_wf s'"
proof -
  note w = control_wfD [OF wf] and p = run_agent_parts [OF run]
  show ?thesis
    using run_agent_agents [OF w(3) fresh run] run_agent_plain [OF w(3,6) fresh run]
      run_agent_trust [OF w(4,7) fresh run] run_agent_binds [OF w(7,3,6) fresh run]
      humans_wf_part [OF p(1)] orgs_wf_part [OF p(2)] federation_wf_part [OF p(3)] w(1,2,5)
    by (simp add: control_wf_def)
qed

lemma run_control_wf:
  assumes wf: "control_wf s" and fresh: "fresh_op c s" and run: "run_control c s = Some s'"
  shows "control_wf s'"
proof (cases c)
  case (HumanCommand x)
  with run_human_wf [OF wf] fresh run show ?thesis by simp
next
  case (OrgCommand x)
  with run_org_wf [OF wf] fresh run show ?thesis by simp
next
  case (AgentCommand x)
  with run_agent_wf [OF wf] fresh run show ?thesis by simp
next
  case (TrustCommand x)
  with run_trust_wf [OF wf] fresh run show ?thesis by simp
next
  case (FederationCommand x)
  with run_federation_wf [OF wf] fresh run show ?thesis by simp
qed

end
