(* ===== verification/Hub.thy ===== *)
theory Hub
  imports Control
begin

text \<open>
  The whole store as one state machine: control commands and message operations in any order.
  Every reachable state satisfies the invariants of all components at once, and is reachable
  for the message machine too; on that rest the guarantees a client of the hub relies on.
\<close>

section \<open>Message operations leave the control plane alone\<close>

definition control_view where
  "control_view s = (humans_part s, agents_part s, trust_part s, orgs_part s, fed_part s, binds_part s)"

lemma control_view_frame [simp]:
  "control_view (s\<lparr>queues := x1\<rparr>) = control_view s"
  "control_view (s\<lparr>messageRecords := x2\<rparr>) = control_view s"
  "control_view (s\<lparr>messageByClientMsg := x3\<rparr>) = control_view s"
  "control_view (s\<lparr>messageDeliveries := x4\<rparr>) = control_view s"
  "control_view (s\<lparr>queueMetrics := x5\<rparr>) = control_view s"
  "control_view (s\<lparr>statsByOrg := x6\<rparr>) = control_view s"
  "control_view (s\<lparr>statsDaily := x7\<rparr>) = control_view s"
  "control_view (appendAuditLocked o1 a c act sub det now s) = control_view s"
  by (simp_all add: control_view_def parts_def)

lemma control_view_notes [simp]:
  "control_view (auditMessage org act m det now s) = control_view s"
  "control_view (recomputeQueueMetricsLocked s) = control_view s"
  "control_view (noteQueuedMessageAddedLocked m s) = control_view s"
  "control_view (noteQueuedMessageRemovedLocked m s) = control_view s"
  "control_view (noteDeliveryAddedLocked v s) = control_view s"
  "control_view (noteDeliveryRemovedLocked v s) = control_view s"
  "control_view (endDelivery d v s) = control_view s"
  by (simp_all add: auditMessage_def recomputeQueueMetricsLocked_def noteQueuedMessageAddedLocked_def
      noteQueuedMessageRemovedLocked_def noteDeliveryAddedLocked_def noteDeliveryRemovedLocked_def
      endDelivery_def Let_def)

lemma control_view_counts [simp]:
  "control_view (incrementAckedLocked org now s) = control_view s"
  "control_view (incrementExpiredLocked org now s) = control_view s"
  "control_view (incrementRedeliveredLocked org now s) = control_view s"
  "control_view (incrementDuplicateLocked org now s) = control_view s"
  by (simp_all add: control_view_def parts_def agent_cores_def del: fmmap_core)

lemma control_view_record [simp]:
  "control_view (snd (replayRecord i r t s)) = control_view s"
  "control_view (snd (insertRecord m t s)) = control_view s"
  by (simp_all add: replayRecord_def insertRecord_def Let_def)

lemma expire_control_view: "control_view (snd (ExpireMessageLeases t s)) = control_view s"
proof -
  have one: "control_view (snd (expireDelivery t d acc)) = control_view (snd acc)" for d acc
    by (cases acc) (simp add: expireDelivery_def Let_def split: option.split)
  have "control_view (snd (fold (expireDelivery t) ds acc)) = control_view (snd acc)" for ds acc
    by (induction ds arbitrary: acc) (simp_all add: one)
  then show ?thesis by (simp add: ExpireMessageLeases_def)
qed

lemma create_control_view: "control_view (snd (CreateOrGetMessageRecord m t s)) = control_view s"
proof -
  have ins: "control_view s' = control_view u" if "insertRecord m t u = (q, s')" for q s' u
    using control_view_record(2) [of m t u] that by simp
  have rep: "control_view s' = control_view u" if "replayRecord i r t u = (q, s')" for i r q s' u
    using control_view_record(1) [of i r t u] that by simp
  show ?thesis
    by (auto simp: CreateOrGetMessageRecord_def Let_def split: option.split prod.split dest!: ins rep)
qed

lemma message_control_view:
  "control_view (snd (Enqueue m s)) = control_view s"
  "control_view (snd (Dequeue u s)) = control_view s"
  "control_view (snd (LeaseMessage i u d t e s)) = control_view s"
  "control_view (snd (AckMessageDelivery u d t s)) = control_view s"
  "control_view (snd (ReleaseMessageDelivery u d t reason s)) = control_view s"
  "control_view (snd (MarkMessageForwarded i t s)) = control_view s"
  "control_view (snd (AbortMessageRecord i t s)) = control_view s"
  by (simp_all add: Enqueue_def Dequeue_def LeaseMessage_def AckMessageDelivery_def
      ReleaseMessageDelivery_def MarkMessageForwarded_def AbortMessageRecord_def Let_def
      split: option.split list.split)

section \<open>The hub\<close>

text \<open>
  A step of the hub: a control command, with what the identifier generators promise; a step of
  a request on messages; or a request that lets go of a message.  The second component lists
  the messages in the hands of requests.
\<close>

inductive hub_do ::
  "control_op option \<Rightarrow> memory_store \<times> message list \<Rightarrow> memory_store \<times> message list \<Rightarrow> bool" where
  control: "run_control c s = Some s' \<Longrightarrow> fresh_op c s \<Longrightarrow> hub_do (Some c) (s, H) (s', H)"
| message: "request (s, H) (s', H') \<Longrightarrow> control_view s' = control_view s \<Longrightarrow>
    hub_do None (s, H) (s', H')"
| give_up: "hub_do None (s, H) (s, remove1 m H)"
| abort: "m \<in> set H \<Longrightarrow> AbortMessageRecord (mid m) t s = (Inr (), s') \<Longrightarrow>
    hub_do None (s, H) (s', remove1 m H)"

inductive_cases hub_controlE: "hub_do (Some c) (s, H) y"
inductive_cases hub_messageE: "hub_do None (s, H) y"

definition hub_step :: "memory_store \<times> message list \<Rightarrow> memory_store \<times> message list \<Rightarrow> bool" where
  "hub_step x y \<longleftrightarrow> (\<exists>l. hub_do l x y)"

definition hub_run :: "memory_store \<times> message list \<Rightarrow> memory_store \<times> message list \<Rightarrow> bool" where
  "hub_run = hub_step\<^sup>*\<^sup>*"

text \<open>The condition on \<open>message\<close> only keeps \<open>elsewhere\<close> out: every operation meets it.\<close>

lemma snd_of: "f = (x, s') \<Longrightarrow> control_view (snd f) = control_view s \<Longrightarrow> control_view s' = control_view s"
  by simp

lemma request_control_view:
  assumes "request (s, H) (s', H')"
  shows "control_view s' = control_view s \<or> (queue_of s' = queue_of s \<and>
    messageRecords s' = messageRecords s \<and> messageDeliveries s' = messageDeliveries s \<and>
    queueMetrics s' = queueMetrics s \<and> H' = H)"
  using assms
  by (cases rule: request.cases)
    (auto dest!: snd_of [OF _ create_control_view] snd_of [OF _ message_control_view(1)]
      snd_of [OF _ message_control_view(2)] snd_of [OF _ message_control_view(3)]
      snd_of [OF _ message_control_view(4)] snd_of [OF _ message_control_view(5)]
      snd_of [OF _ message_control_view(6)] snd_of [OF _ expire_control_view])

lemma control_view_parts:
  assumes "control_view s' = control_view s"
  shows "humans_part s' = humans_part s" "agents_part s' = agents_part s"
    "trust_part s' = trust_part s" "orgs_part s' = orgs_part s" "fed_part s' = fed_part s"
    "binds_part s' = binds_part s"
  using assms by (simp_all add: control_view_def)

lemma control_wf_view:
  assumes "control_view s' = control_view s"
  shows "control_wf s' \<longleftrightarrow> control_wf s"
proof -
  note p = control_view_parts [OF assms]
  show ?thesis
    by (simp add: control_wf_def humans_wf_part [OF p(1)] agents_wf_part [OF p(2)] trust_wf_part [OF p(3)]
        orgs_wf_part [OF p(4)] federation_wf_part [OF p(5)] binds_wf_part [OF p(6)] agents_plain_def
        agents_dom_part [OF p(2)])
qed

lemma abort_view: "AbortMessageRecord i t s = (x, s') \<Longrightarrow> control_view s' = control_view s"
  using message_control_view(7) [of i t s] by simp

lemma hub_do_wf: "hub_do l x y \<Longrightarrow> control_wf (fst x) \<Longrightarrow> control_wf (fst y)"
proof (induction rule: hub_do.induct)
  case (control c s s' H)
  then show ?case using run_control_wf [OF _ control(2,1)] by simp
next
  case (message s H s' H')
  then show ?case using control_wf_view [OF message(2)] by simp
next
  case (abort m H t s s')
  then show ?case using control_wf_view [OF abort_view [OF abort(2)]] by simp
qed simp

text \<open>For the message machine a control command is \<open>elsewhere\<close>, or one of the removals.\<close>

lemma flow_stays:
  assumes "flow_part s' = flow_part s"
  shows "request (s, H) (s', H)"
  using assms by (intro request.elsewhere) (simp_all add: flow_part_def)

lemma control_store_step:
  assumes "run_control c s = Some s'"
  shows "request (s, H) (s', H) \<or> mishap (s, H) (s', H)"
proof (cases c)
  case (HumanCommand x)
  with assms run_human_parts(5) flow_stays show ?thesis by simp
next
  case (OrgCommand x)
  show ?thesis
  proof (cases "is_DoDeleteOrg x")
    case True
    with assms OrgCommand have "\<exists>i a super t. s' = snd (DeleteOrg i a super t s)" by (cases x) auto
    then obtain i a super t y where "DeleteOrg i a super t s = (y, s')" by (metis prod.collapse)
    then show ?thesis by (blast intro: mishap.delete_org)
  qed (use assms OrgCommand run_org_parts(4) flow_stays in simp)
next
  case (AgentCommand x)
  show ?thesis
  proof (cases "is_DoRevokeAgent x \<or> is_DoDeleteAgent x")
    case True
    with assms AgentCommand obtain u a t super where
      "s' = snd (RevokeAgent u a t super s) \<or> s' = snd (DeleteAgent u a t super s)"
      by (cases x) auto
    then obtain y where "RevokeAgent u a t super s = (y, s') \<or> DeleteAgent u a t super s = (y, s')"
      by (metis prod.collapse)
    then show ?thesis by (blast intro: mishap.revoke_agent mishap.delete_agent)
  qed (use assms AgentCommand run_agent_parts(4) flow_stays in simp)
next
  case (TrustCommand x)
  with assms run_trust_parts(5) flow_stays show ?thesis by simp
next
  case (FederationCommand x)
  with assms run_federation_parts(5) flow_stays show ?thesis by simp
qed

lemma hub_store_step: "hub_do l x y \<Longrightarrow> request x y \<or> mishap x y"
proof (induction rule: hub_do.induct)
  case (control c s s' H)
  then show ?case using control_store_step by blast
qed (auto intro: mishap.give_up mishap.abort)

lemma hub_reachable:
  assumes "hub_run (NewMemoryStore, []) x"
  shows "control_wf (fst x) \<and> store_run (NewMemoryStore, []) x"
  using assms unfolding hub_run_def store_run_def
proof (induction rule: rtranclp_induct)
  case base
  then show ?case by (simp add: control_wf_start)
next
  case (step y z)
  from step(2) obtain l where l: "hub_do l y z" by (auto simp: hub_step_def)
  from hub_store_step [OF l] step(3)
  have "(\<lambda>x y. request x y \<or> mishap x y)\<^sup>*\<^sup>* (NewMemoryStore, []) z"
    by (auto intro: rtranclp.rtrancl_into_rtrancl [of _ _ y z])
  with hub_do_wf [OF l] step(3) show ?case by blast
qed

text \<open>What control commands do to a spent bind token.\<close>

fun makes_bind :: "string \<Rightarrow> control_op \<Rightarrow> bool" where
  "makes_bind h (AgentCommand (DoCreateBindToken x1 x2 x3 x4 k x6 x7 x8)) \<longleftrightarrow> k = h"
| "makes_bind h (AgentCommand (DoCreateAgentInviteBindToken x1 x2 k x4 x5)) \<longleftrightarrow> k = h"
| "makes_bind h _ \<longleftrightarrow> False"

lemma spent_run_agent:
  assumes wf: "binds_wf s" and spent: "bind_spent h s" and fresh: "fresh_for_agent c s"
    and other: "\<not> makes_bind h (AgentCommand c)" and run: "run_agent c s = Some s'"
  shows "bind_spent h s'"
proof (cases "is_DoCreateBindToken c \<or> is_DoCreateAgentInviteBindToken c \<or> is_DoRedeemBindToken c")
  case True
  from True run [symmetric] fresh other show ?thesis
    by (cases c) (simp_all add: redeem_other_spent [OF wf spent]
      create_other_spent [OF spent _ _ binds_wfD(3) [OF wf]])
next
  case False
  from bind_spent_part [OF run_agent_parts(6) [OF run False]] spent show ?thesis by simp
qed

lemma spent_run_org:
  assumes "bind_spent h s" and run: "run_org c s = Some s'"
  shows "bind_spent h s'"
proof (cases "is_DoDeleteOrg c")
  case True
  with run [symmetric] delete_org_spent [OF assms(1)] show ?thesis by (cases c) simp_all
next
  case False
  from bind_spent_part [OF run_org_parts(5) [OF run False]] assms(1) show ?thesis by simp
qed

lemma spent_run_control:
  assumes "binds_wf s" and "bind_spent h s" and "fresh_op c s" and "\<not> makes_bind h c"
    and run: "run_control c s = Some s'"
  shows "bind_spent h s'"
proof (cases c)
  case (HumanCommand x)
  with run bind_spent_part [OF run_human_parts(6)] assms(2) show ?thesis by simp
next
  case (OrgCommand x)
  with run spent_run_org [OF assms(2)] show ?thesis by simp
next
  case (AgentCommand x)
  with run spent_run_agent [OF assms(1,2)] assms(3,4) show ?thesis by simp
next
  case (TrustCommand x)
  with run bind_spent_part [OF run_trust_parts(6)] assms(2) show ?thesis by simp
next
  case (FederationCommand x)
  with run bind_spent_part [OF run_federation_parts(6)] assms(2) show ?thesis by simp
qed

lemma spent_hub_do:
  assumes "hub_do l x y" and "control_wf (fst x)" and "bind_spent h (fst x)"
    and "\<And>c. l = Some c \<Longrightarrow> \<not> makes_bind h c"
  shows "bind_spent h (fst y)"
  using assms
proof (induction rule: hub_do.induct)
  case (control c s s' H)
  with spent_run_control [OF control_wfD(7) [OF control(3) [unfolded fst_conv]]] show ?case by simp
next
  case (message s H s' H')
  with bind_spent_part [OF control_view_parts(6) [OF message(2)]] show ?case by simp
next
  case (abort m H t s s')
  with bind_spent_part [OF control_view_parts(6) [OF abort_view [OF abort(2)]]] show ?case by simp
qed simp

end
