(* ===== verification/HubDemo.thy ===== *)
theory HubDemo
  imports Hub
begin

text \<open>
  A short life of a hub: a human signs in, registers two agents, founds an organisation,
  hands out a bind token that a third agent redeems, and lets the first two talk.  It shows
  that the hypotheses of the properties hold in states the hub reaches.
\<close>

lemma hub_control:
  "hub_run x (s, H) \<Longrightarrow> run_control c s = Some s' \<Longrightarrow> fresh_op c s \<Longrightarrow> hub_run x (s', H)"
  unfolding hub_run_def hub_step_def by (blast intro: rtranclp.rtrancl_into_rtrancl hub_do.control)

lemma fresh_hashI: "fmpred (\<lambda>_ a. Agent_TokenHash a \<noteq> h) (agents s) \<Longrightarrow> fresh_hash h s"
  by (auto simp: fresh_hash_def)

lemma fresh_agent_uuidI:
  "plain u \<Longrightarrow> fmlookup (agents s) u = None \<Longrightarrow> agentTrustByPair s = fmempty \<Longrightarrow>
    fmpred (\<lambda>_ b. Bind_HostAgentUUID b \<noteq> u) (binds s) \<Longrightarrow> fresh_agent_uuid u s"
  by (auto simp: fresh_agent_uuid_def)

definition hub1 :: memory_store where
  "hub1 = snd (the (UpsertHuman ''dev'' ''alice'' ''a@x.io'' True 1 (Inr ''h1'') NewMemoryStore))"

definition hub2 :: memory_store where
  "hub2 = snd (RegisterAgent [] ''helper'' (Some ''h1'') ''tok1'' ''h1'' 2 False (Inr ''u1'') hub1)"

definition hub3 :: memory_store where
  "hub3 = snd (RegisterAgent [] ''other'' (Some ''h1'') ''tok2'' ''h1'' 3 False (Inr ''u2'') hub2)"

definition hub_org :: memory_store where
  "hub_org = snd (CreateOrg ''acme'' ''Acme'' ''h1'' ''o1'' 4 hub1)"

definition hub_bind :: memory_store where
  "hub_bind = snd (CreateBindToken [] (Some ''h1'') ''h1'' ''b1'' ''bind1'' 100 5 False hub1)"

definition hub_redeemed :: memory_store where
  "hub_redeemed = snd (RedeemBindToken ''bind1'' ''third'' ''tok3'' 6 (Inr ''u3'') (Inr ''e0'') hub_bind)"

definition hub_trust :: memory_store where
  "hub_trust = snd (CreateOrJoinAgentTrust [] ''u1'' ''u2'' ''h1'' ''e1'' 7 False hub3)"

lemma hub1_run: "UpsertHuman ''dev'' ''alice'' ''a@x.io'' True 1 (Inr ''h1'') NewMemoryStore \<noteq> None"
  by code_simp

lemma hub1_reached: "hub_run (NewMemoryStore, []) (hub1, [])"
proof (rule hub_control)
  show "hub_run (NewMemoryStore, []) (NewMemoryStore, [])" by (simp add: hub_run_def)
  show "run_control (HumanCommand (DoUpsertHuman ''dev'' ''alice'' ''a@x.io'' True 1 (Inr ''h1'')))
      NewMemoryStore = Some hub1"
    using hub1_run by (auto simp: hub1_def)
  show "fresh_op (HumanCommand (DoUpsertHuman ''dev'' ''alice'' ''a@x.io'' True 1 (Inr ''h1'')))
      NewMemoryStore"
    by (simp add: NewMemoryStore_def)
qed

lemma hub1_part: "trust_part hub1 = trust_part NewMemoryStore" "agents_part hub1 = agents_part NewMemoryStore"
    "binds_part hub1 = binds_part NewMemoryStore"
  using hub1_run UpsertHuman_parts [of "''dev''" "''alice''" "''a@x.io''" True 1 "Inr ''h1''" NewMemoryStore]
  unfolding hub1_def by auto

lemma hub1_tables: "agentTrusts hub1 = fmempty" "agentTrustByPair hub1 = fmempty" "agent_cores hub1 = fmempty"
  "binds hub1 = fmempty" "bindByHash hub1 = fmempty"
  using hub1_part by (simp_all add: parts_def NewMemoryStore_def agent_cores_def del: fmmap_core)

lemma hub2_fresh: "fresh_hash ''tok1'' hub1" "fresh_agent_uuid ''u1'' hub1"
proof -
  have none: "fmlookup (agents hub1) u = None" for u
    using arg_cong [OF hub1_tables(3), of "\<lambda>m. fmlookup m u"] by simp
  show "fresh_hash ''tok1'' hub1" using none by (simp add: fresh_hash_def)
  have "plain ''u1''" by code_simp
  with none show "fresh_agent_uuid ''u1'' hub1" by (simp add: fresh_agent_uuid_def hub1_tables)
qed

lemma hub2_reached: "hub_run (NewMemoryStore, []) (hub2, [])"
proof (rule hub_control [OF hub1_reached])
  show "run_control (AgentCommand (DoRegisterAgent [] ''helper'' (Some ''h1'') ''tok1'' ''h1'' 2 False
      (Inr ''u1''))) hub1 = Some hub2"
    by (simp add: hub2_def)
qed (simp add: hub2_fresh)

lemma hub2_tables: "agentTrusts hub2 = fmempty" "agentTrustByPair hub2 = fmempty" "binds hub2 = fmempty"
  using hub1_tables RegisterAgent_parts [of "[]" "''helper''" "Some ''h1''" "''tok1''" "''h1''" 2 False
      "Inr ''u1''" hub1] by (simp_all add: hub2_def parts_def)

lemma hub3_fresh: "fresh_hash ''tok2'' hub2" "fresh_agent_uuid ''u2'' hub2"
proof -
  have "fmpred (\<lambda>u a. Agent_TokenHash a \<noteq> ''tok2'' \<and> u \<noteq> ''u2'') (agents hub2)" by code_simp
  then have none: "fmlookup (agents hub2) u = Some a \<Longrightarrow> Agent_TokenHash a \<noteq> ''tok2'' \<and> u \<noteq> ''u2''" for u a
    by (auto simp: fmpred_iff)
  then show "fresh_hash ''tok2'' hub2" by (simp add: fresh_hash_def)
  have "plain ''u2''" by code_simp
  moreover have "fmlookup (agents hub2) ''u2'' = None"
    using none [of "''u2''"] by (cases "fmlookup (agents hub2) ''u2''") auto
  ultimately show "fresh_agent_uuid ''u2'' hub2" by (simp add: fresh_agent_uuid_def hub2_tables)
qed

lemma hub3_reached: "hub_run (NewMemoryStore, []) (hub3, [])"
proof (rule hub_control [OF hub2_reached])
  show "run_control (AgentCommand (DoRegisterAgent [] ''other'' (Some ''h1'') ''tok2'' ''h1'' 3 False
      (Inr ''u2''))) hub2 = Some hub3"
    by (simp add: hub3_def)
qed (simp add: hub3_fresh)

lemma hub3_tables: "agentTrusts hub3 = fmempty"
  using hub2_tables RegisterAgent_parts [of "[]" "''other''" "Some ''h1''" "''tok2''" "''h1''" 3 False
      "Inr ''u2''" hub2] by (simp_all add: hub3_def parts_def)

lemma hub3_agents:
  "map_option (\<lambda>a. (Agent_TokenHash a, Agent_Status a, Agent_AgentID a)) (fmlookup (agents hub3) ''u1'') =
     Some (''tok1'', StatusActive, ''human/alice/agent/helper'')"
  by code_simp

lemma hub_org_reached: "hub_run (NewMemoryStore, []) (hub_org, [])"
proof (rule hub_control [OF hub1_reached])
  show "run_control (OrgCommand (DoCreateOrg ''acme'' ''Acme'' ''h1'' ''o1'' 4)) hub1 = Some hub_org"
    by (simp add: hub_org_def)
  have "fresh_org ''o1'' hub1" by code_simp
  then show "fresh_op (OrgCommand (DoCreateOrg ''acme'' ''Acme'' ''h1'' ''o1'' 4)) hub1" by simp
qed

lemma hub_org_found: "fmlookup (orgs hub_org) ''o1'' \<noteq> None"
  by code_simp

lemma hub_bind_reached: "hub_run (NewMemoryStore, []) (hub_bind, [])"
proof (rule hub_control [OF hub1_reached])
  show "run_control (AgentCommand (DoCreateBindToken [] (Some ''h1'') ''h1'' ''b1'' ''bind1'' 100 5 False))
      hub1 = Some hub_bind"
    by (simp add: hub_bind_def)
qed (simp add: hub1_tables)

lemma hub_bind_fresh: "fresh_hash ''tok3'' hub_bind" "fresh_agent_uuid ''u3'' hub_bind"
  "fmlookup (agentTrusts hub_bind) ''e0'' = None"
proof -
  have part: "agents_part hub_bind = agents_part hub1" "trust_part hub_bind = trust_part hub1"
    by (simp_all add: hub_bind_def)
  then have tables: "agent_cores hub_bind = fmempty" "agentTrustByPair hub_bind = fmempty"
      "agentTrusts hub_bind = fmempty"
    using hub1_tables by (simp_all add: parts_def)
  have none: "fmlookup (agents hub_bind) u = None" for u
    using arg_cong [OF tables(1), of "\<lambda>m. fmlookup m u"] by simp
  show "fresh_hash ''tok3'' hub_bind" using none by (simp add: fresh_hash_def)
  show "fmlookup (agentTrusts hub_bind) ''e0'' = None" by (simp add: tables)
  have "plain ''u3''" by code_simp
  moreover have "fmlookup (binds hub_bind) i = Some b \<Longrightarrow> Bind_HostAgentUUID b = []" for i b
    using hub1_tables(4) unfolding hub_bind_def CreateBindToken_def Let_def
    by (auto simp: putBind_def split: option.splits if_splits)
  ultimately show "fresh_agent_uuid ''u3'' hub_bind"
    using none tables by (auto simp: fresh_agent_uuid_def)
qed

lemma hub_redeemed_ok: "\<exists>a. RedeemBindToken ''bind1'' ''third'' ''tok3'' 6 (Inr ''u3'') (Inr ''e0'') hub_bind =
    (Inr a, hub_redeemed)"
proof -
  have "isl (fst (RedeemBindToken ''bind1'' ''third'' ''tok3'' 6 (Inr ''u3'') (Inr ''e0'') hub_bind)) = False"
    by code_simp
  then obtain a where "fst (RedeemBindToken ''bind1'' ''third'' ''tok3'' 6 (Inr ''u3'') (Inr ''e0'') hub_bind) = Inr a"
    by (metis isl_def sum.exhaust)
  then show ?thesis unfolding hub_redeemed_def by (metis prod.collapse)
qed

lemma hub_trust_reached: "hub_run (NewMemoryStore, []) (hub_trust, [])"
proof (rule hub_control [OF hub3_reached])
  show "run_control (TrustCommand (DoCreateOrJoinAgentTrust [] ''u1'' ''u2'' ''h1'' ''e1'' 7 False))
      hub3 = Some hub_trust"
    by (simp add: hub_trust_def)
qed (simp add: hub3_tables)

lemma hub_trust_publish: "CanPublish ''u1'' ''u2'' hub_trust = ([], [], None)"
  by code_simp

end
