(* ===== verification/HubSafety.thy ===== *)
theory HubSafety
  imports HubDemo
begin

text \<open>
  What the hub guarantees in every state it can reach, whatever commands and requests came
  before and in whatever order: identity, authentication, ownership and trust.
\<close>

section \<open>What reachable states satisfy\<close>

lemma hub_wf: "hub_run (NewMemoryStore, []) (s, H) \<Longrightarrow> control_wf s"
  using hub_reachable by fastforce

lemma hub_agents: "hub_run (NewMemoryStore, []) (s, H) \<Longrightarrow> agents_wf s"
  using hub_wf control_wfD(3) by blast

lemma live_keys:
  assumes "fmlookup (agents s) u = Some a" and "Agent_Status a \<noteq> StatusRevoked"
  shows "token_key (agent_core a) = Some (Agent_TokenHash a)" "uri_key (agent_core a) = Some (Agent_AgentID a)"
    "fmlookup (agent_cores s) u = Some (agent_core a)"
  using assms by (simp_all add: token_key_def uri_key_def)

text \<open>Authentication reads the agents without their activity logs.\<close>

lemma auth_cores:
  "AgentUUIDForTokenHash h s = (case fmlookup (agentTokenIdx s) h of
     None \<Rightarrow> Inl ErrInvalidToken
   | Some u \<Rightarrow> (case fmlookup (agent_cores s) u of
       None \<Rightarrow> Inl ErrInvalidToken
     | Some a \<Rightarrow> if Agent_Status a = StatusRevoked then Inl ErrInvalidToken else Inr u))"
  by (auto simp: AgentUUIDForTokenHash_def split: option.split)

lemma auth_cong:
  "agent_cores s' = agent_cores s \<Longrightarrow> agentTokenIdx s' = agentTokenIdx s \<Longrightarrow>
    AgentUUIDForTokenHash h s' = AgentUUIDForTokenHash h s"
  unfolding auth_cores by (auto simp del: agent_cores_lookup split: option.split)

section \<open>Identity and authentication\<close>

text \<open>
  C9: in every reachable state an agent URI belongs to one live agent, and so does a token:
  two agents that are not revoked share neither.
\<close>

theorem agent_identity_unique:
  assumes "hub_run (NewMemoryStore, []) (s, H)"
    and "fmlookup (agents s) u = Some a" and "fmlookup (agents s) v = Some b"
    and "Agent_Status a \<noteq> StatusRevoked" and "Agent_Status b \<noteq> StatusRevoked"
    and "Agent_AgentID a = Agent_AgentID b \<or> Agent_TokenHash a = Agent_TokenHash b"
  shows "u = v"
proof -
  have wf: "index_ok token_key (agent_cores s) (agentTokenIdx s)"
    "index_covers uri_key (agent_cores s) (agentByURI s)"
    using hub_agents [OF assms(1)] by (simp_all add: agents_wf_def)
  note a = live_keys [OF assms(2,4)] and b = live_keys [OF assms(3,5)]
  from assms(6) show ?thesis
    using index_ok_unique [OF wf(1) a(3) b(3) a(1)] index_covers_unique [OF wf(2) a(3) b(3) a(2)] b(1,2)
    by auto
qed

theorem agent_identity_unique_witness: "fmlookup (agents hub3) ''u1'' \<noteq> None \<and> ''u1'' = ''u1''"
proof -
  obtain a where a: "fmlookup (agents hub3) ''u1'' = Some a" "Agent_Status a = StatusActive"
    using hub3_agents by auto
  from agent_identity_unique [OF hub3_reached a(1) a(1)] a show ?thesis by simp
qed

text \<open>
  C10: a token authenticates exactly the live agent that holds it: in every reachable state the
  lookup of a token hash returns an agent if and only if that agent is in the table, is not
  revoked and was given this token last.
\<close>

theorem token_authenticates:
  assumes "hub_run (NewMemoryStore, []) (s, H)"
  shows "AgentUUIDForTokenHash h s = Inr u \<longleftrightarrow>
    (\<exists>a. fmlookup (agents s) u = Some a \<and> Agent_Status a \<noteq> StatusRevoked \<and> Agent_TokenHash a = h)"
proof -
  have wf: "index_ok token_key (agent_cores s) (agentTokenIdx s)"
    using hub_agents [OF assms] by (simp add: agents_wf_def)
  have "fmlookup (agentTokenIdx s) h = Some u \<longleftrightarrow>
      (\<exists>a. fmlookup (agents s) u = Some a \<and> token_key a = Some h)"
    using wf by (auto simp: index_ok_def)
  then show ?thesis
    by (auto simp: AgentUUIDForTokenHash_def token_key_def split: option.splits if_splits)
qed

theorem token_authenticates_witness: "AgentUUIDForTokenHash ''tok1'' hub3 = Inr ''u1''"
  using token_authenticates [OF hub3_reached, of "''tok1''" "''u1''"] hub3_agents by auto

text \<open>
  C19: rotating a token cuts the old one off at once and lets the new one in: afterwards the old
  hash authenticates nobody, the new one authenticates the agent, and every other token
  authenticates whom it did before.
\<close>

theorem token_rotation:
  assumes rot: "RotateAgentToken u actor h now super s = (Inr (), s')" and fresh: "fresh_hash h s"
    and a: "fmlookup (agents s) u = Some a"
  shows "AgentUUIDForTokenHash (Agent_TokenHash a) s' = Inl ErrInvalidToken \<and>
    AgentUUIDForTokenHash h s' = Inr u \<and>
    (\<forall>k. k \<noteq> h \<and> k \<noteq> Agent_TokenHash a \<longrightarrow> AgentUUIDForTokenHash k s' = AgentUUIDForTokenHash k s)"
proof -
  have new: "h \<noteq> Agent_TokenHash a" using fresh_hashD [OF fresh a] by simp
  let ?t = "s\<lparr>agents := fmupd u (a\<lparr>Agent_TokenHash := h\<rparr>) (agents s),
    agentTokenIdx := fmupd h u (fmdrop (Agent_TokenHash a) (agentTokenIdx s))\<rparr>"
  have live: "Agent_Status a \<noteq> StatusRevoked"
    using rot a by (auto simp: RotateAgentToken_def split: if_splits)
  have "AgentUUIDForTokenHash k s' = AgentUUIDForTokenHash k ?t" for k
    using rot a by (intro auth_cong) (auto simp: RotateAgentToken_def Let_def split: if_splits)
  with new live a show ?thesis by (auto simp: AgentUUIDForTokenHash_def split: option.splits)
qed

theorem token_rotation_witness:
  "AgentUUIDForTokenHash ''tok1'' (snd (RotateAgentToken ''u1'' ''h1'' ''new'' 9 False hub3)) =
     Inl ErrInvalidToken"
proof -
  have ok: "fst (RotateAgentToken ''u1'' ''h1'' ''new'' 9 False hub3) = Inr ()" by code_simp
  have rot: "RotateAgentToken ''u1'' ''h1'' ''new'' 9 False hub3 =
      (Inr (), snd (RotateAgentToken ''u1'' ''h1'' ''new'' 9 False hub3))"
    using ok by (metis prod.collapse)
  have "fmpred (\<lambda>_ a. Agent_TokenHash a \<noteq> ''new'') (agents hub3)" by code_simp
  then have fresh: "fresh_hash ''new'' hub3" by (rule fresh_hashI)
  obtain a where a: "fmlookup (agents hub3) ''u1'' = Some a" "Agent_TokenHash a = ''tok1''"
    using hub3_agents by auto
  from token_rotation [OF rot fresh a(1)] a(2) show ?thesis by simp
qed

text \<open>
  C11: revoking an agent cuts it off everywhere at once.  In the state right after a revocation that
  returned no error, the token of the agent authenticates nobody, nobody can publish to it nor it to
  anybody, every trust edge it has is revoked, and no queue of the memory store holds a message from it
  or to it.  Its messages that are leased then stay leased, and a receiver that gives one back puts it
  into a queue again.
\<close>

theorem revoked_agent_cut_off:
  assumes run: "hub_run (NewMemoryStore, []) (s, H)"
    and rev: "RevokeAgent u actor now super s = (Inr (), s')"
    and a: "fmlookup (agents s) u = Some a" and live: "Agent_Status a \<noteq> StatusRevoked"
  shows "AgentUUIDForTokenHash (Agent_TokenHash a) s' = Inl ErrInvalidToken \<and>
    snd (snd (CanPublish u v s')) \<noteq> None \<and> snd (snd (CanPublish v u s')) \<noteq> None \<and>
    (\<forall>i e. fmlookup (agentTrusts s') i = Some e \<and> edge_of_agent u e \<longrightarrow> Edge_State e = StatusRevoked) \<and>
    (\<forall>w m. m \<in> set (queue_of s' w) \<longrightarrow> Msg_FromAgentUUID m \<noteq> u \<and> Msg_ToAgentUUID m \<noteq> u)"
proof -
  define b where "b = agent_core (a\<lparr>Agent_Status := StatusRevoked, Agent_RevokedAt := Some now\<rparr>)"
  have fin: "agentTokenIdx s' = fmdrop (Agent_TokenHash a) (agentTokenIdx s)"
    "agentTrusts s' = revokeEdgesOf u now (agentTrusts s)"
    "queues s' = purge_queues (message_of u) (queues s)"
    "agent_cores s' = fmupd u b (agent_cores s)"
    using rev a live unfolding RevokeAgent_def Let_def b_def
    by (auto simp: recomputeQueueMetricsLocked_def dropNameKey_def agent_cores_upd split: if_splits option.splits)
  have gone: "GetAgentByUUID u s' = Inl ErrAgentNotFound"
  proof (cases "fmlookup (agents s') u")
    case (Some c)
    have "fmlookup (agent_cores s') u = Some b" by (simp add: fin(4) del: agent_cores_lookup)
    with Some have "agent_core c = b" by simp
    then have "Agent_Status (agent_core c) = StatusRevoked" by (simp add: b_def)
    then have "Agent_Status c = StatusRevoked" by simp
    with Some show ?thesis by (simp add: GetAgentByUUID_def)
  qed (simp add: GetAgentByUUID_def)
  have edges: "Edge_State e = StatusRevoked" if "fmlookup (agentTrusts s') i = Some e" "edge_of_agent u e" for i e
  proof -
    note e = that
    obtain f where "e = (if edge_of_agent u f \<and> Edge_State f \<noteq> StatusRevoked then revoke_edge now f else f)"
      using e(1) unfolding fin(2) revokeEdgesOf_def by auto
    with e(2) show ?thesis
      by (cases "edge_of_agent u f \<and> Edge_State f \<noteq> StatusRevoked") (auto simp: revoke_edge_def)
  qed
  have "queue_of s' w = filter (\<lambda>m. \<not> message_of u m) (list_at (queues s) w)" for w
    unfolding queue_of_list_at fin(3) by (rule list_at_purge)
  then have "m \<in> set (queue_of s' w) \<Longrightarrow> Msg_FromAgentUUID m \<noteq> u \<and> Msg_ToAgentUUID m \<noteq> u" for w m
    by (auto simp: message_of_def)
  moreover have "AgentUUIDForTokenHash (Agent_TokenHash a) s' = Inl ErrInvalidToken"
    by (simp add: AgentUUIDForTokenHash_def fin(1))
  moreover have "snd (snd (CanPublish u v s')) \<noteq> None" "snd (snd (CanPublish v u s')) \<noteq> None"
    by (simp_all add: CanPublish_def gone split: sum.split)
  ultimately show ?thesis using edges by blast
qed

theorem revoked_agent_cut_off_witness:
  "AgentUUIDForTokenHash ''tok1'' (snd (RevokeAgent ''u1'' ''h1'' 9 False hub3)) = Inl ErrInvalidToken"
proof -
  have ok: "fst (RevokeAgent ''u1'' ''h1'' 9 False hub3) = Inr ()" by code_simp
  have rev: "RevokeAgent ''u1'' ''h1'' 9 False hub3 = (Inr (), snd (RevokeAgent ''u1'' ''h1'' 9 False hub3))"
    using ok by (metis prod.collapse)
  obtain a where a: "fmlookup (agents hub3) ''u1'' = Some a" "Agent_TokenHash a = ''tok1''"
    "Agent_Status a \<noteq> StatusRevoked"
    using hub3_agents by auto
  from revoked_agent_cut_off [OF hub3_reached rev a(1,3)] a(2) show ?thesis by simp
qed

section \<open>People and organisations\<close>

text \<open>
  C20: in every reachable state every organisation has an active owner: whatever members are
  revoked, invited or deleted, no organisation is ever left without one.
\<close>

theorem org_keeps_owner:
  assumes "hub_run (NewMemoryStore, []) (s, H)" and "fmlookup (orgs s) i = Some org"
  shows "\<exists>h. membershipRoleLocked s i h = RoleOwner"
proof -
  have "owner_ok s i" using control_wfD(2) [OF hub_wf [OF assms(1)]] assms(2) by (simp add: orgs_wf_def)
  then obtain h mid m where "fmlookup (membershipByOrgUser s) (orgHumanKey i h) = Some mid"
    "fmlookup (memberships s) mid = Some m" "Mem_Role m = RoleOwner" "Mem_Status m = StatusActive"
    by (auto simp: owner_ok_def)
  then have "membershipRoleLocked s i h = RoleOwner" unfolding membershipRoleLocked_def by simp
  then show ?thesis by (rule exI [of "\<lambda>h. membershipRoleLocked s i h = RoleOwner" h])
qed

theorem org_keeps_owner_witness: "\<exists>h. membershipRoleLocked hub_org ''o1'' h = RoleOwner"
proof -
  obtain org where "fmlookup (orgs hub_org) ''o1'' = Some org" using hub_org_found by auto
  from org_keeps_owner [OF hub_org_reached this] show ?thesis .
qed

text \<open>
  C23: handles identify people and organisations: in every reachable state two humans never
  share a handle and every human's handle is valid, and two organisations never share a
  normalised handle.
\<close>

theorem handles_unique:
  assumes "hub_run (NewMemoryStore, []) (s, H)"
  shows "(\<forall>i j h k. fmlookup (humans s) i = Some h \<and> fmlookup (humans s) j = Some k \<longrightarrow>
      ValidateHandle (Human_Handle h) = None \<and> (Human_Handle h = Human_Handle k \<longrightarrow> i = j)) \<and>
    (\<forall>i j a b. fmlookup (orgs s) i = Some a \<and> fmlookup (orgs s) j = Some b \<and>
      normalizeOrgHandleKey (Org_Handle a) = normalizeOrgHandleKey (Org_Handle b) \<longrightarrow> i = j)"
proof -
  note wf = control_wfD(1,2) [OF hub_wf [OF assms]]
  have humans: "index_ok (\<lambda>h. Some (Human_Handle h)) (humans s) (humanByHandle s)"
    "fmlookup (humans s) i = Some h \<Longrightarrow> ValidateHandle (Human_Handle h) = None" for i h
    using wf(1) by (auto simp: humans_wf_def)
  have orgs: "index_covers org_handle_key (orgs s) (orgByHandle s)"
    using wf(2) by (simp add: orgs_wf_def)
  show ?thesis
  proof (intro conjI allI impI; elim conjE)
    fix i j h k
    assume "fmlookup (humans s) i = Some h" "fmlookup (humans s) j = Some k"
      "Human_Handle h = Human_Handle k"
    then show "i = j" using index_ok_unique [OF humans(1)] by auto
  next
    fix i j a b
    assume "fmlookup (orgs s) i = Some a" "fmlookup (orgs s) j = Some b"
      "normalizeOrgHandleKey (Org_Handle a) = normalizeOrgHandleKey (Org_Handle b)"
    then show "i = j" using index_covers_unique [OF orgs] by (simp add: org_handle_key_def)
  qed (rule humans(2))
qed

theorem handles_unique_witness:
  "map_option (\<lambda>h. ValidateHandle (Human_Handle h)) (fmlookup (humans hub1) ''h1'') = Some None \<and>
    fmdom' (humans hub1) = {''h1''}"
proof
  show dom: "fmdom' (humans hub1) = {''h1''}" by code_simp
  have "''h1'' \<in> fmdom' (humans hub1)" unfolding dom by (rule singletonI)
  then obtain h where h: "fmlookup (humans hub1) ''h1'' = Some h"
    unfolding fmlookup_dom'_iff by (elim exE)
  note handles_unique [OF hub1_reached, THEN conjunct1, rule_format, OF conjI [OF h h],
    THEN conjunct1]
  then show "map_option (\<lambda>h. ValidateHandle (Human_Handle h)) (fmlookup (humans hub1) ''h1'') = Some None"
    unfolding h option.map by (rule arg_cong)
qed

section \<open>Bind tokens\<close>

text \<open>
  C18: a bind token lets one agent in, once: after it was redeemed, whatever happens in the hub,
  redeeming it again is refused and changes nothing, as long as nobody issues a new token with
  the same hash.
\<close>

theorem bind_token_once:
  assumes "hub_run (NewMemoryStore, []) (s, H)"
    and "hub_do (Some (AgentCommand (DoRedeemBindToken h n th now f g))) (s, H) (t, H)"
    and "fst (RedeemBindToken h n th now f g s) = Inr a"
    and "(\<lambda>x y. \<exists>l. hub_do l x y \<and> (\<forall>c. l = Some c \<longrightarrow> \<not> makes_bind h c))\<^sup>*\<^sup>* (t, H) (t', H')"
  shows "fst (RedeemBindToken h n' th' now' f' g' t') \<in> {Inl ErrBindUsed, Inl ErrBindNotFound} \<and>
    snd (RedeemBindToken h n' th' now' f' g' t') = t'"
proof -
  note wf = hub_wf [OF assms(1)]
  have t: "RedeemBindToken h n th now f g s = (Inr a, t)"
    using assms(2,3) by (auto elim!: hub_controlE intro: prod_eqI)
  have "control_wf (fst (t', H')) \<and> bind_spent h (fst (t', H'))"
    using assms(4)
  proof (induction rule: rtranclp_induct)
    case base
    show ?case using hub_do_wf [OF assms(2)] wf redeem_spent(2) [OF control_wfD(7) [OF wf] t] by simp
  next
    case (step y z)
    then obtain l where l: "hub_do l y z" "\<And>c. l = Some c \<Longrightarrow> \<not> makes_bind h c" by blast
    from hub_do_wf [OF l(1)] spent_hub_do [OF l(1) _ _ l(2)] step.IH show ?case by blast
  qed
  then show ?thesis by (intro spent_refused) simp
qed

theorem bind_token_once_witness:
  "fst (RedeemBindToken ''bind1'' ''fourth'' ''tok4'' 7 (Inr ''u4'') (Inr ''e1'') hub_redeemed) \<in>
     {Inl ErrBindUsed, Inl ErrBindNotFound}"
proof -
  obtain a where a: "fst (RedeemBindToken ''bind1'' ''third'' ''tok3'' 6 (Inr ''u3'') (Inr ''e0'') hub_bind) = Inr a"
    using hub_redeemed_ok by auto
  have "hub_do (Some (AgentCommand (DoRedeemBindToken ''bind1'' ''third'' ''tok3'' 6 (Inr ''u3'') (Inr ''e0''))))
      (hub_bind, []) (hub_redeemed, [])"
    by (rule hub_do.control) (simp_all add: hub_redeemed_def hub_bind_fresh)
  from bind_token_once [OF hub_bind_reached this a rtranclp.rtrancl_refl] show ?thesis by blast
qed

section \<open>Trust\<close>

text \<open>
  C6: trust is mutual and approved by both sides.  In every reachable state, one agent may
  publish to another only over an active edge between exactly these two that both sides have
  approved, and, when they belong to different organisations, over an active edge stored for
  the two organisations that both have approved; and then the other may publish back.
\<close>

theorem publish_needs_mutual_trust:
  assumes run: "hub_run (NewMemoryStore, []) (s, H)" and pub: "CanPublish u v s = (o1, o2, None)"
  shows "(\<exists>i e. fmlookup (agentTrusts s) i = Some e \<and> {Edge_LeftID e, Edge_RightID e} = {u, v} \<and>
      Edge_State e = StatusActive \<and> Edge_LeftApproved e \<and> Edge_RightApproved e) \<and>
    (TrimSpace o1 \<noteq> [] \<and> TrimSpace o2 \<noteq> [] \<and> TrimSpace o1 \<noteq> TrimSpace o2 \<longrightarrow>
      (\<exists>i e. fmlookup (orgTrusts s) i = Some e \<and> pair_of_edge e = pairKey (TrimSpace o1) (TrimSpace o2) \<and>
        Edge_State e = StatusActive \<and> Edge_LeftApproved e \<and> Edge_RightApproved e)) \<and>
    CanPublish v u s = (o2, o1, None)"
proof -
  note wf = control_wfD [OF hub_wf [OF run]]
  obtain a b where ab: "fmlookup (agents s) u = Some a" "fmlookup (agents s) v = Some b"
    "Agent_OrgID a = o1" "Agent_OrgID b = o2" "canPublishLocked s a b"
    "GetAgentByUUID u s = Inr a" "GetAgentByUUID v s = Inr b"
    using pub by (auto simp: CanPublish_def GetAgentByUUID_def split: sum.splits option.splits if_splits)
  have id: "Agent_AgentUUID a = u" "Agent_AgentUUID b = v" "plain u" "plain v"
    using agents_wf_uuid [OF wf(3)] ab(1,2) wf(6) by (auto simp: agents_plain_def agents_dom_iff)
  have ok: "edges_ok (agentTrusts s) (agentTrustByPair s)" "edges_ok (orgTrusts s) (orgTrustByPair s)"
    using wf(4) by (simp_all add: trust_wf_def)
  have pair: "active_pair (agentTrusts s) (agentTrustByPair s) u v"
    using ab(5) id by (auto simp: canPublishLocked_def Let_def split: if_splits)
  have org: "\<exists>i e. fmlookup (orgTrusts s) i = Some e \<and> pair_of_edge e = pairKey (TrimSpace o1) (TrimSpace o2) \<and>
      Edge_State e = StatusActive \<and> Edge_LeftApproved e \<and> Edge_RightApproved e"
    if "TrimSpace o1 \<noteq> []" "TrimSpace o2 \<noteq> []" "TrimSpace o1 \<noteq> TrimSpace o2"
  proof -
    have "active_pair (orgTrusts s) (orgTrustByPair s) (TrimSpace o1) (TrimSpace o2)"
      using ab(3-5) that by (auto simp: canPublishLocked_def Let_def split: if_splits)
    then obtain i e where e: "fmlookup (orgTrustByPair s) (pairKey (TrimSpace o1) (TrimSpace o2)) = Some i"
      "fmlookup (orgTrusts s) i = Some e" "Edge_State e = StatusActive"
      by (auto simp: active_pair_def split: option.splits)
    from edges_lookup_some [OF ok(2) e(1)] e(2) edges_okD [OF ok(2) e(2)] e(3)
    show ?thesis by (auto simp: edge_ok_def)
  qed
  have "CanPublish v u s = (o2, o1, None)"
    using ab canPublish_sym [of s b a] by (simp add: CanPublish_def)
  with active_pair_edge [OF ok(1) pair id(3,4)] org show ?thesis by blast
qed

theorem publish_needs_mutual_trust_witness: "CanPublish ''u2'' ''u1'' hub_trust = ([], [], None)"
  using publish_needs_mutual_trust [OF hub_trust_reached hub_trust_publish] by blast

text \<open>
  C12: nobody approves for somebody else.  In every reachable state, no request, approval, block
  or revocation by a human who is no super administrator makes a side of an edge approved that
  the human does not control: an administrator of that organisation, the owner of that agent
  or an administrator of its organisation.
\<close>

theorem approval_needs_control:
  assumes "hub_run (NewMemoryStore, []) (s, H)" and "\<not> controls ty s side actor"
    and "fmlookup (edges_of ty (run_trust_op ty actor False now tr s)) i = Some e'"
    and "side_approved side e'"
  shows "\<exists>e. fmlookup (edges_of ty s) i = Some e \<and> side_approved side e"
  using trust_op_side [OF _ _ assms(2-4)] hub_wf [OF assms(1)] control_wf_ids control_wfD(4) by blast

theorem approval_needs_control_witness:
  "\<exists>e. fmlookup (edges_of ''agent'' hub_trust) ''e1'' = Some e \<and> side_approved ''u1'' e"
proof -
  have no: "\<not> controls ''agent'' hub_trust ''u1'' ''h9''" by code_simp
  have "map_option (side_approved ''u1'') (fmlookup (edges_of ''agent''
      (run_trust_op ''agent'' ''h9'' False 9 (ApproveTrust ''e1'') hub_trust)) ''e1'') = Some True"
    by code_simp
  then obtain e where "fmlookup (edges_of ''agent''
      (run_trust_op ''agent'' ''h9'' False 9 (ApproveTrust ''e1'') hub_trust)) ''e1'' = Some e"
    "side_approved ''u1'' e"
    by auto
  from approval_needs_control [OF hub_trust_reached no this] show ?thesis .
qed

end
