(* ===== verification/Peering.thy ===== *)
theory Peering
  imports HubSafety
begin

text \<open>
  What federation promises in every state the hub reaches: trust in a remote organisation or
  agent is exactly what was granted, a deleted peer leaves nothing behind, a message waits in
  the outbox until it is delivered, and the worker sees the outbounds that are due, in order.
\<close>

section \<open>A hub with a peer\<close>

definition peer2 :: memory_store where
  "peer2 = snd (CreatePeerInstance ''https://b.io'' ''https://b.io/api'' ''k'' ''h1'' ''p1'' 1 hub_org)"

definition peer3 :: memory_store where
  "peer3 = snd (CreateRemoteOrgTrust ''o1'' ''p1'' ''other'' ''h1'' ''r1'' 3 peer2)"

definition peer4 :: memory_store where
  "peer4 = snd (EnqueuePeerOutbound ''p1'' ''x1'' demo_message 4 peer3)"

lemma peer_tables: "remoteOrgTrusts hub_org = fmempty" "peerOutbounds hub_org = fmempty"
  "remoteOrgTrusts peer2 = fmempty" "peerOutbounds peer3 = fmempty"
proof -
  have "fed_part hub1 = fed_part NewMemoryStore"
    using hub1_run UpsertHuman_parts [of "''dev''" "''alice''" "''a@x.io''" True 1 "Inr ''h1''" NewMemoryStore]
    unfolding hub1_def by auto
  then have "fed_part hub_org = fed_part NewMemoryStore" by (simp add: hub_org_def)
  then show org: "remoteOrgTrusts hub_org = fmempty" "peerOutbounds hub_org = fmempty"
    by (simp_all add: fed_part_def NewMemoryStore_def)
  show "remoteOrgTrusts peer2 = fmempty" "peerOutbounds peer3 = fmempty"
    using org by (simp_all add: peer3_def peer2_def CreatePeerInstance_def CreateRemoteOrgTrust_def Let_def
        split: option.split)
qed

lemma peer_reached: "hub_run (NewMemoryStore, []) (peer3, [])"
  "hub_do (Some (FederationCommand (DoEnqueuePeerOutbound ''p1'' ''x1'' demo_message 4))) (peer3, []) (peer4, [])"
proof -
  have trim: "TrimSpace ''p1'' = ''p1''" "plain ''p1''" "TrimSpace ''x1'' = ''x1''" by code_simp+
  have "hub_run (NewMemoryStore, []) (peer2, [])"
    by (rule hub_control [OF hub_org_reached, of "FederationCommand (DoCreatePeerInstance ''https://b.io''
      ''https://b.io/api'' ''k'' ''h1'' ''p1'' 1)"]) (simp_all add: peer2_def trim)
  then show "hub_run (NewMemoryStore, []) (peer3, [])"
    by (rule hub_control [where c = "FederationCommand (DoCreateRemoteOrgTrust ''o1'' ''p1'' ''other''
      ''h1'' ''r1'' 3)"]) (simp_all add: peer3_def peer_tables)
  show "hub_do (Some (FederationCommand (DoEnqueuePeerOutbound ''p1'' ''x1'' demo_message 4))) (peer3, []) (peer4, [])"
    by (rule hub_do.control) (simp_all add: peer4_def peer_tables trim)
qed

lemma peer4_reached: "hub_run (NewMemoryStore, []) (peer4, [])"
  using peer_reached unfolding hub_run_def hub_step_def by (blast intro: rtranclp.rtrancl_into_rtrancl)

section \<open>Remote trust\<close>

lemma hub_federation: "hub_run (NewMemoryStore, []) (s, H) \<Longrightarrow> federation_wf s"
  using control_wfD(5) [OF hub_wf] .

lemma remoteOrgTrustKey_inject:
  assumes "plain (TrimSpace o1)" "plain (TrimSpace p1)" "plain (TrimSpace o2)" "plain (TrimSpace p2)"
  shows "remoteOrgTrustKey o1 p1 h1 = remoteOrgTrustKey o2 p2 h2 \<longleftrightarrow>
    TrimSpace o1 = TrimSpace o2 \<and> TrimSpace p1 = TrimSpace p2 \<and> Normalize h1 = Normalize h2"
  using assms by (auto simp: remoteOrgTrustKey_def plain_def NUL_split)

lemma remoteAgentTrustKey_inject:
  assumes "plain (TrimSpace o1)" "plain (TrimSpace p1)" "plain (TrimSpace o2)" "plain (TrimSpace p2)"
  shows "remoteAgentTrustKey o1 p1 h1 = remoteAgentTrustKey o2 p2 h2 \<longleftrightarrow>
    TrimSpace o1 = TrimSpace o2 \<and> TrimSpace p1 = TrimSpace p2 \<and> TrimSpace h1 = TrimSpace h2"
  using assms by (auto simp: remoteAgentTrustKey_def plain_def NUL_split)

lemma peer_plain:
  assumes "federation_wf s" and "fmlookup (peerInstances s) p \<noteq> None"
  shows "plain (TrimSpace p)" "TrimSpace p = p"
  using peerD(2,3) [OF federation_wfD(1) [OF assms(1)]] assms(2) by auto

lemma org_trust_index:
  assumes "federation_wf s"
  shows "HasActiveRemoteOrgTrust o1 p h s \<longleftrightarrow>
    (\<exists>i t. fmlookup (remoteOrgTrusts s) i = Some t \<and> key_of_rot t = remoteOrgTrustKey o1 p h)"
proof -
  have ok: "index_ok (Some \<circ> key_of_rot) (remoteOrgTrusts s) (remoteOrgTrustByKey s)"
    "fmlookup (remoteOrgTrusts s) i = Some t \<Longrightarrow> ROT_Status t = StatusActive" for i t
    using federation_wfD(2) [OF assms] by (auto simp: org_trusts_ok_def)
  show ?thesis
    unfolding HasActiveRemoteOrgTrust_def
    using ok(2) index_ok_lookup [OF ok(1)] index_ok_key [OF ok(1)] by (fastforce split: option.splits)
qed

lemma agent_trust_index:
  assumes "federation_wf s"
  shows "HasActiveRemoteAgentTrust u p r s \<longleftrightarrow>
    (\<exists>i t. fmlookup (remoteAgentTrusts s) i = Some t \<and> key_of_rat t = remoteAgentTrustKey u p r)"
proof -
  have ok: "index_ok (Some \<circ> key_of_rat) (remoteAgentTrusts s) (remoteAgentTrustByKey s)"
    "fmlookup (remoteAgentTrusts s) i = Some t \<Longrightarrow> RAT_Status t = StatusActive" for i t
    using federation_wfD(3) [OF assms] by (auto simp: agent_trusts_ok_def)
  show ?thesis
    unfolding HasActiveRemoteAgentTrust_def
    using ok(2) index_ok_lookup [OF ok(1)] index_ok_key [OF ok(1)] by (fastforce split: option.splits)
qed

text \<open>
  C24: trust in a remote organisation is what was granted and nothing else: in every reachable
  state the check succeeds exactly when the table holds a trust of that organisation in that
  peer for that handle, compared up to surrounding blanks and handle normalisation; and the
  peer is one the hub still knows.
\<close>

theorem remote_trust_exact:
  assumes run: "hub_run (NewMemoryStore, []) (s, H)" and plain: "plain (TrimSpace o1)" "plain (TrimSpace p)"
  shows "HasActiveRemoteOrgTrust o1 p h s \<longleftrightarrow>
    (\<exists>i t. fmlookup (remoteOrgTrusts s) i = Some t \<and> TrimSpace (ROT_LocalOrgID t) = TrimSpace o1 \<and>
       ROT_PeerID t = TrimSpace p \<and> Normalize (ROT_RemoteOrgHandle t) = Normalize h \<and>
       fmlookup (peerInstances s) (TrimSpace p) \<noteq> None)"
proof -
  note wf = hub_federation [OF run]
  have t: "plain (TrimSpace (ROT_LocalOrgID t))" "fmlookup (peerInstances s) (ROT_PeerID t) \<noteq> None"
    if "fmlookup (remoteOrgTrusts s) i = Some t" for i t
    using federation_wfD(2) [OF wf] that by (auto simp: org_trusts_ok_def)
  have key: "key_of_rot t = remoteOrgTrustKey o1 p h \<longleftrightarrow>
      TrimSpace (ROT_LocalOrgID t) = TrimSpace o1 \<and> ROT_PeerID t = TrimSpace p \<and>
      Normalize (ROT_RemoteOrgHandle t) = Normalize h"
    if "fmlookup (remoteOrgTrusts s) i = Some t" for i t
    unfolding key_of_rot_def
    using remoteOrgTrustKey_inject [OF t(1) [OF that] peer_plain(1) [OF wf t(2) [OF that]] plain]
      peer_plain(2) [OF wf t(2) [OF that]] by simp
  show ?thesis unfolding org_trust_index [OF wf] using key t(2) by metis
qed

theorem remote_trust_exact_witness: "HasActiveRemoteOrgTrust ''o1'' ''p1'' ''Other'' peer3"
proof -
  have plain: "plain (TrimSpace ''o1'')" "plain (TrimSpace ''p1'')" by code_simp+
  have "map_option (\<lambda>t. (TrimSpace (ROT_LocalOrgID t), ROT_PeerID t, Normalize (ROT_RemoteOrgHandle t)))
      (fmlookup (remoteOrgTrusts peer3) ''r1'') =
      Some (TrimSpace ''o1'', TrimSpace ''p1'', Normalize ''Other'')" by code_simp
  moreover have "fmlookup (peerInstances peer3) (TrimSpace ''p1'') \<noteq> None" by code_simp
  ultimately show ?thesis
    unfolding remote_trust_exact [OF peer_reached(1) plain] by blast
qed

section \<open>The end of a peering\<close>

text \<open>
  C25: deleting a peer cuts it off: afterwards no trust of any organisation or agent in it is
  active, the outbox holds nothing for it, and no base URL resolves to it.
\<close>

theorem deleted_peer_cut_off:
  assumes run: "hub_run (NewMemoryStore, []) (s, H)" and del: "DeletePeerInstance i now s = (Inr p, s')"
    and plain: "plain (TrimSpace o1)" "plain (TrimSpace u)"
  shows "fmlookup (peerInstances s') (TrimSpace i) = None \<and>
    \<not> HasActiveRemoteOrgTrust o1 i h s' \<and> \<not> HasActiveRemoteAgentTrust u i r s' \<and>
    (\<forall>j x. fmlookup (peerOutbounds s') j = Some x \<longrightarrow> Out_PeerID x \<noteq> TrimSpace i) \<and>
    (\<forall>b q. ResolvePeerByCanonicalBase b s' = Inr q \<longrightarrow> Peer_PeerID q \<noteq> TrimSpace i)"
proof -
  note wf = hub_federation [OF run]
  have wf': "federation_wf s'" using DeletePeerInstance_wf [OF wf, of i now] del by simp
  obtain q where q: "fmlookup (peerInstances s) (TrimSpace i) = Some q"
    "Peer_CanonicalBaseURL q = Peer_CanonicalBaseURL p"
    using del by (auto simp: DeletePeerInstance_def Let_def split: option.splits)
  note gone = DeletePeerInstance_ok [OF wf q(1), of now, unfolded del snd_conv]
  have i: "plain (TrimSpace i)" using peer_plain [OF wf] q(1) by (metis option.distinct(1))
  have none: "fmlookup (peerInstances s') (TrimSpace i) = None" by (simp add: gone(1))
  have org: "\<not> HasActiveRemoteOrgTrust o1 i h s'"
  proof
    assume "HasActiveRemoteOrgTrust o1 i h s'"
    then obtain j t where t: "fmlookup (remoteOrgTrusts s') j = Some t" "key_of_rot t = remoteOrgTrustKey o1 i h"
      unfolding org_trust_index [OF wf'] by blast
    have "plain (TrimSpace (ROT_LocalOrgID t))" "fmlookup (peerInstances s') (ROT_PeerID t) \<noteq> None"
      using federation_wfD(2) [OF wf'] t(1) by (auto simp: org_trusts_ok_def)
    with t(2) none show False
      using remoteOrgTrustKey_inject [of "ROT_LocalOrgID t" "ROT_PeerID t" o1 i] peer_plain [OF wf'] plain(1) i
      by (auto simp: key_of_rot_def)
  qed
  have agent: "\<not> HasActiveRemoteAgentTrust u i r s'"
  proof
    assume "HasActiveRemoteAgentTrust u i r s'"
    then obtain j t where t: "fmlookup (remoteAgentTrusts s') j = Some t" "key_of_rat t = remoteAgentTrustKey u i r"
      unfolding agent_trust_index [OF wf'] by blast
    have "plain (TrimSpace (RAT_LocalAgentUUID t))" "fmlookup (peerInstances s') (RAT_PeerID t) \<noteq> None"
      using federation_wfD(3) [OF wf'] t(1) by (auto simp: agent_trusts_ok_def)
    with t(2) none show False
      using remoteAgentTrustKey_inject [of "RAT_LocalAgentUUID t" "RAT_PeerID t" u i] peer_plain [OF wf'] plain(2) i
      by (auto simp: key_of_rat_def)
  qed
  have out: "Out_PeerID x \<noteq> TrimSpace i" if "fmlookup (peerOutbounds s') j = Some x" for j x
    using that by (auto simp: gone(7) split: option.splits if_splits)
  have base: "Peer_PeerID q \<noteq> TrimSpace i" if "ResolvePeerByCanonicalBase b s' = Inr q" for b q
    using that none peerD(1) [OF federation_wfD(1) [OF wf']]
    by (auto simp: ResolvePeerByCanonicalBase_def split: option.splits)
  show ?thesis using none org agent out base by blast
qed

theorem deleted_peer_cut_off_witness:
  "\<not> HasActiveRemoteOrgTrust ''o1'' ''p1'' ''other'' (snd (DeletePeerInstance ''p1'' 9 peer4))"
proof -
  have plain: "plain (TrimSpace ''o1'')" "plain (TrimSpace ''u1'')" by code_simp+
  have "fmlookup (peerInstances peer4) (TrimSpace ''p1'') \<noteq> None" by code_simp
  then obtain p where "DeletePeerInstance ''p1'' 9 peer4 = (Inr p, snd (DeletePeerInstance ''p1'' 9 peer4))"
    by (auto simp: DeletePeerInstance_def Let_def)
  from deleted_peer_cut_off [OF peer4_reached this plain] show ?thesis by blast
qed

section \<open>The outbox\<close>

text \<open>What may take an outbound message out of the outbox.\<close>

fun drops_outbound :: "string \<Rightarrow> string \<Rightarrow> control_op \<Rightarrow> bool" where
  "drops_outbound i p (FederationCommand (DoMarkPeerOutboundDelivered j t)) \<longleftrightarrow> TrimSpace j = i"
| "drops_outbound i p (FederationCommand (DoDeletePeerInstance q t)) \<longleftrightarrow> TrimSpace q = p"
| "drops_outbound i p _ \<longleftrightarrow> False"

definition awaits :: "memory_store \<Rightarrow> string \<Rightarrow> string \<Rightarrow> message \<Rightarrow> bool" where
  "awaits s i p m \<longleftrightarrow> (\<exists>x. fmlookup (peerOutbounds s) i = Some x \<and> Out_PeerID x = p \<and> Out_Message x = m \<and>
     Out_Status x = StatusPending)"

lemma awaits_part: "fed_part s' = fed_part s \<Longrightarrow> awaits s' i p m \<longleftrightarrow> awaits s i p m"
  by (simp add: fed_part_def awaits_def)

lemma awaits_federation:
  assumes wf: "federation_wf s" and a: "awaits s i p m" and fresh: "fresh_for_federation c s"
    and keep: "\<not> drops_outbound i p (FederationCommand c)" and run: "run_federation c s = Some s'"
  shows "awaits s' i p m"
proof -
  obtain x where x: "fmlookup (peerOutbounds s) i = Some x" "Out_PeerID x = p" "Out_Message x = m"
    "Out_Status x = StatusPending"
    using a by (auto simp: awaits_def)
  note ob = outboundD [OF federation_wfD(4) [OF wf]]
  show ?thesis
  proof (cases c)
    case (DoDeletePeerInstance q t)
    then have s': "s' = snd (DeletePeerInstance q t s)" using run by simp
    show ?thesis
    proof (cases "fmlookup (peerInstances s) (TrimSpace q)")
      case None
      then show ?thesis using a by (simp add: s' DeletePeerInstance_def)
    next
      case (Some r)
      from DeletePeerInstance_ok(7) [OF wf Some, of t] x keep show ?thesis
        unfolding DoDeletePeerInstance s' by (auto simp: awaits_def)
    qed
  next
    case (DoMarkPeerOutboundRetry j why at t)
    show ?thesis
    proof (cases "fmlookup (peerOutbounds s) (TrimSpace j)")
      case None
      then show ?thesis using a run DoMarkPeerOutboundRetry by (auto simp: MarkPeerOutboundRetry_def)
    next
      case (Some y)
      then have "Out_OutboundID y = TrimSpace j" using ob(1) by blast
      then show ?thesis
        using x run Some unfolding DoMarkPeerOutboundRetry awaits_def
        by (cases "i = TrimSpace j") (auto simp: MarkPeerOutboundRetry_def Let_def)
    qed
  next
    case (DoMarkPeerOutboundDelivered j t)
    then have s': "s' = snd (MarkPeerOutboundDelivered j t s)" and ne: "i \<noteq> TrimSpace j"
      using run keep by auto
    show ?thesis
    proof (cases "fmlookup (peerOutbounds s) (TrimSpace j)")
      case None
      then show ?thesis using a by (simp add: s' MarkPeerOutboundDelivered_def)
    next
      case (Some y)
      from MarkPeerOutboundDelivered_eq(2) [OF wf Some, of t] x ne show ?thesis
        by (simp add: awaits_def s')
    qed
  next
    case (DoEnqueuePeerOutbound q j n t)
    then have "j \<noteq> i" using fresh x(1) by auto
    then show ?thesis
      using x run DoEnqueuePeerOutbound by (auto simp: awaits_def EnqueuePeerOutbound_def Let_def)
  qed (use x run in \<open>auto simp: awaits_def CreatePeerInstance_def RecordPeerDeliverySuccess_def
      RecordPeerDeliveryFailure_def CreateRemoteOrgTrust_def DeleteRemoteOrgTrust_def
      CreateRemoteAgentTrust_def DeleteRemoteAgentTrust_def Let_def split: option.splits\<close>)
qed

lemma awaits_hub_do:
  assumes "hub_do l y z" and "control_wf (fst y)" and "awaits (fst y) i p m"
    and "\<And>c. l = Some c \<Longrightarrow> \<not> drops_outbound i p c"
  shows "awaits (fst z) i p m"
  using assms
proof (induction rule: hub_do.induct)
  case (control c s s' H)
  note run = control(1) and a = control(4) [unfolded fst_conv] and keep = control(5) [OF refl]
  show ?case
  proof (cases c)
    case (HumanCommand x)
    with run a awaits_part [OF run_human_parts(4)] show ?thesis by simp
  next
    case (OrgCommand x)
    with run a awaits_part [OF run_org_parts(2)] show ?thesis by simp
  next
    case (AgentCommand x)
    with run a awaits_part [OF run_agent_parts(3)] show ?thesis by simp
  next
    case (TrustCommand x)
    with run a awaits_part [OF run_trust_parts(4)] show ?thesis by simp
  next
    case (FederationCommand x)
    with control awaits_federation [OF control_wfD(5) a] keep show ?thesis by simp
  qed
next
  case (message s H s' H')
  with awaits_part [OF control_view_parts(5) [OF message(2)]] show ?case by simp
next
  case (abort m H t s s')
  with awaits_part [OF control_view_parts(5) [OF abort_view [OF abort(2)]]] show ?case by simp
qed simp

text \<open>
  C26: nothing falls out of the outbox: once a message for a peer was put there it stays
  pending, with the same message for the same peer, whatever happens in the hub, until this
  outbound is marked delivered or the peer is deleted.
\<close>

theorem outbound_not_lost:
  assumes "hub_run (NewMemoryStore, []) (s, H)"
    and "EnqueuePeerOutbound p i m now s = (Inr x, t)"
    and "hub_do (Some (FederationCommand (DoEnqueuePeerOutbound p i m now))) (s, H) (t, H)"
    and "(\<lambda>y z. \<exists>l. hub_do l y z \<and> (\<forall>c. l = Some c \<longrightarrow> \<not> drops_outbound i p c))\<^sup>*\<^sup>* (t, H) (t', H')"
  shows "\<exists>y. fmlookup (peerOutbounds t') i = Some y \<and> Out_PeerID y = p \<and> Out_Message y = m \<and>
    Out_Status y = StatusPending"
proof -
  have start: "control_wf (fst (t, H)) \<and> awaits (fst (t, H)) i p m"
    using hub_do_wf [OF assms(3)] hub_wf [OF assms(1)] assms(2)
    by (auto simp: awaits_def EnqueuePeerOutbound_def Let_def split: if_splits)
  have "control_wf (fst (t', H')) \<and> awaits (fst (t', H')) i p m"
    using assms(4)
  proof (induction rule: rtranclp_induct)
    case (step y z)
    then obtain l where l: "hub_do l y z" "\<And>c. l = Some c \<Longrightarrow> \<not> drops_outbound i p c" by blast
    from hub_do_wf [OF l(1)] awaits_hub_do [OF l(1) _ _ l(2)] step.IH show ?case by blast
  qed (rule start)
  then show ?thesis by (simp add: awaits_def)
qed

theorem outbound_not_lost_witness:
  "\<exists>y. fmlookup (peerOutbounds peer4) ''x1'' = Some y \<and> Out_PeerID y = ''p1'' \<and>
    Out_Message y = demo_message \<and> Out_Status y = StatusPending"
proof -
  have "fmlookup (peerInstances peer3) ''p1'' \<noteq> None" by code_simp
  then obtain x where "EnqueuePeerOutbound ''p1'' ''x1'' demo_message 4 peer3 = (Inr x, peer4)"
    by (simp add: peer4_def EnqueuePeerOutbound_def Let_def)
  from outbound_not_lost [OF peer_reached(1) this peer_reached(2) rtranclp.rtrancl_refl] show ?thesis .
qed

definition due_set :: "time \<Rightarrow> memory_store \<Rightarrow> peer_outbound set" where
  "due_set now s = {x. \<exists>i. fmlookup (peerOutbounds s) i = Some x \<and> Out_NextAttemptAt x \<le> now}"

lemma due_pool:
  fixes now
  assumes "federation_wf s"
  defines "pool \<equiv> filter (\<lambda>x. Out_Status x = StatusPending \<and> \<not> Out_NextAttemptAt x > now)
    (sorted_values (peerOutbounds s))"
  shows "set pool = due_set now s" "distinct pool"
proof -
  note ob = outboundD [OF federation_wfD(4) [OF assms(1)]]
  show "set pool = due_set now s"
    using ob(3) by (auto simp: pool_def due_set_def set_sorted_values fmlookup_ran'_iff)
  have "Out_OutboundID (the (fmlookup (peerOutbounds s) k)) = k" if "k |\<in>| fmdom (peerOutbounds s)" for k
    using that ob(1) [of k] by (cases "fmlookup (peerOutbounds s) k") (auto simp: fmlookup_dom_iff)
  then have "map Out_OutboundID (sorted_values (peerOutbounds s)) =
      sorted_list_of_fset (fmdom (peerOutbounds s))"
    by (auto simp: sorted_values_def sorted_list_of_fmap_def intro!: map_idI)
  then have "distinct (map Out_OutboundID (sorted_values (peerOutbounds s)))"
    by (simp add: sorted_list_of_fset.rep_eq)
  then have "distinct (sorted_values (peerOutbounds s))" by (simp add: distinct_map)
  then show "distinct pool" by (simp add: pool_def)
qed

lemma take_sorted:
  assumes "sorted_wrt R zs" and "x \<in> set zs" and "x \<notin> set (take n zs)" and "y \<in> set (take n zs)"
  shows "R y x"
proof -
  have "x \<in> set (drop n zs)" using assms(2,3) by (metis UnE append_take_drop_id set_append)
  moreover have "sorted_wrt R (take n zs @ drop n zs)" using assms(1) by simp
  ultimately show ?thesis using assms(4) unfolding sorted_wrt_append by blast
qed

text \<open>
  C27: the outbox worker gets what is due: at most the limit (32 when none is given), each
  pending, due and for a known peer, none twice, ordered by peer, time and identifier; and
  when something that is due is left out, the limit is reached and nothing that was taken
  comes after it.
\<close>

theorem due_outbounds:
  fixes now limit
  assumes run: "hub_run (NewMemoryStore, []) (s, H)"
  defines "xs \<equiv> ListDuePeerOutbounds now limit s" and "n \<equiv> (if limit \<le> 0 then 32 else nat limit)"
  shows "length xs \<le> n \<and> distinct xs \<and> sorted_wrt (\<lambda>a b. \<not> due_before b a) xs \<and>
    set xs \<subseteq> due_set now s \<and>
    (\<forall>x \<in> set xs. Out_Status x = StatusPending \<and> fmlookup (peerInstances s) (Out_PeerID x) \<noteq> None) \<and>
    (\<forall>x \<in> due_set now s - set xs. length xs = n \<and> (\<forall>y \<in> set xs. \<not> due_before x y))"
proof -
  note wf = hub_federation [OF run]
  let ?pool = "filter (\<lambda>x. Out_Status x = StatusPending \<and> \<not> Out_NextAttemptAt x > now)
    (sorted_values (peerOutbounds s))"
  have xs: "xs = take n (sort_by due_before ?pool)"
    by (simp add: xs_def ListDuePeerOutbounds_def n_def)
  note pool = due_pool [OF wf, of now] and sorted = due.sorted [of ?pool]
  have sub: "set xs \<subseteq> due_set now s"
    using set_take_subset [of n "sort_by due_before ?pool"] pool(1) by (auto simp: xs)
  have known: "Out_Status x = StatusPending \<and> fmlookup (peerInstances s) (Out_PeerID x) \<noteq> None"
    if "x \<in> set xs" for x
    using that sub outboundD(3,4) [OF federation_wfD(4) [OF wf]] by (auto simp: due_set_def)
  have left_out: "length xs = n \<and> (\<forall>y \<in> set xs. \<not> due_before x y)" if x: "x \<in> due_set now s - set xs" for x
  proof -
    have mem: "x \<in> set (sort_by due_before ?pool)" "x \<notin> set (take n (sort_by due_before ?pool))"
      using x pool(1) by (simp_all add: xs)
    have "n < length (sort_by due_before ?pool)"
    proof (rule ccontr)
      assume "\<not> n < length (sort_by due_before ?pool)"
      then have "take n (sort_by due_before ?pool) = sort_by due_before ?pool" by (intro take_all) simp
      with mem show False by simp
    qed
    then have "length xs = n" unfolding xs by simp
    with take_sorted [OF sorted mem] show ?thesis unfolding xs by blast
  qed
  have "sorted_wrt (\<lambda>a b. \<not> due_before b a) xs"
    unfolding xs using sorted by (rule sorted_wrt_take)
  moreover have "distinct xs" unfolding xs using pool(2) by simp
  moreover have "length xs \<le> n" unfolding xs by simp
  ultimately show ?thesis using sub known left_out by blast
qed

theorem due_outbounds_witness: "length (ListDuePeerOutbounds 4 0 peer4) \<le> 32"
  using due_outbounds [OF peer4_reached, of 4 0] by simp

end
