(* ===== verification/Waiters.thy ===== *)
theory Waiters
  imports Queue
begin

text \<open>
  The long-poll waiters of \<^verbatim>\<open>internal/longpoll/waiters.go\<close>.  A channel is a number; its buffer
  of one holds a token or not.  Channels are never reused, as \<^verbatim>\<open>make\<close> returns a new one.
\<close>

section \<open>The code\<close>

record waiters =
  w_byAgent :: "(string, nat fset) fmap"
  w_full :: "nat fset"
  w_next :: nat

definition NewWaiters :: waiters where
  "NewWaiters = \<lparr>w_byAgent = fmempty, w_full = {||}, w_next = 0\<rparr>"

definition channels_of :: "string \<Rightarrow> waiters \<Rightarrow> nat fset" where
  "channels_of u w = (case fmlookup (w_byAgent w) u of None \<Rightarrow> {||} | Some chs \<Rightarrow> chs)"

definition Register :: "string \<Rightarrow> waiters \<Rightarrow> nat \<times> waiters" where
  "Register agentID w =
     (let ch = w_next w in
      (ch, w\<lparr>w_next := ch + 1,
             w_byAgent := fmupd agentID (finsert ch (channels_of agentID w)) (w_byAgent w)\<rparr>))"

text \<open>The function that \<^verbatim>\<open>Register\<close> returns for taking the channel off again.\<close>

definition cancel_waiter :: "string \<Rightarrow> nat \<Rightarrow> waiters \<Rightarrow> waiters" where
  "cancel_waiter agentID ch w =
     (case fmlookup (w_byAgent w) agentID of
        None \<Rightarrow> w
      | Some chs \<Rightarrow>
          let chs = chs |-| {|ch|} in
          if chs = {||} then w\<lparr>w_byAgent := fmdrop agentID (w_byAgent w)\<rparr>
          else w\<lparr>w_byAgent := fmupd agentID chs (w_byAgent w)\<rparr>)"

text \<open>A send to a channel whose buffer is full is skipped: the token is there already.\<close>

definition Notify :: "string \<Rightarrow> waiters \<Rightarrow> waiters" where
  "Notify agentID w = w\<lparr>w_full := w_full w |\<union>| channels_of agentID w\<rparr>"

text \<open>The receive in the \<^verbatim>\<open>select\<close> of a waiting request; nothing when it would block.\<close>

definition receive :: "nat \<Rightarrow> waiters \<Rightarrow> waiters option" where
  "receive ch w = (if ch |\<in>| w_full w then Some (w\<lparr>w_full := w_full w |-| {|ch|}\<rparr>) else None)"

section \<open>What the operations do to the channels\<close>

lemma channels_new [simp]: "channels_of u NewWaiters = {||}"
  by (simp add: channels_of_def NewWaiters_def)

lemma channels_register:
  assumes "Register v w = (ch, w')"
  shows "channels_of u w' = (if u = v then finsert ch (channels_of u w) else channels_of u w)"
    "ch = w_next w" "w_next w' = Suc ch" "w_full w' = w_full w"
  using assms by (auto simp: Register_def channels_of_def Let_def)

lemma channels_cancel [simp]:
  "channels_of u (cancel_waiter v ch w) = (if u = v then channels_of u w |-| {|ch|} else channels_of u w)"
  "w_full (cancel_waiter v ch w) = w_full w" "w_next (cancel_waiter v ch w) = w_next w"
  by (auto simp: cancel_waiter_def channels_of_def Let_def split: option.split)

lemma channels_notify [simp]:
  "channels_of u (Notify v w) = channels_of u w"
  "w_full (Notify v w) = w_full w |\<union>| channels_of v w" "w_next (Notify v w) = w_next w"
  by (simp_all add: Notify_def channels_of_def)

lemma channels_receive:
  assumes "receive ch w = Some w'"
  shows "channels_of u w' = channels_of u w" "w_full w' = w_full w |-| {|ch|}" "w_next w' = w_next w"
    "ch |\<in>| w_full w"
  using assms by (auto simp: receive_def channels_of_def split: if_splits)

end
