(* ===== verification/LongPoll.thy ===== *)
theory LongPoll
  imports Waiters MessageSafety
begin

text \<open>
  The long poll: any number of requests in the loop of \<^verbatim>\<open>pullForAgent\<close>
  (\<^verbatim>\<open>internal/api/handlers_messages.go\<close>), interleaved with requests that enqueue a message and
  then notify.  No wake-up is lost.
\<close>

section \<open>Requests that wait\<close>

text \<open>
  Where a pulling request is in its loop: before the first look into the queue, after it was
  empty, registered and about to look again, waiting in the \<^verbatim>\<open>select\<close>, or holding a message.
\<close>

datatype pull_phase = Looking | Empty | Registered nat | Waiting nat | Got message

record poll_state =
  ps_store :: memory_store
  ps_waiters :: waiters
  ps_pulls :: "nat \<Rightarrow> (string \<times> pull_phase) option"
  ps_pending :: "string list"
  ps_quiet :: "string set"

text \<open>
  \<open>ps_pending\<close> lists the agents for which a request has enqueued a message and not yet called
  \<^verbatim>\<open>Notify\<close>; \<open>ps_quiet\<close> the agents to whose queue \<^verbatim>\<open>claimMessageForAgent\<close> returned a message
  without a \<^verbatim>\<open>Notify\<close>, because the lease failed, until the next one.  The flag of a step says whether it is the timer (or the end of the
  client's request) that brings it about.
\<close>

inductive poll_step :: "bool \<Rightarrow> poll_state \<Rightarrow> poll_state \<Rightarrow> bool" where
  arrive: "ps_pulls x t = None \<Longrightarrow> poll_step False x (x\<lparr>ps_pulls := (ps_pulls x)(t \<mapsto> (u, Looking))\<rparr>)"
| look_hit: "ps_pulls x t = Some (u, Looking) \<Longrightarrow> Dequeue u (ps_store x) = (Some m, s') \<Longrightarrow>
    poll_step False x (x\<lparr>ps_store := s', ps_pulls := (ps_pulls x)(t \<mapsto> (u, Got m))\<rparr>)"
| look_miss: "ps_pulls x t = Some (u, Looking) \<Longrightarrow> Dequeue u (ps_store x) = (None, s') \<Longrightarrow>
    poll_step False x (x\<lparr>ps_store := s', ps_pulls := (ps_pulls x)(t \<mapsto> (u, Empty))\<rparr>)"
| register: "ps_pulls x t = Some (u, Empty) \<Longrightarrow> Register u (ps_waiters x) = (ch, w') \<Longrightarrow>
    poll_step False x (x\<lparr>ps_waiters := w', ps_pulls := (ps_pulls x)(t \<mapsto> (u, Registered ch))\<rparr>)"
| again_hit: "ps_pulls x t = Some (u, Registered ch) \<Longrightarrow> Dequeue u (ps_store x) = (Some m, s') \<Longrightarrow>
    poll_step False x (x\<lparr>ps_store := s', ps_waiters := cancel_waiter u ch (ps_waiters x),
      ps_pulls := (ps_pulls x)(t \<mapsto> (u, Got m))\<rparr>)"
| again_miss: "ps_pulls x t = Some (u, Registered ch) \<Longrightarrow> Dequeue u (ps_store x) = (None, s') \<Longrightarrow>
    poll_step False x (x\<lparr>ps_store := s', ps_pulls := (ps_pulls x)(t \<mapsto> (u, Waiting ch))\<rparr>)"
| wake: "ps_pulls x t = Some (u, Waiting ch) \<Longrightarrow> receive ch (ps_waiters x) = Some w' \<Longrightarrow>
    poll_step False x (x\<lparr>ps_waiters := cancel_waiter u ch w', ps_pulls := (ps_pulls x)(t \<mapsto> (u, Looking))\<rparr>)"
| recheck: "ps_pulls x t = Some (u, Waiting ch) \<Longrightarrow>
    poll_step True x (x\<lparr>ps_waiters := cancel_waiter u ch (ps_waiters x),
      ps_pulls := (ps_pulls x)(t \<mapsto> (u, Looking))\<rparr>)"
| give_up: "ps_pulls x t = Some (u, Waiting ch) \<Longrightarrow>
    poll_step True x (x\<lparr>ps_waiters := cancel_waiter u ch (ps_waiters x), ps_pulls := (ps_pulls x)(t := None)\<rparr>)"
| leave: "ps_pulls x t = Some (u, Empty) \<or> ps_pulls x t = Some (u, Got m) \<Longrightarrow>
    poll_step False x (x\<lparr>ps_pulls := (ps_pulls x)(t := None)\<rparr>)"
| enqueue: "Enqueue m (ps_store x) = (Inr (), s') \<Longrightarrow>
    poll_step False x (x\<lparr>ps_store := s', ps_pending := mto m # ps_pending x\<rparr>)"
| enqueue_quietly: "Enqueue m (ps_store x) = (Inr (), s') \<Longrightarrow>
    poll_step False x (x\<lparr>ps_store := s', ps_quiet := insert (mto m) (ps_quiet x)\<rparr>)"
| notify: "u \<in> set (ps_pending x) \<Longrightarrow>
    poll_step False x (x\<lparr>ps_waiters := Notify u (ps_waiters x), ps_pending := remove1 u (ps_pending x),
      ps_quiet := ps_quiet x - {u}\<rparr>)"
| elsewhere: "(\<And>u. queue_of s' u = [] \<or> queue_of s' u = queue_of (ps_store x) u \<or>
      (\<exists>p. queue_of s' u = filter p (queue_of (ps_store x) u))) \<Longrightarrow>
    poll_step False x (x\<lparr>ps_store := s'\<rparr>)"

definition poll_start :: "memory_store \<Rightarrow> poll_state" where
  "poll_start s = \<lparr>ps_store = s, ps_waiters = NewWaiters, ps_pulls = (\<lambda>_. None), ps_pending = [],
     ps_quiet = {}\<rparr>"

section \<open>The invariant\<close>

definition holds_channel :: "poll_state \<Rightarrow> nat \<Rightarrow> string \<Rightarrow> nat \<Rightarrow> bool" where
  "holds_channel x t u ch \<longleftrightarrow> ps_pulls x t = Some (u, Registered ch) \<or> ps_pulls x t = Some (u, Waiting ch)"

definition channels_ok :: "poll_state \<Rightarrow> bool" where
  "channels_ok x \<longleftrightarrow>
     (\<forall>t u ch. holds_channel x t u ch \<longrightarrow> ch |\<in>| channels_of u (ps_waiters x) \<and> ch < w_next (ps_waiters x)) \<and>
     (\<forall>t t' u u' ch. holds_channel x t u ch \<longrightarrow> holds_channel x t' u' ch \<longrightarrow> t = t')"

definition woken :: "poll_state \<Rightarrow> bool" where
  "woken x \<longleftrightarrow> (\<forall>t u ch. ps_pulls x t = Some (u, Waiting ch) \<longrightarrow> queue_of (ps_store x) u \<noteq> [] \<longrightarrow>
     ch |\<in>| w_full (ps_waiters x) \<or> u \<in> set (ps_pending x) \<or> u \<in> ps_quiet x)"


lemma dequeue_queue:
  assumes "Dequeue u s = (r, s')"
  shows "r = Some m \<Longrightarrow> \<exists>rest. queue_of s u = m # rest \<and> queue_of s' = (queue_of s)(u := rest)"
    "r = None \<Longrightarrow> queue_of s u = [] \<and> queue_of s' = queue_of s"
    "r = (case queue_of s u of [] \<Rightarrow> None | m # _ \<Rightarrow> Some m)"
proof -
  have "(case queue_of s u of [] \<Rightarrow> r = None \<and> queue_of s' = queue_of s
    | m # ms \<Rightarrow> r = Some m \<and> queue_of s' = (queue_of s)(u := ms))"
    using mq.deq_empty [of s u] mq.deq_cons [of s u] assms by (auto split: list.split)
  then show "r = Some m \<Longrightarrow> \<exists>rest. queue_of s u = m # rest \<and> queue_of s' = (queue_of s)(u := rest)"
    "r = None \<Longrightarrow> queue_of s u = [] \<and> queue_of s' = queue_of s"
    "r = (case queue_of s u of [] \<Rightarrow> None | m # _ \<Rightarrow> Some m)"
    by (auto split: list.splits)
qed

lemma enqueue_queue:
  assumes "Enqueue m s = (Inr (), s')" and "v \<noteq> mto m"
  shows "queue_of s' v = queue_of s v"
proof (cases "routeOf s (mto m)")
  case None
  from mq.enq_err [OF None] assms(1) show ?thesis by simp
next
  case (Some a)
  from mq.enq_ok [OF Some] assms show ?thesis by simp
qed


text \<open>Every operation on the waiters keeps the channels that the waiting requests hold.\<close>

lemma channels_start: "channels_ok (poll_start s)"
  by (simp add: channels_ok_def holds_channel_def poll_start_def)

lemma channels_okD:
  assumes "channels_ok x"
  shows "holds_channel x t u ch \<Longrightarrow> ch |\<in>| channels_of u (ps_waiters x)"
    "holds_channel x t u ch \<Longrightarrow> ch < w_next (ps_waiters x)"
    "holds_channel x t u ch \<Longrightarrow> holds_channel x t' u' ch \<Longrightarrow> t = t'"
  using assms unfolding channels_ok_def by blast+

text \<open>
  The three ways a step changes them: it leaves them alone, request \<open>t\<close> lets its own go, or
  request \<open>t\<close> gets a new one.
\<close>

lemma channels_ok_less:
  assumes "channels_ok x"
    and "\<And>t u ch. holds_channel y t u ch \<Longrightarrow> holds_channel x t u ch \<and>
      (ch |\<in>| channels_of u (ps_waiters x) \<longrightarrow> ch |\<in>| channels_of u (ps_waiters y))"
    and "w_next (ps_waiters y) = w_next (ps_waiters x)"
  shows "channels_ok y"
  using assms(2) channels_okD [OF assms(1)] unfolding channels_ok_def assms(3) by metis

lemma channels_ok_cancel:
  assumes "channels_ok x" and "holds_channel x t u ch"
    and "\<And>t' u' ch'. holds_channel y t' u' ch' \<Longrightarrow> holds_channel x t' u' ch' \<and> t' \<noteq> t"
    and "\<And>v. channels_of v (ps_waiters y) = (if v = u then channels_of v (ps_waiters x) |-| {|ch|}
      else channels_of v (ps_waiters x))"
    and "w_next (ps_waiters y) = w_next (ps_waiters x)"
  shows "channels_ok y"
proof (rule channels_ok_less [OF assms(1) _ assms(5)])
  fix t' u' ch'
  assume y: "holds_channel y t' u' ch'"
  with assms(3) have x: "holds_channel x t' u' ch'" "t' \<noteq> t" by blast+
  then have "ch' \<noteq> ch" using channels_okD(3) [OF assms(1) _ assms(2)] by blast
  with x show "holds_channel x t' u' ch' \<and>
      (ch' |\<in>| channels_of u' (ps_waiters x) \<longrightarrow> ch' |\<in>| channels_of u' (ps_waiters y))"
    by (simp add: assms(4))
qed

lemma channels_ok_register:
  assumes "channels_ok x" and "Register u (ps_waiters x) = (ch, w')" and "ps_pulls x t = Some (u, Empty)"
  shows "channels_ok (x\<lparr>ps_waiters := w', ps_pulls := (ps_pulls x)(t \<mapsto> (u, Registered ch))\<rparr>)"
    (is "channels_ok ?y")
proof -
  note ch = channels_register [OF assms(2)]
  have old: "holds_channel ?y t' v c \<Longrightarrow> (t' = t \<and> v = u \<and> c = ch) \<or> (t' \<noteq> t \<and> holds_channel x t' v c \<and> c < ch)"
    for t' v c
    using channels_okD(2) [OF assms(1), of t' v c] by (auto simp: holds_channel_def ch(2) split: if_splits)
  show ?thesis
    unfolding channels_ok_def
  proof (intro conjI allI impI)
    fix t' v c assume "holds_channel ?y t' v c"
    with old [OF this] channels_okD(1,2) [OF assms(1), of t' v c]
    show "c |\<in>| channels_of v (ps_waiters ?y)" "c < w_next (ps_waiters ?y)"
      by (auto simp: ch(1,3))
  next
    fix t' t'' v v' c assume "holds_channel ?y t' v c" "holds_channel ?y t'' v' c"
    from old [OF this(1)] old [OF this(2)] channels_okD(3) [OF assms(1), of t' v c t'' v']
    show "t' = t''" by auto
  qed
qed

lemmas poll_simps = holds_channel_def fun_upd_def

lemma channels_step:
  assumes "poll_step b x y" and ok: "channels_ok x"
  shows "channels_ok y"
  using assms(1)
proof cases
  case (register t u ch w')
  with channels_ok_register [OF ok] show ?thesis by blast
next
  case (wake t u ch w')
  with channels_receive [OF wake(4)] show ?thesis
    by (intro channels_ok_cancel [OF ok, of t u ch]) (auto simp: poll_simps split: if_splits)
next
  case (again_hit t u ch m s')
  then show ?thesis
    by (intro channels_ok_cancel [OF ok, of t u ch]) (auto simp: poll_simps split: if_splits)
next
  case (recheck t u ch)
  then show ?thesis
    by (intro channels_ok_cancel [OF ok, of t u ch]) (auto simp: poll_simps split: if_splits)
next
  case (give_up t u ch)
  then show ?thesis
    by (intro channels_ok_cancel [OF ok, of t u ch]) (auto simp: poll_simps split: if_splits)
qed (intro channels_ok_less [OF ok]; auto simp: poll_simps split: if_splits)+

section \<open>No wake-up is lost\<close>

lemma woken_start: "woken (poll_start s)"
  by (simp add: woken_def poll_start_def)

lemma wokenD:
  "woken x \<Longrightarrow> ps_pulls x t = Some (u, Waiting ch) \<Longrightarrow> queue_of (ps_store x) u \<noteq> [] \<Longrightarrow>
    ch |\<in>| w_full (ps_waiters x) \<or> u \<in> set (ps_pending x) \<or> u \<in> ps_quiet x"
  unfolding woken_def by blast


text \<open>
  A step that leaves the waiters' tokens and the pending notifications alone has to leave alone
  or shorten the queues of those who wait.
\<close>

lemma woken_less:
  assumes "woken x"
    and "\<And>t u ch. ps_pulls y t = Some (u, Waiting ch) \<Longrightarrow> queue_of (ps_store y) u \<noteq> [] \<Longrightarrow>
      ps_pulls x t = Some (u, Waiting ch) \<and> queue_of (ps_store x) u \<noteq> [] \<and>
      (ch |\<in>| w_full (ps_waiters x) \<longrightarrow> ch |\<in>| w_full (ps_waiters y)) \<and>
      (u \<in> set (ps_pending x) \<longrightarrow> u \<in> set (ps_pending y)) \<and> (u \<in> ps_quiet x \<longrightarrow> u \<in> ps_quiet y)"
  shows "woken y"
  unfolding woken_def
proof (intro allI impI)
  fix t u ch assume "ps_pulls y t = Some (u, Waiting ch)" "queue_of (ps_store y) u \<noteq> []"
  from assms(2) [OF this] wokenD [OF assms(1), of t u ch]
  show "ch |\<in>| w_full (ps_waiters y) \<or> u \<in> set (ps_pending y) \<or> u \<in> ps_quiet y" by blast
qed

lemma woken_step:
  assumes "poll_step b x y" and w: "woken x" and ok: "channels_ok x"
  shows "woken y"
  using assms(1)
proof cases
  case (look_hit t u m s')
  with dequeue_queue(1) [OF look_hit(4), of m] show ?thesis
    by (intro woken_less [OF w]) (auto split: if_splits)
next
  case (look_miss t u s')
  with dequeue_queue(2) [OF look_miss(4)] show ?thesis
    by (intro woken_less [OF w]) (auto split: if_splits)
next
  case (again_hit t u ch m s')
  with dequeue_queue(1) [OF again_hit(4), of m] show ?thesis
    by (intro woken_less [OF w]) (auto split: if_splits)
next
  case (again_miss t u ch s')
  with dequeue_queue(2) [OF again_miss(4)] show ?thesis
    by (intro woken_less [OF w]) (auto split: if_splits)
next
  case (register t u ch w')
  with channels_register(4) [OF register(4)] show ?thesis
    by (intro woken_less [OF w]) (auto split: if_splits)
next
  case (wake t u ch w')
  note full = channels_receive(2) [OF wake(4)]
  have "ch' \<noteq> ch" if "t' \<noteq> t" "ps_pulls x t' = Some (v, Waiting ch')" for t' v ch'
    using channels_okD(3) [OF ok, of t' v ch' t u] that wake(3) by (auto simp: holds_channel_def)
  with wake(2) full show ?thesis
    by (intro woken_less [OF w]) (auto split: if_splits)
next
  case (enqueue m s')
  with enqueue_queue [OF enqueue(3)] wokenD [OF w] show ?thesis
    unfolding woken_def by simp metis
next
  case (enqueue_quietly m s')
  with enqueue_queue [OF enqueue_quietly(3)] wokenD [OF w] show ?thesis
    unfolding woken_def by simp metis
next
  case (notify u)
  have "ch |\<in>| channels_of v (ps_waiters x)" if "ps_pulls x t = Some (v, Waiting ch)" for t v ch
    using channels_okD(1) [OF ok, of t v ch] that by (auto simp: holds_channel_def)
  with notify(2) show ?thesis
    using wokenD [OF w] unfolding woken_def by simp (metis in_set_remove1)
next
  case (elsewhere s')
  then show ?thesis
    by (intro woken_less [OF w]) (fastforce split: if_splits)
qed (intro woken_less [OF w]; auto split: if_splits)+

definition poll_any :: "poll_state \<Rightarrow> poll_state \<Rightarrow> bool" where
  "poll_any x y \<longleftrightarrow> (\<exists>b. poll_step b x y)"

lemma poll_invariant:
  assumes "poll_any\<^sup>*\<^sup>* (poll_start s) x"
  shows "channels_ok x \<and> woken x"
  using assms
proof induction
  case base
  show ?case by (simp add: channels_start woken_start)
next
  case (step y z)
  then show ?case by (auto simp: poll_any_def intro: channels_step woken_step)
qed


section \<open>The property\<close>

lemma answered_without_timer:
  assumes "channels_ok x" "woken x" and p: "ps_pulls x t = Some (u, Waiting ch)"
    and q: "queue_of (ps_store x) u = m # rest" and "u \<notin> ps_quiet x"
  shows "\<exists>y. (poll_step False)\<^sup>*\<^sup>* x y \<and> ps_pulls y t = Some (u, Got m)"
proof -
  have "\<exists>x'. (poll_step False)\<^sup>*\<^sup>* x x' \<and> ps_pulls x' = ps_pulls x \<and> ps_store x' = ps_store x \<and>
    ch |\<in>| w_full (ps_waiters x')"
  proof (cases "ch |\<in>| w_full (ps_waiters x)")
    case True
    then show ?thesis by blast
  next
    case False
    with assms wokenD [OF assms(2) p] have u: "u \<in> set (ps_pending x)" by simp
    have "ch |\<in>| channels_of u (ps_waiters x)"
      using channels_okD(1) [OF assms(1), of t u ch] p by (simp add: holds_channel_def)
    with r_into_rtranclp [of "poll_step False", OF poll_step.notify [OF u]] show ?thesis
      by (intro exI [of _ "x\<lparr>ps_waiters := Notify u (ps_waiters x), ps_pending := remove1 u (ps_pending x),
            ps_quiet := ps_quiet x - {u}\<rparr>"])
        simp
  qed
  then obtain x' where x': "(poll_step False)\<^sup>*\<^sup>* x x'" "ps_pulls x' = ps_pulls x" "ps_store x' = ps_store x"
    "ch |\<in>| w_full (ps_waiters x')"
    by blast
  obtain w' where w': "receive ch (ps_waiters x') = Some w'"
    using x'(4) by (simp add: receive_def)
  obtain s' where s': "Dequeue u (ps_store x) = (Some m, s')"
    using mq.deq_cons [OF q] by (metis prod.collapse)
  define y where "y = x'\<lparr>ps_waiters := cancel_waiter u ch w', ps_pulls := (ps_pulls x')(t \<mapsto> (u, Looking))\<rparr>"
  have "poll_step False x' y"
    unfolding y_def using x'(2) p w' by (intro poll_step.wake) simp_all
  moreover have "poll_step False y (y\<lparr>ps_store := s', ps_pulls := (ps_pulls y)(t \<mapsto> (u, Got m))\<rparr>)"
    using s' by (intro poll_step.look_hit) (simp_all add: y_def x'(3))
  ultimately have "(poll_step False)\<^sup>*\<^sup>* x (y\<lparr>ps_store := s', ps_pulls := (ps_pulls y)(t \<mapsto> (u, Got m))\<rparr>)"
    using x'(1) by (blast intro: rtranclp.rtrancl_into_rtrancl)
  moreover have "ps_pulls (y\<lparr>ps_store := s', ps_pulls := (ps_pulls y)(t \<mapsto> (u, Got m))\<rparr>) t = Some (u, Got m)"
    by simp
  ultimately show ?thesis by blast
qed


text \<open>
  C17: no wake-up of a long poll is lost.  Whatever pulling and publishing requests have done, in
  whatever interleaving, a request that waits for agent \<open>u\<close> while there are messages in the
  queue of \<open>u\<close> gets the first of them without its timer: a publishing request is about to
  notify it, or its channel has a token.  The exception is a queue to which a claim whose lease had
  failed has returned a message, which it does without a notification, until the next one.
\<close>

theorem no_lost_wakeup:
  assumes "poll_any\<^sup>*\<^sup>* (poll_start s) x" and "ps_pulls x t = Some (u, Waiting ch)"
    and "queue_of (ps_store x) u = m # rest" and "u \<notin> ps_quiet x"
  shows "(u \<in> set (ps_pending x) \<or> receive ch (ps_waiters x) \<noteq> None) \<and>
    (\<exists>y. (poll_step False)\<^sup>*\<^sup>* x y \<and> ps_pulls y t = Some (u, Got m))"
proof -
  note ok = poll_invariant [OF assms(1)]
  have "ch |\<in>| w_full (ps_waiters x) \<or> u \<in> set (ps_pending x)"
    using wokenD [of x t u ch] ok assms(2-4) by simp
  moreover have "\<exists>y. (poll_step False)\<^sup>*\<^sup>* x y \<and> ps_pulls y t = Some (u, Got m)"
    using answered_without_timer [OF _ _ assms(2-4)] ok by blast
  ultimately show ?thesis by (auto simp: receive_def)
qed


text \<open>A request waits, another one publishes and has not notified yet.\<close>

definition poll_demo :: poll_state where
  "poll_demo = \<lparr>ps_store = demo_queued, ps_waiters = snd (Register ''a2'' NewWaiters),
     ps_pulls = [0 \<mapsto> (''a2'', Waiting 0)], ps_pending = [''a2''], ps_quiet = {}\<rparr>"

lemma poll_demo_reached: "poll_any\<^sup>*\<^sup>* (poll_start demo_published) poll_demo"
proof -
  let ?x = "poll_start demo_published"
  have empty: "Dequeue ''a2'' demo_published = (None, demo_published)"
    "queue_of demo_published = (\<lambda>_. [])"
    by (simp_all add: demo_published_eq Dequeue_def queue_of_def demo_start_def NewMemoryStore_def
        fun_eq_iff)
  let ?y = "\<lambda>w p. ?x\<lparr>ps_waiters := w, ps_pulls := [0 \<mapsto> (''a2'', p)]\<rparr>"
  let ?w = "snd (Register ''a2'' NewWaiters)"
  have w: "Register ''a2'' NewWaiters = (0, ?w)" by (simp add: Register_def NewWaiters_def Let_def)
  have 1: "poll_any ?x (?y NewWaiters Looking)"
    using poll_step.arrive [of ?x 0 "''a2''"] unfolding poll_any_def poll_start_def by auto
  have 2: "poll_any (?y NewWaiters Looking) (?y NewWaiters Empty)"
    using poll_step.look_miss [of "?y NewWaiters Looking" 0 "''a2''" demo_published] empty
    unfolding poll_any_def poll_start_def by auto
  have 3: "poll_any (?y NewWaiters Empty) (?y ?w (Registered 0))"
    using poll_step.register [of "?y NewWaiters Empty" 0 "''a2''" 0 ?w] w
    unfolding poll_any_def poll_start_def by auto
  have 4: "poll_any (?y ?w (Registered 0)) (?y ?w (Waiting 0))"
    using poll_step.again_miss [of "?y ?w (Registered 0)" 0 "''a2''" 0 demo_published] empty
    unfolding poll_any_def poll_start_def by auto
  have 5: "poll_any (?y ?w (Waiting 0)) poll_demo"
    using poll_step.enqueue [of demo_message "?y ?w (Waiting 0)" demo_queued] demo_queued
    unfolding poll_any_def poll_start_def poll_demo_def by (auto simp: demo_message_def empty)
  from 1 2 3 4 5 show ?thesis
    by (meson converse_rtranclp_into_rtranclp rtranclp.rtrancl_refl)
qed

theorem no_lost_wakeup_witness:
  "\<exists>y. (poll_step False)\<^sup>*\<^sup>* poll_demo y \<and> ps_pulls y 0 = Some (''a2'', Got demo_message)"
proof -
  have "ps_pulls poll_demo 0 = Some (''a2'', Waiting 0)" "ps_quiet poll_demo = {}"
    "queue_of (ps_store poll_demo) ''a2'' = demo_message # []"
    by (simp_all add: poll_demo_def queue_of_def demo_queued_eq)
  with no_lost_wakeup [OF poll_demo_reached, of 0 "''a2''" 0 demo_message "[]"] show ?thesis by simp
qed

end
