(* ===== verification/GoURL.thy ===== *)
theory GoURL
  imports Prelude
begin

text \<open>
  What the program uses of \<^verbatim>\<open>net/url\<close>, \<^verbatim>\<open>path\<close> and a few more functions of \<^verbatim>\<open>strings\<close>, on byte
  strings: escaping and unescaping, parsing and printing of URLs, cleaning of paths.
\<close>

section \<open>Strings\<close>

definition HasPrefix :: "string \<Rightarrow> string \<Rightarrow> bool" where
  "HasPrefix s p = (take (length p) s = p)"

definition HasSuffix :: "string \<Rightarrow> string \<Rightarrow> bool" where
  "HasSuffix s p = HasPrefix (rev s) (rev p)"

definition TrimPrefix :: "string \<Rightarrow> string \<Rightarrow> string" where
  "TrimPrefix s p = (if HasPrefix s p then drop (length p) s else s)"

definition TrimSuffix :: "string \<Rightarrow> string \<Rightarrow> string" where
  "TrimSuffix s p = (if HasSuffix s p then take (length s - length p) s else s)"

text \<open>\<^verbatim>\<open>strings.Trim\<close> and \<^verbatim>\<open>strings.TrimRight\<close> with a cutset.\<close>

definition Trim :: "string \<Rightarrow> string \<Rightarrow> string" where
  "Trim s cutset = trim_by (\<lambda>c. c \<in> set cutset) s"

definition TrimRight :: "string \<Rightarrow> string \<Rightarrow> string" where
  "TrimRight s cutset = rev (dropWhile (\<lambda>c. c \<in> set cutset) (rev s))"

text \<open>\<^verbatim>\<open>strings.Cut\<close> at a byte: what is before it, what is after it, and whether it is there.\<close>

definition Cut :: "string \<Rightarrow> char \<Rightarrow> string \<times> string \<times> bool" where
  "Cut s c = (takeWhile (\<lambda>x. x \<noteq> c) s, tl (dropWhile (\<lambda>x. x \<noteq> c) s), c \<in> set s)"

text \<open>The parts before and after the last occurrence of a byte.\<close>

definition CutLast :: "string \<Rightarrow> char \<Rightarrow> string \<times> string \<times> bool" where
  "CutLast s c = (let (b, a, ok) = Cut (rev s) c in (rev a, rev b, ok))"

definition Fields :: "string \<Rightarrow> string list" where
  "Fields s = FieldsFunc is_space s"

definition upper_char :: "char \<Rightarrow> char" where
  "upper_char c = (if is_lower c then char_of (of_char c - 32 :: nat) else c)"

definition ToUpper :: "string \<Rightarrow> string" where
  "ToUpper s = map upper_char s"

section \<open>Hexadecimal digits\<close>

definition hex_upper :: "nat \<Rightarrow> char" where
  "hex_upper n = (if n < 10 then char_of (48 + n) else char_of (55 + n))"

definition hex_lower :: "nat \<Rightarrow> char" where
  "hex_lower n = (if n < 10 then char_of (48 + n) else char_of (87 + n))"

definition is_hex :: "char \<Rightarrow> bool" where
  "is_hex c \<longleftrightarrow> is_digit c \<or> (CHR ''a'' \<le> c \<and> c \<le> CHR ''f'') \<or> (CHR ''A'' \<le> c \<and> c \<le> CHR ''F'')"

definition unhex :: "char \<Rightarrow> nat" where
  "unhex c = (if is_digit c then of_char c - 48
     else if CHR ''a'' \<le> c \<and> c \<le> CHR ''f'' then of_char c - 87 else of_char c - 55)"

section \<open>Escaping\<close>

datatype encoding = encodePath | encodePathSegment | encodeHost | encodeZone | encodeUserPassword
  | encodeQueryComponent | encodeFragment

definition shouldEscape :: "encoding \<Rightarrow> char \<Rightarrow> bool" where
  "shouldEscape mode c =
     (if is_lower c \<or> is_upper c \<or> is_digit c then False
      else if mode \<in> {encodeHost, encodeZone} \<and> c \<in> set ''!$&()*+,;=:[]<>'' \<union> {CHR 0x22, CHR 0x27} then False
      else if c \<in> set ''-_.~'' then False
      else if c \<in> set ''$&+,/:;=?@'' then
        (case mode of
           encodePath \<Rightarrow> c = CHR ''?''
         | encodePathSegment \<Rightarrow> c \<in> set ''/;,?''
         | encodeUserPassword \<Rightarrow> c \<in> set ''@/?:''
         | encodeQueryComponent \<Rightarrow> True
         | encodeFragment \<Rightarrow> False
         | _ \<Rightarrow> True)
      else if mode = encodeFragment \<and> c \<in> set ''!()*'' then False
      else True)"

definition percent :: "char \<Rightarrow> string" where
  "percent c = [CHR ''%'', hex_upper (of_char c div 16), hex_upper (of_char c mod 16)]"

definition escape_char :: "encoding \<Rightarrow> char \<Rightarrow> string" where
  "escape_char mode c =
     (if shouldEscape mode c then
        (if c = CHR '' '' \<and> mode = encodeQueryComponent then ''+'' else percent c)
      else [c])"

definition escape :: "encoding \<Rightarrow> string \<Rightarrow> string" where
  "escape mode s = concat (map (escape_char mode) s)"

text \<open>\<^verbatim>\<open>unescape\<close>: nothing for an \<^verbatim>\<open>EscapeError\<close> or an \<^verbatim>\<open>InvalidHostError\<close>.\<close>

fun unescape :: "encoding \<Rightarrow> string \<Rightarrow> string option" where
  "unescape mode [] = Some []"
| "unescape mode (c # s) =
     (if c = CHR ''%'' then
        (case s of
           a # b # r \<Rightarrow>
             if \<not> is_hex a \<or> \<not> is_hex b then None
             else if mode = encodeHost \<and> unhex a < 8 \<and> \<not> (a = CHR ''2'' \<and> b = CHR ''5'') then None
             else if mode = encodeZone \<and> \<not> (a = CHR ''2'' \<and> b = CHR ''5'') \<and>
                 char_of (unhex a * 16 + unhex b) \<noteq> CHR '' '' \<and>
                 shouldEscape encodeHost (char_of (unhex a * 16 + unhex b)) then None
             else map_option (\<lambda>t. char_of (unhex a * 16 + unhex b) # t) (unescape mode r)
         | _ \<Rightarrow> None)
      else if c = CHR ''+'' \<and> mode = encodeQueryComponent then
        map_option (\<lambda>t. CHR '' '' # t) (unescape mode s)
      else if mode \<in> {encodeHost, encodeZone} \<and> of_char c < (128 :: nat) \<and> shouldEscape mode c then None
      else map_option (\<lambda>t. c # t) (unescape mode s))"

definition PathEscape :: "string \<Rightarrow> string" where
  "PathEscape s = escape encodePathSegment s"

definition PathUnescape :: "string \<Rightarrow> string option" where
  "PathUnescape s = unescape encodePathSegment s"

definition QueryEscape :: "string \<Rightarrow> string" where
  "QueryEscape s = escape encodeQueryComponent s"

section \<open>URLs\<close>

record url =
  url_Scheme :: string
  url_Opaque :: string
  url_User :: "(string \<times> string option) option"
  url_Host :: string
  url_Path :: string
  url_RawPath :: string
  url_OmitHost :: bool
  url_ForceQuery :: bool
  url_RawQuery :: string
  url_Fragment :: string

definition empty_url :: url where
  "empty_url = \<lparr>url_Scheme = [], url_Opaque = [], url_User = None, url_Host = [], url_Path = [],
     url_RawPath = [], url_OmitHost = False, url_ForceQuery = False, url_RawQuery = [],
     url_Fragment = []\<rparr>"

text \<open>The scheme and the rest; nothing for a missing protocol scheme.\<close>

fun get_scheme :: "string \<Rightarrow> string \<Rightarrow> string \<Rightarrow> (string \<times> string) option" where
  "get_scheme raw acc [] = Some ([], raw)"
| "get_scheme raw acc (c # s) =
     (if is_lower c \<or> is_upper c then get_scheme raw (c # acc) s
      else if is_digit c \<or> c \<in> set ''+-.'' then
        (if acc = [] then Some ([], raw) else get_scheme raw (c # acc) s)
      else if c = CHR '':'' then (if acc = [] then None else Some (rev acc, s))
      else Some ([], raw))"

definition validOptionalPort :: "string \<Rightarrow> bool" where
  "validOptionalPort port = (port = [] \<or> hd port = CHR '':'' \<and> list_all is_digit (tl port))"

text \<open>The position of the zone of an IPv6 literal, the first \<^verbatim>\<open>%25\<close>.\<close>

fun cut_zone :: "string \<Rightarrow> (string \<times> string) option" where
  "cut_zone [] = None"
| "cut_zone (c # s) =
     (if HasPrefix (c # s) ''%25'' then Some ([], c # s)
      else map_option (\<lambda>(a, b). (c # a, b)) (cut_zone s))"

definition parseHost :: "string \<Rightarrow> string option" where
  "parseHost host =
     (if HasPrefix host ''['' then
        (let (h0, port, closed) = CutLast host (CHR '']'') in
         if \<not> closed then None
         else if \<not> validOptionalPort port then None
         else case cut_zone h0 of
           Some (h1, zone) \<Rightarrow>
             (case (unescape encodeHost h1, unescape encodeZone zone,
                 unescape encodeHost (CHR '']'' # port)) of
                (Some a, Some b, Some c) \<Rightarrow> Some (a @ b @ c)
              | _ \<Rightarrow> None)
         | None \<Rightarrow> unescape encodeHost host)
      else let (h0, port, colon) = CutLast host (CHR '':'') in
        if colon \<and> \<not> validOptionalPort (CHR '':'' # port) then None
        else unescape encodeHost host)"

definition validUserinfo :: "string \<Rightarrow> bool" where
  "validUserinfo s = list_all (\<lambda>c. is_lower c \<or> is_upper c \<or> is_digit c \<or>
     c \<in> set ''-._:~!$&()*+,;=%@'' \<union> {CHR 0x27}) s"

definition parseAuthority :: "string \<Rightarrow> ((string \<times> string option) option \<times> string) option" where
  "parseAuthority authority =
     (let (userinfo, h, at) = CutLast authority (CHR ''@'') in
      if \<not> at then map_option (\<lambda>host. (None, host)) (parseHost authority)
      else case parseHost h of
        None \<Rightarrow> None
      | Some host \<Rightarrow>
          if \<not> validUserinfo userinfo then None
          else let (name, password, colon) = Cut userinfo (CHR '':'') in
            if \<not> colon then
              map_option (\<lambda>u. (Some (u, None), host)) (unescape encodeUserPassword userinfo)
            else case (unescape encodeUserPassword name, unescape encodeUserPassword password) of
                (Some n, Some p) \<Rightarrow> Some (Some (n, Some p), host)
              | _ \<Rightarrow> None)"

definition setPath :: "string \<Rightarrow> url \<Rightarrow> url option" where
  "setPath p u =
     (case unescape encodePath p of
        None \<Rightarrow> None
      | Some path \<Rightarrow> Some (u\<lparr>url_Path := path,
          url_RawPath := (if p = escape encodePath path then [] else p)\<rparr>))"

definition parse_rest :: "string \<Rightarrow> string \<Rightarrow> url option" where
  "parse_rest scheme rest0 =
     (let force = HasSuffix rest0 ''?'' \<and> length (filter (\<lambda>c. c = CHR ''?'') rest0) = 1;
          (rest1, query, _) = Cut rest0 (CHR ''?'');
          rest = (if force then butlast rest0 else rest1);
          u = empty_url\<lparr>url_Scheme := scheme, url_ForceQuery := force,
            url_RawQuery := (if force then [] else query)\<rparr> in
      if \<not> HasPrefix rest ''/'' \<and> scheme \<noteq> [] then Some (u\<lparr>url_Opaque := rest\<rparr>)
      else if \<not> HasPrefix rest ''/'' \<and> CHR '':'' \<in> set (fst (Cut rest (CHR ''/''))) then None
      else if (scheme \<noteq> [] \<or> \<not> HasPrefix rest ''///'') \<and> HasPrefix rest ''//'' then
        (let authority = takeWhile (\<lambda>c. c \<noteq> CHR ''/'') (drop 2 rest);
             path = dropWhile (\<lambda>c. c \<noteq> CHR ''/'') (drop 2 rest) in
         case parseAuthority authority of
           None \<Rightarrow> None
         | Some (user, host) \<Rightarrow> setPath path (u\<lparr>url_User := user, url_Host := host\<rparr>))
      else setPath rest (u\<lparr>url_OmitHost := (scheme \<noteq> [] \<and> HasPrefix rest ''/'')\<rparr>))"

definition ParseURL :: "string \<Rightarrow> url option" where
  "ParseURL raw =
     (let (u, frag, _) = Cut raw (CHR ''#'') in
      if list_ex (\<lambda>c. of_char c < (32 :: nat) \<or> of_char c = (127 :: nat)) u then None
      else
        (case (if u = ''*'' then Some (empty_url\<lparr>url_Path := ''*''\<rparr>)
               else case get_scheme u [] u of
                 None \<Rightarrow> None
               | Some (scheme, rest) \<Rightarrow> parse_rest (ToLower scheme) rest) of
           None \<Rightarrow> None
         | Some parsed \<Rightarrow>
             map_option (\<lambda>f. parsed\<lparr>url_Fragment := f\<rparr>) (unescape encodeFragment frag)))"

text \<open>
  \<^verbatim>\<open>EscapedPath\<close>: the path as it was written when that is a valid encoding of it, otherwise
  the path escaped.
\<close>

definition validEncoded :: "string \<Rightarrow> bool" where
  "validEncoded s = list_all (\<lambda>c. c \<in> set ''!$&()*+,;=:@[]%'' \<union> {CHR 0x27} \<or> \<not> shouldEscape encodePath c) s"

definition EscapedPath :: "url \<Rightarrow> string" where
  "EscapedPath u =
     (if url_RawPath u \<noteq> [] \<and> validEncoded (url_RawPath u) \<and>
         unescape encodePath (url_RawPath u) = Some (url_Path u) then url_RawPath u
      else if url_Path u = ''*'' then ''*'' else escape encodePath (url_Path u))"

definition user_string :: "string \<times> string option \<Rightarrow> string" where
  "user_string ui =
     escape encodeUserPassword (fst ui) @
     (case snd ui of None \<Rightarrow> [] | Some p \<Rightarrow> CHR '':'' # escape encodeUserPassword p)"

definition url_authority :: "url \<Rightarrow> string" where
  "url_authority u =
     (if url_Scheme u = [] \<and> url_Host u = [] \<and> url_User u = None then []
      else if url_OmitHost u \<and> url_Host u = [] \<and> url_User u = None then []
      else (if url_Host u \<noteq> [] \<or> url_Path u \<noteq> [] \<or> url_User u \<noteq> None then ''//'' else []) @
        (case url_User u of None \<Rightarrow> [] | Some ui \<Rightarrow> user_string ui @ ''@'') @
        escape encodeHost (url_Host u))"

text \<open>
  \<^verbatim>\<open>URL.String\<close>.  The fragment is printed escaped; how it was written is not kept, and no
  caller prints a URL that has one.
\<close>

definition url_String :: "url \<Rightarrow> string" where
  "url_String u =
     (let front = (if url_Scheme u \<noteq> [] then url_Scheme u @ '':'' else []);
          path = EscapedPath u in
      (if url_Opaque u \<noteq> [] then front @ url_Opaque u
       else let front = front @ url_authority u;
                front = (if path \<noteq> [] \<and> hd path \<noteq> CHR ''/'' \<and> url_Host u \<noteq> [] then front @ ''/'' else front);
                front = (if front = [] \<and> CHR '':'' \<in> set (fst (Cut path (CHR ''/''))) then ''./'' else front)
            in front @ path) @
      (if url_ForceQuery u \<or> url_RawQuery u \<noteq> [] then CHR ''?'' # url_RawQuery u else []) @
      (if url_Fragment u \<noteq> [] then CHR ''#'' # escape encodeFragment (url_Fragment u) else []))"

section \<open>Paths\<close>

text \<open>\<^verbatim>\<open>path.Clean\<close> of a rooted path, and \<^verbatim>\<open>path.Join\<close> where the first element is rooted.\<close>

definition clean_step :: "string list \<Rightarrow> string \<Rightarrow> string list" where
  "clean_step acc p = (if p = [] \<or> p = ''.'' then acc else if p = ''..'' then tl acc else p # acc)"

definition CleanRooted :: "string \<Rightarrow> string" where
  "CleanRooted s = CHR ''/'' # join_with ''/'' (rev (foldl clean_step [] (split_on (CHR ''/'') s)))"

definition JoinRooted :: "string list \<Rightarrow> string" where
  "JoinRooted parts = CleanRooted (join_with ''/'' (filter (\<lambda>p. p \<noteq> []) parts))"

section \<open>Escaping and unescaping\<close>

lemma hex_upper_props:
  assumes "n < 16"
  shows "is_hex (hex_upper n)" "unhex (hex_upper n) = n"
proof -
  have "n \<in> set [0..<16]" using assms by simp
  then have "is_hex (hex_upper n) \<and> unhex (hex_upper n) = n"
    by (simp add: upt_conv_Cons del: upt_Suc) (elim disjE; simp; code_simp)
  then show "is_hex (hex_upper n)" "unhex (hex_upper n) = n" by simp_all
qed

lemma byte_parts:
  fixes c :: char
  shows "of_char c div 16 < (16 :: nat)" "char_of (of_char c div 16 * 16 + of_char c mod 16 :: nat) = c"
proof -
  have "of_char c < (256 :: nat)" by (rule nat_of_char_less_256)
  then show "of_char c div 16 < (16 :: nat)" by (simp only: less_mult_imp_div_less)
  show "char_of (of_char c div 16 * 16 + of_char c mod 16 :: nat) = c"
    by (simp only: div_mult_mod_eq char_of_char)
qed

lemma unescape_percent:
  "mode \<notin> {encodeHost, encodeZone} \<Longrightarrow> unescape mode (percent c @ s) = map_option ((#) c) (unescape mode s)"
  using byte_parts [of c] hex_upper_props [of "of_char c div 16"] hex_upper_props [of "of_char c mod 16"]
  by (simp add: percent_def)

lemma shouldEscape_special:
  "shouldEscape mode (CHR ''%'')" "mode = encodeQueryComponent \<Longrightarrow> shouldEscape mode (CHR ''+'')"
  by (simp_all add: shouldEscape_def is_lower_def is_upper_def is_digit_def less_eq_char_def)

text \<open>What is escaped is read back, whatever the bytes.\<close>

lemma unescape_escape_append:
  assumes "mode \<notin> {encodeHost, encodeZone}"
  shows "unescape mode (escape mode s @ t) = map_option ((@) s) (unescape mode t)"
proof (induction s)
  case Nil
  then show ?case by (simp add: escape_def option.map_ident)
next
  case (Cons c s)
  have "unescape mode (escape_char mode c @ r) = map_option ((#) c) (unescape mode r)" for r
    using assms unescape_percent [OF assms, of c r] shouldEscape_special [of mode]
    by (auto simp: escape_char_def)
  with Cons show ?case by (simp add: escape_def option.map_comp comp_def)
qed

lemma unescape_escape: "mode \<notin> {encodeHost, encodeZone} \<Longrightarrow> unescape mode (escape mode s) = Some s"
  using unescape_escape_append [of mode s "[]"] by simp

lemma escape_id: "list_all (\<lambda>c. \<not> shouldEscape mode c) s \<Longrightarrow> escape mode s = s"
  by (induction s) (simp_all add: escape_def escape_char_def)

lemma unescape_id:
  "list_all (\<lambda>c. \<not> shouldEscape mode c) s \<Longrightarrow> mode \<notin> {encodeHost, encodeZone} \<Longrightarrow> unescape mode s = Some s"
  by (metis escape_id unescape_escape)

text \<open>The bytes of an escaped text.\<close>

lemma hex_upper_chars: "n < 16 \<Longrightarrow> hex_upper n \<in> set ''0123456789ABCDEF''"
proof -
  assume "n < 16"
  then have "n \<in> set [0..<16]" by simp
  then show ?thesis by (simp add: upt_conv_Cons del: upt_Suc) (elim disjE; simp; code_simp)
qed

lemma escape_chars:
  assumes "c \<in> set (escape mode s)"
  shows "c \<in> set ''0123456789ABCDEF%'' \<or> (c = CHR ''+'' \<and> mode = encodeQueryComponent) \<or> \<not> shouldEscape mode c"
proof -
  from assms obtain x where "c \<in> set (escape_char mode x)" by (auto simp: escape_def)
  with hex_upper_chars [OF byte_parts(1), of x] hex_upper_chars [of "of_char x mod 16"]
  show ?thesis by (auto simp: escape_char_def percent_def split: if_splits)
qed

text \<open>Escaping a path segment loses nothing.\<close>

lemma path_escape_roundtrip:
  "PathUnescape (PathEscape s) = Some s \<and> CHR ''/'' \<notin> set (PathEscape s)"
proof
  show "PathUnescape (PathEscape s) = Some s"
    by (simp add: PathUnescape_def PathEscape_def unescape_escape)
  have "shouldEscape encodePathSegment (CHR ''/'')"
    by (simp add: shouldEscape_def is_lower_def is_upper_def is_digit_def less_eq_char_def)
  then show "CHR ''/'' \<notin> set (PathEscape s)"
    using escape_chars [of "CHR ''/''" encodePathSegment s] by (auto simp: PathEscape_def)
qed

lemma PathEscape_inject [simp]: "PathEscape s = PathEscape t \<longleftrightarrow> s = t"
  by (metis PathEscape_def encoding.distinct insertE option.inject singletonD unescape_escape)

section \<open>Prefixes, cuts and parts\<close>

lemma HasPrefix_Cons [simp]: "HasPrefix (c # s) (d # p) \<longleftrightarrow> c = d \<and> HasPrefix s p"
  by (simp add: HasPrefix_def)

lemma HasPrefix_Nil [simp]: "HasPrefix s []"
  by (simp add: HasPrefix_def)

lemma not_HasSuffix: "c \<notin> set s \<Longrightarrow> \<not> HasSuffix s [c]"
  by (cases s rule: rev_cases) (auto simp: HasSuffix_def HasPrefix_def)

lemma Cut_none: "c \<notin> set s \<Longrightarrow> Cut s c = (s, [], False)"
  by (induction s) (auto simp: Cut_def)

lemma Cut_at: "c \<notin> set s \<Longrightarrow> Cut (s @ c # t) c = (s, t, True)"
  by (induction s) (auto simp: Cut_def)

lemma join_split: "join_with [c] (split_on c s) = s"
proof (induction s)
  case Nil
  show ?case by (simp add: split_on_def)
next
  case (Cons x s)
  obtain q qs where q: "split_on c s = q # qs" unfolding split_on_def using split_by_ne by (metis neq_Nil_conv)
  show ?case
  proof (cases "x = c")
    case True
    then have "split_on c (x # s) = [] # q # qs" using q by (simp add: split_on_def)
    then show ?thesis using Cons q True by simp
  next
    case False
    then have "split_on c (x # s) = (x # q) # qs" using q by (simp add: split_on_def)
    then show ?thesis using Cons q by (cases qs) auto
  qed
qed

end
