(* ===== verification/ErrorSanitize.thy ===== *)
theory ErrorSanitize
  imports GoURL
begin

text \<open>
  \<^verbatim>\<open>internal/store/error_sanitize.go\<close>: what of an error's text is shown to clients and operators,
  for texts in ASCII.  The patterns of the source are sequences of literals, classes,
  repetitions of a class, word boundaries and one group; \<open>find_group\<close> is
  \<^verbatim>\<open>regexp.FindStringSubmatch\<close> for them, with the leftmost match and greedy repetitions.
\<close>

section \<open>Patterns\<close>

datatype re_item = Lit char | Cls "char \<Rightarrow> bool" | Many "char \<Rightarrow> bool" | Boundary | Open | Close

definition is_letter :: "char \<Rightarrow> bool" where
  "is_letter c \<longleftrightarrow> is_lower c \<or> is_upper c"

definition is_word :: "char \<Rightarrow> bool" where
  "is_word c \<longleftrightarrow> is_letter c \<or> is_digit c \<or> c = CHR ''_''"

text \<open>The class \<^verbatim>\<open>\s\<close> of regexp has no vertical tab.\<close>

definition re_space :: "char \<Rightarrow> bool" where
  "re_space c \<longleftrightarrow> c \<in> {CHR 0x09, CHR 0x0A, CHR 0x0C, CHR 0x0D, CHR '' ''}"

definition at_boundary :: "char option \<Rightarrow> string \<Rightarrow> bool" where
  "at_boundary prev s \<longleftrightarrow>
     (case prev of None \<Rightarrow> False | Some c \<Rightarrow> is_word c) \<noteq> (s \<noteq> [] \<and> is_word (hd s))"

text \<open>
  A match of the items at the front of a text: the text of the group.  \<open>cap\<close> is what the open
  group has collected, in reverse; \<open>got\<close> the closed one.
\<close>

function match_items ::
  "re_item list \<Rightarrow> char option \<Rightarrow> string \<Rightarrow> string option \<Rightarrow> string \<Rightarrow> string option" where
  "match_items [] prev s cap got = Some got"
| "match_items (Lit x # its) prev s cap got =
     (case s of
        [] \<Rightarrow> None
      | c # r \<Rightarrow> if lower_char c = lower_char x
          then match_items its (Some c) r (map_option ((#) c) cap) got else None)"
| "match_items (Cls p # its) prev s cap got =
     (case s of
        [] \<Rightarrow> None
      | c # r \<Rightarrow> if p c then match_items its (Some c) r (map_option ((#) c) cap) got else None)"
| "match_items (Many p # its) prev s cap got =
     (case s of
        [] \<Rightarrow> match_items its prev s cap got
      | c # r \<Rightarrow>
          if p c then
            (case match_items (Many p # its) (Some c) r (map_option ((#) c) cap) got of
               Some g \<Rightarrow> Some g
             | None \<Rightarrow> match_items its prev s cap got)
          else match_items its prev s cap got)"
| "match_items (Boundary # its) prev s cap got =
     (if at_boundary prev s then match_items its prev s cap got else None)"
| "match_items (Open # its) prev s cap got = match_items its prev s (Some []) got"
| "match_items (Close # its) prev s cap got =
     match_items its prev s None (case cap of None \<Rightarrow> [] | Some c \<Rightarrow> rev c)"
  by pat_completeness auto

termination
  by (relation "measure (\<lambda>(its, _, s, _, _). length its + length s)") auto

fun find_from :: "re_item list \<Rightarrow> char option \<Rightarrow> string \<Rightarrow> string option" where
  "find_from its prev [] = match_items its prev [] None []"
| "find_from its prev (c # s) =
     (case match_items its prev (c # s) None [] of
        Some g \<Rightarrow> Some g
      | None \<Rightarrow> find_from its (Some c) s)"

definition find_group :: "re_item list \<Rightarrow> string \<Rightarrow> string option" where
  "find_group its s = find_from its None s"

definition lits :: "string \<Rightarrow> re_item list" where
  "lits s = map Lit s"

abbreviation "DQ \<equiv> CHR 0x22"
abbreviation "SQ \<equiv> CHR 0x27"

definition tag_char :: "char \<Rightarrow> bool" where
  "tag_char c \<longleftrightarrow> c \<noteq> CHR ''<'' \<and> \<not> re_space c"

definition id_char :: "char \<Rightarrow> bool" where
  "id_char c \<longleftrightarrow> is_letter c \<or> is_digit c \<or> c \<in> set ''._:-''"

definition statusCodePattern :: "re_item list" where
  "statusCodePattern = Boundary # lits ''status'' @ [Cls re_space, Many re_space, Open,
     Cls is_digit, Cls is_digit, Cls is_digit, Close, Boundary]"

definition xmlCodePattern :: "re_item list" where
  "xmlCodePattern = lits ''<Code>'' @ [Many re_space, Open, Cls tag_char, Many tag_char, Close,
     Many re_space] @ lits ''</Code>''"

definition json_value :: "re_item list" where
  "json_value = [Many re_space, Lit (CHR '':''), Many re_space, Lit DQ, Open,
     Cls (\<lambda>c. c \<noteq> DQ), Many (\<lambda>c. c \<noteq> DQ), Close, Lit DQ]"

definition jsonCodePattern :: "re_item list" where
  "jsonCodePattern = Lit DQ # lits ''code'' @ Lit DQ # json_value"

definition xmlRequestIDPattern :: "re_item list" where
  "xmlRequestIDPattern = lits ''<RequestId>'' @ [Many re_space, Open, Cls tag_char, Many tag_char,
     Close, Many re_space] @ lits ''</RequestId>''"

text \<open>The optional separator of \<^verbatim>\<open>request[_-]?id\<close> gives two patterns, tried at each place in turn.\<close>

fun find_either_from :: "re_item list \<Rightarrow> re_item list \<Rightarrow> char option \<Rightarrow> string \<Rightarrow> string option" where
  "find_either_from p q prev [] =
     (case match_items p prev [] None [] of Some g \<Rightarrow> Some g | None \<Rightarrow> match_items q prev [] None [])"
| "find_either_from p q prev (c # s) =
     (case match_items p prev (c # s) None [] of
        Some g \<Rightarrow> Some g
      | None \<Rightarrow>
          (case match_items q prev (c # s) None [] of
             Some g \<Rightarrow> Some g
           | None \<Rightarrow> find_either_from p q (Some c) s))"

definition jsonRequestIDPattern :: "re_item list \<Rightarrow> re_item list" where
  "jsonRequestIDPattern sep = Lit DQ # lits ''request'' @ sep @ lits ''id'' @ Lit DQ # json_value"

definition loose_value :: "re_item list" where
  "loose_value = [Boundary, Cls (\<lambda>c. c \<in> set '':= ''), Many (\<lambda>c. c \<in> set '':= ''), Open,
     Cls id_char, Many id_char, Close]"

definition looseRequestIDPattern :: "re_item list \<Rightarrow> re_item list" where
  "looseRequestIDPattern sep = Boundary # lits ''request'' @ sep @ lits ''id'' @ loose_value"

definition jsonCFRayPattern :: "re_item list" where
  "jsonCFRayPattern = Lit DQ # lits ''cf-ray'' @ Lit DQ # json_value"

definition looseCFRayPattern :: "re_item list" where
  "looseCFRayPattern = Boundary # lits ''cf-ray'' @ loose_value"

definition find_optional :: "(re_item list \<Rightarrow> re_item list) \<Rightarrow> string \<Rightarrow> string \<Rightarrow> string option" where
  "find_optional p seps s = find_either_from (p [Cls (\<lambda>c. c \<in> set seps)]) (p []) None s"

section \<open>The sanitizer\<close>

definition compactErrorText :: "string \<Rightarrow> string" where
  "compactErrorText text = join_with '' '' (Fields (TrimSpace text))"

definition SanitizeErrorText :: "string \<Rightarrow> string" where
  "SanitizeErrorText text =
     (let msg = compactErrorText text; lower = ToLower msg; has = str_contains lower in
      if msg = [] then []
      else if has ''context canceled'' \<or> has ''request canceled'' then ''request canceled''
      else if has ''deadline exceeded'' \<or> has ''timed out'' \<or> has ''timeout'' then ''request timed out''
      else if has ''status 401'' \<or> has ''status 403'' \<or> has ''authorization'' \<or> has ''signature''
        then ''authorization failed''
      else if has ''connection refused'' \<or> has ''no such host'' \<or> has ''network is unreachable'' \<or>
        has ''dial tcp'' \<or> has ''connection reset'' then ''connection failed''
      else if has ''status 404'' then ''resource not found''
      else if has ''status '' \<or> str_contains msg [CHR 0x0A] \<or> str_contains msg ''http://'' \<or>
        str_contains msg ''https://'' \<or> str_contains msg ''<'' \<or> length msg > 160
        then ''request failed''
      else msg)"

definition value_char :: "char \<Rightarrow> bool" where
  "value_char c \<longleftrightarrow> is_letter c \<or> is_digit c \<or> c \<in> set ''._:-''"

definition sanitizeDiagnosticValue :: "string \<Rightarrow> string" where
  "sanitizeDiagnosticValue raw =
     (let v = Trim (Trim (TrimSpace raw) [DQ, SQ]) ''.,;'' in
      if v = [] \<or> length v > 120 then []
      else if list_all value_char v then v else [])"

definition sanitizeDiagnosticCode :: "string \<Rightarrow> string" where
  "sanitizeDiagnosticCode raw =
     (let v = sanitizeDiagnosticValue raw in
      if v = [] \<or> str_contains v ''_'' then []
      else if list_ex is_upper v then v else [])"

text \<open>The first pattern whose group survives the sanitizer \<open>f\<close>.\<close>

fun first_match :: "(string \<Rightarrow> string) \<Rightarrow> string option list \<Rightarrow> string" where
  "first_match f [] = []"
| "first_match f (m # ms) =
     (case m of None \<Rightarrow> first_match f ms | Some g \<Rightarrow> if f g \<noteq> [] then f g else first_match f ms)"

definition firstMatch :: "string option list \<Rightarrow> string" where
  "firstMatch matches = first_match sanitizeDiagnosticValue matches"

definition firstSanitizedCode :: "string option list \<Rightarrow> string" where
  "firstSanitizedCode matches = first_match sanitizeDiagnosticCode matches"

definition SanitizeErrorDetailText :: "string \<Rightarrow> string" where
  "SanitizeErrorDetailText text =
     (let msg = compactErrorText text;
          part = (\<lambda>name v. if v = [] then [] else [name @ v]) in
      if msg = [] then []
      else join_with '', ''
        (part ''status='' (firstMatch [find_group statusCodePattern msg]) @
         part ''s3_code='' (firstSanitizedCode
           [find_group xmlCodePattern msg, find_group jsonCodePattern msg]) @
         part ''request_id='' (firstMatch
           [find_optional jsonRequestIDPattern ''_-'' msg, find_group xmlRequestIDPattern msg,
            find_optional looseRequestIDPattern ''_ -'' msg]) @
         part ''cf_ray='' (firstMatch [find_group jsonCFRayPattern msg, find_group looseCFRayPattern msg])))"

definition SanitizeErrorTextWithDetail :: "string \<Rightarrow> string" where
  "SanitizeErrorTextWithDetail text =
     (let summary = SanitizeErrorText text; detail = SanitizeErrorDetailText text in
      if summary = [] then [] else if detail = [] then summary
      else summary @ '' ('' @ detail @ '')'')"

text \<open>
  An error value: whether it is, or wraps, \<^verbatim>\<open>context.Canceled\<close> or \<^verbatim>\<open>context.DeadlineExceeded\<close>,
  whether it is a network error that calls itself temporary or a timeout, and its text.
\<close>

record go_error =
  err_canceled :: bool
  err_deadline :: bool
  err_temporary :: bool
  err_text :: string

definition SanitizeError :: "go_error option \<Rightarrow> string" where
  "SanitizeError err =
     (case err of
        None \<Rightarrow> []
      | Some e \<Rightarrow>
          if err_canceled e then ''request canceled''
          else if err_deadline e then ''request timed out''
          else SanitizeErrorText (err_text e))"

definition SanitizeErrorWithDetail :: "go_error option \<Rightarrow> string" where
  "SanitizeErrorWithDetail err =
     (case err of
        None \<Rightarrow> []
      | Some e \<Rightarrow>
          if err_canceled e then ''request canceled''
          else if err_deadline e then ''request timed out''
          else SanitizeErrorTextWithDetail (err_text e))"


section \<open>What is shown\<close>

lemma str_contains_sublist: "str_contains s sub \<longleftrightarrow> sublist sub s"
  by (induction s sub rule: str_contains.induct) (auto simp: sublist_Cons_right)

lemma sublist_around:
  assumes "c \<notin> set sub"
  shows "sublist sub (xs @ c # ys) \<longleftrightarrow> sublist sub xs \<or> sublist sub ys"
proof
  assume "sublist sub (xs @ c # ys)"
  then obtain a b where e: "xs @ c # ys = a @ sub @ b" by (auto simp: sublist_def)
  show "sublist sub xs \<or> sublist sub ys"
  proof (cases "length (a @ sub) \<le> length xs")
    case True
    with e have "prefix (a @ sub) xs"
      by (metis append.assoc prefixI prefix_length_prefix)
    then show ?thesis by (auto simp: prefix_def)
  next
    case False
    have "length xs < length a"
    proof (rule ccontr)
      assume "\<not> length xs < length a"
      with False have "(a @ sub @ b) ! length xs \<in> set sub"
        by (auto simp: nth_append)
      with e assms show False by (metis nth_append_length)
    qed
    then have "drop (Suc (length xs)) (xs @ c # ys) = drop (Suc (length xs)) a @ sub @ b"
      by (simp add: e)
    then have "ys = drop (Suc (length xs)) a @ sub @ b" by simp
    then show ?thesis by blast
  qed
next
  assume "sublist sub xs \<or> sublist sub ys"
  then show "sublist sub (xs @ c # ys)"
    by (metis append_Cons append_Nil sublist_append sublist_appendI sublist_order.order.trans
        append.assoc)
qed

text \<open>The texts that may be shown: short, in one line, without markup and without a URL.\<close>

definition showable :: "string \<Rightarrow> bool" where
  "showable s \<longleftrightarrow> CHR ''<'' \<notin> set s \<and> CHR 0x0A \<notin> set s \<and>
     \<not> sublist ''http://'' s \<and> \<not> sublist ''https://'' s"

lemma showable_around: "showable xs \<Longrightarrow> showable ys \<Longrightarrow> showable (xs @ CHR '' '' # ys)"
  by (simp add: showable_def sublist_around)

lemma showable_no_slash: "CHR ''/'' \<notin> set s \<Longrightarrow> CHR ''<'' \<notin> set s \<Longrightarrow> CHR 0x0A \<notin> set s \<Longrightarrow> showable s"
  unfolding showable_def using set_mono_sublist by fastforce

lemma if_cases: "(c \<Longrightarrow> P x) \<Longrightarrow> (\<not> c \<Longrightarrow> P y) \<Longrightarrow> P (if c then x else y)"
  by simp

lemma SanitizeErrorText_shown:
  "showable (SanitizeErrorText text) \<and> length (SanitizeErrorText text) \<le> 160"
proof -
  define msg where "msg = compactErrorText text"
  define P where "P s \<longleftrightarrow> showable s \<and> length s \<le> 160" for s
  have fixed: "P []" "P ''request canceled''" "P ''request timed out''" "P ''authorization failed''"
    "P ''connection failed''" "P ''resource not found''" "P ''request failed''"
    by (auto simp: P_def intro!: showable_no_slash)
  have other: "P msg" if "\<not> (str_contains (ToLower msg) ''status '' \<or> str_contains msg [CHR 0x0A] \<or>
      str_contains msg ''http://'' \<or> str_contains msg ''https://'' \<or> str_contains msg ''<'' \<or>
      length msg > 160)"
    using that by (auto simp: str_contains_sublist showable_def P_def)
      (metis append_Cons append_Nil split_list sublist_appendI)+
  have "P (SanitizeErrorText text)"
    unfolding SanitizeErrorText_def Let_def msg_def [symmetric]
    by (intro if_cases [where P = P] fixed other)
  then show ?thesis by (simp add: P_def)
qed

text \<open>The details are labelled values of at most 120 characters from a small alphabet.\<close>

definition detail_char :: "char \<Rightarrow> bool" where
  "detail_char c \<longleftrightarrow> value_char c \<or> c \<in> set ''=, ''"

lemma sanitized_value:
  "list_all value_char (sanitizeDiagnosticValue v) \<and> length (sanitizeDiagnosticValue v) \<le> 120"
  by (simp add: sanitizeDiagnosticValue_def Let_def)

lemma first_match_P: "P [] \<Longrightarrow> (\<And>v. P (f v)) \<Longrightarrow> P (first_match f ms)"
  by (induction ms) (auto split: option.split)

lemma matched_value:
  "list_all value_char (firstMatch ms) \<and> length (firstMatch ms) \<le> 120"
  "list_all value_char (firstSanitizedCode ms) \<and> length (firstSanitizedCode ms) \<le> 120"
  unfolding firstMatch_def firstSanitizedCode_def
  by (rule first_match_P [where P = "\<lambda>v. list_all value_char v \<and> length v \<le> 120"];
      simp add: sanitized_value sanitizeDiagnosticCode_def Let_def)+

lemma join_detail:
  assumes "\<forall>p \<in> set ps. list_all detail_char p \<and> length p \<le> n"
  shows "list_all detail_char (join_with '', '' ps) \<and> length (join_with '', '' ps) \<le> length ps * (n + 2)"
  using assms by (induction "'', ''" ps rule: join_with.induct) (auto simp: detail_char_def)

lemma SanitizeErrorDetailText_shown:
  "list_all detail_char (SanitizeErrorDetailText text) \<and> length (SanitizeErrorDetailText text) \<le> 532"
proof -
  define part :: "string \<Rightarrow> string \<Rightarrow> string list" where "part name v = (if v = [] then [] else [name @ v])" for name v
  have small: "list_all value_char v \<Longrightarrow> list_all detail_char v" for v
    by (auto simp: list_all_iff detail_char_def)
  have part: "length (part name v) \<le> 1 \<and> (\<forall>p \<in> set (part name v). list_all detail_char p \<and> length p \<le> 131)"
    if "list_all detail_char name" "length name \<le> 11" "list_all value_char v \<and> length v \<le> 120" for name v
    using that small [of v] by (auto simp: part_def)
  have names: "list_all detail_char n \<and> length n \<le> 11"
    if "n \<in> {''status='', ''s3_code='', ''request_id='', ''cf_ray=''}" for n
    using that by (auto simp: detail_char_def value_char_def is_letter_def is_lower_def is_digit_def
        less_eq_char_def)
  have *: "list_all detail_char (join_with '', '' (part ''status='' a @ part ''s3_code='' b @ part ''request_id='' c @ part ''cf_ray='' d))
    \<and> length (join_with '', '' (part ''status='' a @ part ''s3_code='' b @ part ''request_id='' c @ part ''cf_ray='' d)) \<le> 532"
    (is "list_all _ (join_with _ ?ps) \<and> _")
    if v: "\<And>x. x \<in> {a, b, c, d} \<Longrightarrow> list_all value_char x \<and> length x \<le> 120" for a b c d
  proof -
    have p: "length (part n x) \<le> 1 \<and> (\<forall>p \<in> set (part n x). list_all detail_char p \<and> length p \<le> 131)"
      if "n \<in> {''status='', ''s3_code='', ''request_id='', ''cf_ray=''}" "x \<in> {a, b, c, d}" for n x
      using part names [OF that(1)] v [OF that(2)] by blast
    have "length ?ps \<le> 4"
      using p [of "''status=''" a] p [of "''s3_code=''" b] p [of "''request_id=''" c] p [of "''cf_ray=''" d]
      by simp
    moreover have "\<forall>p \<in> set ?ps. list_all detail_char p \<and> length p \<le> 131"
      using p [of "''status=''" a] p [of "''s3_code=''" b] p [of "''request_id=''" c] p [of "''cf_ray=''" d]
      by auto
    from join_detail [OF this] have "list_all detail_char (join_with '', '' ?ps)"
      "length (join_with '', '' ?ps) \<le> length ?ps * 133" by simp_all
    ultimately show ?thesis by auto
  qed
  show ?thesis
    unfolding SanitizeErrorDetailText_def Let_def part_def [symmetric]
    by (intro if_cases [where P = "\<lambda>s. list_all detail_char s \<and> length s \<le> 532"] *)
      (use matched_value in auto)
qed

text \<open>
  C40: what the hub shows of an internal error is one short line.  Whatever the error says, the text
  shown has no line feed, no \<^verbatim>\<open><\<close>, no \<^verbatim>\<open>http://\<close> and no \<^verbatim>\<open>https://\<close> in lower case, and at most
  695 characters.  Addresses of other schemes, or in capital letters, are shown as they are.
\<close>

theorem shown_errors_are_safe:
  "showable (SanitizeErrorTextWithDetail text) \<and> length (SanitizeErrorTextWithDetail text) \<le> 695"
proof -
  have detail: "showable (''('' @ SanitizeErrorDetailText text @ '')'')"
    using SanitizeErrorDetailText_shown [of "text"]
    by (intro showable_no_slash)
      (auto simp: list_all_iff detail_char_def value_char_def is_letter_def is_lower_def
        is_upper_def is_digit_def less_eq_char_def)
  from showable_around [OF _ detail] SanitizeErrorText_shown [of "text"] SanitizeErrorDetailText_shown [of "text"]
  show ?thesis
    by (auto simp: SanitizeErrorTextWithDetail_def Let_def showable_no_slash)
qed

text \<open>An address of another scheme is shown.\<close>

lemma other_addresses_shown:
  "SanitizeErrorTextWithDetail ''GET HTTP://10.0.0.5/bucket: denied'' = ''GET HTTP://10.0.0.5/bucket: denied''"
  "SanitizeErrorTextWithDetail ''s3://bucket/key is broken'' = ''s3://bucket/key is broken''"
  by code_simp+

end
