(* ===== verification/GoParse.thy ===== *)
theory GoParse
  imports GoTime "HOL-Library.Monad_Syntax"
begin

text \<open>
  The layout \<^verbatim>\<open>time.RFC3339Nano\<close>, printed, and \<^verbatim>\<open>time.Parse\<close> with it or with \<^verbatim>\<open>time.RFC3339\<close>:
  both accept a fraction of a second, and an hour of one digit.
\<close>

definition FormatRFC3339Nano :: "int \<Rightarrow> string" where
  "FormatRFC3339Nano t =
     (let ns = t mod Second;
          frac = rev (dropWhile (\<lambda>c. c = CHR ''0'') (rev (pad_left 9 (show_int ns)))) in
      butlast (FormatRFC3339 t) @ (if ns = 0 then [] else CHR ''.'' # frac) @ ''Z'')"

text \<open>The day number of a date, the inverse of \<^const>\<open>civil_of_day\<close>.\<close>

definition day_of_civil :: "int \<Rightarrow> int \<Rightarrow> int \<Rightarrow> int" where
  "day_of_civil y0 m d =
     (let y = (if m \<le> 2 then y0 - 1 else y0);
          era = y div 400;
          yoe = y mod 400;
          mp = (if m > 2 then m - 3 else m + 9);
          doy = (153 * mp + 2) div 5 + d - 1;
          doe = yoe * 365 + yoe div 4 - yoe div 100 + doy
      in era * 146097 + doe - 719468)"

definition leap_year :: "int \<Rightarrow> bool" where
  "leap_year y \<longleftrightarrow> y mod 4 = 0 \<and> (y mod 100 \<noteq> 0 \<or> y mod 400 = 0)"

definition days_in_month :: "int \<Rightarrow> int \<Rightarrow> int" where
  "days_in_month y m =
     (if m = 2 then (if leap_year y then 29 else 28) else if m \<in> {4, 6, 9, 11} then 30 else 31)"

definition take_digits :: "nat \<Rightarrow> string \<Rightarrow> (int \<times> string) option" where
  "take_digits n s =
     (if length (take n s) = n \<and> list_all is_digit (take n s)
      then Some (int (digits_value (take n s)), drop n s) else None)"

definition take_char :: "char \<Rightarrow> string \<Rightarrow> string option" where
  "take_char c s = (case s of [] \<Rightarrow> None | x # r \<Rightarrow> if x = c then Some r else None)"

definition take_hour :: "string \<Rightarrow> (int \<times> string) option" where
  "take_hour s = (case take_digits 2 s of Some r \<Rightarrow> Some r | None \<Rightarrow> take_digits 1 s)"

text \<open>The nanoseconds after the seconds: at most nine digits count.\<close>

definition take_fraction :: "string \<Rightarrow> int \<times> string" where
  "take_fraction s =
     (if length s \<ge> 2 \<and> hd s \<in> {CHR ''.'', CHR '',''} \<and> is_digit (s ! 1) then
        (let ds = takeWhile is_digit (tl s); used = take 9 ds in
         (int (digits_value used) * 10 ^ (9 - length used), drop (length ds) (tl s)))
      else (0, s))"

text \<open>The offset from UTC in seconds.\<close>

definition take_zone :: "string \<Rightarrow> (int \<times> string) option" where
  "take_zone s =
     (if take_char (CHR ''Z'') s \<noteq> None then Some (0, tl s)
      else if s = [] \<or> hd s \<notin> {CHR ''+'', CHR ''-''} then None
      else do {
        (hh, s1) \<leftarrow> take_digits 2 (tl s);
        s2 \<leftarrow> take_char (CHR '':'') s1;
        (mm, s3) \<leftarrow> take_digits 2 s2;
        if hh > 24 \<or> mm > 60 then None
        else Some ((if hd s = CHR ''+'' then 1 else - 1) * (hh * 3600 + mm * 60), s3)
      })"

definition ParseRFC3339 :: "string \<Rightarrow> int option" where
  "ParseRFC3339 s = do {
     (y, s) \<leftarrow> take_digits 4 s; s \<leftarrow> take_char (CHR ''-'') s;
     (mo, s) \<leftarrow> take_digits 2 s; s \<leftarrow> take_char (CHR ''-'') s;
     (d, s) \<leftarrow> take_digits 2 s; s \<leftarrow> take_char (CHR ''T'') s;
     (h, s) \<leftarrow> take_hour s; s \<leftarrow> take_char (CHR '':'') s;
     (mi, s) \<leftarrow> take_digits 2 s; s \<leftarrow> take_char (CHR '':'') s;
     (sec, s) \<leftarrow> take_digits 2 s;
     let (ns, s) = take_fraction s;
     (off, s) \<leftarrow> take_zone s;
     if s \<noteq> [] \<or> mo < 1 \<or> mo > 12 \<or> d < 1 \<or> d > days_in_month y mo \<or> h > 23 \<or> mi > 59 \<or> sec > 59 then None
     else Some (((day_of_civil y mo d * 86400 + h * 3600 + mi * 60 + sec) - off) * Second + ns)
   }"

lemma ParseRFC3339_examples:
  "ParseRFC3339 (FormatRFC3339Nano (1709210096 * Second + 120)) = Some (1709210096 * Second + 120)"
  "ParseRFC3339 ''2024-02-30T00:00:00Z'' = None"
  "ParseRFC3339 ''1970-01-01T01:00:00.5+01:00'' = Some 500000000"
  by code_simp+

end
