(* ===== verification/GoJson.thy ===== *)
theory GoJson
  imports GoParse Model GoURL
begin

text \<open>
  JSON values, as \<^verbatim>\<open>encoding/json\<close> writes and reads them.  A text and the value it denotes are not
  told apart; \<open>JTime t\<close> is the string that \<^verbatim>\<open>time.Time\<close> is written as.  An object is the list of its
  fields in the order they are written; of two fields with one name the last counts.
\<close>

datatype json =
    JNull
  | JBool bool
  | JNum int
  | JFloat int int
  | JStr string
  | JTime int
  | JArr "json list"
  | JObj "(string \<times> json) list"

section \<open>Values of type \<^verbatim>\<open>any\<close>\<close>

definition sorted_fields :: "('a gomap) \<Rightarrow> (string \<times> 'a) list" where
  "sorted_fields m = map (\<lambda>k. (k, the (fmlookup m k))) (sorted_keys m)"

primrec json_of_any :: "gval \<Rightarrow> json" where
  "json_of_any GNil = JNull"
| "json_of_any (GBool b) = JBool b"
| "json_of_any (GInt i) = JNum i"
| "json_of_any (GFloat m e) = JFloat m e"
| "json_of_any (GStr s) = JStr s"
| "json_of_any (GTime t) = JTime t"
| "json_of_any (GStrPtr p) = (case p of None \<Rightarrow> JNull | Some s \<Rightarrow> JStr s)"
| "json_of_any (GTimePtr p) = (case p of None \<Rightarrow> JNull | Some t \<Rightarrow> JTime t)"
| "json_of_any (GStrs ss) = JArr (map JStr ss)"
| "json_of_any (GMaps ms) = JArr (map (\<lambda>m. JObj (sorted_fields m)) (map (fmmap json_of_any) ms))"
| "json_of_any (GList vs) = JArr (map json_of_any vs)"
| "json_of_any (GMap m) = JObj (sorted_fields (fmmap json_of_any m))"

text \<open>A whole number is read as a \<^verbatim>\<open>float64\<close>.\<close>

fun any_of_json :: "json \<Rightarrow> gval" where
  "any_of_json JNull = GNil"
| "any_of_json (JBool b) = GBool b"
| "any_of_json (JNum i) = GFloat i 0"
| "any_of_json (JFloat m e) = GFloat m e"
| "any_of_json (JStr s) = GStr s"
| "any_of_json (JTime t) = GStr (FormatRFC3339Nano t)"
| "any_of_json (JArr vs) = GList (map any_of_json vs)"
| "any_of_json (JObj kvs) = GMap (fmap_of_list (rev (map (\<lambda>(k, v). (k, any_of_json v)) kvs)))"

section \<open>Writing the fields of a struct\<close>

definition put_field :: "string \<Rightarrow> json \<Rightarrow> (string \<times> json) list" where
  "put_field k v = [(k, v)]"

definition put_string_omit :: "string \<Rightarrow> string \<Rightarrow> (string \<times> json) list" where
  "put_string_omit k s = (if s = [] then [] else [(k, JStr s)])"

definition put_opt :: "string \<Rightarrow> ('a \<Rightarrow> json) \<Rightarrow> 'a option \<Rightarrow> (string \<times> json) list" where
  "put_opt k f x = (case x of None \<Rightarrow> [] | Some v \<Rightarrow> [(k, f v)])"

definition json_of_map :: "gmap \<Rightarrow> json" where
  "json_of_map m = JObj (sorted_fields (fmmap json_of_any m))"

definition put_map_omit :: "string \<Rightarrow> gmap \<Rightarrow> (string \<times> json) list" where
  "put_map_omit k m = (if m = fmempty then [] else [(k, json_of_map m)])"

section \<open>Reading them\<close>

text \<open>The last field of a name, if there is one.\<close>

definition last_field :: "(string \<times> json) list \<Rightarrow> string \<Rightarrow> json option" where
  "last_field fs k = map_of (rev fs) k"

definition obj_fields :: "json \<Rightarrow> (string \<times> json) list option" where
  "obj_fields j = (case j of JObj fs \<Rightarrow> Some fs | JNull \<Rightarrow> Some [] | _ \<Rightarrow> None)"

text \<open>An absent field, or one that is null, leaves the zero value; another type is an error.\<close>

definition read_string_opt :: "json option \<Rightarrow> string option option" where
  "read_string_opt f =
     (case f of None \<Rightarrow> Some None | Some JNull \<Rightarrow> Some None | Some (JStr s) \<Rightarrow> Some (Some s)
      | Some (JTime t) \<Rightarrow> Some (Some (FormatRFC3339Nano t)) | _ \<Rightarrow> None)"

definition read_string :: "json option \<Rightarrow> string option" where
  "read_string f = map_option (\<lambda>p. case p of None \<Rightarrow> [] | Some s \<Rightarrow> s) (read_string_opt f)"

text \<open>The zero \<^verbatim>\<open>time.Time\<close> is the first instant of the year 1.\<close>

definition zero_time :: int where
  "zero_time = - 62135596800 * Second"

definition read_time_opt :: "json option \<Rightarrow> int option option" where
  "read_time_opt f =
     (case f of None \<Rightarrow> Some None | Some JNull \<Rightarrow> Some None | Some (JTime t) \<Rightarrow> Some (Some t)
      | Some (JStr s) \<Rightarrow> map_option Some (ParseRFC3339 s) | _ \<Rightarrow> None)"

definition read_time :: "json option \<Rightarrow> int option" where
  "read_time f = map_option (\<lambda>p. case p of None \<Rightarrow> zero_time | Some t \<Rightarrow> t) (read_time_opt f)"

definition read_int :: "json option \<Rightarrow> int option" where
  "read_int f = (case f of None \<Rightarrow> Some 0 | Some JNull \<Rightarrow> Some 0 | Some (JNum i) \<Rightarrow> Some i | _ \<Rightarrow> None)"

definition read_bool :: "json option \<Rightarrow> bool option" where
  "read_bool f =
     (case f of None \<Rightarrow> Some False | Some JNull \<Rightarrow> Some False | Some (JBool b) \<Rightarrow> Some b | _ \<Rightarrow> None)"

fun json_strings :: "json list \<Rightarrow> string list option" where
  "json_strings [] = Some []"
| "json_strings (JStr s # js) = map_option (\<lambda>r. s # r) (json_strings js)"
| "json_strings (JTime t # js) = map_option (\<lambda>r. FormatRFC3339Nano t # r) (json_strings js)"
| "json_strings (JNull # js) = map_option (\<lambda>r. [] # r) (json_strings js)"
| "json_strings (_ # js) = None"

definition read_strings :: "json option \<Rightarrow> string list option" where
  "read_strings f =
     (case f of None \<Rightarrow> Some [] | Some JNull \<Rightarrow> Some [] | Some (JArr js) \<Rightarrow> json_strings js | _ \<Rightarrow> None)"

definition map_of_json :: "json \<Rightarrow> gmap option" where
  "map_of_json j =
     (case j of JNull \<Rightarrow> Some fmempty
      | JObj kvs \<Rightarrow> Some (fmap_of_list (rev (map (\<lambda>(k, v). (k, any_of_json v)) kvs))) | _ \<Rightarrow> None)"

definition read_map :: "json option \<Rightarrow> gmap option" where
  "read_map f = (case f of None \<Rightarrow> Some fmempty | Some j \<Rightarrow> map_of_json j)"

text \<open>A field that is a struct of its own.\<close>

definition read_struct :: "(json \<Rightarrow> 'a option) \<Rightarrow> json option \<Rightarrow> 'a option" where
  "read_struct f x = f (case x of None \<Rightarrow> JNull | Some j \<Rightarrow> j)"

section \<open>Reading back what was written\<close>

named_theorems codec \<open>how a field read depends on the fields written\<close>

definition or_else :: "'a option \<Rightarrow> 'a option \<Rightarrow> 'a option" where
  "or_else x y = (case x of None \<Rightarrow> y | Some v \<Rightarrow> Some v)"

lemma or_else_None [codec]: "or_else None y = y" "or_else x None = x"
  by (simp_all add: or_else_def split: option.split)

lemma last_field_append [codec]: "last_field (fs @ gs) k = or_else (last_field gs k) (last_field fs k)"
  by (simp add: last_field_def map_add_def or_else_def split: option.split)

lemma last_field_Nil [codec]: "last_field [] k = None"
  by (simp add: last_field_def)

lemma last_field_put [codec]:
  "last_field (put_field k v) k' = (if k' = k then Some v else None)"
  "last_field (put_string_omit k s) k' = (if k' = k \<and> s \<noteq> [] then Some (JStr s) else None)"
  "last_field (put_opt k f x) k' = (if k' = k then map_option f x else None)"
  "last_field (put_map_omit k m) k' = (if k' = k \<and> m \<noteq> fmempty then Some (json_of_map m) else None)"
  by (auto simp: last_field_def put_field_def put_string_omit_def put_opt_def put_map_omit_def
      split: option.split)

text \<open>A map whose values come back as they are from JSON.\<close>

definition plain_map :: "gmap \<Rightarrow> bool" where
  "plain_map m \<longleftrightarrow> fmpred (\<lambda>_ v. any_of_json (json_of_any v) = v) m"

lemma fmap_of_sorted_fields: "fmap_of_list (sorted_fields m) = m"
proof (rule fmap_ext)
  fix k
  have "map_of (map (\<lambda>k. (k, the (fmlookup m k))) ks) k =
    (if k \<in> set ks then Some (the (fmlookup m k)) else None)" for ks
    by (induction ks) auto
  then show "fmlookup (fmap_of_list (sorted_fields m)) k = fmlookup m k"
    by (auto simp: fmlookup_of_list sorted_fields_def sorted_keys_def fmlookup_dom_iff
        split: option.splits dest: fmdom_notD)
qed

lemma distinct_sorted_fields: "distinct (map fst (sorted_fields m))"
  by (simp add: sorted_fields_def sorted_keys_def comp_def sorted_list_of_fset.rep_eq)

lemma fmap_of_list_rev: "distinct (map fst kvs) \<Longrightarrow> fmap_of_list (rev kvs) = fmap_of_list kvs"
  using map_of_inject_set [of "rev kvs" kvs]
  by (intro fmap_ext) (simp add: fmlookup_of_list rev_map [symmetric])

lemma fmap_of_map_fields:
  "fmap_of_list (rev (map (\<lambda>(k, v). (k, f v)) (sorted_fields m))) = fmmap f m"
proof -
  have keys: "map fst (map (\<lambda>(k, v). (k, f v)) (sorted_fields m)) = map fst (sorted_fields m)"
    by (simp add: comp_def case_prod_beta)
  have "map (\<lambda>(k, v). (k, f v)) (sorted_fields m) = sorted_fields (fmmap f m)"
    by (auto simp: sorted_fields_def sorted_keys_def fmlookup_dom_iff)
  with keys show ?thesis
    by (metis distinct_sorted_fields fmap_of_list_rev fmap_of_sorted_fields)
qed

lemma map_of_json_of_map [codec]: "plain_map m \<Longrightarrow> map_of_json (json_of_map m) = Some m"
  by (auto simp: map_of_json_def json_of_map_def fmap_of_map_fields plain_map_def fmpred_iff
      intro!: fmap_ext split: option.split)
    (metis (mono_tags, lifting) comp_apply option.exhaust option.map(1,2) option.map_comp)

lemma json_strings_map [codec]: "json_strings (map JStr ss) = Some ss"
  by (induction ss) simp_all

lemma read_written [codec]:
  "read_string (Some (JStr s)) = Some s"
  "read_string (if s \<noteq> [] then Some (JStr s) else None) = Some s"
  "read_string_opt (map_option JStr p) = Some p"
  "read_time (Some (JTime t)) = Some t"
  "read_time_opt (map_option JTime x) = Some x"
  "read_int (Some (JNum i)) = Some i"
  "read_bool (Some (JBool b)) = Some b"
  "read_strings (Some (JArr (map JStr ss))) = Some ss"
  "read_struct f (Some j) = f j"
  by (auto simp: read_string_def read_string_opt_def read_time_def read_time_opt_def read_int_def
      read_bool_def read_strings_def read_struct_def json_strings_map split: option.split)

lemma read_map_written [codec]:
  "plain_map m \<Longrightarrow> read_map (Some (json_of_map m)) = Some m"
  "plain_map m \<Longrightarrow> read_map (if m \<noteq> fmempty then Some (json_of_map m) else None) = Some m"
  "read_map None = Some fmempty"
  by (simp_all add: read_map_def map_of_json_of_map)

lemma plain_map_empty [simp]: "plain_map fmempty"
  by (simp add: plain_map_def)

lemma obj_fields_JObj [codec]: "obj_fields (JObj fs) = Some fs"
  by (simp add: obj_fields_def)

section \<open>The text of a value\<close>

definition hex4 :: "nat \<Rightarrow> string" where
  "hex4 n = ''00'' @ [hex_lower (n div 16), hex_lower (n mod 16)]"

definition json_char :: "char \<Rightarrow> string" where
  "json_char c =
     (if c = CHR 0x22 \<or> c = CHR 0x5C then [CHR 0x5C, c]
      else if c = CHR 0x0A then [CHR 0x5C, CHR ''n''] else if c = CHR 0x0D then [CHR 0x5C, CHR ''r'']
      else if c = CHR 0x09 then [CHR 0x5C, CHR ''t''] else if c = CHR 0x08 then [CHR 0x5C, CHR ''b'']
      else if c = CHR 0x0C then [CHR 0x5C, CHR ''f'']
      else if of_char c < (32 :: nat) \<or> c \<in> {CHR ''<'', CHR ''>'', CHR ''&''}
        then CHR 0x5C # CHR ''u'' # hex4 (of_char c)
      else [c])"

definition json_quote :: "string \<Rightarrow> string" where
  "json_quote s = CHR 0x22 # concat (map json_char s) @ [CHR 0x22]"

text \<open>A \<^verbatim>\<open>float64\<close> is printed in full, where Go prints the shortest decimal that denotes it.\<close>

definition float_text :: "int \<Rightarrow> int \<Rightarrow> string" where
  "float_text m e =
     (if e \<ge> 0 then show_int (m * 2 ^ nat e)
      else let k = nat (- e); n = \<bar>m\<bar> * 5 ^ k in
        (if m < 0 then ''-'' else []) @ show_int (n div 10 ^ k) @ ''.'' @ pad_left k (show_int (n mod 10 ^ k)))"

primrec json_text :: "json \<Rightarrow> string" where
  "json_text JNull = ''null''"
| "json_text (JBool b) = (if b then ''true'' else ''false'')"
| "json_text (JNum i) = show_int i"
| "json_text (JFloat m e) = float_text m e"
| "json_text (JStr s) = json_quote s"
| "json_text (JTime t) = json_quote (FormatRFC3339Nano t)"
| "json_text (JArr vs) = ''['' @ join_with '','' (map json_text vs) @ '']''"
| "json_text (JObj kvs) = [CHR 0x7B] @
     join_with '','' (map (\<lambda>(k, v). json_quote k @ '':'' @ v) (map (map_prod id json_text) kvs)) @ [CHR 0x7D]"

end
