(* ===== verification/S3Codec.thy ===== *)
theory S3Codec
  imports GoJson
begin

text \<open>
  How the structs of the state are written to and read from JSON: the field names and
  \<^verbatim>\<open>omitempty\<close> options of the tags in \<^verbatim>\<open>internal/model/types.go\<close>, and the structs
  \<^verbatim>\<open>s3Persist...\<close> of \<^verbatim>\<open>internal/store/s3_state.go\<close> with their conversions.  What is read from
  what was written is the value written, but for the fields that have the tag \<^verbatim>\<open>"-"\<close>.
\<close>

section \<open>The structs of the S3 state\<close>

record s3_persist_queue_message =
  PMsg_MessageID :: string
  PMsg_FromAgentUUID :: string
  PMsg_ToAgentUUID :: string
  PMsg_FromAgentID :: string
  PMsg_ToAgentID :: string
  PMsg_FromAgentURI :: string
  PMsg_ToAgentURI :: string
  PMsg_SenderOrgID :: string
  PMsg_ReceiverOrgID :: string
  PMsg_ReceiverPeerID :: string
  PMsg_ContentType :: string
  PMsg_Payload :: string
  PMsg_ClientMsgID :: "string option"
  PMsg_CreatedAt :: time

record s3_persist_message_record =
  PRec_Message :: s3_persist_queue_message
  PRec_Status :: string
  PRec_AcceptedAt :: time
  PRec_UpdatedAt :: time
  PRec_FirstReceivedAt :: "time option"
  PRec_LastLeasedAt :: "time option"
  PRec_LeaseExpiresAt :: "time option"
  PRec_AckedAt :: "time option"
  PRec_LastDeliveryID :: "string option"
  PRec_DeliveryAttempts :: int
  PRec_RequeueCount :: int
  PRec_IdempotentReplays :: int
  PRec_LastFailureReason :: string
  PRec_LastFailureAt :: "time option"

record s3_persist_message_delivery =
  PDel_DeliveryID :: string
  PDel_MessageID :: string
  PDel_AgentUUID :: string
  PDel_Attempt :: int
  PDel_LeasedAt :: time
  PDel_LeaseExpiresAt :: time

record s3_persist_invite =
  PInv_InviteID :: string
  PInv_OrgID :: string
  PInv_Email :: string
  PInv_Role :: string
  PInv_Status :: string
  PInv_CreatedBy :: string
  PInv_CreatedAt :: time
  PInv_ExpiresAt :: time
  PInv_AcceptedAt :: "time option"
  PInv_RevokedAt :: "time option"
  PInv_InviteSecret :: string

record s3_persist_agent =
  PAgent_AgentUUID :: string
  PAgent_AgentID :: string
  PAgent_Handle :: string
  PAgent_HandleFinalizedAt :: "time option"
  PAgent_OrgID :: string
  PAgent_OwnerHumanID :: "string option"
  PAgent_HostAgentUUID :: string
  PAgent_TokenHash :: string
  PAgent_Status :: string
  PAgent_Metadata :: gmap
  PAgent_CreatedBy :: string
  PAgent_CreatedAt :: time
  PAgent_RevokedAt :: "time option"

record s3_persist_bind_token =
  PBind_BindID :: string
  PBind_OrgID :: string
  PBind_OwnerHumanID :: "string option"
  PBind_HostAgentUUID :: string
  PBind_TokenHash :: string
  PBind_CreatedBy :: string
  PBind_CreatedAt :: time
  PBind_ExpiresAt :: time
  PBind_UsedAt :: "time option"

record s3_persist_org_access_key =
  PKey_KeyID :: string
  PKey_OrgID :: string
  PKey_Label :: string
  PKey_Scopes :: "string list"
  PKey_Status :: string
  PKey_CreatedBy :: string
  PKey_CreatedAt :: time
  PKey_ExpiresAt :: "time option"
  PKey_LastUsedAt :: "time option"
  PKey_RevokedAt :: "time option"
  PKey_TokenHash :: string

definition persistQueueMessage :: "message \<Rightarrow> s3_persist_queue_message" where
  "persistQueueMessage v = \<lparr>
     PMsg_MessageID = Msg_MessageID v, PMsg_FromAgentUUID = Msg_FromAgentUUID v, PMsg_ToAgentUUID
     = Msg_ToAgentUUID v, PMsg_FromAgentID = Msg_FromAgentID v, PMsg_ToAgentID = Msg_ToAgentID v,
     PMsg_FromAgentURI = Msg_FromAgentURI v, PMsg_ToAgentURI = Msg_ToAgentURI v, PMsg_SenderOrgID
     = Msg_SenderOrgID v, PMsg_ReceiverOrgID = Msg_ReceiverOrgID v, PMsg_ReceiverPeerID =
     Msg_ReceiverPeerID v, PMsg_ContentType = Msg_ContentType v, PMsg_Payload = Msg_Payload v,
     PMsg_ClientMsgID = Msg_ClientMsgID v, PMsg_CreatedAt = Msg_CreatedAt v\<rparr>"

definition s3_persist_queue_message_toModel :: "s3_persist_queue_message \<Rightarrow> message" where
  "s3_persist_queue_message_toModel v = \<lparr>
     Msg_MessageID = PMsg_MessageID v, Msg_FromAgentUUID = PMsg_FromAgentUUID v, Msg_ToAgentUUID
     = PMsg_ToAgentUUID v, Msg_FromAgentID = PMsg_FromAgentID v, Msg_ToAgentID = PMsg_ToAgentID
     v, Msg_FromAgentURI = PMsg_FromAgentURI v, Msg_ToAgentURI = PMsg_ToAgentURI v,
     Msg_SenderOrgID = PMsg_SenderOrgID v, Msg_ReceiverOrgID = PMsg_ReceiverOrgID v,
     Msg_ReceiverPeerID = PMsg_ReceiverPeerID v, Msg_ContentType = PMsg_ContentType v,
     Msg_Payload = PMsg_Payload v, Msg_ClientMsgID = PMsg_ClientMsgID v, Msg_CreatedAt =
     PMsg_CreatedAt v\<rparr>"

definition persistMessageRecord :: "message_record \<Rightarrow> s3_persist_message_record" where
  "persistMessageRecord v = \<lparr>
     PRec_Message = persistQueueMessage (Rec_Message v), PRec_Status = Rec_Status v,
     PRec_AcceptedAt = Rec_AcceptedAt v, PRec_UpdatedAt = Rec_UpdatedAt v, PRec_FirstReceivedAt =
     Rec_FirstReceivedAt v, PRec_LastLeasedAt = Rec_LastLeasedAt v, PRec_LeaseExpiresAt =
     Rec_LeaseExpiresAt v, PRec_AckedAt = Rec_AckedAt v, PRec_LastDeliveryID = Rec_LastDeliveryID
     v, PRec_DeliveryAttempts = Rec_DeliveryAttempts v, PRec_RequeueCount = Rec_RequeueCount v,
     PRec_IdempotentReplays = Rec_IdempotentReplays v, PRec_LastFailureReason =
     Rec_LastFailureReason v, PRec_LastFailureAt = Rec_LastFailureAt v\<rparr>"

definition s3_persist_message_record_toModel :: "s3_persist_message_record \<Rightarrow> message_record" where
  "s3_persist_message_record_toModel v = \<lparr>
     Rec_Message = s3_persist_queue_message_toModel (PRec_Message v), Rec_Status = PRec_Status v,
     Rec_AcceptedAt = PRec_AcceptedAt v, Rec_UpdatedAt = PRec_UpdatedAt v, Rec_FirstReceivedAt =
     PRec_FirstReceivedAt v, Rec_LastLeasedAt = PRec_LastLeasedAt v, Rec_LeaseExpiresAt =
     PRec_LeaseExpiresAt v, Rec_AckedAt = PRec_AckedAt v, Rec_LastDeliveryID =
     PRec_LastDeliveryID v, Rec_DeliveryAttempts = PRec_DeliveryAttempts v, Rec_RequeueCount =
     PRec_RequeueCount v, Rec_IdempotentReplays = PRec_IdempotentReplays v, Rec_LastFailureReason
     = PRec_LastFailureReason v, Rec_LastFailureAt = PRec_LastFailureAt v\<rparr>"

definition persistMessageDelivery :: "message_delivery \<Rightarrow> s3_persist_message_delivery" where
  "persistMessageDelivery v = \<lparr>
     PDel_DeliveryID = Del_DeliveryID v, PDel_MessageID = Del_MessageID v, PDel_AgentUUID =
     Del_AgentUUID v, PDel_Attempt = Del_Attempt v, PDel_LeasedAt = Del_LeasedAt v,
     PDel_LeaseExpiresAt = Del_LeaseExpiresAt v\<rparr>"

definition s3_persist_message_delivery_toModel :: "s3_persist_message_delivery \<Rightarrow> message_delivery" where
  "s3_persist_message_delivery_toModel v = \<lparr>
     Del_DeliveryID = PDel_DeliveryID v, Del_MessageID = PDel_MessageID v, Del_AgentUUID =
     PDel_AgentUUID v, Del_Attempt = PDel_Attempt v, Del_LeasedAt = PDel_LeasedAt v,
     Del_LeaseExpiresAt = PDel_LeaseExpiresAt v\<rparr>"

definition persistInvite :: "invite \<Rightarrow> s3_persist_invite" where
  "persistInvite v = \<lparr>
     PInv_InviteID = Inv_InviteID v, PInv_OrgID = Inv_OrgID v, PInv_Email = Inv_Email v,
     PInv_Role = Inv_Role v, PInv_Status = Inv_Status v, PInv_CreatedBy = Inv_CreatedBy v,
     PInv_CreatedAt = Inv_CreatedAt v, PInv_ExpiresAt = Inv_ExpiresAt v, PInv_AcceptedAt =
     Inv_AcceptedAt v, PInv_RevokedAt = Inv_RevokedAt v, PInv_InviteSecret = Inv_InviteSecret v\<rparr>"

definition s3_persist_invite_toModel :: "s3_persist_invite \<Rightarrow> invite" where
  "s3_persist_invite_toModel v = \<lparr>
     Inv_InviteID = PInv_InviteID v, Inv_OrgID = PInv_OrgID v, Inv_Email = PInv_Email v, Inv_Role
     = PInv_Role v, Inv_Status = PInv_Status v, Inv_CreatedBy = PInv_CreatedBy v, Inv_CreatedAt =
     PInv_CreatedAt v, Inv_ExpiresAt = PInv_ExpiresAt v, Inv_AcceptedAt = PInv_AcceptedAt v,
     Inv_RevokedAt = PInv_RevokedAt v, Inv_InviteSecret = PInv_InviteSecret v\<rparr>"

definition persistAgent :: "agent \<Rightarrow> s3_persist_agent" where
  "persistAgent v = \<lparr>
     PAgent_AgentUUID = Agent_AgentUUID v, PAgent_AgentID = Agent_AgentID v, PAgent_Handle =
     Agent_Handle v, PAgent_HandleFinalizedAt = Agent_HandleFinalizedAt v, PAgent_OrgID =
     Agent_OrgID v, PAgent_OwnerHumanID = Agent_OwnerHumanID v, PAgent_HostAgentUUID =
     Agent_HostAgentUUID v, PAgent_TokenHash = Agent_TokenHash v, PAgent_Status = Agent_Status v,
     PAgent_Metadata = Agent_Metadata v, PAgent_CreatedBy = Agent_CreatedBy v, PAgent_CreatedAt =
     Agent_CreatedAt v, PAgent_RevokedAt = Agent_RevokedAt v\<rparr>"

definition s3_persist_agent_toModel :: "s3_persist_agent \<Rightarrow> agent" where
  "s3_persist_agent_toModel v = \<lparr>
     Agent_AgentUUID = PAgent_AgentUUID v, Agent_AgentID = PAgent_AgentID v, Agent_Handle =
     PAgent_Handle v, Agent_HandleFinalizedAt = PAgent_HandleFinalizedAt v, Agent_OrgID =
     PAgent_OrgID v, Agent_OwnerHumanID = PAgent_OwnerHumanID v, Agent_HostAgentUUID =
     PAgent_HostAgentUUID v, Agent_TokenHash = PAgent_TokenHash v, Agent_Status = PAgent_Status
     v, Agent_Metadata = PAgent_Metadata v, Agent_CreatedBy = PAgent_CreatedBy v, Agent_CreatedAt
     = PAgent_CreatedAt v, Agent_RevokedAt = PAgent_RevokedAt v\<rparr>"

definition persistBindToken :: "bind_token \<Rightarrow> s3_persist_bind_token" where
  "persistBindToken v = \<lparr>
     PBind_BindID = Bind_BindID v, PBind_OrgID = Bind_OrgID v, PBind_OwnerHumanID =
     Bind_OwnerHumanID v, PBind_HostAgentUUID = Bind_HostAgentUUID v, PBind_TokenHash =
     Bind_TokenHash v, PBind_CreatedBy = Bind_CreatedBy v, PBind_CreatedAt = Bind_CreatedAt v,
     PBind_ExpiresAt = Bind_ExpiresAt v, PBind_UsedAt = Bind_UsedAt v\<rparr>"

definition s3_persist_bind_token_toModel :: "s3_persist_bind_token \<Rightarrow> bind_token" where
  "s3_persist_bind_token_toModel v = \<lparr>
     Bind_BindID = PBind_BindID v, Bind_OrgID = PBind_OrgID v, Bind_OwnerHumanID =
     PBind_OwnerHumanID v, Bind_HostAgentUUID = PBind_HostAgentUUID v, Bind_TokenHash =
     PBind_TokenHash v, Bind_CreatedBy = PBind_CreatedBy v, Bind_CreatedAt = PBind_CreatedAt v,
     Bind_ExpiresAt = PBind_ExpiresAt v, Bind_UsedAt = PBind_UsedAt v\<rparr>"

definition persistOrgAccessKey :: "org_access_key \<Rightarrow> s3_persist_org_access_key" where
  "persistOrgAccessKey v = \<lparr>
     PKey_KeyID = Key_KeyID v, PKey_OrgID = Key_OrgID v, PKey_Label = Key_Label v, PKey_Scopes =
     Key_Scopes v, PKey_Status = Key_Status v, PKey_CreatedBy = Key_CreatedBy v, PKey_CreatedAt =
     Key_CreatedAt v, PKey_ExpiresAt = Key_ExpiresAt v, PKey_LastUsedAt = Key_LastUsedAt v,
     PKey_RevokedAt = Key_RevokedAt v, PKey_TokenHash = Key_TokenHash v\<rparr>"

definition s3_persist_org_access_key_toModel :: "s3_persist_org_access_key \<Rightarrow> org_access_key" where
  "s3_persist_org_access_key_toModel v = \<lparr>
     Key_KeyID = PKey_KeyID v, Key_OrgID = PKey_OrgID v, Key_Label = PKey_Label v, Key_Scopes =
     PKey_Scopes v, Key_Status = PKey_Status v, Key_CreatedBy = PKey_CreatedBy v, Key_CreatedAt =
     PKey_CreatedAt v, Key_ExpiresAt = PKey_ExpiresAt v, Key_LastUsedAt = PKey_LastUsedAt v,
     Key_RevokedAt = PKey_RevokedAt v, Key_TokenHash = PKey_TokenHash v\<rparr>"

section \<open>Writing\<close>

definition json_of_organization :: "organization \<Rightarrow> json" where
  "json_of_organization v = JObj (concat [
     put_field ''org_id'' (JStr (Org_OrgID v)),
     put_field ''handle'' (JStr (Org_Handle v)),
     put_field ''display_name'' (JStr (Org_DisplayName v)),
     put_field ''metadata'' (json_of_map (Org_Metadata v)),
     put_field ''created_at'' (JTime (Org_CreatedAt v)),
     put_field ''created_by'' (JStr (Org_CreatedBy v))])"

definition json_of_human :: "human \<Rightarrow> json" where
  "json_of_human v = JObj (concat [
     put_field ''human_id'' (JStr (Human_HumanID v)),
     put_field ''handle'' (JStr (Human_Handle v)),
     put_opt ''handle_confirmed_at'' JTime (Human_HandleConfirmedAt v),
     put_field ''auth_provider'' (JStr (Human_AuthProvider v)),
     put_field ''auth_subject'' (JStr (Human_AuthSubject v)),
     put_field ''email'' (JStr (Human_Email v)),
     put_field ''email_verified'' (JBool (Human_EmailVerified v)),
     put_field ''metadata'' (json_of_map (Human_Metadata v)),
     put_field ''created_at'' (JTime (Human_CreatedAt v))])"

definition json_of_membership :: "membership \<Rightarrow> json" where
  "json_of_membership v = JObj (concat [
     put_field ''membership_id'' (JStr (Mem_MembershipID v)),
     put_field ''org_id'' (JStr (Mem_OrgID v)),
     put_field ''human_id'' (JStr (Mem_HumanID v)),
     put_field ''role'' (JStr (Mem_Role v)),
     put_field ''status'' (JStr (Mem_Status v)),
     put_field ''created_at'' (JTime (Mem_CreatedAt v))])"

definition json_of_trust_edge :: "trust_edge \<Rightarrow> json" where
  "json_of_trust_edge v = JObj (concat [
     put_field ''edge_id'' (JStr (Edge_EdgeID v)),
     put_field ''edge_type'' (JStr (Edge_EdgeType v)),
     put_field ''left_id'' (JStr (Edge_LeftID v)),
     put_field ''right_id'' (JStr (Edge_RightID v)),
     put_field ''state'' (JStr (Edge_State v)),
     put_field ''left_approved'' (JBool (Edge_LeftApproved v)),
     put_field ''right_approved'' (JBool (Edge_RightApproved v)),
     put_field ''created_by'' (JStr (Edge_CreatedBy v)),
     put_field ''created_at'' (JTime (Edge_CreatedAt v)),
     put_field ''updated_at'' (JTime (Edge_UpdatedAt v))])"

definition json_of_org_stats :: "org_stats \<Rightarrow> json" where
  "json_of_org_stats v = JObj (concat [
     put_field ''org_id'' (JStr (Stats_OrgID v)),
     put_field ''queued_messages'' (JNum (Stats_QueuedMessages v)),
     put_field ''dropped_messages'' (JNum (Stats_DroppedMessages v)),
     put_field ''acked_messages'' (JNum (Stats_AckedMessages v)),
     put_field ''expired_messages'' (JNum (Stats_ExpiredMessages v)),
     put_field ''redelivered_messages'' (JNum (Stats_RedeliveredMessages v)),
     put_field ''duplicate_messages'' (JNum (Stats_DuplicateMessages v)),
     put_field ''last_7_days'' JNull])"

definition json_of_org_daily_stats :: "org_daily_stats \<Rightarrow> json" where
  "json_of_org_daily_stats v = JObj (concat [
     put_field ''date'' (JStr (Day_Date v)),
     put_field ''queued_messages'' (JNum (Day_QueuedMessages v)),
     put_field ''dropped_messages'' (JNum (Day_DroppedMessages v)),
     put_field ''acked_messages'' (JNum (Day_AckedMessages v)),
     put_field ''expired_messages'' (JNum (Day_ExpiredMessages v)),
     put_field ''redelivered_messages'' (JNum (Day_RedeliveredMessages v)),
     put_field ''duplicate_messages'' (JNum (Day_DuplicateMessages v))])"

definition json_of_audit_event :: "audit_event \<Rightarrow> json" where
  "json_of_audit_event v = JObj (concat [
     put_field ''event_id'' (JStr (Ev_EventID v)),
     put_field ''org_id'' (JStr (Ev_OrgID v)),
     put_field ''actor_human_id'' (JStr (Ev_ActorHuman v)),
     put_field ''category'' (JStr (Ev_Category v)),
     put_field ''action'' (JStr (Ev_Action v)),
     put_field ''subject_id'' (JStr (Ev_SubjectID v)),
     put_map_omit ''details'' (Ev_Details v),
     put_field ''created_at'' (JTime (Ev_CreatedAt v))])"

definition json_of_peer_instance :: "peer_instance \<Rightarrow> json" where
  "json_of_peer_instance v = JObj (concat [
     put_field ''peer_id'' (JStr (Peer_PeerID v)),
     put_field ''canonical_base_url'' (JStr (Peer_CanonicalBaseURL v)),
     put_field ''delivery_base_url'' (JStr (Peer_DeliveryBaseURL v)),
     put_field ''status'' (JStr (Peer_Status v)),
     put_field ''created_by'' (JStr (Peer_CreatedBy v)),
     put_field ''created_at'' (JTime (Peer_CreatedAt v)),
     put_field ''updated_at'' (JTime (Peer_UpdatedAt v)),
     put_opt ''last_successful_at'' JTime (Peer_LastSuccessfulAt v),
     put_opt ''last_failure_at'' JTime (Peer_LastFailureAt v),
     put_string_omit ''last_failure_reason'' (Peer_LastFailureReason v)])"

definition json_of_remote_org_trust :: "remote_org_trust \<Rightarrow> json" where
  "json_of_remote_org_trust v = JObj (concat [
     put_field ''trust_id'' (JStr (ROT_TrustID v)),
     put_field ''local_org_id'' (JStr (ROT_LocalOrgID v)),
     put_field ''peer_id'' (JStr (ROT_PeerID v)),
     put_field ''remote_org_handle'' (JStr (ROT_RemoteOrgHandle v)),
     put_field ''status'' (JStr (ROT_Status v)),
     put_field ''created_by'' (JStr (ROT_CreatedBy v)),
     put_field ''created_at'' (JTime (ROT_CreatedAt v)),
     put_field ''updated_at'' (JTime (ROT_UpdatedAt v))])"

definition json_of_remote_agent_trust :: "remote_agent_trust \<Rightarrow> json" where
  "json_of_remote_agent_trust v = JObj (concat [
     put_field ''trust_id'' (JStr (RAT_TrustID v)),
     put_field ''local_agent_uuid'' (JStr (RAT_LocalAgentUUID v)),
     put_field ''peer_id'' (JStr (RAT_PeerID v)),
     put_field ''remote_agent_uri'' (JStr (RAT_RemoteAgentURI v)),
     put_field ''status'' (JStr (RAT_Status v)),
     put_field ''created_by'' (JStr (RAT_CreatedBy v)),
     put_field ''created_at'' (JTime (RAT_CreatedAt v)),
     put_field ''updated_at'' (JTime (RAT_UpdatedAt v))])"

definition json_of_message :: "message \<Rightarrow> json" where
  "json_of_message v = JObj (concat [
     put_field ''message_id'' (JStr (Msg_MessageID v)),
     put_field ''from_agent_uuid'' (JStr (Msg_FromAgentUUID v)),
     put_field ''to_agent_uuid'' (JStr (Msg_ToAgentUUID v)),
     put_string_omit ''from_agent_id'' (Msg_FromAgentID v),
     put_string_omit ''to_agent_id'' (Msg_ToAgentID v),
     put_string_omit ''from_agent_uri'' (Msg_FromAgentURI v),
     put_string_omit ''to_agent_uri'' (Msg_ToAgentURI v),
     put_field ''sender_org_id'' (JStr (Msg_SenderOrgID v)),
     put_field ''receiver_org_id'' (JStr (Msg_ReceiverOrgID v)),
     put_string_omit ''receiver_peer_id'' (Msg_ReceiverPeerID v),
     put_field ''content_type'' (JStr (Msg_ContentType v)),
     put_field ''payload'' (JStr (Msg_Payload v)),
     put_opt ''client_msg_id'' JStr (Msg_ClientMsgID v),
     put_field ''created_at'' (JTime (Msg_CreatedAt v))])"

definition json_of_peer_outbound :: "peer_outbound \<Rightarrow> json" where
  "json_of_peer_outbound v = JObj (concat [
     put_field ''outbound_id'' (JStr (Out_OutboundID v)),
     put_field ''peer_id'' (JStr (Out_PeerID v)),
     put_field ''message_id'' (JStr (Out_MessageID v)),
     put_field ''message'' (json_of_message (Out_Message v)),
     put_field ''status'' (JStr (Out_Status v)),
     put_field ''created_at'' (JTime (Out_CreatedAt v)),
     put_field ''updated_at'' (JTime (Out_UpdatedAt v)),
     put_field ''attempt_count'' (JNum (Out_AttemptCount v)),
     put_field ''next_attempt_at'' (JTime (Out_NextAttemptAt v)),
     put_opt ''last_attempt_at'' JTime (Out_LastAttemptAt v),
     put_string_omit ''last_error'' (Out_LastError v),
     put_opt ''last_delivered_at'' JTime (Out_LastDeliveredAt v)])"

definition json_of_s3_persist_queue_message :: "s3_persist_queue_message \<Rightarrow> json" where
  "json_of_s3_persist_queue_message v = JObj (concat [
     put_field ''message_id'' (JStr (PMsg_MessageID v)),
     put_field ''from_agent_uuid'' (JStr (PMsg_FromAgentUUID v)),
     put_field ''to_agent_uuid'' (JStr (PMsg_ToAgentUUID v)),
     put_string_omit ''from_agent_id'' (PMsg_FromAgentID v),
     put_string_omit ''to_agent_id'' (PMsg_ToAgentID v),
     put_string_omit ''from_agent_uri'' (PMsg_FromAgentURI v),
     put_string_omit ''to_agent_uri'' (PMsg_ToAgentURI v),
     put_field ''sender_org_id'' (JStr (PMsg_SenderOrgID v)),
     put_field ''receiver_org_id'' (JStr (PMsg_ReceiverOrgID v)),
     put_string_omit ''receiver_peer_id'' (PMsg_ReceiverPeerID v),
     put_field ''content_type'' (JStr (PMsg_ContentType v)),
     put_field ''payload'' (JStr (PMsg_Payload v)),
     put_opt ''client_msg_id'' JStr (PMsg_ClientMsgID v),
     put_field ''created_at'' (JTime (PMsg_CreatedAt v))])"

definition json_of_s3_persist_message_record :: "s3_persist_message_record \<Rightarrow> json" where
  "json_of_s3_persist_message_record v = JObj (concat [
     put_field ''message'' (json_of_s3_persist_queue_message (PRec_Message v)),
     put_field ''status'' (JStr (PRec_Status v)),
     put_field ''accepted_at'' (JTime (PRec_AcceptedAt v)),
     put_field ''updated_at'' (JTime (PRec_UpdatedAt v)),
     put_opt ''first_received_at'' JTime (PRec_FirstReceivedAt v),
     put_opt ''last_leased_at'' JTime (PRec_LastLeasedAt v),
     put_opt ''lease_expires_at'' JTime (PRec_LeaseExpiresAt v),
     put_opt ''acked_at'' JTime (PRec_AckedAt v),
     put_opt ''last_delivery_id'' JStr (PRec_LastDeliveryID v),
     put_field ''delivery_attempts'' (JNum (PRec_DeliveryAttempts v)),
     put_field ''requeue_count'' (JNum (PRec_RequeueCount v)),
     put_field ''idempotent_replays'' (JNum (PRec_IdempotentReplays v)),
     put_string_omit ''last_failure_reason'' (PRec_LastFailureReason v),
     put_opt ''last_failure_at'' JTime (PRec_LastFailureAt v)])"

definition json_of_s3_persist_message_delivery :: "s3_persist_message_delivery \<Rightarrow> json" where
  "json_of_s3_persist_message_delivery v = JObj (concat [
     put_field ''delivery_id'' (JStr (PDel_DeliveryID v)),
     put_field ''message_id'' (JStr (PDel_MessageID v)),
     put_field ''agent_uuid'' (JStr (PDel_AgentUUID v)),
     put_field ''attempt'' (JNum (PDel_Attempt v)),
     put_field ''leased_at'' (JTime (PDel_LeasedAt v)),
     put_field ''lease_expires_at'' (JTime (PDel_LeaseExpiresAt v))])"

definition json_of_s3_persist_invite :: "s3_persist_invite \<Rightarrow> json" where
  "json_of_s3_persist_invite v = JObj (concat [
     put_field ''invite_id'' (JStr (PInv_InviteID v)),
     put_field ''org_id'' (JStr (PInv_OrgID v)),
     put_field ''email'' (JStr (PInv_Email v)),
     put_field ''role'' (JStr (PInv_Role v)),
     put_field ''status'' (JStr (PInv_Status v)),
     put_field ''created_by'' (JStr (PInv_CreatedBy v)),
     put_field ''created_at'' (JTime (PInv_CreatedAt v)),
     put_field ''expires_at'' (JTime (PInv_ExpiresAt v)),
     put_opt ''accepted_at'' JTime (PInv_AcceptedAt v),
     put_opt ''revoked_at'' JTime (PInv_RevokedAt v),
     put_field ''invite_secret'' (JStr (PInv_InviteSecret v))])"

definition json_of_s3_persist_agent :: "s3_persist_agent \<Rightarrow> json" where
  "json_of_s3_persist_agent v = JObj (concat [
     put_field ''agent_uuid'' (JStr (PAgent_AgentUUID v)),
     put_field ''agent_id'' (JStr (PAgent_AgentID v)),
     put_field ''handle'' (JStr (PAgent_Handle v)),
     put_opt ''handle_finalized_at'' JTime (PAgent_HandleFinalizedAt v),
     put_field ''org_id'' (JStr (PAgent_OrgID v)),
     put_opt ''owner_human_id'' JStr (PAgent_OwnerHumanID v),
     put_string_omit ''host_agent_uuid'' (PAgent_HostAgentUUID v),
     put_field ''token_hash'' (JStr (PAgent_TokenHash v)),
     put_field ''status'' (JStr (PAgent_Status v)),
     put_field ''metadata'' (json_of_map (PAgent_Metadata v)),
     put_field ''created_by'' (JStr (PAgent_CreatedBy v)),
     put_field ''created_at'' (JTime (PAgent_CreatedAt v)),
     put_opt ''revoked_at'' JTime (PAgent_RevokedAt v)])"

definition json_of_s3_persist_bind_token :: "s3_persist_bind_token \<Rightarrow> json" where
  "json_of_s3_persist_bind_token v = JObj (concat [
     put_field ''bind_id'' (JStr (PBind_BindID v)),
     put_field ''org_id'' (JStr (PBind_OrgID v)),
     put_opt ''owner_human_id'' JStr (PBind_OwnerHumanID v),
     put_string_omit ''host_agent_uuid'' (PBind_HostAgentUUID v),
     put_field ''token_hash'' (JStr (PBind_TokenHash v)),
     put_field ''created_by'' (JStr (PBind_CreatedBy v)),
     put_field ''created_at'' (JTime (PBind_CreatedAt v)),
     put_field ''expires_at'' (JTime (PBind_ExpiresAt v)),
     put_opt ''used_at'' JTime (PBind_UsedAt v)])"

definition json_of_s3_persist_org_access_key :: "s3_persist_org_access_key \<Rightarrow> json" where
  "json_of_s3_persist_org_access_key v = JObj (concat [
     put_field ''key_id'' (JStr (PKey_KeyID v)),
     put_field ''org_id'' (JStr (PKey_OrgID v)),
     put_field ''label'' (JStr (PKey_Label v)),
     put_field ''scopes'' (JArr (map JStr (PKey_Scopes v))),
     put_field ''status'' (JStr (PKey_Status v)),
     put_field ''created_by'' (JStr (PKey_CreatedBy v)),
     put_field ''created_at'' (JTime (PKey_CreatedAt v)),
     put_opt ''expires_at'' JTime (PKey_ExpiresAt v),
     put_opt ''last_used_at'' JTime (PKey_LastUsedAt v),
     put_opt ''revoked_at'' JTime (PKey_RevokedAt v),
     put_field ''token_hash'' (JStr (PKey_TokenHash v))])"

section \<open>Reading\<close>

definition organization_of_json :: "json \<Rightarrow> organization option" where
  "organization_of_json j = do {
     fs \<leftarrow> obj_fields j;
     x0 \<leftarrow> read_string (last_field fs ''org_id'');
     x1 \<leftarrow> read_string (last_field fs ''handle'');
     x2 \<leftarrow> read_string (last_field fs ''display_name'');
     x3 \<leftarrow> read_map (last_field fs ''metadata'');
     x4 \<leftarrow> read_time (last_field fs ''created_at'');
     x5 \<leftarrow> read_string (last_field fs ''created_by'');
     Some \<lparr>Org_OrgID = x0, Org_Handle = x1, Org_DisplayName = x2, Org_Metadata = x3, Org_CreatedAt
     = x4, Org_CreatedBy = x5\<rparr>
   }"

definition human_of_json :: "json \<Rightarrow> human option" where
  "human_of_json j = do {
     fs \<leftarrow> obj_fields j;
     x0 \<leftarrow> read_string (last_field fs ''human_id'');
     x1 \<leftarrow> read_string (last_field fs ''handle'');
     x2 \<leftarrow> read_time_opt (last_field fs ''handle_confirmed_at'');
     x3 \<leftarrow> read_string (last_field fs ''auth_provider'');
     x4 \<leftarrow> read_string (last_field fs ''auth_subject'');
     x5 \<leftarrow> read_string (last_field fs ''email'');
     x6 \<leftarrow> read_bool (last_field fs ''email_verified'');
     x7 \<leftarrow> read_map (last_field fs ''metadata'');
     x8 \<leftarrow> read_time (last_field fs ''created_at'');
     Some \<lparr>Human_HumanID = x0, Human_Handle = x1, Human_HandleConfirmedAt = x2, Human_AuthProvider
     = x3, Human_AuthSubject = x4, Human_Email = x5, Human_EmailVerified = x6, Human_Metadata
     = x7, Human_CreatedAt = x8\<rparr>
   }"

definition membership_of_json :: "json \<Rightarrow> membership option" where
  "membership_of_json j = do {
     fs \<leftarrow> obj_fields j;
     x0 \<leftarrow> read_string (last_field fs ''membership_id'');
     x1 \<leftarrow> read_string (last_field fs ''org_id'');
     x2 \<leftarrow> read_string (last_field fs ''human_id'');
     x3 \<leftarrow> read_string (last_field fs ''role'');
     x4 \<leftarrow> read_string (last_field fs ''status'');
     x5 \<leftarrow> read_time (last_field fs ''created_at'');
     Some \<lparr>Mem_MembershipID = x0, Mem_OrgID = x1, Mem_HumanID = x2, Mem_Role = x3, Mem_Status = x4,
     Mem_CreatedAt = x5\<rparr>
   }"

definition trust_edge_of_json :: "json \<Rightarrow> trust_edge option" where
  "trust_edge_of_json j = do {
     fs \<leftarrow> obj_fields j;
     x0 \<leftarrow> read_string (last_field fs ''edge_id'');
     x1 \<leftarrow> read_string (last_field fs ''edge_type'');
     x2 \<leftarrow> read_string (last_field fs ''left_id'');
     x3 \<leftarrow> read_string (last_field fs ''right_id'');
     x4 \<leftarrow> read_string (last_field fs ''state'');
     x5 \<leftarrow> read_bool (last_field fs ''left_approved'');
     x6 \<leftarrow> read_bool (last_field fs ''right_approved'');
     x7 \<leftarrow> read_string (last_field fs ''created_by'');
     x8 \<leftarrow> read_time (last_field fs ''created_at'');
     x9 \<leftarrow> read_time (last_field fs ''updated_at'');
     Some \<lparr>Edge_EdgeID = x0, Edge_EdgeType = x1, Edge_LeftID = x2, Edge_RightID = x3, Edge_State =
     x4, Edge_LeftApproved = x5, Edge_RightApproved = x6, Edge_CreatedBy = x7, Edge_CreatedAt
     = x8, Edge_UpdatedAt = x9\<rparr>
   }"

definition org_stats_of_json :: "json \<Rightarrow> org_stats option" where
  "org_stats_of_json j = do {
     fs \<leftarrow> obj_fields j;
     x0 \<leftarrow> read_string (last_field fs ''org_id'');
     x1 \<leftarrow> read_int (last_field fs ''queued_messages'');
     x2 \<leftarrow> read_int (last_field fs ''dropped_messages'');
     x3 \<leftarrow> read_int (last_field fs ''acked_messages'');
     x4 \<leftarrow> read_int (last_field fs ''expired_messages'');
     x5 \<leftarrow> read_int (last_field fs ''redelivered_messages'');
     x6 \<leftarrow> read_int (last_field fs ''duplicate_messages'');
     Some \<lparr>Stats_OrgID = x0, Stats_QueuedMessages = x1, Stats_DroppedMessages = x2,
     Stats_AckedMessages = x3, Stats_ExpiredMessages = x4, Stats_RedeliveredMessages = x5,
     Stats_DuplicateMessages = x6\<rparr>
   }"

definition org_daily_stats_of_json :: "json \<Rightarrow> org_daily_stats option" where
  "org_daily_stats_of_json j = do {
     fs \<leftarrow> obj_fields j;
     x0 \<leftarrow> read_string (last_field fs ''date'');
     x1 \<leftarrow> read_int (last_field fs ''queued_messages'');
     x2 \<leftarrow> read_int (last_field fs ''dropped_messages'');
     x3 \<leftarrow> read_int (last_field fs ''acked_messages'');
     x4 \<leftarrow> read_int (last_field fs ''expired_messages'');
     x5 \<leftarrow> read_int (last_field fs ''redelivered_messages'');
     x6 \<leftarrow> read_int (last_field fs ''duplicate_messages'');
     Some \<lparr>Day_Date = x0, Day_QueuedMessages = x1, Day_DroppedMessages = x2, Day_AckedMessages =
     x3, Day_ExpiredMessages = x4, Day_RedeliveredMessages = x5, Day_DuplicateMessages = x6\<rparr>
   }"

definition audit_event_of_json :: "json \<Rightarrow> audit_event option" where
  "audit_event_of_json j = do {
     fs \<leftarrow> obj_fields j;
     x0 \<leftarrow> read_string (last_field fs ''event_id'');
     x1 \<leftarrow> read_string (last_field fs ''org_id'');
     x2 \<leftarrow> read_string (last_field fs ''actor_human_id'');
     x3 \<leftarrow> read_string (last_field fs ''category'');
     x4 \<leftarrow> read_string (last_field fs ''action'');
     x5 \<leftarrow> read_string (last_field fs ''subject_id'');
     x6 \<leftarrow> read_map (last_field fs ''details'');
     x7 \<leftarrow> read_time (last_field fs ''created_at'');
     Some \<lparr>Ev_EventID = x0, Ev_OrgID = x1, Ev_ActorHuman = x2, Ev_Category = x3, Ev_Action = x4,
     Ev_SubjectID = x5, Ev_Details = x6, Ev_CreatedAt = x7\<rparr>
   }"

definition peer_instance_of_json :: "json \<Rightarrow> peer_instance option" where
  "peer_instance_of_json j = do {
     fs \<leftarrow> obj_fields j;
     x0 \<leftarrow> read_string (last_field fs ''peer_id'');
     x1 \<leftarrow> read_string (last_field fs ''canonical_base_url'');
     x2 \<leftarrow> read_string (last_field fs ''delivery_base_url'');
     x4 \<leftarrow> read_string (last_field fs ''status'');
     x5 \<leftarrow> read_string (last_field fs ''created_by'');
     x6 \<leftarrow> read_time (last_field fs ''created_at'');
     x7 \<leftarrow> read_time (last_field fs ''updated_at'');
     x8 \<leftarrow> read_time_opt (last_field fs ''last_successful_at'');
     x9 \<leftarrow> read_time_opt (last_field fs ''last_failure_at'');
     x10 \<leftarrow> read_string (last_field fs ''last_failure_reason'');
     Some \<lparr>Peer_PeerID = x0, Peer_CanonicalBaseURL = x1, Peer_DeliveryBaseURL = x2,
     Peer_SharedSecret = [], Peer_Status = x4, Peer_CreatedBy = x5, Peer_CreatedAt = x6,
     Peer_UpdatedAt = x7, Peer_LastSuccessfulAt = x8, Peer_LastFailureAt = x9,
     Peer_LastFailureReason = x10\<rparr>
   }"

definition remote_org_trust_of_json :: "json \<Rightarrow> remote_org_trust option" where
  "remote_org_trust_of_json j = do {
     fs \<leftarrow> obj_fields j;
     x0 \<leftarrow> read_string (last_field fs ''trust_id'');
     x1 \<leftarrow> read_string (last_field fs ''local_org_id'');
     x2 \<leftarrow> read_string (last_field fs ''peer_id'');
     x3 \<leftarrow> read_string (last_field fs ''remote_org_handle'');
     x4 \<leftarrow> read_string (last_field fs ''status'');
     x5 \<leftarrow> read_string (last_field fs ''created_by'');
     x6 \<leftarrow> read_time (last_field fs ''created_at'');
     x7 \<leftarrow> read_time (last_field fs ''updated_at'');
     Some \<lparr>ROT_TrustID = x0, ROT_LocalOrgID = x1, ROT_PeerID = x2, ROT_RemoteOrgHandle = x3,
     ROT_Status = x4, ROT_CreatedBy = x5, ROT_CreatedAt = x6, ROT_UpdatedAt = x7\<rparr>
   }"

definition remote_agent_trust_of_json :: "json \<Rightarrow> remote_agent_trust option" where
  "remote_agent_trust_of_json j = do {
     fs \<leftarrow> obj_fields j;
     x0 \<leftarrow> read_string (last_field fs ''trust_id'');
     x1 \<leftarrow> read_string (last_field fs ''local_agent_uuid'');
     x2 \<leftarrow> read_string (last_field fs ''peer_id'');
     x3 \<leftarrow> read_string (last_field fs ''remote_agent_uri'');
     x4 \<leftarrow> read_string (last_field fs ''status'');
     x5 \<leftarrow> read_string (last_field fs ''created_by'');
     x6 \<leftarrow> read_time (last_field fs ''created_at'');
     x7 \<leftarrow> read_time (last_field fs ''updated_at'');
     Some \<lparr>RAT_TrustID = x0, RAT_LocalAgentUUID = x1, RAT_PeerID = x2, RAT_RemoteAgentURI = x3,
     RAT_Status = x4, RAT_CreatedBy = x5, RAT_CreatedAt = x6, RAT_UpdatedAt = x7\<rparr>
   }"

definition message_of_json :: "json \<Rightarrow> message option" where
  "message_of_json j = do {
     fs \<leftarrow> obj_fields j;
     x0 \<leftarrow> read_string (last_field fs ''message_id'');
     x1 \<leftarrow> read_string (last_field fs ''from_agent_uuid'');
     x2 \<leftarrow> read_string (last_field fs ''to_agent_uuid'');
     x3 \<leftarrow> read_string (last_field fs ''from_agent_id'');
     x4 \<leftarrow> read_string (last_field fs ''to_agent_id'');
     x5 \<leftarrow> read_string (last_field fs ''from_agent_uri'');
     x6 \<leftarrow> read_string (last_field fs ''to_agent_uri'');
     x7 \<leftarrow> read_string (last_field fs ''sender_org_id'');
     x8 \<leftarrow> read_string (last_field fs ''receiver_org_id'');
     x9 \<leftarrow> read_string (last_field fs ''receiver_peer_id'');
     x10 \<leftarrow> read_string (last_field fs ''content_type'');
     x11 \<leftarrow> read_string (last_field fs ''payload'');
     x12 \<leftarrow> read_string_opt (last_field fs ''client_msg_id'');
     x13 \<leftarrow> read_time (last_field fs ''created_at'');
     Some \<lparr>Msg_MessageID = x0, Msg_FromAgentUUID = x1, Msg_ToAgentUUID = x2, Msg_FromAgentID = x3,
     Msg_ToAgentID = x4, Msg_FromAgentURI = x5, Msg_ToAgentURI = x6, Msg_SenderOrgID = x7,
     Msg_ReceiverOrgID = x8, Msg_ReceiverPeerID = x9, Msg_ContentType = x10, Msg_Payload =
     x11, Msg_ClientMsgID = x12, Msg_CreatedAt = x13\<rparr>
   }"

definition peer_outbound_of_json :: "json \<Rightarrow> peer_outbound option" where
  "peer_outbound_of_json j = do {
     fs \<leftarrow> obj_fields j;
     x0 \<leftarrow> read_string (last_field fs ''outbound_id'');
     x1 \<leftarrow> read_string (last_field fs ''peer_id'');
     x2 \<leftarrow> read_string (last_field fs ''message_id'');
     x3 \<leftarrow> read_struct message_of_json (last_field fs ''message'');
     x4 \<leftarrow> read_string (last_field fs ''status'');
     x5 \<leftarrow> read_time (last_field fs ''created_at'');
     x6 \<leftarrow> read_time (last_field fs ''updated_at'');
     x7 \<leftarrow> read_int (last_field fs ''attempt_count'');
     x8 \<leftarrow> read_time (last_field fs ''next_attempt_at'');
     x9 \<leftarrow> read_time_opt (last_field fs ''last_attempt_at'');
     x10 \<leftarrow> read_string (last_field fs ''last_error'');
     x11 \<leftarrow> read_time_opt (last_field fs ''last_delivered_at'');
     Some \<lparr>Out_OutboundID = x0, Out_PeerID = x1, Out_MessageID = x2, Out_Message = x3, Out_Status =
     x4, Out_CreatedAt = x5, Out_UpdatedAt = x6, Out_AttemptCount = x7, Out_NextAttemptAt =
     x8, Out_LastAttemptAt = x9, Out_LastError = x10, Out_LastDeliveredAt = x11\<rparr>
   }"

definition s3_persist_queue_message_of_json :: "json \<Rightarrow> s3_persist_queue_message option" where
  "s3_persist_queue_message_of_json j = do {
     fs \<leftarrow> obj_fields j;
     x0 \<leftarrow> read_string (last_field fs ''message_id'');
     x1 \<leftarrow> read_string (last_field fs ''from_agent_uuid'');
     x2 \<leftarrow> read_string (last_field fs ''to_agent_uuid'');
     x3 \<leftarrow> read_string (last_field fs ''from_agent_id'');
     x4 \<leftarrow> read_string (last_field fs ''to_agent_id'');
     x5 \<leftarrow> read_string (last_field fs ''from_agent_uri'');
     x6 \<leftarrow> read_string (last_field fs ''to_agent_uri'');
     x7 \<leftarrow> read_string (last_field fs ''sender_org_id'');
     x8 \<leftarrow> read_string (last_field fs ''receiver_org_id'');
     x9 \<leftarrow> read_string (last_field fs ''receiver_peer_id'');
     x10 \<leftarrow> read_string (last_field fs ''content_type'');
     x11 \<leftarrow> read_string (last_field fs ''payload'');
     x12 \<leftarrow> read_string_opt (last_field fs ''client_msg_id'');
     x13 \<leftarrow> read_time (last_field fs ''created_at'');
     Some \<lparr>PMsg_MessageID = x0, PMsg_FromAgentUUID = x1, PMsg_ToAgentUUID = x2, PMsg_FromAgentID =
     x3, PMsg_ToAgentID = x4, PMsg_FromAgentURI = x5, PMsg_ToAgentURI = x6, PMsg_SenderOrgID
     = x7, PMsg_ReceiverOrgID = x8, PMsg_ReceiverPeerID = x9, PMsg_ContentType = x10,
     PMsg_Payload = x11, PMsg_ClientMsgID = x12, PMsg_CreatedAt = x13\<rparr>
   }"

definition s3_persist_message_record_of_json :: "json \<Rightarrow> s3_persist_message_record option" where
  "s3_persist_message_record_of_json j = do {
     fs \<leftarrow> obj_fields j;
     x0 \<leftarrow> read_struct s3_persist_queue_message_of_json (last_field fs ''message'');
     x1 \<leftarrow> read_string (last_field fs ''status'');
     x2 \<leftarrow> read_time (last_field fs ''accepted_at'');
     x3 \<leftarrow> read_time (last_field fs ''updated_at'');
     x4 \<leftarrow> read_time_opt (last_field fs ''first_received_at'');
     x5 \<leftarrow> read_time_opt (last_field fs ''last_leased_at'');
     x6 \<leftarrow> read_time_opt (last_field fs ''lease_expires_at'');
     x7 \<leftarrow> read_time_opt (last_field fs ''acked_at'');
     x8 \<leftarrow> read_string_opt (last_field fs ''last_delivery_id'');
     x9 \<leftarrow> read_int (last_field fs ''delivery_attempts'');
     x10 \<leftarrow> read_int (last_field fs ''requeue_count'');
     x11 \<leftarrow> read_int (last_field fs ''idempotent_replays'');
     x12 \<leftarrow> read_string (last_field fs ''last_failure_reason'');
     x13 \<leftarrow> read_time_opt (last_field fs ''last_failure_at'');
     Some \<lparr>PRec_Message = x0, PRec_Status = x1, PRec_AcceptedAt = x2, PRec_UpdatedAt = x3,
     PRec_FirstReceivedAt = x4, PRec_LastLeasedAt = x5, PRec_LeaseExpiresAt = x6,
     PRec_AckedAt = x7, PRec_LastDeliveryID = x8, PRec_DeliveryAttempts = x9,
     PRec_RequeueCount = x10, PRec_IdempotentReplays = x11, PRec_LastFailureReason = x12,
     PRec_LastFailureAt = x13\<rparr>
   }"

definition s3_persist_message_delivery_of_json :: "json \<Rightarrow> s3_persist_message_delivery option" where
  "s3_persist_message_delivery_of_json j = do {
     fs \<leftarrow> obj_fields j;
     x0 \<leftarrow> read_string (last_field fs ''delivery_id'');
     x1 \<leftarrow> read_string (last_field fs ''message_id'');
     x2 \<leftarrow> read_string (last_field fs ''agent_uuid'');
     x3 \<leftarrow> read_int (last_field fs ''attempt'');
     x4 \<leftarrow> read_time (last_field fs ''leased_at'');
     x5 \<leftarrow> read_time (last_field fs ''lease_expires_at'');
     Some \<lparr>PDel_DeliveryID = x0, PDel_MessageID = x1, PDel_AgentUUID = x2, PDel_Attempt = x3,
     PDel_LeasedAt = x4, PDel_LeaseExpiresAt = x5\<rparr>
   }"

definition s3_persist_invite_of_json :: "json \<Rightarrow> s3_persist_invite option" where
  "s3_persist_invite_of_json j = do {
     fs \<leftarrow> obj_fields j;
     x0 \<leftarrow> read_string (last_field fs ''invite_id'');
     x1 \<leftarrow> read_string (last_field fs ''org_id'');
     x2 \<leftarrow> read_string (last_field fs ''email'');
     x3 \<leftarrow> read_string (last_field fs ''role'');
     x4 \<leftarrow> read_string (last_field fs ''status'');
     x5 \<leftarrow> read_string (last_field fs ''created_by'');
     x6 \<leftarrow> read_time (last_field fs ''created_at'');
     x7 \<leftarrow> read_time (last_field fs ''expires_at'');
     x8 \<leftarrow> read_time_opt (last_field fs ''accepted_at'');
     x9 \<leftarrow> read_time_opt (last_field fs ''revoked_at'');
     x10 \<leftarrow> read_string (last_field fs ''invite_secret'');
     Some \<lparr>PInv_InviteID = x0, PInv_OrgID = x1, PInv_Email = x2, PInv_Role = x3, PInv_Status = x4,
     PInv_CreatedBy = x5, PInv_CreatedAt = x6, PInv_ExpiresAt = x7, PInv_AcceptedAt = x8,
     PInv_RevokedAt = x9, PInv_InviteSecret = x10\<rparr>
   }"

definition s3_persist_agent_of_json :: "json \<Rightarrow> s3_persist_agent option" where
  "s3_persist_agent_of_json j = do {
     fs \<leftarrow> obj_fields j;
     x0 \<leftarrow> read_string (last_field fs ''agent_uuid'');
     x1 \<leftarrow> read_string (last_field fs ''agent_id'');
     x2 \<leftarrow> read_string (last_field fs ''handle'');
     x3 \<leftarrow> read_time_opt (last_field fs ''handle_finalized_at'');
     x4 \<leftarrow> read_string (last_field fs ''org_id'');
     x5 \<leftarrow> read_string_opt (last_field fs ''owner_human_id'');
     x6 \<leftarrow> read_string (last_field fs ''host_agent_uuid'');
     x7 \<leftarrow> read_string (last_field fs ''token_hash'');
     x8 \<leftarrow> read_string (last_field fs ''status'');
     x9 \<leftarrow> read_map (last_field fs ''metadata'');
     x10 \<leftarrow> read_string (last_field fs ''created_by'');
     x11 \<leftarrow> read_time (last_field fs ''created_at'');
     x12 \<leftarrow> read_time_opt (last_field fs ''revoked_at'');
     Some \<lparr>PAgent_AgentUUID = x0, PAgent_AgentID = x1, PAgent_Handle = x2, PAgent_HandleFinalizedAt
     = x3, PAgent_OrgID = x4, PAgent_OwnerHumanID = x5, PAgent_HostAgentUUID = x6,
     PAgent_TokenHash = x7, PAgent_Status = x8, PAgent_Metadata = x9, PAgent_CreatedBy = x10,
     PAgent_CreatedAt = x11, PAgent_RevokedAt = x12\<rparr>
   }"

definition s3_persist_bind_token_of_json :: "json \<Rightarrow> s3_persist_bind_token option" where
  "s3_persist_bind_token_of_json j = do {
     fs \<leftarrow> obj_fields j;
     x0 \<leftarrow> read_string (last_field fs ''bind_id'');
     x1 \<leftarrow> read_string (last_field fs ''org_id'');
     x2 \<leftarrow> read_string_opt (last_field fs ''owner_human_id'');
     x3 \<leftarrow> read_string (last_field fs ''host_agent_uuid'');
     x4 \<leftarrow> read_string (last_field fs ''token_hash'');
     x5 \<leftarrow> read_string (last_field fs ''created_by'');
     x6 \<leftarrow> read_time (last_field fs ''created_at'');
     x7 \<leftarrow> read_time (last_field fs ''expires_at'');
     x8 \<leftarrow> read_time_opt (last_field fs ''used_at'');
     Some \<lparr>PBind_BindID = x0, PBind_OrgID = x1, PBind_OwnerHumanID = x2, PBind_HostAgentUUID = x3,
     PBind_TokenHash = x4, PBind_CreatedBy = x5, PBind_CreatedAt = x6, PBind_ExpiresAt = x7,
     PBind_UsedAt = x8\<rparr>
   }"

definition s3_persist_org_access_key_of_json :: "json \<Rightarrow> s3_persist_org_access_key option" where
  "s3_persist_org_access_key_of_json j = do {
     fs \<leftarrow> obj_fields j;
     x0 \<leftarrow> read_string (last_field fs ''key_id'');
     x1 \<leftarrow> read_string (last_field fs ''org_id'');
     x2 \<leftarrow> read_string (last_field fs ''label'');
     x3 \<leftarrow> read_strings (last_field fs ''scopes'');
     x4 \<leftarrow> read_string (last_field fs ''status'');
     x5 \<leftarrow> read_string (last_field fs ''created_by'');
     x6 \<leftarrow> read_time (last_field fs ''created_at'');
     x7 \<leftarrow> read_time_opt (last_field fs ''expires_at'');
     x8 \<leftarrow> read_time_opt (last_field fs ''last_used_at'');
     x9 \<leftarrow> read_time_opt (last_field fs ''revoked_at'');
     x10 \<leftarrow> read_string (last_field fs ''token_hash'');
     Some \<lparr>PKey_KeyID = x0, PKey_OrgID = x1, PKey_Label = x2, PKey_Scopes = x3, PKey_Status = x4,
     PKey_CreatedBy = x5, PKey_CreatedAt = x6, PKey_ExpiresAt = x7, PKey_LastUsedAt = x8,
     PKey_RevokedAt = x9, PKey_TokenHash = x10\<rparr>
   }"

section \<open>Round trips\<close>

text \<open>
  A string option that holds the empty string is written, and read, as that.
\<close>

lemma s3_persist_queue_message_toModel [codec]: "s3_persist_queue_message_toModel (persistQueueMessage v) = v"
  by (simp add: s3_persist_queue_message_toModel_def persistQueueMessage_def)

lemma s3_persist_message_record_toModel [codec]: "s3_persist_message_record_toModel (persistMessageRecord v) = v"
  by (simp add: s3_persist_message_record_toModel_def persistMessageRecord_def s3_persist_queue_message_toModel_def persistQueueMessage_def)

lemma s3_persist_message_delivery_toModel [codec]: "s3_persist_message_delivery_toModel (persistMessageDelivery v) = v"
  by (simp add: s3_persist_message_delivery_toModel_def persistMessageDelivery_def)

lemma s3_persist_invite_toModel [codec]: "s3_persist_invite_toModel (persistInvite v) = v"
  by (simp add: s3_persist_invite_toModel_def persistInvite_def)

lemma s3_persist_agent_toModel [codec]: "s3_persist_agent_toModel (persistAgent v) = v"
  by (simp add: s3_persist_agent_toModel_def persistAgent_def)

lemma s3_persist_bind_token_toModel [codec]: "s3_persist_bind_token_toModel (persistBindToken v) = v"
  by (simp add: s3_persist_bind_token_toModel_def persistBindToken_def)

lemma s3_persist_org_access_key_toModel [codec]: "s3_persist_org_access_key_toModel (persistOrgAccessKey v) = v"
  by (simp add: s3_persist_org_access_key_toModel_def persistOrgAccessKey_def)

lemma organization_codec [codec]:
  "plain_map (Org_Metadata v) \<Longrightarrow> organization_of_json (json_of_organization v) = Some v"
  by (cases v) (simp add: organization_of_json_def json_of_organization_def codec)

lemma human_codec [codec]:
  "plain_map (Human_Metadata v) \<Longrightarrow> human_of_json (json_of_human v) = Some v"
  by (cases v) (simp add: human_of_json_def json_of_human_def codec)

lemma membership_codec [codec]:
  "membership_of_json (json_of_membership v) = Some v"
  by (cases v) (simp add: membership_of_json_def json_of_membership_def codec)

lemma trust_edge_codec [codec]:
  "trust_edge_of_json (json_of_trust_edge v) = Some v"
  by (cases v) (simp add: trust_edge_of_json_def json_of_trust_edge_def codec)

lemma org_stats_codec [codec]:
  "org_stats_of_json (json_of_org_stats v) = Some v"
  by (cases v) (simp add: org_stats_of_json_def json_of_org_stats_def codec)

lemma org_daily_stats_codec [codec]:
  "org_daily_stats_of_json (json_of_org_daily_stats v) = Some v"
  by (cases v) (simp add: org_daily_stats_of_json_def json_of_org_daily_stats_def codec)

lemma audit_event_codec [codec]:
  "plain_map (Ev_Details v) \<Longrightarrow> audit_event_of_json (json_of_audit_event v) = Some v"
  by (cases v) (simp add: audit_event_of_json_def json_of_audit_event_def codec)

lemma peer_instance_codec [codec]:
  "peer_instance_of_json (json_of_peer_instance v) = Some (v\<lparr>Peer_SharedSecret := []\<rparr>)"
  by (cases v) (simp add: peer_instance_of_json_def json_of_peer_instance_def codec)

lemma remote_org_trust_codec [codec]:
  "remote_org_trust_of_json (json_of_remote_org_trust v) = Some v"
  by (cases v) (simp add: remote_org_trust_of_json_def json_of_remote_org_trust_def codec)

lemma remote_agent_trust_codec [codec]:
  "remote_agent_trust_of_json (json_of_remote_agent_trust v) = Some v"
  by (cases v) (simp add: remote_agent_trust_of_json_def json_of_remote_agent_trust_def codec)

lemma message_codec [codec]:
  "message_of_json (json_of_message v) = Some v"
  by (cases v) (simp add: message_of_json_def json_of_message_def codec)

lemma peer_outbound_codec [codec]:
  "peer_outbound_of_json (json_of_peer_outbound v) = Some v"
  by (cases v) (simp add: peer_outbound_of_json_def json_of_peer_outbound_def codec)

lemma s3_persist_queue_message_codec [codec]:
  "s3_persist_queue_message_of_json (json_of_s3_persist_queue_message v) = Some v"
  by (cases v) (simp add: s3_persist_queue_message_of_json_def json_of_s3_persist_queue_message_def codec)

lemma s3_persist_message_record_codec [codec]:
  "s3_persist_message_record_of_json (json_of_s3_persist_message_record v) = Some v"
  by (cases v) (simp add: s3_persist_message_record_of_json_def json_of_s3_persist_message_record_def codec)

lemma s3_persist_message_delivery_codec [codec]:
  "s3_persist_message_delivery_of_json (json_of_s3_persist_message_delivery v) = Some v"
  by (cases v) (simp add: s3_persist_message_delivery_of_json_def json_of_s3_persist_message_delivery_def codec)

lemma s3_persist_invite_codec [codec]:
  "s3_persist_invite_of_json (json_of_s3_persist_invite v) = Some v"
  by (cases v) (simp add: s3_persist_invite_of_json_def json_of_s3_persist_invite_def codec)

lemma s3_persist_agent_codec [codec]:
  "plain_map (PAgent_Metadata v) \<Longrightarrow> s3_persist_agent_of_json (json_of_s3_persist_agent v) = Some v"
  by (cases v) (simp add: s3_persist_agent_of_json_def json_of_s3_persist_agent_def codec)

lemma s3_persist_bind_token_codec [codec]:
  "s3_persist_bind_token_of_json (json_of_s3_persist_bind_token v) = Some v"
  by (cases v) (simp add: s3_persist_bind_token_of_json_def json_of_s3_persist_bind_token_def codec)

lemma s3_persist_org_access_key_codec [codec]:
  "s3_persist_org_access_key_of_json (json_of_s3_persist_org_access_key v) = Some v"
  by (cases v) (simp add: s3_persist_org_access_key_of_json_def json_of_s3_persist_org_access_key_def codec)

end
