(* ===== verification/GoHash.thy ===== *)
theory GoHash
  imports GoURL "HOL-Library.Word"
begin

text \<open>
  \<^verbatim>\<open>crypto/sha256\<close>, \<^verbatim>\<open>crypto/hmac\<close> and \<^verbatim>\<open>encoding/hex\<close> on byte strings, as FIPS 180-4 and RFC
  2104 define them.
\<close>

unbundle bit_operations_syntax

type_synonym w32 = "32 word"

definition rotr :: "nat \<Rightarrow> w32 \<Rightarrow> w32" where
  "rotr n x = (drop_bit n x) OR (push_bit (32 - n) x)"

text \<open>The round constants and the initial state, in decimal.\<close>

definition sha256_k :: "w32 list" where
  "sha256_k =
    [1116352408, 1899447441, 3049323471, 3921009573, 961987163, 1508970993, 2453635748, 2870763221,
     3624381080, 310598401, 607225278, 1426881987, 1925078388, 2162078206, 2614888103, 3248222580,
     3835390401, 4022224774, 264347078, 604807628, 770255983, 1249150122, 1555081692, 1996064986,
     2554220882, 2821834349, 2952996808, 3210313671, 3336571891, 3584528711, 113926993, 338241895,
     666307205, 773529912, 1294757372, 1396182291, 1695183700, 1986661051, 2177026350, 2456956037,
     2730485921, 2820302411, 3259730800, 3345764771, 3516065817, 3600352804, 4094571909, 275423344,
     430227734, 506948616, 659060556, 883997877, 958139571, 1322822218, 1537002063, 1747873779,
     1955562222, 2024104815, 2227730452, 2361852424, 2428436474, 2756734187, 3204031479, 3329325298]"

definition sha256_init :: "w32 list" where
  "sha256_init = [1779033703, 3144134277, 1013904242, 2773480762, 1359893119, 2600822924, 528734635, 1541459225]"

definition byte_of :: "w32 \<Rightarrow> nat \<Rightarrow> char" where
  "byte_of w k = char_of (unat (drop_bit (8 * k) w AND 255))"

definition bytes_of_word :: "w32 \<Rightarrow> string" where
  "bytes_of_word w = [byte_of w 3, byte_of w 2, byte_of w 1, byte_of w 0]"

definition word_of_bytes :: "string \<Rightarrow> w32" where
  "word_of_bytes bs = foldl (\<lambda>a c. push_bit 8 a OR word_of_nat (of_char c)) 0 bs"

fun chunks :: "nat \<Rightarrow> nat \<Rightarrow> 'a list \<Rightarrow> 'a list list" where
  "chunks 0 n xs = []"
| "chunks (Suc k) n xs = take n xs # chunks k n (drop n xs)"

text \<open>The message, a one bit, zeros, and the length in bits as eight bytes.\<close>

definition sha256_pad :: "string \<Rightarrow> string" where
  "sha256_pad s =
     (let n = length s; z = (119 - n mod 64) mod 64 in
      s @ [CHR 0x80] @ replicate z (CHR 0x00) @
      map (\<lambda>k. char_of (8 * int n div 256 ^ k mod 256)) [7, 6, 5, 4, 3, 2, 1, 0])"

text \<open>The message schedule, latest word first.\<close>

definition sha256_extend :: "w32 list \<Rightarrow> w32 list" where
  "sha256_extend w =
     (let s0 = rotr 7 (w ! 14) XOR rotr 18 (w ! 14) XOR drop_bit 3 (w ! 14);
          s1 = rotr 17 (w ! 1) XOR rotr 19 (w ! 1) XOR drop_bit 10 (w ! 1) in
      (w ! 15 + s0 + w ! 6 + s1) # w)"

definition sha256_schedule :: "w32 list \<Rightarrow> w32 list" where
  "sha256_schedule block = rev ((sha256_extend ^^ 48) (rev block))"

fun sha256_round :: "w32 list \<Rightarrow> w32 \<times> w32 \<Rightarrow> w32 list" where
  "sha256_round [a, b, c, d, e, f, g, h] (k, w) =
     (let s1 = rotr 6 e XOR rotr 11 e XOR rotr 25 e;
          ch = (e AND f) XOR (NOT e AND g);
          t1 = h + s1 + ch + k + w;
          s0 = rotr 2 a XOR rotr 13 a XOR rotr 22 a;
          maj = (a AND b) XOR (a AND c) XOR (b AND c);
          t2 = s0 + maj in
      [t1 + t2, a, b, c, d + t1, e, f, g])"
| "sha256_round s _ = s"

definition sha256_block :: "w32 list \<Rightarrow> string \<Rightarrow> w32 list" where
  "sha256_block state block =
     (let w = sha256_schedule (map word_of_bytes (chunks 16 4 block)) in
      map2 (+) state (foldl sha256_round state (zip sha256_k w)))"

definition sha256 :: "string \<Rightarrow> string" where
  "sha256 s =
     (let p = sha256_pad s in
      concat (map bytes_of_word (foldl sha256_block sha256_init (chunks (length p div 64) 64 p))))"

definition xor_byte :: "nat \<Rightarrow> char \<Rightarrow> char" where
  "xor_byte k c = char_of (unat ((word_of_nat k :: 8 word) XOR word_of_nat (of_char c)))"

definition hmac_sha256 :: "string \<Rightarrow> string \<Rightarrow> string" where
  "hmac_sha256 key data =
     (let k = (if length key > 64 then sha256 key else key);
          k = k @ replicate (64 - length k) (CHR 0x00) in
      sha256 (map (xor_byte 0x5c) k @ sha256 (map (xor_byte 0x36) k @ data)))"

definition hex_encode :: "string \<Rightarrow> string" where
  "hex_encode s = concat (map (\<lambda>c. [hex_lower (of_char c div 16), hex_lower (of_char c mod 16)]) s)"

end
