(* ===== verification/S3Connection.thy ===== *)
theory S3Connection
  imports GoHash GoJson ErrorSanitize GoSort
begin

text \<open>
  \<^verbatim>\<open>internal/store/s3_signing.go\<close> and \<^verbatim>\<open>internal/store/s3_connection.go\<close>: requests to an S3
  service.  The service is a function of the client, from a request and the world to a response
  or an error and the world after it; what the caller's context or the client's timeout cuts off
  is an error whose request may have been carried out.  The worker pool only bounds how many
  requests run at a time, and is not modelled.
\<close>

section \<open>Requests and responses\<close>

type_synonym url_values = "string list gomap"

definition query_pairs :: "string \<Rightarrow> (string \<times> string) list" where
  "query_pairs raw =
     concat (map (\<lambda>part.
       if part = [] \<or> CHR '';'' \<in> set part then []
       else let (k, v, _) = Cut part (CHR ''='') in
         case (unescape encodeQueryComponent k, unescape encodeQueryComponent v) of
           (Some k, Some v) \<Rightarrow> [(k, v)]
         | _ \<Rightarrow> []) (split_on (CHR ''&'') raw))"

definition add_value :: "string \<times> string \<Rightarrow> url_values \<Rightarrow> url_values" where
  "add_value kv m = (case fmlookup m (fst kv) of
     None \<Rightarrow> fmupd (fst kv) [snd kv] m | Some vs \<Rightarrow> fmupd (fst kv) (vs @ [snd kv]) m)"

text \<open>\<^verbatim>\<open>URL.Query\<close> and \<^verbatim>\<open>Values.Encode\<close>\<close>

definition url_Query :: "url \<Rightarrow> url_values" where
  "url_Query u = fold add_value (query_pairs (url_RawQuery u)) fmempty"

definition values_Encode :: "url_values \<Rightarrow> string" where
  "values_Encode m = join_with ''&'' (concat (map (\<lambda>(k, vs).
     map (\<lambda>v. QueryEscape k @ ''='' @ QueryEscape v) vs) (sorted_fields m)))"

record http_request =
  hr_Method :: string
  hr_URL :: url
  hr_Header :: "string gomap"
  hr_Body :: "json option"

datatype resp_body = JsonBody json | TextBody string | ListingBody "string list" bool string

record http_response =
  resp_Status :: int
  resp_Body :: resp_body

definition payload_text :: "json option \<Rightarrow> string" where
  "payload_text b = (case b of None \<Rightarrow> [] | Some j \<Rightarrow> json_text j)"

definition body_text :: "resp_body \<Rightarrow> string" where
  "body_text b = (case b of JsonBody j \<Rightarrow> json_text j | TextBody s \<Rightarrow> s
     | ListingBody _ _ _ \<Rightarrow> ''<ListBucketResult/>'')"

definition plain_error :: "string \<Rightarrow> go_error" where
  "plain_error t = \<lparr>err_canceled = False, err_deadline = False, err_temporary = False, err_text = t\<rparr>"

text \<open>\<^verbatim>\<open>fmt.Errorf("...: %w", err)\<close>\<close>

definition wrap_error :: "string \<Rightarrow> go_error \<Rightarrow> go_error" where
  "wrap_error p e = e\<lparr>err_text := p @ '': '' @ err_text e\<rparr>"

section \<open>Signing\<close>

record s3_signer =
  sg_accessKeyID :: string
  sg_secretAccessKey :: string
  sg_region :: string
  sg_service :: string

definition newS3Signer :: "string \<Rightarrow> string \<Rightarrow> string \<Rightarrow> s3_signer option" where
  "newS3Signer accessKeyID secretAccessKey region =
     (let a = TrimSpace accessKeyID; k = TrimSpace secretAccessKey; r = TrimSpace region in
      if a = [] \<or> k = [] \<or> r = [] then None
      else Some \<lparr>sg_accessKeyID = a, sg_secretAccessKey = k, sg_region = r, sg_service = ''s3''\<rparr>)"

definition sha256Hex :: "string \<Rightarrow> string" where
  "sha256Hex d = hex_encode (sha256 d)"

definition awsV4SigningKey :: "string \<Rightarrow> string \<Rightarrow> string \<Rightarrow> string \<Rightarrow> string" where
  "awsV4SigningKey secret shortDate region service =
     (let kDate = hmac_sha256 (''AWS4'' @ secret) shortDate;
          kRegion = hmac_sha256 kDate region;
          kService = hmac_sha256 kRegion service in
      hmac_sha256 kService ''aws4_request'')"

definition canonicalURI :: "url \<Rightarrow> string" where
  "canonicalURI u =
     (let escaped = EscapedPath u in
      if escaped = [] then ''/'' else if \<not> HasPrefix escaped ''/'' then CHR ''/'' # escaped
      else escaped)"

text \<open>The three replacements of the source change what \<^verbatim>\<open>QueryEscape\<close> writes for a space, \<^verbatim>\<open>*\<close> and \<^verbatim>\<open>~\<close>.\<close>

definition aws_replace :: "char \<Rightarrow> string" where
  "aws_replace c = (if c = CHR ''+'' then ''%20'' else if c = CHR ''*'' then ''%2A'' else [c])"

fun replace_tilde :: "string \<Rightarrow> string" where
  "replace_tilde [] = []"
| "replace_tilde (c # s) =
     (if HasPrefix (c # s) ''%7E'' then CHR ''~'' # replace_tilde (drop 2 s)
      else c # replace_tilde s)"

definition awsPercentEncode :: "string \<Rightarrow> string" where
  "awsPercentEncode s = replace_tilde (concat (map aws_replace (QueryEscape s)))"

definition canonicalQuery :: "url_values \<Rightarrow> string" where
  "canonicalQuery vals = join_with ''&'' (concat (map (\<lambda>(k, vs).
     if vs = [] then [awsPercentEncode k @ ''='']
     else map (\<lambda>v. awsPercentEncode k @ ''='' @ awsPercentEncode v) (sort vs)) (sorted_fields vals)))"

text \<open>The layouts \<^verbatim>\<open>20060102\<close> and \<^verbatim>\<open>20060102T150405Z\<close> are those of RFC 3339 without separators.\<close>

definition FormatBasic :: "int \<Rightarrow> string" where
  "FormatBasic t = filter (\<lambda>c. c \<notin> set ''-:'') (FormatRFC3339 t)"

definition SignS3 :: "s3_signer \<Rightarrow> string \<Rightarrow> int \<Rightarrow> http_request \<Rightarrow> go_error + http_request" where
  "SignS3 s payload now req =
     (let timestamp = FormatBasic now;
          shortDate = take 8 timestamp;
          payloadHash = sha256Hex payload;
          host = ToLower (TrimSpace (url_Host (hr_URL req))) in
      if host = [] then Inl (plain_error ''sign request: empty host'')
      else
        let nl = [CHR 0x0A];
            canonicalHeaders = ''host:'' @ host @ nl @ ''x-amz-content-sha256:'' @ payloadHash @ nl @
              ''x-amz-date:'' @ timestamp @ nl;
            signedHeaders = ''host;x-amz-content-sha256;x-amz-date'';
            canonicalRequest = join_with nl [hr_Method req, canonicalURI (hr_URL req),
              canonicalQuery (url_Query (hr_URL req)), canonicalHeaders, signedHeaders, payloadHash];
            scope = shortDate @ ''/'' @ sg_region s @ ''/'' @ sg_service s @ ''/aws4_request'';
            stringToSign = join_with nl [''AWS4-HMAC-SHA256'', timestamp, scope, sha256Hex canonicalRequest];
            signature = hex_encode (hmac_sha256
              (awsV4SigningKey (sg_secretAccessKey s) shortDate (sg_region s) (sg_service s)) stringToSign) in
        Inr (req\<lparr>hr_Header :=
          fmupd ''Authorization'' (''AWS4-HMAC-SHA256 Credential='' @ sg_accessKeyID s @ ''/'' @ scope @
            '', SignedHeaders='' @ signedHeaders @ '', Signature='' @ signature)
          (fmupd ''Host'' host (fmupd ''X-Amz-Date'' timestamp
            (fmupd ''X-Amz-Content-Sha256'' payloadHash (hr_Header req))))\<rparr>))"

section \<open>The connection\<close>

record 'w s3_connection =
  cn_endpoint :: string
  cn_bucket :: string
  cn_signer :: "s3_signer option"
  cn_exchange :: "http_request \<Rightarrow> 'w \<Rightarrow> (go_error + http_response) \<times> 'w"
  cn_now :: "'w \<Rightarrow> int"

record s3_config =
  cfg_Endpoint :: string
  cfg_Bucket :: string
  cfg_Region :: string
  cfg_PathStyle :: bool
  cfg_AccessKeyID :: string
  cfg_SecretAccessKey :: string

definition newS3Connection ::
  "s3_config \<Rightarrow> (http_request \<Rightarrow> 'w \<Rightarrow> (go_error + http_response) \<times> 'w) \<Rightarrow> ('w \<Rightarrow> int) \<Rightarrow>
   go_error + 'w s3_connection" where
  "newS3Connection cfg exchange clock =
     (let endpoint = TrimSpace (cfg_Endpoint cfg); bucket = TrimSpace (cfg_Bucket cfg);
          ak = TrimSpace (cfg_AccessKeyID cfg); sk = TrimSpace (cfg_SecretAccessKey cfg) in
      if endpoint = [] then Inl (plain_error ''s3 endpoint is required'')
      else if \<not> HasPrefix endpoint ''http://'' \<and> \<not> HasPrefix endpoint ''https://''
        then Inl (plain_error ''s3 endpoint must include http:// or https:// scheme'')
      else if bucket = [] then Inl (plain_error ''s3 bucket is required'')
      else if \<not> cfg_PathStyle cfg then Inl (plain_error ''path-style addressing is required in this build'')
      else if (ak = []) \<noteq> (sk = [])
        then Inl (plain_error ''s3 access key id and secret access key must be set together'')
      else Inr \<lparr>cn_endpoint = TrimSuffix endpoint ''/'', cn_bucket = bucket,
        cn_signer = newS3Signer ak sk (TrimSpace (cfg_Region cfg)),
        cn_exchange = exchange, cn_now = clock\<rparr>)"

definition escapeS3Path :: "string \<Rightarrow> string" where
  "escapeS3Path key =
     join_with ''/'' (map PathEscape (filter (\<lambda>p. p \<noteq> []) (split_on (CHR ''/'') (Trim key ''/''))))"

text \<open>
  The text of the URL of an object.  The already escaped key becomes the \<^verbatim>\<open>Path\<close> of the URL, which
  \<^verbatim>\<open>String\<close> escapes again.  An endpoint that does not parse makes the source panic: no result.
\<close>

definition objectURL :: "'w s3_connection \<Rightarrow> string \<Rightarrow> url_values \<Rightarrow> string option" where
  "objectURL c key query =
     (case ParseURL (cn_endpoint c) of
        None \<Rightarrow> None
      | Some u \<Rightarrow>
          let p = JoinRooted [''/'', cn_bucket c];
              p = (if TrimSpace key \<noteq> [] then JoinRooted [p, escapeS3Path key] else p);
              u = u\<lparr>url_Path := p\<rparr> in
          Some (url_String (if query \<noteq> fmempty then u\<lparr>url_RawQuery := values_Encode query\<rparr> else u)))"

definition signRequest :: "'w s3_connection \<Rightarrow> string \<Rightarrow> 'w \<Rightarrow> http_request \<Rightarrow> go_error + http_request" where
  "signRequest c payload w req =
     (case cn_signer c of
        None \<Rightarrow> Inr req
      | Some s \<Rightarrow>
          (case SignS3 s payload (cn_now c w) req of
             Inl e \<Rightarrow> Inl (wrap_error ''sign request'' e)
           | Inr r \<Rightarrow> Inr r))"

text \<open>Building, signing and sending a request; \<open>op\<close> names it in errors.\<close>

definition sendRequest ::
  "'w s3_connection \<Rightarrow> string \<Rightarrow> string \<Rightarrow> string \<Rightarrow> string \<Rightarrow> url_values \<Rightarrow> json option \<Rightarrow> string gomap \<Rightarrow>
   'w \<Rightarrow> (go_error + http_response) \<times> 'w" where
  "sendRequest c build operation method key query body header w =
     (case objectURL c key query of
        None \<Rightarrow> (Inl (plain_error ''nil URL''), w)
      | Some raw \<Rightarrow>
          (case ParseURL raw of
             None \<Rightarrow> (Inl (plain_error build), w)
           | Some u \<Rightarrow>
               (case signRequest c (payload_text body) w
                   \<lparr>hr_Method = method, hr_URL = u, hr_Header = header, hr_Body = body\<rparr> of
                  Inl e \<Rightarrow> (Inl e, w)
                | Inr req \<Rightarrow>
                    (case cn_exchange c req w of
                       (Inl e, w) \<Rightarrow> (Inl (wrap_error operation e), w)
                     | (Inr resp, w) \<Rightarrow> (Inr resp, w)))))"

definition isS3WriteStatus :: "int \<Rightarrow> bool" where
  "isS3WriteStatus code \<longleftrightarrow> code \<in> {200, 201, 202, 204}"

definition s3StatusError :: "string \<Rightarrow> int \<Rightarrow> resp_body \<Rightarrow> go_error" where
  "s3StatusError operation status body =
     (let detail = SanitizeErrorTextWithDetail (TrimSpace (body_text body)) in
      plain_error (operation @ '' status '' @ show_int status @
        (if detail = [] then [] else '': '' @ detail)))"

record s3_list_result =
  ls_Keys :: "string list"
  ls_IsTruncated :: bool
  ls_NextContinuationToken :: string

definition ListObjects ::
  "'w s3_connection \<Rightarrow> string \<Rightarrow> int \<Rightarrow> string \<Rightarrow> bool \<Rightarrow> 'w \<Rightarrow> (go_error + s3_list_result) \<times> 'w" where
  "ListObjects c pre maxKeys token0 allowNotFound w =
     (let token = TrimSpace token0;
          query = fmupd ''prefix'' [TrimSpace pre] (fmupd ''list-type'' [''2''] fmempty);
          query = (if token \<noteq> [] then fmupd ''continuation-token'' [token] query else query);
          query = (if maxKeys > 0 then fmupd ''max-keys'' [show_int maxKeys] query else query) in
      case sendRequest c ''build list request'' ''list objects'' ''GET'' [] query None fmempty w of
        (Inl e, w) \<Rightarrow> (Inl e, w)
      | (Inr resp, w) \<Rightarrow>
          if resp_Status resp = 404 \<and> allowNotFound
            then (Inr \<lparr>ls_Keys = [], ls_IsTruncated = False, ls_NextContinuationToken = []\<rparr>, w)
          else if resp_Status resp \<noteq> 200
            then (Inl (s3StatusError ''list objects'' (resp_Status resp) (resp_Body resp)), w)
          else
            (case resp_Body resp of
               ListingBody contents truncated nxt \<Rightarrow>
                 (Inr \<lparr>ls_Keys = sort (filter (\<lambda>k. k \<noteq> []) (map TrimSpace contents)),
                    ls_IsTruncated = truncated, ls_NextContinuationToken = TrimSpace nxt\<rparr>, w)
             | _ \<Rightarrow> (Inl (plain_error ''decode list result''), w)))"

definition PutObject ::
  "'w s3_connection \<Rightarrow> string \<Rightarrow> json \<Rightarrow> string \<Rightarrow> 'w \<Rightarrow> go_error option \<times> 'w" where
  "PutObject c key body contentType w =
     (let header = (if TrimSpace contentType \<noteq> [] then fmupd ''Content-Type'' contentType fmempty
        else fmempty) in
      case sendRequest c ''build put request'' ''put object'' ''PUT'' key fmempty (Some body) header w of
        (Inl e, w) \<Rightarrow> (Some e, w)
      | (Inr resp, w) \<Rightarrow>
          if \<not> isS3WriteStatus (resp_Status resp)
            then (Some (s3StatusError ''put object'' (resp_Status resp) (resp_Body resp)), w)
          else (None, w))"

text \<open>The body of an object is read up to a limit of 4 MiB; that no object exceeds it is assumed.\<close>

definition GetObject ::
  "'w s3_connection \<Rightarrow> string \<Rightarrow> bool \<Rightarrow> 'w \<Rightarrow> (go_error + resp_body option) \<times> 'w" where
  "GetObject c key allowNotFound w =
     (case sendRequest c ''build get request'' ''get object'' ''GET'' key fmempty None fmempty w of
        (Inl e, w) \<Rightarrow> (Inl e, w)
      | (Inr resp, w) \<Rightarrow>
          if resp_Status resp = 404 \<and> allowNotFound then (Inr None, w)
          else if resp_Status resp \<noteq> 200
            then (Inl (s3StatusError ''get object'' (resp_Status resp) (resp_Body resp)), w)
          else (Inr (Some (resp_Body resp)), w))"

definition DeleteObject ::
  "'w s3_connection \<Rightarrow> string \<Rightarrow> bool \<Rightarrow> 'w \<Rightarrow> go_error option \<times> 'w" where
  "DeleteObject c key allowNotFound w =
     (case sendRequest c ''build delete request'' ''delete object'' ''DELETE'' key fmempty None fmempty w of
        (Inl e, w) \<Rightarrow> (Some e, w)
      | (Inr resp, w) \<Rightarrow>
          if resp_Status resp = 404 \<and> allowNotFound then (None, w)
          else if \<not> isS3WriteStatus (resp_Status resp)
            then (Some (s3StatusError ''delete object'' (resp_Status resp) (resp_Body resp)), w)
          else (None, w))"

end
