(* ===== verification/S3Objects.thy ===== *)
theory S3Objects
  imports S3Codec S3Connection Humans Queue
begin

text \<open>
  The objects in which \<^verbatim>\<open>internal/store/s3_state.go\<close> keeps the state: one object per entry of a
  map, below a prefix per map.
\<close>

section \<open>Keys\<close>

definition prefixed :: "string \<Rightarrow> string \<Rightarrow> string" where
  "prefixed pre part =
     join_with ''/'' (Trim pre ''/'' # filter (\<lambda>p. p \<noteq> []) [Trim part ''/''])"

definition objectKey :: "string list \<Rightarrow> string" where
  "objectKey parts = join_with ''/'' parts"

definition escapeKeySegment :: "string \<Rightarrow> string" where
  "escapeKeySegment v = PathEscape (TrimSpace v)"

definition trimObjectKeyPrefix :: "string \<Rightarrow> string \<Rightarrow> string option" where
  "trimObjectKeyPrefix key pre =
     (let withSlash = Trim pre ''/'' @ ''/''; key = Trim key ''/'' in
      if \<not> HasPrefix key withSlash then None else Some (TrimPrefix key withSlash))"

definition hashKey :: "string \<Rightarrow> string" where
  "hashKey v = hex_encode (sha256 v)"

definition presenceObjectKey :: "string \<Rightarrow> string \<Rightarrow> string" where
  "presenceObjectKey pre agentUUID =
     objectKey [prefixed pre ''state/presence'', escapeKeySegment agentUUID @ ''.json'']"

definition humanPresenceObjectKey :: "string \<Rightarrow> string \<Rightarrow> string" where
  "humanPresenceObjectKey pre humanID =
     objectKey [prefixed pre ''state/human_presence'', escapeKeySegment humanID @ ''.json'']"

definition messageRecordObjectKey :: "string \<Rightarrow> string \<Rightarrow> string" where
  "messageRecordObjectKey pre messageID =
     objectKey [prefixed pre ''state/messages'', escapeKeySegment messageID @ ''.json'']"

definition queueMessageObjectName :: "message \<Rightarrow> string" where
  "queueMessageObjectName m =
     (let i = TrimSpace (Msg_MessageID m);
          i = (if i = [] then hashKey (Msg_FromAgentUUID m @ [NUL] @ Msg_ToAgentUUID m @ [NUL] @
                Msg_ContentType m @ [NUL] @ FormatRFC3339Nano (Msg_CreatedAt m)) else i) in
      escapeKeySegment (FormatRFC3339Nano (Msg_CreatedAt m) @ ''_'' @ i) @ ''.json'')"

section \<open>The objects of a store\<close>

text \<open>
  The objects of one map: one per entry, in the order of the keys.  Where two entries give the
  same object key the source keeps the one it happens to meet last, here the first one.
\<close>

definition collect :: "string \<Rightarrow> ('a \<Rightarrow> json) \<Rightarrow> 'a gomap \<Rightarrow> json gomap" where
  "collect p f m = fmap_of_list (map (\<lambda>(i, v).
     (objectKey [p, escapeKeySegment i @ ''.json''], f v)) (sorted_fields m))"

text \<open>The objects of a map of maps or of lists: a name of its own for each element.\<close>

definition collect_rows ::
  "string \<Rightarrow> ('b \<Rightarrow> (string \<times> json) list) \<Rightarrow> 'b gomap \<Rightarrow> json gomap" where
  "collect_rows p f m = fmap_of_list (concat (map (\<lambda>(i, v).
     map (\<lambda>(name, body). (objectKey [p, escapeKeySegment i, name], body)) (f v)) (sorted_fields m)))"

definition day_rows :: "org_daily_stats gomap \<Rightarrow> (string \<times> json) list" where
  "day_rows perDay = map (\<lambda>(day, row). (escapeKeySegment day @ ''.json'', json_of_org_daily_stats row))
     (sorted_fields perDay)"

definition audit_rows :: "audit_event list \<Rightarrow> (string \<times> json) list" where
  "audit_rows events = map (\<lambda>ev. (escapeKeySegment (Ev_EventID ev) @ ''.json'', json_of_audit_event ev))
     (filter (\<lambda>ev. TrimSpace (Ev_EventID ev) \<noteq> []) events)"

definition queue_rows :: "message list \<Rightarrow> (string \<times> json) list" where
  "queue_rows q = map (\<lambda>m. (queueMessageObjectName m,
     json_of_s3_persist_queue_message (persistQueueMessage m))) q"

definition json_of_personal_org :: "string \<Rightarrow> json" where
  "json_of_personal_org orgID = JObj (put_field ''org_id'' (JStr orgID))"

definition personal_org_of_json :: "json \<Rightarrow> string option" where
  "personal_org_of_json j = do { fs \<leftarrow> obj_fields j; read_string (last_field fs ''org_id'') }"

definition state_parts :: "string list" where
  "state_parts = [''state/humans'', ''state/agents'', ''state/orgs'', ''state/archived_humans'',
     ''state/archived_agents'', ''state/archived_orgs'', ''state/memberships'', ''state/invites'',
     ''state/org_access_keys'', ''state/binds'', ''state/org_trusts'', ''state/agent_trusts'',
     ''state/presence'', ''state/human_presence'', ''state/stats'', ''state/stats_daily'',
     ''state/audit'', ''state/personal_orgs'', ''state/queues'', ''state/messages'',
     ''state/message_leases'', ''state/peers'', ''state/remote_org_trusts'',
     ''state/remote_agent_trusts'', ''state/peer_outbounds'']"

definition persistedPrefixes :: "string \<Rightarrow> string list" where
  "persistedPrefixes pre = map (prefixed pre) state_parts"

text \<open>The prefix of a map and the objects below it.\<close>

definition objs :: "string \<Rightarrow> string \<Rightarrow> ('a \<Rightarrow> json) \<Rightarrow> 'a gomap \<Rightarrow> string \<times> json gomap" where
  "objs pre part f m = (prefixed pre part, collect (prefixed pre part) f m)"

definition rows ::
  "string \<Rightarrow> string \<Rightarrow> ('b \<Rightarrow> (string \<times> json) list) \<Rightarrow> 'b gomap \<Rightarrow> string \<times> json gomap" where
  "rows pre part f m = (prefixed pre part, collect_rows (prefixed pre part) f m)"

definition buildDesiredObjects :: "string \<Rightarrow> memory_store \<Rightarrow> (string \<times> json gomap) list" where
  "buildDesiredObjects pre s =
     [objs pre ''state/humans'' json_of_human (humans s),
      objs pre ''state/agents'' (\<lambda>a. json_of_s3_persist_agent (persistAgent a)) (agents s),
      objs pre ''state/orgs'' json_of_organization (orgs s),
      objs pre ''state/archived_humans'' json_of_human (archivedHumans s),
      objs pre ''state/archived_agents'' (\<lambda>a. json_of_s3_persist_agent (persistAgent a)) (archivedAgents s),
      objs pre ''state/archived_orgs'' json_of_organization (archivedOrgs s),
      objs pre ''state/memberships'' json_of_membership (memberships s),
      objs pre ''state/invites'' (\<lambda>v. json_of_s3_persist_invite (persistInvite v)) (invites s),
      objs pre ''state/org_access_keys'' (\<lambda>k. json_of_s3_persist_org_access_key (persistOrgAccessKey k)) (orgAccessKeys s),
      objs pre ''state/binds'' (\<lambda>b. json_of_s3_persist_bind_token (persistBindToken b)) (binds s),
      objs pre ''state/org_trusts'' json_of_trust_edge (orgTrusts s),
      objs pre ''state/agent_trusts'' json_of_trust_edge (agentTrusts s),
      objs pre ''state/presence'' (\<lambda>p. json_of_map (normalizeAgentPresence p)) (agentPresence s),
      objs pre ''state/human_presence'' (\<lambda>p. json_of_map (normalizeHumanPresence p)) (humanPresence s),
      objs pre ''state/stats'' json_of_org_stats (statsByOrg s),
      rows pre ''state/stats_daily'' day_rows (statsDaily s),
      rows pre ''state/audit'' audit_rows (auditByOrg s),
      objs pre ''state/personal_orgs'' json_of_personal_org (personalOrgByHuman s),
      rows pre ''state/queues'' queue_rows (queues s),
      objs pre ''state/messages'' (\<lambda>r. json_of_s3_persist_message_record (persistMessageRecord r)) (messageRecords s),
      objs pre ''state/message_leases'' (\<lambda>d. json_of_s3_persist_message_delivery (persistMessageDelivery d)) (messageDeliveries s),
      objs pre ''state/peers'' json_of_peer_instance (peerInstances s),
      objs pre ''state/remote_org_trusts'' json_of_remote_org_trust (remoteOrgTrusts s),
      objs pre ''state/remote_agent_trusts'' json_of_remote_agent_trust (remoteAgentTrusts s),
      objs pre ''state/peer_outbounds'' json_of_peer_outbound (peerOutbounds s)]"

definition flattenS3Objects :: "(string \<times> json gomap) list \<Rightarrow> json gomap" where
  "flattenS3Objects byPrefix = fold (\<lambda>(p, m) flat. flat ++\<^sub>f m) byPrefix fmempty"

end
