(* ===== verification/S3Load.thy ===== *)
theory S3Load
  imports S3Objects Metadata Messages Federation
begin

text \<open>
  Loading the state at start: \<^verbatim>\<open>loadFromS3\<close> of \<^verbatim>\<open>internal/store/s3_state.go\<close>, from the objects
  below the prefixes to a store with its indexes.  The goroutines that list and get objects
  only read; they are modelled one after the other, in the order in which jobs are handed out.
\<close>

section \<open>Reading objects\<close>

definition body_json :: "resp_body \<Rightarrow> json option" where
  "body_json b = (case b of JsonBody j \<Rightarrow> Some j | _ \<Rightarrow> None)"

definition getObject :: "'w s3_connection \<Rightarrow> string \<Rightarrow> 'w \<Rightarrow> (go_error + resp_body option) \<times> 'w" where
  "getObject c key w = GetObject c key True w"

definition putObject :: "'w s3_connection \<Rightarrow> string \<Rightarrow> json \<Rightarrow> 'w \<Rightarrow> go_error option \<times> 'w" where
  "putObject c key body w = PutObject c key body ''application/json'' w"

definition deleteObject :: "'w s3_connection \<Rightarrow> string \<Rightarrow> 'w \<Rightarrow> go_error option \<times> 'w" where
  "deleteObject c key w = DeleteObject c key True w"

text \<open>A listing comes in pages; a service that never sends the last one never lets it end.\<close>

partial_function (option) list_pages ::
  "'w s3_connection \<Rightarrow> string \<Rightarrow> string \<Rightarrow> string list \<Rightarrow> 'w \<Rightarrow> ((go_error + string list) \<times> 'w) option" where
  "list_pages c pre token out w =
     (case ListObjects c (TrimSpace pre) 0 token True w of
        (Inl e, w) \<Rightarrow> Some (Inl e, w)
      | (Inr listed, w) \<Rightarrow>
          if \<not> ls_IsTruncated listed \<or> TrimSpace (ls_NextContinuationToken listed) = []
          then Some (Inr (sort (out @ ls_Keys listed)), w)
          else list_pages c pre (TrimSpace (ls_NextContinuationToken listed)) (out @ ls_Keys listed) w)"

definition listKeys ::
  "'w s3_connection \<Rightarrow> string \<Rightarrow> 'w \<Rightarrow> ((go_error + string list) \<times> 'w) option" where
  "listKeys c pre w = list_pages c pre [] [] w"

fun list_prefixes ::
  "'w s3_connection \<Rightarrow> string list \<Rightarrow> 'w \<Rightarrow> ((go_error + (string \<times> string list) list) \<times> 'w) option" where
  "list_prefixes c [] w = Some (Inr [], w)"
| "list_prefixes c (p # ps) w =
     (case listKeys c (p @ ''/'') w of
        None \<Rightarrow> None
      | Some (Inl e, w) \<Rightarrow> Some (Inl (wrap_error (''list objects '' @ p) e), w)
      | Some (Inr keys, w) \<Rightarrow>
          (case list_prefixes c ps w of
             None \<Rightarrow> None
           | Some (Inl e, w) \<Rightarrow> Some (Inl e, w)
           | Some (Inr r, w) \<Rightarrow> Some (Inr ((p, keys) # r), w)))"

fun get_objects ::
  "'w s3_connection \<Rightarrow> string list \<Rightarrow> resp_body gomap \<Rightarrow> 'w \<Rightarrow> (go_error + resp_body gomap) \<times> 'w" where
  "get_objects c [] objects w = (Inr objects, w)"
| "get_objects c (key # keys) objects w =
     (case getObject c key w of
        (Inl e, w) \<Rightarrow> (Inl (wrap_error (''get object '' @ key) e), w)
      | (Inr None, w) \<Rightarrow> get_objects c keys objects w
      | (Inr (Some body), w) \<Rightarrow> get_objects c keys (fmupd key body objects) w)"

fun get_prefixes ::
  "'w s3_connection \<Rightarrow> (string \<times> string list) list \<Rightarrow> 'w \<Rightarrow>
   (go_error + (string \<times> resp_body gomap) list) \<times> 'w" where
  "get_prefixes c [] w = (Inr [], w)"
| "get_prefixes c ((p, keys) # ps) w =
     (case get_objects c keys fmempty w of
        (Inl e, w) \<Rightarrow> (Inl e, w)
      | (Inr objects, w) \<Rightarrow>
          (case get_prefixes c ps w of
             (Inl e, w) \<Rightarrow> (Inl e, w)
           | (Inr r, w) \<Rightarrow> (Inr ((p, objects) # r), w)))"

definition prefetchPrefixes ::
  "'w s3_connection \<Rightarrow> string list \<Rightarrow> 'w \<Rightarrow> ((go_error + (string \<times> resp_body gomap) list) \<times> 'w) option" where
  "prefetchPrefixes c ps w =
     (case list_prefixes c ps w of
        None \<Rightarrow> None
      | Some (Inl e, w) \<Rightarrow> Some (Inl e, w)
      | Some (Inr keysByPrefix, w) \<Rightarrow> Some (get_prefixes c keysByPrefix w))"

text \<open>An error of the memory store, or of the connection.\<close>

datatype s3_error = StoreError store_error | ConnError go_error

section \<open>Loading the maps\<close>

text \<open>A loader of one object: nothing when its body does not decode.\<close>

type_synonym loader = "string \<Rightarrow> resp_body \<Rightarrow> memory_store \<Rightarrow> memory_store option"

fun load_keys :: "loader \<Rightarrow> (string \<times> resp_body) list \<Rightarrow> memory_store \<Rightarrow> go_error + memory_store" where
  "load_keys fn [] m = Inr m"
| "load_keys fn ((key, body) # kbs) m =
     (case fn key body m of
        None \<Rightarrow> Inl (plain_error (''decode '' @ key))
      | Some m \<Rightarrow> load_keys fn kbs m)"

definition loadTypedObjects ::
  "(string \<times> resp_body gomap) list \<Rightarrow> string \<Rightarrow> loader \<Rightarrow> memory_store \<Rightarrow> go_error + memory_store" where
  "loadTypedObjects prefetched p fn m =
     (case map_of prefetched p of
        None \<Rightarrow> Inr m
      | Some objects \<Rightarrow> load_keys fn (sorted_fields objects) m)"

text \<open>The object holds a value that carries its own identifier.\<close>

definition load_value ::
  "(json \<Rightarrow> 'a option) \<Rightarrow> ('a \<Rightarrow> string) \<Rightarrow> ('a \<Rightarrow> memory_store \<Rightarrow> memory_store) \<Rightarrow> loader" where
  "load_value decode ident put key body m =
     (case Option.bind (body_json body) decode of
        None \<Rightarrow> None
      | Some v \<Rightarrow> Some (if TrimSpace (ident v) \<noteq> [] then put v m else m))"

definition load_human :: loader where
  "load_human = load_value human_of_json Human_HumanID
     (\<lambda>v m. m\<lparr>humans := fmupd (Human_HumanID v) v (humans m)\<rparr>)"

definition load_agent :: loader where
  "load_agent = load_value s3_persist_agent_of_json PAgent_AgentUUID
     (\<lambda>v m. m\<lparr>agents := fmupd (PAgent_AgentUUID v) (s3_persist_agent_toModel v) (agents m)\<rparr>)"

definition load_org :: loader where
  "load_org = load_value organization_of_json Org_OrgID
     (\<lambda>v m. m\<lparr>orgs := fmupd (Org_OrgID v) v (orgs m)\<rparr>)"

definition load_archived_human :: loader where
  "load_archived_human = load_value human_of_json Human_HumanID
     (\<lambda>v m. m\<lparr>archivedHumans := fmupd (Human_HumanID v) v (archivedHumans m)\<rparr>)"

definition load_archived_agent :: loader where
  "load_archived_agent = load_value s3_persist_agent_of_json PAgent_AgentUUID
     (\<lambda>v m. m\<lparr>archivedAgents := fmupd (PAgent_AgentUUID v) (s3_persist_agent_toModel v) (archivedAgents m)\<rparr>)"

definition load_archived_org :: loader where
  "load_archived_org = load_value organization_of_json Org_OrgID
     (\<lambda>v m. m\<lparr>archivedOrgs := fmupd (Org_OrgID v) v (archivedOrgs m)\<rparr>)"

definition load_membership :: loader where
  "load_membership = load_value membership_of_json Mem_MembershipID
     (\<lambda>v m. m\<lparr>memberships := fmupd (Mem_MembershipID v) v (memberships m)\<rparr>)"

definition load_invite :: loader where
  "load_invite = load_value s3_persist_invite_of_json PInv_InviteID
     (\<lambda>v m. m\<lparr>invites := fmupd (PInv_InviteID v) (s3_persist_invite_toModel v) (invites m)\<rparr>)"

definition load_access_key :: loader where
  "load_access_key = load_value s3_persist_org_access_key_of_json PKey_KeyID
     (\<lambda>v m. m\<lparr>orgAccessKeys := fmupd (PKey_KeyID v) (s3_persist_org_access_key_toModel v) (orgAccessKeys m)\<rparr>)"

definition load_bind :: loader where
  "load_bind = load_value s3_persist_bind_token_of_json PBind_BindID
     (\<lambda>v m. m\<lparr>binds := fmupd (PBind_BindID v) (s3_persist_bind_token_toModel v) (binds m)\<rparr>)"

definition load_org_trust :: loader where
  "load_org_trust = load_value trust_edge_of_json Edge_EdgeID
     (\<lambda>v m. m\<lparr>orgTrusts := fmupd (Edge_EdgeID v) v (orgTrusts m)\<rparr>)"

definition load_agent_trust :: loader where
  "load_agent_trust = load_value trust_edge_of_json Edge_EdgeID
     (\<lambda>v m. m\<lparr>agentTrusts := fmupd (Edge_EdgeID v) v (agentTrusts m)\<rparr>)"

definition load_stats :: loader where
  "load_stats = load_value org_stats_of_json Stats_OrgID
     (\<lambda>v m. m\<lparr>statsByOrg := fmupd (Stats_OrgID v) v (statsByOrg m)\<rparr>)"

definition load_lease :: loader where
  "load_lease = load_value s3_persist_message_delivery_of_json PDel_DeliveryID
     (\<lambda>v m. m\<lparr>messageDeliveries := fmupd (PDel_DeliveryID v) (s3_persist_message_delivery_toModel v)
        (messageDeliveries m)\<rparr>)"

definition load_peer :: loader where
  "load_peer = load_value peer_instance_of_json Peer_PeerID
     (\<lambda>v m. m\<lparr>peerInstances := fmupd (Peer_PeerID v) v (peerInstances m)\<rparr>)"

definition load_remote_org_trust :: loader where
  "load_remote_org_trust = load_value remote_org_trust_of_json ROT_TrustID
     (\<lambda>v m. m\<lparr>remoteOrgTrusts := fmupd (ROT_TrustID v) v (remoteOrgTrusts m)\<rparr>)"

definition load_remote_agent_trust :: loader where
  "load_remote_agent_trust = load_value remote_agent_trust_of_json RAT_TrustID
     (\<lambda>v m. m\<lparr>remoteAgentTrusts := fmupd (RAT_TrustID v) v (remoteAgentTrusts m)\<rparr>)"

definition load_outbound :: loader where
  "load_outbound = load_value peer_outbound_of_json Out_OutboundID
     (\<lambda>v m. m\<lparr>peerOutbounds := fmupd (Out_OutboundID v) v (peerOutbounds m)\<rparr>)"

text \<open>The identifier is in the object's key; an object with another kind of key is passed over.\<close>

definition load_presence ::
  "string \<Rightarrow> (gmap \<Rightarrow> gmap) \<Rightarrow> (string \<Rightarrow> gmap \<Rightarrow> memory_store \<Rightarrow> memory_store) \<Rightarrow> loader" where
  "load_presence p norm_presence put key body m =
     (case trimObjectKeyPrefix key p of
        None \<Rightarrow> Some m
      | Some relative \<Rightarrow>
          if TrimSpace relative = [] then Some m
          else
            (case PathUnescape (TrimSpace (TrimSuffix (TrimSpace relative) ''.json'')) of
               None \<Rightarrow> Some m
             | Some i \<Rightarrow>
                 if TrimSpace i = [] then Some m
                 else map_option (\<lambda>v. put i (norm_presence v) m) (Option.bind (body_json body) map_of_json)))"

definition load_agent_presence :: "string \<Rightarrow> loader" where
  "load_agent_presence p = load_presence p normalizeAgentPresence
     (\<lambda>i v m. m\<lparr>agentPresence := fmupd i v (agentPresence m)\<rparr>)"

definition load_human_presence :: "string \<Rightarrow> loader" where
  "load_human_presence p = load_presence p normalizeHumanPresence
     (\<lambda>i v m. m\<lparr>humanPresence := fmupd i v (humanPresence m)\<rparr>)"

definition load_row ::
  "string \<Rightarrow> (string \<Rightarrow> bool) \<Rightarrow> (json \<Rightarrow> 'a option) \<Rightarrow> (string \<Rightarrow> 'a \<Rightarrow> memory_store \<Rightarrow> memory_store) \<Rightarrow> loader" where
  "load_row p ok decode put key body m =
     (case trimObjectKeyPrefix key p of
        None \<Rightarrow> Some m
      | Some relative \<Rightarrow>
          let parts = split_on (CHR ''/'') relative in
          if length parts \<noteq> 2 then Some m
          else
            (case PathUnescape (hd parts) of
               None \<Rightarrow> Some m
             | Some i \<Rightarrow>
                 if \<not> ok i then Some m
                 else map_option (\<lambda>v. put i v m) (Option.bind (body_json body) decode)))"

definition load_day :: "string \<Rightarrow> loader" where
  "load_day p = load_row p (\<lambda>_. True) org_daily_stats_of_json
     (\<lambda>i v m. m\<lparr>statsDaily := fmupd i
        (fmupd (Day_Date v) v (case fmlookup (statsDaily m) i of None \<Rightarrow> fmempty | Some d \<Rightarrow> d))
        (statsDaily m)\<rparr>)"

definition load_audit :: "string \<Rightarrow> loader" where
  "load_audit p = load_row p (\<lambda>_. True) audit_event_of_json
     (\<lambda>i v m. m\<lparr>auditByOrg := fmupd i
        ((case fmlookup (auditByOrg m) i of None \<Rightarrow> [] | Some evs \<Rightarrow> evs) @ [v]) (auditByOrg m)\<rparr>)"

definition load_queued :: "string \<Rightarrow> loader" where
  "load_queued p = load_row p (\<lambda>i. TrimSpace i \<noteq> []) s3_persist_queue_message_of_json
     (\<lambda>i v m. m\<lparr>queues := fmupd i (queue_of m i @ [s3_persist_queue_message_toModel v]) (queues m)\<rparr>)"

definition load_personal_org :: "string \<Rightarrow> loader" where
  "load_personal_org p key body m =
     (case trimObjectKeyPrefix key p of
        None \<Rightarrow> Some m
      | Some relative \<Rightarrow>
          (case PathUnescape (TrimSuffix relative ''.json'') of
             None \<Rightarrow> Some m
           | Some i \<Rightarrow>
               map_option (\<lambda>orgID. if TrimSpace orgID = [] then m
                 else m\<lparr>personalOrgByHuman := fmupd i orgID (personalOrgByHuman m)\<rparr>)
               (Option.bind (body_json body) personal_org_of_json)))"

section \<open>Message records\<close>

definition fetchMessageRecord ::
  "'w s3_connection \<Rightarrow> string \<Rightarrow> string \<Rightarrow> 'w \<Rightarrow> (go_error + message_record option) \<times> 'w" where
  "fetchMessageRecord c pre messageID0 w =
     (let messageID = TrimSpace messageID0 in
      if messageID = [] then (Inr None, w)
      else
        (case getObject c (messageRecordObjectKey pre messageID) w of
           (Inl e, w) \<Rightarrow> (Inl e, w)
         | (Inr None, w) \<Rightarrow> (Inr None, w)
         | (Inr (Some body), w) \<Rightarrow>
             (case Option.bind (body_json body) s3_persist_message_record_of_json of
                None \<Rightarrow> (Inl (plain_error ''unmarshal''), w)
              | Some v \<Rightarrow>
                  let r = s3_persist_message_record_toModel v in
                  if TrimSpace (Msg_MessageID (Rec_Message r)) = [] then (Inr None, w)
                  else (Inr (Some r), w))))"

definition cacheMessageRecordLocked :: "message_record \<Rightarrow> memory_store \<Rightarrow> memory_store" where
  "cacheMessageRecordLocked r m =
     (let i = TrimSpace (Msg_MessageID (Rec_Message r)) in
      if i = [] then m
      else
        let m = m\<lparr>messageRecords := fmupd i r (messageRecords m)\<rparr> in
        (case Msg_ClientMsgID (Rec_Message r) of
           None \<Rightarrow> m
         | Some cm \<Rightarrow> m\<lparr>messageByClientMsg :=
             fmupd (messageClientKey (Msg_FromAgentUUID (Rec_Message r)) cm) i (messageByClientMsg m)\<rparr>))"

text \<open>The identifiers of the messages that are in a queue or leased.\<close>

definition active_message_ids :: "memory_store \<Rightarrow> string list" where
  "active_message_ids m = sorted_list_of_set (set (filter (\<lambda>i. i \<noteq> [])
     (map (\<lambda>q. TrimSpace (Msg_MessageID q)) (concat (sorted_values (queues m))) @
      map (\<lambda>d. TrimSpace (Del_MessageID d)) (sorted_values (messageDeliveries m)))))"

fun fetch_records ::
  "'w s3_connection \<Rightarrow> string \<Rightarrow> string list \<Rightarrow> memory_store \<Rightarrow> 'w \<Rightarrow> (go_error + memory_store) \<times> 'w" where
  "fetch_records c pre [] m w = (Inr m, w)"
| "fetch_records c pre (i # ids) m w =
     (case fetchMessageRecord c pre i w of
        (Inl e, w) \<Rightarrow> (Inl (wrap_error (''get active message record '' @ i) e), w)
      | (Inr None, w) \<Rightarrow> fetch_records c pre ids m w
      | (Inr (Some r), w) \<Rightarrow> fetch_records c pre ids (cacheMessageRecordLocked r m) w)"

definition loadActiveMessageRecords ::
  "'w s3_connection \<Rightarrow> string \<Rightarrow> memory_store \<Rightarrow> 'w \<Rightarrow> (go_error + memory_store) \<times> 'w" where
  "loadActiveMessageRecords c pre m w = fetch_records c pre (active_message_ids m) m w"

section \<open>Indexes\<close>

text \<open>Each loop of \<^verbatim>\<open>rebuildStateIndexesLocked\<close>, over a map in the order of its keys.\<close>

definition each :: "(string \<Rightarrow> 'v \<Rightarrow> memory_store \<Rightarrow> memory_store) \<Rightarrow> 'v gomap \<Rightarrow> memory_store \<Rightarrow> memory_store" where
  "each f m s = fold (\<lambda>(i, v). f i v) (sorted_fields m) s"

definition reset_indexes :: "memory_store \<Rightarrow> memory_store" where
  "reset_indexes m = m\<lparr>orgByHandle := fmempty, humanByAuthKey := fmempty, humanByHandle := fmempty,
     membershipByOrgUser := fmempty, inviteBySecretHash := fmempty, orgAccessKeyByHash := fmempty,
     agentByURI := fmempty, agentTokenIdx := fmempty, orgOwnedAgentNameIdx := fmempty,
     humanOwnedAgentNameIdx := fmempty, bindByHash := fmempty, orgTrustByPair := fmempty,
     agentTrustByPair := fmempty, messageByClientMsg := fmempty, peerByCanonicalBase := fmempty,
     remoteOrgTrustByKey := fmempty, remoteAgentTrustByKey := fmempty, peerOutboundByPeer := fmempty\<rparr>"

definition index_org :: "string \<Rightarrow> organization \<Rightarrow> memory_store \<Rightarrow> memory_store" where
  "index_org i v m = m\<lparr>orgByHandle := fmupd (normalizeOrgHandleKey (Org_Handle v)) i (orgByHandle m)\<rparr>"

definition index_human_handle :: "string \<Rightarrow> human \<Rightarrow> memory_store \<Rightarrow> memory_store" where
  "index_human_handle i v m =
     (if Human_Handle v \<noteq> []
      then m\<lparr>humanByHandle := fmupd (normalizeHumanHandleCandidate (Human_Handle v)) i (humanByHandle m)\<rparr>
      else m)"

definition index_human :: "string \<Rightarrow> human \<Rightarrow> memory_store \<Rightarrow> memory_store" where
  "index_human i v m = index_human_handle i v
     (m\<lparr>humanByAuthKey := fmupd (authKey (Human_AuthProvider v) (Human_AuthSubject v)) i (humanByAuthKey m)\<rparr>)"

definition index_membership :: "string \<Rightarrow> membership \<Rightarrow> memory_store \<Rightarrow> memory_store" where
  "index_membership i v m = m\<lparr>membershipByOrgUser :=
     fmupd (orgHumanKey (Mem_OrgID v) (Mem_HumanID v)) i (membershipByOrgUser m)\<rparr>"

definition index_invite :: "string \<Rightarrow> invite \<Rightarrow> memory_store \<Rightarrow> memory_store" where
  "index_invite i v m =
     (if Inv_Status v = StatusPending \<and> Inv_InviteSecret v \<noteq> []
      then m\<lparr>inviteBySecretHash := fmupd (Inv_InviteSecret v) i (inviteBySecretHash m)\<rparr> else m)"

definition index_access_key :: "string \<Rightarrow> org_access_key \<Rightarrow> memory_store \<Rightarrow> memory_store" where
  "index_access_key i v m =
     (if Key_TokenHash v = [] then m
      else if Key_Status v = StatusRevoked \<or> Key_RevokedAt v \<noteq> None then m
      else m\<lparr>orgAccessKeyByHash := fmupd (Key_TokenHash v) i (orgAccessKeyByHash m)\<rparr>)"

definition index_agent_name :: "string \<Rightarrow> agent \<Rightarrow> memory_store \<Rightarrow> memory_store" where
  "index_agent_name i v m =
     (case Agent_OwnerHumanID v of
        Some owner \<Rightarrow> m\<lparr>humanOwnedAgentNameIdx :=
          fmupd (humanOwnedAgentNameKey (Agent_OrgID v) owner (Agent_Handle v)) i (humanOwnedAgentNameIdx m)\<rparr>
      | None \<Rightarrow> m\<lparr>orgOwnedAgentNameIdx :=
          fmupd (orgOwnedAgentNameKey (Agent_OrgID v) (Agent_Handle v)) i (orgOwnedAgentNameIdx m)\<rparr>)"

definition index_archived_agent :: "string \<Rightarrow> agent \<Rightarrow> memory_store \<Rightarrow> memory_store" where
  "index_archived_agent i v m = index_agent_name i v
     (if TrimSpace (Agent_AgentID v) \<noteq> [] then m\<lparr>agentByURI := fmupd (Agent_AgentID v) i (agentByURI m)\<rparr> else m)"

definition index_agent :: "string \<Rightarrow> agent \<Rightarrow> memory_store \<Rightarrow> memory_store" where
  "index_agent i v m =
     (let v = v\<lparr>Agent_Metadata := (case validateAndNormalizeAgentMetadata (Agent_Metadata v) of
            Inl _ \<Rightarrow> defaultAgentMetadata | Inr md \<Rightarrow> md)\<rparr>;
          m = m\<lparr>agents := fmupd i v (agents m)\<rparr> in
      if Agent_Status v = StatusRevoked then m
      else
        let m = index_agent_name i v (m\<lparr>agentByURI := fmupd (Agent_AgentID v) i (agentByURI m),
              agentTokenIdx := fmupd (Agent_TokenHash v) i (agentTokenIdx m)\<rparr>) in
        m\<lparr>queues := fmupd i (queue_of m i) (queues m)\<rparr>)"

definition index_bind :: "string \<Rightarrow> bind_token \<Rightarrow> memory_store \<Rightarrow> memory_store" where
  "index_bind i v m =
     (if Bind_TokenHash v \<noteq> [] then m\<lparr>bindByHash := fmupd (Bind_TokenHash v) i (bindByHash m)\<rparr> else m)"

definition index_org_trust :: "string \<Rightarrow> trust_edge \<Rightarrow> memory_store \<Rightarrow> memory_store" where
  "index_org_trust i v m = m\<lparr>orgTrustByPair := fmupd (pairKey (Edge_LeftID v) (Edge_RightID v)) i (orgTrustByPair m)\<rparr>"

definition index_agent_trust :: "string \<Rightarrow> trust_edge \<Rightarrow> memory_store \<Rightarrow> memory_store" where
  "index_agent_trust i v m = m\<lparr>agentTrustByPair := fmupd (pairKey (Edge_LeftID v) (Edge_RightID v)) i (agentTrustByPair m)\<rparr>"

definition index_record :: "string \<Rightarrow> message_record \<Rightarrow> memory_store \<Rightarrow> memory_store" where
  "index_record i r m =
     (case Msg_ClientMsgID (Rec_Message r) of
        None \<Rightarrow> m
      | Some cm \<Rightarrow> m\<lparr>messageByClientMsg :=
          fmupd (messageClientKey (Msg_FromAgentUUID (Rec_Message r)) cm) i (messageByClientMsg m)\<rparr>)"

definition index_peer :: "string \<Rightarrow> peer_instance \<Rightarrow> memory_store \<Rightarrow> memory_store" where
  "index_peer i v m = m\<lparr>peerByCanonicalBase := fmupd (normalizeBaseURL (Peer_CanonicalBaseURL v)) i (peerByCanonicalBase m)\<rparr>"

definition index_remote_org_trust :: "string \<Rightarrow> remote_org_trust \<Rightarrow> memory_store \<Rightarrow> memory_store" where
  "index_remote_org_trust i v m = m\<lparr>remoteOrgTrustByKey :=
     fmupd (remoteOrgTrustKey (ROT_LocalOrgID v) (ROT_PeerID v) (ROT_RemoteOrgHandle v)) i (remoteOrgTrustByKey m)\<rparr>"

definition index_remote_agent_trust :: "string \<Rightarrow> remote_agent_trust \<Rightarrow> memory_store \<Rightarrow> memory_store" where
  "index_remote_agent_trust i v m = m\<lparr>remoteAgentTrustByKey :=
     fmupd (remoteAgentTrustKey (RAT_LocalAgentUUID v) (RAT_PeerID v) (RAT_RemoteAgentURI v)) i (remoteAgentTrustByKey m)\<rparr>"

definition index_outbound :: "string \<Rightarrow> peer_outbound \<Rightarrow> memory_store \<Rightarrow> memory_store" where
  "index_outbound i v m = m\<lparr>peerOutboundByPeer := fmupd (Out_PeerID v)
     ((case fmlookup (peerOutboundByPeer m) (Out_PeerID v) of None \<Rightarrow> [] | Some l \<Rightarrow> l) @ [i])
     (peerOutboundByPeer m)\<rparr>"

definition rebuildStateIndexesLocked :: "memory_store \<Rightarrow> memory_store" where
  "rebuildStateIndexesLocked m0 =
     (let m = reset_indexes m0;
          m = each index_org (archivedOrgs m) m;
          m = each index_org (orgs m) m;
          m = each index_human_handle (archivedHumans m) m;
          m = each index_human (humans m) m;
          m = each index_membership (memberships m) m;
          m = each index_invite (invites m) m;
          m = each index_access_key (orgAccessKeys m) m;
          m = each index_archived_agent (archivedAgents m) m;
          m = each index_agent (agents m) m;
          m = each index_bind (binds m) m;
          m = each index_org_trust (orgTrusts m) m;
          m = each index_agent_trust (agentTrusts m) m;
          m = each index_record (messageRecords m) m;
          m = each index_peer (peerInstances m) m;
          m = each index_remote_org_trust (remoteOrgTrusts m) m;
          m = each index_remote_agent_trust (remoteAgentTrusts m) m
      in each index_outbound (peerOutbounds m) m)"

section \<open>Loading\<close>

definition queue_order :: "message \<Rightarrow> message \<Rightarrow> bool" where
  "queue_order = lex_less Msg_CreatedAt Msg_MessageID"

definition audit_order :: "audit_event \<Rightarrow> audit_event \<Rightarrow> bool" where
  "audit_order = lex_less Ev_CreatedAt Ev_EventID"

definition sum_bind :: "'e + 'a \<Rightarrow> ('a \<Rightarrow> 'e + 'b) \<Rightarrow> 'e + 'b" where
  "sum_bind r f = (case r of Inl e \<Rightarrow> Inl e | Inr v \<Rightarrow> f v)"

definition load_steps :: "(string \<Rightarrow> loader \<Rightarrow> memory_store \<Rightarrow> go_error + memory_store) \<Rightarrow>
    (string \<times> loader) list \<Rightarrow> memory_store \<Rightarrow> go_error + memory_store" where
  "load_steps load steps m = fold (\<lambda>(p, fn) r. sum_bind r (load p fn)) steps (Inr m)"

text \<open>The maps loaded before the audit log, after it, and after the message records.\<close>

definition loaders_before_audit :: "string \<Rightarrow> (string \<times> loader) list" where
  "loaders_before_audit pre =
     (let p = prefixed pre in
      [(p ''state/humans'', load_human), (p ''state/agents'', load_agent), (p ''state/orgs'', load_org),
       (p ''state/archived_humans'', load_archived_human),
       (p ''state/archived_agents'', load_archived_agent), (p ''state/archived_orgs'', load_archived_org),
       (p ''state/memberships'', load_membership), (p ''state/invites'', load_invite),
       (p ''state/org_access_keys'', load_access_key), (p ''state/binds'', load_bind),
       (p ''state/org_trusts'', load_org_trust), (p ''state/agent_trusts'', load_agent_trust),
       (p ''state/presence'', load_agent_presence (p ''state/presence'')),
       (p ''state/human_presence'', load_human_presence (p ''state/human_presence'')),
       (p ''state/stats'', load_stats), (p ''state/stats_daily'', load_day (p ''state/stats_daily''))])"

definition loaders_before_records :: "string \<Rightarrow> (string \<times> loader) list" where
  "loaders_before_records pre =
     (let p = prefixed pre in
      [(p ''state/personal_orgs'', load_personal_org (p ''state/personal_orgs'')),
       (p ''state/queues'', load_queued (p ''state/queues'')),
       (p ''state/message_leases'', load_lease)])"

definition loaders_after_records :: "string \<Rightarrow> (string \<times> loader) list" where
  "loaders_after_records pre =
     (let p = prefixed pre in
      [(p ''state/peers'', load_peer), (p ''state/remote_org_trusts'', load_remote_org_trust),
       (p ''state/remote_agent_trusts'', load_remote_agent_trust),
       (p ''state/peer_outbounds'', load_outbound)])"

definition loaded_parts :: "string list" where
  "loaded_parts = filter (\<lambda>p. p \<noteq> ''state/messages'') state_parts"

definition load_memory ::
  "'w s3_connection \<Rightarrow> string \<Rightarrow> (string \<times> resp_body gomap) list \<Rightarrow> 'w \<Rightarrow> (go_error + memory_store) \<times> 'w" where
  "load_memory c pre prefetched w =
     (let load = loadTypedObjects prefetched; audit = prefixed pre ''state/audit'' in
      case sum_bind (load_steps load (loaders_before_audit pre) NewMemoryStore) (\<lambda>m.
          load_steps load (loaders_before_records pre)
            (case load audit (load_audit audit) m of
               Inl _ \<Rightarrow> m\<lparr>auditByOrg := fmempty\<rparr> | Inr m' \<Rightarrow> m')) of
        Inl e \<Rightarrow> (Inl e, w)
      | Inr m \<Rightarrow>
          (case loadActiveMessageRecords c pre m w of
             (Inl e, w) \<Rightarrow> (Inl e, w)
           | (Inr m, w) \<Rightarrow>
               (sum_bind (load_steps load (loaders_after_records pre) m) (\<lambda>m.
                  let m = m\<lparr>queues := fmmap (sort_by queue_order) (queues m),
                        auditByOrg := fmmap (sort_by audit_order) (auditByOrg m)\<rparr> in
                  Inr (recomputeQueueMetricsLocked (rebuildStateIndexesLocked m))), w)))"

text \<open>The store that was loaded, and the objects it would write.\<close>

definition loadFromS3 ::
  "'w s3_connection \<Rightarrow> string \<Rightarrow> 'w \<Rightarrow> ((go_error + memory_store \<times> json gomap) \<times> 'w) option" where
  "loadFromS3 c pre w =
     (case prefetchPrefixes c (map (prefixed pre) loaded_parts) w of
        None \<Rightarrow> None
      | Some (Inl e, w) \<Rightarrow> Some (Inl e, w)
      | Some (Inr prefetched, w) \<Rightarrow>
          Some (case load_memory c pre prefetched w of
             (Inl e, w) \<Rightarrow> (Inl e, w)
           | (Inr m, w) \<Rightarrow> (Inr (m, flattenS3Objects (buildDesiredObjects pre m)), w)))"

end
