(* ===== verification/S3Queue.thy ===== *)
theory S3Queue
  imports S3Load
begin

text \<open>
  \<^verbatim>\<open>internal/store/s3_queue.go\<close>: a queue per agent whose messages are objects of a bucket.  The
  name of an object begins with the time of the message in nineteen digits, so that the first
  name in alphabetical order is that of the oldest message.
\<close>

section \<open>The code\<close>

record 'w s3_queue =
  sq_conn :: "'w s3_connection"
  sq_prefix :: string

text \<open>The settings of the environment, as for the state.\<close>

definition queue_config :: "(string \<Rightarrow> string) \<Rightarrow> go_error + s3_config \<times> string" where
  "queue_config env =
     (let get = (\<lambda>n. TrimSpace (env n));
          endpoint = get ''MOLTENHUB_QUEUE_S3_ENDPOINT''; bucket = get ''MOLTENHUB_QUEUE_S3_BUCKET'';
          region = get ''MOLTENHUB_QUEUE_S3_REGION'';
          pre = Trim (get ''MOLTENHUB_QUEUE_S3_PREFIX'') ''/'';
          pathStyleRaw = get ''MOLTENHUB_QUEUE_S3_PATH_STYLE'';
          ak = get ''MOLTENHUB_QUEUE_S3_ACCESS_KEY_ID''; sk = get ''MOLTENHUB_QUEUE_S3_SECRET_ACCESS_KEY'' in
      if endpoint = [] then Inl (plain_error ''MOLTENHUB_QUEUE_S3_ENDPOINT is required for s3 queue backend'')
      else if bucket = [] then Inl (plain_error ''MOLTENHUB_QUEUE_S3_BUCKET is required for s3 queue backend'')
      else if (ak = []) \<noteq> (sk = []) then Inl (plain_error
        ''MOLTENHUB_QUEUE_S3_ACCESS_KEY_ID and MOLTENHUB_QUEUE_S3_SECRET_ACCESS_KEY must be set together'')
      else if pathStyleRaw \<noteq> [] \<and> \<not> EqualFold pathStyleRaw ''true'' then Inl (plain_error
        ''MOLTENHUB_QUEUE_S3_PATH_STYLE=false is not supported in this build'')
      else if \<not> HasPrefix endpoint ''http://'' \<and> \<not> HasPrefix endpoint ''https://'' then Inl (plain_error
        ''MOLTENHUB_QUEUE_S3_ENDPOINT must include http:// or https:// scheme'')
      else Inr (\<lparr>cfg_Endpoint = endpoint, cfg_Bucket = bucket,
        cfg_Region = (if region = [] then ''us-east-1'' else region), cfg_PathStyle = True,
        cfg_AccessKeyID = ak, cfg_SecretAccessKey = sk\<rparr>,
        if pre = [] then ''moltenhub-queue'' else pre))"

definition queuePrefix :: "'w s3_queue \<Rightarrow> string \<Rightarrow> string" where
  "queuePrefix q agentUUID = sq_prefix q @ ''/queues/'' @ agentUUID @ ''/''"

text \<open>A message without a time is given that of the clock, \<open>clock\<close>.\<close>

definition queueObjectKey :: "'w s3_queue \<Rightarrow> string \<Rightarrow> int \<Rightarrow> string \<Rightarrow> int \<Rightarrow> string" where
  "queueObjectKey q agentUUID createdAt messageID clock =
     (let ts = (if createdAt \<le> 0 then clock else createdAt) in
      queuePrefix q agentUUID @ pad_left 19 (show_int ts) @ ''_'' @ messageID @ ''.json'')"

definition SQ_Enqueue :: "'w s3_queue \<Rightarrow> message \<Rightarrow> 'w \<Rightarrow> s3_error option \<times> 'w" where
  "SQ_Enqueue q m w =
     (if Msg_ToAgentUUID m = [] then (Some (StoreError ErrAgentNotFound), w)
      else
        let key = queueObjectKey q (Msg_ToAgentUUID m) (Msg_CreatedAt m) (Msg_MessageID m) (cn_now (sq_conn q) w) in
        (case putObject (sq_conn q) key (json_of_message m) w of
           (Some e, w) \<Rightarrow> (Some (ConnError e), w)
         | (None, w) \<Rightarrow> (None, w)))"

definition listOldestKey :: "'w s3_queue \<Rightarrow> string \<Rightarrow> 'w \<Rightarrow> (go_error + string option) \<times> 'w" where
  "listOldestKey q agentUUID w =
     (case ListObjects (sq_conn q) (queuePrefix q agentUUID) 1 [] False w of
        (Inl e, w) \<Rightarrow> (Inl e, w)
      | (Inr listed, w) \<Rightarrow>
          (case ls_Keys listed of
             [] \<Rightarrow> (Inr None, w)
           | k # _ \<Rightarrow> (Inr (if TrimSpace k = [] then None else Some (TrimSpace k)), w)))"

definition readMessage :: "'w s3_queue \<Rightarrow> string \<Rightarrow> 'w \<Rightarrow> (go_error + message) \<times> 'w" where
  "readMessage q key w =
     (case GetObject (sq_conn q) key False w of
        (Inl e, w) \<Rightarrow> (Inl e, w)
      | (Inr None, w) \<Rightarrow> (Inl (plain_error ''get object status 404: not found''), w)
      | (Inr (Some body), w) \<Rightarrow>
          (case Option.bind (body_json body) message_of_json of
             None \<Rightarrow> (Inl (plain_error ''decode message''), w)
           | Some m \<Rightarrow> (Inr m, w)))"

text \<open>The lock of an agent keeps two calls for it apart: the whole call is one step.\<close>

definition SQ_Dequeue :: "'w s3_queue \<Rightarrow> string \<Rightarrow> 'w \<Rightarrow> (go_error + message option) \<times> 'w" where
  "SQ_Dequeue q agentUUID w =
     (if agentUUID = [] then (Inr None, w)
      else
        (case listOldestKey q agentUUID w of
           (Inl e, w) \<Rightarrow> (Inl e, w)
         | (Inr None, w) \<Rightarrow> (Inr None, w)
         | (Inr (Some key), w) \<Rightarrow>
             (case readMessage q key w of
                (Inl e, w) \<Rightarrow> (Inl e, w)
              | (Inr m, w) \<Rightarrow>
                  (case DeleteObject (sq_conn q) key False w of
                     (Some e, w) \<Rightarrow> (Inl e, w)
                   | (None, w) \<Rightarrow> (Inr (Some m), w)))))"

definition SQ_StartupCheck :: "'w s3_queue \<Rightarrow> 'w \<Rightarrow> go_error option \<times> 'w" where
  "SQ_StartupCheck q w =
     (case ListObjects (sq_conn q) (sq_prefix q @ ''/queues/'') 1 [] False w of
        (Inl e, w) \<Rightarrow> (Some (wrap_error ''queue startup check request'' e), w)
      | (Inr _, w) \<Rightarrow>
          let key = sq_prefix q @ ''/startup-check/'' @ pad_left 19 (show_int (cn_now (sq_conn q) w)) @ ''.json'' in
          (case putObject (sq_conn q) key (JObj (put_field ''check'' (JStr ''queue_startup''))) w of
             (Some e, w) \<Rightarrow> (Some (wrap_error ''queue startup check write failed'' e), w)
           | (None, w) \<Rightarrow>
               (case DeleteObject (sq_conn q) key False w of
                  (Some e, w) \<Rightarrow> (Some (wrap_error ''queue startup check cleanup failed'' e), w)
                | (None, w) \<Rightarrow> (None, w))))"

end
