(* ===== verification/ObjectStore.thy ===== *)
theory ObjectStore
  imports S3Load
begin

text \<open>
  What the program relies on in an S3 service, seen through its connection: objects by key.  A
  request that fails may have been carried out.  Keys are \<open>plain\<close>: nothing in them has to be
  escaped in a URL, which is how the program's own keys look when its identifiers do.
\<close>

section \<open>Plain keys\<close>

definition key_char :: "char \<Rightarrow> bool" where
  "key_char c \<longleftrightarrow> is_lower c \<or> is_upper c \<or> is_digit c \<or> c \<in> set ''-_.~$&+:=@''"

definition plain_segment :: "string \<Rightarrow> bool" where
  "plain_segment p \<longleftrightarrow> p \<notin> {[], ''.'', ''..''} \<and> list_all key_char p"

definition plain_key :: "string \<Rightarrow> bool" where
  "plain_key k \<longleftrightarrow> list_all plain_segment (split_on (CHR ''/'') k)"

definition plain_keys :: "'v gomap \<Rightarrow> bool" where
  "plain_keys m \<longleftrightarrow> (\<forall>k. fmlookup m k \<noteq> None \<longrightarrow> plain_key k)"

definition keys_below :: "string \<Rightarrow> 'v gomap \<Rightarrow> 'v gomap" where
  "keys_below pre m = fmfilter (prefix pre) m"

section \<open>The service\<close>

locale object_store =
  fixes c :: "'w s3_connection" and contents :: "'w \<Rightarrow> json gomap"
  assumes put: "plain_key k \<Longrightarrow> PutObject c k b ct w = (r, w') \<Longrightarrow>
      contents w' = fmupd k b (contents w) \<or> (r \<noteq> None \<and> contents w' = contents w)"
    and del: "plain_key k \<Longrightarrow> DeleteObject c k nf w = (r, w') \<Longrightarrow>
      contents w' = fmdrop k (contents w) \<or> (r \<noteq> None \<and> contents w' = contents w)"
    and get_fails: "GetObject c k nf w = (Inl e, w') \<Longrightarrow> contents w' = contents w"
    and get: "plain_key k \<Longrightarrow> GetObject c k nf w = (Inr g, w') \<Longrightarrow>
      contents w' = contents w \<and> g = map_option JsonBody (fmlookup (contents w) k)"
    and list_fails: "ListObjects c pre n tok nf w = (Inl e, w') \<Longrightarrow> contents w' = contents w"
    and list_first: "plain_keys (contents w) \<Longrightarrow> TrimSpace pre = pre \<Longrightarrow> ListObjects c pre 1 [] nf w = (Inr l, w') \<Longrightarrow>
      contents w' = contents w \<and> ls_Keys l = take 1 (sorted_keys (keys_below pre (contents w)))"
    and list_all_keys: "plain_keys (contents w) \<Longrightarrow> TrimSpace pre = pre \<Longrightarrow> listKeys c pre w = Some (Inr ks, w') \<Longrightarrow>
      contents w' = contents w \<and> ks = sorted_keys (keys_below pre (contents w))"
begin

lemma put_done: "plain_key k \<Longrightarrow> PutObject c k b ct w = (None, w') \<Longrightarrow> contents w' = fmupd k b (contents w)"
  using put by blast

lemma del_done: "plain_key k \<Longrightarrow> DeleteObject c k nf w = (None, w') \<Longrightarrow> contents w' = fmdrop k (contents w)"
  using del by blast

text \<open>The objects read are those stored.\<close>

lemma get_objects_read:
  assumes "get_objects c ks m w = (Inr r, w')" and "list_all plain_key ks"
  shows "contents w' = contents w \<and>
    (\<forall>k. fmlookup r k = (if k \<in> set ks \<and> fmlookup (contents w) k \<noteq> None
       then map_option JsonBody (fmlookup (contents w) k) else fmlookup m k))"
  using assms
proof (induction ks arbitrary: m w)
  case (Cons k ks)
  have k: "plain_key k" and ks: "list_all plain_key ks" using Cons.prems(2) by simp_all
  obtain g w1 where g: "getObject c k w = (Inr g, w1)"
    using Cons.prems(1) by (cases "getObject c k w"; cases "fst (getObject c k w)") auto
  from get [OF k g [unfolded getObject_def]]
  have w1: "contents w1 = contents w" "g = map_option JsonBody (fmlookup (contents w) k)" by simp_all
  show ?case
  proof (cases "fmlookup (contents w) k")
    case None
    with g w1 Cons.prems(1) have "get_objects c ks m w1 = (Inr r, w')" by simp
    from Cons.IH [OF this ks] w1 None show ?thesis by auto
  next
    case (Some b)
    with g w1 Cons.prems(1) have "get_objects c ks (fmupd k (JsonBody b) m) w1 = (Inr r, w')" by simp
    from Cons.IH [OF this ks] w1 Some show ?thesis by auto
  qed
qed simp

lemma get_prefixes_read:
  assumes "get_prefixes c kps w = (Inr r, w')"
    and plain: "plain_keys (contents w)"
    and "\<And>p ks. (p, ks) \<in> set kps \<Longrightarrow> ks = sorted_keys (keys_below (p @ ''/'') (contents w))"
  shows "contents w' = contents w \<and> map fst r = map fst kps \<and>
    (\<forall>p m. (p, m) \<in> set r \<longrightarrow> m = fmmap JsonBody (keys_below (p @ ''/'') (contents w)))"
  using assms
proof (induction kps arbitrary: r w)
  case (Cons kp kps)
  obtain p ks where kp: "kp = (p, ks)" by (cases kp)
  obtain m w1 where m: "get_objects c ks fmempty w = (Inr m, w1)"
    using Cons.prems(1) kp by (cases "get_objects c ks fmempty w"; cases "fst (get_objects c ks fmempty w)") auto
  have ks: "list_all plain_key ks" "ks = sorted_keys (keys_below (p @ ''/'') (contents w))"
    using Cons.prems(2) Cons.prems(3) [of p ks] unfolding kp plain_keys_def
    by (auto simp: list_all_iff sorted_keys_def keys_below_def fmlookup_dom_iff)
  note read = get_objects_read [OF m ks(1)]
  have "m = fmmap JsonBody (keys_below (p @ ''/'') (contents w))"
    using read by (intro fmap_ext) (auto simp: ks(2) keys_below_def sorted_keys_def fmlookup_dom_iff)
  moreover obtain r' where r': "get_prefixes c kps w1 = (Inr r', w')" "r = (p, m) # r'"
    using Cons.prems(1) kp m by (cases "get_prefixes c kps w1"; cases "fst (get_prefixes c kps w1)") auto
  ultimately show ?case
    using Cons.IH [OF r'(1)] Cons.prems(2,3) read kp by auto
qed simp

lemma list_prefixes_read:
  assumes "list_prefixes c ps w = Some (Inr r, w')"
    and "plain_keys (contents w)"
    and "\<And>p. p \<in> set ps \<Longrightarrow> TrimSpace (p @ ''/'') = p @ ''/''"
  shows "contents w' = contents w \<and>
    r = map (\<lambda>p. (p, sorted_keys (keys_below (p @ ''/'') (contents w)))) ps"
  using assms
proof (induction ps arbitrary: r w)
  case (Cons p ps)
  obtain ks w1 where ks: "listKeys c (p @ ''/'') w = Some (Inr ks, w1)"
    using Cons.prems(1) by (auto split: option.splits sum.splits)
  from list_all_keys [OF Cons.prems(2,3) ks] have w1: "contents w1 = contents w"
    "ks = sorted_keys (keys_below (p @ ''/'') (contents w))" by simp_all
  obtain r' where r': "list_prefixes c ps w1 = Some (Inr r', w')" "r = (p, ks) # r'"
    using Cons.prems(1) ks by (auto split: option.splits sum.splits)
  from Cons.IH [OF r'(1)] Cons.prems(2,3) w1 r'(2) show ?case by auto
qed simp

lemma prefetch_read:
  assumes "prefetchPrefixes c ps w = Some (Inr r, w')" and "\<And>p. p \<in> set ps \<Longrightarrow> TrimSpace (p @ ''/'') = p @ ''/''"
    and plain: "plain_keys (contents w)"
    and "p \<in> set ps"
  shows "map_of r p = Some (fmmap JsonBody (keys_below (p @ ''/'') (contents w)))" "contents w' = contents w"
proof -
  obtain kps w1 where kps: "list_prefixes c ps w = Some (Inr kps, w1)" "get_prefixes c kps w1 = (Inr r, w')"
    using assms(1) by (auto simp: prefetchPrefixes_def split: option.splits sum.splits)
  from list_prefixes_read [OF kps(1) plain assms(2)]
  have w1: "contents w1 = contents w" and kps': "kps = map (\<lambda>p. (p, sorted_keys (keys_below (p @ ''/'') (contents w)))) ps"
    by simp_all
  have "ks = sorted_keys (keys_below (q @ ''/'') (contents w1))" if "(q, ks) \<in> set kps" for q ks
    using that w1 by (auto simp: kps')
  from get_prefixes_read [OF kps(2) plain [folded w1] this] w1
  have r: "contents w' = contents w" "map fst r = ps"
    "\<And>q m. (q, m) \<in> set r \<Longrightarrow> m = fmmap JsonBody (keys_below (q @ ''/'') (contents w))"
    by (auto simp: kps' comp_def)
  have "p \<in> fst ` set r" using assms(4) r(2) by (metis list.set_map)
  then obtain m where "map_of r p = Some m" by (metis map_of_eq_None_iff not_None_eq)
  with r(3) [OF map_of_SomeD] r(1)
  show "map_of r p = Some (fmmap JsonBody (keys_below (p @ ''/'') (contents w)))" "contents w' = contents w"
    by simp_all
qed

end

text \<open>A service that carries out every request for a plain key, and every listing of plain keys.\<close>

locale reliable_store = object_store +
  assumes put_ok: "plain_key k \<Longrightarrow> fst (PutObject c k b ct w) = None"
    and del_ok: "plain_key k \<Longrightarrow> fst (DeleteObject c k nf w) = None"
    and get_ok: "plain_key k \<Longrightarrow> \<exists>g. fst (GetObject c k True w) = Inr g"
    and list_ok: "plain_keys (contents w) \<Longrightarrow> TrimSpace pre = pre \<Longrightarrow> \<exists>ks w'. listKeys c pre w = Some (Inr ks, w')"
begin

lemma get_plain:
  assumes "plain_key k"
  shows "\<exists>w'. getObject c k w = (Inr (map_option JsonBody (fmlookup (contents w) k)), w') \<and> contents w' = contents w"
proof -
  obtain g w' where g: "GetObject c k True w = (Inr g, w')"
    using get_ok [OF assms, of w] by (metis prod.collapse)
  with get [OF assms g] show ?thesis by (auto simp: getObject_def)
qed

lemma get_objects_ok:
  "list_all plain_key ks \<Longrightarrow> \<exists>r w'. get_objects c ks m w = (Inr r, w') \<and> contents w' = contents w"
proof (induction ks arbitrary: m w)
  case (Cons k ks)
  then have k: "plain_key k" by simp
  obtain w1 where "getObject c k w = (Inr (map_option JsonBody (fmlookup (contents w) k)), w1)"
    "contents w1 = contents w" using get_plain [OF k] by blast
  with Cons show ?case by (cases "fmlookup (contents w) k") (simp_all, metis+)
qed simp

lemma list_prefixes_ok:
  assumes "plain_keys (contents w)" and "\<And>p. p \<in> set ps \<Longrightarrow> TrimSpace (p @ ''/'') = p @ ''/''"
  shows "\<exists>r w'. list_prefixes c ps w = Some (Inr r, w')"
  using assms
proof (induction ps arbitrary: w)
  case (Cons p ps)
  obtain ks w1 where ks: "listKeys c (p @ ''/'') w = Some (Inr ks, w1)"
    using list_ok Cons.prems by (metis list.set_intros(1))
  with list_all_keys Cons.prems have "contents w1 = contents w" by (metis list.set_intros(1))
  with Cons.IH [of w1] Cons.prems obtain r w' where "list_prefixes c ps w1 = Some (Inr r, w')" by auto
  with ks show ?case by simp
qed simp

lemma get_prefixes_ok:
  assumes "list_all (\<lambda>(p, ks). list_all plain_key ks) kps"
  shows "\<exists>r w'. get_prefixes c kps w = (Inr r, w')"
  using assms
proof (induction kps arbitrary: w)
  case (Cons kp kps)
  obtain p ks where kp: "kp = (p, ks)" by force
  with Cons.prems get_objects_ok [of ks fmempty w] obtain m w1 where
    "get_objects c ks fmempty w = (Inr m, w1)" by auto
  moreover obtain r w' where "get_prefixes c kps w1 = (Inr r, w')" using Cons.IH [of w1] Cons.prems by (simp, blast)
  ultimately show ?case by (simp add: kp)
qed simp

lemma prefetch_ok:
  assumes "plain_keys (contents w)" and "\<And>p. p \<in> set ps \<Longrightarrow> TrimSpace (p @ ''/'') = p @ ''/''"
  shows "\<exists>r w'. prefetchPrefixes c ps w = Some (Inr r, w')"
proof -
  obtain kps w1 where kps: "list_prefixes c ps w = Some (Inr kps, w1)" using list_prefixes_ok [OF assms] by blast
  from list_prefixes_read [OF kps assms] have
    "kps = map (\<lambda>p. (p, sorted_keys (keys_below (p @ ''/'') (contents w)))) ps" by simp
  then have "list_all (\<lambda>(p, ks). list_all plain_key ks) kps"
    using assms(1) by (auto simp: list_all_iff plain_keys_def sorted_keys_def keys_below_def fmlookup_dom_iff)
  from get_prefixes_ok [OF this] kps show ?thesis by (auto simp: prefetchPrefixes_def)
qed

end

end
