(* ===== verification/Bucket.thy ===== *)
theory Bucket
  imports ObjectStore
begin

text \<open>
  A service that keeps the objects of one bucket, addressed by URL as S3 addresses them, and the
  proof that the program's connection to it meets the contract \<open>object_store\<close>: the URLs, the
  queries and the status codes that the program builds and reads fit those of the service.
\<close>

section \<open>The service\<close>

definition bucket_list :: "url_values \<Rightarrow> json gomap \<Rightarrow> http_response" where
  "bucket_list q w =
     (let pre = (case fmlookup q ''prefix'' of Some (p # _) \<Rightarrow> p | _ \<Rightarrow> []);
          keys = sorted_keys (keys_below pre w);
          n = (case fmlookup q ''max-keys'' of Some (s # _) \<Rightarrow> digits_value s | _ \<Rightarrow> length keys) in
      \<lparr>resp_Status = 200, resp_Body = ListingBody (take n keys) (n < length keys) ''more''\<rparr>)"

definition bucket_exchange :: "http_request \<Rightarrow> json gomap \<Rightarrow> (go_error + http_response) \<times> json gomap" where
  "bucket_exchange req w =
     (let path = url_Path (hr_URL req); key = drop 5 path; empty = TextBody [] in
      if hr_Method req = ''GET'' \<and> path = ''/hub'' then (Inr (bucket_list (url_Query (hr_URL req)) w), w)
      else if hr_Method req = ''GET'' then
        (Inr (case fmlookup w key of
           None \<Rightarrow> \<lparr>resp_Status = 404, resp_Body = empty\<rparr>
         | Some j \<Rightarrow> \<lparr>resp_Status = 200, resp_Body = JsonBody j\<rparr>), w)
      else if hr_Method req = ''PUT'' then
        (case hr_Body req of
           None \<Rightarrow> (Inr \<lparr>resp_Status = 400, resp_Body = empty\<rparr>, w)
         | Some j \<Rightarrow> (Inr \<lparr>resp_Status = 200, resp_Body = empty\<rparr>, fmupd key j w))
      else (Inr \<lparr>resp_Status = 204, resp_Body = empty\<rparr>, fmdrop key w))"

definition bucket_conn :: "json gomap s3_connection" where
  "bucket_conn = \<lparr>cn_endpoint = ''http://s3'', cn_bucket = ''hub'',
     cn_signer = newS3Signer ''key'' ''secret'' ''us-east-1'', cn_exchange = bucket_exchange,
     cn_now = (\<lambda>_. 1700000000 * Second)\<rparr>"

section \<open>Addressing\<close>

definition path_char :: "char \<Rightarrow> bool" where
  "path_char c \<longleftrightarrow> key_char c \<or> c = CHR ''/''"

lemma key_char_plain:
  assumes "key_char c"
  shows "\<not> shouldEscape encodePathSegment c" "\<not> shouldEscape encodePath c" "\<not> is_space c"
    "c \<notin> set ''/#?'' \<and> c \<noteq> CHR ''%''" "\<not> of_char c < (32 :: nat)" "of_char c \<noteq> (127 :: nat)"
proof -
  have chars: "\<forall>c. key_char c \<longrightarrow> c \<in> set ''abcdefghijklmnopqrstuvwxyzABCDEFGHIJKLMNOPQRSTUVWXYZ0123456789-_.~$&+:=@''"
    by code_simp
  have all: "list_all (\<lambda>c. \<not> shouldEscape encodePathSegment c \<and> \<not> shouldEscape encodePath c \<and> \<not> is_space c \<and>
    c \<notin> set ''/#?'' \<and> c \<noteq> CHR ''%'' \<and> \<not> of_char c < (32 :: nat) \<and> of_char c \<noteq> (127 :: nat))
    ''abcdefghijklmnopqrstuvwxyzABCDEFGHIJKLMNOPQRSTUVWXYZ0123456789-_.~$&+:=@''"
    by code_simp
  from assms chars all have "\<not> shouldEscape encodePathSegment c \<and> \<not> shouldEscape encodePath c \<and> \<not> is_space c \<and>
    (c \<notin> set ''/#?'' \<and> c \<noteq> CHR ''%'') \<and> \<not> of_char c < (32 :: nat) \<and> of_char c \<noteq> (127 :: nat)"
    unfolding list_all_iff by blast
  then show "\<not> shouldEscape encodePathSegment c" "\<not> shouldEscape encodePath c" "\<not> is_space c"
    "c \<notin> set ''/#?'' \<and> c \<noteq> CHR ''%''" "\<not> of_char c < (32 :: nat)" "of_char c \<noteq> (127 :: nat)"
    by blast+
qed


lemma path_char_plain:
  assumes "path_char c"
  shows "\<not> shouldEscape encodePath c" "\<not> is_space c" "c \<notin> set ''#?'' \<and> c \<noteq> CHR ''%''"
    "\<not> of_char c < (32 :: nat)" "of_char c \<noteq> (127 :: nat)"
proof -
  have slash: "\<not> shouldEscape encodePath (CHR ''/'') \<and> \<not> is_space (CHR ''/'') \<and>
      \<not> of_char (CHR ''/'') < (32 :: nat) \<and> of_char (CHR ''/'') \<noteq> (127 :: nat)"
    by code_simp
  show "\<not> shouldEscape encodePath c" "\<not> is_space c" "c \<notin> set ''#?'' \<and> c \<noteq> CHR ''%''"
    "\<not> of_char c < (32 :: nat)" "of_char c \<noteq> (127 :: nat)"
    using assms key_char_plain [of c] slash unfolding path_char_def by auto
qed

text \<open>The URL of a path on this service, with a query or without.\<close>

definition hub_url :: "string \<Rightarrow> string \<Rightarrow> url" where
  "hub_url p q = empty_url\<lparr>url_Scheme := ''http'', url_Host := ''s3'', url_Path := CHR ''/'' # p,
     url_RawQuery := q\<rparr>"

definition query_char :: "char \<Rightarrow> bool" where
  "query_char c \<longleftrightarrow> c \<in> set ''0123456789ABCDEF%+=&'' \<or> \<not> shouldEscape encodeQueryComponent c"

lemma query_char_plain: "query_char c \<Longrightarrow> c \<notin> set ''#?'' \<and> \<not> of_char c < (32 :: nat) \<and> of_char c \<noteq> (127 :: nat)"
proof -
  have "\<forall>c. query_char c \<longrightarrow> c \<notin> set ''#?'' \<and> \<not> of_char c < (32 :: nat) \<and> of_char c \<noteq> (127 :: nat)"
    by code_simp
  then show "query_char c \<Longrightarrow> ?thesis" by blast
qed

lemma get_scheme_http: "get_scheme raw [] (''http:'' @ r) = Some (''http'', r)"
proof -
  have "list_all (\<lambda>c. is_lower c) ''htp'' \<and> \<not> is_lower (CHR '':'') \<and> \<not> is_upper (CHR '':'') \<and>
      \<not> is_digit (CHR '':'')"
    by code_simp
  then show ?thesis by simp
qed

lemma authority_s3: "parseAuthority ''s3'' = Some (None, ''s3'')"
  by code_simp

lemma parse_rest_hub:
  assumes p: "list_all path_char p" and q: "list_all query_char q" "q = [] \<or> last q \<noteq> CHR ''?''"
  shows "parse_rest ''http'' (''//s3/'' @ p @ (if q = [] then [] else CHR ''?'' # q)) = Some (hub_url p q)"
proof -
  let ?rest = "''//s3/'' @ p"
  have p': "CHR ''?'' \<notin> set p" "list_all (\<lambda>c. \<not> shouldEscape encodePath c) p"
    using p path_char_plain by (auto simp: list_all_iff)
  have slash: "\<not> shouldEscape encodePath (CHR ''/'')" by code_simp
  have nq: "CHR ''?'' \<notin> set ?rest" "CHR ''?'' \<notin> set q"
    using p' q(1) query_char_plain by (auto simp: list_all_iff)
  have suffix: "\<not> HasSuffix (?rest @ CHR ''?'' # q) ''?''" if "q \<noteq> []"
    using that nq(2) by (cases q rule: rev_cases) (auto simp: HasSuffix_def HasPrefix_def)
  have "takeWhile (\<lambda>c. c \<noteq> CHR ''/'') (CHR ''s'' # CHR ''3'' # CHR ''/'' # p) = ''s3''"
    "dropWhile (\<lambda>c. c \<noteq> CHR ''/'') (CHR ''s'' # CHR ''3'' # CHR ''/'' # p) = CHR ''/'' # p"
    by simp_all
  moreover have "setPath (CHR ''/'' # p) u = Some (u\<lparr>url_Path := CHR ''/'' # p, url_RawPath := []\<rparr>)" for u
    using p' slash by (simp add: setPath_def unescape_id escape_id del: unescape.simps)
  ultimately show ?thesis
    using Cut_none [OF nq(1)] Cut_at [OF nq(1), of q] suffix not_HasSuffix [OF nq(1)]
    by (simp add: parse_rest_def Let_def authority_s3 hub_url_def empty_url_def numeral_2_eq_2)
qed

lemma ParseURL_hub:
  assumes p: "list_all path_char p" and q: "list_all query_char q" "q = [] \<or> last q \<noteq> CHR ''?''"
  shows "ParseURL (''http://s3/'' @ p @ (if q = [] then [] else CHR ''?'' # q)) = Some (hub_url p q)"
proof -
  let ?raw = "''http://s3/'' @ p @ (if q = [] then [] else CHR ''?'' # q)"
  have chars: "c \<noteq> CHR ''#'' \<and> \<not> of_char c < (32 :: nat) \<and> of_char c \<noteq> (127 :: nat)"
    if "c \<in> set ?raw" for c
  proof -
    have "list_all (\<lambda>c. c \<noteq> CHR ''#'' \<and> \<not> of_char c < (32 :: nat) \<and> of_char c \<noteq> (127 :: nat)) ''http://s3/?''"
      by code_simp
    then show ?thesis
      using that p q path_char_plain [of c] query_char_plain [of c] by (auto simp: list_all_iff split: if_splits)
  qed
  then have hash: "CHR ''#'' \<notin> set ?raw" and ctl: "\<not> list_ex (\<lambda>c. of_char c < (32 :: nat) \<or> of_char c = (127 :: nat)) ?raw"
    unfolding list_ex_iff by blast+
  have scheme: "get_scheme ?raw [] ?raw = Some (''http'', ''//s3/'' @ p @ (if q = [] then [] else CHR ''?'' # q))"
    using get_scheme_http [of ?raw "''//s3/'' @ p @ (if q = [] then [] else CHR ''?'' # q)"] by simp
  have lower: "ToLower ''http'' = ''http''" by code_simp
  have "ParseURL ?raw = map_option (\<lambda>f. (hub_url p q)\<lparr>url_Fragment := f\<rparr>) (Some [])"
    unfolding ParseURL_def Cut_none [OF hash] Let_def prod.case if_not_P [OF ctl] scheme option.case lower
      parse_rest_hub [OF p q] by simp
  then show ?thesis by (simp add: hub_url_def empty_url_def)
qed

lemma url_String_hub:
  assumes p: "list_all path_char p"
  shows "url_String (hub_url p q) = ''http://s3/'' @ p @ (if q = [] then [] else CHR ''?'' # q)"
proof -
  have slash: "\<not> shouldEscape encodePath (CHR ''/'')" and host: "escape encodeHost ''s3'' = ''s3''" by code_simp+
  have "escape encodePath (CHR ''/'' # p) = CHR ''/'' # p"
    using p path_char_plain slash by (intro escape_id) (auto simp: list_all_iff)
  then show ?thesis
    by (simp add: url_String_def hub_url_def empty_url_def EscapedPath_def url_authority_def host Let_def)
qed


section \<open>Keys\<close>

lemma plain_key_chars: "plain_key k \<Longrightarrow> list_all path_char k"
  using set_join [of _ "split_on (CHR ''/'') k"]
  by (fastforce simp: join_split plain_key_def list_all_iff plain_segment_def path_char_def)

lemma plain_key_ends:
  assumes "plain_key k"
  shows "k \<noteq> []" "hd k \<noteq> CHR ''/''" "last k \<noteq> CHR ''/''"
proof -
  have segs: "\<forall>p \<in> set (split_on (CHR ''/'') k). p \<noteq> []"
    using assms by (auto simp: plain_key_def list_all_iff plain_segment_def)
  show "k \<noteq> []" using segs by (auto simp: split_on_def)
  then obtain x s where k: "k = x # s" by (cases k) auto
  then show "hd k \<noteq> CHR ''/''" using segs by (auto simp: split_on_def split: if_splits)
  obtain t y where "k = t @ [y]" using \<open>k \<noteq> []\<close> by (metis append_butlast_last_id)
  then show "last k \<noteq> CHR ''/''"
    using segs split_by_append [of "\<lambda>x. x = CHR ''/''" "CHR ''/''" t "[]"] by (auto simp: split_on_def)
qed

lemma plain_key_TrimSpace:
  assumes "plain_key k"
  shows "TrimSpace k = k"
  unfolding TrimSpace_def
  using plain_key_chars [OF assms] path_char_plain(2) by (intro trim_by_none) (auto simp: list_all_iff)

lemma escapeS3Path_plain:
  assumes "plain_key k"
  shows "escapeS3Path k = k"
proof -
  have "Trim k ''/'' = k"
    unfolding Trim_def using plain_key_ends [OF assms] by (intro trim_by_id) auto
  moreover have "filter (\<lambda>p. p \<noteq> []) (split_on (CHR ''/'') k) = split_on (CHR ''/'') k"
    using assms by (intro filter_True) (auto simp: plain_key_def list_all_iff plain_segment_def)
  moreover have "map PathEscape (split_on (CHR ''/'') k) = split_on (CHR ''/'') k"
    unfolding PathEscape_def
    by (intro map_idI escape_id)
      (use assms key_char_plain(1) in \<open>auto simp: plain_key_def list_all_iff plain_segment_def\<close>)
  ultimately show ?thesis by (simp add: escapeS3Path_def join_split)
qed

lemma clean_plain:
  "\<forall>p \<in> set ps. p \<noteq> [] \<and> p \<noteq> ''.'' \<and> p \<noteq> ''..'' \<Longrightarrow> foldl clean_step acc ps = rev ps @ acc"
  by (induction ps arbitrary: acc) (auto simp: clean_step_def)

lemma JoinRooted_hub: "JoinRooted [''/'', ''hub''] = ''/hub''"
  by code_simp

lemma JoinRooted_key:
  assumes "plain_key k"
  shows "JoinRooted [''/hub'', k] = ''/hub/'' @ k"
proof -
  let ?ps = "split_on (CHR ''/'') k"
  have "split_on (CHR ''/'') (''/hub/'' @ k) = [] # ''hub'' # ?ps"
    using split_by_append_sep [of "\<lambda>x. x = CHR ''/''" "CHR ''/''" "''hub''" k]
    by (simp add: split_on_def)
  moreover have "foldl clean_step [''hub''] ?ps = rev ?ps @ [''hub'']"
    using assms by (intro clean_plain) (auto simp: plain_key_def list_all_iff plain_segment_def)
  ultimately have "CleanRooted (''/hub/'' @ k) = CHR ''/'' # join_with ''/'' (''hub'' # ?ps)"
    by (simp add: CleanRooted_def clean_step_def)
  moreover have "?ps \<noteq> []" by (simp add: split_on_def)
  then have "join_with ''/'' (''hub'' # ?ps) = ''hub/'' @ k"
    using join_split [of "CHR ''/''" k] by (cases ?ps) auto
  ultimately show ?thesis
    using plain_key_ends(1) [OF assms] by (simp add: JoinRooted_def)
qed

lemma endpoint_url: "ParseURL ''http://s3'' = Some (empty_url\<lparr>url_Scheme := ''http'', url_Host := ''s3''\<rparr>)"
  by code_simp

lemma hub_path_char: "list_all path_char ''hub/'' \<and> list_all path_char ''hub''"
  by code_simp

lemma objectURL_key:
  assumes "plain_key k"
  shows "objectURL bucket_conn k fmempty = Some (''http://s3/hub/'' @ k)"
proof -
  have "objectURL bucket_conn k fmempty = Some (url_String (hub_url (''hub/'' @ k) []))"
    using plain_key_TrimSpace [OF assms] plain_key_ends(1) [OF assms]
    by (simp add: objectURL_def bucket_conn_def endpoint_url JoinRooted_hub escapeS3Path_plain [OF assms]
        JoinRooted_key [OF assms] hub_url_def empty_url_def Let_def)
  then show ?thesis
    using plain_key_chars [OF assms] hub_path_char url_String_hub [of "''hub/'' @ k" "[]"] by simp
qed

lemma objectURL_query:
  assumes "q \<noteq> fmempty" and "values_Encode q \<noteq> []"
  shows "objectURL bucket_conn [] q = Some (''http://s3/hub?'' @ values_Encode q)"
proof -
  have "objectURL bucket_conn [] q = Some (url_String (hub_url ''hub'' (values_Encode q)))"
    using assms by (simp add: objectURL_def bucket_conn_def endpoint_url JoinRooted_hub hub_url_def
        empty_url_def Let_def)
  then show ?thesis using assms hub_path_char url_String_hub [of "''hub''" "values_Encode q"] by simp
qed

section \<open>Requests\<close>

text \<open>Signing changes the headers only, and succeeds for a URL with a host.\<close>

lemma sign_hub:
  assumes "hr_URL req = hub_url p q"
  shows "\<exists>req'. signRequest bucket_conn payload w req = Inr req' \<and> hr_Method req' = hr_Method req \<and>
    hr_URL req' = hr_URL req \<and> hr_Body req' = hr_Body req"
proof -
  have host: "ToLower (TrimSpace ''s3'') = ''s3''" by code_simp
  obtain s where "cn_signer bucket_conn = Some s"
    by (cases "newS3Signer ''key'' ''secret'' ''us-east-1''")
      (simp_all add: bucket_conn_def newS3Signer_def Let_def TrimSpace_def trim_by_def is_space_def)
  then show ?thesis
    using assms by (simp add: signRequest_def SignS3_def hub_url_def empty_url_def host Let_def)
qed

lemma send_key:
  assumes "plain_key k"
  shows "\<exists>req. sendRequest bucket_conn b operation method k fmempty body header w = bucket_exchange req w \<and>
    hr_Method req = method \<and> hr_Body req = body \<and> url_Path (hr_URL req) = ''/hub/'' @ k"
proof -
  let ?req = "\<lparr>hr_Method = method, hr_URL = hub_url (''hub/'' @ k) [], hr_Header = header, hr_Body = body\<rparr>"
  have "list_all path_char (''hub/'' @ k)" using plain_key_chars [OF assms] hub_path_char by simp
  from ParseURL_hub [OF this, of "[]"]
  have parse: "ParseURL (''http://s3/hub/'' @ k) = Some (hub_url (''hub/'' @ k) [])" by simp
  obtain req where req: "signRequest bucket_conn (payload_text body) w ?req = Inr req"
    "hr_Method req = method" "hr_URL req = hub_url (''hub/'' @ k) []" "hr_Body req = body"
    using sign_hub [of ?req "''hub/'' @ k" "[]" "payload_text body" w] by auto
  have ex: "cn_exchange bucket_conn = bucket_exchange" by (simp add: bucket_conn_def)
  obtain resp w' where r: "bucket_exchange req w = (Inr resp, w')"
    by (cases "bucket_exchange req w")
      (auto simp: bucket_exchange_def Let_def split: if_splits option.splits)
  have "sendRequest bucket_conn b operation method k fmempty body header w = bucket_exchange req w"
    unfolding sendRequest_def objectURL_key [OF assms] option.case parse req(1) sum.case ex r prod.case by (rule refl)
  moreover have "url_Path (hr_URL req) = ''/hub/'' @ k" by (simp add: req(3) hub_url_def)
  ultimately show ?thesis using req by blast
qed

lemma bucket_put:
  assumes "plain_key k"
  shows "PutObject bucket_conn k b ct w = (None, fmupd k b w)"
proof -
  obtain h where h: "PutObject bucket_conn k b ct w =
    (case sendRequest bucket_conn ''build put request'' ''put object'' ''PUT'' k fmempty (Some b) h w of
        (Inl e, w) \<Rightarrow> (Some e, w)
      | (Inr resp, w) \<Rightarrow>
          if \<not> isS3WriteStatus (resp_Status resp)
            then (Some (s3StatusError ''put object'' (resp_Status resp) (resp_Body resp)), w)
          else (None, w))"
    unfolding PutObject_def Let_def by (auto split: if_splits)
  obtain req where req: "sendRequest bucket_conn ''build put request'' ''put object'' ''PUT'' k fmempty (Some b) h w =
      bucket_exchange req w" "hr_Method req = ''PUT''" "hr_Body req = Some b" "url_Path (hr_URL req) = ''/hub/'' @ k"
    using send_key [OF assms, of "''build put request''" "''put object''" "''PUT''" "Some b" h w] by auto
  show ?thesis
    unfolding h req(1) by (simp add: bucket_exchange_def req(2-4) isS3WriteStatus_def Let_def)
qed

lemma bucket_delete:
  assumes "plain_key k"
  shows "DeleteObject bucket_conn k nf w = (None, fmdrop k w)"
proof -
  obtain req where req: "sendRequest bucket_conn ''build delete request'' ''delete object'' ''DELETE'' k fmempty None fmempty w =
      bucket_exchange req w" "hr_Method req = ''DELETE''" "hr_Body req = None" "url_Path (hr_URL req) = ''/hub/'' @ k"
    using send_key [OF assms, of "''build delete request''" "''delete object''" "''DELETE''" None fmempty w] by auto
  show ?thesis
    unfolding DeleteObject_def req(1) by (simp add: bucket_exchange_def req(2-4) isS3WriteStatus_def Let_def)
qed

lemma bucket_get:
  assumes "plain_key k"
  shows "GetObject bucket_conn k nf w =
    (case fmlookup w k of
       Some j \<Rightarrow> (Inr (Some (JsonBody j)), w)
     | None \<Rightarrow> (if nf then Inr None else Inl (s3StatusError ''get object'' 404 (TextBody [])), w))"
proof -
  obtain req where req: "sendRequest bucket_conn ''build get request'' ''get object'' ''GET'' k fmempty None fmempty w =
      bucket_exchange req w" "hr_Method req = ''GET''" "hr_Body req = None" "url_Path (hr_URL req) = ''/hub/'' @ k"
    using send_key [OF assms, of "''build get request''" "''get object''" "''GET''" None fmempty w] by auto
  have "bucket_exchange req w =
        (Inr (case fmlookup w k of
           None \<Rightarrow> \<lparr>resp_Status = 404, resp_Body = TextBody []\<rparr>
         | Some j \<Rightarrow> \<lparr>resp_Status = 200, resp_Body = JsonBody j\<rparr>), w)"
    by (simp add: bucket_exchange_def req(2-4) Let_def)
  then show ?thesis unfolding GetObject_def req(1) by (simp split: option.split)
qed

text \<open>A request other than to write or delete leaves the bucket as it is.\<close>

lemma exchange_get: "hr_Method req = ''GET'' \<Longrightarrow> snd (bucket_exchange req w) = w"
  by (simp add: bucket_exchange_def Let_def)

lemma signed_method: "signRequest c payload w req = Inr req' \<Longrightarrow> hr_Method req' = hr_Method req"
  by (auto simp: signRequest_def SignS3_def Let_def split: option.splits sum.splits if_splits)

lemma send_get: "snd (sendRequest bucket_conn b operation ''GET'' k q body header w) = w"
proof -
  have ex: "cn_exchange bucket_conn = bucket_exchange" by (simp add: bucket_conn_def)
  have *: "snd (case bucket_exchange req w of (Inl e, w) \<Rightarrow> (Inl (f e), w) | (Inr resp, w) \<Rightarrow> (Inr resp, w)) = w"
    if "hr_Method req = ''GET''" for req and f :: "go_error \<Rightarrow> go_error"
    using exchange_get [OF that, of w] by (auto split: prod.split sum.split)
  show ?thesis
    unfolding sendRequest_def ex
    by (auto split: option.split sum.split intro!: * dest: signed_method)
qed


section \<open>Listings\<close>

lemma QueryEscape_chars: "list_all query_char (QueryEscape s) \<and> list_all (\<lambda>c. c \<notin> set ''&;='') (QueryEscape s)"
proof -
  have no: "\<forall>c \<in> set ''&;=''. shouldEscape encodeQueryComponent c \<and> c \<notin> set ''0123456789ABCDEF%+''"
    by code_simp
  show ?thesis
    unfolding list_all_iff
  proof (intro conjI ballI)
    fix c assume c: "c \<in> set (QueryEscape s)"
    note cases = escape_chars [OF c [unfolded QueryEscape_def]]
    from cases show "query_char c" by (auto simp: query_char_def)
    from cases no show "c \<notin> set ''&;=''" by auto
  qed
qed

lemma QueryEscape_read: "unescape encodeQueryComponent (QueryEscape s) = Some s"
  by (simp add: QueryEscape_def unescape_escape)

lemma query_pairs_Nil [simp]: "query_pairs [] = []"
  by (simp add: query_pairs_def split_on_def)

lemma query_pairs_last:
  assumes "k \<noteq> []" and "list_all (\<lambda>c. c \<notin> set ''&;='') k" and "unescape encodeQueryComponent k = Some k"
  shows "query_pairs (k @ CHR ''='' # QueryEscape v) = [(k, v)]"
proof -
  have "CHR ''='' \<notin> set k" "\<forall>c \<in> set (k @ CHR ''='' # QueryEscape v). c \<noteq> CHR ''&'' \<and> c \<noteq> CHR '';''"
    using assms(2) QueryEscape_chars [of v] by (auto simp: list_all_iff)
  moreover from this(2) have "CHR '';'' \<notin> set k" "CHR '';'' \<notin> set (QueryEscape v)" by auto
  ultimately show ?thesis
    using assms(1,3) Cut_at [of "CHR ''=''" k "QueryEscape v"]
    by (simp add: query_pairs_def split_on_def split_by_none QueryEscape_read)
qed

lemma query_pairs_and:
  assumes "CHR ''&'' \<notin> set p"
  shows "query_pairs (p @ CHR ''&'' # q) = query_pairs p @ query_pairs q"
  using assms by (simp add: query_pairs_def split_on_def split_by_append split_by_none)

definition first_query :: "string \<Rightarrow> url_values" where
  "first_query pre = fmupd ''prefix'' [pre] (fmupd ''list-type'' [''2''] fmempty)"

definition one_query :: "string \<Rightarrow> url_values" where
  "one_query pre = fmupd ''max-keys'' [''1''] (first_query pre)"

lemma first_query_encode:
  "values_Encode (first_query pre) = ''list-type=2&prefix='' @ QueryEscape pre"
proof -
  have "sorted_list_of_fset {|''prefix'', ''list-type''|} = [''list-type'', ''prefix'']"
    "QueryEscape ''prefix'' = ''prefix''" "QueryEscape ''list-type'' = ''list-type''" "QueryEscape ''2'' = ''2''"
    by code_simp+
  then show ?thesis
    by (simp add: values_Encode_def sorted_fields_def sorted_keys_def first_query_def)
qed

lemma one_query_encode:
  "values_Encode (one_query pre) = ''list-type=2&max-keys=1&prefix='' @ QueryEscape pre"
proof -
  have "sorted_list_of_fset {|''max-keys'', ''prefix'', ''list-type''|} = [''list-type'', ''max-keys'', ''prefix'']"
    "QueryEscape ''prefix'' = ''prefix''" "QueryEscape ''list-type'' = ''list-type''" "QueryEscape ''2'' = ''2''"
    "QueryEscape ''max-keys'' = ''max-keys''" "QueryEscape ''1'' = ''1''"
    by code_simp+
  then show ?thesis
    by (simp add: values_Encode_def sorted_fields_def sorted_keys_def one_query_def first_query_def)
qed

lemma read_query:
  "fmlookup (url_Query (hub_url p (''list-type=2&prefix='' @ QueryEscape pre))) ''prefix'' = Some [pre]"
  "fmlookup (url_Query (hub_url p (''list-type=2&prefix='' @ QueryEscape pre))) ''max-keys'' = None"
  "fmlookup (url_Query (hub_url p (''list-type=2&max-keys=1&prefix='' @ QueryEscape pre))) ''prefix'' = Some [pre]"
  "fmlookup (url_Query (hub_url p (''list-type=2&max-keys=1&prefix='' @ QueryEscape pre))) ''max-keys'' = Some [''1'']"
proof -
  have fixed: "query_pairs ''list-type=2'' = [(''list-type'', ''2'')]"
    "query_pairs ''max-keys=1'' = [(''max-keys'', ''1'')]" by code_simp+
  have last: "query_pairs (''prefix'' @ CHR ''='' # QueryEscape pre) = [(''prefix'', pre)]"
  proof (rule query_pairs_last)
    show "unescape encodeQueryComponent ''prefix'' = Some ''prefix''" by code_simp
  qed simp_all
  have 1: "query_pairs (''list-type=2&prefix='' @ QueryEscape pre) = [(''list-type'', ''2''), (''prefix'', pre)]"
    using query_pairs_and [of "''list-type=2''" "''prefix'' @ CHR ''='' # QueryEscape pre"] last fixed by simp
  have 2: "query_pairs (''list-type=2&max-keys=1&prefix='' @ QueryEscape pre) =
      [(''list-type'', ''2''), (''max-keys'', ''1''), (''prefix'', pre)]"
    using query_pairs_and [of "''list-type=2''" "''max-keys=1'' @ CHR ''&'' # ''prefix'' @ CHR ''='' # QueryEscape pre"]
      query_pairs_and [of "''max-keys=1''" "''prefix'' @ CHR ''='' # QueryEscape pre"] last fixed by simp
  have raw: "url_RawQuery (hub_url p q) = q" for q by (simp add: hub_url_def)
  show "fmlookup (url_Query (hub_url p (''list-type=2&prefix='' @ QueryEscape pre))) ''prefix'' = Some [pre]"
    "fmlookup (url_Query (hub_url p (''list-type=2&prefix='' @ QueryEscape pre))) ''max-keys'' = None"
    unfolding url_Query_def raw 1 by (simp_all add: add_value_def)
  show "fmlookup (url_Query (hub_url p (''list-type=2&max-keys=1&prefix='' @ QueryEscape pre))) ''prefix'' = Some [pre]"
    "fmlookup (url_Query (hub_url p (''list-type=2&max-keys=1&prefix='' @ QueryEscape pre))) ''max-keys'' = Some [''1'']"
    unfolding url_Query_def raw 2 by (simp_all add: add_value_def)
qed

lemma query_encode_chars:
  "list_all query_char (''list-type=2&prefix='' @ QueryEscape pre) \<and>
   list_all query_char (''list-type=2&max-keys=1&prefix='' @ QueryEscape pre)"
proof -
  have "list_all query_char ''list-type=2&prefix='' \<and> list_all query_char ''list-type=2&max-keys=1&prefix=''"
    by code_simp
  then show ?thesis using QueryEscape_chars by simp
qed

lemma send_list:
  assumes "q \<noteq> fmempty" and e: "values_Encode q = e" "e \<noteq> []" "list_all query_char e"
  shows "sendRequest bucket_conn b operation ''GET'' [] q None h w =
    (Inr (bucket_list (url_Query (hub_url ''hub'' e)) w), w)"
proof -
  let ?req = "\<lparr>hr_Method = ''GET'', hr_URL = hub_url ''hub'' e, hr_Header = h, hr_Body = None\<rparr>"
  have "last e \<noteq> CHR ''?''"
    using e(2,3) query_char_plain [of "last e"] by (auto simp: list_all_iff)
  with ParseURL_hub [of "''hub''" e] e hub_path_char
  have parse: "ParseURL (''http://s3/hub?'' @ e) = Some (hub_url ''hub'' e)" by simp
  have url: "objectURL bucket_conn [] q = Some (''http://s3/hub?'' @ e)"
    using objectURL_query [OF assms(1)] e by simp
  obtain req where req: "signRequest bucket_conn (payload_text None) w ?req = Inr req"
    "hr_Method req = ''GET''" "hr_URL req = hub_url ''hub'' e"
    using sign_hub [of ?req "''hub''" e "payload_text None" w] by auto
  have ex: "cn_exchange bucket_conn = bucket_exchange" by (simp add: bucket_conn_def)
  have r: "bucket_exchange req w = (Inr (bucket_list (url_Query (hub_url ''hub'' e)) w), w)"
    by (simp add: bucket_exchange_def req(2,3) hub_url_def empty_url_def Let_def)
  show ?thesis
    unfolding sendRequest_def url option.case parse req(1) sum.case ex r prod.case by (rule refl)
qed

lemma sorted_trimmed_keys:
  assumes "plain_keys w"
  shows "sort (filter (\<lambda>k. k \<noteq> []) (map TrimSpace (take n (sorted_keys (keys_below pre w))))) =
    take n (sorted_keys (keys_below pre w))"
proof -
  let ?ks = "take n (sorted_keys (keys_below pre w))"
  have plain: "plain_key k" if "k \<in> set ?ks" for k
    using set_take_subset [of n "sorted_keys (keys_below pre w)"] that assms
    by (fastforce simp: plain_keys_def sorted_keys_def keys_below_def fmlookup_dom_iff)
  then have "map TrimSpace ?ks = ?ks" by (intro map_idI plain_key_TrimSpace)
  moreover have "filter (\<lambda>k. k \<noteq> []) ?ks = ?ks" using plain plain_key_ends(1) by (intro filter_True) blast
  moreover have "sorted ?ks"
    by (intro sorted_wrt_take) (simp add: sorted_keys_def sorted_list_of_fset.rep_eq)
  ultimately show ?thesis by (simp add: sorted_sort_id)
qed

lemma bucket_list_all:
  assumes "plain_keys w" and "TrimSpace pre = pre"
  shows "listKeys bucket_conn pre w = Some (Inr (sorted_keys (keys_below pre w)), w)"
proof -
  let ?ks = "sorted_keys (keys_below pre w)"
  have "ListObjects bucket_conn pre 0 [] True w =
    (Inr \<lparr>ls_Keys = ?ks, ls_IsTruncated = False, ls_NextContinuationToken = TrimSpace ''more''\<rparr>, w)"
    using send_list [of "first_query pre", OF _ first_query_encode _ conjunct1 [OF query_encode_chars]]
      read_query(1,2) [of "''hub''" pre] sorted_trimmed_keys [OF assms(1), of "length ?ks" pre]
    by (simp add: ListObjects_def Let_def assms(2) first_query_def [symmetric] bucket_list_def)
      (simp add: first_query_def)
  moreover have "sort ?ks = ?ks" by (simp add: sorted_keys_def sorted_list_of_fset.rep_eq sorted_sort_id)
  ultimately show ?thesis
    unfolding listKeys_def by (subst list_pages.simps) (simp add: assms(2))
qed

lemma bucket_list_one:
  assumes "plain_keys w" and "TrimSpace pre = pre" and "ListObjects bucket_conn pre 1 [] nf w = (Inr r, w')"
  shows "w' = w \<and> ls_Keys r = take 1 (sorted_keys (keys_below pre w))"
proof -
  have one: "digits_value ''1'' = 1" "show_int 1 = ''1''" by code_simp+
  show ?thesis
    using assms(3) send_list [of "one_query pre", OF _ one_query_encode _ conjunct2 [OF query_encode_chars]]
      read_query(3,4) [of "''hub''" pre] sorted_trimmed_keys [OF assms(1), of 1 pre]
    by (simp add: ListObjects_def Let_def assms(2) one first_query_def [symmetric] one_query_def [symmetric] bucket_list_def)
      (auto simp: one_query_def)
qed

lemma bucket_list_one_ok:
  assumes "plain_keys w" and "TrimSpace pre = pre"
  shows "\<exists>r. ListObjects bucket_conn pre 1 [] nf w = (Inr r, w) \<and> ls_Keys r = take 1 (sorted_keys (keys_below pre w))"
proof -
  have one: "digits_value ''1'' = 1" "show_int 1 = ''1''" by code_simp+
  have "\<exists>r. ListObjects bucket_conn pre 1 [] nf w = (Inr r, w)"
    using send_list [of "one_query pre", OF _ one_query_encode _ conjunct2 [OF query_encode_chars]]
    by (simp add: ListObjects_def Let_def assms(2) one first_query_def [symmetric] one_query_def [symmetric] bucket_list_def)
      (auto simp: one_query_def)
  with bucket_list_one [OF assms] show ?thesis by blast
qed

section \<open>The contract\<close>

interpretation bucket: object_store bucket_conn "\<lambda>w. w"
proof unfold_locales
  fix k b ct and w :: "json gomap" and r w'
  assume "plain_key k" "PutObject bucket_conn k b ct w = (r, w')"
  then show "w' = fmupd k b w \<or> (r \<noteq> None \<and> w' = w)" by (simp add: bucket_put)
next
  fix k nf and w :: "json gomap" and r w'
  assume "plain_key k" "DeleteObject bucket_conn k nf w = (r, w')"
  then show "w' = fmdrop k w \<or> (r \<noteq> None \<and> w' = w)" by (simp add: bucket_delete)
next
  fix k nf and w :: "json gomap" and e w'
  assume "GetObject bucket_conn k nf w = (Inl e, w')"
  with send_get [of "''build get request''" "''get object''" k fmempty None fmempty w]
  show "w' = w" by (auto simp: GetObject_def split: prod.splits sum.splits if_splits)
next
  fix k nf and w :: "json gomap" and g w'
  assume "plain_key k" "GetObject bucket_conn k nf w = (Inr g, w')"
  then show "w' = w \<and> g = map_option JsonBody (fmlookup w k)"
    by (auto simp: bucket_get split: option.splits if_splits)
next
  fix pre n tok nf and w :: "json gomap" and e w'
  assume "ListObjects bucket_conn pre n tok nf w = (Inl e, w')"
  then show "w' = w"
    using send_get [of "''build list request''" "''list objects''" "[]" _ None fmempty w]
    by (auto simp: ListObjects_def Let_def split: prod.splits sum.splits if_splits resp_body.splits)
      (metis snd_conv)+
next
  fix pre nf and w :: "json gomap" and l w'
  assume "plain_keys w" "TrimSpace pre = pre" "ListObjects bucket_conn pre 1 [] nf w = (Inr l, w')"
  then show "w' = w \<and> ls_Keys l = take 1 (sorted_keys (keys_below pre w))" by (rule bucket_list_one)
next
  fix pre and w :: "json gomap" and ks w'
  assume "plain_keys w" "TrimSpace pre = pre" "listKeys bucket_conn pre w = Some (Inr ks, w')"
  then show "w' = w \<and> ks = sorted_keys (keys_below pre w)" by (auto dest: bucket_list_all)
qed

interpretation reliable_bucket: reliable_store bucket_conn "\<lambda>w. w"
proof unfold_locales
  fix k b ct nf and w :: "json gomap"
  assume "plain_key k"
  then show "fst (PutObject bucket_conn k b ct w) = None" "fst (DeleteObject bucket_conn k nf w) = None"
    "\<exists>g. fst (GetObject bucket_conn k True w) = Inr g"
    by (simp_all add: bucket_put bucket_delete bucket_get split: option.split)
next
  fix pre and w :: "json gomap"
  assume "plain_keys w" "TrimSpace pre = pre"
  then show "\<exists>ks w'. listKeys bucket_conn pre w = Some (Inr ks, w')" by (simp add: bucket_list_all)
qed

end
