(* ===== verification/S3QueueOrder.thy ===== *)
theory S3QueueOrder
  imports S3Queue Bucket
begin

text \<open>The queue over a bucket hands out the oldest message: names in order are times in order.\<close>

section \<open>Numbers as text\<close>

definition value_from :: "nat \<Rightarrow> string \<Rightarrow> nat" where
  "value_from a ds = foldl (\<lambda>a c. a * 10 + (of_char c - 48)) a ds"

lemma digit_bounds: "is_digit c \<Longrightarrow> of_char c - 48 \<le> (9 :: nat) \<and> of_char c \<ge> (48 :: nat)"
  by (auto simp: is_digit_def less_eq_char_def)

lemma value_from_less:
  assumes "length xs = length ys" and "list_all is_digit xs" and "list_all is_digit ys" and "a < b"
  shows "value_from a xs < value_from b ys"
  using assms
proof (induction xs ys arbitrary: a b rule: list_induct2)
  case (Cons x xs y ys)
  have "a * 10 + (of_char x - 48) < b * 10 + (of_char y - 48)"
    using Cons.prems digit_bounds [of x] by auto
  with Cons show ?case by (simp add: value_from_def)
qed (simp add: value_from_def)

lemma value_from_mono:
  assumes "length xs = length ys" and "list_all is_digit xs" and "list_all is_digit ys" and "xs \<le> ys"
  shows "value_from a xs \<le> value_from a ys"
  using assms
proof (induction xs ys arbitrary: a rule: list_induct2)
  case (Cons x xs y ys)
  show ?case
  proof (cases "x = y")
    case True
    with Cons show ?thesis by (simp add: value_from_def)
  next
    case False
    with Cons.prems have "x < y" by simp
    then have "of_char x < (of_char y :: nat)" by (simp add: less_char_def)
    then have lt: "a * 10 + (of_char x - 48) < a * 10 + (of_char y - 48)"
      using digit_bounds [of x] Cons.prems diff_less_mono [of "of_char x" "of_char y" 48] by simp
    from Cons.prems value_from_less [OF Cons.hyps _ _ lt] show ?thesis
      unfolding value_from_def foldl_Cons by (intro less_imp_le) simp
  qed
qed simp

lemma append_le_append: "p @ xs \<le> p @ ys \<longleftrightarrow> xs \<le> (ys :: string)"
  by (induction p) simp_all

lemma prefix_le: "length xs = length ys \<Longrightarrow> xs @ as \<le> ys @ bs \<Longrightarrow> xs \<le> (ys :: string)"
  by (induction xs ys rule: list_induct2) auto

lemma pad_digits:
  assumes "0 \<le> i" and "i < 10 ^ 19"
  shows "length (pad_left 19 (show_int i)) = 19" "list_all is_digit (pad_left 19 (show_int i))"
    "value_from 0 (pad_left 19 (show_int i)) = nat i"
proof -
  have len: "length (show_nat (nat i)) \<le> 19"
    using assms by (intro length_show_nat) (simp_all add: nat_less_iff)
  then show "length (pad_left 19 (show_int i)) = 19" using assms(1) by (simp add: pad_left_def show_int_def)
  show "list_all is_digit (pad_left 19 (show_int i))"
    using show_nat_digits [of "nat i"] assms(1)
    by (auto simp: pad_left_def show_int_def list_all_iff is_digit_def less_eq_char_def)
  have "foldl (\<lambda>a c. a * 10 + (of_char c - 48)) 0 (replicate n (CHR ''0'')) = (0 :: nat)" for n
    by (induction n) simp_all
  then show "value_from 0 (pad_left 19 (show_int i)) = nat i"
    using digits_value_show [of "nat i"] assms(1)
    by (simp add: value_from_def pad_left_def show_int_def digits_value_def)
qed

lemma padded_order:
  assumes "p @ pad_left 19 (show_int i) @ as \<le> p @ pad_left 19 (show_int j) @ bs"
    and "0 \<le> i" "i < 10 ^ 19" "0 \<le> j" "j < 10 ^ 19"
  shows "i \<le> j"
proof -
  have "pad_left 19 (show_int i) \<le> pad_left 19 (show_int j)"
    by (rule prefix_le [OF _ assms(1) [unfolded append_le_append]])
      (simp add: pad_digits(1) [OF assms(2,3)] pad_digits(1) [OF assms(4,5)])
  from value_from_mono [OF _ _ _ this, of 0] show ?thesis
    using pad_digits [OF assms(2,3)] pad_digits [OF assms(4,5)] assms(2,4) by simp
qed

section \<open>The queue of an agent\<close>

text \<open>
  The objects below the prefix of an agent are those of messages with a time, which sixteen
  digits and three more can hold up to the year 2286.
\<close>

definition queued_only :: "'w s3_queue \<Rightarrow> string \<Rightarrow> json gomap \<Rightarrow> bool" where
  "queued_only q u objects \<longleftrightarrow> (\<forall>k b. fmlookup objects k = Some b \<longrightarrow> prefix (queuePrefix q u) k \<longrightarrow>
     (\<exists>m clock. b = json_of_message m \<and> 0 < Msg_CreatedAt m \<and> Msg_CreatedAt m < 10 ^ 19 \<and>
        k = queueObjectKey q u (Msg_CreatedAt m) (Msg_MessageID m) clock))"

lemma take_one_sorted:
  assumes "take 1 (sorted_keys m) = [k]"
  shows "fmlookup m k \<noteq> None" and "\<And>j. fmlookup m j \<noteq> None \<Longrightarrow> k \<le> j"
proof -
  obtain ks where ks: "sorted_keys m = k # ks" using assms by (cases "sorted_keys m") auto
  have set: "set (sorted_keys m) = {k. fmlookup m k \<noteq> None}" by (auto simp: fmlookup_dom'_iff)
  then show "fmlookup m k \<noteq> None" using ks by auto
  show "k \<le> j" if "fmlookup m j \<noteq> None" for j
    using that set ks sorted_sorted_keys [of m] by (metis (mono_tags, lifting) mem_Collect_eq order_refl set_ConsD sorted_wrt.simps(2))
qed

context object_store
begin

lemma oldest_first:
  assumes q: "sq_conn q = c" and plain: "plain_keys (contents w)" "TrimSpace (queuePrefix q u) = queuePrefix q u"
    and only: "queued_only q u (contents w)" and run: "SQ_Dequeue q u w = (Inr (Some m), w')"
  shows "\<exists>k. fmlookup (contents w) k = Some (json_of_message m) \<and> prefix (queuePrefix q u) k \<and>
    contents w' = fmdrop k (contents w) \<and>
    (\<forall>k' m'. prefix (queuePrefix q u) k' \<longrightarrow> fmlookup (contents w) k' = Some (json_of_message m') \<longrightarrow>
       Msg_CreatedAt m \<le> Msg_CreatedAt m')"
proof -
  obtain l w1 where l: "ListObjects c (queuePrefix q u) 1 [] False w = (Inr l, w1)"
    using run q by (cases "ListObjects c (queuePrefix q u) 1 [] False w"; cases "fst (ListObjects c (queuePrefix q u) 1 [] False w)")
      (auto simp: SQ_Dequeue_def listOldestKey_def split: if_splits)
  from list_first [OF plain l] have w1: "contents w1 = contents w"
    and keys: "ls_Keys l = take 1 (sorted_keys (keys_below (queuePrefix q u) (contents w)))" by simp_all
  obtain k where k: "ls_Keys l = [k]" "TrimSpace k \<noteq> []"
  proof (cases "sorted_keys (keys_below (queuePrefix q u) (contents w))")
    case Nil
    with run q l keys show ?thesis by (auto simp: SQ_Dequeue_def listOldestKey_def split: if_splits)
  next
    case (Cons k ks)
    with keys have "ls_Keys l = [k]" by simp
    moreover from this have "TrimSpace k \<noteq> []"
      using run q l by (auto simp: SQ_Dequeue_def listOldestKey_def split: if_splits)
    ultimately show ?thesis by (rule that)
  qed
  note first = take_one_sorted [OF k(1) [unfolded keys]]
  have below: "prefix (queuePrefix q u) k" "fmlookup (contents w) k \<noteq> None"
    using first(1) by (auto simp: keys_below_def split: if_splits)
  then have pk: "plain_key k" using plain(1) by (simp add: plain_keys_def)
  then have trim: "TrimSpace k = k" by (rule plain_key_TrimSpace)
  obtain b where b: "fmlookup (contents w) k = Some b" using below(2) by auto
  with only below(1) obtain m0 clock where m0: "b = json_of_message m0" "0 < Msg_CreatedAt m0" "Msg_CreatedAt m0 < 10 ^ 19"
    "k = queueObjectKey q u (Msg_CreatedAt m0) (Msg_MessageID m0) clock" unfolding queued_only_def by blast
  obtain g w2 where g: "GetObject c k False w1 = (Inr g, w2)"
    using run q l k trim by (cases "GetObject c k False w1"; cases "fst (GetObject c k False w1)")
      (auto simp: SQ_Dequeue_def listOldestKey_def readMessage_def split: if_splits)
  from get [OF pk g] w1 b m0(1) have w2: "contents w2 = contents w" "g = Some (JsonBody (json_of_message m0))" by simp_all
  obtain w3 where d: "DeleteObject c k False w2 = (None, w3)" "m = m0" "w' = w3"
    using run q l k trim g w2(2)
    by (cases "DeleteObject c k False w2"; cases "fst (DeleteObject c k False w2)")
      (auto simp: SQ_Dequeue_def listOldestKey_def readMessage_def body_json_def message_codec split: if_splits)
  have "Msg_CreatedAt m \<le> Msg_CreatedAt m'"
    if k': "prefix (queuePrefix q u) k'" "fmlookup (contents w) k' = Some (json_of_message m')" for k' m'
  proof -
    from only k' obtain m1 clock' where m1: "json_of_message m' = json_of_message m1" "0 < Msg_CreatedAt m1"
      "Msg_CreatedAt m1 < 10 ^ 19" "k' = queueObjectKey q u (Msg_CreatedAt m1) (Msg_MessageID m1) clock'"
      unfolding queued_only_def by blast
    have "Some m' = Some m1" using arg_cong [OF m1(1), of message_of_json] unfolding message_codec .
    then have "m' = m1" by (rule option.inject [THEN iffD1])
    have key: "queueObjectKey q u (Msg_CreatedAt x) i t =
        queuePrefix q u @ pad_left 19 (show_int (Msg_CreatedAt x)) @ ''_'' @ i @ ''.json''" if "0 < Msg_CreatedAt x" for x i t
      using that by (simp add: queueObjectKey_def)
    have "k \<le> k'" using k' by (intro first(2)) (simp add: keys_below_def)
    from padded_order [OF this [unfolded m0(4) m1(4) key [OF m0(2)] key [OF m1(2)]]] m0(2,3) m1(2,3)
    have "Msg_CreatedAt m0 \<le> Msg_CreatedAt m1" by simp
    with \<open>m' = m1\<close> show ?thesis by (simp add: d(2))
  qed
  moreover have "contents w' = fmdrop k (contents w)" using del_done [OF pk d(1)] w2(1) d(3) by simp
  moreover have "fmlookup (contents w) k = Some (json_of_message m)" using b m0(1) d(2) by simp
  ultimately show ?thesis using below(1) by blast
qed

end

text \<open>
  C28: the queue over S3 hands out the oldest message.  When \<open>Dequeue\<close> returns a message, its object
  was below the prefix of the agent, no message there is older, and that object, and no other, is
  gone.
\<close>

theorem s3_queue_oldest_first:
  assumes "object_store c contents" and "sq_conn q = c" and "plain_keys (contents w)"
    and "TrimSpace (queuePrefix q u) = queuePrefix q u" and "queued_only q u (contents w)"
    and "SQ_Dequeue q u w = (Inr (Some m), w')"
  shows "\<exists>k. fmlookup (contents w) k = Some (json_of_message m) \<and> prefix (queuePrefix q u) k \<and>
    contents w' = fmdrop k (contents w) \<and>
    (\<forall>k' m'. prefix (queuePrefix q u) k' \<longrightarrow> fmlookup (contents w) k' = Some (json_of_message m') \<longrightarrow>
       Msg_CreatedAt m \<le> Msg_CreatedAt m')"
  by (rule object_store.oldest_first [OF assms])

section \<open>An example\<close>

definition demo_queue :: "json gomap s3_queue" where
  "demo_queue = \<lparr>sq_conn = bucket_conn, sq_prefix = ''q''\<rparr>"

definition message_at :: "string \<Rightarrow> int \<Rightarrow> message" where
  "message_at i t = \<lparr>Msg_MessageID = i, Msg_FromAgentUUID = ''a1'', Msg_ToAgentUUID = ''a2'',
     Msg_FromAgentID = [], Msg_ToAgentID = [], Msg_FromAgentURI = [], Msg_ToAgentURI = [],
     Msg_SenderOrgID = ''o1'', Msg_ReceiverOrgID = ''o1'', Msg_ReceiverPeerID = [],
     Msg_ContentType = ''text/plain'', Msg_Payload = [], Msg_ClientMsgID = None, Msg_CreatedAt = t\<rparr>"

text \<open>The younger message was put into the queue first.\<close>

definition demo_objects :: "json gomap" where
  "demo_objects = snd (SQ_Enqueue demo_queue (message_at ''m1'' 100) (snd (SQ_Enqueue demo_queue (message_at ''m2'' 900) fmempty)))"

lemma demo_keys:
  "plain_key ''q/queues/a2/0000000000000000100_m1.json''" "plain_key ''q/queues/a2/0000000000000000900_m2.json''"
  "queueObjectKey demo_queue ''a2'' 100 ''m1'' t = ''q/queues/a2/0000000000000000100_m1.json''"
  "queueObjectKey demo_queue ''a2'' 900 ''m2'' t = ''q/queues/a2/0000000000000000900_m2.json''"
  "queuePrefix demo_queue ''a2'' = ''q/queues/a2/''"
proof -
  have "pad_left 19 (show_int 100) = ''0000000000000000100''" "pad_left 19 (show_int 900) = ''0000000000000000900''"
    by code_simp+
  then show "queueObjectKey demo_queue ''a2'' 100 ''m1'' t = ''q/queues/a2/0000000000000000100_m1.json''"
    "queueObjectKey demo_queue ''a2'' 900 ''m2'' t = ''q/queues/a2/0000000000000000900_m2.json''"
    "queuePrefix demo_queue ''a2'' = ''q/queues/a2/''"
    by (simp_all add: queueObjectKey_def queuePrefix_def demo_queue_def)
qed (code_simp, code_simp)

lemma demo_objects_eq:
  "demo_objects = fmupd ''q/queues/a2/0000000000000000100_m1.json'' (json_of_message (message_at ''m1'' 100))
     (fmupd ''q/queues/a2/0000000000000000900_m2.json'' (json_of_message (message_at ''m2'' 900)) fmempty)"
proof -
  have q: "sq_conn demo_queue = bucket_conn" by (simp add: demo_queue_def)
  show ?thesis
    unfolding demo_objects_def SQ_Enqueue_def Let_def q
    by (simp add: message_at_def demo_keys putObject_def bucket_put)
qed

theorem s3_queue_oldest_first_witness:
  "\<exists>k. fmlookup demo_objects k = Some (json_of_message (message_at ''m1'' 100)) \<and>
     snd (SQ_Dequeue demo_queue ''a2'' demo_objects) = fmdrop k demo_objects"
proof -
  let ?k1 = "''q/queues/a2/0000000000000000100_m1.json''" and ?k2 = "''q/queues/a2/0000000000000000900_m2.json''"
  have plain: "plain_keys demo_objects" using demo_keys(1,2) by (auto simp: plain_keys_def demo_objects_eq split: if_splits)
  have trim: "TrimSpace (queuePrefix demo_queue ''a2'') = queuePrefix demo_queue ''a2''"
    unfolding demo_keys by code_simp
  have only: "queued_only demo_queue ''a2'' demo_objects"
    unfolding queued_only_def
  proof (intro allI impI)
    fix k b assume "fmlookup demo_objects k = Some b"
    then have "(k = ?k1 \<and> b = json_of_message (message_at ''m1'' 100)) \<or> (k = ?k2 \<and> b = json_of_message (message_at ''m2'' 900))"
      by (auto simp: demo_objects_eq split: if_splits)
    moreover have "?k1 = queueObjectKey demo_queue ''a2'' (Msg_CreatedAt (message_at ''m1'' 100)) (Msg_MessageID (message_at ''m1'' 100)) 0"
      "?k2 = queueObjectKey demo_queue ''a2'' (Msg_CreatedAt (message_at ''m2'' 900)) (Msg_MessageID (message_at ''m2'' 900)) 0"
      unfolding message_at_def by (simp_all add: demo_keys)
    moreover have "0 < Msg_CreatedAt (message_at i t) \<and> Msg_CreatedAt (message_at i t) < 10 ^ 19" if "t \<in> {100, 900}" for i t
      using that by (auto simp: message_at_def)
    ultimately show "\<exists>m clock. b = json_of_message m \<and> 0 < Msg_CreatedAt m \<and> Msg_CreatedAt m < 10 ^ 19 \<and>
        k = queueObjectKey demo_queue ''a2'' (Msg_CreatedAt m) (Msg_MessageID m) clock" by blast
  qed
  have q: "sq_conn demo_queue = bucket_conn" by (simp add: demo_queue_def)
  obtain r where list: "ListObjects bucket_conn ''q/queues/a2/'' 1 [] False demo_objects = (Inr r, demo_objects)"
    "ls_Keys r = take 1 (sorted_keys (keys_below ''q/queues/a2/'' demo_objects))"
    using bucket_list_one_ok [OF plain trim] unfolding demo_keys by blast
  have "keys_below ''q/queues/a2/'' demo_objects = demo_objects"
    by (rule fmap_ext) (auto simp: keys_below_def demo_objects_eq)
  moreover have "sorted_list_of_fset {|?k1, ?k2|} = [?k1, ?k2]" by code_simp
  then have "sorted_keys demo_objects = [?k1, ?k2]" by (simp add: demo_objects_eq sorted_keys_def)
  ultimately have keys: "ls_Keys r = [?k1]" using list(2) by simp
  have run: "SQ_Dequeue demo_queue ''a2'' demo_objects = (Inr (Some (message_at ''m1'' 100)), fmdrop ?k1 demo_objects)"
    using list(1) keys plain_key_TrimSpace [OF demo_keys(1)]
    by (simp add: SQ_Dequeue_def listOldestKey_def readMessage_def q demo_keys(5) bucket_get [OF demo_keys(1)]
        bucket_delete [OF demo_keys(1)] demo_objects_eq body_json_def message_codec)
  show ?thesis
    using s3_queue_oldest_first [OF bucket.object_store_axioms q plain trim only run] run by auto
qed

end
