(* ===== verification/S3State.thy ===== *)
theory S3State
  imports S3Load Control
begin

text \<open>
  \<^verbatim>\<open>s3StateStore\<close> of \<^verbatim>\<open>internal/store/s3_state.go\<close>: the memory store, and after each operation
  that changes it the objects that differ are written and the objects that are no longer
  wanted are deleted.  An operation whose objects could not be written reports an error, but
  keeps what it did to the memory store.
\<close>

section \<open>The state\<close>

record 'w s3_state =
  st_mem :: memory_store
  st_conn :: "'w s3_connection"
  st_prefix :: string
  st_presencePersistInterval :: int
  st_persistedObjects :: "json gomap"
  st_presenceLastPersist :: "int gomap"

text \<open>What \<^verbatim>\<open>NewS3StateStoreFromEnv\<close> does with a connection.\<close>

definition open_state ::
  "'w s3_connection \<Rightarrow> string \<Rightarrow> int \<Rightarrow> 'w \<Rightarrow> ((go_error + 'w s3_state) \<times> 'w) option" where
  "open_state c pre interval w =
     (case loadFromS3 c pre w of
        None \<Rightarrow> None
      | Some (Inl e, w) \<Rightarrow> Some (Inl e, w)
      | Some (Inr (m, persisted), w) \<Rightarrow>
          Some (Inr \<lparr>st_mem = m, st_conn = c, st_prefix = pre, st_presencePersistInterval = interval,
            st_persistedObjects = persisted, st_presenceLastPersist = fmempty\<rparr>, w))"

text \<open>The settings of the environment; \<open>env\<close> is \<^verbatim>\<open>os.Getenv\<close>.\<close>

definition state_config :: "(string \<Rightarrow> string) \<Rightarrow> go_error + s3_config \<times> string" where
  "state_config env =
     (let get = (\<lambda>n. TrimSpace (env n));
          endpoint = get ''MOLTENHUB_STATE_S3_ENDPOINT''; bucket = get ''MOLTENHUB_STATE_S3_BUCKET'';
          region = get ''MOLTENHUB_STATE_S3_REGION'';
          pre = Trim (get ''MOLTENHUB_STATE_S3_PREFIX'') ''/'';
          pathStyleRaw = get ''MOLTENHUB_STATE_S3_PATH_STYLE'';
          ak = get ''MOLTENHUB_STATE_S3_ACCESS_KEY_ID''; sk = get ''MOLTENHUB_STATE_S3_SECRET_ACCESS_KEY'' in
      if endpoint = [] then Inl (plain_error ''MOLTENHUB_STATE_S3_ENDPOINT is required for s3 state backend'')
      else if bucket = [] then Inl (plain_error ''MOLTENHUB_STATE_S3_BUCKET is required for s3 state backend'')
      else if (ak = []) \<noteq> (sk = []) then Inl (plain_error
        ''MOLTENHUB_STATE_S3_ACCESS_KEY_ID and MOLTENHUB_STATE_S3_SECRET_ACCESS_KEY must be set together'')
      else if pathStyleRaw \<noteq> [] \<and> \<not> EqualFold pathStyleRaw ''true'' then Inl (plain_error
        ''MOLTENHUB_STATE_S3_PATH_STYLE=false is not supported in this build'')
      else if \<not> HasPrefix endpoint ''http://'' \<and> \<not> HasPrefix endpoint ''https://'' then Inl (plain_error
        ''MOLTENHUB_STATE_S3_ENDPOINT must include http:// or https:// scheme'')
      else Inr (\<lparr>cfg_Endpoint = endpoint, cfg_Bucket = bucket,
        cfg_Region = (if region = [] then ''us-east-1'' else region), cfg_PathStyle = True,
        cfg_AccessKeyID = ak, cfg_SecretAccessKey = sk\<rparr>,
        if pre = [] then ''moltenhub-state'' else pre))"

text \<open>The check at start writes an object and deletes it; the clock gives its name.\<close>

definition S3_StartupCheck :: "'w s3_state \<Rightarrow> 'w \<Rightarrow> go_error option \<times> 'w" where
  "S3_StartupCheck st w =
     (let key = objectKey [prefixed (st_prefix st) ''startup-check'',
            pad_left 19 (show_int (cn_now (st_conn st) w)) @ ''.json''];
          body = JObj (put_field ''check'' (JStr ''state_startup'')) in
      case putObject (st_conn st) key body w of
        (Some e, w) \<Rightarrow> (Some (wrap_error ''state startup check write failed'' e), w)
      | (None, w) \<Rightarrow>
          (case deleteObject (st_conn st) key w of
             (Some e, w) \<Rightarrow> (Some (wrap_error ''state startup check cleanup failed'' e), w)
           | (None, w) \<Rightarrow> (None, w)))"

section \<open>Writing the state\<close>

fun put_keys ::
  "'w s3_connection \<Rightarrow> json gomap \<Rightarrow> string list \<Rightarrow> 'w \<Rightarrow> go_error option \<times> 'w" where
  "put_keys c desired [] w = (None, w)"
| "put_keys c desired (key # keys) w =
     (case putObject c key (the (fmlookup desired key)) w of
        (Some e, w) \<Rightarrow> (Some e, w)
      | (None, w) \<Rightarrow> put_keys c desired keys w)"

fun delete_keys :: "'w s3_connection \<Rightarrow> string list \<Rightarrow> 'w \<Rightarrow> go_error option \<times> 'w" where
  "delete_keys c [] w = (None, w)"
| "delete_keys c (key # keys) w =
     (case deleteObject c key w of
        (Some e, w) \<Rightarrow> (Some e, w)
      | (None, w) \<Rightarrow> delete_keys c keys w)"

definition desired_objects :: "'w s3_state \<Rightarrow> json gomap" where
  "desired_objects st = flattenS3Objects (buildDesiredObjects (st_prefix st) (st_mem st))"

definition write_keys :: "json gomap \<Rightarrow> json gomap \<Rightarrow> string list" where
  "write_keys desired previous =
     sorted_keys (fmfilter (\<lambda>k. fmlookup previous k \<noteq> fmlookup desired k) desired)"

definition stale_keys :: "json gomap \<Rightarrow> json gomap \<Rightarrow> string list" where
  "stale_keys desired previous = sorted_keys (fmfilter (\<lambda>k. fmlookup desired k = None) previous)"

definition persistAll :: "'w s3_state \<Rightarrow> 'w \<Rightarrow> go_error option \<times> 'w s3_state \<times> 'w" where
  "persistAll st w =
     (let desired = desired_objects st; previous = st_persistedObjects st in
      case put_keys (st_conn st) desired (write_keys desired previous) w of
        (Some e, w) \<Rightarrow> (Some e, st, w)
      | (None, w) \<Rightarrow>
          (case delete_keys (st_conn st) (stale_keys desired previous) w of
             (Some e, w) \<Rightarrow> (Some e, st, w)
           | (None, w) \<Rightarrow> (None, st\<lparr>st_persistedObjects := desired\<rparr>, w)))"

definition persistAllBestEffortLocked :: "'w s3_state \<Rightarrow> 'w \<Rightarrow> 'w s3_state \<times> 'w" where
  "persistAllBestEffortLocked st w = snd (persistAll st w)"

section \<open>The operations\<close>

text \<open>
  What the operations share: the operation on the memory store, its error, and if there is none
  the write of all that changed.
\<close>

definition persist_after ::
  "(store_error + 'a) \<times> memory_store \<Rightarrow> 'w s3_state \<Rightarrow> 'w \<Rightarrow> (s3_error + 'a) \<times> 'w s3_state \<times> 'w" where
  "persist_after r st w =
     (let st = st\<lparr>st_mem := snd r\<rparr> in
      case fst r of
        Inl e \<Rightarrow> (Inl (StoreError e), st, w)
      | Inr v \<Rightarrow>
          (case persistAll st w of
             (Some e, st, w) \<Rightarrow> (Inl (ConnError e), st, w)
           | (None, st, w) \<Rightarrow> (Inr v, st, w)))"

definition best_effort_after ::
  "(store_error + 'a) \<times> memory_store \<Rightarrow> 'w s3_state \<Rightarrow> 'w \<Rightarrow> (s3_error + 'a) \<times> 'w s3_state \<times> 'w" where
  "best_effort_after r st w =
     (let st = st\<lparr>st_mem := snd r\<rparr> in
      case fst r of
        Inl e \<Rightarrow> (Inl (StoreError e), st, w)
      | Inr v \<Rightarrow> (Inr v, persistAllBestEffortLocked st w))"

definition S3_UpdateHumanProfile ::
  "string \<Rightarrow> string \<Rightarrow> bool \<Rightarrow> time \<Rightarrow> 'w s3_state \<Rightarrow> 'w \<Rightarrow>
   (s3_error + human) \<times> 'w s3_state \<times> 'w" where
  "S3_UpdateHumanProfile humanID handle confirmHandle now st w =
     persist_after (UpdateHumanProfile humanID handle confirmHandle now (st_mem st)) st w"

definition S3_UpdateHumanMetadata ::
  "string \<Rightarrow> gmap \<Rightarrow> time \<Rightarrow> 'w s3_state \<Rightarrow> 'w \<Rightarrow>
   (s3_error + human) \<times> 'w s3_state \<times> 'w" where
  "S3_UpdateHumanMetadata humanID metadata now st w =
     persist_after (UpdateHumanMetadata humanID metadata now (st_mem st)) st w"

definition S3_CreateOrg ::
  "string \<Rightarrow> string \<Rightarrow> string \<Rightarrow> string \<Rightarrow> time \<Rightarrow> 'w s3_state \<Rightarrow> 'w \<Rightarrow>
   (s3_error + organization \<times> membership) \<times> 'w s3_state \<times> 'w" where
  "S3_CreateOrg handle displayName creatorHumanID orgID now st w =
     persist_after (CreateOrg handle displayName creatorHumanID orgID now (st_mem st)) st w"

definition S3_DeleteOrg ::
  "string \<Rightarrow> string \<Rightarrow> bool \<Rightarrow> time \<Rightarrow> 'w s3_state \<Rightarrow> 'w \<Rightarrow>
   (s3_error + unit) \<times> 'w s3_state \<times> 'w" where
  "S3_DeleteOrg orgID actorHumanID isSuperAdmin now st w =
     persist_after (DeleteOrg orgID actorHumanID isSuperAdmin now (st_mem st)) st w"

definition S3_CreateInvite ::
  "string \<Rightarrow> string \<Rightarrow> string \<Rightarrow> string \<Rightarrow> string \<Rightarrow> string \<Rightarrow> time \<Rightarrow> time \<Rightarrow> bool \<Rightarrow> 'w s3_state \<Rightarrow> 'w \<Rightarrow>
   (s3_error + invite) \<times> 'w s3_state \<times> 'w" where
  "S3_CreateInvite orgID email role actorHumanID inviteID inviteSecretHash expiresAt now isSuperAdmin st w =
     persist_after (CreateInvite orgID email role actorHumanID inviteID inviteSecretHash expiresAt now isSuperAdmin (st_mem st)) st w"

definition S3_AcceptInvite ::
  "string \<Rightarrow> string \<Rightarrow> string \<Rightarrow> time \<Rightarrow> store_error + string \<Rightarrow> 'w s3_state \<Rightarrow> 'w \<Rightarrow>
   (s3_error + membership) \<times> 'w s3_state \<times> 'w" where
  "S3_AcceptInvite inviteID humanID humanEmail now idFactory st w =
     persist_after (AcceptInvite inviteID humanID humanEmail now idFactory (st_mem st)) st w"

definition S3_AcceptInviteBySecretHash ::
  "string \<Rightarrow> string \<Rightarrow> string \<Rightarrow> time \<Rightarrow> store_error + string \<Rightarrow> 'w s3_state \<Rightarrow> 'w \<Rightarrow>
   (s3_error + membership) \<times> 'w s3_state \<times> 'w" where
  "S3_AcceptInviteBySecretHash inviteSecretHash humanID humanEmail now idFactory st w =
     persist_after (AcceptInviteBySecretHash inviteSecretHash humanID humanEmail now idFactory (st_mem st)) st w"

definition S3_RevokeInvite ::
  "string \<Rightarrow> string \<Rightarrow> string \<Rightarrow> bool \<Rightarrow> time \<Rightarrow> 'w s3_state \<Rightarrow> 'w \<Rightarrow>
   (s3_error + invite) \<times> 'w s3_state \<times> 'w" where
  "S3_RevokeInvite inviteID actorHumanID actorEmail isSuperAdmin now st w =
     persist_after (RevokeInvite inviteID actorHumanID actorEmail isSuperAdmin now (st_mem st)) st w"

definition S3_RevokeMembership ::
  "string \<Rightarrow> string \<Rightarrow> string \<Rightarrow> bool \<Rightarrow> time \<Rightarrow> 'w s3_state \<Rightarrow> 'w \<Rightarrow>
   (s3_error + membership) \<times> 'w s3_state \<times> 'w" where
  "S3_RevokeMembership orgID humanID actorHumanID isSuperAdmin now st w =
     persist_after (RevokeMembership orgID humanID actorHumanID isSuperAdmin now (st_mem st)) st w"

definition S3_CreateOrgAccessKey ::
  "string \<Rightarrow> string \<Rightarrow> string list \<Rightarrow> time option \<Rightarrow> string \<Rightarrow> string \<Rightarrow> string \<Rightarrow> time \<Rightarrow> bool \<Rightarrow> 'w s3_state \<Rightarrow> 'w \<Rightarrow>
   (s3_error + org_access_key) \<times> 'w s3_state \<times> 'w" where
  "S3_CreateOrgAccessKey orgID label scopes expiresAt actorHumanID keyID tokenHash now isSuperAdmin st w =
     persist_after (CreateOrgAccessKey orgID label scopes expiresAt actorHumanID keyID tokenHash now isSuperAdmin (st_mem st)) st w"

definition S3_RevokeOrgAccessKey ::
  "string \<Rightarrow> string \<Rightarrow> string \<Rightarrow> bool \<Rightarrow> time \<Rightarrow> 'w s3_state \<Rightarrow> 'w \<Rightarrow>
   (s3_error + org_access_key) \<times> 'w s3_state \<times> 'w" where
  "S3_RevokeOrgAccessKey orgID keyID actorHumanID isSuperAdmin now st w =
     persist_after (RevokeOrgAccessKey orgID keyID actorHumanID isSuperAdmin now (st_mem st)) st w"

definition S3_AuthorizeOrgAccessByName ::
  "string \<Rightarrow> string \<Rightarrow> string \<Rightarrow> time \<Rightarrow> 'w s3_state \<Rightarrow> 'w \<Rightarrow>
   (s3_error + organization \<times> org_access_key) \<times> 'w s3_state \<times> 'w" where
  "S3_AuthorizeOrgAccessByName orgName accessKeyHash requiredScope now st w =
     persist_after (AuthorizeOrgAccessByName orgName accessKeyHash requiredScope now (st_mem st)) st w"

definition S3_RegisterAgent ::
  "string \<Rightarrow> string \<Rightarrow> string option \<Rightarrow> string \<Rightarrow> string \<Rightarrow> time \<Rightarrow> bool \<Rightarrow> store_error + string \<Rightarrow> 'w s3_state \<Rightarrow> 'w \<Rightarrow>
   (s3_error + agent) \<times> 'w s3_state \<times> 'w" where
  "S3_RegisterAgent orgID agentID ownerHumanID tokenHash actorHumanID now isSuperAdmin newUUID st w =
     persist_after (RegisterAgent orgID agentID ownerHumanID tokenHash actorHumanID now isSuperAdmin newUUID (st_mem st)) st w"

definition S3_CreateBindToken ::
  "string \<Rightarrow> string option \<Rightarrow> string \<Rightarrow> string \<Rightarrow> string \<Rightarrow> time \<Rightarrow> time \<Rightarrow> bool \<Rightarrow> 'w s3_state \<Rightarrow> 'w \<Rightarrow>
   (s3_error + bind_token) \<times> 'w s3_state \<times> 'w" where
  "S3_CreateBindToken orgID ownerHumanID actorHumanID bindID bindTokenHash expiresAt now isSuperAdmin st w =
     persist_after (CreateBindToken orgID ownerHumanID actorHumanID bindID bindTokenHash expiresAt now isSuperAdmin (st_mem st)) st w"

definition S3_CreateAgentInviteBindToken ::
  "string \<Rightarrow> string \<Rightarrow> string \<Rightarrow> time \<Rightarrow> time \<Rightarrow> 'w s3_state \<Rightarrow> 'w \<Rightarrow>
   (s3_error + bind_token) \<times> 'w s3_state \<times> 'w" where
  "S3_CreateAgentInviteBindToken hostAgentUUID bindID bindTokenHash expiresAt now st w =
     persist_after (CreateAgentInviteBindToken hostAgentUUID bindID bindTokenHash expiresAt now (st_mem st)) st w"

definition S3_RedeemBindToken ::
  "string \<Rightarrow> string \<Rightarrow> string \<Rightarrow> time \<Rightarrow> store_error + string \<Rightarrow> store_error + string \<Rightarrow> 'w s3_state \<Rightarrow> 'w \<Rightarrow>
   (s3_error + agent) \<times> 'w s3_state \<times> 'w" where
  "S3_RedeemBindToken bindTokenHash agentID agentTokenHash now newUUID newEdgeID st w =
     persist_after (RedeemBindToken bindTokenHash agentID agentTokenHash now newUUID newEdgeID (st_mem st)) st w"

definition S3_RotateAgentToken ::
  "string \<Rightarrow> string \<Rightarrow> string \<Rightarrow> time \<Rightarrow> bool \<Rightarrow> 'w s3_state \<Rightarrow> 'w \<Rightarrow>
   (s3_error + unit) \<times> 'w s3_state \<times> 'w" where
  "S3_RotateAgentToken agentUUID actorHumanID tokenHash now isSuperAdmin st w =
     persist_after (RotateAgentToken agentUUID actorHumanID tokenHash now isSuperAdmin (st_mem st)) st w"

definition S3_RevokeAgent ::
  "string \<Rightarrow> string \<Rightarrow> time \<Rightarrow> bool \<Rightarrow> 'w s3_state \<Rightarrow> 'w \<Rightarrow>
   (s3_error + unit) \<times> 'w s3_state \<times> 'w" where
  "S3_RevokeAgent agentUUID actorHumanID now isSuperAdmin st w =
     persist_after (RevokeAgent agentUUID actorHumanID now isSuperAdmin (st_mem st)) st w"

definition S3_UpdateOrgMetadata ::
  "(gmap \<Rightarrow> int option) \<Rightarrow> string \<Rightarrow> gmap \<Rightarrow> string \<Rightarrow> bool \<Rightarrow> time \<Rightarrow> 'w s3_state \<Rightarrow> 'w \<Rightarrow>
   (s3_error + organization) \<times> 'w s3_state \<times> 'w" where
  "S3_UpdateOrgMetadata jsonSize orgID metadata actorHumanID isSuperAdmin now st w =
     persist_after (UpdateOrgMetadata jsonSize orgID metadata actorHumanID isSuperAdmin now (st_mem st)) st w"

definition S3_UpdateAgentMetadata ::
  "(gmap \<Rightarrow> int option) \<Rightarrow> string \<Rightarrow> gmap \<Rightarrow> string \<Rightarrow> time \<Rightarrow> bool \<Rightarrow> 'w s3_state \<Rightarrow> 'w \<Rightarrow>
   (s3_error + agent) \<times> 'w s3_state \<times> 'w" where
  "S3_UpdateAgentMetadata jsonSize agentUUID metadata actorHumanID now isSuperAdmin st w =
     persist_after (UpdateAgentMetadata jsonSize agentUUID metadata actorHumanID now isSuperAdmin (st_mem st)) st w"

definition S3_UpdateAgentMetadataSelf ::
  "(gmap \<Rightarrow> int option) \<Rightarrow> string \<Rightarrow> gmap \<Rightarrow> time \<Rightarrow> 'w s3_state \<Rightarrow> 'w \<Rightarrow>
   (s3_error + agent) \<times> 'w s3_state \<times> 'w" where
  "S3_UpdateAgentMetadataSelf jsonSize agentUUID metadata now st w =
     persist_after (UpdateAgentMetadataSelf jsonSize agentUUID metadata now (st_mem st)) st w"

definition S3_FinalizeAgentHandleSelf ::
  "string \<Rightarrow> string \<Rightarrow> time \<Rightarrow> 'w s3_state \<Rightarrow> 'w \<Rightarrow>
   (s3_error + agent) \<times> 'w s3_state \<times> 'w" where
  "S3_FinalizeAgentHandleSelf agentUUID handle now st w =
     persist_after (FinalizeAgentHandleSelf agentUUID handle now (st_mem st)) st w"

definition S3_CreateOrJoinOrgTrust ::
  "string \<Rightarrow> string \<Rightarrow> string \<Rightarrow> string \<Rightarrow> time \<Rightarrow> bool \<Rightarrow> 'w s3_state \<Rightarrow> 'w \<Rightarrow>
   (s3_error + trust_edge \<times> bool) \<times> 'w s3_state \<times> 'w" where
  "S3_CreateOrJoinOrgTrust orgID peerOrgID actorHumanID edgeID now isSuperAdmin st w =
     persist_after (CreateOrJoinOrgTrust orgID peerOrgID actorHumanID edgeID now isSuperAdmin (st_mem st)) st w"

definition S3_CreateOrJoinAgentTrust ::
  "string \<Rightarrow> string \<Rightarrow> string \<Rightarrow> string \<Rightarrow> string \<Rightarrow> time \<Rightarrow> bool \<Rightarrow> 'w s3_state \<Rightarrow> 'w \<Rightarrow>
   (s3_error + trust_edge \<times> bool) \<times> 'w s3_state \<times> 'w" where
  "S3_CreateOrJoinAgentTrust orgID agentUUID peerAgentUUID actorHumanID edgeID now isSuperAdmin st w =
     persist_after (CreateOrJoinAgentTrust orgID agentUUID peerAgentUUID actorHumanID edgeID now isSuperAdmin (st_mem st)) st w"

definition S3_ApproveOrgTrust ::
  "string \<Rightarrow> string \<Rightarrow> time \<Rightarrow> bool \<Rightarrow> 'w s3_state \<Rightarrow> 'w \<Rightarrow>
   (s3_error + trust_edge) \<times> 'w s3_state \<times> 'w" where
  "S3_ApproveOrgTrust edgeID actorHumanID now isSuperAdmin st w =
     persist_after (ApproveOrgTrust edgeID actorHumanID now isSuperAdmin (st_mem st)) st w"

definition S3_BlockOrgTrust ::
  "string \<Rightarrow> string \<Rightarrow> time \<Rightarrow> bool \<Rightarrow> 'w s3_state \<Rightarrow> 'w \<Rightarrow>
   (s3_error + trust_edge) \<times> 'w s3_state \<times> 'w" where
  "S3_BlockOrgTrust edgeID actorHumanID now isSuperAdmin st w =
     persist_after (BlockOrgTrust edgeID actorHumanID now isSuperAdmin (st_mem st)) st w"

definition S3_RevokeOrgTrust ::
  "string \<Rightarrow> string \<Rightarrow> time \<Rightarrow> bool \<Rightarrow> 'w s3_state \<Rightarrow> 'w \<Rightarrow>
   (s3_error + trust_edge) \<times> 'w s3_state \<times> 'w" where
  "S3_RevokeOrgTrust edgeID actorHumanID now isSuperAdmin st w =
     persist_after (RevokeOrgTrust edgeID actorHumanID now isSuperAdmin (st_mem st)) st w"

definition S3_ApproveAgentTrust ::
  "string \<Rightarrow> string \<Rightarrow> time \<Rightarrow> bool \<Rightarrow> 'w s3_state \<Rightarrow> 'w \<Rightarrow>
   (s3_error + trust_edge) \<times> 'w s3_state \<times> 'w" where
  "S3_ApproveAgentTrust edgeID actorHumanID now isSuperAdmin st w =
     persist_after (ApproveAgentTrust edgeID actorHumanID now isSuperAdmin (st_mem st)) st w"

definition S3_BlockAgentTrust ::
  "string \<Rightarrow> string \<Rightarrow> time \<Rightarrow> bool \<Rightarrow> 'w s3_state \<Rightarrow> 'w \<Rightarrow>
   (s3_error + trust_edge) \<times> 'w s3_state \<times> 'w" where
  "S3_BlockAgentTrust edgeID actorHumanID now isSuperAdmin st w =
     persist_after (BlockAgentTrust edgeID actorHumanID now isSuperAdmin (st_mem st)) st w"

definition S3_RevokeAgentTrust ::
  "string \<Rightarrow> string \<Rightarrow> time \<Rightarrow> bool \<Rightarrow> 'w s3_state \<Rightarrow> 'w \<Rightarrow>
   (s3_error + trust_edge) \<times> 'w s3_state \<times> 'w" where
  "S3_RevokeAgentTrust edgeID actorHumanID now isSuperAdmin st w =
     persist_after (RevokeAgentTrust edgeID actorHumanID now isSuperAdmin (st_mem st)) st w"

definition S3_CreatePeerInstance ::
  "string \<Rightarrow> string \<Rightarrow> string \<Rightarrow> string \<Rightarrow> string \<Rightarrow> time \<Rightarrow> 'w s3_state \<Rightarrow> 'w \<Rightarrow>
   (s3_error + peer_instance) \<times> 'w s3_state \<times> 'w" where
  "S3_CreatePeerInstance canonicalBaseURL deliveryBaseURL sharedSecret actorHumanID peerID now st w =
     persist_after (CreatePeerInstance canonicalBaseURL deliveryBaseURL sharedSecret actorHumanID peerID now (st_mem st)) st w"

definition S3_DeletePeerInstance ::
  "string \<Rightarrow> time \<Rightarrow> 'w s3_state \<Rightarrow> 'w \<Rightarrow>
   (s3_error + peer_instance) \<times> 'w s3_state \<times> 'w" where
  "S3_DeletePeerInstance peerID now st w =
     persist_after (DeletePeerInstance peerID now (st_mem st)) st w"

definition S3_CreateRemoteOrgTrust ::
  "string \<Rightarrow> string \<Rightarrow> string \<Rightarrow> string \<Rightarrow> string \<Rightarrow> time \<Rightarrow> 'w s3_state \<Rightarrow> 'w \<Rightarrow>
   (s3_error + remote_org_trust) \<times> 'w s3_state \<times> 'w" where
  "S3_CreateRemoteOrgTrust localOrgID peerID remoteOrgHandle actorHumanID trustID now st w =
     persist_after (CreateRemoteOrgTrust localOrgID peerID remoteOrgHandle actorHumanID trustID now (st_mem st)) st w"

definition S3_DeleteRemoteOrgTrust ::
  "string \<Rightarrow> time \<Rightarrow> 'w s3_state \<Rightarrow> 'w \<Rightarrow>
   (s3_error + remote_org_trust) \<times> 'w s3_state \<times> 'w" where
  "S3_DeleteRemoteOrgTrust trustID now st w =
     persist_after (DeleteRemoteOrgTrust trustID now (st_mem st)) st w"

definition S3_CreateRemoteAgentTrust ::
  "string \<Rightarrow> string \<Rightarrow> string \<Rightarrow> string \<Rightarrow> string \<Rightarrow> time \<Rightarrow> 'w s3_state \<Rightarrow> 'w \<Rightarrow>
   (s3_error + remote_agent_trust) \<times> 'w s3_state \<times> 'w" where
  "S3_CreateRemoteAgentTrust localAgentUUID peerID remoteAgentURI actorHumanID trustID now st w =
     persist_after (CreateRemoteAgentTrust localAgentUUID peerID remoteAgentURI actorHumanID trustID now (st_mem st)) st w"

definition S3_DeleteRemoteAgentTrust ::
  "string \<Rightarrow> time \<Rightarrow> 'w s3_state \<Rightarrow> 'w \<Rightarrow>
   (s3_error + remote_agent_trust) \<times> 'w s3_state \<times> 'w" where
  "S3_DeleteRemoteAgentTrust trustID now st w =
     persist_after (DeleteRemoteAgentTrust trustID now (st_mem st)) st w"

definition S3_EnqueuePeerOutbound ::
  "string \<Rightarrow> string \<Rightarrow> message \<Rightarrow> time \<Rightarrow> 'w s3_state \<Rightarrow> 'w \<Rightarrow>
   (s3_error + peer_outbound) \<times> 'w s3_state \<times> 'w" where
  "S3_EnqueuePeerOutbound peerID outboundID m now st w =
     persist_after (EnqueuePeerOutbound peerID outboundID m now (st_mem st)) st w"

definition S3_MarkPeerOutboundRetry ::
  "string \<Rightarrow> string \<Rightarrow> time \<Rightarrow> time \<Rightarrow> 'w s3_state \<Rightarrow> 'w \<Rightarrow>
   (s3_error + peer_outbound) \<times> 'w s3_state \<times> 'w" where
  "S3_MarkPeerOutboundRetry outboundID reason nextAttemptAt now st w =
     persist_after (MarkPeerOutboundRetry outboundID reason nextAttemptAt now (st_mem st)) st w"

definition S3_MarkPeerOutboundDelivered ::
  "string \<Rightarrow> time \<Rightarrow> 'w s3_state \<Rightarrow> 'w \<Rightarrow>
   (s3_error + peer_outbound) \<times> 'w s3_state \<times> 'w" where
  "S3_MarkPeerOutboundDelivered outboundID now st w =
     persist_after (MarkPeerOutboundDelivered outboundID now (st_mem st)) st w"

definition S3_DeleteAgent ::
  "string \<Rightarrow> string \<Rightarrow> time \<Rightarrow> bool \<Rightarrow> 'w s3_state \<Rightarrow> 'w \<Rightarrow>
   (s3_error + unit) \<times> 'w s3_state \<times> 'w" where
  "S3_DeleteAgent agentUUID actorHumanID now isSuperAdmin st w =
     persist_after (DeleteAgent agentUUID actorHumanID now isSuperAdmin (st_mem st)) st w"

definition S3_CreateOrGetMessageRecord ::
  "message \<Rightarrow> time \<Rightarrow> 'w s3_state \<Rightarrow> 'w \<Rightarrow>
   (s3_error + message_record \<times> bool) \<times> 'w s3_state \<times> 'w" where
  "S3_CreateOrGetMessageRecord m acceptedAt st w =
     persist_after (CreateOrGetMessageRecord m acceptedAt (st_mem st)) st w"

definition S3_MarkMessageForwarded ::
  "string \<Rightarrow> time \<Rightarrow> 'w s3_state \<Rightarrow> 'w \<Rightarrow>
   (s3_error + message_record) \<times> 'w s3_state \<times> 'w" where
  "S3_MarkMessageForwarded messageID forwardedAt st w =
     persist_after (MarkMessageForwarded messageID forwardedAt (st_mem st)) st w"

definition S3_AbortMessageRecord ::
  "string \<Rightarrow> time \<Rightarrow> 'w s3_state \<Rightarrow> 'w \<Rightarrow>
   (s3_error + unit) \<times> 'w s3_state \<times> 'w" where
  "S3_AbortMessageRecord messageID timeNow st w =
     persist_after (AbortMessageRecord messageID timeNow (st_mem st)) st w"

definition S3_AckMessageDelivery ::
  "string \<Rightarrow> string \<Rightarrow> time \<Rightarrow> 'w s3_state \<Rightarrow> 'w \<Rightarrow>
   (s3_error + message_record) \<times> 'w s3_state \<times> 'w" where
  "S3_AckMessageDelivery receiverAgentUUID deliveryID ackedAt st w =
     persist_after (AckMessageDelivery receiverAgentUUID deliveryID ackedAt (st_mem st)) st w"

definition S3_ReleaseMessageDelivery ::
  "string \<Rightarrow> string \<Rightarrow> time \<Rightarrow> string \<Rightarrow> 'w s3_state \<Rightarrow> 'w \<Rightarrow>
   (s3_error + message \<times> message_record) \<times> 'w s3_state \<times> 'w" where
  "S3_ReleaseMessageDelivery receiverAgentUUID deliveryID now reason st w =
     persist_after (ReleaseMessageDelivery receiverAgentUUID deliveryID now reason (st_mem st)) st w"

definition S3_Enqueue ::
  "message \<Rightarrow> 'w s3_state \<Rightarrow> 'w \<Rightarrow>
   (s3_error + unit) \<times> 'w s3_state \<times> 'w" where
  "S3_Enqueue message st w =
     persist_after (Enqueue message (st_mem st)) st w"

definition S3_UpdateAgentMetadataSelfBestEffort ::
  "(gmap \<Rightarrow> int option) \<Rightarrow> string \<Rightarrow> gmap \<Rightarrow> time \<Rightarrow> 'w s3_state \<Rightarrow> 'w \<Rightarrow>
   (s3_error + agent) \<times> 'w s3_state \<times> 'w" where
  "S3_UpdateAgentMetadataSelfBestEffort jsonSize agentUUID metadata now st w =
     best_effort_after (UpdateAgentMetadataSelf jsonSize agentUUID metadata now (st_mem st)) st w"

definition S3_FinalizeAgentHandleSelfBestEffort ::
  "string \<Rightarrow> string \<Rightarrow> time \<Rightarrow> 'w s3_state \<Rightarrow> 'w \<Rightarrow>
   (s3_error + agent) \<times> 'w s3_state \<times> 'w" where
  "S3_FinalizeAgentHandleSelfBestEffort agentUUID handle now st w =
     best_effort_after (FinalizeAgentHandleSelf agentUUID handle now (st_mem st)) st w"

definition S3_RecordAgentSystemActivity ::
  "string \<Rightarrow> gmap \<Rightarrow> time \<Rightarrow> 'w s3_state \<Rightarrow> 'w \<Rightarrow>
   (s3_error + agent) \<times> 'w s3_state \<times> 'w" where
  "S3_RecordAgentSystemActivity agentUUID entry now st w =
     best_effort_after (RecordAgentSystemActivity agentUUID entry now (st_mem st)) st w"

definition S3_RecordMessageQueued ::
  "string \<Rightarrow> time \<Rightarrow> 'w s3_state \<Rightarrow> 'w \<Rightarrow> 'w s3_state \<times> 'w" where
  "S3_RecordMessageQueued orgID timeNow st w =
     persistAllBestEffortLocked (st\<lparr>st_mem := RecordMessageQueued orgID timeNow (st_mem st)\<rparr>) w"

definition S3_RecordMessageDropped ::
  "string \<Rightarrow> time \<Rightarrow> 'w s3_state \<Rightarrow> 'w \<Rightarrow> 'w s3_state \<times> 'w" where
  "S3_RecordMessageDropped orgID timeNow st w =
     persistAllBestEffortLocked (st\<lparr>st_mem := RecordMessageDropped orgID timeNow (st_mem st)\<rparr>) w"

definition S3_RecordPeerDeliverySuccess ::
  "string \<Rightarrow> time \<Rightarrow> 'w s3_state \<Rightarrow> 'w \<Rightarrow> 'w s3_state \<times> 'w" where
  "S3_RecordPeerDeliverySuccess peerID now st w =
     persistAllBestEffortLocked (st\<lparr>st_mem := RecordPeerDeliverySuccess peerID now (st_mem st)\<rparr>) w"

definition S3_RecordPeerDeliveryFailure ::
  "string \<Rightarrow> string \<Rightarrow> time \<Rightarrow> 'w s3_state \<Rightarrow> 'w \<Rightarrow> 'w s3_state \<times> 'w" where
  "S3_RecordPeerDeliveryFailure peerID reason now st w =
     persistAllBestEffortLocked (st\<lparr>st_mem := RecordPeerDeliveryFailure peerID reason now (st_mem st)\<rparr>) w"

text \<open>The operations that may not return, as in the memory store.  A human who is as before is not written.\<close>

definition S3_UpsertHuman ::
  "string \<Rightarrow> string \<Rightarrow> string \<Rightarrow> bool \<Rightarrow> time \<Rightarrow> store_error + string \<Rightarrow> 'w s3_state \<Rightarrow> 'w \<Rightarrow>
   ((s3_error + human) \<times> 'w s3_state \<times> 'w) option" where
  "S3_UpsertHuman provider subject email emailVerified now idFactory st w =
     (let existing = Option.bind (fmlookup (humanByAuthKey (st_mem st)) (authKey provider subject))
            (fmlookup (humans (st_mem st))) in
      map_option (\<lambda>r. case fst r of
          Inl e \<Rightarrow> (Inl (StoreError e), st\<lparr>st_mem := snd r\<rparr>, w)
        | Inr h \<Rightarrow> if existing = Some h then (Inr h, st\<lparr>st_mem := snd r\<rparr>, w) else persist_after r st w)
      (UpsertHuman provider subject email emailVerified now idFactory (st_mem st)))"

definition S3_EnsurePersonalOrg ::
  "string \<Rightarrow> time \<Rightarrow> store_error + string \<Rightarrow> 'w s3_state \<Rightarrow> 'w \<Rightarrow>
   ((s3_error + organization) \<times> 'w s3_state \<times> 'w) option" where
  "S3_EnsurePersonalOrg humanID now idFactory st w =
     map_option (\<lambda>r. persist_after r st w) (EnsurePersonalOrg humanID now idFactory (st_mem st))"

section \<open>Messages\<close>

definition S3_Dequeue :: "string \<Rightarrow> 'w s3_state \<Rightarrow> 'w \<Rightarrow> (s3_error + message option) \<times> 'w s3_state \<times> 'w" where
  "S3_Dequeue agentUUID st w =
     (case Dequeue agentUUID (st_mem st) of
        (None, s) \<Rightarrow> (Inr None, st\<lparr>st_mem := s\<rparr>, w)
      | (Some m, s) \<Rightarrow> persist_after (Inr (Some m), s) st w)"

definition S3_ExpireMessageLeases :: "time \<Rightarrow> 'w s3_state \<Rightarrow> 'w \<Rightarrow> message list \<times> 'w s3_state \<times> 'w" where
  "S3_ExpireMessageLeases now st w =
     (case ExpireMessageLeases now (st_mem st) of
        (messages, s) \<Rightarrow>
          let st = st\<lparr>st_mem := s\<rparr> in
          if messages = [] then ([], st, w) else (messages, persistAllBestEffortLocked st w))"

text \<open>A record that is not in memory is fetched.\<close>

definition S3_GetMessageRecord :: "string \<Rightarrow> 'w s3_state \<Rightarrow> 'w \<Rightarrow> (s3_error + message_record) \<times> 'w s3_state \<times> 'w" where
  "S3_GetMessageRecord messageID st w =
     (case GetMessageRecord (st_mem st) messageID of
        Inr r \<Rightarrow> (Inr r, st, w)
      | Inl e \<Rightarrow>
          if e \<noteq> ErrMessageNotFound then (Inl (StoreError e), st, w)
          else
            (case fetchMessageRecord (st_conn st) (st_prefix st) messageID w of
               (Inl e, w) \<Rightarrow> (Inl (ConnError e), st, w)
             | (Inr None, w) \<Rightarrow> (Inl (StoreError ErrMessageNotFound), st, w)
             | (Inr (Some r), w) \<Rightarrow> (Inr r, st\<lparr>st_mem := cacheMessageRecordLocked r (st_mem st)\<rparr>, w)))"

definition loadMessageRecordIntoMemory :: "string \<Rightarrow> 'w s3_state \<Rightarrow> 'w \<Rightarrow> s3_error option \<times> 'w s3_state \<times> 'w" where
  "loadMessageRecordIntoMemory messageID st w =
     (case fetchMessageRecord (st_conn st) (st_prefix st) messageID w of
        (Inl e, w) \<Rightarrow> (Some (ConnError e), st, w)
      | (Inr None, w) \<Rightarrow> (Some (StoreError ErrMessageNotFound), st, w)
      | (Inr (Some r), w) \<Rightarrow> (None, st\<lparr>st_mem := cacheMessageRecordLocked r (st_mem st)\<rparr>, w))"

definition S3_LeaseMessage ::
  "string \<Rightarrow> string \<Rightarrow> string \<Rightarrow> time \<Rightarrow> time \<Rightarrow> 'w s3_state \<Rightarrow> 'w \<Rightarrow>
   (s3_error + message_delivery \<times> message_record) \<times> 'w s3_state \<times> 'w" where
  "S3_LeaseMessage messageID receiverAgentUUID deliveryID leasedAt leaseExpiresAt st w =
     (let lease = LeaseMessage messageID receiverAgentUUID deliveryID leasedAt leaseExpiresAt in
      case lease (st_mem st) of
        (Inl e, s) \<Rightarrow>
          if e \<noteq> ErrMessageNotFound then (Inl (StoreError e), st\<lparr>st_mem := s\<rparr>, w)
          else
            (case loadMessageRecordIntoMemory messageID (st\<lparr>st_mem := s\<rparr>) w of
               (Some e, st, w) \<Rightarrow> (Inl e, st, w)
             | (None, st, w) \<Rightarrow> persist_after (lease (st_mem st)) st w)
      | r \<Rightarrow> persist_after r st w)"

section \<open>Presence\<close>

text \<open>
  A heartbeat that does not change the status is written at most once per interval, and only
  its own object; a failure to write it is not reported.
\<close>

definition presence_interval :: "'w s3_state \<Rightarrow> int" where
  "presence_interval st =
     (if st_presencePersistInterval st \<le> 0 then 30 * Second else st_presencePersistInterval st)"

definition persist_presence ::
  "string \<Rightarrow> string \<Rightarrow> json \<Rightarrow> bool \<Rightarrow> time \<Rightarrow> 'w s3_state \<Rightarrow> 'w \<Rightarrow> 'w s3_state \<times> 'w" where
  "persist_presence lastKey key body changedStatus now st w =
     (if \<not> changedStatus \<and> (case fmlookup (st_presenceLastPersist st) lastKey of
          None \<Rightarrow> False | Some prev \<Rightarrow> now - prev < presence_interval st)
      then (st, w)
      else
        (case putObject (st_conn st) key body w of
           (Some _, w) \<Rightarrow> (st, w)
         | (None, w) \<Rightarrow> (st\<lparr>st_persistedObjects := fmupd key body (st_persistedObjects st),
             st_presenceLastPersist := fmupd lastKey now (st_presenceLastPersist st)\<rparr>, w)))"

definition S3_SetHumanPresence ::
  "string \<Rightarrow> gmap \<Rightarrow> time \<Rightarrow> 'w s3_state \<Rightarrow> 'w \<Rightarrow> (store_error + human \<times> bool) \<times> 'w s3_state \<times> 'w" where
  "S3_SetHumanPresence humanID presence now st w =
     (case SetHumanPresence humanID presence now (st_mem st) of
        (Inl e, s) \<Rightarrow> (Inl e, st\<lparr>st_mem := s\<rparr>, w)
      | (Inr (h, changed), s) \<Rightarrow>
          let st = st\<lparr>st_mem := s\<rparr> in
          (case GetHumanPresence humanID s of
             Inr (Some stored) \<Rightarrow>
               (Inr (h, changed), persist_presence (''human:'' @ humanID)
                  (humanPresenceObjectKey (st_prefix st) humanID)
                  (json_of_map (normalizeHumanPresence stored)) changed now st w)
           | _ \<Rightarrow> (Inr (h, changed), st, w)))"

definition S3_SetAgentPresence ::
  "string \<Rightarrow> gmap \<Rightarrow> time \<Rightarrow> 'w s3_state \<Rightarrow> 'w \<Rightarrow> (store_error + agent \<times> bool) \<times> 'w s3_state \<times> 'w" where
  "S3_SetAgentPresence agentUUID presence now st w =
     (case SetAgentPresence agentUUID presence now (st_mem st) of
        (Inl e, s) \<Rightarrow> (Inl e, st\<lparr>st_mem := s\<rparr>, w)
      | (Inr (a, changed), s) \<Rightarrow>
          let st = st\<lparr>st_mem := s\<rparr> in
          (case GetAgentPresence agentUUID s of
             Inr (Some stored) \<Rightarrow>
               (Inr (a, changed), persist_presence agentUUID
                  (presenceObjectKey (st_prefix st) agentUUID)
                  (json_of_map (normalizeAgentPresence stored)) changed now st w)
           | _ \<Rightarrow> (Inr (a, changed), st, w)))"

definition presenceUpdatedAt :: "gmap \<Rightarrow> time option" where
  "presenceUpdatedAt presence =
     (let raw = stringValue (gget presence ''updated_at'') in
      if raw = [] then None else ParseRFC3339 raw)"

definition preferRemotePresence :: "gmap option \<Rightarrow> gmap \<Rightarrow> bool" where
  "preferRemotePresence local remote =
     (if remote = fmempty then False
      else case local of
        None \<Rightarrow> True
      | Some l \<Rightarrow>
          if l = fmempty then True
          else case (presenceUpdatedAt remote, presenceUpdatedAt l) of
              (Some r, Some t) \<Rightarrow> \<not> r < t
            | (Some r, None) \<Rightarrow> True
            | _ \<Rightarrow> False)"

definition readPresenceObjectBestEffort ::
  "string \<Rightarrow> (gmap \<Rightarrow> gmap) \<Rightarrow> 'w s3_state \<Rightarrow> 'w \<Rightarrow> (gmap \<times> json) option \<times> 'w" where
  "readPresenceObjectBestEffort key norm_presence st w =
     (case getObject (st_conn st) key w of
        (Inr (Some body), w) \<Rightarrow>
          (case Option.bind (body_json body) map_of_json of
             None \<Rightarrow> (None, w)
           | Some raw \<Rightarrow>
               let presence = norm_presence raw in
               (if presence = fmempty then None else Some (presence, json_of_map presence), w))
      | (_, w) \<Rightarrow> (None, w))"

text \<open>
  Another instance may have written a later heartbeat.  No operation of this instance comes
  between the two looks at the memory store here, so that the second one finds what the first found.
\<close>

definition S3_GetHumanPresence ::
  "string \<Rightarrow> 'w s3_state \<Rightarrow> 'w \<Rightarrow> (store_error + gmap option) \<times> 'w s3_state \<times> 'w" where
  "S3_GetHumanPresence humanID0 st w =
     (let humanID = TrimSpace humanID0; key = humanPresenceObjectKey (st_prefix st) humanID in
      case GetHumanPresence humanID (st_mem st) of
        Inl e \<Rightarrow> (Inl e, st, w)
      | Inr local \<Rightarrow>
          (case readPresenceObjectBestEffort key normalizeHumanPresence st w of
             (None, w) \<Rightarrow> (Inr local, st, w)
           | (Some (remote, body), w) \<Rightarrow>
               if \<not> preferRemotePresence local remote then (Inr local, st, w)
               else if fmlookup (humans (st_mem st)) humanID = None then (Inl ErrHumanNotFound, st, w)
               else
                 (Inr (Some remote), st
                    \<lparr>st_mem := (st_mem st)\<lparr>humanPresence := fmupd humanID remote (humanPresence (st_mem st))\<rparr>,
                     st_persistedObjects := fmupd key body (st_persistedObjects st)\<rparr>, w)))"

definition S3_GetAgentPresence ::
  "string \<Rightarrow> 'w s3_state \<Rightarrow> 'w \<Rightarrow> (store_error + gmap option) \<times> 'w s3_state \<times> 'w" where
  "S3_GetAgentPresence agentUUID0 st w =
     (let agentUUID = TrimSpace agentUUID0; key = presenceObjectKey (st_prefix st) agentUUID in
      case GetAgentPresence agentUUID (st_mem st) of
        Inl e \<Rightarrow> (Inl e, st, w)
      | Inr local \<Rightarrow>
          (case readPresenceObjectBestEffort key normalizeAgentPresence st w of
             (None, w) \<Rightarrow> (Inr local, st, w)
           | (Some (remote, body), w) \<Rightarrow>
               if \<not> preferRemotePresence local remote then (Inr local, st, w)
               else if (case fmlookup (agents (st_mem st)) agentUUID of
                   None \<Rightarrow> True | Some a \<Rightarrow> Agent_Status a = StatusRevoked) then (Inl ErrAgentNotFound, st, w)
               else
                 (Inr (Some remote), st
                    \<lparr>st_mem := (st_mem st)\<lparr>agentPresence := fmupd agentUUID remote (agentPresence (st_mem st))\<rparr>,
                     st_persistedObjects := fmupd key body (st_persistedObjects st)\<rparr>, w)))"

end
