(* ===== verification/Durable.thy ===== *)
theory Durable
  imports ObjectStore S3State
begin

text \<open>
  What is on the service after an operation of the state store: when it is acknowledged, the
  objects of the store as it is then; when it failed on the way, nothing but old and new objects.
\<close>

section \<open>Writing and deleting objects\<close>

lemma wanted_keys: "set (write_keys desired previous) = {k. fmlookup desired k \<noteq> None \<and> fmlookup previous k \<noteq> fmlookup desired k}"
  by (auto simp: write_keys_def sorted_keys_def fmlookup_dom_iff)

lemma set_stale_keys: "set (stale_keys desired previous) = {k. fmlookup desired k = None \<and> fmlookup previous k \<noteq> None}"
  by (auto simp: stale_keys_def sorted_keys_def fmlookup_dom_iff)

context object_store
begin

lemma put_keys_done:
  assumes "put_keys c desired ks w = (r, w')" and "list_all plain_key ks"
    and "\<forall>k \<in> set ks. fmlookup desired k \<noteq> None"
  shows "fmlookup (contents w') k = fmlookup (contents w) k \<or>
      (k \<in> set ks \<and> fmlookup (contents w') k = fmlookup desired k)"
    and "r = None \<Longrightarrow> fmlookup (contents w') k =
      (if k \<in> set ks then fmlookup desired k else fmlookup (contents w) k)"
  using assms
proof (induction ks arbitrary: w)
  case (Cons i ks)
  {
    case 1
    obtain r1 w1 where p: "putObject c i (the (fmlookup desired i)) w = (r1, w1)" by force
    from put [OF _ p [unfolded putObject_def]] 1
    have w1: "contents w1 = fmupd i (the (fmlookup desired i)) (contents w) \<or> contents w1 = contents w" by auto
    show ?case
    proof (cases r1)
      case None
      with 1 p have "put_keys c desired ks w1 = (r, w')" by simp
      from Cons.IH(1) [OF this] 1 w1 show ?thesis by (auto split: if_splits)
    next
      case (Some e)
      with 1 p w1 show ?thesis by (auto split: if_splits)
    qed
  next
    case 2
    then obtain w1 where p: "putObject c i (the (fmlookup desired i)) w = (None, w1)"
      "put_keys c desired ks w1 = (None, w')"
      by (cases "putObject c i (the (fmlookup desired i)) w"; cases "fst (putObject c i (the (fmlookup desired i)) w)") auto
    from put_done [OF _ p(1) [unfolded putObject_def]] 2
    have "contents w1 = fmupd i (the (fmlookup desired i)) (contents w)" by simp
    with Cons.IH(2) [of w1] p(2) 2 show ?case by auto
  }
qed auto

lemma delete_keys_done:
  assumes "delete_keys c ks w = (r, w')" and "list_all plain_key ks"
  shows "fmlookup (contents w') k = fmlookup (contents w) k \<or> (k \<in> set ks \<and> fmlookup (contents w') k = None)"
    and "r = None \<Longrightarrow> fmlookup (contents w') k = (if k \<in> set ks then None else fmlookup (contents w) k)"
  using assms
proof (induction ks arbitrary: w)
  case (Cons i ks)
  {
    case 1
    obtain r1 w1 where p: "deleteObject c i w = (r1, w1)" by force
    from del [OF _ p [unfolded deleteObject_def]] 1
    have w1: "contents w1 = fmdrop i (contents w) \<or> contents w1 = contents w" by auto
    show ?case
    proof (cases r1)
      case None
      with 1 p have "delete_keys c ks w1 = (r, w')" by simp
      from Cons.IH(1) [OF this] 1 w1 show ?thesis by (auto split: if_splits)
    next
      case (Some e)
      with 1 p w1 show ?thesis by (auto split: if_splits)
    qed
  next
    case 2
    then obtain w1 where p: "deleteObject c i w = (None, w1)" "delete_keys c ks w1 = (None, w')"
      by (cases "deleteObject c i w"; cases "fst (deleteObject c i w)") auto
    from del_done [OF _ p(1) [unfolded deleteObject_def]] 2
    have "contents w1 = fmdrop i (contents w)" by simp
    with Cons.IH(2) [of w1] p(2) 2 show ?case by auto
  }
qed auto

end

section \<open>An acknowledged operation\<close>

text \<open>The objects that the state store believes to have written are on the service.\<close>

definition tracked :: "('w \<Rightarrow> json gomap) \<Rightarrow> 'w s3_state \<Rightarrow> 'w \<Rightarrow> bool" where
  "tracked contents st w \<longleftrightarrow> fmpred (\<lambda>k b. fmlookup (contents w) k = Some b) (st_persistedObjects st)"

lemma trackedD: "tracked contents st w \<Longrightarrow> fmlookup (st_persistedObjects st) k = Some b \<Longrightarrow> fmlookup (contents w) k = Some b"
  by (auto simp: tracked_def fmpred_iff)

definition plain_state :: "'w s3_state \<Rightarrow> bool" where
  "plain_state st \<longleftrightarrow> plain_keys (desired_objects st) \<and> plain_keys (st_persistedObjects st)"

context object_store
begin

lemma persistAll_contents:
  assumes st: "st_conn st = c" "plain_state st" and tracked: "tracked contents st w"
    and run: "persistAll st w = (r, st', w')"
  shows "st_mem st' = st_mem st \<and> st_conn st' = c \<and> st_prefix st' = st_prefix st"
    and "fmlookup (contents w') k \<in> {fmlookup (contents w) k, fmlookup (desired_objects st) k}"
    and "r = None \<Longrightarrow> st_persistedObjects st' = desired_objects st \<and> fmlookup (contents w') k =
      (if fmlookup (desired_objects st) k \<noteq> None then fmlookup (desired_objects st) k
       else if fmlookup (st_persistedObjects st) k \<noteq> None then None else fmlookup (contents w) k)"
proof -
  define desired where "desired = desired_objects st"
  define previous where "previous = st_persistedObjects st"
  obtain r1 w1 where p: "put_keys c desired (write_keys desired previous) w = (r1, w1)" by force
  have plain: "list_all plain_key (write_keys desired previous)" "list_all plain_key (stale_keys desired previous)"
    using st(2) unfolding list_all_iff wanted_keys set_stale_keys plain_state_def plain_keys_def desired_def previous_def
    by auto
  have dk: "\<forall>k \<in> set (write_keys desired previous). fmlookup desired k \<noteq> None" by (auto simp: wanted_keys)
  note puts = put_keys_done [OF p plain(1) dk]
  obtain r2 w2 where d: "delete_keys c (stale_keys desired previous) w1 = (r2, w2)" by force
  note dels = delete_keys_done [OF d plain(2)]
  note run' = run [unfolded persistAll_def Let_def st(1) desired_def [symmetric] previous_def [symmetric] p]
  show "st_mem st' = st_mem st \<and> st_conn st' = c \<and> st_prefix st' = st_prefix st"
    using run' d st(1) by (auto split: option.splits)
  show "fmlookup (contents w') k \<in> {fmlookup (contents w) k, fmlookup (desired_objects st) k}"
  proof (cases r1)
    case None
    with run' d have "w' = w2" by (auto split: option.splits)
    with puts(2) [OF None, of k] dels(1) [of k] show ?thesis
      by (auto simp: set_stale_keys desired_def split: if_splits)
  next
    case (Some e)
    with run' puts(1) [of k] show ?thesis by (auto simp: desired_def)
  qed
  show "st_persistedObjects st' = desired_objects st \<and> fmlookup (contents w') k =
      (if fmlookup (desired_objects st) k \<noteq> None then fmlookup (desired_objects st) k
       else if fmlookup (st_persistedObjects st) k \<noteq> None then None else fmlookup (contents w) k)"
    if "r = None"
  proof -
    from that run' d have ok: "r1 = None" "r2 = None" "w' = w2" "st' = st\<lparr>st_persistedObjects := desired\<rparr>"
      by (auto split: option.splits)
    from puts(2) [OF ok(1), of k] dels(2) [OF ok(2), of k] trackedD [OF tracked, of k] ok(3,4)
    show ?thesis
      by (auto simp: wanted_keys set_stale_keys desired_def previous_def)
  qed
qed

lemma persistAll_tracked:
  assumes st: "st_conn st = c" "plain_state st" and tracked: "tracked contents st w"
    and run: "persistAll st w = (None, st', w')"
  shows "tracked contents st' w'"
  using persistAll_contents(3) [OF assms] by (auto simp: tracked_def fmpred_iff)

lemma persist_after_done:
  assumes "st_conn st = c" and "tracked contents st w" and "plain_state (st\<lparr>st_mem := snd r\<rparr>)"
    and run: "persist_after r st w = (Inr v, st', w')"
  shows "fst r = Inr v \<and> st_mem st' = snd r \<and> tracked contents st' w' \<and>
    fmlookup (contents w') k =
      (if fmlookup (desired_objects st') k \<noteq> None then fmlookup (desired_objects st') k
       else if fmlookup (st_persistedObjects st) k \<noteq> None then None else fmlookup (contents w) k)"
proof -
  let ?st = "st\<lparr>st_mem := snd r\<rparr>"
  from run obtain r1 where p: "persistAll ?st w = (None, st', w')" and r: "fst r = Inr v"
    by (auto simp: persist_after_def Let_def split: sum.splits prod.splits option.splits)
  have st: "st_conn ?st = c" "tracked contents ?st w"
    using assms(1,2) by (simp_all add: tracked_def)
  note all = persistAll_contents [OF st(1) assms(3) st(2) p]
  have "desired_objects st' = desired_objects ?st" using all(1) by (simp add: desired_objects_def)
  with all(1) all(3) [of k] r persistAll_tracked [OF st(1) assms(3) st(2) p] show ?thesis by simp
qed

end

text \<open>
  C8: an acknowledged change is on the service.  When an operation that persists before it answers
  (\<open>persist_after\<close> of its operation on the memory store) returns no error, every object of the memory
  store as it is then is on the service, the objects it had written before and no longer wants are
  gone, all others are untouched, and it knows what it has written.  This is for a store that knows
  what the service holds of it, as one does that starts over an empty bucket and as every such operation
  leaves it, but not after one that failed half way; and for keys in plain characters.  The operations that persist as they can
  and report no error of it, those of the presence, and those that answer without persisting (an
  unchanged human, an empty queue) are not of this kind.
\<close>

theorem acknowledged_is_durable:
  assumes "object_store c contents" and "st_conn st = c" and "tracked contents st w"
    and "plain_state (st\<lparr>st_mem := snd r\<rparr>)"
    and "persist_after r st w = (Inr v, st', w')"
  shows "fst r = Inr v \<and> st_mem st' = snd r \<and> tracked contents st' w' \<and>
    fmlookup (contents w') k =
      (if fmlookup (desired_objects st') k \<noteq> None then fmlookup (desired_objects st') k
       else if fmlookup (st_persistedObjects st) k \<noteq> None then None else fmlookup (contents w) k)"
  by (rule object_store.persist_after_done [OF assms])

end
