(* ===== verification/StateKeys.thy ===== *)
theory StateKeys
  imports Durable Bucket
begin

text \<open>
  The objects of a store by their keys: each map has the keys below a prefix of its own, so that a
  listing below that prefix gives exactly its entries.
\<close>

section \<open>Segments and prefixes\<close>

lemma segment_chars: "list_all key_char i \<Longrightarrow> CHR ''/'' \<notin> set i \<and> TrimSpace i = i"
  using key_char_plain(3,4) unfolding TrimSpace_def
  by (intro conjI trim_by_none) (auto simp: list_all_iff)

lemma escapeKeySegment_plain: "list_all key_char i \<Longrightarrow> escapeKeySegment i = i"
  using segment_chars [of i] key_char_plain(1)
  by (simp add: escapeKeySegment_def PathEscape_def escape_id list_all_iff)

lemma PathUnescape_plain: "list_all key_char i \<Longrightarrow> PathUnescape i = Some i"
  using path_escape_roundtrip [of i] escapeKeySegment_plain [of i] segment_chars [of i]
  by (simp add: escapeKeySegment_def)

lemma plain_segment_chars: "plain_segment i \<Longrightarrow> list_all key_char i \<and> i \<noteq> []"
  by (simp add: plain_segment_def)

lemma split_on_slash: "CHR ''/'' \<notin> set i \<Longrightarrow> split_on (CHR ''/'') (i @ CHR ''/'' # k) = i # split_on (CHR ''/'') k"
  unfolding split_on_def by (rule split_by_append_sep) auto

lemma slash_inject:
  assumes "plain_segment i" and "plain_segment j" and "i @ CHR ''/'' # a = j @ CHR ''/'' # b"
  shows "i = j"
  using assms(3) split_on_slash [of i a] split_on_slash [of j b]
    segment_chars plain_segment_chars [OF assms(1)] segment_chars plain_segment_chars [OF assms(2)] by simp

lemma plain_key_append: "plain_key p \<Longrightarrow> plain_key k \<Longrightarrow> plain_key (p @ CHR ''/'' # k)"
  using split_by_append [of "\<lambda>x. x = CHR ''/''" "CHR ''/''" p k] by (simp add: plain_key_def split_on_def)

lemma split_segment: "plain_segment i \<Longrightarrow> split_on (CHR ''/'') i = [i]"
  using segment_chars plain_segment_chars unfolding split_on_def by (intro split_by_none) auto

lemma plain_key_segment: "plain_segment i \<Longrightarrow> plain_key i"
  by (simp add: plain_key_def split_segment)

lemma json_chars: "list_all key_char ''.json''"
  by code_simp

lemma plain_segment_json: "list_all key_char i \<Longrightarrow> plain_segment (i @ ''.json'')"
  using json_chars by (cases i) (auto simp: plain_segment_def)

definition state_prefix :: "string \<Rightarrow> string \<Rightarrow> string" where
  "state_prefix pre part = pre @ CHR ''/'' # part"

lemma state_parts_plain: "list_all (\<lambda>p. plain_key p) state_parts"
  by code_simp

lemma state_parts_apart:
  "list_all (\<lambda>p. list_all (\<lambda>q. p = q \<or> \<not> prefix (p @ ''/'') (q @ ''/'')) state_parts) state_parts"
  by code_simp

lemma distinct_state_parts: "distinct state_parts"
  by code_simp

lemma prefixed_plain:
  assumes "plain_key pre" and "plain_key part"
  shows "prefixed pre part = state_prefix pre part"
proof -
  have trim: "Trim k ''/'' = k" if "plain_key k" for k
    unfolding Trim_def using plain_key_ends [OF that] by (intro trim_by_id) auto
  show ?thesis
    using plain_key_ends(1) [OF assms(2)] by (simp add: prefixed_def trim assms state_prefix_def)
qed

lemma prefix_clash:
  assumes "prefix (state_prefix pre p @ ''/'') k" and "prefix (state_prefix pre q @ ''/'') k"
    and "p \<in> set state_parts" and "q \<in> set state_parts"
  shows "p = q"
proof -
  have "prefix (state_prefix pre p @ ''/'') (state_prefix pre q @ ''/'') \<or>
      prefix (state_prefix pre q @ ''/'') (state_prefix pre p @ ''/'')"
    using assms(1,2) by (rule prefix_same_cases)
  then have "prefix (p @ ''/'') (q @ ''/'') \<or> prefix (q @ ''/'') (p @ ''/'')"
    by (simp add: state_prefix_def)
  with state_parts_apart assms(3,4) show ?thesis by (auto simp: list_all_iff)
qed

section \<open>The objects of one map\<close>

definition plain_ids :: "'a gomap \<Rightarrow> bool" where
  "plain_ids m \<longleftrightarrow> fmpred (\<lambda>i _. plain_segment i) m"

lemma plain_idsD: "plain_ids m \<Longrightarrow> fmlookup m i = Some v \<Longrightarrow> plain_segment i"
  by (auto simp: plain_ids_def fmpred_iff)

lemma in_sorted_fields: "(i, v) \<in> set (sorted_fields m) \<longleftrightarrow> fmlookup m i = Some v"
  by (auto simp: sorted_fields_def fmlookup_dom'_iff image_iff)

lemma in_sorted_fields_list [simp]:
  "set (sorted_fields m) = {(i, v). fmlookup m i = Some v}"
  using in_sorted_fields [of _ _ m] by auto

lemma objectKey_of:
  assumes "plain_segment i"
  shows "objectKey [p, escapeKeySegment i @ ''.json''] = p @ CHR ''/'' # i @ ''.json''"
  using escapeKeySegment_plain plain_segment_chars [OF assms] by (simp add: objectKey_def)

lemma map_of_inj:
  assumes "distinct (map fst kvs)" and "inj_on g (set (map fst kvs))"
  shows "map_of (map (\<lambda>(i, v). (g i, f v)) kvs) k = Some b \<longleftrightarrow> (\<exists>i v. (i, v) \<in> set kvs \<and> k = g i \<and> b = f v)"
proof -
  have "distinct (map fst (map (\<lambda>(i, v). (g i, f v)) kvs))"
    using assms distinct_map [of g "map fst kvs"] by (simp add: comp_def case_prod_beta)
  then have "map_of (map (\<lambda>(i, v). (g i, f v)) kvs) k = Some b \<longleftrightarrow>
      (k, b) \<in> set (map (\<lambda>(i, v). (g i, f v)) kvs)" by (rule map_of_eq_Some_iff)
  then show ?thesis by force
qed

lemma collect_lookup:
  assumes "plain_ids m"
  shows "fmlookup (collect p f m) k = Some b \<longleftrightarrow>
    (\<exists>i v. fmlookup m i = Some v \<and> k = p @ CHR ''/'' # i @ ''.json'' \<and> b = f v)"
proof -
  let ?g = "\<lambda>i. objectKey [p, escapeKeySegment i @ ''.json'']"
  have g: "?g i = p @ CHR ''/'' # i @ ''.json''" if "fmlookup m i = Some v" for i v
    using that by (intro objectKey_of plain_idsD [OF assms])
  have "inj_on ?g (set (map fst (sorted_fields m)))"
  proof (rule inj_onI)
    fix i j assume "i \<in> set (map fst (sorted_fields m))" "j \<in> set (map fst (sorted_fields m))" "?g i = ?g j"
    then obtain u v where "fmlookup m i = Some u" "fmlookup m j = Some v" "?g i = ?g j" by auto
    with g show "i = j" by simp
  qed
  from map_of_inj [OF distinct_sorted_fields this, of f k b]
  have "fmlookup (collect p f m) k = Some b \<longleftrightarrow> (\<exists>i v. fmlookup m i = Some v \<and> k = ?g i \<and> b = f v)"
    by (simp add: collect_def fmlookup_of_list)
  with g show ?thesis by metis
qed

lemma collect_below:
  assumes "plain_ids m" and "fmlookup (collect p f m) k \<noteq> None"
  shows "prefix (p @ ''/'') k"
  using assms by (auto simp: collect_lookup)

lemma collect_plain:
  assumes "plain_ids m" and "plain_key p"
  shows "plain_keys (collect p f m)"
proof -
  have "plain_key (p @ CHR ''/'' # i @ ''.json'')" if "fmlookup m i = Some v" for i v
    using that plain_segment_chars plain_idsD [OF assms(1)]
    by (intro plain_key_append assms(2) plain_key_segment plain_segment_json) auto
  then show ?thesis
    by (auto simp: plain_keys_def collect_lookup [OF assms(1)] simp del: not_None_eq simp add: not_None_eq)
qed

section \<open>The objects of a map of rows\<close>

text \<open>The names of the rows of an entry are plain and differ.\<close>

definition plain_rows :: "('b \<Rightarrow> (string \<times> json) list) \<Rightarrow> 'b gomap \<Rightarrow> bool" where
  "plain_rows f m \<longleftrightarrow> plain_ids m \<and>
     fmpred (\<lambda>_ v. distinct (map fst (f v)) \<and> list_all (\<lambda>(n, b). plain_segment n) (f v)) m"

lemma collect_rows_lookup:
  assumes "plain_rows f m"
  shows "fmlookup (collect_rows p f m) k = Some b \<longleftrightarrow>
    (\<exists>i v n. fmlookup m i = Some v \<and> (n, b) \<in> set (f v) \<and> k = p @ CHR ''/'' # i @ CHR ''/'' # n)"
proof -
  have ids: "plain_segment i \<and> escapeKeySegment i = i" if "fmlookup m i = Some v" for i v
    using that assms escapeKeySegment_plain plain_segment_chars
    by (auto simp: plain_rows_def dest: plain_idsD)
  have names: "distinct (map fst (f v))" if "fmlookup m i = Some v" for i v
    using that assms by (auto simp: plain_rows_def fmpred_iff)
  let ?row = "\<lambda>(i, v). map (\<lambda>(n, b). (objectKey [p, escapeKeySegment i, n], b)) (f v)"
  have row: "set (?row (i, v)) = {(p @ CHR ''/'' # i @ CHR ''/'' # n, b) | n b. (n, b) \<in> set (f v)}"
    if "fmlookup m i = Some v" for i v
    using ids [OF that] by (auto simp: objectKey_def)
  have row_fst: "\<exists>n. x = p @ CHR ''/'' # i @ CHR ''/'' # n"
    if "fmlookup m i = Some v" "x \<in> fst ` set (?row (i, v))" for i v x
    using that(2) unfolding row [OF that(1)] by auto
  have "distinct (map fst (concat (map ?row kvs)))"
    if "distinct (map fst kvs)" "set kvs \<subseteq> set (sorted_fields m)" for kvs
    using that
  proof (induction kvs)
    case (Cons iv kvs)
    obtain i v where iv: "iv = (i, v)" "fmlookup m i = Some v" using Cons.prems(2) by (cases iv) auto
    have "map fst (?row (i, v)) = map (\<lambda>n. p @ CHR ''/'' # i @ CHR ''/'' # n) (map fst (f v))"
      using ids [OF iv(2)] by (auto simp: objectKey_def)
    moreover have "distinct (map (\<lambda>n. p @ CHR ''/'' # i @ CHR ''/'' # n) (map fst (f v)))"
      using names [OF iv(2)] unfolding distinct_map [of _ "map fst (f v)"] by (auto simp: inj_on_def)
    ultimately have "distinct (map fst (?row (i, v)))" by (simp only:)
    moreover have "x \<notin> fst ` set (?row (j, u))" if "x \<in> fst ` set (?row (i, v))" "(j, u) \<in> set kvs" for x j u
    proof
      note x = that
      assume "x \<in> fst ` set (?row (j, u))"
      moreover have ju: "fmlookup m j = Some u" using that(2) Cons.prems(2) by auto
      ultimately obtain a b where "x = p @ CHR ''/'' # j @ CHR ''/'' # a" "x = p @ CHR ''/'' # i @ CHR ''/'' # b"
        using row_fst [OF ju] row_fst [OF iv(2) x(1)] by blast
      then have "i @ CHR ''/'' # b = j @ CHR ''/'' # a" by simp
      then have "i = j" using ids [OF iv(2)] ids [OF ju] by (blast intro: slash_inject)
      with x(2) Cons.prems(1) iv(1) show False by (auto simp: image_iff)
    qed
    ultimately show ?case using Cons iv(1) by (fastforce simp: image_iff)
  qed simp
  from this [OF distinct_sorted_fields order_refl]
  have "map_of (concat (map ?row (sorted_fields m))) k = Some b \<longleftrightarrow>
      (k, b) \<in> set (concat (map ?row (sorted_fields m)))" by (rule map_of_eq_Some_iff)
  also have "\<dots> \<longleftrightarrow> (\<exists>i v. fmlookup m i = Some v \<and> (k, b) \<in> set (?row (i, v)))" by auto
  also have "\<dots> \<longleftrightarrow> (\<exists>i v. fmlookup m i = Some v \<and>
      (\<exists>n. (n, b) \<in> set (f v) \<and> k = p @ CHR ''/'' # i @ CHR ''/'' # n))"
  proof (intro ex_cong1 conj_cong refl)
    fix i v assume "fmlookup m i = Some v"
    from row [OF this] show "(k, b) \<in> set (?row (i, v)) \<longleftrightarrow>
        (\<exists>n. (n, b) \<in> set (f v) \<and> k = p @ CHR ''/'' # i @ CHR ''/'' # n)" by auto
  qed
  finally show ?thesis by (simp add: collect_rows_def fmlookup_of_list)
qed

lemma collect_rows_below:
  assumes "plain_rows f m" and "fmlookup (collect_rows p f m) k \<noteq> None"
  shows "prefix (p @ ''/'') k"
  using assms by (auto simp: collect_rows_lookup)

lemma collect_rows_plain:
  assumes "plain_rows f m" and "plain_key p"
  shows "plain_keys (collect_rows p f m)"
proof -
  have "plain_key (p @ CHR ''/'' # i @ CHR ''/'' # n)" if "fmlookup m i = Some v" "(n, b) \<in> set (f v)" for i v n b
  proof -
    have "plain_segment i" using that assms(1) by (auto simp: plain_rows_def dest: plain_idsD)
    moreover have "list_all (\<lambda>(n, b). plain_segment n) (f v)"
      using that assms(1) by (auto simp: plain_rows_def fmpred_iff)
    with that(2) have "plain_segment n" by (auto simp: list_all_iff)
    ultimately show ?thesis by (intro plain_key_append assms(2) plain_key_segment)
  qed
  then show ?thesis by (auto simp: plain_keys_def collect_rows_lookup [OF assms(1)])
qed

section \<open>The objects of a store\<close>

lemma flatten_snoc: "flattenS3Objects (ps @ [(p, m)]) = flattenS3Objects ps ++\<^sub>f m"
  by (simp add: flattenS3Objects_def)

lemma flatten_none: "\<forall>(p, m) \<in> set ps. fmlookup m k = None \<Longrightarrow> fmlookup (flattenS3Objects ps) k = None"
  by (induction ps rule: rev_induct) (auto simp: flatten_snoc, simp add: flattenS3Objects_def)

text \<open>Maps whose keys are below a prefix of their own.\<close>

definition apart :: "string \<Rightarrow> (string \<times> 'v gomap) list \<Rightarrow> bool" where
  "apart pre ps \<longleftrightarrow> map fst ps = map (state_prefix pre) state_parts \<and>
     (\<forall>(p, m) \<in> set ps. \<forall>k. fmlookup m k \<noteq> None \<longrightarrow> prefix (p @ ''/'') k)"

lemma state_prefix_inject [simp]: "state_prefix pre p = state_prefix pre q \<longleftrightarrow> p = q"
  by (simp add: state_prefix_def)

lemma flatten_part:
  assumes "apart pre ps" and "(p, m) \<in> set ps" and "prefix (p @ ''/'') k"
  shows "fmlookup (flattenS3Objects ps) k = fmlookup m k"
proof -
  have keys: "map fst ps = map (state_prefix pre) state_parts" using assms(1) by (simp add: apart_def)
  then have dist: "distinct (map fst ps)"
    using distinct_state_parts by (simp add: distinct_map inj_on_def)
  have part: "\<exists>a \<in> set state_parts. q = state_prefix pre a" if "(q, n) \<in> set ps" for q n
    using that keys by (metis (no_types, lifting) fst_conv image_eqI image_iff list.set_map)
  have none: "fmlookup n k = None" if "(q, n) \<in> set ps" "q \<noteq> p" for q n
  proof (rule ccontr)
    assume "fmlookup n k \<noteq> None"
    with assms(1) that(1) have "prefix (q @ ''/'') k" unfolding apart_def by blast
    with part [OF that(1)] part [OF assms(2)] prefix_clash [of pre _ k] assms(3) that(2) show False by blast
  qed
  obtain xs ys where ps: "ps = xs @ (p, m) # ys" using assms(2) by (meson split_list)
  have others: "\<forall>(q, n) \<in> set (xs @ ys). fmlookup n k = None"
  proof (intro ballI, clarify)
    fix q n assume qn: "(q, n) \<in> set (xs @ ys)"
    then have "q \<in> fst ` set (xs @ ys)" by force
    with dist ps have "q \<noteq> p" by auto
    with none [of q n] qn ps show "fmlookup n k = None" by auto
  qed
  have "fmlookup (flattenS3Objects (xs @ (p, m) # zs)) k = fmlookup m k" if "\<forall>(q, n) \<in> set zs. fmlookup n k = None" for zs
    using that
  proof (induction zs rule: rev_induct)
    case Nil
    have "fmlookup (flattenS3Objects xs) k = None" using others by (intro flatten_none) auto
    then show ?case by (auto simp: flatten_snoc fmdom'_notI split: if_splits)
  next
    case (snoc z zs)
    obtain q n where "z = (q, n)" by force
    with snoc flatten_snoc [of "xs @ (p, m) # zs" q n] show ?case by (simp add: fmdom_notI)
  qed
  with others show ?thesis by (simp add: ps)
qed

text \<open>Every identifier is plain, and so are the names of days, audit events and queued messages.\<close>

definition plain_store :: "memory_store \<Rightarrow> bool" where
  "plain_store s \<longleftrightarrow> plain_ids (humans s) \<and> plain_ids (agents s) \<and> plain_ids (orgs s) \<and>
     plain_ids (archivedHumans s) \<and> plain_ids (archivedAgents s) \<and> plain_ids (archivedOrgs s) \<and>
     plain_ids (memberships s) \<and> plain_ids (invites s) \<and> plain_ids (orgAccessKeys s) \<and>
     plain_ids (binds s) \<and> plain_ids (orgTrusts s) \<and> plain_ids (agentTrusts s) \<and>
     plain_ids (agentPresence s) \<and> plain_ids (humanPresence s) \<and> plain_ids (statsByOrg s) \<and>
     plain_rows day_rows (statsDaily s) \<and> plain_rows audit_rows (auditByOrg s) \<and>
     plain_ids (personalOrgByHuman s) \<and> plain_rows queue_rows (queues s) \<and>
     plain_ids (messageRecords s) \<and> plain_ids (messageDeliveries s) \<and> plain_ids (peerInstances s) \<and>
     plain_ids (remoteOrgTrusts s) \<and> plain_ids (remoteAgentTrusts s) \<and> plain_ids (peerOutbounds s)"

definition below :: "string \<times> json gomap \<Rightarrow> bool" where
  "below pm \<longleftrightarrow> plain_keys (snd pm) \<and> (\<forall>k. fmlookup (snd pm) k \<noteq> None \<longrightarrow> prefix (fst pm @ ''/'') k)"

lemma below_objs:
  assumes "plain_key pre" and "plain_key part" and "plain_ids m"
  shows "below (objs pre part f m)"
proof -
  have p: "plain_key (prefixed pre part)"
    using plain_key_append [OF assms(1,2)] by (simp add: prefixed_plain [OF assms(1,2)] state_prefix_def)
  show ?thesis
    unfolding below_def objs_def fst_conv snd_conv
    using collect_below [OF assms(3)] collect_plain [OF assms(3) p] by blast
qed

lemma below_rows:
  assumes "plain_key pre" and "plain_key part" and "plain_rows f m"
  shows "below (rows pre part f m)"
proof -
  have p: "plain_key (prefixed pre part)"
    using plain_key_append [OF assms(1,2)] by (simp add: prefixed_plain [OF assms(1,2)] state_prefix_def)
  show ?thesis
    unfolding below_def rows_def fst_conv snd_conv
    using collect_rows_below [OF assms(3)] collect_rows_plain [OF assms(3) p] by blast
qed

lemma state_part_plain: "part \<in> set state_parts \<Longrightarrow> plain_key part"
  using state_parts_plain by (auto simp: list_all_iff)

lemma desired_apart:
  assumes pre: "plain_key pre" and s: "plain_store s"
  shows "apart pre (buildDesiredObjects pre s)" and "plain_keys (flattenS3Objects (buildDesiredObjects pre s))"
proof -
  have keys: "map fst (buildDesiredObjects pre s) = map (prefixed pre) state_parts"
    by (simp add: buildDesiredObjects_def state_parts_def objs_def rows_def)
  have parts: "\<forall>p \<in> set (buildDesiredObjects pre s). below p"
  proof -
    have pk: "\<And>part. part \<in> set state_parts \<Longrightarrow> plain_key part" by (rule state_part_plain)
    have "list_all plain_key state_parts" using state_parts_plain by simp
    then show ?thesis
      using s unfolding buildDesiredObjects_def state_parts_def plain_store_def
      by (simp add: below_objs below_rows pre)
  qed
  have "map (prefixed pre) state_parts = map (state_prefix pre) state_parts"
    using prefixed_plain [OF pre] state_part_plain by (intro map_cong) auto
  with keys parts show "apart pre (buildDesiredObjects pre s)"
    unfolding apart_def below_def by auto
  have "plain_keys (flattenS3Objects ps)" if "\<forall>p \<in> set ps. below p" for ps
    using that
  proof (induction ps rule: rev_induct)
    case Nil
    then show ?case by (simp add: flattenS3Objects_def plain_keys_def)
  next
    case (snoc pm ps)
    obtain p m where "pm = (p, m)" by force
    with snoc show ?case by (auto simp: flatten_snoc plain_keys_def below_def split: if_splits)
  qed
  with parts show "plain_keys (flattenS3Objects (buildDesiredObjects pre s))" by blast
qed

end
