(* ===== verification/Hydrate.thy ===== *)
theory Hydrate
  imports StateKeys
begin

text \<open>
  What the loaders of the state make of the objects below their prefixes, when these are the
  objects of a store: the entries of the maps, as they were.
\<close>

section \<open>A map with an object for each entry\<close>

text \<open>
  A loader that puts the entry of an object into one map, which \<open>get_map\<close> and \<open>set_map\<close> read
  and replace, loads the objects \<open>collect p f m\<close> as \<open>m\<close>, every value as \<open>g\<close> makes it.
\<close>

lemma load_collected:
  assumes step: "\<And>i v s. fmlookup m i = Some v \<Longrightarrow>
      fn (p @ CHR ''/'' # i @ ''.json'') (JsonBody (f v)) s = Some (set_map (fmupd i (g v) (get_map s)) s)"
    and laws: "\<And>m s. get_map (set_map m s) = m" "\<And>m n s. set_map m (set_map n s) = set_map m s"
      "\<And>s. set_map (get_map s) s = s"
    and objects: "map_of pf p = Some (fmmap JsonBody (collect p f m))"
    and m: "plain_ids m" and none: "get_map s = fmempty"
  shows "loadTypedObjects pf p fn s = Inr (set_map (fmmap g m) s)"
proof -
  let ?o = "fmmap JsonBody (collect p f m)"
  have loaded: "\<exists>n. load_keys fn kbs s = Inr (set_map n s) \<and> (\<forall>i. fmlookup n i =
      (if p @ CHR ''/'' # i @ ''.json'' \<in> fst ` set kbs then map_option g (fmlookup m i) else fmlookup (get_map s) i))"
    if "set kbs \<subseteq> set (sorted_fields ?o)" for kbs s
    using that
  proof (induction kbs arbitrary: s)
    case Nil
    have "load_keys fn [] s = Inr (set_map (get_map s) s)" by (simp add: laws(3))
    then show ?case by auto
  next
    case (Cons kb kbs)
    obtain k b where kb: "kb = (k, b)" by force
    with Cons.prems obtain j where j: "fmlookup (collect p f m) k = Some j" "b = JsonBody j" by auto
    with collect_lookup [OF m, of p f k j] obtain i v where
      i: "fmlookup m i = Some v" "k = p @ CHR ''/'' # i @ ''.json''" "b = JsonBody (f v)" by auto
    let ?s = "set_map (fmupd i (g v) (get_map s)) s"
    from Cons.IH [of ?s] Cons.prems obtain n where n: "load_keys fn kbs ?s = Inr (set_map n ?s)"
      "\<And>j. fmlookup n j = (if p @ CHR ''/'' # j @ ''.json'' \<in> fst ` set kbs then map_option g (fmlookup m j)
         else fmlookup (get_map ?s) j)" by auto
    have "load_keys fn (kb # kbs) s = Inr (set_map n s)"
      using n(1) step [OF i(1)] by (simp add: kb i(2,3) laws(2))
    then show ?case using n(2) i(1) by (intro exI [of _ n] conjI allI) (auto simp: kb i(2) laws(1))
  qed
  from loaded [OF order_refl, of s] obtain n where n: "load_keys fn (sorted_fields ?o) s = Inr (set_map n s)"
    "\<And>i. fmlookup n i = (if p @ CHR ''/'' # i @ ''.json'' \<in> fst ` set (sorted_fields ?o)
      then map_option g (fmlookup m i) else None)" by (auto simp: none)
  have "fmlookup n i = map_option g (fmlookup m i)" for i
  proof (cases "fmlookup m i")
    case (Some v)
    then have "fmlookup (collect p f m) (p @ CHR ''/'' # i @ ''.json'') = Some (f v)"
      by (auto simp: collect_lookup [OF m])
    then have "p @ CHR ''/'' # i @ ''.json'' \<in> fst ` set (sorted_fields ?o)" by force
    with n(2) show ?thesis by simp
  qed (simp add: n(2))
  then have "n = fmmap g m" by (intro fmap_ext) simp
  with n(1) show ?thesis by (simp add: loadTypedObjects_def objects)
qed

text \<open>When the value carries its identifier.\<close>

lemma load_values:
  assumes "\<And>v s. put v s = set_map (fmupd (ident v) (h v) (get_map s)) s"
    and "\<And>m s. get_map (set_map m s) = m" "\<And>m n s. set_map m (set_map n s) = set_map m s"
      "\<And>s. set_map (get_map s) s = s"
    and objects: "map_of pf p = Some (fmmap JsonBody (collect p f m))"
    and m: "plain_ids m" "\<And>i v. fmlookup m i = Some v \<Longrightarrow> \<exists>x. dec (f v) = Some x \<and> ident x = i \<and> h x = g v"
    and none: "get_map s = fmempty"
  shows "loadTypedObjects pf p (load_value dec ident put) s = Inr (set_map (fmmap g m) s)"
proof (rule load_collected [where get_map = get_map, OF _ assms(2-4) objects m(1) none])
  fix i v s assume i: "fmlookup m i = Some v"
  with m(2) obtain x where x: "dec (f v) = Some x" "ident x = i" "h x = g v" by blast
  have "TrimSpace i \<noteq> []"
    using plain_idsD [OF m(1) i] segment_chars [of i] plain_segment_chars [of i] by simp
  with x show "load_value dec ident put (p @ CHR ''/'' # i @ ''.json'') (JsonBody (f v)) s =
      Some (set_map (fmupd i (g v) (get_map s)) s)"
    by (auto simp: load_value_def body_json_def assms(1))
qed

lemma load_same:
  assumes "\<And>v s. put v s = set_map (fmupd (ident v) (h v) (get_map s)) s"
    and "\<And>m s. get_map (set_map m s) = m" "\<And>m n s. set_map m (set_map n s) = set_map m s"
      "\<And>s. set_map (get_map s) s = s"
    and "map_of pf p = Some (fmmap JsonBody (collect p f m))" and "plain_ids m"
    and "\<And>i v. fmlookup m i = Some v \<Longrightarrow> \<exists>x. dec (f v) = Some x \<and> ident x = i \<and> h x = v"
    and "get_map s = fmempty"
  shows "loadTypedObjects pf p (load_value dec ident put) s = Inr (set_map m s)"
proof -
  have "fmmap (\<lambda>v. v) m = m" by (intro fmap_ext) (simp add: option.map_ident)
  then show ?thesis using load_values [where g = "\<lambda>v. v", OF assms] by simp
qed

section \<open>Names in the keys of objects\<close>

lemma trim_object_key:
  assumes "plain_key p" and "plain_key k"
  shows "trimObjectKeyPrefix (p @ CHR ''/'' # k) p = Some k"
proof -
  have trim: "Trim k ''/'' = k" if "plain_key k" for k
    unfolding Trim_def using plain_key_ends [OF that] by (intro trim_by_id) auto
  show ?thesis
    by (simp add: trimObjectKeyPrefix_def trim assms plain_key_append HasPrefix_def TrimPrefix_def)
qed

lemma trim_json: "TrimSuffix (i @ ''.json'') ''.json'' = i"
  by (simp add: TrimSuffix_def HasSuffix_def HasPrefix_def)

lemma json_name:
  assumes "plain_segment i"
  shows "plain_key (i @ ''.json'')" "TrimSpace (i @ ''.json'') = i @ ''.json''" "PathUnescape i = Some i" "TrimSpace i = i"
proof -
  have j: "plain_segment (i @ ''.json'')" using assms plain_segment_chars plain_segment_json by blast
  then show "plain_key (i @ ''.json'')" "TrimSpace (i @ ''.json'') = i @ ''.json''"
    using plain_key_segment segment_chars plain_segment_chars by blast+
  show "PathUnescape i = Some i" "TrimSpace i = i"
    using assms PathUnescape_plain segment_chars plain_segment_chars by blast+
qed

lemma load_presence_step:
  assumes "plain_key p" and "plain_segment i"
  shows "load_presence p norm_presence put (p @ CHR ''/'' # i @ ''.json'') (JsonBody (json_of_map v)) s =
    Some (put i (norm_presence (the (map_of_json (json_of_map v)))) s)"
  using trim_object_key [OF assms(1) json_name(1) [OF assms(2)]] json_name [OF assms(2)]
    plain_segment_chars [OF assms(2)]
  by (simp add: load_presence_def trim_json body_json_def map_of_json_def json_of_map_def)

lemma load_personal_org_step:
  assumes "plain_key p" and "plain_segment i" and "TrimSpace v \<noteq> []"
  shows "load_personal_org p (p @ CHR ''/'' # i @ ''.json'') (JsonBody (json_of_personal_org v)) s =
    Some (s\<lparr>personalOrgByHuman := fmupd i v (personalOrgByHuman s)\<rparr>)"
  using trim_object_key [OF assms(1) json_name(1) [OF assms(2)]] json_name(3) [OF assms(2)] assms(3)
  by (simp add: load_personal_org_def trim_json body_json_def personal_org_of_json_def json_of_personal_org_def codec)

lemma load_row_step:
  assumes "plain_key p" and "plain_segment i" and "plain_segment n" and "ok i"
  shows "load_row p ok dec put (p @ CHR ''/'' # i @ CHR ''/'' # n) (JsonBody b) s = map_option (\<lambda>v. put i v s) (dec b)"
proof -
  have "plain_key (i @ CHR ''/'' # n)" using assms(2,3) by (intro plain_key_append plain_key_segment)
  moreover have "split_on (CHR ''/'') (i @ CHR ''/'' # n) = [i, n]"
    using segment_chars plain_segment_chars [OF assms(2)] by (simp add: split_on_slash split_segment assms(3))
  ultimately show ?thesis
    using trim_object_key [OF assms(1)] json_name(3) [OF assms(2)] assms(4)
    by (simp add: load_row_def body_json_def)
qed

section \<open>A map with an object for each row\<close>

text \<open>The rows whose objects have one of the keys \<open>ks\<close>.\<close>

definition rows_in ::
  "'b gomap \<Rightarrow> ('b \<Rightarrow> (string \<times> json) list) \<Rightarrow> (json \<Rightarrow> 'a) \<Rightarrow> string \<Rightarrow> string set \<Rightarrow> (string \<times> 'a) set" where
  "rows_in m f g p ks = {(i, g b) | i v n b. fmlookup m i = Some v \<and> (n, b) \<in> set (f v) \<and>
     p @ CHR ''/'' # i @ CHR ''/'' # n \<in> ks}"

lemma load_rows:
  assumes p: "plain_key p" and objects: "map_of pf p = Some (fmmap JsonBody (collect_rows p f m))"
    and m: "plain_rows f m" and ok: "\<And>i. plain_segment i \<Longrightarrow> ok i"
    and dec: "\<And>i v n b. fmlookup m i = Some v \<Longrightarrow> (n, b) \<in> set (f v) \<Longrightarrow> dec b = Some (g b)"
  shows "\<exists>ivs. loadTypedObjects pf p (load_row p ok dec put) s = Inr (fold (\<lambda>(i, v). put i v) ivs s) \<and>
    set ivs = {(i, g b) | i v n b. fmlookup m i = Some v \<and> (n, b) \<in> set (f v)}"
proof -
  let ?o = "fmmap JsonBody (collect_rows p f m)"
  have step: "\<exists>i v n j. fmlookup m i = Some v \<and> (n, j) \<in> set (f v) \<and> k = p @ CHR ''/'' # i @ CHR ''/'' # n \<and>
      (\<forall>s. load_row p ok dec put k b s = Some (put i (g j) s))"
    if "fmlookup ?o k = Some b" for k b
  proof -
    from that obtain j where j: "fmlookup (collect_rows p f m) k = Some j" "b = JsonBody j" by auto
    then obtain i v n where i: "fmlookup m i = Some v" "(n, j) \<in> set (f v)" "k = p @ CHR ''/'' # i @ CHR ''/'' # n"
      using collect_rows_lookup [OF m] by blast
    have "plain_segment i" "plain_segment n"
      using i m by (fastforce simp: plain_rows_def fmpred_iff list_all_iff dest: plain_idsD)+
    then have "\<forall>s. load_row p ok dec put k b s = Some (put i (g j) s)"
      using load_row_step [where ok = ok and dec = dec and put = put and b = j, OF p _ _ ok] dec [OF i(1,2)]
      by (simp add: i(3) j(2))
    with i show ?thesis by blast
  qed
  have loaded: "\<exists>ivs. load_keys (load_row p ok dec put) kbs s = Inr (fold (\<lambda>(i, v). put i v) ivs s) \<and>
      set ivs = rows_in m f g p (fst ` set kbs)"
    if "set kbs \<subseteq> set (sorted_fields ?o)" for kbs s
    using that
  proof (induction kbs arbitrary: s)
    case (Cons kb kbs)
    obtain k b where kb: "kb = (k, b)" by force
    with Cons.prems have "fmlookup ?o k = Some b" by auto
    from step [OF this] obtain i v n j where i: "fmlookup m i = Some v" "(n, j) \<in> set (f v)"
      "k = p @ CHR ''/'' # i @ CHR ''/'' # n" "\<And>s. load_row p ok dec put k b s = Some (put i (g j) s)" by blast
    from Cons.IH [of "put i (g j) s"] Cons.prems obtain ivs where ivs:
      "load_keys (load_row p ok dec put) kbs (put i (g j) s) = Inr (fold (\<lambda>(i, v). put i v) ivs (put i (g j) s))"
      "set ivs = rows_in m f g p (fst ` set kbs)" by auto
    have one: "i' = i \<and> b' = j" if "fmlookup m i' = Some v'" "(n', b') \<in> set (f v')"
      "p @ CHR ''/'' # i' @ CHR ''/'' # n' = k" for i' v' n' b'
    proof -
      have "fmlookup (collect_rows p f m) k = Some b'" "fmlookup (collect_rows p f m) k = Some j"
        using that i(1-3) collect_rows_lookup [OF m, of p k] by blast+
      moreover have "i' = i"
        using that(1,3) i(1,3) m by (intro slash_inject [of i' i n' n]) (auto simp: plain_rows_def dest: plain_idsD)
      ultimately show ?thesis by simp
    qed
    have "load_keys (load_row p ok dec put) (kb # kbs) s = Inr (fold (\<lambda>(i, v). put i v) ((i, g j) # ivs) s)"
      using ivs(1) i(4) kb by simp
    moreover have "set ((i, g j) # ivs) = rows_in m f g p (insert k (fst ` set kbs))"
    proof (intro set_eqI iffI)
      fix x assume "x \<in> set ((i, g j) # ivs)"
      then consider "x = (i, g j)" | "x \<in> rows_in m f g p (fst ` set kbs)" using ivs(2) by auto
      then show "x \<in> rows_in m f g p (insert k (fst ` set kbs))"
        using i(1-3) unfolding rows_in_def by cases blast+
    next
      fix x assume "x \<in> rows_in m f g p (insert k (fst ` set kbs))"
      then obtain i' v' n' b' where x: "x = (i', g b')" "fmlookup m i' = Some v'" "(n', b') \<in> set (f v')"
        "p @ CHR ''/'' # i' @ CHR ''/'' # n' \<in> insert k (fst ` set kbs)" unfolding rows_in_def by blast
      then have "x = (i, g j) \<or> x \<in> rows_in m f g p (fst ` set kbs)"
        using one [OF x(2,3)] unfolding rows_in_def by blast
      then show "x \<in> set ((i, g j) # ivs)" using ivs(2) by auto
    qed
    ultimately show ?case by (intro exI [of _ "(i, g j) # ivs"]) (simp add: kb)
  qed (auto simp: rows_in_def)
  from loaded [OF order_refl, of s] obtain ivs where ivs:
    "load_keys (load_row p ok dec put) (sorted_fields ?o) s = Inr (fold (\<lambda>(i, v). put i v) ivs s)"
    "set ivs = rows_in m f g p (fst ` set (sorted_fields ?o))" by blast
  have key: "p @ CHR ''/'' # i @ CHR ''/'' # n \<in> fst ` set (sorted_fields ?o)"
    if "fmlookup m i = Some v" "(n, b) \<in> set (f v)" for i v n b
  proof -
    have "fmlookup (collect_rows p f m) (p @ CHR ''/'' # i @ CHR ''/'' # n) = Some b"
      using that collect_rows_lookup [OF m] by blast
    then show ?thesis by force
  qed
  have "set ivs = {(i, g b) | i v n b. fmlookup m i = Some v \<and> (n, b) \<in> set (f v)}"
    unfolding rows_in_def by (intro trans [OF ivs(2) [unfolded rows_in_def]] Collect_cong ex_cong1) (use key in blast)
  with ivs(1) show ?thesis by (auto simp: loadTypedObjects_def objects)
qed

section \<open>The loaders of the state\<close>

named_theorems loads \<open>what the loaders make of the objects of a store\<close>

lemma persisted_fields [codec]:
  "PAgent_AgentUUID (persistAgent a) = Agent_AgentUUID a" "PAgent_Metadata (persistAgent a) = Agent_Metadata a"
  "PInv_InviteID (persistInvite v) = Inv_InviteID v" "PKey_KeyID (persistOrgAccessKey k) = Key_KeyID k"
  "PBind_BindID (persistBindToken b) = Bind_BindID b" "PDel_DeliveryID (persistMessageDelivery d) = Del_DeliveryID d"
  by (simp_all add: persistAgent_def persistInvite_def persistOrgAccessKey_def persistBindToken_def
      persistMessageDelivery_def)

lemma load_human_all [loads]:
  assumes "map_of pf p = Some (fmmap JsonBody (collect p json_of_human m))" and "plain_ids m"
    and "fmpred (\<lambda>i v. Human_HumanID v = i \<and> plain_map (Human_Metadata v)) m" and "humans s = fmempty"
  shows "loadTypedObjects pf p load_human s = Inr (s\<lparr>humans := m\<rparr>)"
  unfolding load_human_def
  by (rule load_same [where get_map = humans and set_map = "\<lambda>m s. s\<lparr>humans := m\<rparr>", OF _ _ _ _ assms(1,2) _ assms(4)])
    (use assms(3) in \<open>auto simp: fmpred_iff codec\<close>)

lemma load_agent_all [loads]:
  assumes "map_of pf p = Some (fmmap JsonBody (collect p (\<lambda>a. json_of_s3_persist_agent (persistAgent a)) m))" and "plain_ids m"
    and "fmpred (\<lambda>i v. Agent_AgentUUID v = i \<and> plain_map (Agent_Metadata v)) m" and "agents s = fmempty"
  shows "loadTypedObjects pf p load_agent s = Inr (s\<lparr>agents := m\<rparr>)"
  unfolding load_agent_def
  by (rule load_same [where get_map = agents and set_map = "\<lambda>m s. s\<lparr>agents := m\<rparr>", OF _ _ _ _ assms(1,2) _ assms(4)])
    (use assms(3) in \<open>auto simp: fmpred_iff codec\<close>)

lemma load_org_all [loads]:
  assumes "map_of pf p = Some (fmmap JsonBody (collect p json_of_organization m))" and "plain_ids m"
    and "fmpred (\<lambda>i v. Org_OrgID v = i \<and> plain_map (Org_Metadata v)) m" and "orgs s = fmempty"
  shows "loadTypedObjects pf p load_org s = Inr (s\<lparr>orgs := m\<rparr>)"
  unfolding load_org_def
  by (rule load_same [where get_map = orgs and set_map = "\<lambda>m s. s\<lparr>orgs := m\<rparr>", OF _ _ _ _ assms(1,2) _ assms(4)])
    (use assms(3) in \<open>auto simp: fmpred_iff codec\<close>)

lemma load_archived_human_all [loads]:
  assumes "map_of pf p = Some (fmmap JsonBody (collect p json_of_human m))" and "plain_ids m"
    and "fmpred (\<lambda>i v. Human_HumanID v = i \<and> plain_map (Human_Metadata v)) m" and "archivedHumans s = fmempty"
  shows "loadTypedObjects pf p load_archived_human s = Inr (s\<lparr>archivedHumans := m\<rparr>)"
  unfolding load_archived_human_def
  by (rule load_same [where get_map = archivedHumans and set_map = "\<lambda>m s. s\<lparr>archivedHumans := m\<rparr>", OF _ _ _ _ assms(1,2) _ assms(4)])
    (use assms(3) in \<open>auto simp: fmpred_iff codec\<close>)

lemma load_archived_agent_all [loads]:
  assumes "map_of pf p = Some (fmmap JsonBody (collect p (\<lambda>a. json_of_s3_persist_agent (persistAgent a)) m))" and "plain_ids m"
    and "fmpred (\<lambda>i v. Agent_AgentUUID v = i \<and> plain_map (Agent_Metadata v)) m" and "archivedAgents s = fmempty"
  shows "loadTypedObjects pf p load_archived_agent s = Inr (s\<lparr>archivedAgents := m\<rparr>)"
  unfolding load_archived_agent_def
  by (rule load_same [where get_map = archivedAgents and set_map = "\<lambda>m s. s\<lparr>archivedAgents := m\<rparr>", OF _ _ _ _ assms(1,2) _ assms(4)])
    (use assms(3) in \<open>auto simp: fmpred_iff codec\<close>)

lemma load_archived_org_all [loads]:
  assumes "map_of pf p = Some (fmmap JsonBody (collect p json_of_organization m))" and "plain_ids m"
    and "fmpred (\<lambda>i v. Org_OrgID v = i \<and> plain_map (Org_Metadata v)) m" and "archivedOrgs s = fmempty"
  shows "loadTypedObjects pf p load_archived_org s = Inr (s\<lparr>archivedOrgs := m\<rparr>)"
  unfolding load_archived_org_def
  by (rule load_same [where get_map = archivedOrgs and set_map = "\<lambda>m s. s\<lparr>archivedOrgs := m\<rparr>", OF _ _ _ _ assms(1,2) _ assms(4)])
    (use assms(3) in \<open>auto simp: fmpred_iff codec\<close>)

lemma load_membership_all [loads]:
  assumes "map_of pf p = Some (fmmap JsonBody (collect p json_of_membership m))" and "plain_ids m"
    and "fmpred (\<lambda>i v. Mem_MembershipID v = i) m" and "memberships s = fmempty"
  shows "loadTypedObjects pf p load_membership s = Inr (s\<lparr>memberships := m\<rparr>)"
  unfolding load_membership_def
  by (rule load_same [where get_map = memberships and set_map = "\<lambda>m s. s\<lparr>memberships := m\<rparr>", OF _ _ _ _ assms(1,2) _ assms(4)])
    (use assms(3) in \<open>auto simp: fmpred_iff codec\<close>)

lemma load_invite_all [loads]:
  assumes "map_of pf p = Some (fmmap JsonBody (collect p (\<lambda>v. json_of_s3_persist_invite (persistInvite v)) m))" and "plain_ids m"
    and "fmpred (\<lambda>i v. Inv_InviteID v = i) m" and "invites s = fmempty"
  shows "loadTypedObjects pf p load_invite s = Inr (s\<lparr>invites := m\<rparr>)"
  unfolding load_invite_def
  by (rule load_same [where get_map = invites and set_map = "\<lambda>m s. s\<lparr>invites := m\<rparr>", OF _ _ _ _ assms(1,2) _ assms(4)])
    (use assms(3) in \<open>auto simp: fmpred_iff codec\<close>)

lemma load_access_key_all [loads]:
  assumes "map_of pf p = Some (fmmap JsonBody (collect p (\<lambda>k. json_of_s3_persist_org_access_key (persistOrgAccessKey k)) m))" and "plain_ids m"
    and "fmpred (\<lambda>i v. Key_KeyID v = i) m" and "orgAccessKeys s = fmempty"
  shows "loadTypedObjects pf p load_access_key s = Inr (s\<lparr>orgAccessKeys := m\<rparr>)"
  unfolding load_access_key_def
  by (rule load_same [where get_map = orgAccessKeys and set_map = "\<lambda>m s. s\<lparr>orgAccessKeys := m\<rparr>", OF _ _ _ _ assms(1,2) _ assms(4)])
    (use assms(3) in \<open>auto simp: fmpred_iff codec\<close>)

lemma load_bind_all [loads]:
  assumes "map_of pf p = Some (fmmap JsonBody (collect p (\<lambda>b. json_of_s3_persist_bind_token (persistBindToken b)) m))" and "plain_ids m"
    and "fmpred (\<lambda>i v. Bind_BindID v = i) m" and "binds s = fmempty"
  shows "loadTypedObjects pf p load_bind s = Inr (s\<lparr>binds := m\<rparr>)"
  unfolding load_bind_def
  by (rule load_same [where get_map = binds and set_map = "\<lambda>m s. s\<lparr>binds := m\<rparr>", OF _ _ _ _ assms(1,2) _ assms(4)])
    (use assms(3) in \<open>auto simp: fmpred_iff codec\<close>)

lemma load_org_trust_all [loads]:
  assumes "map_of pf p = Some (fmmap JsonBody (collect p json_of_trust_edge m))" and "plain_ids m"
    and "fmpred (\<lambda>i v. Edge_EdgeID v = i) m" and "orgTrusts s = fmempty"
  shows "loadTypedObjects pf p load_org_trust s = Inr (s\<lparr>orgTrusts := m\<rparr>)"
  unfolding load_org_trust_def
  by (rule load_same [where get_map = orgTrusts and set_map = "\<lambda>m s. s\<lparr>orgTrusts := m\<rparr>", OF _ _ _ _ assms(1,2) _ assms(4)])
    (use assms(3) in \<open>auto simp: fmpred_iff codec\<close>)

lemma load_agent_trust_all [loads]:
  assumes "map_of pf p = Some (fmmap JsonBody (collect p json_of_trust_edge m))" and "plain_ids m"
    and "fmpred (\<lambda>i v. Edge_EdgeID v = i) m" and "agentTrusts s = fmempty"
  shows "loadTypedObjects pf p load_agent_trust s = Inr (s\<lparr>agentTrusts := m\<rparr>)"
  unfolding load_agent_trust_def
  by (rule load_same [where get_map = agentTrusts and set_map = "\<lambda>m s. s\<lparr>agentTrusts := m\<rparr>", OF _ _ _ _ assms(1,2) _ assms(4)])
    (use assms(3) in \<open>auto simp: fmpred_iff codec\<close>)

lemma load_stats_all [loads]:
  assumes "map_of pf p = Some (fmmap JsonBody (collect p json_of_org_stats m))" and "plain_ids m"
    and "fmpred (\<lambda>i v. Stats_OrgID v = i) m" and "statsByOrg s = fmempty"
  shows "loadTypedObjects pf p load_stats s = Inr (s\<lparr>statsByOrg := m\<rparr>)"
  unfolding load_stats_def
  by (rule load_same [where get_map = statsByOrg and set_map = "\<lambda>m s. s\<lparr>statsByOrg := m\<rparr>", OF _ _ _ _ assms(1,2) _ assms(4)])
    (use assms(3) in \<open>auto simp: fmpred_iff codec\<close>)

lemma load_lease_all [loads]:
  assumes "map_of pf p = Some (fmmap JsonBody (collect p (\<lambda>d. json_of_s3_persist_message_delivery (persistMessageDelivery d)) m))" and "plain_ids m"
    and "fmpred (\<lambda>i v. Del_DeliveryID v = i) m" and "messageDeliveries s = fmempty"
  shows "loadTypedObjects pf p load_lease s = Inr (s\<lparr>messageDeliveries := m\<rparr>)"
  unfolding load_lease_def
  by (rule load_same [where get_map = messageDeliveries and set_map = "\<lambda>m s. s\<lparr>messageDeliveries := m\<rparr>", OF _ _ _ _ assms(1,2) _ assms(4)])
    (use assms(3) in \<open>auto simp: fmpred_iff codec\<close>)

lemma load_peer_all [loads]:
  assumes "map_of pf p = Some (fmmap JsonBody (collect p json_of_peer_instance m))" and "plain_ids m"
    and "fmpred (\<lambda>i v. Peer_PeerID v = i) m" and "peerInstances s = fmempty"
  shows "loadTypedObjects pf p load_peer s = Inr (s\<lparr>peerInstances := (fmmap (\<lambda>v. v\<lparr>Peer_SharedSecret := []\<rparr>) m)\<rparr>)"
  unfolding load_peer_def
  by (rule load_values [where get_map = peerInstances and set_map = "\<lambda>m s. s\<lparr>peerInstances := m\<rparr>" and g = "(\<lambda>v. v\<lparr>Peer_SharedSecret := []\<rparr>)", OF _ _ _ _ assms(1,2) _ assms(4)])
    (use assms(3) in \<open>auto simp: fmpred_iff codec\<close>)

lemma load_remote_org_trust_all [loads]:
  assumes "map_of pf p = Some (fmmap JsonBody (collect p json_of_remote_org_trust m))" and "plain_ids m"
    and "fmpred (\<lambda>i v. ROT_TrustID v = i) m" and "remoteOrgTrusts s = fmempty"
  shows "loadTypedObjects pf p load_remote_org_trust s = Inr (s\<lparr>remoteOrgTrusts := m\<rparr>)"
  unfolding load_remote_org_trust_def
  by (rule load_same [where get_map = remoteOrgTrusts and set_map = "\<lambda>m s. s\<lparr>remoteOrgTrusts := m\<rparr>", OF _ _ _ _ assms(1,2) _ assms(4)])
    (use assms(3) in \<open>auto simp: fmpred_iff codec\<close>)

lemma load_remote_agent_trust_all [loads]:
  assumes "map_of pf p = Some (fmmap JsonBody (collect p json_of_remote_agent_trust m))" and "plain_ids m"
    and "fmpred (\<lambda>i v. RAT_TrustID v = i) m" and "remoteAgentTrusts s = fmempty"
  shows "loadTypedObjects pf p load_remote_agent_trust s = Inr (s\<lparr>remoteAgentTrusts := m\<rparr>)"
  unfolding load_remote_agent_trust_def
  by (rule load_same [where get_map = remoteAgentTrusts and set_map = "\<lambda>m s. s\<lparr>remoteAgentTrusts := m\<rparr>", OF _ _ _ _ assms(1,2) _ assms(4)])
    (use assms(3) in \<open>auto simp: fmpred_iff codec\<close>)

lemma load_outbound_all [loads]:
  assumes "map_of pf p = Some (fmmap JsonBody (collect p json_of_peer_outbound m))" and "plain_ids m"
    and "fmpred (\<lambda>i v. Out_OutboundID v = i) m" and "peerOutbounds s = fmempty"
  shows "loadTypedObjects pf p load_outbound s = Inr (s\<lparr>peerOutbounds := m\<rparr>)"
  unfolding load_outbound_def
  by (rule load_same [where get_map = peerOutbounds and set_map = "\<lambda>m s. s\<lparr>peerOutbounds := m\<rparr>", OF _ _ _ _ assms(1,2) _ assms(4)])
    (use assms(3) in \<open>auto simp: fmpred_iff codec\<close>)


end
