(* ===== verification/Reload.thy ===== *)
theory Reload
  imports Hydrate
begin

text \<open>
  A store made from the objects of another one: which of its parts are as they were.
\<close>

section \<open>Rebuilding the indexes\<close>

text \<open>What the rebuilding leaves alone: everything but the indexes, the agents and the queues.\<close>

definition unindexed :: "memory_store \<Rightarrow> memory_store" where
  "unindexed m = (reset_indexes m)\<lparr>agents := fmempty, queues := fmempty\<rparr>"

definition norm_agent :: "agent \<Rightarrow> agent" where
  "norm_agent v = v\<lparr>Agent_Metadata := (case validateAndNormalizeAgentMetadata (Agent_Metadata v) of
     Inl _ \<Rightarrow> defaultAgentMetadata | Inr md \<Rightarrow> md)\<rparr>"

lemma each_frame: "(\<And>i v s. F (f i v s) = F s) \<Longrightarrow> F (each f m s) = F s"
  unfolding each_def by (rule fold_frame) (simp add: case_prod_beta)

lemma unindexed_index:
  "unindexed (index_org i v1 m) = unindexed m" "unindexed (index_human_handle i v2 m) = unindexed m"
  "unindexed (index_human i v2 m) = unindexed m" "unindexed (index_membership i v3 m) = unindexed m"
  "unindexed (index_invite i v4 m) = unindexed m" "unindexed (index_access_key i v5 m) = unindexed m"
  "unindexed (index_archived_agent i v6 m) = unindexed m" "unindexed (index_agent i v6 m) = unindexed m"
  "unindexed (index_bind i v7 m) = unindexed m" "unindexed (index_org_trust i v8 m) = unindexed m"
  "unindexed (index_agent_trust i v8 m) = unindexed m" "unindexed (index_record i v9 m) = unindexed m"
  "unindexed (index_peer i v10 m) = unindexed m" "unindexed (index_remote_org_trust i v11 m) = unindexed m"
  "unindexed (index_remote_agent_trust i v12 m) = unindexed m" "unindexed (index_outbound i v13 m) = unindexed m"
  by (simp_all add: unindexed_def reset_indexes_def index_org_def index_human_handle_def index_human_def
      index_membership_def index_invite_def index_access_key_def index_archived_agent_def index_agent_def
      index_agent_name_def index_bind_def index_org_trust_def index_agent_trust_def index_record_def
      index_peer_def index_remote_org_trust_def index_remote_agent_trust_def index_outbound_def Let_def
      split: option.split)

lemma agents_index [simp]:
  "agents (index_org i v1 m) = agents m" "agents (index_human_handle i v2 m) = agents m"
  "agents (index_human i v2 m) = agents m" "agents (index_membership i v3 m) = agents m"
  "agents (index_invite i v4 m) = agents m" "agents (index_access_key i v5 m) = agents m"
  "agents (index_archived_agent i v6 m) = agents m" "agents (index_agent i v6 m) = fmupd i (norm_agent v6) (agents m)"
  "agents (index_bind i v7 m) = agents m" "agents (index_org_trust i v8 m) = agents m"
  "agents (index_agent_trust i v8 m) = agents m" "agents (index_record i v9 m) = agents m"
  "agents (index_peer i v10 m) = agents m" "agents (index_remote_org_trust i v11 m) = agents m"
  "agents (index_remote_agent_trust i v12 m) = agents m" "agents (index_outbound i v13 m) = agents m"
  by (simp_all add: index_org_def index_human_handle_def index_human_def norm_agent_def
      index_membership_def index_invite_def index_access_key_def index_archived_agent_def index_agent_def
      index_agent_name_def index_bind_def index_org_trust_def index_agent_trust_def index_record_def
      index_peer_def index_remote_org_trust_def index_remote_agent_trust_def index_outbound_def Let_def
      split: option.split)

lemma queue_index [simp]:
  "queue_of (index_org i v1 m) u = queue_of m u" "queue_of (index_human_handle i v2 m) u = queue_of m u"
  "queue_of (index_human i v2 m) u = queue_of m u" "queue_of (index_membership i v3 m) u = queue_of m u"
  "queue_of (index_invite i v4 m) u = queue_of m u" "queue_of (index_access_key i v5 m) u = queue_of m u"
  "queue_of (index_archived_agent i v6 m) u = queue_of m u" "queue_of (index_agent i v6 m) u = queue_of m u"
  "queue_of (index_bind i v7 m) u = queue_of m u" "queue_of (index_org_trust i v8 m) u = queue_of m u"
  "queue_of (index_agent_trust i v8 m) u = queue_of m u" "queue_of (index_record i v9 m) u = queue_of m u"
  "queue_of (index_peer i v10 m) u = queue_of m u" "queue_of (index_remote_org_trust i v11 m) u = queue_of m u"
  "queue_of (index_remote_agent_trust i v12 m) u = queue_of m u" "queue_of (index_outbound i v13 m) u = queue_of m u"
  by (simp_all add: queue_of_def index_org_def index_human_handle_def index_human_def
      index_membership_def index_invite_def index_access_key_def index_archived_agent_def index_agent_def
      index_agent_name_def index_bind_def index_org_trust_def index_agent_trust_def index_record_def
      index_peer_def index_remote_org_trust_def index_remote_agent_trust_def index_outbound_def Let_def
      split: option.split)

lemma each_index_agent: "agents (each index_agent m s) = agents s ++\<^sub>f fmmap norm_agent m"
proof -
  have "agents (fold (\<lambda>(i, v). index_agent i v) kvs s) =
      agents s ++\<^sub>f fmap_of_list (rev (map (\<lambda>(i, v). (i, norm_agent v)) kvs))" for kvs
    by (induction kvs arbitrary: s) (auto intro!: fmap_ext simp: fmlookup_of_list map_add_def split: option.split)
  then show ?thesis by (simp add: each_def fmap_of_map_fields)
qed

lemma reset_frames:
  "unindexed (reset_indexes m) = unindexed m" "agents (reset_indexes m) = agents m" "queue_of (reset_indexes m) u = queue_of m u"
  by (simp_all add: unindexed_def reset_indexes_def queue_of_def)

lemma rebuild_frames:
  "unindexed (rebuildStateIndexesLocked m) = unindexed m"
  "agents (rebuildStateIndexesLocked m) = fmmap norm_agent (agents m)"
  "queue_of (rebuildStateIndexesLocked m) u = queue_of m u"
proof -
  show "unindexed (rebuildStateIndexesLocked m) = unindexed m"
    by (simp add: rebuildStateIndexesLocked_def Let_def each_frame [where F = unindexed] unindexed_index reset_frames)
  show "queue_of (rebuildStateIndexesLocked m) u = queue_of m u"
    by (simp add: rebuildStateIndexesLocked_def Let_def each_frame [where F = "\<lambda>s. queue_of s u"] reset_frames)
  have "fmmap norm_agent (agents m) = agents m ++\<^sub>f fmmap norm_agent (agents m)"
    by (intro fmap_ext) auto
  then show "agents (rebuildStateIndexesLocked m) = fmmap norm_agent (agents m)"
    by (simp add: rebuildStateIndexesLocked_def Let_def each_frame [where F = agents] each_index_agent reset_frames)
qed

end
