(* ===== verification/Restart.thy ===== *)
theory Restart
  imports Reload
begin

text \<open>
  A restart of the hub over an S3 service: what was acknowledged before is there afterwards.
\<close>

section \<open>Stores that can be loaded\<close>

text \<open>
  Every value has its own key as identifier, and its metadata come back from JSON as they are;
  every message that is queued or leased has its record.
\<close>

definition own_ids :: "memory_store \<Rightarrow> bool" where
  "own_ids s \<longleftrightarrow>
     fmpred (\<lambda>i v. Human_HumanID v = i \<and> plain_map (Human_Metadata v)) (humans s) \<and>
     fmpred (\<lambda>i v. Agent_AgentUUID v = i \<and> plain_map (Agent_Metadata v)) (agents s) \<and>
     fmpred (\<lambda>i v. Org_OrgID v = i \<and> plain_map (Org_Metadata v)) (orgs s) \<and>
     fmpred (\<lambda>i v. Human_HumanID v = i \<and> plain_map (Human_Metadata v)) (archivedHumans s) \<and>
     fmpred (\<lambda>i v. Agent_AgentUUID v = i \<and> plain_map (Agent_Metadata v)) (archivedAgents s) \<and>
     fmpred (\<lambda>i v. Org_OrgID v = i \<and> plain_map (Org_Metadata v)) (archivedOrgs s) \<and>
     fmpred (\<lambda>i v. Mem_MembershipID v = i) (memberships s) \<and>
     fmpred (\<lambda>i v. Inv_InviteID v = i) (invites s) \<and>
     fmpred (\<lambda>i v. Key_KeyID v = i) (orgAccessKeys s) \<and>
     fmpred (\<lambda>i v. Bind_BindID v = i) (binds s) \<and>
     fmpred (\<lambda>i v. Edge_EdgeID v = i) (orgTrusts s) \<and>
     fmpred (\<lambda>i v. Edge_EdgeID v = i) (agentTrusts s) \<and>
     fmpred (\<lambda>i v. Stats_OrgID v = i) (statsByOrg s) \<and>
     fmpred (\<lambda>i v. TrimSpace v \<noteq> []) (personalOrgByHuman s) \<and>
     fmpred (\<lambda>i v. Msg_MessageID (Rec_Message v) = i) (messageRecords s) \<and>
     fmpred (\<lambda>i v. Del_DeliveryID v = i) (messageDeliveries s) \<and>
     fmpred (\<lambda>i v. Peer_PeerID v = i) (peerInstances s) \<and>
     fmpred (\<lambda>i v. ROT_TrustID v = i) (remoteOrgTrusts s) \<and>
     fmpred (\<lambda>i v. RAT_TrustID v = i) (remoteAgentTrusts s) \<and>
     fmpred (\<lambda>i v. Out_OutboundID v = i) (peerOutbounds s)"

definition audit_plain :: "memory_store \<Rightarrow> bool" where
  "audit_plain s \<longleftrightarrow> fmpred (\<lambda>_. list_all (\<lambda>ev. plain_map (Ev_Details ev))) (auditByOrg s)"

definition loadable :: "memory_store \<Rightarrow> bool" where
  "loadable s \<longleftrightarrow> plain_store s \<and> own_ids s \<and> audit_plain s \<and>
     list_all (\<lambda>i. fmlookup (messageRecords s) i \<noteq> None) (active_message_ids s)"

section \<open>Loading the maps\<close>

text \<open>The objects read are those of \<open>s\<close>.\<close>

definition served :: "(string \<times> resp_body gomap) list \<Rightarrow> string \<Rightarrow> memory_store \<Rightarrow> bool" where
  "served pf pre s \<longleftrightarrow> list_all (\<lambda>(p, m). p = prefixed pre ''state/messages'' \<or>
     map_of pf p = Some (fmmap JsonBody m)) (buildDesiredObjects pre s)"

lemma set_fold_append:
  assumes "\<And>i v s. get_list (put i v s) u = (if i = u then get_list s u @ [v] else get_list s u)"
  shows "set (get_list (fold (\<lambda>(i, v). put i v) ivs s) u) = set (get_list s u) \<union> {v. (u, v) \<in> set ivs}"
  by (induction ivs arbitrary: s) (auto simp: assms split: if_splits)

lemma fold_rows_field:
  assumes "\<And>i v s. \<exists>x. put i v s = set_field x s" and "\<And>x y s. set_field x (set_field y s) = set_field x s"
    and "\<And>s. \<exists>x. set_field x s = s"
  shows "\<exists>x. fold (\<lambda>(i, v). put i v) ivs s = set_field x s"
proof (induction ivs arbitrary: s)
  case Nil
  with assms(3) show ?case by (metis fold_simps(1))
next
  case (Cons iv ivs)
  obtain i v where iv: "iv = (i, v)" by force
  obtain y where y: "put i v s = set_field y s" using assms(1) by blast
  obtain x where "fold (\<lambda>(i, v). put i v) ivs (set_field y s) = set_field x (set_field y s)" using Cons.IH by blast
  then show ?case using y by (auto simp: iv assms(2))
qed

lemma same_field:
  "\<exists>x. s\<lparr>statsDaily := x\<rparr> = s" "\<exists>x. s\<lparr>auditByOrg := x\<rparr> = s" "\<exists>x. s\<lparr>queues := x\<rparr> = s"
  by (rule exI [of _ "statsDaily s"], simp, rule exI [of _ "auditByOrg s"], simp, rule exI [of _ "queues s"], simp)

definition row_values :: "('b \<Rightarrow> (string \<times> json) list) \<Rightarrow> (json \<Rightarrow> 'a option) \<Rightarrow> 'b gomap \<Rightarrow> (string \<times> 'a) set" where
  "row_values f dec m = {(i, the (dec b)) | i v n b. fmlookup m i = Some v \<and> (n, b) \<in> set (f v)}"

lemma load_rows_dec:
  assumes "plain_key p" and "map_of pf p = Some (fmmap JsonBody (collect_rows p f m))" and "plain_rows f m"
    and "\<forall>i. plain_segment i \<longrightarrow> ok i" and "fmpred (\<lambda>_ v. list_all (\<lambda>(n, b). dec b \<noteq> None) (f v)) m"
  shows "\<exists>ivs. loadTypedObjects pf p (load_row p ok dec put) s = Inr (fold (\<lambda>(i, v). put i v) ivs s) \<and>
    set ivs = row_values f dec m"
  using assms(4,5) unfolding row_values_def by (intro load_rows [OF assms(1-3)]) (fastforce simp: fmpred_iff list_all_iff)+

lemma load_days:
  assumes "plain_key p" and "map_of pf p = Some (fmmap JsonBody (collect_rows p day_rows m))" and "plain_rows day_rows m"
  shows "\<exists>x. loadTypedObjects pf p (load_day p) s = Inr (s\<lparr>statsDaily := x\<rparr>)"
proof -
  let ?put = "\<lambda>i v m. m\<lparr>statsDaily := fmupd i
        (fmupd (Day_Date v) v (case fmlookup (statsDaily m) i of None \<Rightarrow> fmempty | Some d \<Rightarrow> d))
        (statsDaily m)\<rparr>"
  have "fmpred (\<lambda>_ v. list_all (\<lambda>(n, b). org_daily_stats_of_json b \<noteq> None) (day_rows v)) m"
    by (auto simp: fmpred_iff list_all_iff day_rows_def codec)
  then obtain ivs where "loadTypedObjects pf p (load_day p) s = Inr (fold (\<lambda>(i, v). ?put i v) ivs s)"
    using load_rows_dec [OF assms, of "\<lambda>_. True" org_daily_stats_of_json ?put s] unfolding load_day_def by blast
  moreover have "\<exists>x. fold (\<lambda>(i, v). ?put i v) ivs s = s\<lparr>statsDaily := x\<rparr>"
    by (rule fold_rows_field [of ?put "\<lambda>x s. s\<lparr>statsDaily := x\<rparr>"]) (auto intro: same_field)
  ultimately show ?thesis by auto
qed

lemma load_audits:
  assumes "plain_key p" and "map_of pf p = Some (fmmap JsonBody (collect_rows p audit_rows m))" and "plain_rows audit_rows m"
    and "fmpred (\<lambda>_. list_all (\<lambda>ev. plain_map (Ev_Details ev))) m"
  shows "\<exists>x. loadTypedObjects pf p (load_audit p) s = Inr (s\<lparr>auditByOrg := x\<rparr>)"
proof -
  let ?put = "\<lambda>i v m. m\<lparr>auditByOrg := fmupd i
        ((case fmlookup (auditByOrg m) i of None \<Rightarrow> [] | Some evs \<Rightarrow> evs) @ [v]) (auditByOrg m)\<rparr>"
  have "fmpred (\<lambda>_ v. list_all (\<lambda>(n, b). audit_event_of_json b \<noteq> None) (audit_rows v)) m"
    using assms(4) by (auto simp: fmpred_iff list_all_iff audit_rows_def audit_event_codec)
  then obtain ivs where "loadTypedObjects pf p (load_audit p) s = Inr (fold (\<lambda>(i, v). ?put i v) ivs s)"
    using load_rows_dec [OF assms(1-3), of "\<lambda>_. True" audit_event_of_json ?put s] unfolding load_audit_def by blast
  moreover have "\<exists>x. fold (\<lambda>(i, v). ?put i v) ivs s = s\<lparr>auditByOrg := x\<rparr>"
    by (rule fold_rows_field [of ?put "\<lambda>x s. s\<lparr>auditByOrg := x\<rparr>"]) (auto intro: same_field)
  ultimately show ?thesis by auto
qed

lemma load_queues:
  assumes "plain_key p" and "map_of pf p = Some (fmmap JsonBody (collect_rows p queue_rows m))" and "plain_rows queue_rows m"
    and "queues s = fmempty"
  shows "\<exists>x. loadTypedObjects pf p (load_queued p) s = Inr (s\<lparr>queues := x\<rparr>) \<and>
    (\<forall>u. set (queue_of (s\<lparr>queues := x\<rparr>) u) = set (queue_of (s\<lparr>queues := m\<rparr>) u))"
proof -
  let ?put = "\<lambda>i v m. m\<lparr>queues := fmupd i (queue_of m i @ [s3_persist_queue_message_toModel v]) (queues m)\<rparr>"
  have dec: "fmpred (\<lambda>_ v. list_all (\<lambda>(n, b). s3_persist_queue_message_of_json b \<noteq> None) (queue_rows v)) m"
    by (auto simp: fmpred_iff list_all_iff queue_rows_def codec)
  have ok: "\<forall>i. plain_segment i \<longrightarrow> TrimSpace i \<noteq> []"
    using segment_chars plain_segment_chars by auto
  have "\<exists>ivs. loadTypedObjects pf p (load_queued p) s = Inr (fold (\<lambda>(i, v). ?put i v) ivs s) \<and>
      set ivs = row_values queue_rows s3_persist_queue_message_of_json m"
    unfolding load_queued_def by (rule load_rows_dec [OF assms(1-3) ok dec])
  then obtain ivs where run: "loadTypedObjects pf p (load_queued p) s = Inr (fold (\<lambda>(i, v). ?put i v) ivs s)"
    and ivs: "set ivs = row_values queue_rows s3_persist_queue_message_of_json m"
    by (elim exE conjE) (rule that)
  have "\<exists>x. fold (\<lambda>(i, v). ?put i v) ivs s = s\<lparr>queues := x\<rparr>"
    by (rule fold_rows_field [of ?put "\<lambda>x s. s\<lparr>queues := x\<rparr>"]) (blast, simp, rule same_field)
  then obtain x where x: "fold (\<lambda>(i, v). ?put i v) ivs s = s\<lparr>queues := x\<rparr>" ..
  have "fold (\<lambda>(i, v). ?put i v) ivs s =
      fold (\<lambda>(i, v) m. m\<lparr>queues := fmupd i (queue_of m i @ [v]) (queues m)\<rparr>)
        (map (\<lambda>(i, v). (i, s3_persist_queue_message_toModel v)) ivs) s"
    by (induction ivs arbitrary: s) auto
  then have "set (queue_of (s\<lparr>queues := x\<rparr>) u) = {v. (u, v) \<in> set (map (\<lambda>(i, v). (i, s3_persist_queue_message_toModel v)) ivs)}" for u
    using set_fold_append [of queue_of "\<lambda>i v m. m\<lparr>queues := fmupd i (queue_of m i @ [v]) (queues m)\<rparr>" u
        "map (\<lambda>(i, v). (i, s3_persist_queue_message_toModel v)) ivs" s] assms(4)
    by (simp add: x [symmetric] queue_of_def)
  moreover have "{v. (u, v) \<in> set (map (\<lambda>(i, v). (i, s3_persist_queue_message_toModel v)) ivs)} =
      set (queue_of (s\<lparr>queues := m\<rparr>) u)" for u
  proof -
    have row: "(u, x) \<in> set ivs \<longleftrightarrow> x \<in> persistQueueMessage ` set (queue_of (s\<lparr>queues := m\<rparr>) u)" for x
    proof -
      have "(u, x) \<in> set ivs \<longleftrightarrow> (\<exists>q n b. fmlookup m u = Some q \<and> (n, b) \<in> set (queue_rows q) \<and>
          x = the (s3_persist_queue_message_of_json b))" unfolding ivs row_values_def by blast
      also have "\<dots> \<longleftrightarrow> (\<exists>q msg. fmlookup m u = Some q \<and> msg \<in> set q \<and> x = persistQueueMessage msg)"
        by (fastforce simp: queue_rows_def codec)
      also have "\<dots> \<longleftrightarrow> x \<in> persistQueueMessage ` set (queue_of (s\<lparr>queues := m\<rparr>) u)"
        by (cases "fmlookup m u") (auto simp: queue_of_def)
      finally show ?thesis .
    qed
    have "{v. (u, v) \<in> set (map (\<lambda>(i, v). (i, s3_persist_queue_message_toModel v)) ivs)} =
        s3_persist_queue_message_toModel ` {x. (u, x) \<in> set ivs}" by force
    also have "\<dots> = set (queue_of (s\<lparr>queues := m\<rparr>) u)"
      by (simp add: row image_image s3_persist_queue_message_toModel)
    finally show ?thesis .
  qed
  ultimately show ?thesis using run x by auto
qed

definition read_presence :: "(gmap \<Rightarrow> gmap) \<Rightarrow> gmap \<Rightarrow> gmap" where
  "read_presence f v = f (the (map_of_json (json_of_map (f v))))"

lemma load_agent_presence_all [loads]:
  assumes "plain_key p" and "map_of pf p = Some (fmmap JsonBody (collect p (\<lambda>v. json_of_map (normalizeAgentPresence v)) m))"
    and "plain_ids m" and "agentPresence s = fmempty"
  shows "loadTypedObjects pf p (load_agent_presence p) s = Inr (s\<lparr>agentPresence := fmmap (read_presence normalizeAgentPresence) m\<rparr>)"
  unfolding load_agent_presence_def
  by (rule load_collected [where get_map = agentPresence and set_map = "\<lambda>m s. s\<lparr>agentPresence := m\<rparr>",
        OF _ _ _ _ assms(2-4)])
    (simp_all add: load_presence_step [OF assms(1) plain_idsD [OF assms(3)]] read_presence_def)

lemma load_human_presence_all [loads]:
  assumes "plain_key p" and "map_of pf p = Some (fmmap JsonBody (collect p (\<lambda>v. json_of_map (normalizeHumanPresence v)) m))"
    and "plain_ids m" and "humanPresence s = fmempty"
  shows "loadTypedObjects pf p (load_human_presence p) s = Inr (s\<lparr>humanPresence := fmmap (read_presence normalizeHumanPresence) m\<rparr>)"
  unfolding load_human_presence_def
  by (rule load_collected [where get_map = humanPresence and set_map = "\<lambda>m s. s\<lparr>humanPresence := m\<rparr>",
        OF _ _ _ _ assms(2-4)])
    (simp_all add: load_presence_step [OF assms(1) plain_idsD [OF assms(3)]] read_presence_def)

lemma load_personal_orgs_all [loads]:
  assumes "plain_key p" and "map_of pf p = Some (fmmap JsonBody (collect p json_of_personal_org m))"
    and "plain_ids m" and "fmpred (\<lambda>i v. TrimSpace v \<noteq> []) m" and "personalOrgByHuman s = fmempty"
  shows "loadTypedObjects pf p (load_personal_org p) s = Inr (s\<lparr>personalOrgByHuman := m\<rparr>)"
proof -
  have "loadTypedObjects pf p (load_personal_org p) s = Inr (s\<lparr>personalOrgByHuman := fmmap (\<lambda>v. v) m\<rparr>)"
    by (rule load_collected [where get_map = personalOrgByHuman and set_map = "\<lambda>m s. s\<lparr>personalOrgByHuman := m\<rparr>",
          OF _ _ _ _ assms(2,3,5)])
      (use assms(4) in \<open>auto simp: load_personal_org_step [OF assms(1) plain_idsD [OF assms(3)]] fmpred_iff\<close>)
  moreover have "fmmap (\<lambda>v. v) m = m" by (intro fmap_ext) (simp add: option.map_ident)
  ultimately show ?thesis by simp
qed

text \<open>The objects below the prefix of a part.\<close>

lemma servedD:
  assumes "served pf pre s" and "(prefixed pre part, m) \<in> set (buildDesiredObjects pre s)"
    and "prefixed pre part \<noteq> prefixed pre ''state/messages''"
  shows "map_of pf (prefixed pre part) = Some (fmmap JsonBody m)"
  using assms by (auto simp: served_def list_all_iff)

lemma parts_differ:
  assumes "plain_key pre" and "part \<in> set state_parts" and "part \<noteq> ''state/messages''"
  shows "prefixed pre part \<noteq> prefixed pre ''state/messages''"
proof -
  have "''state/messages'' \<in> set state_parts" by (simp add: state_parts_def)
  then show ?thesis
    using assms prefixed_plain [OF assms(1)] state_part_plain by (metis state_prefix_inject)
qed

definition serving :: "(string \<times> resp_body gomap) list \<Rightarrow> string \<Rightarrow> memory_store \<Rightarrow> bool" where
  "serving pf pre s \<longleftrightarrow> plain_key pre \<and> loadable s \<and> served pf pre s"

lemma part_plain: "plain_key pre \<Longrightarrow> part \<in> set state_parts \<Longrightarrow> plain_key (prefixed pre part)"
  using plain_key_append [OF _ state_part_plain] prefixed_plain [OF _ state_part_plain]
  by (simp add: state_prefix_def)

lemma served_objs:
  assumes "serving pf pre s" and "objs pre part f m \<in> set (buildDesiredObjects pre s)" and "part \<in> set loaded_parts"
  shows "map_of pf (prefixed pre part) = Some (fmmap JsonBody (collect (prefixed pre part) f m))"
  using assms parts_differ [of pre part]
  by (intro servedD [of pf pre s]) (auto simp: serving_def objs_def loaded_parts_def)

lemma served_rows:
  assumes "serving pf pre s" and "rows pre part f m \<in> set (buildDesiredObjects pre s)" and "part \<in> set loaded_parts"
  shows "map_of pf (prefixed pre part) = Some (fmmap JsonBody (collect_rows (prefixed pre part) f m))"
  using assms parts_differ [of pre part]
  by (intro servedD [of pf pre s]) (auto simp: serving_def rows_def loaded_parts_def)

lemma served_parts:
  assumes "serving pf pre s"
  shows
  "map_of pf (prefixed pre ''state/humans'') = Some (fmmap JsonBody (collect (prefixed pre ''state/humans'') json_of_human (humans s)))"
  "map_of pf (prefixed pre ''state/agents'') = Some (fmmap JsonBody (collect (prefixed pre ''state/agents'') (\<lambda>a. json_of_s3_persist_agent (persistAgent a)) (agents s)))"
  "map_of pf (prefixed pre ''state/orgs'') = Some (fmmap JsonBody (collect (prefixed pre ''state/orgs'') json_of_organization (orgs s)))"
  "map_of pf (prefixed pre ''state/archived_humans'') = Some (fmmap JsonBody (collect (prefixed pre ''state/archived_humans'') json_of_human (archivedHumans s)))"
  "map_of pf (prefixed pre ''state/archived_agents'') = Some (fmmap JsonBody (collect (prefixed pre ''state/archived_agents'') (\<lambda>a. json_of_s3_persist_agent (persistAgent a)) (archivedAgents s)))"
  "map_of pf (prefixed pre ''state/archived_orgs'') = Some (fmmap JsonBody (collect (prefixed pre ''state/archived_orgs'') json_of_organization (archivedOrgs s)))"
  "map_of pf (prefixed pre ''state/memberships'') = Some (fmmap JsonBody (collect (prefixed pre ''state/memberships'') json_of_membership (memberships s)))"
  "map_of pf (prefixed pre ''state/invites'') = Some (fmmap JsonBody (collect (prefixed pre ''state/invites'') (\<lambda>v. json_of_s3_persist_invite (persistInvite v)) (invites s)))"
  "map_of pf (prefixed pre ''state/org_access_keys'') = Some (fmmap JsonBody (collect (prefixed pre ''state/org_access_keys'') (\<lambda>k. json_of_s3_persist_org_access_key (persistOrgAccessKey k)) (orgAccessKeys s)))"
  "map_of pf (prefixed pre ''state/binds'') = Some (fmmap JsonBody (collect (prefixed pre ''state/binds'') (\<lambda>b. json_of_s3_persist_bind_token (persistBindToken b)) (binds s)))"
  "map_of pf (prefixed pre ''state/org_trusts'') = Some (fmmap JsonBody (collect (prefixed pre ''state/org_trusts'') json_of_trust_edge (orgTrusts s)))"
  "map_of pf (prefixed pre ''state/agent_trusts'') = Some (fmmap JsonBody (collect (prefixed pre ''state/agent_trusts'') json_of_trust_edge (agentTrusts s)))"
  "map_of pf (prefixed pre ''state/presence'') = Some (fmmap JsonBody (collect (prefixed pre ''state/presence'') (\<lambda>p. json_of_map (normalizeAgentPresence p)) (agentPresence s)))"
  "map_of pf (prefixed pre ''state/human_presence'') = Some (fmmap JsonBody (collect (prefixed pre ''state/human_presence'') (\<lambda>p. json_of_map (normalizeHumanPresence p)) (humanPresence s)))"
  "map_of pf (prefixed pre ''state/stats'') = Some (fmmap JsonBody (collect (prefixed pre ''state/stats'') json_of_org_stats (statsByOrg s)))"
  "map_of pf (prefixed pre ''state/stats_daily'') = Some (fmmap JsonBody (collect_rows (prefixed pre ''state/stats_daily'') day_rows (statsDaily s)))"
  "map_of pf (prefixed pre ''state/audit'') = Some (fmmap JsonBody (collect_rows (prefixed pre ''state/audit'') audit_rows (auditByOrg s)))"
  "map_of pf (prefixed pre ''state/personal_orgs'') = Some (fmmap JsonBody (collect (prefixed pre ''state/personal_orgs'') json_of_personal_org (personalOrgByHuman s)))"
  "map_of pf (prefixed pre ''state/queues'') = Some (fmmap JsonBody (collect_rows (prefixed pre ''state/queues'') queue_rows (queues s)))"
  "map_of pf (prefixed pre ''state/message_leases'') = Some (fmmap JsonBody (collect (prefixed pre ''state/message_leases'') (\<lambda>d. json_of_s3_persist_message_delivery (persistMessageDelivery d)) (messageDeliveries s)))"
  "map_of pf (prefixed pre ''state/peers'') = Some (fmmap JsonBody (collect (prefixed pre ''state/peers'') json_of_peer_instance (peerInstances s)))"
  "map_of pf (prefixed pre ''state/remote_org_trusts'') = Some (fmmap JsonBody (collect (prefixed pre ''state/remote_org_trusts'') json_of_remote_org_trust (remoteOrgTrusts s)))"
  "map_of pf (prefixed pre ''state/remote_agent_trusts'') = Some (fmmap JsonBody (collect (prefixed pre ''state/remote_agent_trusts'') json_of_remote_agent_trust (remoteAgentTrusts s)))"
  "map_of pf (prefixed pre ''state/peer_outbounds'') = Some (fmmap JsonBody (collect (prefixed pre ''state/peer_outbounds'') json_of_peer_outbound (peerOutbounds s)))"
  by (rule served_objs [OF assms] served_rows [OF assms],
      simp add: buildDesiredObjects_def, simp add: loaded_parts_def state_parts_def)+

lemma plain_parts: "plain_key pre \<Longrightarrow> list_all (\<lambda>part. plain_key (prefixed pre part)) state_parts"
  by (simp add: list_all_iff part_plain)

section \<open>The loaded store\<close>

text \<open>What is loaded before the audit log, but for the daily statistics.\<close>

definition loaded_first :: "memory_store \<Rightarrow> memory_store" where
  "loaded_first s = NewMemoryStore\<lparr>humans := humans s, agents := agents s, orgs := orgs s,
     archivedHumans := archivedHumans s, archivedAgents := archivedAgents s, archivedOrgs := archivedOrgs s,
     memberships := memberships s, invites := invites s, orgAccessKeys := orgAccessKeys s, binds := binds s,
     orgTrusts := orgTrusts s, agentTrusts := agentTrusts s,
     agentPresence := fmmap (read_presence normalizeAgentPresence) (agentPresence s),
     humanPresence := fmmap (read_presence normalizeHumanPresence) (humanPresence s),
     statsByOrg := statsByOrg s\<rparr>"

lemma load_before_audit:
  assumes serving: "serving pf pre s"
  shows "\<exists>x. load_steps (loadTypedObjects pf) (loaders_before_audit pre) NewMemoryStore =
    Inr ((loaded_first s)\<lparr>statsDaily := x\<rparr>)"
proof -
  have s: "plain_store s" "own_ids s" "plain_key pre" using serving by (simp_all add: serving_def loadable_def)
  note served = served_parts [OF serving]
  note plain = s(1) [unfolded plain_store_def] s(2) [unfolded own_ids_def]
  note parts = plain_parts [OF s(3), unfolded state_parts_def, simplified]
  obtain x where days: "loadTypedObjects pf (prefixed pre ''state/stats_daily'') (load_day (prefixed pre ''state/stats_daily''))
      (loaded_first s) = Inr ((loaded_first s)\<lparr>statsDaily := x\<rparr>)"
    using load_days [OF _ served(16), of "loaded_first s"] plain parts by auto
  have "load_steps (loadTypedObjects pf) (loaders_before_audit pre) NewMemoryStore =
    Inr ((loaded_first s)\<lparr>statsDaily := x\<rparr>)"
    unfolding loaders_before_audit_def Let_def load_steps_def
    using days plain parts unfolding loaded_first_def
    by (simp add: load_human_all [OF served(1)] load_agent_all [OF served(2)] load_org_all [OF served(3)]
        load_archived_human_all [OF served(4)] load_archived_agent_all [OF served(5)]
        load_archived_org_all [OF served(6)] load_membership_all [OF served(7)] load_invite_all [OF served(8)]
        load_access_key_all [OF served(9)] load_bind_all [OF served(10)] load_org_trust_all [OF served(11)]
        load_agent_trust_all [OF served(12)] load_agent_presence_all [OF _ served(13)]
        load_human_presence_all [OF _ served(14)] load_stats_all [OF served(15)] NewMemoryStore_def sum_bind_def)
  then show ?thesis ..
qed

lemma load_before_records:
  assumes serving: "serving pf pre s"
    and none: "personalOrgByHuman m = fmempty" "queues m = fmempty" "messageDeliveries m = fmempty"
  shows "\<exists>q. load_steps (loadTypedObjects pf) (loaders_before_records pre) m =
      Inr (m\<lparr>personalOrgByHuman := personalOrgByHuman s, queues := q, messageDeliveries := messageDeliveries s\<rparr>) \<and>
    (\<forall>u. set (queue_of (m\<lparr>queues := q\<rparr>) u) = set (queue_of s u))"
proof -
  have s: "plain_store s" "own_ids s" "plain_key pre" using serving by (simp_all add: serving_def loadable_def)
  note served = served_parts [OF serving]
  note plain = s(1) [unfolded plain_store_def] s(2) [unfolded own_ids_def]
  note parts = plain_parts [OF s(3), unfolded state_parts_def, simplified]
  let ?m = "m\<lparr>personalOrgByHuman := personalOrgByHuman s\<rparr>"
  obtain q where q: "loadTypedObjects pf (prefixed pre ''state/queues'') (load_queued (prefixed pre ''state/queues'')) ?m =
      Inr (?m\<lparr>queues := q\<rparr>)" "\<forall>u. set (queue_of (?m\<lparr>queues := q\<rparr>) u) = set (queue_of (?m\<lparr>queues := queues s\<rparr>) u)"
    using load_queues [OF _ served(19), of ?m] plain parts none by auto
  have "load_steps (loadTypedObjects pf) (loaders_before_records pre) m =
      Inr (m\<lparr>personalOrgByHuman := personalOrgByHuman s, queues := q, messageDeliveries := messageDeliveries s\<rparr>)"
    unfolding loaders_before_records_def Let_def load_steps_def
    using q(1) plain parts none
    by (simp add: load_personal_orgs_all [OF _ served(18)] load_lease_all [OF served(20)] sum_bind_def)
  moreover have "\<forall>u. set (queue_of (m\<lparr>queues := q\<rparr>) u) = set (queue_of s u)"
    using q(2) by (simp add: queue_of_def)
  ultimately show ?thesis by blast
qed

lemma load_after_records:
  assumes serving: "serving pf pre s"
    and none: "peerInstances m = fmempty" "remoteOrgTrusts m = fmempty" "remoteAgentTrusts m = fmempty" "peerOutbounds m = fmempty"
  shows "load_steps (loadTypedObjects pf) (loaders_after_records pre) m =
      Inr (m\<lparr>peerInstances := fmmap (\<lambda>v. v\<lparr>Peer_SharedSecret := []\<rparr>) (peerInstances s),
        remoteOrgTrusts := remoteOrgTrusts s, remoteAgentTrusts := remoteAgentTrusts s, peerOutbounds := peerOutbounds s\<rparr>)"
proof -
  have s: "plain_store s" "own_ids s" "plain_key pre" using serving by (simp_all add: serving_def loadable_def)
  note served = served_parts [OF serving]
  note plain = s(1) [unfolded plain_store_def] s(2) [unfolded own_ids_def]
  show ?thesis
    unfolding loaders_after_records_def Let_def load_steps_def
    using plain none
    by (simp add: load_peer_all [OF served(21)] load_remote_org_trust_all [OF served(22)]
        load_remote_agent_trust_all [OF served(23)] load_outbound_all [OF served(24)] sum_bind_def)
qed

section \<open>The records of the active messages\<close>

lemma active_ids_eq:
  assumes "\<And>u. set (queue_of m u) = set (queue_of s u)" and "messageDeliveries m = messageDeliveries s"
  shows "active_message_ids m = active_message_ids s"
proof -
  have "set (concat (sorted_values (queues m))) = (\<Union>u. set (queue_of m u))" for m
  proof -
    have "set (sorted_values (queues m)) = {q. \<exists>u. fmlookup (queues m) u = Some q}"
      by (auto simp: sorted_values_def sorted_list_of_fmap_def fmlookup_dom_iff image_iff)
        (metis fmdomI option.sel)
    then show ?thesis by (auto simp: queue_of_def split: option.splits) (metis option.inject option.distinct(1))+
  qed
  then have "set (concat (sorted_values (queues m))) = set (concat (sorted_values (queues s)))" using assms(1) by simp
  then show ?thesis unfolding active_message_ids_def assms(2) by simp
qed

lemma record_key:
  assumes "plain_key pre" and "plain_segment i"
  shows "messageRecordObjectKey pre i = prefixed pre ''state/messages'' @ CHR ''/'' # i @ ''.json''"
    and "plain_key (messageRecordObjectKey pre i)"
proof -
  show *: "messageRecordObjectKey pre i = prefixed pre ''state/messages'' @ CHR ''/'' # i @ ''.json''"
    using objectKey_of [OF assms(2), of "prefixed pre ''state/messages''"] by (simp add: messageRecordObjectKey_def)
  show "plain_key (messageRecordObjectKey pre i)"
    using plain_parts [OF assms(1)] assms(2) unfolding *
    by (intro plain_key_append json_name) (simp_all add: state_parts_def)
qed

lemma active_trimmed: "i \<in> set (active_message_ids s) \<Longrightarrow> TrimSpace i = i \<and> i \<noteq> []"
  by (auto simp: active_message_ids_def)

context reliable_store
begin

lemma fetch_ok:
  assumes "plain_key pre" and i: "plain_segment i" "Msg_MessageID (Rec_Message r) = i"
    and "fmlookup (contents w) (messageRecordObjectKey pre i) = Some (json_of_s3_persist_message_record (persistMessageRecord r))"
  shows "\<exists>w'. fetchMessageRecord c pre i w = (Inr (Some r), w') \<and> contents w' = contents w"
proof -
  obtain w' where "getObject c (messageRecordObjectKey pre i) w =
      (Inr (Some (JsonBody (json_of_s3_persist_message_record (persistMessageRecord r)))), w')" "contents w' = contents w"
    using get_plain [OF record_key(2) [OF assms(1) i(1)], of w] assms(4) by auto
  with i show ?thesis
    using json_name(4) [OF i(1)] plain_segment_chars [OF i(1)]
    by (auto simp: fetchMessageRecord_def body_json_def codec)
qed

lemma fetch_records_ok:
  assumes "plain_key pre"
    and "\<And>i. i \<in> set ids \<Longrightarrow> \<exists>r. fmlookup R i = Some r \<and> Msg_MessageID (Rec_Message r) = i \<and> plain_segment i \<and>
      fmlookup (contents w) (messageRecordObjectKey pre i) = Some (json_of_s3_persist_message_record (persistMessageRecord r))"
  shows "\<exists>x n w'. fetch_records c pre ids m w = (Inr (m\<lparr>messageRecords := n, messageByClientMsg := x\<rparr>), w') \<and>
    contents w' = contents w \<and>
    (\<forall>i. fmlookup n i = (if i \<in> set ids then fmlookup R i else fmlookup (messageRecords m) i))"
  using assms(2)
proof (induction ids arbitrary: m w)
  case Nil
  show ?case by (intro exI [of _ "messageByClientMsg m"] exI [of _ "messageRecords m"] exI [of _ w]) simp
next
  case (Cons i ids)
  from Cons.prems [of i] obtain r where r: "fmlookup R i = Some r" "Msg_MessageID (Rec_Message r) = i" "plain_segment i"
    "fmlookup (contents w) (messageRecordObjectKey pre i) = Some (json_of_s3_persist_message_record (persistMessageRecord r))"
    by auto
  from fetch_ok [OF assms(1) r(3,2,4)] obtain w1 where w1: "fetchMessageRecord c pre i w = (Inr (Some r), w1)"
    "contents w1 = contents w" by blast
  let ?m = "cacheMessageRecordLocked r m"
  from Cons.IH [of w1 ?m] Cons.prems w1(2) obtain x n w' where
    n: "fetch_records c pre ids ?m w1 = (Inr (?m\<lparr>messageRecords := n, messageByClientMsg := x\<rparr>), w')"
      "contents w' = contents w1"
      "\<forall>j. fmlookup n j = (if j \<in> set ids then fmlookup R j else fmlookup (messageRecords ?m) j)" by auto
  have cache: "messageRecords ?m = fmupd i r (messageRecords m)"
    "?m\<lparr>messageRecords := n, messageByClientMsg := x\<rparr> = m\<lparr>messageRecords := n, messageByClientMsg := x\<rparr>"
    using json_name(4) [OF r(3)] plain_segment_chars [OF r(3)]
    by (auto simp: cacheMessageRecordLocked_def Let_def r(2) split: option.split)
  have "fetch_records c pre (i # ids) m w = (Inr (m\<lparr>messageRecords := n, messageByClientMsg := x\<rparr>), w')"
    using n(1) w1(1) cache(2) by simp
  moreover have "\<forall>j. fmlookup n j = (if j \<in> set (i # ids) then fmlookup R j else fmlookup (messageRecords m) j)"
    using n(3) r(1) by (auto simp: cache(1))
  ultimately show ?case using n(2) w1(2) by (intro exI [of _ x] exI [of _ n] exI [of _ w']) simp
qed

end

section \<open>What a restart keeps\<close>

text \<open>
  The agents with their metadata in normal form, the queues up to their order, the records of the
  messages that are queued or leased, the peers without their secrets, and the rest as it was.
\<close>

definition reloaded :: "memory_store \<Rightarrow> memory_store \<Rightarrow> bool" where
  "reloaded s m \<longleftrightarrow>
     humans m = humans s \<and> orgs m = orgs s \<and> archivedHumans m = archivedHumans s \<and>
     archivedAgents m = archivedAgents s \<and> archivedOrgs m = archivedOrgs s \<and>
     memberships m = memberships s \<and> invites m = invites s \<and> orgAccessKeys m = orgAccessKeys s \<and>
     binds m = binds s \<and> orgTrusts m = orgTrusts s \<and> agentTrusts m = agentTrusts s \<and>
     statsByOrg m = statsByOrg s \<and> personalOrgByHuman m = personalOrgByHuman s \<and>
     messageDeliveries m = messageDeliveries s \<and> remoteOrgTrusts m = remoteOrgTrusts s \<and>
     remoteAgentTrusts m = remoteAgentTrusts s \<and> peerOutbounds m = peerOutbounds s \<and>
     agents m = fmmap norm_agent (agents s) \<and>
     peerInstances m = fmmap (\<lambda>v. v\<lparr>Peer_SharedSecret := []\<rparr>) (peerInstances s) \<and>
     (\<forall>u. set (queue_of m u) = set (queue_of s u) \<and>
       sorted_wrt (\<lambda>a b. \<not> queue_order b a) (queue_of m u)) \<and>
     (\<forall>i. fmlookup (messageRecords m) i =
       (if i \<in> set (active_message_ids s) then fmlookup (messageRecords s) i else None))"

lemma unindexed_field:
  "humans (unindexed m) = humans m" "orgs (unindexed m) = orgs m"
  "archivedHumans (unindexed m) = archivedHumans m" "archivedAgents (unindexed m) = archivedAgents m"
  "archivedOrgs (unindexed m) = archivedOrgs m" "memberships (unindexed m) = memberships m"
  "invites (unindexed m) = invites m" "orgAccessKeys (unindexed m) = orgAccessKeys m"
  "binds (unindexed m) = binds m" "orgTrusts (unindexed m) = orgTrusts m"
  "agentTrusts (unindexed m) = agentTrusts m" "statsByOrg (unindexed m) = statsByOrg m"
  "personalOrgByHuman (unindexed m) = personalOrgByHuman m" "messageDeliveries (unindexed m) = messageDeliveries m"
  "remoteOrgTrusts (unindexed m) = remoteOrgTrusts m" "remoteAgentTrusts (unindexed m) = remoteAgentTrusts m"
  "peerOutbounds (unindexed m) = peerOutbounds m" "peerInstances (unindexed m) = peerInstances m"
  "messageRecords (unindexed m) = messageRecords m"
  by (simp_all add: unindexed_def reset_indexes_def)

text \<open>The last steps of the loading: sorting, the indexes and the metrics.\<close>

definition finish_load :: "memory_store \<Rightarrow> memory_store" where
  "finish_load m = recomputeQueueMetricsLocked (rebuildStateIndexesLocked
     (m\<lparr>queues := fmmap (sort_by queue_order) (queues m), auditByOrg := fmmap (sort_by audit_order) (auditByOrg m)\<rparr>))"

lemma finish_load_reloaded:
  assumes m: "m = (loaded_first s)\<lparr>statsDaily := x, auditByOrg := y, personalOrgByHuman := personalOrgByHuman s,
      queues := q, messageDeliveries := messageDeliveries s, messageRecords := n, messageByClientMsg := z,
      peerInstances := fmmap (\<lambda>v. v\<lparr>Peer_SharedSecret := []\<rparr>) (peerInstances s),
      remoteOrgTrusts := remoteOrgTrusts s, remoteAgentTrusts := remoteAgentTrusts s, peerOutbounds := peerOutbounds s\<rparr>"
    and q: "\<And>u. set (queue_of m u) = set (queue_of s u)"
    and n: "\<And>i. fmlookup n i = (if i \<in> set (active_message_ids s) then fmlookup (messageRecords s) i else None)"
  shows "reloaded s (finish_load m)"
proof -
  let ?m = "m\<lparr>queues := fmmap (sort_by queue_order) (queues m), auditByOrg := fmmap (sort_by audit_order) (auditByOrg m)\<rparr>"
  let ?r = "rebuildStateIndexesLocked ?m"
  have metrics: "unindexed ?r = unindexed ?m" by (rule rebuild_frames)
  note fields = unindexed_field [of ?r, unfolded metrics unindexed_field, symmetric]
  have queue: "queue_of ?r u = sort_by queue_order (queue_of m u)" for u
    unfolding rebuild_frames(3) by (simp add: queue_of_def sort_by_def split: option.split)
  have sorted: "sorted_wrt (\<lambda>a b. \<not> queue_order b a) (sort_by queue_order l)" for l
    unfolding queue_order_def by (rule comparator.sorted [OF lex_less_comparator])
  have fin: "finish_load m = ?r\<lparr>queueMetrics := computeQueueMetricsLocked ?r\<rparr>"
    by (simp add: finish_load_def recomputeQueueMetricsLocked_def)
  have q': "queue_of (finish_load m) u = sort_by queue_order (queue_of m u)" for u
    using queue [of u] by (simp add: fin queue_of_def)
  show ?thesis
    unfolding reloaded_def q'
    using q n sorted by (simp add: fin fields rebuild_frames(2)) (simp add: m loaded_first_def NewMemoryStore_def)
qed

context reliable_store
begin

lemma load_memory_ok:
  assumes serving: "serving pf pre s"
    and records: "\<And>i r. fmlookup (messageRecords s) i = Some r \<Longrightarrow>
      fmlookup (contents w) (messageRecordObjectKey pre i) = Some (json_of_s3_persist_message_record (persistMessageRecord r))"
  shows "\<exists>m w'. load_memory c pre pf w = (Inr m, w') \<and> contents w' = contents w \<and> reloaded s m"
proof -
  have s: "plain_store s" "own_ids s" "plain_key pre" "audit_plain s"
    "\<And>i. i \<in> set (active_message_ids s) \<Longrightarrow> fmlookup (messageRecords s) i \<noteq> None"
    using serving by (auto simp: serving_def loadable_def list_all_iff)
  note parts = plain_parts [OF s(3), unfolded state_parts_def, simplified]
  note plain = s(1) [unfolded plain_store_def] s(2) [unfolded own_ids_def]
  let ?load = "loadTypedObjects pf"
  obtain x where x: "load_steps ?load (loaders_before_audit pre) NewMemoryStore = Inr ((loaded_first s)\<lparr>statsDaily := x\<rparr>)"
    using load_before_audit [OF serving] by blast
  let ?m1 = "(loaded_first s)\<lparr>statsDaily := x\<rparr>"
  obtain y where y: "?load (prefixed pre ''state/audit'') (load_audit (prefixed pre ''state/audit'')) ?m1 = Inr (?m1\<lparr>auditByOrg := y\<rparr>)"
    using load_audits [OF _ served_parts(17) [OF serving], of ?m1] plain parts s(4) by (auto simp: audit_plain_def)
  let ?m2 = "?m1\<lparr>auditByOrg := y\<rparr>"
  have none: "personalOrgByHuman ?m2 = fmempty" "queues ?m2 = fmempty" "messageDeliveries ?m2 = fmempty"
    by (simp_all add: loaded_first_def NewMemoryStore_def)
  obtain q where q: "load_steps ?load (loaders_before_records pre) ?m2 =
      Inr (?m2\<lparr>personalOrgByHuman := personalOrgByHuman s, queues := q, messageDeliveries := messageDeliveries s\<rparr>)"
    "\<forall>u. set (queue_of (?m2\<lparr>queues := q\<rparr>) u) = set (queue_of s u)"
    using load_before_records [OF serving none] by blast
  let ?m3 = "?m2\<lparr>personalOrgByHuman := personalOrgByHuman s, queues := q, messageDeliveries := messageDeliveries s\<rparr>"
  have active: "active_message_ids ?m3 = active_message_ids s"
    using q(2) by (intro active_ids_eq) (simp_all add: queue_of_def)
  have recs: "\<exists>r. fmlookup (messageRecords s) i = Some r \<and> Msg_MessageID (Rec_Message r) = i \<and> plain_segment i \<and>
      fmlookup (contents w) (messageRecordObjectKey pre i) = Some (json_of_s3_persist_message_record (persistMessageRecord r))"
    if "i \<in> set (active_message_ids s)" for i
    using s(5) [OF that] records plain by (auto simp: fmpred_iff dest: plain_idsD)
  obtain z n w' where n: "loadActiveMessageRecords c pre ?m3 w = (Inr (?m3\<lparr>messageRecords := n, messageByClientMsg := z\<rparr>), w')"
    "contents w' = contents w"
    "\<forall>i. fmlookup n i = (if i \<in> set (active_message_ids s) then fmlookup (messageRecords s) i else fmlookup (messageRecords ?m3) i)"
    using fetch_records_ok [where m = ?m3, OF s(3) recs]
    unfolding loadActiveMessageRecords_def active by blast
  let ?m4 = "?m3\<lparr>messageRecords := n, messageByClientMsg := z\<rparr>"
  have none4: "peerInstances ?m4 = fmempty" "remoteOrgTrusts ?m4 = fmempty" "remoteAgentTrusts ?m4 = fmempty"
    "peerOutbounds ?m4 = fmempty" "messageRecords ?m3 = fmempty" by (simp_all add: loaded_first_def NewMemoryStore_def)
  let ?m5 = "?m4\<lparr>peerInstances := fmmap (\<lambda>v. v\<lparr>Peer_SharedSecret := []\<rparr>) (peerInstances s),
        remoteOrgTrusts := remoteOrgTrusts s, remoteAgentTrusts := remoteAgentTrusts s, peerOutbounds := peerOutbounds s\<rparr>"
  have "load_memory c pre pf w = (Inr (finish_load ?m5), w')"
    unfolding load_memory_def Let_def x y sum_bind_def sum.case q(1) n(1) prod.case
      load_after_records [OF serving none4(1-4)] finish_load_def ..
  moreover have "reloaded s (finish_load ?m5)"
    by (rule finish_load_reloaded [OF refl]) (use q(2) n(3) none4(5) in \<open>simp_all add: queue_of_def\<close>)
  ultimately show ?thesis using n(2) by blast
qed

end

end
