(* ===== verification/Resume.thy ===== *)
theory Resume
  imports Restart
begin

text \<open>The properties of a restart over an S3 service, with an example.\<close>

section \<open>What is read at the start\<close>

text \<open>Every object below a prefix that is loaded at a start is one the state store knows of.\<close>

definition owned :: "('w \<Rightarrow> json gomap) \<Rightarrow> 'w s3_state \<Rightarrow> 'w \<Rightarrow> bool" where
  "owned contents st w \<longleftrightarrow> fmpred (\<lambda>k _. list_ex (\<lambda>part. prefix (prefixed (st_prefix st) part @ ''/'') k) loaded_parts \<longrightarrow>
     fmlookup (st_persistedObjects st) k \<noteq> None) (contents w)"

lemma loaded_parts_sub: "set loaded_parts \<subseteq> set state_parts"
  by (auto simp: loaded_parts_def)

lemma prefix_trim: "plain_key p \<Longrightarrow> TrimSpace (p @ ''/'') = p @ ''/''"
  unfolding TrimSpace_def
  using plain_key_chars path_char_plain(2) by (intro trim_by_none) (auto simp: list_all_iff path_char_def)

lemma desired_part:
  assumes pre: "plain_key pre" and s: "plain_store s" and pm: "(p, m) \<in> set (buildDesiredObjects pre s)"
  shows "keys_below (p @ ''/'') (flattenS3Objects (buildDesiredObjects pre s)) = m"
proof (rule fmap_ext)
  fix k
  note apart = desired_apart(1) [OF pre s]
  show "fmlookup (keys_below (p @ ''/'') (flattenS3Objects (buildDesiredObjects pre s))) k = fmlookup m k"
  proof (cases "prefix (p @ ''/'') k")
    case True
    with flatten_part [OF apart pm] show ?thesis by (simp add: keys_below_def)
  next
    case False
    with apart pm have "fmlookup m k = None" unfolding apart_def by blast
    with False show ?thesis by (simp add: keys_below_def)
  qed
qed

lemma persistAll_keeps: "persistAll st w = (e, st', w') \<Longrightarrow> st_prefix st' = st_prefix st \<and> st_conn st' = st_conn st"
  by (auto simp: persistAll_def Let_def split: prod.splits option.splits)

lemma persist_after_keeps:
  assumes "persist_after r st w = (v, st', w')"
  shows "st_prefix st' = st_prefix st \<and> st_conn st' = st_conn st"
proof -
  obtain e st1 w1 where p: "persistAll (st\<lparr>st_mem := snd r\<rparr>) w = (e, st1, w1)" by (metis prod_cases3)
  with assms persistAll_keeps [OF p] show ?thesis
    by (auto simp: persist_after_def Let_def split: sum.splits option.splits)
qed

context reliable_store
begin

lemma open_ok:
  assumes pre: "plain_key pre" and s: "loadable s" and plain: "plain_keys (contents w)"
    and all: "\<And>k b. fmlookup (flattenS3Objects (buildDesiredObjects pre s)) k = Some b \<Longrightarrow> fmlookup (contents w) k = Some b"
    and only: "\<And>k part. part \<in> set loaded_parts \<Longrightarrow> prefix (prefixed pre part @ ''/'') k \<Longrightarrow>
      fmlookup (contents w) k \<noteq> None \<Longrightarrow> fmlookup (flattenS3Objects (buildDesiredObjects pre s)) k \<noteq> None"
  shows "\<exists>st w'. open_state c pre interval w = Some (Inr st, w') \<and> contents w' = contents w \<and> reloaded s (st_mem st)"
proof -
  let ?desired = "flattenS3Objects (buildDesiredObjects pre s)" and ?ps = "map (prefixed pre) loaded_parts"
  have store: "plain_store s" using s by (simp add: loadable_def)
  have trim: "TrimSpace (p @ ''/'') = p @ ''/''" if "p \<in> set ?ps" for p
    using that part_plain [OF pre] loaded_parts_sub by (auto intro: prefix_trim)
  obtain pf w1 where pf: "prefetchPrefixes c ?ps w = Some (Inr pf, w1)" using prefetch_ok [OF plain trim] by blast
  note read = prefetch_read [OF pf trim plain]
  have w1: "contents w1 = contents w" using read(2) [of "prefixed pre ''state/humans''"] by (simp add: loaded_parts_def state_parts_def)
  have served: "served pf pre s"
    unfolding served_def list_all_iff
  proof (intro ballI case_prodI2)
    fix x p m assume x: "x \<in> set (buildDesiredObjects pre s)" "x = (p, m)"
    have "map_of pf p = Some (fmmap JsonBody m)" if msg: "p \<noteq> prefixed pre ''state/messages''"
    proof -
    have pm: "(p, m) \<in> set (buildDesiredObjects pre s)" using x by simp
    have "map fst (buildDesiredObjects pre s) = map (prefixed pre) state_parts"
      by (simp add: buildDesiredObjects_def state_parts_def objs_def rows_def)
    with pm have "p \<in> set (map (prefixed pre) state_parts)" by (metis fst_conv image_eqI set_map)
    with msg obtain part where part: "p = prefixed pre part" "part \<in> set loaded_parts" by (auto simp: loaded_parts_def)
    have "keys_below (p @ ''/'') (contents w) = keys_below (p @ ''/'') ?desired"
    proof (rule fmap_ext)
      fix k
      show "fmlookup (keys_below (p @ ''/'') (contents w)) k = fmlookup (keys_below (p @ ''/'') ?desired) k"
        using all [of k] only [OF part(2), of k] part(1)
        by (cases "fmlookup ?desired k"; cases "fmlookup (contents w) k") (auto simp: keys_below_def)
    qed
    with desired_part [OF pre store pm] read(1) [of p] part
    show "map_of pf p = Some (fmmap JsonBody m)" by simp
    qed
    then show "p = prefixed pre ''state/messages'' \<or> map_of pf p = Some (fmmap JsonBody m)" by blast
  qed
  then have serving: "serving pf pre s" using pre s by (simp add: serving_def)
  have records: "fmlookup (contents w1) (messageRecordObjectKey pre i) = Some (json_of_s3_persist_message_record (persistMessageRecord r))"
    if r: "fmlookup (messageRecords s) i = Some r" for i r
  proof -
    have ids: "plain_ids (messageRecords s)" using store by (simp add: plain_store_def)
    let ?p = "prefixed pre ''state/messages''"
    let ?f = "\<lambda>r. json_of_s3_persist_message_record (persistMessageRecord r)"
    have pm: "(?p, collect ?p ?f (messageRecords s)) \<in> set (buildDesiredObjects pre s)"
      by (simp add: buildDesiredObjects_def objs_def)
    have key: "messageRecordObjectKey pre i = ?p @ CHR ''/'' # i @ ''.json''"
      by (rule record_key(1) [OF pre plain_idsD [OF ids r]])
    have "fmlookup (collect ?p ?f (messageRecords s)) (messageRecordObjectKey pre i) = Some (?f r)"
      using r by (auto simp: collect_lookup [OF ids] key)
    then have "fmlookup ?desired (messageRecordObjectKey pre i) = Some (?f r)"
      using flatten_part [OF desired_apart(1) [OF pre store] pm, of "messageRecordObjectKey pre i"] by (simp add: key)
    with all w1 show ?thesis by simp
  qed
  obtain m w' where "load_memory c pre pf w1 = (Inr m, w')" "contents w' = contents w1" "reloaded s m"
    using load_memory_ok [OF serving records] by blast
  with pf w1 show ?thesis by (simp add: open_state_def loadFromS3_def)
qed

lemma put_keys_ok: "list_all plain_key ks \<Longrightarrow> fst (put_keys c desired ks w) = None"
proof (induction ks arbitrary: w)
  case (Cons k ks)
  then have "fst (putObject c k (the (fmlookup desired k)) w) = None" by (simp add: putObject_def put_ok)
  with Cons show ?case by (cases "putObject c k (the (fmlookup desired k)) w") simp
qed simp

lemma delete_keys_ok: "list_all plain_key ks \<Longrightarrow> fst (delete_keys c ks w) = None"
proof (induction ks arbitrary: w)
  case (Cons k ks)
  then have "fst (deleteObject c k w) = None" by (simp add: deleteObject_def del_ok)
  with Cons show ?case by (cases "deleteObject c k w") simp
qed simp

text \<open>An operation over a service that does not fail is acknowledged.\<close>

lemma persist_after_ok:
  assumes "st_conn st = c" and "plain_state (st\<lparr>st_mem := snd r\<rparr>)" and "fst r = Inr v"
  shows "\<exists>st' w'. persist_after r st w = (Inr v, st', w')"
proof -
  let ?st = "st\<lparr>st_mem := snd r\<rparr>"
  let ?d = "desired_objects ?st" and ?p = "st_persistedObjects st"
  have plain: "plain_keys ?d" "plain_keys ?p" using assms(2) by (simp_all add: plain_state_def)
  have plain: "list_all plain_key (write_keys ?d ?p)" "list_all plain_key (stale_keys ?d ?p)"
    using plain unfolding list_all_iff wanted_keys set_stale_keys plain_keys_def by auto
  obtain w1 where p: "put_keys c ?d (write_keys ?d ?p) w = (None, w1)"
    using put_keys_ok [OF plain(1), of ?d w] by (metis prod.collapse)
  obtain w2 where d: "delete_keys c (stale_keys ?d ?p) w1 = (None, w2)"
    using delete_keys_ok [OF plain(2), of w1] by (metis prod.collapse)
  have "persistAll ?st w = (None, ?st\<lparr>st_persistedObjects := ?d\<rparr>, w2)"
    using p d assms(1) by (simp add: persistAll_def Let_def)
  then show ?thesis using assms(3) by (simp add: persist_after_def)
qed

lemma restart_ok:
  assumes st: "st_conn st = c" "plain_key (st_prefix st)" and s: "loadable (snd r)"
    and known: "tracked contents st w" "owned contents st w" "plain_keys (contents w)"
    and run: "persist_after r st w = (Inr v, st', w')"
  shows "\<exists>st2 w2. open_state c (st_prefix st) interval w' = Some (Inr st2, w2) \<and>
    contents w2 = contents w' \<and> reloaded (snd r) (st_mem st2)"
proof -
  let ?d = "flattenS3Objects (buildDesiredObjects (st_prefix st) (snd r))"
  have "plain_keys (st_persistedObjects st)"
    using known(3) trackedD [OF known(1)] by (auto simp: plain_keys_def)
  moreover have d: "plain_keys ?d" using desired_apart(2) [OF st(2)] s by (simp add: loadable_def)
  ultimately have plain: "plain_state (st\<lparr>st_mem := snd r\<rparr>)" by (simp add: plain_state_def desired_objects_def)
  note done_at = persist_after_done [OF st(1) known(1) plain run]
  have pre: "st_prefix st' = st_prefix st"
    using persist_after_keeps [OF run] by simp
  have desired: "desired_objects st' = ?d" using done_at pre by (simp add: desired_objects_def)
  have after: "fmlookup (contents w') k = (if fmlookup ?d k \<noteq> None then fmlookup ?d k
       else if fmlookup (st_persistedObjects st) k \<noteq> None then None else fmlookup (contents w) k)" for k
    using done_at desired by metis
  show ?thesis
  proof (rule open_ok [OF st(2) s])
    show "plain_keys (contents w')" using known(3) d by (auto simp: plain_keys_def after split: if_splits)
    show "fmlookup ?d k = Some b \<Longrightarrow> fmlookup (contents w') k = Some b" for k b by (simp add: after)
    fix k part
    assume part: "part \<in> set loaded_parts" "prefix (prefixed (st_prefix st) part @ ''/'') k"
      and k: "fmlookup (contents w') k \<noteq> None"
    show "fmlookup ?d k \<noteq> None"
    proof
      assume none: "fmlookup ?d k = None"
      with k after [of k] have "fmlookup (st_persistedObjects st) k = None" "fmlookup (contents w) k \<noteq> None"
        by (auto split: if_splits)
      with known(2) part show False by (auto simp: owned_def fmpred_iff list_ex_iff)
    qed
  qed
qed

end


section \<open>Secrets\<close>

definition no_secrets :: "memory_store \<Rightarrow> bool" where
  "no_secrets m \<longleftrightarrow> fmpred (\<lambda>_ p. Peer_SharedSecret p = []) (peerInstances m)"

definition keeps_secretless :: "loader \<Rightarrow> bool" where
  "keeps_secretless fn \<longleftrightarrow> (\<forall>k b m m'. no_secrets m \<longrightarrow> fn k b m = Some m' \<longrightarrow> no_secrets m')"

lemma json_has_no_secret: "peer_instance_of_json j = Some p \<Longrightarrow> Peer_SharedSecret p = []"
  by (auto simp: peer_instance_of_json_def Option.bind_eq_Some_conv)

lemma load_value_secretless:
  "(\<And>v m. no_secrets (put v m) = no_secrets m) \<Longrightarrow> keeps_secretless (load_value dec ident put)"
  by (auto simp: keeps_secretless_def load_value_def split: option.splits)

lemma load_row_secretless:
  "(\<And>i v m. no_secrets (put i v m) = no_secrets m) \<Longrightarrow> keeps_secretless (load_row p ok dec put)"
  by (auto simp: keeps_secretless_def load_row_def Let_def split: option.splits if_splits)

lemma load_presence_secretless:
  "(\<And>i v m. no_secrets (put i v m) = no_secrets m) \<Longrightarrow> keeps_secretless (load_presence p f put)"
  by (auto simp: keeps_secretless_def load_presence_def split: option.splits if_splits)

lemma load_peer_secretless: "keeps_secretless load_peer"
  by (auto simp: keeps_secretless_def load_peer_def load_value_def no_secrets_def Option.bind_eq_Some_conv
      dest: json_has_no_secret split: option.splits if_splits)

lemma load_personal_org_secretless: "keeps_secretless (load_personal_org p)"
  by (auto simp: keeps_secretless_def load_personal_org_def no_secrets_def split: option.splits if_splits)

lemmas secretless_loaders = load_value_secretless load_row_secretless load_presence_secretless
  load_peer_secretless load_personal_org_secretless

lemma loaders_secretless:
  "list_all (\<lambda>(p, fn). keeps_secretless fn)
     (loaders_before_audit pre @ loaders_before_records pre @ loaders_after_records pre)"
  "keeps_secretless (load_audit p)"
  unfolding loaders_before_audit_def loaders_before_records_def loaders_after_records_def Let_def
    load_human_def load_agent_def load_org_def load_archived_human_def load_archived_agent_def
    load_archived_org_def load_membership_def load_invite_def load_access_key_def load_bind_def
    load_org_trust_def load_agent_trust_def load_stats_def load_lease_def load_remote_org_trust_def
    load_remote_agent_trust_def load_outbound_def load_agent_presence_def load_human_presence_def
    load_day_def load_queued_def load_audit_def
  by (simp_all add: secretless_loaders no_secrets_def)

lemma load_keys_secretless:
  "keeps_secretless fn \<Longrightarrow> no_secrets m \<Longrightarrow> load_keys fn kbs m = Inr m' \<Longrightarrow> no_secrets m'"
proof (induction kbs arbitrary: m)
  case (Cons kb kbs)
  obtain k b where kb: "kb = (k, b)" by force
  with Cons.prems obtain n where "fn k b m = Some n" "load_keys fn kbs n = Inr m'" by (auto split: option.splits)
  with Cons show ?case unfolding keeps_secretless_def by blast
qed simp

lemma load_typed_secretless:
  "keeps_secretless fn \<Longrightarrow> no_secrets m \<Longrightarrow> loadTypedObjects pf p fn m = Inr m' \<Longrightarrow> no_secrets m'"
  by (auto simp: loadTypedObjects_def split: option.splits dest: load_keys_secretless)

lemma load_steps_secretless:
  assumes "list_all (\<lambda>(p, fn). keeps_secretless fn) steps" and "no_secrets m"
    and "load_steps (loadTypedObjects pf) steps m = Inr m'"
  shows "no_secrets m'"
proof -
  have "\<forall>m'. fold (\<lambda>(p, fn) r. sum_bind r (loadTypedObjects pf p fn)) steps r = Inr m' \<longrightarrow> no_secrets m'"
    if "\<forall>m. r = Inr m \<longrightarrow> no_secrets m" for r
    using that assms(1)
  proof (induction steps arbitrary: r)
    case (Cons pfn steps)
    obtain p fn where pfn: "pfn = (p, fn)" by force
    have "\<forall>m. sum_bind r (loadTypedObjects pf p fn) = Inr m \<longrightarrow> no_secrets m"
      using Cons.prems by (auto simp: pfn sum_bind_def split: sum.splits dest: load_typed_secretless)
    with Cons show ?case by (simp add: pfn)
  qed simp
  from this [of "Inr m"] assms(2,3) show ?thesis by (simp add: load_steps_def)
qed

lemma fetch_records_peers: "fetch_records c pre ids m w = (Inr m', w') \<Longrightarrow> peerInstances m' = peerInstances m"
proof (induction ids arbitrary: m w)
  case (Cons i ids)
  have "peerInstances (cacheMessageRecordLocked r m) = peerInstances m" for r
    by (simp add: cacheMessageRecordLocked_def Let_def split: option.split)
  with Cons show ?case by (auto split: prod.splits sum.splits option.splits)
qed simp

lemma finish_load_peers: "peerInstances (finish_load m) = peerInstances m"
proof -
  let ?m = "m\<lparr>queues := fmmap (sort_by queue_order) (queues m), auditByOrg := fmmap (sort_by audit_order) (auditByOrg m)\<rparr>"
  have "unindexed (rebuildStateIndexesLocked ?m) = unindexed ?m" by (rule rebuild_frames)
  then have "peerInstances (rebuildStateIndexesLocked ?m) = peerInstances ?m" by (metis unindexed_field(18))
  then show ?thesis by (simp add: finish_load_def recomputeQueueMetricsLocked_def)
qed

lemma load_memory_steps:
  assumes "load_memory c pre pf w = (Inr m, w')"
  obtains m1 m2 m3 m4 w3 where
    "load_steps (loadTypedObjects pf) (loaders_before_audit pre) NewMemoryStore = Inr m1"
    "load_steps (loadTypedObjects pf) (loaders_before_records pre)
       (case loadTypedObjects pf (prefixed pre ''state/audit'') (load_audit (prefixed pre ''state/audit'')) m1 of
          Inl _ \<Rightarrow> m1\<lparr>auditByOrg := fmempty\<rparr> | Inr m' \<Rightarrow> m') = Inr m2"
    "loadActiveMessageRecords c pre m2 w = (Inr m3, w3)"
    "load_steps (loadTypedObjects pf) (loaders_after_records pre) m3 = Inr m4" "m = finish_load m4"
proof -
  let ?load = "loadTypedObjects pf" and ?audit = "prefixed pre ''state/audit''"
  note run = assms [unfolded load_memory_def Let_def]
  obtain m1 where m1: "load_steps ?load (loaders_before_audit pre) NewMemoryStore = Inr m1"
    using run by (cases "load_steps ?load (loaders_before_audit pre) NewMemoryStore") (simp_all add: sum_bind_def)
  let ?m = "case ?load ?audit (load_audit ?audit) m1 of Inl _ \<Rightarrow> m1\<lparr>auditByOrg := fmempty\<rparr> | Inr m' \<Rightarrow> m'"
  obtain m2 where m2: "load_steps ?load (loaders_before_records pre) ?m = Inr m2"
    using run m1 by (cases "load_steps ?load (loaders_before_records pre) ?m") (simp_all add: sum_bind_def)
  obtain l w3 where l: "loadActiveMessageRecords c pre m2 w = (l, w3)" by force
  obtain m3 where m3: "l = Inr m3" using run m1 m2 l by (cases l) (simp_all add: sum_bind_def)
  obtain m4 where m4: "load_steps ?load (loaders_after_records pre) m3 = Inr m4"
    using run m1 m2 l m3 by (cases "load_steps ?load (loaders_after_records pre) m3") (simp_all add: sum_bind_def)
  show ?thesis
    using run m1 m2 l m3 m4 by (intro that [OF m1 m2 _ m4]) (simp_all add: sum_bind_def finish_load_def)
qed

text \<open>
  C29: the secrets shared with peers do not survive a restart.  Whatever the service holds, a store
  that has been loaded from it has an empty secret for every peer: signatures between it and the
  peer are from then on made and checked with the empty key.
\<close>

theorem restart_loses_secrets:
  assumes "open_state c pre interval w = Some (Inr st, w')"
  shows "no_secrets (st_mem st)"
proof -
  obtain pf w1 m w2 where m: "load_memory c pre pf w1 = (Inr m, w2)" "st_mem st = m"
  proof -
    obtain r where r: "prefetchPrefixes c (map (prefixed pre) loaded_parts) w = Some r"
      using assms by (cases "prefetchPrefixes c (map (prefixed pre) loaded_parts) w") (simp_all add: open_state_def loadFromS3_def)
    obtain e w1 where r': "r = (e, w1)" by force
    obtain pf where pf: "e = Inr pf" using assms r r' by (cases e) (simp_all add: open_state_def loadFromS3_def)
    obtain l w2 where l: "load_memory c pre pf w1 = (l, w2)" by force
    obtain m where "l = Inr m" using assms r r' pf l by (cases l) (simp_all add: open_state_def loadFromS3_def)
    with assms r r' pf l show ?thesis by (intro that) (auto simp: open_state_def loadFromS3_def)
  qed
  let ?load = "loadTypedObjects pf" and ?audit = "prefixed pre ''state/audit''"
  have steps: "list_all (\<lambda>(p, fn). keeps_secretless fn) (loaders_before_audit pre)"
    "list_all (\<lambda>(p, fn). keeps_secretless fn) (loaders_before_records pre)"
    "list_all (\<lambda>(p, fn). keeps_secretless fn) (loaders_after_records pre)"
    using loaders_secretless(1) [of pre] by simp_all
  obtain m1 m2 m3 m4 w3 where run:
    "load_steps ?load (loaders_before_audit pre) NewMemoryStore = Inr m1"
    "load_steps ?load (loaders_before_records pre)
       (case ?load ?audit (load_audit ?audit) m1 of Inl _ \<Rightarrow> m1\<lparr>auditByOrg := fmempty\<rparr> | Inr m' \<Rightarrow> m') = Inr m2"
    "loadActiveMessageRecords c pre m2 w1 = (Inr m3, w3)"
    "load_steps ?load (loaders_after_records pre) m3 = Inr m4" "m = finish_load m4"
    by (rule load_memory_steps [OF m(1)])
  have "no_secrets NewMemoryStore" by (simp add: no_secrets_def NewMemoryStore_def)
  from load_steps_secretless [OF steps(1) this run(1)] have m1: "no_secrets m1" .
  have "no_secrets (case ?load ?audit (load_audit ?audit) m1 of Inl _ \<Rightarrow> m1\<lparr>auditByOrg := fmempty\<rparr> | Inr m' \<Rightarrow> m')"
    using m1 load_typed_secretless [OF loaders_secretless(2) m1] by (auto simp: no_secrets_def split: sum.split)
  from load_steps_secretless [OF steps(2) this run(2)] have "no_secrets m2" .
  with fetch_records_peers [OF run(3) [unfolded loadActiveMessageRecords_def]] have "no_secrets m3" by (simp add: no_secrets_def)
  from load_steps_secretless [OF steps(3) this run(4)] have "no_secrets m4" .
  then show ?thesis using run(5) m(2) by (simp add: no_secrets_def finish_load_peers)
qed

section \<open>An example\<close>

text \<open>A new state store over an empty bucket to which a peer is added.\<close>

definition fresh_state :: "json gomap s3_state" where
  "fresh_state = \<lparr>st_mem = NewMemoryStore, st_conn = bucket_conn, st_prefix = ''hub'',
     st_presencePersistInterval = 30 * Second, st_persistedObjects = fmempty, st_presenceLastPersist = fmempty\<rparr>"

definition demo_peer :: "(store_error + peer_instance) \<times> memory_store" where
  "demo_peer = CreatePeerInstance ''https://b.example'' ''https://b.example'' ''s3cret'' ''h1'' ''p1'' 5 NewMemoryStore"

lemma demo_peer_eq:
  "\<exists>p. fst demo_peer = Inr p \<and> Peer_PeerID p = ''p1'' \<and> Peer_SharedSecret p = ''s3cret'' \<and>
     peerInstances (snd demo_peer) = fmupd ''p1'' p fmempty \<and>
     snd demo_peer = NewMemoryStore\<lparr>peerInstances := fmupd ''p1'' p fmempty, peerByCanonicalBase := peerByCanonicalBase (snd demo_peer)\<rparr>"
proof -
  have "TrimSpace ''https://b.example'' \<noteq> []" "TrimSpace ''s3cret'' = ''s3cret''" "TrimSpace ''p1'' = ''p1''" by code_simp+
  then show ?thesis by (simp add: demo_peer_def CreatePeerInstance_def Let_def NewMemoryStore_def)
qed

lemma plain_empty: "plain_ids fmempty" "plain_rows f fmempty"
  by (simp_all add: plain_ids_def plain_rows_def)

lemma demo_loadable: "loadable (snd demo_peer)"
proof -
  obtain p where p: "Peer_PeerID p = ''p1''" and s: "snd demo_peer =
      NewMemoryStore\<lparr>peerInstances := fmupd ''p1'' p fmempty, peerByCanonicalBase := peerByCanonicalBase (snd demo_peer)\<rparr>"
    using demo_peer_eq by blast
  have "plain_segment ''p1''" by code_simp
  then have peers: "plain_ids (fmupd ''p1'' p fmempty)" "fmpred (\<lambda>i v. Peer_PeerID v = i) (fmupd ''p1'' p fmempty)"
    using p by (auto simp: plain_ids_def)
  show ?thesis
    by (subst s) (use peers in \<open>simp add: loadable_def plain_store_def own_ids_def audit_plain_def
      active_message_ids_def NewMemoryStore_def plain_empty\<close>)
qed

lemma fresh_known:
  "st_conn fresh_state = bucket_conn" "plain_key (st_prefix fresh_state)"
  "tracked (\<lambda>w. w) fresh_state fmempty" "owned (\<lambda>w. w) fresh_state fmempty" "plain_keys (fmempty :: json gomap)"
  by (simp_all add: fresh_state_def tracked_def owned_def plain_keys_def) code_simp

lemma demo_acknowledged: "\<exists>v st' w'. persist_after demo_peer fresh_state fmempty = (Inr v, st', w') \<and> fst demo_peer = Inr v"
proof -
  obtain v where v: "fst demo_peer = Inr v" using demo_peer_eq by blast
  have "plain_state (fresh_state\<lparr>st_mem := snd demo_peer\<rparr>)"
    using desired_apart(2) [of "''hub''" "snd demo_peer"] demo_loadable fresh_known(2)
    by (simp add: plain_state_def desired_objects_def loadable_def fresh_state_def plain_keys_def)
  from reliable_bucket.persist_after_ok [OF fresh_known(1) this v] v show ?thesis by blast
qed

theorem acknowledged_is_durable_witness:
  "\<exists>v st' w'. persist_after demo_peer fresh_state fmempty = (Inr v, st', w') \<and> w' = desired_objects st' \<and>
     tracked (\<lambda>w. w) st' w'"
proof -
  have plain: "plain_state (fresh_state\<lparr>st_mem := snd demo_peer\<rparr>)"
    using desired_apart(2) [of "''hub''" "snd demo_peer"] demo_loadable fresh_known(2)
    by (simp add: plain_state_def desired_objects_def loadable_def fresh_state_def plain_keys_def)
  obtain v st' w' where run: "persist_after demo_peer fresh_state fmempty = (Inr v, st', w')"
    using demo_acknowledged by blast
  note ack = acknowledged_is_durable [OF bucket.object_store_axioms fresh_known(1,3) plain run]
  have "fmlookup w' k = fmlookup (desired_objects st') k" for k
    using ack [of k] by (simp add: fresh_state_def)
  then have "w' = desired_objects st'" by (rule fmap_ext)
  with run ack show ?thesis by blast
qed


theorem restart_loses_secrets_witness:
  "\<exists>st w w'. open_state bucket_conn ''hub'' 0 w = Some (Inr st, w') \<and> no_secrets (st_mem st) \<and>
    fmlookup (peerInstances (st_mem st)) ''p1'' \<noteq> None"
proof -
  obtain v st' w' where run: "persist_after demo_peer fresh_state fmempty = (Inr v, st', w')"
    using demo_acknowledged by blast
  from reliable_bucket.restart_ok [OF fresh_known(1,2) demo_loadable fresh_known(3-5) run, of 0]
  obtain st2 w2 where st2: "open_state bucket_conn ''hub'' 0 w' = Some (Inr st2, w2)" "reloaded (snd demo_peer) (st_mem st2)"
    by (auto simp: fresh_state_def)
  then have "fmlookup (peerInstances (st_mem st2)) ''p1'' \<noteq> None"
    using demo_peer_eq by (auto simp: reloaded_def)
  with st2(1) restart_loses_secrets [OF st2(1)] show ?thesis by blast
qed

end
