(* ===== verification/GoJsonRead.thy ===== *)
theory GoJsonRead
  imports GoJson "HOL-Library.Log_Nat"
begin

text \<open>
  \<^verbatim>\<open>json.Unmarshal\<close> of a text into a value of type \<^verbatim>\<open>any\<close>: a recursive descent over the text.  The
  descent has fuel, and twice the length of the text is enough of it.
\<close>

section \<open>Numbers\<close>

text \<open>
  The \<^verbatim>\<open>float64\<close> nearest to \<open>n * 10^x\<close>, as \<open>m * 2^e\<close>: 53 bits, ties to even, no exponent below
  -1074; nothing when it is out of range.
\<close>

definition float64_of :: "int \<Rightarrow> int \<Rightarrow> (int \<times> int) option" where
  "float64_of n x =
     (if n = 0 then Some (0, 0)
      else
        let p = (if x \<ge> 0 then n * 10 ^ nat x else n);
            q = (if x \<ge> 0 then 1 else 10 ^ nat (- x));
            scaled = (\<lambda>e. if e \<ge> 0 then (p, q * 2 ^ nat e) else (p * 2 ^ nat (- e), q));
            e0 = bitlen p - bitlen q - 53;
            (a, b) = scaled e0;
            e = max (if a \<ge> b * 2 ^ 53 then e0 + 1 else e0) (- 1074);
            (a, b) = scaled e;
            m = a div b; r = a mod b;
            m = (if 2 * r > b \<or> 2 * r = b \<and> odd m then m + 1 else m) in
        if e \<ge> 972 \<or> e = 971 \<and> m = 2 ^ 53 then None else Some (m, e))"

text \<open>An optional sign and the digits after it, and what follows.\<close>

definition take_exponent :: "string \<Rightarrow> (int \<times> string) option" where
  "take_exponent s =
     (case s of
        [] \<Rightarrow> Some (0, s)
      | c # r \<Rightarrow>
          if c \<noteq> CHR ''e'' \<and> c \<noteq> CHR ''E'' then Some (0, s)
          else
            let neg = (r \<noteq> [] \<and> hd r = CHR ''-'');
                r = (if r \<noteq> [] \<and> hd r \<in> {CHR ''+'', CHR ''-''} then tl r else r);
                ds = takeWhile is_digit r in
            if ds = [] then None
            else Some (if neg then - int (digits_value ds) else int (digits_value ds), drop (length ds) r))"

definition take_decimals :: "string \<Rightarrow> (string \<times> string) option" where
  "take_decimals s =
     (case s of
        [] \<Rightarrow> Some ([], s)
      | c # r \<Rightarrow>
          if c \<noteq> CHR ''.'' then Some ([], s)
          else let ds = takeWhile is_digit r in if ds = [] then None else Some (ds, drop (length ds) r))"

text \<open>A number without a fraction and an exponent is kept as the integer it is.\<close>

definition read_number :: "string \<Rightarrow> (json \<times> string) option" where
  "read_number s0 =
     (let neg = (s0 \<noteq> [] \<and> hd s0 = CHR ''-''); s = (if neg then tl s0 else s0);
          ds = (if s \<noteq> [] \<and> hd s = CHR ''0'' then ''0'' else takeWhile is_digit s) in
      if ds = [] then None
      else
        let s1 = drop (length ds) s in
        (case take_decimals s1 of
           None \<Rightarrow> None
         | Some (fs, s2) \<Rightarrow>
             (case take_exponent s2 of
                None \<Rightarrow> None
              | Some (x, s3) \<Rightarrow>
                  let n = int (digits_value (ds @ fs)); sign = (if neg then - 1 else 1 :: int) in
                  if s3 = s1 then Some (JNum (sign * n), s3)
                  else map_option (\<lambda>(m, e). (JFloat (sign * m) e, s3)) (float64_of n (x - int (length fs))))))"

section \<open>Strings\<close>

definition utf8 :: "nat \<Rightarrow> string" where
  "utf8 u =
     (if u < 128 then [char_of u]
      else if u < 2048 then [char_of (192 + u div 64), char_of (128 + u mod 64)]
      else if u < 65536 then [char_of (224 + u div 4096), char_of (128 + u div 64 mod 64), char_of (128 + u mod 64)]
      else [char_of (240 + u div 262144), char_of (128 + u div 4096 mod 64), char_of (128 + u div 64 mod 64),
        char_of (128 + u mod 64)])"

definition hex_value :: "string \<Rightarrow> nat option" where
  "hex_value ds = (if list_all is_hex ds then Some (foldl (\<lambda>a d. a * 16 + unhex d) 0 ds) else None)"

definition high_surrogate :: "nat \<Rightarrow> bool" where
  "high_surrogate u \<longleftrightarrow> 0xD800 \<le> u \<and> u < 0xDC00"

definition low_surrogate :: "nat \<Rightarrow> bool" where
  "low_surrogate u \<longleftrightarrow> 0xDC00 \<le> u \<and> u < 0xE000"

text \<open>The second half of a surrogate pair, if the text goes on with one.\<close>

definition second_half :: "string \<Rightarrow> nat option" where
  "second_half s =
     (case s of
        x # y # a # b # c # d # r \<Rightarrow>
          if x = CHR 0x5C \<and> y = CHR ''u''
          then Option.bind (hex_value [a, b, c, d]) (\<lambda>u. if low_surrogate u then Some u else None)
          else None
      | _ \<Rightarrow> None)"

text \<open>The rune of an escape \<^verbatim>\<open>\uXXXX\<close>, and how much of what follows it uses: a lone half is \<^verbatim>\<open>U+FFFD\<close>.\<close>

definition escaped_rune :: "nat \<Rightarrow> string \<Rightarrow> string \<times> nat" where
  "escaped_rune u r =
     (if high_surrogate u then
        (case second_half r of
           Some v \<Rightarrow> (utf8 (0x10000 + (u - 0xD800) * 1024 + (v - 0xDC00)), 6)
         | None \<Rightarrow> (utf8 0xFFFD, 0))
      else if low_surrogate u then (utf8 0xFFFD, 0)
      else (utf8 u, 0))"

definition simple_escape :: "char \<Rightarrow> char option" where
  "simple_escape c =
     (if c \<in> {CHR 0x22, CHR 0x5C, CHR ''/''} then Some c
      else map_of [(CHR ''b'', CHR 0x08), (CHR ''f'', CHR 0x0C), (CHR ''n'', CHR 0x0A), (CHR ''r'', CHR 0x0D),
        (CHR ''t'', CHR 0x09)] c)"

text \<open>The text of a string up to its closing quote, and what follows that.\<close>

function (sequential) read_quoted :: "string \<Rightarrow> (string \<times> string) option" where
  "read_quoted [] = None"
| "read_quoted (c # s) =
     (if c = CHR 0x22 then Some ([], s)
      else if of_char c < (32 :: nat) then None
      else if c \<noteq> CHR 0x5C then map_option (\<lambda>(t, r). (c # t, r)) (read_quoted s)
      else
        (case s of
           [] \<Rightarrow> None
         | x # r \<Rightarrow>
             if x = CHR ''u'' then
               (if length r < 4 then None
                else case hex_value (take 4 r) of
                  None \<Rightarrow> None
                | Some u \<Rightarrow>
                    let (t, n) = escaped_rune u (drop 4 r) in
                    map_option (\<lambda>(t', r'). (t @ t', r')) (read_quoted (drop (4 + n) r)))
             else
               (case simple_escape x of
                  None \<Rightarrow> None
                | Some e \<Rightarrow> map_option (\<lambda>(t, r'). (e # t, r')) (read_quoted r))))"
  by pat_completeness auto
termination by (relation "measure length") auto

section \<open>Values\<close>

definition skip_ws :: "string \<Rightarrow> string" where
  "skip_ws s = dropWhile (\<lambda>c. c \<in> {CHR '' '', CHR 0x09, CHR 0x0A, CHR 0x0D}) s"

text \<open>A word of the grammar, if the text begins with it.\<close>

definition read_word :: "string \<Rightarrow> (json \<times> string) option" where
  "read_word s =
     (if HasPrefix s ''null'' then Some (JNull, drop 4 s)
      else if HasPrefix s ''true'' then Some (JBool True, drop 4 s)
      else if HasPrefix s ''false'' then Some (JBool False, drop 5 s)
      else None)"

text \<open>The first argument is the fuel, the second how deep the value is nested: at most 10000.\<close>

fun read_value :: "nat \<Rightarrow> nat \<Rightarrow> string \<Rightarrow> (json \<times> string) option"
  and read_elements :: "nat \<Rightarrow> nat \<Rightarrow> string \<Rightarrow> (json list \<times> string) option"
  and read_members :: "nat \<Rightarrow> nat \<Rightarrow> string \<Rightarrow> ((string \<times> json) list \<times> string) option" where
  "read_value 0 d s = None"
| "read_value (Suc n) d s =
     (case skip_ws s of
        [] \<Rightarrow> None
      | c # r \<Rightarrow>
          if c = CHR 0x22 then map_option (\<lambda>(t, r). (JStr t, r)) (read_quoted r)
          else if c = CHR 0x7B then
            (if d \<ge> 10000 then None
             else if skip_ws r \<noteq> [] \<and> hd (skip_ws r) = CHR 0x7D then Some (JObj [], tl (skip_ws r))
             else map_option (\<lambda>(kvs, r). (JObj kvs, r)) (read_members n (Suc d) r))
          else if c = CHR ''['' then
            (if d \<ge> 10000 then None
             else if skip_ws r \<noteq> [] \<and> hd (skip_ws r) = CHR '']'' then Some (JArr [], tl (skip_ws r))
             else map_option (\<lambda>(vs, r). (JArr vs, r)) (read_elements n (Suc d) r))
          else if c = CHR ''-'' \<or> is_digit c then read_number (c # r)
          else read_word (c # r))"
| "read_elements 0 d s = None"
| "read_elements (Suc n) d s =
     (case read_value n d s of
        None \<Rightarrow> None
      | Some (v, r) \<Rightarrow>
          (case skip_ws r of
             [] \<Rightarrow> None
           | c # r \<Rightarrow>
               if c = CHR '','' then map_option (\<lambda>(vs, r). (v # vs, r)) (read_elements n d r)
               else if c = CHR '']'' then Some ([v], r) else None))"
| "read_members 0 d s = None"
| "read_members (Suc n) d s =
     (case skip_ws s of
        [] \<Rightarrow> None
      | q # r \<Rightarrow>
          if q \<noteq> CHR 0x22 then None
          else case read_quoted r of
            None \<Rightarrow> None
          | Some (k, r) \<Rightarrow>
              (case skip_ws r of
                 [] \<Rightarrow> None
               | c # r \<Rightarrow>
                   if c \<noteq> CHR '':'' then None
                   else case read_value n d r of
                     None \<Rightarrow> None
                   | Some (v, r) \<Rightarrow>
                       (case skip_ws r of
                          [] \<Rightarrow> None
                        | c # r \<Rightarrow>
                            if c = CHR '','' then map_option (\<lambda>(kvs, r). ((k, v) # kvs, r)) (read_members n d r)
                            else if c = CHR 0x7D then Some ([(k, v)], r) else None)))"

definition json_decode :: "string \<Rightarrow> json option" where
  "json_decode s =
     (case read_value (Suc (2 * length s)) 0 s of
        Some (j, r) \<Rightarrow> if skip_ws r = [] then Some j else None
      | None \<Rightarrow> None)"

lemma json_decode_examples:
  "json_decode ([CHR 0x7B, CHR 0x22, CHR ''a'', CHR 0x22] @ '': [1, -2.5e1, true]'' @ [CHR 0x7D]) =
     Some (JObj [(''a'', JArr [JNum 1, JFloat (- 7036874417766400) (- 48), JBool True])])"
  "json_decode ''[1,]'' = None" "json_decode ''01'' = None"
  by code_simp+

section \<open>The fuel is enough\<close>

lemma length_skip_ws: "length (skip_ws s) \<le> length s"
  by (simp add: skip_ws_def length_dropWhile_le)

lemma skip_ws_Cons: "skip_ws s = c # r \<Longrightarrow> length r < length s"
  using length_skip_ws [of s] by simp

lemma read_quoted_shorter: "read_quoted s = Some (t, r) \<Longrightarrow> length r < length s"
proof (induction "length s" arbitrary: s t r rule: less_induct)
  case less
  obtain c u where s: "s = c # u" using less.prems by (cases s) auto
  consider "c = CHR 0x22" | "c \<noteq> CHR 0x22" "c \<noteq> CHR 0x5C" | "c = CHR 0x5C" by blast
  then show ?case
  proof cases
    case 1
    with less.prems s show ?thesis by simp
  next
    case 2
    with less.prems s obtain t' where "read_quoted u = Some (t', r)" by (auto split: if_splits)
    from less.hyps [OF _ this] s show ?thesis by simp
  next
    case 3
    then obtain x v where u: "u = x # v" using less.prems s by (cases u) auto
    have "\<exists>n t'. read_quoted (drop n v) = Some (t', r)"
    proof (cases "x = CHR ''u''")
      case True
      with less.prems s u 3 obtain h where h: "\<not> length v < 4" "hex_value (take 4 v) = Some h"
        by (auto split: if_splits option.splits)
      obtain t1 n where "escaped_rune h (drop 4 v) = (t1, n)" by fastforce
      with less.prems s u 3 True h have "\<exists>t'. read_quoted (drop (4 + n) v) = Some (t', r)" by auto
      then show ?thesis by blast
    next
      case False
      with less.prems s u 3 have "\<exists>t'. read_quoted (drop 0 v) = Some (t', r)" by (auto split: option.splits)
      then show ?thesis by blast
    qed
    then obtain n t' where "read_quoted (drop n v) = Some (t', r)" by blast
    with less.hyps [OF _ this] s u have "length r < length (drop n v)" by simp
    then show ?thesis using s u by simp
  qed
qed

lemma read_number_shorter: "read_number s = Some (j, r) \<Longrightarrow> length r < length s"
proof -
  assume r: "read_number s = Some (j, r)"
  have dec: "length s2 \<le> length s1" if "take_decimals s1 = Some (fs, s2)" for s1 fs s2
    using that by (auto simp: take_decimals_def Let_def split: list.splits if_splits)
  have ex: "length s2 \<le> length s1" if "take_exponent s1 = Some (x, s2)" for s1 x s2
    using that by (auto simp: take_exponent_def Let_def split: list.splits if_splits)
  let ?s = "if s \<noteq> [] \<and> hd s = CHR ''-'' then tl s else s"
  let ?ds = "if ?s \<noteq> [] \<and> hd ?s = CHR ''0'' then ''0'' else takeWhile is_digit ?s"
  from r have ds: "?ds \<noteq> []" unfolding read_number_def Let_def by (auto split: if_splits)
  with r obtain fs s2 where d: "take_decimals (drop (length ?ds) ?s) = Some (fs, s2)"
    unfolding read_number_def Let_def by (auto split: if_splits option.splits)
  with r ds obtain x s3 where e: "take_exponent s2 = Some (x, s3)" "r = s3"
    unfolding read_number_def Let_def by (auto split: if_splits option.splits)
  have "?s \<noteq> []" using ds by (auto split: if_splits)
  then have "length (drop (length ?ds) ?s) < length ?s" using ds by (cases ?ds) auto
  moreover have "length ?s \<le> length s" by simp
  ultimately show ?thesis using dec [OF d] ex [OF e(1)] unfolding e(2) by (meson le_less_trans less_le_trans)
qed

lemma read_word_shorter: "read_word s = Some (j, r) \<Longrightarrow> length r < length s"
  by (cases s) (auto simp: read_word_def HasPrefix_def split: if_splits)

lemma json_shorter:
  "read_value n d s = Some (j, r) \<Longrightarrow> length r < length s"
  "read_elements n d s = Some (vs, r) \<Longrightarrow> length r < length s"
  "read_members n d s = Some (kvs, r) \<Longrightarrow> length r < length s"
proof (induction n arbitrary: d s j vs kvs r)
  case (Suc n)
  {
    case 1
    then obtain c t where t: "skip_ws s = c # t" by (auto split: list.splits)
    note len = skip_ws_Cons [OF t]
    have tail: "skip_ws t \<noteq> [] \<Longrightarrow> length (tl (skip_ws t)) < length t"
      using length_skip_ws [of t] by (cases "skip_ws t") auto
    from 1 t len tail length_skip_ws [of s] show ?case
      using read_quoted_shorter [of t] read_number_shorter [of "c # t"] read_word_shorter [of "c # t"] Suc.IH(2,3) [of "Suc d" t]
      by (fastforce split: if_splits)
  next
    case 2
    then obtain v u where v: "read_value n d s = Some (v, u)" by (auto split: option.splits)
    with 2 obtain c t where t: "skip_ws u = c # t" by (auto split: list.splits)
    from 2 v t skip_ws_Cons [OF t] Suc.IH(1) [OF v] Suc.IH(2) [of d t] show ?case
      by (fastforce split: if_splits)
  next
    case 3
    then obtain q u where q: "skip_ws s = q # u" "q = CHR 0x22" by (auto split: list.splits if_splits)
    with 3 obtain k u1 where k: "read_quoted u = Some (k, u1)" by (auto split: option.splits)
    with 3 q obtain u2 where c: "skip_ws u1 = CHR '':'' # u2" by (auto split: list.splits if_splits)
    with 3 q k obtain v u3 where v: "read_value n d u2 = Some (v, u3)" by (auto split: option.splits)
    with 3 q k c obtain x t where t: "skip_ws u3 = x # t" by (auto split: list.splits)
    note lens = skip_ws_Cons [OF q(1)] read_quoted_shorter [OF k] skip_ws_Cons [OF c] Suc.IH(1) [OF v] skip_ws_Cons [OF t]
    from 3 q k c v t lens Suc.IH(3) [of d t] show ?case by (fastforce split: if_splits)
  }
qed simp_all

lemma json_fuel:
  "2 * length s < n \<Longrightarrow> 2 * length s < m \<Longrightarrow> read_value n d s = read_value m d s"
  "2 * length s + 1 < n \<Longrightarrow> 2 * length s + 1 < m \<Longrightarrow> read_elements n d s = read_elements m d s"
  "2 * length s + 1 < n \<Longrightarrow> 2 * length s + 1 < m \<Longrightarrow> read_members n d s = read_members m d s"
proof (induction n arbitrary: m d s)
  case (Suc n)
  {
    case 1
    then obtain m' where m: "m = Suc m'" by (cases m) auto
    show ?case
    proof (cases "skip_ws s")
      case (Cons c t)
      then have "2 * length t + 1 < n" "2 * length t + 1 < m'" using skip_ws_Cons [OF Cons] 1 m by auto
      then show ?thesis using Cons m Suc.IH(2,3) [of t m' "Suc d"] by simp
    qed (simp add: m)
  next
    case 2
    then obtain m' where m: "m = Suc m'" by (cases m) auto
    have v: "read_value n d s = read_value m' d s" using 2 m by (intro Suc.IH(1)) simp_all
    have "read_elements n d t = read_elements m' d t" if "read_value n d s = Some (j, u)" "skip_ws u = c # t" for j u c t
      using json_shorter(1) [OF that(1)] skip_ws_Cons [OF that(2)] 2 m by (intro Suc.IH(2)) simp_all
    then show ?case by (auto simp: m v [symmetric] split: option.split list.split)
  next
    case 3
    then obtain m' where m: "m = Suc m'" by (cases m) auto
    have v: "read_value n d t = read_value m' d t"
      if "skip_ws s = q # u" "read_quoted u = Some (k, u1)" "skip_ws u1 = c # t" for q u k u1 c t
      using skip_ws_Cons [OF that(1)] read_quoted_shorter [OF that(2)] skip_ws_Cons [OF that(3)] 3 m
      by (intro Suc.IH(1)) simp_all
    have r: "read_members n d t' = read_members m' d t'"
      if "skip_ws s = q # u" "read_quoted u = Some (k, u1)" "skip_ws u1 = c # t" "read_value n d t = Some (j, u2)"
        "skip_ws u2 = x # t'" for q u k u1 c t j u2 x t'
      using skip_ws_Cons [OF that(1)] read_quoted_shorter [OF that(2)] skip_ws_Cons [OF that(3)] json_shorter(1) [OF that(4)]
        skip_ws_Cons [OF that(5)] 3 m
      by (intro Suc.IH(3)) simp_all
    show ?case
    proof (cases "skip_ws s")
      case (Cons q u)
      show ?thesis
      proof (cases "read_quoted u")
        case (Some ku)
        obtain k u1 where ku: "ku = (k, u1)" by fastforce
        show ?thesis
        proof (cases "skip_ws u1")
          case c: (Cons c t)
          show ?thesis
            using v [OF Cons Some [unfolded ku] c] r [OF Cons Some [unfolded ku] c] Cons Some ku c
            by (auto simp: m split: option.split list.split)
        qed (simp add: m Cons Some ku)
      qed (simp add: m Cons)
    qed (simp add: m)
  }
qed simp_all

end
