(* ===== verification/Skills.thy ===== *)
theory Skills
  imports Metadata GoJsonRead GoSort
begin

text \<open>
  \<^verbatim>\<open>internal/api/agent_skills.go\<close> and the skill envelopes of
  \<^verbatim>\<open>internal/api/handlers_runtime_envelope.go\<close>: the skills an agent advertises, and the check of a
  message that activates one of them.
\<close>

section \<open>Errors of the handlers\<close>

record runtime_error =
  re_status :: nat
  re_code :: string
  re_message :: string
  re_extras :: gmap

definition handler_error :: "nat \<Rightarrow> string \<Rightarrow> string \<Rightarrow> runtime_error" where
  "handler_error st code msg = \<lparr>re_status = st, re_code = code, re_message = msg, re_extras = fmempty\<rparr>"

section \<open>Advertised skills\<close>

fun asStringAny :: "gval \<Rightarrow> string" where
  "asStringAny (GStr s) = s"
| "asStringAny _ = []"

record skill_parameter =
  Spr_Name :: string
  Spr_Description :: string

record skill_parameters =
  Sps_Format :: string
  Sps_Schema :: gval
  Sps_Required :: "skill_parameter list"
  Sps_Optional :: "skill_parameter list"
  Sps_SecretPolicy :: string

record skill_summary =
  Sk_Name :: string
  Sk_Description :: string
  Sk_Parameters :: "skill_parameters option"

text \<open>The objects among the entries of a list; every other value has none.\<close>

fun object_items :: "gval \<Rightarrow> gmap list" where
  "object_items (GList vs) = List.map_filter (\<lambda>v. case v of GMap m \<Rightarrow> Some m | _ \<Rightarrow> None) vs"
| "object_items (GMaps ms) = ms"
| "object_items _ = []"

definition parameter_item :: "gmap \<Rightarrow> skill_parameter option" where
  "parameter_item item =
     (case NormalizeAgentSkillParameterName (asStringAny (gget item ''name'')) of
        None \<Rightarrow> None
      | Some name \<Rightarrow>
          let description = TrimSpace (asStringAny (gget item ''description'')) in
          if description = [] then None else Some \<lparr>Spr_Name = name, Spr_Description = description\<rparr>)"

definition parseSkillParameterList :: "gval \<Rightarrow> skill_parameter list" where
  "parseSkillParameterList raw =
     sort_by (\<lambda>x y. Spr_Name x < Spr_Name y) (List.map_filter parameter_item (object_items raw))"

fun cloneSkillParameterSchema :: "gval \<Rightarrow> gval" where
  "cloneSkillParameterSchema (GStr s) = GStr s"
| "cloneSkillParameterSchema (GMap m) = GMap m"
| "cloneSkillParameterSchema _ = GNil"

definition parseSkillParameters :: "gval \<Rightarrow> skill_parameters option" where
  "parseSkillParameters raw =
     (case raw of
        GMap v \<Rightarrow>
          if v = fmempty then None
          else
            let format = ToLower (TrimSpace (asStringAny (gget v ''format''))) in
            if format \<noteq> ''markdown'' \<and> format \<noteq> ''json'' then None
            else
              let policy = TrimSpace (asStringAny (gget v ''secret_policy'')) in
              Some \<lparr>Sps_Format = format, Sps_Schema = cloneSkillParameterSchema (gget v ''schema''),
                Sps_Required = parseSkillParameterList (gget v ''required''),
                Sps_Optional = parseSkillParameterList (gget v ''optional''),
                Sps_SecretPolicy = (if policy = [] then ''forbidden'' else policy)\<rparr>
      | _ \<Rightarrow> None)"

definition skill_item :: "gmap \<Rightarrow> skill_summary option" where
  "skill_item item =
     (case NormalizeAgentSkillName (asStringAny (gget item ''name'')) of
        None \<Rightarrow> None
      | Some name \<Rightarrow>
          let description = TrimSpace (asStringAny (gget item ''description'')) in
          if description = [] then None
          else Some \<lparr>Sk_Name = name,
            Sk_Description = (if length description > 240 then TrimSpace (take 240 description) else description),
            Sk_Parameters = parseSkillParameters (gget item ''parameters'')\<rparr>)"

text \<open>Of two skills with one name the later counts.\<close>

definition parseAdvertisedSkillsByName :: "gmap \<Rightarrow> skill_summary gomap" where
  "parseAdvertisedSkillsByName metadata =
     fmap_of_list (rev (map (\<lambda>sk. (Sk_Name sk, sk))
       (List.map_filter skill_item (object_items (gget metadata AgentMetadataKeySkills)))))"

definition parseAdvertisedSkills :: "gmap \<Rightarrow> skill_summary list" where
  "parseAdvertisedSkills metadata = sorted_values (parseAdvertisedSkillsByName metadata)"

section \<open>The envelope of an activation\<close>

definition isSkillActivationEnvelope :: "gmap \<Rightarrow> bool" where
  "isSkillActivationEnvelope envelope \<longleftrightarrow>
     (let envelopeType = ToLower (TrimSpace (asStringAny (gget envelope ''type'')));
          envelopeKind = ToLower (TrimSpace (asStringAny (gget envelope ''kind''))) in
      envelopeType = ''skill_request'' \<or> envelopeType = ''skill_activation'' \<or>
      envelopeKind = ''skill_request'' \<or> envelopeKind = ''skill_activation'')"

text \<open>The envelope after the call, or the text of the error.\<close>

definition normalizeRuntimeSkillActivationEnvelope :: "gmap \<Rightarrow> string + gmap" where
  "normalizeRuntimeSkillActivationEnvelope envelope =
     (if \<not> isSkillActivationEnvelope envelope then Inr envelope
      else
        let skillName = TrimSpace (asStringAny (gget envelope ''skill_name''));
            format = ToLower (TrimSpace (asStringAny (gget envelope ''payload_format''))) in
        if skillName = [] then Inl ''skill_name is required when type/kind is skill_request or skill_activation''
        else if format \<noteq> [] \<and> format \<noteq> ''markdown'' \<and> format \<noteq> ''json''
        then Inl ''payload_format must be one of: markdown, json''
        else
          (case (case fmlookup envelope ''payload'' of Some p \<Rightarrow> Some p | None \<Rightarrow> fmlookup envelope ''input'') of
             None \<Rightarrow>
               if format \<noteq> [] then Inl ''payload_format requires payload''
               else Inr (fmupd ''skill_name'' (GStr skillName) envelope)
           | Some payload \<Rightarrow>
               let finish = (\<lambda>f. fmupd ''payload_format'' (GStr f) (fmupd ''payload'' payload
                     (fmupd ''skill_name'' (GStr skillName) envelope))) in
               (case payload of
                  GStr _ \<Rightarrow>
                    let f = (if format = [] then ''markdown'' else format) in
                    if f \<noteq> ''markdown'' then Inl ''payload must be a JSON object when payload_format is json''
                    else Inr (finish f)
                | GMap _ \<Rightarrow>
                    let f = (if format = [] then ''json'' else format) in
                    if f \<noteq> ''json'' then Inl ''payload must be a markdown string when payload_format is markdown''
                    else Inr (finish f)
                | _ \<Rightarrow> Inl ''payload must be either a markdown string or a JSON object'')))"

section \<open>The parameters of an activation\<close>

definition strongMarkers :: "string list" where
  "strongMarkers =
     [''api key'', ''access key'', ''password'', ''private key'', ''bearer '', ''token:'', ''token='', ''authorization:'']"

definition containsLikelySecretPayload :: "string \<Rightarrow> bool" where
  "containsLikelySecretPayload v =
     (let normalized = ToLower (TrimSpace v) in
      if normalized = [] then False
      else if list_ex (str_contains normalized) strongMarkers then True
      else str_contains normalized ''secret'' \<and> \<not> str_contains normalized ''do not pass secrets'' \<and>
        \<not> str_contains normalized ''never pass secrets'' \<and> \<not> str_contains normalized ''do not include secrets'' \<and>
        \<not> str_contains normalized ''never include secrets'')"

text \<open>\<^verbatim>\<open>strconv.Quote\<close>, the verb \<^verbatim>\<open>%q\<close>.\<close>

definition quote_char :: "char \<Rightarrow> string" where
  "quote_char c =
     (if c = CHR 0x22 \<or> c = CHR 0x5C then [CHR 0x5C, c]
      else case map_of [(CHR 0x07, CHR ''a''), (CHR 0x08, CHR ''b''), (CHR 0x0C, CHR ''f''), (CHR 0x0A, CHR ''n''),
          (CHR 0x0D, CHR ''r''), (CHR 0x09, CHR ''t''), (CHR 0x0B, CHR ''v'')] c of
        Some e \<Rightarrow> [CHR 0x5C, e]
      | None \<Rightarrow>
          if of_char c < (32 :: nat) \<or> of_char c = (127 :: nat)
          then [CHR 0x5C, CHR ''x'', hex_lower (of_char c div 16), hex_lower (of_char c mod 16)]
          else [c])"

definition Quote :: "string \<Rightarrow> string" where
  "Quote s = CHR 0x22 # concat (map quote_char s) @ [CHR 0x22]"

definition validateParameterKeysAndSecrets :: "string gomap \<Rightarrow> skill_parameters \<Rightarrow> string \<Rightarrow> string list" where
  "validateParameterKeysAndSecrets provided params rawText =
     (let required = map Spr_Name (Sps_Required params);
          allowed = set required \<union> set (map Spr_Name (Sps_Optional params)) in
      validateSkillParameterPayloadKeys Quote provided required allowed @
      (if TrimSpace rawText \<noteq> [] \<and> containsLikelySecretPayload rawText
       then [''payload contains forbidden secret-like content''] else []))"

text \<open>A line \<^verbatim>\<open>- name: value\<close> of a markdown payload.\<close>

definition markdown_line :: "string \<Rightarrow> (string \<times> string) option" where
  "markdown_line rawLine =
     (let line = TrimPrefix (TrimSpace rawLine) ''- ''; (name, v, ok) = Cut line (CHR '':'') in
      if TrimSpace rawLine = [] \<or> \<not> ok then None
      else map_option (\<lambda>n. (n, TrimSpace v)) (NormalizeAgentSkillParameterName (Trim (TrimSpace name) ''`'')))"

definition parseMarkdownParameterPayload :: "string \<Rightarrow> string gomap" where
  "parseMarkdownParameterPayload markdown =
     fmap_of_list (rev (List.map_filter markdown_line (split_on (CHR 0x0A) markdown)))"

text \<open>The text of the value of a parameter.\<close>

definition provided_text :: "gval \<Rightarrow> string" where
  "provided_text v = (case v of GStr s \<Rightarrow> TrimSpace s | _ \<Rightarrow> TrimSpace (json_text (json_of_any v)))"

definition validateSkillActivationPayload :: "skill_summary \<Rightarrow> gval \<Rightarrow> string \<Rightarrow> string list" where
  "validateSkillActivationPayload skill rawPayload payloadFormat =
     (case Sk_Parameters skill of
        None \<Rightarrow> []
      | Some params \<Rightarrow>
          let wrong_format = (\<lambda>f. if payloadFormat \<noteq> [] \<and> payloadFormat \<noteq> f
                then [''payload_format must be '' @ f @ '' for skill '' @ json_quote (Sk_Name skill)] else []) in
          if Sps_Format params = ''json'' then
            (case rawPayload of
               GMap payload \<Rightarrow>
                 sort (validateParameterKeysAndSecrets (fmmap provided_text payload) params
                     (json_text (json_of_map payload)) @ wrong_format ''json'')
             | _ \<Rightarrow>
                 if Sps_Required params = [] \<and> rawPayload = GNil then []
                 else [''skill '' @ json_quote (Sk_Name skill) @ '' requires a JSON object payload''])
          else if Sps_Format params = ''markdown'' then
            (case rawPayload of
               GStr body \<Rightarrow>
                 let provided = parseMarkdownParameterPayload body in
                 sort (validateParameterKeysAndSecrets provided params body @
                   (if provided = fmempty \<and> (Sps_Required params \<noteq> [] \<or> Sps_Optional params \<noteq> [])
                    then [''markdown payload must use `parameter: value` lines for skill '' @ json_quote (Sk_Name skill)]
                    else []) @
                   wrong_format ''markdown'')
             | _ \<Rightarrow>
                 if Sps_Required params = [] \<and> rawPayload = GNil then []
                 else [''skill '' @ json_quote (Sk_Name skill) @ '' requires a markdown string payload''])
          else [])"

section \<open>The error a sender sees\<close>

definition skillParameterNames :: "skill_parameter list \<Rightarrow> string list" where
  "skillParameterNames ps = sort (filter (\<lambda>n. n \<noteq> []) (map Spr_Name ps))"

definition skillAllowedParameterNames :: "skill_parameters \<Rightarrow> string list" where
  "skillAllowedParameterNames params =
     sorted_list_of_set {n \<in> set (map Spr_Name (Sps_Required params @ Sps_Optional params)). n \<noteq> []}"

definition cloneSkillParameterList :: "skill_parameter list \<Rightarrow> gval" where
  "cloneSkillParameterList ps =
     GMaps (map (\<lambda>p. gmap_of [(''name'', GStr (Spr_Name p)), (''description'', GStr (Spr_Description p))]) ps)"

definition skillParametersContract :: "skill_parameters \<Rightarrow> gmap" where
  "skillParametersContract params =
     (let out = gmap_of [(''format'', GStr (Sps_Format params)), (''secret_policy'', GStr (Sps_SecretPolicy params)),
            (''allowed'', GStrs (skillAllowedParameterNames params))];
          out = (if Sps_Required params \<noteq> [] then fmupd ''required'' (cloneSkillParameterList (Sps_Required params)) out else out);
          out = (if Sps_Optional params \<noteq> [] then fmupd ''optional'' (cloneSkillParameterList (Sps_Optional params)) out else out)
      in if Sps_Schema params \<noteq> GNil then fmupd ''schema'' (cloneSkillParameterSchema (Sps_Schema params)) out else out)"

definition skillValidationRuntimeErrorWithExtras :: "string list \<Rightarrow> gmap \<Rightarrow> runtime_error" where
  "skillValidationRuntimeErrorWithExtras details extras =
     \<lparr>re_status = 400, re_code = ''invalid_skill_request'', re_message = ''skill activation validation failed'',
      re_extras = gmap_of [(''failure'', GBool True), (''validation_errors'', GStrs details)] ++\<^sub>f
        fmfilter (\<lambda>k. TrimSpace k \<noteq> []) extras\<rparr>"

definition skillValidationRuntimeErrorForSkill :: "skill_summary \<Rightarrow> string list \<Rightarrow> runtime_error" where
  "skillValidationRuntimeErrorForSkill skill details =
     (let extras = (if TrimSpace (Sk_Name skill) \<noteq> [] then gmap_of [(''skill_name'', GStr (Sk_Name skill))] else fmempty);
          extras = (case Sk_Parameters skill of
            None \<Rightarrow> extras
          | Some params \<Rightarrow>
              extras ++\<^sub>f gmap_of [(''skill_parameters'', GMap (skillParametersContract params)),
                (''payload_format'', GStr (Sps_Format params)),
                (''required_parameters'', GStrs (skillParameterNames (Sps_Required params))),
                (''optional_parameters'', GStrs (skillParameterNames (Sps_Optional params))),
                (''allowed_parameters'', GStrs (skillAllowedParameterNames params))])
      in skillValidationRuntimeErrorWithExtras details extras)"

definition validateSkillActivationRequest :: "agent \<Rightarrow> string \<Rightarrow> string \<Rightarrow> runtime_error option" where
  "validateSkillActivationRequest receiver contentType payload =
     (if TrimSpace contentType \<noteq> ''application/json'' \<or> TrimSpace payload = [] then None
      else case Option.bind (json_decode payload) map_of_json of
        None \<Rightarrow> None
      | Some envelope \<Rightarrow>
          if envelope = fmempty then None
          else case normalizeRuntimeSkillActivationEnvelope envelope of
            Inl e \<Rightarrow> Some (skillValidationRuntimeErrorWithExtras [e] fmempty)
          | Inr envelope \<Rightarrow>
              if \<not> isSkillActivationEnvelope envelope then None
              else
                let skillName = (case NormalizeAgentSkillName (asStringAny (gget envelope ''skill_name'')) of
                      Some n \<Rightarrow> n | None \<Rightarrow> []) in
                (case fmlookup (parseAdvertisedSkillsByName (Agent_Metadata receiver)) skillName of
                   None \<Rightarrow> Some (skillValidationRuntimeErrorWithExtras
                     [''receiver does not advertise skill '' @ json_quote skillName] fmempty)
                 | Some skill \<Rightarrow>
                     if Sk_Parameters skill = None then None
                     else
                       (case validateSkillActivationPayload skill (gget envelope ''payload'')
                           (asStringAny (gget envelope ''payload_format'')) of
                          [] \<Rightarrow> None
                        | es \<Rightarrow> Some (skillValidationRuntimeErrorForSkill skill es))))"

section \<open>What an accepted activation brings\<close>

definition parameters_met :: "skill_parameters \<Rightarrow> string gomap \<Rightarrow> string \<Rightarrow> bool" where
  "parameters_met params provided raw \<longleftrightarrow>
     (\<forall>p \<in> set (Sps_Required params). \<exists>v. fmlookup provided (Spr_Name p) = Some v \<and> TrimSpace v \<noteq> []) \<and>
     fmdom' provided \<subseteq> set (map Spr_Name (Sps_Required params @ Sps_Optional params)) \<and>
     \<not> containsLikelySecretPayload raw"

lemma sort_eq_empty: "sort xs = [] \<longleftrightarrow> xs = []"
  by (metis length_0_conv length_sort)

lemma keys_and_secrets_met:
  "validateParameterKeysAndSecrets provided params raw = [] \<longleftrightarrow> parameters_met params provided raw"
proof -
  have "\<not> containsLikelySecretPayload raw" if "TrimSpace raw = []"
    using that by (simp add: containsLikelySecretPayload_def)
  then show ?thesis
    by (auto simp: validateParameterKeysAndSecrets_def validateSkillParameterPayloadKeys_def parameters_met_def Let_def
        sort_eq_empty filter_empty_conv fmdom'I split: option.splits)
qed

text \<open>What the payload of an envelope provides: its entries as texts, and the text that is searched for secrets.\<close>

fun provides :: "gval \<Rightarrow> (string gomap \<times> string) option" where
  "provides (GMap m) = Some (fmmap provided_text m, json_text (json_of_map m))"
| "provides (GStr b) = Some (parseMarkdownParameterPayload b, b)"
| "provides _ = None"

lemma payload_provides:
  assumes "Sk_Parameters skill = Some params" and "Sps_Format params \<in> {''json'', ''markdown''}"
    and "validateSkillActivationPayload skill payload fmt = []"
  shows "(\<exists>given raw. provides payload = Some (given, raw) \<and> parameters_met params given raw) \<or>
    (payload = GNil \<and> Sps_Required params = [])"
  using assms
  by (cases payload) (auto simp: validateSkillActivationPayload_def Let_def sort_eq_empty keys_and_secrets_met split: if_splits)

lemma parsed_format: "parseSkillParameters v = Some params \<Longrightarrow> Sps_Format params \<in> {''json'', ''markdown''}"
  by (auto simp: parseSkillParameters_def Let_def split: gval.splits if_splits)

lemma advertised_parameters:
  assumes "fmlookup (parseAdvertisedSkillsByName metadata) n = Some skill" and "Sk_Parameters skill = Some params"
  shows "Sps_Format params \<in> {''json'', ''markdown''}"
proof -
  from assms(1) obtain item where "skill_item item = Some skill"
    by (auto simp: parseAdvertisedSkillsByName_def fmlookup_of_list map_of_eq_Some_iff List.map_filter_def
        dest!: map_of_SomeD)
  then have "parseSkillParameters (gget item ''parameters'') = Some params"
    using assms(2) by (auto simp: skill_item_def Let_def split: option.splits if_splits)
  then show ?thesis by (rule parsed_format)
qed

lemma advertised_name: "fmlookup (parseAdvertisedSkillsByName metadata) n = Some skill \<Longrightarrow> 2 \<le> length n"
proof -
  assume "fmlookup (parseAdvertisedSkillsByName metadata) n = Some skill"
  then obtain item where "skill_item item = Some skill" "Sk_Name skill = n"
    by (auto simp: parseAdvertisedSkillsByName_def fmlookup_of_list List.map_filter_def dest!: map_of_SomeD)
  then show ?thesis
    by (auto simp: skill_item_def Let_def NormalizeAgentSkillName_def normalizeSkillToken_def split: option.splits if_splits)
qed

lemma NormalizeAgentSkillName_trim [simp]: "NormalizeAgentSkillName (TrimSpace s) = NormalizeAgentSkillName s"
  by (simp add: NormalizeAgentSkillName_def normalizeSkillToken_def)

lemma normalized_envelope:
  assumes "normalizeRuntimeSkillActivationEnvelope envelope = Inr envelope'" and "isSkillActivationEnvelope envelope"
  shows "isSkillActivationEnvelope envelope'"
    "NormalizeAgentSkillName (asStringAny (gget envelope' ''skill_name'')) =
     NormalizeAgentSkillName (asStringAny (gget envelope ''skill_name''))"
  using assms
  by (auto simp: normalizeRuntimeSkillActivationEnvelope_def isSkillActivationEnvelope_def Let_def
      split: if_splits option.splits gval.splits)

text \<open>
  An activation that the receiver may get names a skill it advertises, and its payload gives a value to
  every required parameter, has no parameter the skill does not declare, and holds nothing that looks
  like a secret.
\<close>

definition activation_meets :: "agent \<Rightarrow> gmap \<Rightarrow> bool" where
  "activation_meets receiver envelope \<longleftrightarrow>
     (\<exists>name skill envelope'. NormalizeAgentSkillName (asStringAny (gget envelope ''skill_name'')) = Some name \<and>
       fmlookup (parseAdvertisedSkillsByName (Agent_Metadata receiver)) name = Some skill \<and>
       normalizeRuntimeSkillActivationEnvelope envelope = Inr envelope' \<and>
       (case Sk_Parameters skill of None \<Rightarrow> True
        | Some params \<Rightarrow>
            (case provides (gget envelope' ''payload'') of
               None \<Rightarrow> gget envelope' ''payload'' = GNil \<and> Sps_Required params = []
             | Some (given, raw) \<Rightarrow> parameters_met params given raw)))"

lemma activation_valid:
  assumes "validateSkillActivationRequest receiver contentType payload = None"
    and "TrimSpace contentType = ''application/json''" and "TrimSpace payload \<noteq> []"
    and "json_decode payload = Some j" and "map_of_json j = Some envelope" and "isSkillActivationEnvelope envelope"
  shows "activation_meets receiver envelope"
proof -
  have act: "envelope \<noteq> fmempty" using assms(6) by (auto simp: isSkillActivationEnvelope_def)
  obtain envelope' where norm: "normalizeRuntimeSkillActivationEnvelope envelope = Inr envelope'"
    using assms(1-5) act by (cases "normalizeRuntimeSkillActivationEnvelope envelope") (auto simp: validateSkillActivationRequest_def)
  note kept = normalized_envelope [OF norm assms(6)]
  let ?n = "NormalizeAgentSkillName (asStringAny (gget envelope ''skill_name''))"
  let ?name = "case ?n of Some n \<Rightarrow> n | None \<Rightarrow> []"
  have result: "(case fmlookup (parseAdvertisedSkillsByName (Agent_Metadata receiver)) ?name of
      None \<Rightarrow> False
    | Some skill \<Rightarrow> Sk_Parameters skill = None \<or> validateSkillActivationPayload skill (gget envelope' ''payload'')
        (asStringAny (gget envelope' ''payload_format'')) = [])"
    using assms(1-5) act kept norm
    by (auto simp: validateSkillActivationRequest_def Let_def split: option.splits if_splits list.splits)
  then obtain skill where skill: "fmlookup (parseAdvertisedSkillsByName (Agent_Metadata receiver)) ?name = Some skill"
    by (auto split: option.splits)
  with advertised_name obtain name where name: "?n = Some name" by (cases ?n) fastforce+
  have "case provides (gget envelope' ''payload'') of
      None \<Rightarrow> gget envelope' ''payload'' = GNil \<and> Sps_Required params = []
    | Some (given, raw) \<Rightarrow> parameters_met params given raw" if p: "Sk_Parameters skill = Some params" for params
  proof -
    from result skill p have "validateSkillActivationPayload skill (gget envelope' ''payload'')
        (asStringAny (gget envelope' ''payload_format'')) = []" by simp
    from payload_provides [OF p advertised_parameters [OF skill p] this] show ?thesis by auto
  qed
  then show ?thesis
    unfolding activation_meets_def using skill name norm
    by (intro exI [of _ name] exI [of _ skill] exI [of _ envelope']) (simp split: option.split)
qed

text \<open>An agent that advertises a skill with one parameter, and a message that activates it.\<close>

definition demo_metadata :: gmap where
  "demo_metadata = gmap_of [(AgentMetadataKeySkills, GList [GMap (gmap_of
     [(''name'', GStr ''weather''), (''description'', GStr ''looks it up''),
      (''parameters'', GMap (gmap_of [(''format'', GStr ''json''), (''required'', GList [GMap (gmap_of
         [(''name'', GStr ''city''), (''description'', GStr ''where'')])])]))])])]"

definition demo_activation :: string where
  "demo_activation = json_text (JObj [(''type'', JStr ''skill_request''), (''skill_name'', JStr ''Weather''),
     (''payload'', JObj [(''city'', JStr ''Oslo'')])])"

end
