(* ===== verification/Views.thy ===== *)
theory Views
  imports Orgs Messages Agents Metadata GoSort
begin

text \<open>
  The read-only operations of \<^verbatim>\<open>internal/store/memory.go\<close>: the lists an organisation or a human may
  see, and the snapshot for an administrator with its message metrics.  Where the source ranges over
  a map without sorting, the lists here are in the order of the keys.
\<close>

section \<open>Lists\<close>

definition GetOrganization :: "string \<Rightarrow> memory_store \<Rightarrow> store_error + organization" where
  "GetOrganization orgID s = (case fmlookup (orgs s) orgID of None \<Rightarrow> Inl ErrOrgNotFound | Some org \<Rightarrow> Inr org)"

definition ListMyMemberships :: "string \<Rightarrow> memory_store \<Rightarrow> (membership \<times> organization) list" where
  "ListMyMemberships humanID s =
     List.map_filter (\<lambda>m.
       if Mem_HumanID m \<noteq> humanID \<or> Mem_Status m \<noteq> StatusActive then None
       else map_option (\<lambda>org. (m, org)) (fmlookup (orgs s) (Mem_OrgID m))) (sorted_values (memberships s))"

definition ListInvitesForHuman ::
  "string \<Rightarrow> string \<Rightarrow> bool \<Rightarrow> time \<Rightarrow> memory_store \<Rightarrow> (invite \<times> organization) list" where
  "ListInvitesForHuman humanID humanEmail isSuperAdmin now s =
     (let email = ToLower (TrimSpace humanEmail) in
      sort_by (\<lambda>x y. Inv_CreatedAt (fst x) > Inv_CreatedAt (fst y))
        (List.map_filter (\<lambda>inv.
           if \<not> isSuperAdmin \<and> (email = [] \<or> \<not> EqualFold (Inv_Email inv) email) then None
           else map_option (\<lambda>org. (deriveInviteStatus inv now, org)) (fmlookup (orgs s) (Inv_OrgID inv)))
         (sorted_values (invites s))))"

definition ListOrgInvites :: "string \<Rightarrow> string \<Rightarrow> bool \<Rightarrow> time \<Rightarrow> memory_store \<Rightarrow> store_error + invite list" where
  "ListOrgInvites orgID requesterHumanID isSuperAdmin now s =
     (if fmlookup (orgs s) orgID = None then Inl ErrOrgNotFound
      else if \<not> isSuperAdmin \<and> \<not> hasRoleAtLeast (membershipRoleLocked s orgID requesterHumanID) RoleAdmin
      then Inl ErrUnauthorizedRole
      else Inr (sort_by (\<lambda>x y. Inv_CreatedAt x > Inv_CreatedAt y)
        (map (\<lambda>inv. deriveInviteStatus inv now) (filter (\<lambda>inv. Inv_OrgID inv = orgID) (sorted_values (invites s))))))"

record org_human_view =
  OHV_HumanID :: string
  OHV_Handle :: string
  OHV_Email :: string
  OHV_Role :: string
  OHV_Status :: string
  OHV_AuthProvider :: string
  OHV_Metadata :: gmap

definition ListOrgHumans :: "string \<Rightarrow> string \<Rightarrow> bool \<Rightarrow> memory_store \<Rightarrow> store_error + org_human_view list" where
  "ListOrgHumans orgID requesterHumanID isSuperAdmin s =
     (if fmlookup (orgs s) orgID = None then Inl ErrOrgNotFound
      else if \<not> isSuperAdmin \<and> membershipRoleLocked s orgID requesterHumanID = [] then Inl ErrUnauthorizedRole
      else Inr (List.map_filter (\<lambda>m.
        if Mem_OrgID m \<noteq> orgID \<or> Mem_Status m \<noteq> StatusActive then None
        else map_option (\<lambda>h. \<lparr>OHV_HumanID = Human_HumanID h, OHV_Handle = Human_Handle h, OHV_Email = Human_Email h,
            OHV_Role = Mem_Role m, OHV_Status = Mem_Status m, OHV_AuthProvider = Human_AuthProvider h,
            OHV_Metadata = Human_Metadata h\<rparr>) (fmlookup (humans s) (Mem_HumanID m)))
        (sorted_values (memberships s))))"

definition ListOrgAccessKeys :: "string \<Rightarrow> string \<Rightarrow> bool \<Rightarrow> memory_store \<Rightarrow> store_error + org_access_key list" where
  "ListOrgAccessKeys orgID actorHumanID isSuperAdmin s =
     (if fmlookup (orgs s) orgID = None then Inl ErrOrgNotFound
      else if \<not> isSuperAdmin \<and> \<not> hasRoleAtLeast (membershipRoleLocked s orgID actorHumanID) RoleAdmin
      then Inl ErrUnauthorizedRole
      else Inr (sort_by (\<lambda>x y. Key_CreatedAt x > Key_CreatedAt y)
        (filter (\<lambda>k. Key_OrgID k = orgID) (sorted_values (orgAccessKeys s)))))"

definition ListOrgAgents :: "string \<Rightarrow> string \<Rightarrow> bool \<Rightarrow> memory_store \<Rightarrow> store_error + agent list" where
  "ListOrgAgents orgID requesterHumanID isSuperAdmin s =
     (if fmlookup (orgs s) orgID = None then Inl ErrOrgNotFound
      else if \<not> isSuperAdmin \<and> membershipRoleLocked s orgID requesterHumanID = [] then Inl ErrUnauthorizedRole
      else Inr (filter (\<lambda>a. Agent_OrgID a = orgID) (sorted_values (agents s))))"

definition ListOrgHumanAgents ::
  "string \<Rightarrow> string \<Rightarrow> string \<Rightarrow> bool \<Rightarrow> memory_store \<Rightarrow> store_error + agent list" where
  "ListOrgHumanAgents orgID humanID requesterHumanID isSuperAdmin s =
     (let orgID = TrimSpace orgID; humanID = TrimSpace humanID; requesterHumanID = TrimSpace requesterHumanID in
      if fmlookup (orgs s) orgID = None then Inl ErrOrgNotFound
      else if membershipRoleLocked s orgID humanID = [] then Inl ErrMembershipNotFound
      else if \<not> isSuperAdmin \<and> membershipRoleLocked s orgID requesterHumanID \<noteq> RoleOwner
      then Inl ErrUnauthorizedRole
      else Inr (filter (\<lambda>a. (case Agent_OwnerHumanID a of None \<Rightarrow> False | Some h \<Rightarrow> TrimSpace h = humanID) \<and>
          (Agent_OrgID a = [] \<or> Agent_OrgID a = orgID)) (sorted_values (agents s))))"

definition ListHumanAgents :: "string \<Rightarrow> memory_store \<Rightarrow> agent list" where
  "ListHumanAgents humanID s =
     sort_by (\<lambda>x y. if Agent_CreatedAt x = Agent_CreatedAt y then Agent_AgentID x < Agent_AgentID y
         else Agent_CreatedAt x > Agent_CreatedAt y)
       (filter (\<lambda>a. canManageAgentLocked s a humanID) (sorted_values (agents s)))"

definition ListHumanAgentTrusts :: "string \<Rightarrow> memory_store \<Rightarrow> trust_edge list" where
  "ListHumanAgentTrusts humanID s =
     sort_by (\<lambda>x y. if Edge_UpdatedAt x = Edge_UpdatedAt y then Edge_EdgeID x < Edge_EdgeID y
         else Edge_UpdatedAt x > Edge_UpdatedAt y)
       (filter (\<lambda>e. case (fmlookup (agents s) (Edge_LeftID e), fmlookup (agents s) (Edge_RightID e)) of
            (Some l, Some r) \<Rightarrow> canManageAgentLocked s l humanID \<or> canManageAgentLocked s r humanID
          | _ \<Rightarrow> False) (sorted_values (agentTrusts s)))"

definition ListAudit :: "string \<Rightarrow> string \<Rightarrow> bool \<Rightarrow> memory_store \<Rightarrow> store_error + audit_event list" where
  "ListAudit orgID requesterHumanID isSuperAdmin s =
     (if fmlookup (orgs s) orgID = None then Inl ErrOrgNotFound
      else if \<not> isSuperAdmin \<and> membershipRoleLocked s orgID requesterHumanID = [] then Inl ErrUnauthorizedRole
      else Inr (case fmlookup (auditByOrg s) orgID of None \<Rightarrow> [] | Some es \<Rightarrow> es))"

definition ListOrgTrustGraph ::
  "string \<Rightarrow> string \<Rightarrow> bool \<Rightarrow> memory_store \<Rightarrow> store_error + trust_edge list \<times> trust_edge list" where
  "ListOrgTrustGraph orgID requesterHumanID isSuperAdmin s =
     (if fmlookup (orgs s) orgID = None then Inl ErrOrgNotFound
      else if \<not> isSuperAdmin \<and> membershipRoleLocked s orgID requesterHumanID = [] then Inl ErrUnauthorizedRole
      else Inr
        (filter (\<lambda>e. Edge_LeftID e = orgID \<or> Edge_RightID e = orgID) (sorted_values (orgTrusts s)),
         filter (\<lambda>e. case (fmlookup (agents s) (Edge_LeftID e), fmlookup (agents s) (Edge_RightID e)) of
             (Some l, Some r) \<Rightarrow> Agent_OrgID l = orgID \<or> Agent_OrgID r = orgID
           | _ \<Rightarrow> False) (sorted_values (agentTrusts s))))"

section \<open>Message metrics\<close>

record archive_entry =
  Arc_MessageID :: string
  Arc_CounterpartyAgentUUID :: string
  Arc_CounterpartyAgentID :: string
  Arc_CounterpartyAgentURI :: string
  Arc_CounterpartyOrgID :: string
  Arc_ContentType :: string
  Arc_PublishedAt :: time
  Arc_FirstReceivedAt :: "time option"
  Arc_Status :: string

definition fromArchiveEntry :: "message_record \<Rightarrow> archive_entry option" where
  "fromArchiveEntry r =
     (let m = Rec_Message r in
      if TrimSpace (Msg_MessageID m) = [] then None
      else Some \<lparr>Arc_MessageID = Msg_MessageID m, Arc_CounterpartyAgentUUID = TrimSpace (Msg_ToAgentUUID m),
        Arc_CounterpartyAgentID = TrimSpace (Msg_ToAgentID m), Arc_CounterpartyAgentURI = TrimSpace (Msg_ToAgentURI m),
        Arc_CounterpartyOrgID = TrimSpace (Msg_ReceiverOrgID m),
        Arc_ContentType = normalizedArchiveContentType (Msg_ContentType m), Arc_PublishedAt = Msg_CreatedAt m,
        Arc_FirstReceivedAt = Rec_FirstReceivedAt r, Arc_Status = TrimSpace (Rec_Status r)\<rparr>)"

definition toArchiveEntry :: "message_record \<Rightarrow> archive_entry option" where
  "toArchiveEntry r =
     (let m = Rec_Message r in
      if TrimSpace (Msg_MessageID m) = [] \<or> Rec_FirstReceivedAt r = None then None
      else Some \<lparr>Arc_MessageID = Msg_MessageID m, Arc_CounterpartyAgentUUID = TrimSpace (Msg_FromAgentUUID m),
        Arc_CounterpartyAgentID = TrimSpace (Msg_FromAgentID m), Arc_CounterpartyAgentURI = TrimSpace (Msg_FromAgentURI m),
        Arc_CounterpartyOrgID = TrimSpace (Msg_SenderOrgID m),
        Arc_ContentType = normalizedArchiveContentType (Msg_ContentType m), Arc_PublishedAt = Msg_CreatedAt m,
        Arc_FirstReceivedAt = Rec_FirstReceivedAt r, Arc_Status = TrimSpace (Rec_Status r)\<rparr>)"

record agent_metrics =
  AM_AgentUUID :: string
  AM_AgentID :: string
  AM_OrgID :: string
  AM_OwnerHumanID :: "string option"
  AM_AgentType :: string
  AM_OutboxMessages :: int
  AM_InboxMessages :: int
  AM_From :: "archive_entry list"
  AM_To :: "archive_entry list"

record type_rollup =
  Roll_AgentType :: string
  Roll_AgentCount :: int
  Roll_OutboxMessages :: int
  Roll_InboxMessages :: int

text \<open>\<^verbatim>\<open>HumanMessageMetrics\<close> and \<^verbatim>\<open>OrganizationMessageMetrics\<close>, which differ in the name of the id.\<close>

record linked_metrics =
  Lnk_ID :: string
  Lnk_LinkedAgents :: int
  Lnk_OutboxMessages :: int
  Lnk_InboxMessages :: int
  Lnk_AgentTypeTotals :: "type_rollup list"

definition accumulateAgentTypeTotals :: "type_rollup gomap \<Rightarrow> string \<Rightarrow> int \<Rightarrow> int \<Rightarrow> type_rollup gomap" where
  "accumulateAgentTypeTotals totals agentType outbox inbox =
     (let t = normalizeAgentTypeOrUnknown agentType;
          r = (case fmlookup totals t of
                 None \<Rightarrow> \<lparr>Roll_AgentType = t, Roll_AgentCount = 0, Roll_OutboxMessages = 0, Roll_InboxMessages = 0\<rparr>
               | Some r \<Rightarrow> r) in
      fmupd t (r\<lparr>Roll_AgentCount := Roll_AgentCount r + 1, Roll_OutboxMessages := Roll_OutboxMessages r + outbox,
        Roll_InboxMessages := Roll_InboxMessages r + inbox\<rparr>) totals)"

definition flattenTypeRollups :: "type_rollup gomap \<Rightarrow> type_rollup list" where
  "flattenTypeRollups source = sorted_values source"

text \<open>One agent is added to the metrics of the owner that it is linked to, if that is known.\<close>

definition link_agent ::
  "(agent_metrics \<Rightarrow> string option) \<Rightarrow> (linked_metrics \<times> type_rollup gomap) gomap \<Rightarrow> agent_metrics \<Rightarrow>
   (linked_metrics \<times> type_rollup gomap) gomap" where
  "link_agent owner byID a =
     (case Option.bind (owner a) (fmlookup byID) of
        None \<Rightarrow> byID
      | Some (m, totals) \<Rightarrow>
          fmupd (the (owner a))
            (m\<lparr>Lnk_LinkedAgents := Lnk_LinkedAgents m + 1, Lnk_OutboxMessages := Lnk_OutboxMessages m + AM_OutboxMessages a,
               Lnk_InboxMessages := Lnk_InboxMessages m + AM_InboxMessages a\<rparr>,
             accumulateAgentTypeTotals totals (AM_AgentType a) (AM_OutboxMessages a) (AM_InboxMessages a)) byID)"

definition linked_totals ::
  "(agent_metrics \<Rightarrow> string option) \<Rightarrow> 'v gomap \<Rightarrow> agent_metrics list \<Rightarrow> linked_metrics list" where
  "linked_totals owner ids as =
     (let start = fmmap_keys (\<lambda>i _. (\<lparr>Lnk_ID = i, Lnk_LinkedAgents = 0, Lnk_OutboxMessages = 0,
            Lnk_InboxMessages = 0, Lnk_AgentTypeTotals = []\<rparr>, fmempty)) ids in
      map (\<lambda>(m, totals). m\<lparr>Lnk_AgentTypeTotals := flattenTypeRollups totals\<rparr>)
        (sorted_values (foldl (link_agent owner) start as)))"

definition buildHumanMessageMetricsLocked :: "human gomap \<Rightarrow> agent_metrics list \<Rightarrow> linked_metrics list" where
  "buildHumanMessageMetricsLocked hs as = linked_totals (\<lambda>a. map_option TrimSpace (AM_OwnerHumanID a)) hs as"

definition buildOrganizationMessageMetricsLocked :: "organization gomap \<Rightarrow> agent_metrics list \<Rightarrow> linked_metrics list" where
  "buildOrganizationMessageMetricsLocked os as =
     linked_totals (\<lambda>a. if TrimSpace (AM_OrgID a) = [] then None else Some (TrimSpace (AM_OrgID a))) os as"

record admin_metrics =
  Adm_Agents :: "agent_metrics list"
  Adm_Humans :: "linked_metrics list"
  Adm_Organizations :: "linked_metrics list"

definition empty_metrics :: "string \<Rightarrow> agent \<Rightarrow> agent_metrics" where
  "empty_metrics agentUUID a =
     \<lparr>AM_AgentUUID = agentUUID, AM_AgentID = Agent_AgentID a, AM_OrgID = Agent_OrgID a,
      AM_OwnerHumanID = Agent_OwnerHumanID a, AM_AgentType = agentTypeFromMetadata (Agent_Metadata a),
      AM_OutboxMessages = 0, AM_InboxMessages = 0, AM_From = [], AM_To = []\<rparr>"

text \<open>A record is counted for its sender, and for its receiver once that has received it.\<close>

definition count_sent :: "message_record \<Rightarrow> agent_metrics gomap \<Rightarrow> agent_metrics gomap" where
  "count_sent r byID =
     (let u = Msg_FromAgentUUID (Rec_Message r) in
      case (fmlookup byID u, fromArchiveEntry r) of
        (Some m, Some e) \<Rightarrow> fmupd u (m\<lparr>AM_OutboxMessages := AM_OutboxMessages m + 1, AM_From := AM_From m @ [e]\<rparr>) byID
      | _ \<Rightarrow> byID)"

definition count_received :: "message_record \<Rightarrow> agent_metrics gomap \<Rightarrow> agent_metrics gomap" where
  "count_received r byID =
     (let u = Msg_ToAgentUUID (Rec_Message r) in
      case (fmlookup byID u, toArchiveEntry r) of
        (Some m, Some e) \<Rightarrow> fmupd u (m\<lparr>AM_InboxMessages := AM_InboxMessages m + 1, AM_To := AM_To m @ [e]\<rparr>) byID
      | _ \<Rightarrow> byID)"

definition record_order :: "message_record \<Rightarrow> message_record \<Rightarrow> bool" where
  "record_order x y =
     (let mx = Rec_Message x; my = Rec_Message y in
      if Msg_CreatedAt mx = Msg_CreatedAt my then Msg_MessageID mx < Msg_MessageID my
      else Msg_CreatedAt mx < Msg_CreatedAt my)"

definition buildAdminMessageMetricsLocked :: "memory_store \<Rightarrow> admin_metrics" where
  "buildAdminMessageMetricsLocked s =
     (let records = sort_by record_order (sorted_values (messageRecords s));
          as = sorted_values (foldl (\<lambda>m r. count_received r (count_sent r m))
            (fmmap_keys empty_metrics (agents s)) records) in
      \<lparr>Adm_Agents = as, Adm_Humans = buildHumanMessageMetricsLocked (humans s) as,
       Adm_Organizations = buildOrganizationMessageMetricsLocked (orgs s) as\<rparr>)"

section \<open>The snapshot\<close>

record admin_snapshot =
  Snap_Organizations :: "organization list"
  Snap_Humans :: "human list"
  Snap_Memberships :: "membership list"
  Snap_Agents :: "agent list"
  Snap_ArchivedOrganizations :: "organization list"
  Snap_ArchivedHumans :: "human list"
  Snap_ArchivedAgents :: "agent list"
  Snap_OrgTrusts :: "trust_edge list"
  Snap_AgentTrusts :: "trust_edge list"
  Snap_Stats :: "org_stats list"
  Snap_MessageMetrics :: admin_metrics
  Snap_ActivityFeed :: "audit_event list"

definition event_order :: "audit_event \<Rightarrow> audit_event \<Rightarrow> bool" where
  "event_order x y =
     (if Ev_CreatedAt x = Ev_CreatedAt y then Ev_EventID x < Ev_EventID y
      else Ev_CreatedAt x < Ev_CreatedAt y)"

text \<open>The activity of the last 31 days.\<close>

definition AdminSnapshot :: "time \<Rightarrow> memory_store \<Rightarrow> admin_snapshot" where
  "AdminSnapshot now s =
     \<lparr>Snap_Organizations = sorted_values (orgs s), Snap_Humans = sorted_values (humans s),
      Snap_Memberships = sorted_values (memberships s), Snap_Agents = sorted_values (agents s),
      Snap_ArchivedOrganizations = sorted_values (archivedOrgs s), Snap_ArchivedHumans = sorted_values (archivedHumans s),
      Snap_ArchivedAgents = sorted_values (archivedAgents s), Snap_OrgTrusts = sorted_values (orgTrusts s),
      Snap_AgentTrusts = sorted_values (agentTrusts s), Snap_Stats = sorted_values (statsByOrg s),
      Snap_MessageMetrics = buildAdminMessageMetricsLocked s,
      Snap_ActivityFeed = sort_by event_order
        (filter (\<lambda>e. \<not> Ev_CreatedAt e < now - 31 * Day) (concat (sorted_values (auditByOrg s))))\<rparr>"

section \<open>The metrics count the records\<close>

lemma sorted_list_of_fmap_keys: "map fst (sorted_list_of_fmap m) = sorted_keys m"
  by (simp add: sorted_list_of_fmap_def sorted_keys_def comp_def)

lemma sorted_values_keys: "sorted_values m = map (\<lambda>k. the (fmlookup m k)) (sorted_keys m)"
  by (simp add: sorted_values_def sorted_list_of_fmap_def sorted_keys_def comp_def)

lemma sorted_keys_dom: "fmdom m = fmdom m' \<Longrightarrow> sorted_keys m = sorted_keys m'"
  by (simp add: sorted_keys_def)

text \<open>The records that count for a sender and for a receiver.\<close>

definition sent_by :: "string \<Rightarrow> message_record \<Rightarrow> bool" where
  "sent_by u r \<longleftrightarrow> Msg_FromAgentUUID (Rec_Message r) = u \<and> TrimSpace (Msg_MessageID (Rec_Message r)) \<noteq> []"

definition received_by :: "string \<Rightarrow> message_record \<Rightarrow> bool" where
  "received_by u r \<longleftrightarrow> Msg_ToAgentUUID (Rec_Message r) = u \<and> TrimSpace (Msg_MessageID (Rec_Message r)) \<noteq> [] \<and>
     Rec_FirstReceivedAt r \<noteq> None"

definition count_of :: "('a \<Rightarrow> bool) \<Rightarrow> 'a list \<Rightarrow> int" where
  "count_of p xs = int (length (filter p xs))"

lemma count_of_simps [simp]: "count_of p [] = 0" "count_of p (x # xs) = (if p x then 1 else 0) + count_of p xs"
  by (simp_all add: count_of_def)

lemma entry_counts:
  "fromArchiveEntry r \<noteq> None \<longleftrightarrow> sent_by (Msg_FromAgentUUID (Rec_Message r)) r"
  "toArchiveEntry r \<noteq> None \<longleftrightarrow> received_by (Msg_ToAgentUUID (Rec_Message r)) r"
  by (simp_all add: fromArchiveEntry_def toArchiveEntry_def sent_by_def received_by_def Let_def)

text \<open>The metrics of the agent \<open>u\<close> after the records \<open>rs\<close>.\<close>

definition metrics_after :: "string \<Rightarrow> message_record list \<Rightarrow> agent_metrics \<Rightarrow> agent_metrics" where
  "metrics_after u rs x =
     x\<lparr>AM_OutboxMessages := AM_OutboxMessages x + count_of (sent_by u) rs,
       AM_InboxMessages := AM_InboxMessages x + count_of (received_by u) rs,
       AM_From := AM_From x @ List.map_filter fromArchiveEntry (filter (sent_by u) rs),
       AM_To := AM_To x @ List.map_filter toArchiveEntry (filter (received_by u) rs)\<rparr>"

lemma metrics_after_Nil: "metrics_after u [] x = x"
  by (simp add: metrics_after_def List.map_filter_simps)

lemma metrics_after_Cons: "metrics_after u (r # rs) x = metrics_after u rs (metrics_after u [r] x)"
  by (simp add: metrics_after_def List.map_filter_simps split: option.split)

lemma count_record:
  assumes "fmlookup m u = Some x"
  shows "fmlookup (count_received r (count_sent r m)) u = Some (metrics_after u [r] x)"
proof -
  let ?y = "if sent_by u r then x\<lparr>AM_OutboxMessages := AM_OutboxMessages x + 1, AM_From := AM_From x @ [the (fromArchiveEntry r)]\<rparr> else x"
  have "fmlookup (count_sent r m) u = Some ?y"
    using assms entry_counts(1) [of r] by (auto simp: count_sent_def Let_def sent_by_def split: option.split)
  moreover have "fmlookup (count_received r m') u =
      Some (if received_by u r then y\<lparr>AM_InboxMessages := AM_InboxMessages y + 1, AM_To := AM_To y @ [the (toArchiveEntry r)]\<rparr> else y)"
    if "fmlookup m' u = Some y" for m' y
    using that entry_counts(2) [of r] by (auto simp: count_received_def Let_def received_by_def split: option.split)
  moreover have "sent_by u r \<Longrightarrow> fromArchiveEntry r \<noteq> None" "received_by u r \<Longrightarrow> toArchiveEntry r \<noteq> None"
    using entry_counts [of r] by (auto simp: sent_by_def received_by_def)
  ultimately show ?thesis by (auto simp: metrics_after_def List.map_filter_simps)
qed

lemma count_dom: "fmdom (count_received r (count_sent r m)) = fmdom m"
  by (auto simp: count_received_def count_sent_def Let_def fmdomI split: option.split)

lemma count_records:
  assumes "fmlookup m u = Some x"
  shows "fmlookup (foldl (\<lambda>m r. count_received r (count_sent r m)) m rs) u = Some (metrics_after u rs x)"
  using assms
proof (induction rs arbitrary: m x)
  case (Cons r rs)
  from Cons.IH [OF count_record [OF Cons.prems, of r]] show ?case by (simp add: metrics_after_Cons [of u r rs])
qed (simp add: metrics_after_Nil)

lemma count_records_dom: "fmdom (foldl (\<lambda>m r. count_received r (count_sent r m)) m rs) = fmdom m"
  by (induction rs arbitrary: m) (simp_all add: count_dom)

text \<open>The metrics of an owner add up those of the agents linked to it.\<close>

lemma link_agent_dom: "fmdom (link_agent owner m a) = fmdom m"
  by (auto simp: link_agent_def fmdomI bind_eq_Some_conv split: option.split)

lemma link_agents_dom: "fmdom (foldl (link_agent owner) m as) = fmdom m"
  by (induction as arbitrary: m) (simp_all add: link_agent_dom)

lemma link_agents:
  assumes "fmlookup m i = Some (x, t)"
  shows "\<exists>y t'. fmlookup (foldl (link_agent owner) m as) i = Some (y, t') \<and> Lnk_ID y = Lnk_ID x \<and>
    Lnk_LinkedAgents y = Lnk_LinkedAgents x + count_of (\<lambda>a. owner a = Some i) as \<and>
    Lnk_OutboxMessages y = Lnk_OutboxMessages x + sum_list (map AM_OutboxMessages (filter (\<lambda>a. owner a = Some i) as)) \<and>
    Lnk_InboxMessages y = Lnk_InboxMessages x + sum_list (map AM_InboxMessages (filter (\<lambda>a. owner a = Some i) as))"
  using assms
proof (induction as arbitrary: m x t)
  case (Cons a as)
  have "\<exists>y t'. fmlookup (link_agent owner m a) i = Some (y, t') \<and> Lnk_ID y = Lnk_ID x \<and>
      Lnk_LinkedAgents y = Lnk_LinkedAgents x + (if owner a = Some i then 1 else 0) \<and>
      Lnk_OutboxMessages y = Lnk_OutboxMessages x + (if owner a = Some i then AM_OutboxMessages a else 0) \<and>
      Lnk_InboxMessages y = Lnk_InboxMessages x + (if owner a = Some i then AM_InboxMessages a else 0)"
    using Cons.prems by (auto simp: link_agent_def bind_eq_Some_conv split: option.split)
  then obtain y t' where y: "fmlookup (link_agent owner m a) i = Some (y, t')" "Lnk_ID y = Lnk_ID x"
    "Lnk_LinkedAgents y = Lnk_LinkedAgents x + (if owner a = Some i then 1 else 0)"
    "Lnk_OutboxMessages y = Lnk_OutboxMessages x + (if owner a = Some i then AM_OutboxMessages a else 0)"
    "Lnk_InboxMessages y = Lnk_InboxMessages x + (if owner a = Some i then AM_InboxMessages a else 0)" by blast
  from Cons.IH [OF y(1)] y(2-) show ?case by auto
qed auto

lemma count_of_sort [simp]: "count_of p (sort_by lt xs) = count_of p xs"
  unfolding count_of_def by (metis mset_filter mset_sort_by size_mset)

lemma sum_counts:
  assumes "distinct us"
  shows "sum_list (map (\<lambda>u. count_of (\<lambda>r. f r = u \<and> p r) rs) us) = count_of (\<lambda>r. f r \<in> set us \<and> p r) rs"
proof (induction rs)
  case (Cons r rs)
  have "sum_list (map (\<lambda>u. (if f r = u \<and> p r then 1 else 0) + c u) us) =
      (if f r \<in> set us \<and> p r then 1 else 0) + sum_list (map c us)" for c :: "_ \<Rightarrow> int"
    using assms by (induction us) auto
  with Cons show ?case by simp
qed (simp add: sum_list_triv)

text \<open>What an owner is linked to: the agents \<open>u\<close> of the store with \<open>own\<close> of it.\<close>

definition linked_to :: "(agent \<Rightarrow> string option) \<Rightarrow> memory_store \<Rightarrow> string \<Rightarrow> string \<Rightarrow> bool" where
  "linked_to own s i u \<longleftrightarrow> Option.bind (fmlookup (agents s) u) own = Some i"

definition counted :: "(agent \<Rightarrow> string option) \<Rightarrow> memory_store \<Rightarrow> string \<Rightarrow> string \<times> int \<times> int \<times> int" where
  "counted own s i =
     (i, count_of (linked_to own s i) (sorted_keys (agents s)),
      count_of (\<lambda>r. let u = Msg_FromAgentUUID (Rec_Message r) in linked_to own s i u \<and> sent_by u r) (sorted_values (messageRecords s)),
      count_of (\<lambda>r. let u = Msg_ToAgentUUID (Rec_Message r) in linked_to own s i u \<and> received_by u r) (sorted_values (messageRecords s)))"

definition totals_of :: "linked_metrics \<Rightarrow> string \<times> int \<times> int \<times> int" where
  "totals_of m = (Lnk_ID m, Lnk_LinkedAgents m, Lnk_OutboxMessages m, Lnk_InboxMessages m)"

text \<open>What the metrics show of the agent \<open>a\<close> with the identifier \<open>u\<close>, from the records in their order.\<close>

definition agent_counted :: "memory_store \<Rightarrow> string \<Rightarrow> agent \<Rightarrow> agent_metrics" where
  "agent_counted s u a =
     (let records = sort_by record_order (sorted_values (messageRecords s)) in
      \<lparr>AM_AgentUUID = u, AM_AgentID = Agent_AgentID a, AM_OrgID = Agent_OrgID a,
       AM_OwnerHumanID = Agent_OwnerHumanID a, AM_AgentType = agentTypeFromMetadata (Agent_Metadata a),
       AM_OutboxMessages = count_of (sent_by u) records, AM_InboxMessages = count_of (received_by u) records,
       AM_From = List.map_filter fromArchiveEntry (filter (sent_by u) records),
       AM_To = List.map_filter toArchiveEntry (filter (received_by u) records)\<rparr>)"

lemma agents_exact:
  "Adm_Agents (buildAdminMessageMetricsLocked s) =
     map (\<lambda>u. agent_counted s u (the (fmlookup (agents s) u))) (sorted_keys (agents s))"
proof -
  let ?rs = "sort_by record_order (sorted_values (messageRecords s))"
  let ?F = "foldl (\<lambda>m r. count_received r (count_sent r m)) (fmmap_keys empty_metrics (agents s)) ?rs"
  have "sorted_keys ?F = sorted_keys (agents s)" by (rule sorted_keys_dom) (simp add: count_records_dom)
  moreover have "the (fmlookup ?F u) = agent_counted s u (the (fmlookup (agents s) u))"
    if u: "u \<in> set (sorted_keys (agents s))" for u
  proof -
    obtain a where a: "fmlookup (agents s) u = Some a" using u by (auto simp: fmlookup_dom'_iff)
    then have "fmlookup (fmmap_keys empty_metrics (agents s)) u = Some (empty_metrics u a)" by simp
    from count_records [OF this, of ?rs] a show ?thesis
      by (simp add: metrics_after_def empty_metrics_def agent_counted_def Let_def)
  qed
  ultimately show ?thesis
    unfolding buildAdminMessageMetricsLocked_def Let_def agent_metrics.simps admin_metrics.simps
    by (simp add: sorted_values_keys)
qed

lemma linked_exact:
  assumes own: "\<And>x a. AM_OrgID x = Agent_OrgID a \<Longrightarrow> AM_OwnerHumanID x = Agent_OwnerHumanID a \<Longrightarrow> owner x = own a"
  shows "map totals_of (linked_totals owner ids (Adm_Agents (buildAdminMessageMetricsLocked s))) =
    map (counted own s) (sorted_keys ids)"
proof -
  let ?rs = "sort_by record_order (sorted_values (messageRecords s))"
  let ?us = "sorted_keys (agents s)"
  let ?L = "Adm_Agents (buildAdminMessageMetricsLocked s)"
  let ?g = "\<lambda>u. agent_counted s u (the (fmlookup (agents s) u))"
  have L: "?L = map ?g ?us" by (rule agents_exact)
  have g: "owner (?g u) = Option.bind (fmlookup (agents s) u) own \<and> AM_OutboxMessages (?g u) = count_of (sent_by u) ?rs \<and>
      AM_InboxMessages (?g u) = count_of (received_by u) ?rs" if u: "u \<in> set ?us" for u
  proof -
    obtain a where "fmlookup (agents s) u = Some a" using u by (auto simp: fmlookup_dom'_iff)
    then show ?thesis using own [of "?g u" a] by (simp add: agent_counted_def Let_def)
  qed
  let ?start = "fmmap_keys (\<lambda>i _. (\<lparr>Lnk_ID = i, Lnk_LinkedAgents = 0, Lnk_OutboxMessages = 0,
      Lnk_InboxMessages = 0, Lnk_AgentTypeTotals = []\<rparr>, fmempty :: type_rollup gomap)) ids"
  let ?T = "foldl (link_agent owner) ?start ?L"
  have "sorted_keys ?T = sorted_keys ids" by (rule sorted_keys_dom) (simp add: link_agents_dom)
  then have "map totals_of (linked_totals owner ids ?L) =
      map (\<lambda>i. totals_of (fst (the (fmlookup ?T i)))) (sorted_keys ids)"
    unfolding linked_totals_def Let_def by (simp add: sorted_values_keys totals_of_def case_prod_beta comp_def)
  also have "\<dots> = map (counted own s) (sorted_keys ids)"
  proof (rule map_cong [OF refl])
    fix i assume "i \<in> set (sorted_keys ids)"
    then obtain v where "fmlookup ids i = Some v" by (auto simp: fmlookup_dom'_iff)
    then have "fmlookup ?start i = Some (\<lparr>Lnk_ID = i, Lnk_LinkedAgents = 0, Lnk_OutboxMessages = 0,
      Lnk_InboxMessages = 0, Lnk_AgentTypeTotals = []\<rparr>, fmempty)" by simp
    from link_agents [OF this, of owner ?L] obtain y t where y: "fmlookup ?T i = Some (y, t)" "Lnk_ID y = i"
      "Lnk_LinkedAgents y = count_of (\<lambda>a. owner a = Some i) ?L"
      "Lnk_OutboxMessages y = sum_list (map AM_OutboxMessages (filter (\<lambda>a. owner a = Some i) ?L))"
      "Lnk_InboxMessages y = sum_list (map AM_InboxMessages (filter (\<lambda>a. owner a = Some i) ?L))" by auto
    have sel: "filter (\<lambda>a. owner a = Some i) ?L = map ?g (filter (linked_to own s i) ?us)"
      unfolding L filter_map comp_def using g by (intro arg_cong [where f = "map ?g"] filter_cong) (auto simp: linked_to_def)
    have mem: "u \<in> set (filter (linked_to own s i) ?us) \<longleftrightarrow> linked_to own s i u" for u
      by (auto simp: linked_to_def bind_eq_Some_conv fmlookup_dom'_iff)
    have m: "map AM_OutboxMessages (map ?g (filter (linked_to own s i) ?us)) =
        map (\<lambda>u. count_of (sent_by u) ?rs) (filter (linked_to own s i) ?us)" using g by auto
    have out: "Lnk_OutboxMessages y = count_of (\<lambda>r. linked_to own s i (Msg_FromAgentUUID (Rec_Message r)) \<and>
        sent_by (Msg_FromAgentUUID (Rec_Message r)) r) (sorted_values (messageRecords s))"
      unfolding y(4) sel m
      using sum_counts [of "filter (linked_to own s i) ?us" "\<lambda>r. Msg_FromAgentUUID (Rec_Message r)"
        "\<lambda>r. TrimSpace (Msg_MessageID (Rec_Message r)) \<noteq> []" ?rs]
      unfolding mem sent_by_def [abs_def] by simp
    have m: "map AM_InboxMessages (map ?g (filter (linked_to own s i) ?us)) =
        map (\<lambda>u. count_of (received_by u) ?rs) (filter (linked_to own s i) ?us)" using g by auto
    have inb: "Lnk_InboxMessages y = count_of (\<lambda>r. linked_to own s i (Msg_ToAgentUUID (Rec_Message r)) \<and>
        received_by (Msg_ToAgentUUID (Rec_Message r)) r) (sorted_values (messageRecords s))"
      unfolding y(5) sel m
      using sum_counts [of "filter (linked_to own s i) ?us" "\<lambda>r. Msg_ToAgentUUID (Rec_Message r)"
        "\<lambda>r. TrimSpace (Msg_MessageID (Rec_Message r)) \<noteq> [] \<and> Rec_FirstReceivedAt r \<noteq> None" ?rs]
      unfolding mem received_by_def [abs_def] by simp
    have "Lnk_LinkedAgents y = count_of (linked_to own s i) ?us"
      unfolding y(3) count_of_def sel by simp
    then show "totals_of (fst (the (fmlookup ?T i))) = counted own s i"
      using y(1,2) out inb by (simp add: totals_of_def counted_def Let_def)
  qed
  finally show ?thesis .
qed

text \<open>
  C33: the message metrics for administrators are exact.  What the snapshot shows of every agent,
  accumulated record by record, is the number of the messages it sent and of those it received, with
  their archive entries in the order of the records.  What it shows of every organisation and of every
  human, accumulated agent by agent, is the number of agents linked to it, of the messages they sent
  and of those they received.  The totals per type of agent are not compared.
\<close>

theorem message_metrics_exact:
  "Adm_Agents (buildAdminMessageMetricsLocked s) =
     map (\<lambda>u. agent_counted s u (the (fmlookup (agents s) u))) (sorted_keys (agents s)) \<and>
   map totals_of (Adm_Organizations (buildAdminMessageMetricsLocked s)) =
     map (counted (\<lambda>a. if TrimSpace (Agent_OrgID a) = [] then None else Some (TrimSpace (Agent_OrgID a))) s)
       (sorted_keys (orgs s)) \<and>
   map totals_of (Adm_Humans (buildAdminMessageMetricsLocked s)) =
     map (counted (\<lambda>a. map_option TrimSpace (Agent_OwnerHumanID a)) s) (sorted_keys (humans s))"
proof -
  let ?L = "Adm_Agents (buildAdminMessageMetricsLocked s)"
  have "Adm_Organizations (buildAdminMessageMetricsLocked s) = buildOrganizationMessageMetricsLocked (orgs s) ?L"
    "Adm_Humans (buildAdminMessageMetricsLocked s) = buildHumanMessageMetricsLocked (humans s) ?L"
    by (simp_all add: buildAdminMessageMetricsLocked_def Let_def)
  then show ?thesis
    unfolding buildOrganizationMessageMetricsLocked_def buildHumanMessageMetricsLocked_def
    by (simp only:) (intro conjI agents_exact linked_exact; simp)
qed

end
