(* ===== verification/Identity.thy ===== *)
theory Identity
  imports GoURL Handles Model
begin

text \<open>
  \<^verbatim>\<open>internal/api/identity_uri.go\<close> and the functions of \<^verbatim>\<open>internal/api/handlers_federation.go\<close> and
  \<^verbatim>\<open>internal/api/router.go\<close> that read agent URIs and identifiers: the URI of an agent on a hub, and the
  hub and the agent reference that a URI names.
\<close>

section \<open>The code\<close>

definition normalizeCanonicalBaseURL :: "string \<Rightarrow> string" where
  "normalizeCanonicalBaseURL raw =
     (let trimmed = TrimSpace raw in
      if trimmed = [] then []
      else
        let trimmed = (if \<not> str_contains trimmed ''://'' then ''https://'' @ trimmed else trimmed) in
        (case ParseURL trimmed of
           None \<Rightarrow> []
         | Some parsed \<Rightarrow>
             if url_Scheme parsed \<noteq> ''http'' \<and> url_Scheme parsed \<noteq> ''https'' then []
             else if TrimSpace (url_Host parsed) = [] then []
             else TrimRight (url_String (parsed\<lparr>url_Path := [], url_RawPath := [], url_RawQuery := [],
               url_Fragment := []\<rparr>)) ''/''))"

definition buildCanonicalEntityPathURI :: "string \<Rightarrow> string \<Rightarrow> string" where
  "buildCanonicalEntityPathURI baseURL path =
     (let baseURL = normalizeCanonicalBaseURL baseURL; path = TrimSpace path in
      if baseURL = [] \<or> path = [] then []
      else baseURL @ (if HasPrefix path ''/'' then path else CHR ''/'' # path))"

definition escapePathSegments :: "string \<Rightarrow> string" where
  "escapePathSegments v =
     (let v = TrimSpace v in
      if v = [] then [] else join_with ''/'' (map PathEscape (split_on (CHR ''/'') v)))"

text \<open>The first argument is the canonical base URL of the hub.\<close>

definition organizationURI :: "string \<Rightarrow> organization \<Rightarrow> string" where
  "organizationURI base org = buildCanonicalEntityPathURI base (''/orgs/'' @ PathEscape (TrimSpace (Org_Handle org)))"

definition humanURI :: "string \<Rightarrow> human \<Rightarrow> string" where
  "humanURI base h = buildCanonicalEntityPathURI base (''/humans/'' @ PathEscape (TrimSpace (Human_Handle h)))"

definition agentURI :: "string \<Rightarrow> agent \<Rightarrow> string" where
  "agentURI base a = buildCanonicalEntityPathURI base (''/'' @ escapePathSegments (Agent_AgentID a))"

text \<open>The hub that a URI names and the reference of the agent there, or nothing.\<close>

definition splitCanonicalAgentURI :: "string \<Rightarrow> (string \<times> string) option" where
  "splitCanonicalAgentURI raw =
     (case ParseURL (TrimSpace raw) of
        None \<Rightarrow> None
      | Some parsed \<Rightarrow>
          if url_Scheme parsed = [] \<or> url_Host parsed = [] then None
          else
            let path = Trim (TrimSpace (url_Path parsed)) ''/'' in
            if path = [] then None
            else if HasPrefix path ''orgs/'' \<or> HasPrefix path ''humans/'' then None
            else case PathUnescape path of
              None \<Rightarrow> None
            | Some ref \<Rightarrow>
                if ValidateAgentRef ref \<noteq> None then None
                else Some (normalizeCanonicalBaseURL (url_Scheme parsed @ ''://'' @ url_Host parsed), ref))"

definition remoteOrgHandleFromAgentRef :: "string \<Rightarrow> string" where
  "remoteOrgHandleFromAgentRef agentRef =
     (let parts = split_on (CHR ''/'') (Trim agentRef ''/'') in
      if length parts < 2 then []
      else if length parts \<ge> 4 \<and> parts ! 0 = ''human'' \<and> parts ! 2 = ''agent'' then Normalize (parts ! 1)
      else Normalize (parts ! 0))"

definition normalizeUUID :: "string \<Rightarrow> string" where
  "normalizeUUID raw = ToLower (TrimSpace raw)"

text \<open>\<^verbatim>\<open>^[0-9a-f]\{8\}-[0-9a-f]\{4\}-[1-5][0-9a-f]\{3\}-[89ab][0-9a-f]\{3\}-[0-9a-f]\{12\}$\<close>\<close>

definition hex_lower_char :: "char \<Rightarrow> bool" where
  "hex_lower_char c \<longleftrightarrow> is_digit c \<or> c \<in> set ''abcdef''"

definition uuid_char :: "nat \<Rightarrow> char \<Rightarrow> bool" where
  "uuid_char i c =
     (if i \<in> {8, 13, 18, 23} then c = CHR ''-''
      else if i = 14 then c \<in> set ''12345''
      else if i = 19 then c \<in> set ''89ab''
      else hex_lower_char c)"

definition validateUUID :: "string \<Rightarrow> bool" where
  "validateUUID raw \<longleftrightarrow> length raw = 36 \<and> list_all (\<lambda>(i, c). uuid_char i c) (zip [0..<36] raw)"

section \<open>URIs of a hub with a plain address\<close>

definition host_char :: "char \<Rightarrow> bool" where
  "host_char c \<longleftrightarrow> c \<notin> set ''/?#'' \<and> \<not> is_space c \<and> \<not> of_char c < (32 :: nat) \<and> of_char c \<noteq> (127 :: nat) \<and>
     \<not> shouldEscape encodeHost c"

text \<open>The scheme and the host of a hub, where the host needs no escapes.\<close>

definition plain_base :: "string \<Rightarrow> string \<Rightarrow> bool" where
  "plain_base scheme host \<longleftrightarrow> scheme \<in> {''http'', ''https''} \<and> host \<noteq> [] \<and>
     parseAuthority host = Some (None, host) \<and> list_all host_char host"

definition base_url :: "string \<Rightarrow> string \<Rightarrow> string" where
  "base_url scheme host = scheme @ ''://'' @ host"

text \<open>The characters of handles, and slashes.\<close>

definition ref_char :: "char \<Rightarrow> bool" where
  "ref_char c \<longleftrightarrow> is_alnum c \<or> is_sep c \<or> c = CHR ''/''"

lemma ref_char_plain:
  assumes "ref_char c"
  shows "\<not> shouldEscape encodePath c \<and> (c \<noteq> CHR ''/'' \<longrightarrow> \<not> shouldEscape encodePathSegment c) \<and> \<not> is_space c \<and>
    c \<notin> set ''?#%'' \<and> \<not> of_char c < (32 :: nat) \<and> of_char c \<noteq> (127 :: nat)"
proof -
  have chars: "\<forall>c. ref_char c \<longrightarrow> c \<in> set ''abcdefghijklmnopqrstuvwxyz0123456789-_./''"
    by code_simp
  have "list_all (\<lambda>c. \<not> shouldEscape encodePath c \<and> (c \<noteq> CHR ''/'' \<longrightarrow> \<not> shouldEscape encodePathSegment c) \<and> \<not> is_space c \<and>
    c \<notin> set ''?#%'' \<and> \<not> of_char c < (32 :: nat) \<and> of_char c \<noteq> (127 :: nat)) ''abcdefghijklmnopqrstuvwxyz0123456789-_./''"
    by code_simp
  with assms chars show ?thesis unfolding list_all_iff by blast
qed

lemma parse_rest_plain:
  assumes base: "plain_base scheme host" and p: "p = [] \<or> hd p = CHR ''/''" "list_all ref_char p"
  shows "parse_rest scheme (''//'' @ host @ p) = Some (empty_url\<lparr>url_Scheme := scheme, url_Host := host, url_Path := p\<rparr>)"
proof -
  let ?rest = "''//'' @ host @ p"
  have plain: "list_all (\<lambda>c. c \<noteq> CHR ''?'') ?rest" "list_all (\<lambda>c. c \<noteq> CHR ''/'') host"
    using base p(2) ref_char_plain by (auto simp: plain_base_def list_all_iff host_char_def)
  then have nq: "CHR ''?'' \<notin> set ?rest" by (auto simp: list_all_iff)
  have scheme: "scheme \<noteq> []" using base by (auto simp: plain_base_def)
  have suffix: "\<not> HasSuffix ?rest ''?''" by (rule not_HasSuffix [OF nq])
  have auth: "takeWhile (\<lambda>c. c \<noteq> CHR ''/'') (host @ p) = host" "dropWhile (\<lambda>c. c \<noteq> CHR ''/'') (host @ p) = p"
    using plain(2) p(1) by (cases p; simp add: list_all_iff takeWhile_append dropWhile_append)+
  have "list_all (\<lambda>c. \<not> shouldEscape encodePath c) p" using p(2) ref_char_plain by (auto simp: list_all_iff)
  then have path: "setPath p u = Some (u\<lparr>url_Path := p, url_RawPath := []\<rparr>)" for u
    by (simp add: setPath_def unescape_id escape_id del: unescape.simps)
  have pre: "HasPrefix ?rest ''/''" "HasPrefix ?rest ''//''" "drop 2 ?rest = host @ p" by (simp_all add: HasPrefix_def)
  show ?thesis
    using Cut_none [OF nq] suffix base pre scheme
    by (simp add: parse_rest_def Let_def auth path plain_base_def empty_url_def)
qed

lemma ParseURL_plain:
  assumes base: "plain_base scheme host" and p: "p = [] \<or> hd p = CHR ''/''" "list_all ref_char p"
  shows "ParseURL (base_url scheme host @ p) = Some (empty_url\<lparr>url_Scheme := scheme, url_Host := host, url_Path := p\<rparr>)"
proof -
  let ?raw = "base_url scheme host @ p"
  have schemes: "list_all (\<lambda>c. c \<noteq> CHR ''#'' \<and> \<not> of_char c < (32 :: nat) \<and> of_char c \<noteq> (127 :: nat)) ''http://https''"
    by code_simp
  have "c \<noteq> CHR ''#'' \<and> \<not> of_char c < (32 :: nat) \<and> of_char c \<noteq> (127 :: nat)" if "c \<in> set ?raw" for c
  proof -
    from that base consider "c \<in> set ''http://https''" | "c \<in> set host" | "c \<in> set p"
      by (auto simp: plain_base_def base_url_def)
    then show ?thesis
    proof cases
      case 1
      with schemes show ?thesis unfolding list_all_iff by blast
    next
      case 2
      with base have "host_char c" by (simp add: plain_base_def list_all_iff)
      then show ?thesis by (auto simp: host_char_def)
    next
      case 3
      with p(2) have "ref_char c" by (simp add: list_all_iff)
      from ref_char_plain [OF this] show ?thesis by auto
    qed
  qed
  then have hash: "CHR ''#'' \<notin> set ?raw" and ctl: "\<not> list_ex (\<lambda>c. of_char c < (32 :: nat) \<or> of_char c = (127 :: nat)) ?raw"
    unfolding list_ex_iff by blast+
  have "list_all is_lower ''https'' \<and> \<not> is_lower (CHR '':'') \<and> \<not> is_upper (CHR '':'') \<and> \<not> is_digit (CHR '':'')"
    by code_simp
  then have get: "get_scheme r [] (''http://'' @ q) = Some (''http'', ''//'' @ q)"
    "get_scheme r [] (''https://'' @ q) = Some (''https'', ''//'' @ q)" for r q by simp_all
  have cases: "scheme = ''http'' \<or> scheme = ''https''" using base by (simp add: plain_base_def)
  have scheme: "get_scheme r [] ?raw = Some (scheme, ''//'' @ host @ p)" for r
    using cases
  proof
    assume s: "scheme = ''http''"
    then have raw: "?raw = ''http://'' @ host @ p" by (simp add: base_url_def)
    show ?thesis unfolding raw unfolding get(1) s by (rule refl)
  next
    assume s: "scheme = ''https''"
    then have raw: "?raw = ''https://'' @ host @ p" by (simp add: base_url_def)
    show ?thesis unfolding raw unfolding get(2) s by (rule refl)
  qed
  have "ToLower ''http'' = ''http''" "ToLower ''https'' = ''https''" by code_simp+
  then have lower: "ToLower scheme = scheme" using cases by (elim disjE) simp_all
  have star: "?raw \<noteq> ''*''" using cases by (auto simp: base_url_def)
  let ?u = "empty_url\<lparr>url_Scheme := scheme, url_Host := host, url_Path := p\<rparr>"
  have "ParseURL ?raw = map_option (\<lambda>f. ?u\<lparr>url_Fragment := f\<rparr>) (Some [])"
    unfolding ParseURL_def Cut_none [OF hash] Let_def prod.case if_not_P [OF ctl] if_not_P [OF star] scheme option.case lower
      parse_rest_plain [OF assms] by simp
  then show ?thesis by (simp add: empty_url_def)
qed

lemma url_String_plain:
  assumes "plain_base scheme host"
  shows "url_String (empty_url\<lparr>url_Scheme := scheme, url_Host := host\<rparr>) = base_url scheme host"
proof -
  have "escape encodeHost host = host"
    using assms by (intro escape_id) (auto simp: plain_base_def host_char_def list_all_iff)
  moreover have "scheme \<noteq> []" "host \<noteq> []" using assms by (auto simp: plain_base_def)
  ultimately show ?thesis
    by (simp add: url_String_def empty_url_def EscapedPath_def url_authority_def base_url_def Let_def escape_def [of encodePath])
qed

lemma base_no_space: "plain_base scheme host \<Longrightarrow> list_all (\<lambda>c. \<not> is_space c) (base_url scheme host)"
proof -
  assume base: "plain_base scheme host"
  have "list_all (\<lambda>c. \<not> is_space c) ''http://https''" by code_simp
  moreover have "list_all (\<lambda>c. \<not> is_space c) host" using base by (auto simp: plain_base_def host_char_def list_all_iff)
  moreover have "scheme = ''http'' \<or> scheme = ''https''" using base by (simp add: plain_base_def)
  ultimately show ?thesis by (auto simp: base_url_def)
qed

lemma TrimSpace_id: "list_all (\<lambda>c. \<not> is_space c) s \<Longrightarrow> TrimSpace s = s"
  unfolding TrimSpace_def by (intro trim_by_none) (auto simp: list_all_iff)

lemma str_contains_skip: "str_contains s sub \<Longrightarrow> str_contains (c # s) sub"
  by simp

lemma normalize_plain:
  assumes "plain_base scheme host"
  shows "normalizeCanonicalBaseURL (base_url scheme host) = base_url scheme host" "base_url scheme host \<noteq> []"
proof -
  have host: "host \<noteq> []" "last host \<noteq> CHR ''/''" "TrimSpace host = host"
    using assms TrimSpace_id [of host] by (auto simp: plain_base_def host_char_def list_all_iff)
  have "str_contains (''://'' @ host) ''://''" by simp
  then have has: "str_contains (base_url scheme host) ''://''"
    using assms by (auto simp: base_url_def plain_base_def)
  have ends: "TrimRight (base_url scheme host) ''/'' = base_url scheme host"
    using host(1,2) by (cases host rule: rev_cases) (auto simp: TrimRight_def base_url_def)
  show "base_url scheme host \<noteq> []" by (simp add: base_url_def)
  have same: "(empty_url\<lparr>url_Scheme := scheme, url_Host := host, url_Path := []\<rparr>)\<lparr>url_Path := [], url_RawPath := [],
      url_RawQuery := [], url_Fragment := []\<rparr> = empty_url\<lparr>url_Scheme := scheme, url_Host := host\<rparr>"
    by (simp add: empty_url_def)
  have parse: "ParseURL (base_url scheme host) = Some (empty_url\<lparr>url_Scheme := scheme, url_Host := host, url_Path := []\<rparr>)"
    using ParseURL_plain [OF assms, of "[]"] by simp
  have schemes: "\<not> (scheme \<noteq> ''http'' \<and> scheme \<noteq> ''https'')" using assms by (auto simp: plain_base_def)
  show "normalizeCanonicalBaseURL (base_url scheme host) = base_url scheme host"
    unfolding normalizeCanonicalBaseURL_def Let_def TrimSpace_id [OF base_no_space [OF assms]]
    using has parse schemes host ends \<open>base_url scheme host \<noteq> []\<close> url_String_plain [OF assms] same
    by simp
qed

lemma mem_join: "p \<in> set ps \<Longrightarrow> x \<in> set p \<Longrightarrow> x \<in> set (join_with sep ps)"
  by (induction sep ps rule: join_with.induct) auto

lemma unescape_no_percent:
  "CHR ''%'' \<notin> set s \<Longrightarrow> mode \<notin> {encodeHost, encodeZone, encodeQueryComponent} \<Longrightarrow> unescape mode s = Some s"
  by (induction s) auto

lemma split_on_chars: "p \<in> set (split_on c s) \<Longrightarrow> x \<in> set p \<Longrightarrow> x \<in> set s"
  using join_split [of c s] mem_join by (metis)

lemma ValidateHandle_ref_chars: "ValidateHandle h = None \<Longrightarrow> list_all ref_char h"
  using ValidateHandle_chars by (auto simp: ref_char_def list_all_iff)

lemma trim_by_mem: "c \<in> set s \<Longrightarrow> \<not> P c \<Longrightarrow> c \<in> set (trim_by P s)"
  unfolding trim_by_def by (metis set_dropWhileD set_rev takeWhile_dropWhile_id Un_iff set_append set_takeWhileD)

lemma valid_ref_chars:
  assumes "ValidateAgentRef r = None"
  shows "list_all ref_char r" "r \<noteq> []"
proof -
  have parts: "CHR ''/'' \<in> set r \<Longrightarrow> \<forall>p \<in> set (split_on (CHR ''/'') (trim_by (\<lambda>c. c = CHR ''/'') r)). ValidateHandle p = None"
    using assms by (auto simp: ValidateAgentRef_def Let_def list_all_iff split: if_splits)
  show "list_all ref_char r"
  proof (cases "CHR ''/'' \<in> set r")
    case True
    have "ref_char c" if c: "c \<in> set r" for c
    proof (cases "c = CHR ''/''")
      case False
      let ?t = "trim_by (\<lambda>c. c = CHR ''/'') r"
      have "c \<in> set (join_with ''/'' (split_on (CHR ''/'') ?t))"
        using trim_by_mem [of c r "\<lambda>c. c = CHR ''/''"] c False join_split [of "CHR ''/''" ?t] by simp
      then obtain p where "p \<in> set (split_on (CHR ''/'') ?t)" "c \<in> set p" using set_join False by blast
      then show ?thesis using parts [OF True] ValidateHandle_ref_chars by (auto simp: list_all_iff)
    qed (simp add: ref_char_def)
    then show ?thesis by (simp add: list_all_iff)
  next
    case False
    then show ?thesis using assms ValidateHandle_ref_chars by (auto simp: ValidateAgentRef_def split: if_splits)
  qed
  show "r \<noteq> []" using assms by (auto simp: ValidateAgentRef_def)
qed

lemma escapePathSegments_ref:
  assumes "list_all ref_char r"
  shows "escapePathSegments r = r"
proof -
  have "TrimSpace r = r" using assms ref_char_plain by (intro TrimSpace_id) (auto simp: list_all_iff)
  moreover have "PathEscape p = p" if "p \<in> set (split_on (CHR ''/'') r)" for p
    unfolding PathEscape_def
  proof (rule escape_id, unfold list_all_iff, intro ballI)
    fix c assume "c \<in> set p"
    with that assms show "\<not> shouldEscape encodePathSegment c"
      using ref_char_plain [of c] split_on_chars [OF that, of c] split_on_parts [OF that] by (auto simp: list_all_iff)
  qed
  ultimately show ?thesis by (simp add: escapePathSegments_def join_split map_idI)
qed

lemma agentURI_plain:
  assumes "plain_base scheme host" and "ValidateAgentRef (Agent_AgentID a) = None"
  shows "agentURI (base_url scheme host) a = base_url scheme host @ CHR ''/'' # Agent_AgentID a"
proof -
  note chars = valid_ref_chars [OF assms(2)]
  have "list_all (\<lambda>c. \<not> is_space c) (''/'' @ Agent_AgentID a)"
    using chars(1) ref_char_plain by (auto simp: list_all_iff ref_char_def)
  then have "TrimSpace (''/'' @ Agent_AgentID a) = ''/'' @ Agent_AgentID a" by (rule TrimSpace_id)
  then show ?thesis
    unfolding agentURI_def buildCanonicalEntityPathURI_def escapePathSegments_ref [OF chars(1)] Let_def
    by (simp add: normalize_plain [OF assms(1)] HasPrefix_def)
qed

text \<open>
  C37: the URI of an agent names its hub and its reference.  Splitting the URI that a hub makes for an
  agent gives back the base URL of the hub and the agent id, except for the agents of an organisation
  or owner called \<^verbatim>\<open>orgs\<close> or \<^verbatim>\<open>humans\<close>: their URIs are taken for those of organisations and humans.
\<close>

theorem agent_uri_names_agent:
  assumes "plain_base scheme host" and "ValidateAgentRef (Agent_AgentID a) = None"
    and "hd (Agent_AgentID a) \<noteq> CHR ''/''" and "last (Agent_AgentID a) \<noteq> CHR ''/''"
  shows "splitCanonicalAgentURI (agentURI (base_url scheme host) a) =
    (if HasPrefix (Agent_AgentID a) ''orgs/'' \<or> HasPrefix (Agent_AgentID a) ''humans/'' then None
     else Some (base_url scheme host, Agent_AgentID a))"
proof -
  let ?r = "Agent_AgentID a"
  let ?u = "empty_url\<lparr>url_Scheme := scheme, url_Host := host, url_Path := CHR ''/'' # ?r\<rparr>"
  note chars = valid_ref_chars [OF assms(2)]
  have p: "list_all ref_char (CHR ''/'' # ?r)" using chars(1) by (simp add: ref_char_def)
  have parse: "ParseURL (base_url scheme host @ CHR ''/'' # ?r) =
      Some ?u"
    using ParseURL_plain [OF assms(1) _ p] by simp
  have nospace: "list_all (\<lambda>c. \<not> is_space c) (CHR ''/'' # ?r)" using p ref_char_plain by (auto simp: list_all_iff)
  have "TrimSpace (base_url scheme host @ CHR ''/'' # ?r) = base_url scheme host @ CHR ''/'' # ?r"
    using base_no_space [OF assms(1)] nospace by (intro TrimSpace_id) simp
  moreover have "Trim (CHR ''/'' # ?r) ''/'' = ?r"
    using assms(3,4) chars(2) trim_by_id [of ?r "\<lambda>c. c = CHR ''/''"] by (auto simp: Trim_def trim_by_def)
  moreover have "PathUnescape ?r = Some ?r"
    unfolding PathUnescape_def
    using chars(1) ref_char_plain by (intro unescape_no_percent) (auto simp: list_all_iff)
  moreover have "normalizeCanonicalBaseURL (scheme @ ''://'' @ host) = base_url scheme host"
    using normalize_plain(1) [OF assms(1)] unfolding base_url_def .
  moreover have "url_Scheme ?u = scheme" "url_Host ?u = host" "url_Path ?u = CHR ''/'' # ?r" by (simp_all add: empty_url_def)
  moreover have "scheme \<noteq> []" "host \<noteq> []" using assms(1) by (auto simp: plain_base_def)
  ultimately show ?thesis
    unfolding splitCanonicalAgentURI_def agentURI_plain [OF assms(1,2)]
    using parse TrimSpace_id [OF nospace] chars(2) assms(2) by simp
qed

lemma example_base: "plain_base ''https'' ''hub.example''"
  by code_simp

theorem agent_uri_names_agent_witness:
  "\<exists>a. Agent_AgentID a = ''acme/bot'' \<and>
     splitCanonicalAgentURI (agentURI ''https://hub.example'' a) = Some (''https://hub.example'', ''acme/bot'')"
proof -
  obtain a :: agent where a: "Agent_AgentID a = ''acme/bot''" by (metis agent.select_convs(2))
  have "ValidateAgentRef ''acme/bot'' = None" by code_simp
  then show ?thesis
    using agent_uri_names_agent [OF example_base, of a] a by (intro exI [of _ a]) (simp add: base_url_def)
qed

end
