(* ===== verification/Collective.thy ===== *)
theory Collective
  imports Views Identity Trust
begin

text \<open>
  \<^verbatim>\<open>internal/api/handlers_collective_stream.go\<close>: the stream of events that agents and humans may
  subscribe to, who sees which events, and the buffers of the subscribers.
\<close>

section \<open>Events and subscribers\<close>

record collective_event =
  CE_Type :: string
  CE_EventID :: string
  CE_At :: time
  CE_Category :: string
  CE_Action :: string
  CE_AgentUUID :: string
  CE_PeerAgentUUID :: string
  CE_OrgID :: string
  CE_PeerOrgID :: string
  CE_MessageID :: string
  CE_DeliveryID :: string
  CE_Details :: gmap

text \<open>A filter may look into the store when an event is published.\<close>

type_synonym event_filter = "memory_store \<Rightarrow> collective_event \<Rightarrow> bool"

record collective_sub =
  sub_ch :: "collective_event list"
  sub_filter :: event_filter

record collective_hub =
  hub_nextID :: nat
  hub_subs :: "(nat, collective_sub) fmap"

definition newCollectiveStreamHub :: collective_hub where
  "newCollectiveStreamHub = \<lparr>hub_nextID = 0, hub_subs = fmempty\<rparr>"

definition subscribe :: "event_filter \<Rightarrow> collective_hub \<Rightarrow> nat \<times> collective_hub" where
  "subscribe flt hub =
     (let i = hub_nextID hub + 1 in
      (i, hub\<lparr>hub_nextID := i, hub_subs := fmupd i \<lparr>sub_ch = [], sub_filter = flt\<rparr> (hub_subs hub)\<rparr>))"

text \<open>The function that \<^verbatim>\<open>subscribe\<close> returns for leaving again.\<close>

definition cancel_sub :: "nat \<Rightarrow> collective_hub \<Rightarrow> collective_hub" where
  "cancel_sub i hub = hub\<lparr>hub_subs := fmdrop i (hub_subs hub)\<rparr>"

text \<open>The layout \<^verbatim>\<open>20060102T150405.000000000Z07:00\<close> in UTC.\<close>

definition FormatEventTime :: "int \<Rightarrow> string" where
  "FormatEventTime t =
     filter (\<lambda>c. c \<noteq> CHR ''-'' \<and> c \<noteq> CHR '':'') (butlast (FormatRFC3339 t)) @ ''.'' @
       pad_left 9 (show_int (t mod Second)) @ ''Z''"

definition stamp :: "time \<Rightarrow> collective_event \<Rightarrow> collective_event" where
  "stamp now e =
     (let at = (if CE_At e = zeroTime then now else CE_At e) in
      e\<lparr>CE_Type := ''collective_event'', CE_At := at,
        CE_EventID := (if CE_EventID e = [] then FormatEventTime at @ '':'' @ TrimSpace (CE_Category e) @ '':'' @
          TrimSpace (CE_Action e) else CE_EventID e)\<rparr>)"

text \<open>A send to a channel whose buffer of 64 is full is skipped.\<close>

definition offer :: "memory_store \<Rightarrow> collective_event \<Rightarrow> collective_sub \<Rightarrow> collective_sub" where
  "offer s e sub =
     (if sub_filter sub s e \<and> length (sub_ch sub) < 64 then sub\<lparr>sub_ch := sub_ch sub @ [e]\<rparr> else sub)"

definition publish :: "memory_store \<Rightarrow> time \<Rightarrow> collective_event \<Rightarrow> collective_hub \<Rightarrow> collective_hub" where
  "publish s now e hub = hub\<lparr>hub_subs := fmmap (offer s (stamp now e)) (hub_subs hub)\<rparr>"

section \<open>Who sees what\<close>

datatype stream_error = InvalidTarget | NotVisible

definition agentCanViewCollectiveAgent :: "memory_store \<Rightarrow> string \<Rightarrow> string \<Rightarrow> bool" where
  "agentCanViewCollectiveAgent s viewerAgentUUID targetAgentUUID =
     (let v = TrimSpace viewerAgentUUID; t = TrimSpace targetAgentUUID in
      if v = [] \<or> t = [] then False
      else v = t \<or> snd (snd (CanPublish v t s)) = None \<or> snd (snd (CanPublish t v s)) = None)"

definition humanOwnsOrg :: "memory_store \<Rightarrow> string \<Rightarrow> string \<Rightarrow> bool" where
  "humanOwnsOrg s humanID orgID \<longleftrightarrow>
     list_ex (\<lambda>(m, _). Mem_OrgID m = orgID \<and> Mem_Role m = RoleOwner \<and> Mem_Status m = StatusActive)
       (ListMyMemberships humanID s)"

definition humanCanViewCollectiveAgent :: "memory_store \<Rightarrow> string \<Rightarrow> string \<Rightarrow> bool" where
  "humanCanViewCollectiveAgent s humanID agentUUID =
     (case GetAgentByUUID agentUUID s of
        Inl _ \<Rightarrow> False
      | Inr agent \<Rightarrow>
          (case Agent_OwnerHumanID agent of None \<Rightarrow> False | Some h \<Rightarrow> TrimSpace h = TrimSpace humanID) \<or>
          (TrimSpace (Agent_OrgID agent) \<noteq> [] \<and> humanOwnsOrg s humanID (Agent_OrgID agent)))"

definition collectiveAgentFilter :: "string list \<Rightarrow> event_filter" where
  "collectiveAgentFilter allowed = (\<lambda>_ e. CE_AgentUUID e \<in> set allowed \<or> CE_PeerAgentUUID e \<in> set allowed)"

text \<open>\<open>q\<close> reads a parameter of the query.\<close>

definition authorizeAgentCollectiveStream ::
  "string \<Rightarrow> (string \<Rightarrow> string) \<Rightarrow> memory_store \<Rightarrow> stream_error + event_filter \<times> gmap" where
  "authorizeAgentCollectiveStream agentUUID q s =
     (let scope = ToLower (TrimSpace (q ''scope'')); target = normalizeUUID (q ''agent_uuid'') in
      if scope = ''org'' then Inl NotVisible
      else if target \<noteq> [] then
        (if \<not> validateUUID target then Inl InvalidTarget
         else if \<not> agentCanViewCollectiveAgent s agentUUID target then Inl NotVisible
         else Inr (collectiveAgentFilter [target],
           gmap_of [(''kind'', GStr ''agent''), (''agent_uuid'', GStr agentUUID), (''scope'', GStr ''agent''),
             (''target'', GStr target)]))
      else Inr (\<lambda>s e. agentCanViewCollectiveAgent s agentUUID (CE_AgentUUID e) \<or>
            agentCanViewCollectiveAgent s agentUUID (CE_PeerAgentUUID e),
          gmap_of [(''kind'', GStr ''agent''), (''agent_uuid'', GStr agentUUID), (''scope'', GStr ''peers'')]))"

definition authorizeHumanCollectiveStream ::
  "human \<Rightarrow> bool \<Rightarrow> (string \<Rightarrow> string) \<Rightarrow> memory_store \<Rightarrow> stream_error + event_filter \<times> gmap" where
  "authorizeHumanCollectiveStream actor isSuperAdmin q s =
     (let scope = ToLower (TrimSpace (q ''scope'')); orgID = TrimSpace (q ''org_id'');
          target = normalizeUUID (q ''agent_uuid''); h = Human_HumanID actor;
          viewer = (\<lambda>more. gmap_of ([(''kind'', GStr ''human''), (''human_id'', GStr h)] @ more)) in
      if scope = ''org'' \<or> orgID \<noteq> [] then
        (if orgID = [] then Inl InvalidTarget
         else if \<not> isSuperAdmin \<and> \<not> humanOwnsOrg s h orgID then Inl NotVisible
         else Inr (\<lambda>_ e. CE_OrgID e = orgID \<or> CE_PeerOrgID e = orgID,
           viewer [(''scope'', GStr ''org''), (''org_id'', GStr orgID)]))
      else if target \<noteq> [] then
        (if \<not> validateUUID target then Inl InvalidTarget
         else if \<not> isSuperAdmin \<and> \<not> humanCanViewCollectiveAgent s h target then Inl NotVisible
         else Inr (collectiveAgentFilter [target], viewer [(''scope'', GStr ''agent''), (''agent_uuid'', GStr target)]))
      else if isSuperAdmin then Inr (\<lambda>_ _. True, viewer [(''scope'', GStr ''all'')])
      else Inr (collectiveAgentFilter (filter (humanCanViewCollectiveAgent s h)
            (map Agent_AgentUUID (ListHumanAgents h s))), viewer [(''scope'', GStr ''self'')]))"

section \<open>Streams show only what their viewer may see\<close>

text \<open>What happens around the hub: stores change, events are published, subscribers come, read and go.\<close>

datatype stream_action =
    Subscribe event_filter
  | Leave nat
  | Publish memory_store time collective_event
  | Receive nat

fun stream_step :: "stream_action \<Rightarrow> collective_hub \<Rightarrow> collective_hub" where
  "stream_step (Subscribe flt) hub = snd (subscribe flt hub)"
| "stream_step (Leave i) hub = cancel_sub i hub"
| "stream_step (Publish s now e) hub = publish s now e hub"
| "stream_step (Receive i) hub =
     (case fmlookup (hub_subs hub) i of
        None \<Rightarrow> hub
      | Some sub \<Rightarrow> hub\<lparr>hub_subs := fmupd i (sub\<lparr>sub_ch := tl (sub_ch sub)\<rparr>) (hub_subs hub)\<rparr>)"

definition stream_run :: "stream_action list \<Rightarrow> collective_hub" where
  "stream_run as = foldl (\<lambda>hub a. stream_step a hub) newCollectiveStreamHub as"

text \<open>The events that a run publishes and a filter lets through, in order.\<close>

fun passed :: "event_filter \<Rightarrow> stream_action list \<Rightarrow> collective_event list" where
  "passed flt [] = []"
| "passed flt (Publish s now e # as) =
     (if flt s (stamp now e) then stamp now e # passed flt as else passed flt as)"
| "passed flt (_ # as) = passed flt as"

lemma passed_snoc: "passed flt (as @ [a]) = passed flt as @ passed flt [a]"
  by (induction flt as rule: passed.induct) auto

lemma stream_run_snoc [simp]: "stream_run (as @ [a]) = stream_step a (stream_run as)"
  by (simp add: stream_run_def)

lemma stream_invariant:
  "fmlookup (hub_subs (stream_run as)) i = Some sub \<Longrightarrow>
     length (sub_ch sub) \<le> 64 \<and> subseq (sub_ch sub) (passed (sub_filter sub) as) \<and> i \<le> hub_nextID (stream_run as)"
proof (induction as arbitrary: i sub rule: rev_induct)
  case Nil
  then show ?case by (simp add: stream_run_def newCollectiveStreamHub_def)
next
  case (snoc a as)
  let ?hub = "stream_run as"
  note run = stream_run_snoc
  have more: "subseq (sub_ch x) (passed (sub_filter x) (as @ [a]))"
    if "fmlookup (hub_subs ?hub) i = Some x" for x
    using snoc.IH [OF that] by (simp add: passed_snoc list_emb_prefix)
  show ?case
  proof (cases a)
    case (Subscribe flt)
    show ?thesis
    proof (cases "i = hub_nextID ?hub + 1")
      case True
      then show ?thesis using snoc.prems unfolding run unfolding Subscribe by (auto simp: subscribe_def Let_def)
    next
      case False
      then have x: "fmlookup (hub_subs ?hub) i = Some sub"
        using snoc.prems unfolding run unfolding Subscribe by (auto simp: subscribe_def Let_def)
      show ?thesis using snoc.IH [OF x] more [OF x] unfolding run unfolding Subscribe by (simp add: subscribe_def Let_def)
    qed
  next
    case (Leave j)
    then show ?thesis using snoc.prems snoc.IH more by (auto simp: run cancel_sub_def split: if_splits)
  next
    case (Publish s now e)
    then obtain x where x: "fmlookup (hub_subs ?hub) i = Some x" "sub = offer s (stamp now e) x"
      using snoc.prems by (auto simp: run publish_def)
    show ?thesis
    proof (cases "sub_filter x s (stamp now e) \<and> length (sub_ch x) < 64")
      case True
      then show ?thesis
        using snoc.IH [OF x(1)] x(2) Publish by (auto simp: offer_def passed_snoc list_emb_append_mono run publish_def)
    next
      case False
      then show ?thesis using snoc.IH [OF x(1)] more [OF x(1)] x(2) Publish by (auto simp: offer_def run publish_def)
    qed
  next
    case (Receive j)
    then obtain x where x: "fmlookup (hub_subs ?hub) i = Some x"
      "sub = x \<or> sub = x\<lparr>sub_ch := tl (sub_ch x)\<rparr>" "hub_nextID (stream_run (as @ [a])) = hub_nextID ?hub"
      using snoc.prems by (auto simp: run split: if_splits option.splits)
    have "subseq (tl (sub_ch x)) (sub_ch x)" by (cases "sub_ch x") auto
    then have "subseq (sub_ch sub) (sub_ch x) \<and> length (sub_ch sub) \<le> length (sub_ch x) \<and> sub_filter sub = sub_filter x"
      using x(2) by auto
    then show ?thesis using snoc.IH [OF x(1)] more [OF x(1)] x(3) by (auto dest: subseq_order.trans)
  qed
qed

text \<open>
  After any sequence of subscriptions, publications, reads and cancellations, what waits for a
  subscriber is at most 64 events, in the order they were published, every one of which passed the
  filter of that subscriber when it was published.
\<close>

lemma stream_buffers:
  assumes "fmlookup (hub_subs (stream_run as)) i = Some sub"
  shows "length (sub_ch sub) \<le> 64 \<and> subseq (sub_ch sub) (passed (sub_filter sub) as)"
  using stream_invariant [OF assms] by blast

definition demo_event :: collective_event where
  "demo_event = \<lparr>CE_Type = [], CE_EventID = ''e'', CE_At = 5, CE_Category = ''message'', CE_Action = ''acked'',
     CE_AgentUUID = ''a1'', CE_PeerAgentUUID = [], CE_OrgID = [], CE_PeerOrgID = [], CE_MessageID = [],
     CE_DeliveryID = [], CE_Details = fmempty\<rparr>"

text \<open>
  C34: an agent's stream shows nothing of strangers.  An event passes the filter an agent is given only
  if the agent is, or can exchange messages with, one of the two agents of the event at that moment.  For
  a stream of one agent it is that agent, and it could do so when the stream was opened: such a stream
  stays open when the trust is revoked.  A stream of an organisation is never given.
\<close>

theorem agent_stream_is_private:
  assumes "authorizeAgentCollectiveStream agentUUID q s = Inr (flt, viewer)" and "flt s' e"
  shows "ToLower (TrimSpace (q ''scope'')) \<noteq> ''org'' \<and>
    (\<exists>target \<in> {CE_AgentUUID e, CE_PeerAgentUUID e}.
       let one = normalizeUUID (q ''agent_uuid''); t = (if one = [] then s' else s) in
       one \<in> {[], target} \<and> TrimSpace agentUUID \<noteq> [] \<and> TrimSpace target \<noteq> [] \<and>
       (TrimSpace agentUUID = TrimSpace target \<or>
        snd (snd (CanPublish (TrimSpace agentUUID) (TrimSpace target) t)) = None \<or>
        snd (snd (CanPublish (TrimSpace target) (TrimSpace agentUUID) t)) = None))"
  using assms
  by (auto simp: authorizeAgentCollectiveStream_def agentCanViewCollectiveAgent_def collectiveAgentFilter_def Let_def
      split: if_splits)

text \<open>A query that asks for nothing but the peers of the agent.\<close>

definition peers_query :: "string \<Rightarrow> string" where
  "peers_query k = (if k = ''scope'' then ''peers'' else [])"

theorem agent_stream_is_private_witness:
  "\<exists>flt viewer. authorizeAgentCollectiveStream ''a1'' peers_query NewMemoryStore = Inr (flt, viewer) \<and>
     flt NewMemoryStore demo_event \<and> ToLower (TrimSpace (peers_query ''scope'')) \<noteq> ''org''"
proof -
  have q: "ToLower (TrimSpace (peers_query ''scope'')) = ''peers''" "normalizeUUID (peers_query ''agent_uuid'') = []"
    "TrimSpace ''a1'' = ''a1''" by code_simp+
  then obtain flt viewer where run: "authorizeAgentCollectiveStream ''a1'' peers_query NewMemoryStore = Inr (flt, viewer)"
    "flt NewMemoryStore demo_event"
    by (auto simp: authorizeAgentCollectiveStream_def agentCanViewCollectiveAgent_def demo_event_def Let_def)
  with agent_stream_is_private [OF this] show ?thesis by blast
qed

end
