(* ===== verification/PeerLink.thy ===== *)
theory PeerLink
  imports Collective Skills S3Codec S3Connection Waiters Federation
begin

text \<open>
  What one hub says to another (\<^verbatim>\<open>internal/api/handlers_federation.go\<close>): the worker that posts the
  outbox of a peer, the signature of a request, and the handler that accepts a message from a peer.
  With the state of the server (\<^verbatim>\<open>Handler\<close> of \<^verbatim>\<open>internal/api/router.go\<close>) that the handlers of
  messages share.
\<close>

section \<open>The state of the server\<close>

text \<open>
  The store is the control plane and the queue at once, as in the memory backend.  What does not
  change is passed as arguments: the canonical base URL of the hub, the identifiers that the generator
  hands out, and the clock: \<open>clock n\<close> is what is read at the \<open>n\<close>-th place of a handler that reads it.
\<close>

record hub_state =
  hs_store :: memory_store
  hs_waiters :: waiters
  hs_collective :: collective_hub
  hs_stateError :: string
  hs_queueError :: string

definition hub_start :: "memory_store \<Rightarrow> hub_state" where
  "hub_start s = \<lparr>hs_store = s, hs_waiters = NewWaiters, hs_collective = newCollectiveStreamHub,
     hs_stateError = [], hs_queueError = []\<rparr>"

definition setStateRuntimeError :: "string \<Rightarrow> hub_state \<Rightarrow> hub_state" where
  "setStateRuntimeError msg h =
     (let msg = TrimSpace msg in if msg = [] then h else h\<lparr>hs_stateError := msg\<rparr>)"

definition clearStateRuntimeError :: "hub_state \<Rightarrow> hub_state" where
  "clearStateRuntimeError h = h\<lparr>hs_stateError := []\<rparr>"

definition setQueueRuntimeError :: "string \<Rightarrow> hub_state \<Rightarrow> hub_state" where
  "setQueueRuntimeError msg h =
     (let msg = TrimSpace msg in if msg = [] then h else h\<lparr>hs_queueError := msg\<rparr>)"

definition clearQueueRuntimeError :: "hub_state \<Rightarrow> hub_state" where
  "clearQueueRuntimeError h = h\<lparr>hs_queueError := []\<rparr>"

text \<open>The texts of the store's errors.\<close>

fun store_error_text :: "store_error \<Rightarrow> string" where
  "store_error_text ErrInvalidToken = ''invalid token''"
| "store_error_text ErrOrgNotFound = ''organization not found''"
| "store_error_text ErrOrgNameTaken = ''organization name already exists''"
| "store_error_text ErrOrgHandleTaken = ''organization handle already exists''"
| "store_error_text ErrHumanNotFound = ''human not found''"
| "store_error_text ErrHumanHandleTaken = ''human handle already exists''"
| "store_error_text ErrInvalidHandle = ''invalid handle''"
| "store_error_text ErrMembershipNotFound = ''membership not found''"
| "store_error_text ErrInviteNotFound = ''invite not found''"
| "store_error_text ErrInviteInvalid = ''invite invalid''"
| "store_error_text ErrInviteExists = ''invite already exists''"
| "store_error_text ErrOrgAccessKeyNotFound = ''org access key not found''"
| "store_error_text ErrOrgAccessKeyInvalid = ''org access key invalid''"
| "store_error_text ErrOrgAccessScopeDenied = ''org access scope denied''"
| "store_error_text ErrCannotRevokeOwner = ''cannot revoke owner membership''"
| "store_error_text ErrAgentExists = ''agent already exists''"
| "store_error_text ErrAgentNotFound = ''agent not found''"
| "store_error_text ErrAgentAmbiguous = ''agent reference is ambiguous''"
| "store_error_text ErrAgentHandleLocked = ''agent handle is already finalized''"
| "store_error_text ErrAgentRevoked = ''agent revoked''"
| "store_error_text ErrInvalidAgentType = ''invalid agent type''"
| "store_error_text ErrInvalidAgentSkills = ''invalid agent skills metadata''"
| "store_error_text ErrInvalidSkillDescription = ''invalid agent skill description''"
| "store_error_text ErrInvalidAgentActivity = ''invalid agent activity''"
| "store_error_text ErrTrustNotFound = ''trust edge not found''"
| "store_error_text ErrUnauthorizedRole = ''unauthorized role''"
| "store_error_text ErrInvalidRole = ''invalid role''"
| "store_error_text ErrInvalidEdgeType = ''invalid edge type''"
| "store_error_text ErrSelfTrust = ''self trust not allowed''"
| "store_error_text ErrNoTrustPath = ''no trust path''"
| "store_error_text ErrBindNotFound = ''bind token not found''"
| "store_error_text ErrBindExpired = ''bind token expired''"
| "store_error_text ErrBindUsed = ''bind token already used''"
| "store_error_text ErrHostedAgentRestricted = ''hosted agent restricted''"
| "store_error_text ErrAgentLimitExceeded = ''agent limit exceeded''"
| "store_error_text ErrMessageNotFound = ''message not found''"
| "store_error_text ErrMessageDeliveryNotFound = ''message delivery not found''"
| "store_error_text ErrMessageDeliveryMismatch = ''message delivery does not belong to agent''"
| "store_error_text ErrPeerInstanceNotFound = ''peer instance not found''"
| "store_error_text ErrPeerInstanceExists = ''peer instance already exists''"
| "store_error_text ErrRemoteOrgTrustNotFound = ''remote org trust not found''"
| "store_error_text ErrRemoteAgentTrustNotFound = ''remote agent trust not found''"
| "store_error_text (ErrOther t) = t"

definition go_error_of :: "store_error \<Rightarrow> go_error" where
  "go_error_of e = \<lparr>err_canceled = False, err_deadline = False, err_temporary = False, err_text = store_error_text e\<rparr>"

definition queueRuntimeFailureSummary :: "string \<Rightarrow> store_error \<Rightarrow> string" where
  "queueRuntimeFailureSummary operation e =
     (let base = TrimSpace (''queue '' @ operation @ '' failed'');
          detail = TrimSpace (SanitizeErrorWithDetail (Some (go_error_of e))) in
      if detail = [] then base else base @ '': '' @ detail)"

definition stateRuntimeFailureSummary :: "string \<Rightarrow> store_error \<Rightarrow> string" where
  "stateRuntimeFailureSummary operation e =
     (let base = TrimSpace (''state '' @ operation @ '' failed'');
          detail = TrimSpace (SanitizeErrorWithDetail (Some (go_error_of e))) in
      if detail = [] then base else base @ '': '' @ detail)"

section \<open>Signatures\<close>

definition computePeerSignature :: "string \<Rightarrow> string \<Rightarrow> string \<Rightarrow> string \<Rightarrow> string \<Rightarrow> string" where
  "computePeerSignature secret timestamp verb path body =
     hex_encode (hmac_sha256 secret
       (timestamp @ [CHR 0x0A] @ ToUpper (TrimSpace verb) @ [CHR 0x0A] @ TrimSpace path @ [CHR 0x0A] @
        hex_encode (sha256 body)))"

definition verifyPeerSignature :: "string \<Rightarrow> string \<Rightarrow> string \<Rightarrow> string \<Rightarrow> string \<Rightarrow> string \<Rightarrow> bool" where
  "verifyPeerSignature secret timestamp verb path body provided \<longleftrightarrow>
     computePeerSignature secret timestamp verb path body = TrimSpace provided"

text \<open>A request between hubs; the headers that are not there are empty.\<close>

record peer_request =
  pr_method :: string
  pr_url :: string
  pr_path :: string
  pr_peerID :: string
  pr_timestamp :: string
  pr_signature :: string
  pr_body :: string

definition signPeerRequest :: "peer_request \<Rightarrow> string \<Rightarrow> string \<Rightarrow> string \<Rightarrow> time \<Rightarrow> peer_request" where
  "signPeerRequest req secret peerID body now =
     (let ts = FormatRFC3339Nano now in
      req\<lparr>pr_peerID := peerID, pr_timestamp := ts,
        pr_signature := computePeerSignature secret ts (pr_method req) (pr_path req) body\<rparr>)"

definition nextPeerAttempt :: "time \<Rightarrow> int \<Rightarrow> time" where
  "nextPeerAttempt now attemptCount =
     now + (if attemptCount \<ge> 4 then 30 * Second
       else if attemptCount = 3 then 10 * Second
       else if attemptCount = 2 then 5 * Second
       else if attemptCount = 1 then 2 * Second
       else Second)"

section \<open>The worker\<close>

text \<open>
  The HTTP client, a parameter: the text of the error \<^verbatim>\<open>net/url\<close> gives for an address it cannot
  parse, and what the \<open>n\<close>-th request of a run is answered with, an error or a status and a body.
\<close>

record peer_client =
  pc_urlError :: "string \<Rightarrow> go_error"
  pc_do :: "nat \<Rightarrow> peer_request \<Rightarrow> go_error + int \<times> string"

definition peerEnvelopeText :: "message \<Rightarrow> string" where
  "peerEnvelopeText m = json_text (JObj [(''message'', json_of_message m)])"

definition peerTargetURL :: "peer_instance \<Rightarrow> string" where
  "peerTargetURL peer = TrimRight (Peer_DeliveryBaseURL peer) ''/'' @ ''/v1/peer/messages''"

definition peerRequestFor :: "peer_instance \<Rightarrow> peer_outbound \<Rightarrow> time \<Rightarrow> peer_request option" where
  "peerRequestFor peer x now =
     (let body = peerEnvelopeText (Out_Message x);
          target = peerTargetURL peer in
      map_option (\<lambda>u. signPeerRequest
          \<lparr>pr_method = ''POST'', pr_url = target, pr_path = url_Path u, pr_peerID = [], pr_timestamp = [],
           pr_signature = [], pr_body = body\<rparr>
          (Peer_SharedSecret peer) (Peer_PeerID peer) body now)
        (ParseURL target))"

definition peerFailureReason :: "int \<Rightarrow> string \<Rightarrow> string" where
  "peerFailureReason st data =
     (let reason = SanitizeErrorText (TrimSpace data) in
      if reason = [] \<or> reason = ''request failed'' then ''peer returned '' @ show_int st else reason)"

text \<open>One round of the loop of \<^verbatim>\<open>processPeerOutboxes\<close>, and the loop.\<close>

definition postOutbound ::
  "peer_client \<Rightarrow> time \<Rightarrow> nat \<times> peer_outbound \<Rightarrow> memory_store \<Rightarrow> memory_store" where
  "postOutbound client now job s =
     (let (n, x) = job;
          retry = (\<lambda>reason s. snd (MarkPeerOutboundRetry (Out_OutboundID x) reason
            (nextPeerAttempt now (Out_AttemptCount x)) now s)) in
      case GetPeerInstance (Out_PeerID x) s of
        Inl _ \<Rightarrow> s
      | Inr peer \<Rightarrow>
      case peerRequestFor peer x now of
        None \<Rightarrow> retry (SanitizeError (Some (pc_urlError client (peerTargetURL peer)))) s
      | Some req \<Rightarrow>
      case pc_do client n req of
        Inl e \<Rightarrow>
          let reason = SanitizeError (Some e)
          in retry reason (RecordPeerDeliveryFailure (Peer_PeerID peer) reason now s)
      | Inr (st, data) \<Rightarrow>
          if st \<noteq> 200 \<and> st \<noteq> 202 then
            let reason = peerFailureReason st (take 4096 data)
            in retry reason (RecordPeerDeliveryFailure (Peer_PeerID peer) reason now s)
          else
            let s = RecordPeerDeliverySuccess (Peer_PeerID peer) now s;
                s = snd (MarkPeerOutboundDelivered (Out_OutboundID x) now s)
            in snd (MarkMessageForwarded (Out_MessageID x) now s))"

definition processPeerOutboxes :: "peer_client \<Rightarrow> time \<Rightarrow> int \<Rightarrow> memory_store \<Rightarrow> memory_store" where
  "processPeerOutboxes client now limit s =
     fold (postOutbound client now) (enumerate 0 (ListDuePeerOutbounds now limit s)) s"

section \<open>Trust paths\<close>

definition hasActiveFederatedTrustPath ::
  "agent \<Rightarrow> string \<Rightarrow> string \<Rightarrow> string \<Rightarrow> string \<Rightarrow> memory_store \<Rightarrow> bool" where
  "hasActiveFederatedTrustPath localAgent localAgentUUID peerID remoteAgentURI remoteAgentRef s =
     (if \<not> HasActiveRemoteAgentTrust localAgentUUID peerID remoteAgentURI s then False
      else if TrimSpace (Agent_OrgID localAgent) = [] then True
      else
        let remoteOrgHandle = remoteOrgHandleFromAgentRef remoteAgentRef in
        if remoteOrgHandle = [] then False
        else HasActiveRemoteOrgTrust (Agent_OrgID localAgent) peerID remoteOrgHandle s)"

section \<open>Messages from peers\<close>

definition peerAuthSkew :: int where
  "peerAuthSkew = 300 * Second"

definition allowedContentTypes :: "string list" where
  "allowedContentTypes = [''text/plain'', ''application/json'']"

definition maxPeerBody :: nat where
  "maxPeerBody = 2 ^ 20"

definition message_of_envelope :: "json \<Rightarrow> message option" where
  "message_of_envelope j =
     (case obj_fields j of
        None \<Rightarrow> None
      | Some fs \<Rightarrow> read_struct message_of_json (last_field fs ''message''))"

text \<open>\<^verbatim>\<open>ResolveAgentUUIDByURI\<close> with the parser of URLs.\<close>

definition resolveURI :: "string \<Rightarrow> memory_store \<Rightarrow> store_error + string" where
  "resolveURI uri s = ResolveAgentUUIDByURI (\<lambda>u. map_option url_Path (ParseURL u)) uri s"

text \<open>
  The peer and the message of a request, once it has passed every check that does not look at
  the agents of this hub: headers, peer, time, signature, body and content type.  \<open>body\<close> is nothing
  if it could not be read.
\<close>

definition authenticatePeerRequest ::
  "(nat \<Rightarrow> time) \<Rightarrow> peer_request \<Rightarrow> string option \<Rightarrow> memory_store \<Rightarrow> runtime_error + peer_instance \<times> message" where
  "authenticatePeerRequest clock req body s =
     (if pr_method req \<noteq> ''POST'' then Inl (handler_error 405 ''method_not_allowed'' ''method not allowed'')
      else
        let peerID = TrimSpace (pr_peerID req); tsRaw = TrimSpace (pr_timestamp req);
            signature = TrimSpace (pr_signature req) in
        if peerID = [] \<or> tsRaw = [] \<or> signature = []
        then Inl (handler_error 401 ''unauthorized'' ''missing peer authentication headers'')
        else case GetPeerInstance peerID s of
          Inl _ \<Rightarrow> Inl (handler_error 401 ''unauthorized'' ''unknown peer'')
        | Inr peer \<Rightarrow>
        case map_option (take maxPeerBody) body of
          None \<Rightarrow> Inl (handler_error 400 ''invalid_request'' ''failed to read request body'')
        | Some body \<Rightarrow>
        case ParseRFC3339 tsRaw of
          None \<Rightarrow> Inl (handler_error 401 ''unauthorized'' ''invalid peer timestamp'')
        | Some ts \<Rightarrow>
            let delta = clock 0 - ts in
            if delta > peerAuthSkew \<or> delta < - peerAuthSkew
            then Inl (handler_error 401 ''unauthorized'' ''peer timestamp outside allowed skew'')
            else if \<not> verifyPeerSignature (Peer_SharedSecret peer) tsRaw (pr_method req) (pr_path req) body signature
            then Inl (handler_error 401 ''unauthorized'' ''invalid peer signature'')
            else case Option.bind (json_decode body) message_of_envelope of
              None \<Rightarrow> Inl (handler_error 400 ''invalid_request'' ''invalid JSON request'')
            | Some msg \<Rightarrow>
                if Msg_MessageID msg = [] \<or> Msg_FromAgentURI msg = [] \<or> Msg_ToAgentURI msg = []
                then Inl (handler_error 400 ''invalid_request''
                  ''message_id, from_agent_uri, and to_agent_uri are required'')
                else if TrimSpace (Msg_ContentType msg) \<notin> set allowedContentTypes
                then Inl (handler_error 400 ''invalid_content_type''
                  ''content_type must be one of: text/plain, application/json'')
                else Inr (peer, msg))"

text \<open>The agent of this hub that the message is for, once the sender may write to it.\<close>

definition authorizePeerMessage ::
  "string \<Rightarrow> peer_instance \<Rightarrow> message \<Rightarrow> memory_store \<Rightarrow> runtime_error + agent" where
  "authorizePeerMessage base peer msg s =
     (if map_option fst (splitCanonicalAgentURI (Msg_ToAgentURI msg)) \<noteq> Some (normalizeCanonicalBaseURL base)
      then Inl (handler_error 400 ''invalid_to_agent_uri'' ''to_agent_uri must target this moltenhub instance'')
      else case resolveURI (Msg_ToAgentURI msg) s of
        Inl _ \<Rightarrow> Inl (handler_error 404 ''unknown_receiver'' ''to_agent_uri is not registered'')
      | Inr receiverAgentUUID \<Rightarrow>
      case GetAgentByUUID receiverAgentUUID s of
        Inl _ \<Rightarrow> Inl (handler_error 404 ''unknown_receiver'' ''to_agent_uri is not registered'')
      | Inr receiver \<Rightarrow>
      case splitCanonicalAgentURI (Msg_FromAgentURI msg) of
        None \<Rightarrow> Inl (handler_error 400 ''invalid_from_agent_uri'' ''from_agent_uri must match the authenticated peer'')
      | Some (senderBase, senderAgentRef) \<Rightarrow>
          if senderBase \<noteq> Peer_CanonicalBaseURL peer
          then Inl (handler_error 400 ''invalid_from_agent_uri'' ''from_agent_uri must match the authenticated peer'')
          else if \<not> hasActiveFederatedTrustPath receiver (Agent_AgentUUID receiver) (Peer_PeerID peer)
            (Msg_FromAgentURI msg) senderAgentRef s
          then Inl (handler_error 403 ''forbidden'' ''no federated trust path'')
          else Inr receiver)"

definition inboundMessage :: "string \<Rightarrow> time \<Rightarrow> agent \<Rightarrow> message \<Rightarrow> message" where
  "inboundMessage base now receiver msg =
     msg\<lparr>Msg_ToAgentUUID := Agent_AgentUUID receiver, Msg_ToAgentID := Agent_AgentID receiver,
       Msg_ReceiverOrgID := Agent_OrgID receiver, Msg_ReceiverPeerID := [],
       Msg_ToAgentURI := agentURI base receiver,
       Msg_CreatedAt := (if Msg_CreatedAt msg = zeroTime then now else Msg_CreatedAt msg)\<rparr>"

text \<open>The answer: an error, or the status and the fields of the answer.\<close>

definition handlePeerInboundMessage ::
  "string \<Rightarrow> (nat \<Rightarrow> time) \<Rightarrow> peer_request \<Rightarrow> string option \<Rightarrow> hub_state \<Rightarrow>
    (runtime_error + nat \<times> gmap) \<times> hub_state" where
  "handlePeerInboundMessage base clock req body h =
     (case authenticatePeerRequest clock req body (hs_store h) of
        Inl e \<Rightarrow> (Inl e, h)
      | Inr (peer, msg) \<Rightarrow>
      case authorizePeerMessage base peer msg (hs_store h) of
        Inl e \<Rightarrow> (Inl e, h)
      | Inr receiver \<Rightarrow>
          let m = inboundMessage base (clock 1) receiver msg in
          case CreateOrGetMessageRecord m (clock 2) (hs_store h) of
            (Inl _, s) \<Rightarrow> (Inl (handler_error 500 ''store_error'' ''failed to register inbound message''), h\<lparr>hs_store := s\<rparr>)
          | (Inr (record, replay), s) \<Rightarrow>
              if replay
              then (Inr (200, gmap_of [(''status'', GStr ''duplicate''),
                (''message_id'', GStr (Msg_MessageID (Rec_Message record)))]), h\<lparr>hs_store := s\<rparr>)
              else case Enqueue m s of
                (Inl _, s) \<Rightarrow> (Inl (handler_error 500 ''store_error'' ''failed to enqueue inbound message''),
                  h\<lparr>hs_store := snd (AbortMessageRecord (Msg_MessageID m) (clock 3) s)\<rparr>)
              | (Inr _, s) \<Rightarrow>
                  (Inr (202, gmap_of [(''status'', GStr ''accepted''), (''message_id'', GStr (Msg_MessageID m))]),
                   h\<lparr>hs_store := s, hs_waiters := Notify (Agent_AgentUUID receiver) (hs_waiters h)\<rparr>))"

end
