(* ===== verification/Delivery.thy ===== *)
theory Delivery
  imports PeerLink MessageSafety
begin

text \<open>
  The handlers of messages (\<^verbatim>\<open>internal/api/handlers_messages.go\<close>): publishing to an agent of this
  hub or of a peer, the look of a pull into the queue, acknowledging, giving back and the return of
  messages whose lease has expired.  Each is one request run without another in between; how requests
  interleave is the subject of the message machine and of the long poll.
\<close>

section \<open>Publishing\<close>

record publish_request =
  pb_ToAgentUUID :: string
  pb_ToAgentID :: string
  pb_ToAgentURI :: string
  pb_ContentType :: string
  pb_Payload :: string
  pb_ClientMsgID :: "string option"

definition publishResponse :: "message_record \<Rightarrow> bool \<Rightarrow> gmap" where
  "publishResponse record idempotent = gmap_of
     [(''message_id'', GStr (Msg_MessageID (Rec_Message record))), (''status'', GStr (Rec_Status record)),
      (''accepted_at'', GTime (Rec_AcceptedAt record)), (''idempotent_replay'', GBool idempotent)]"

definition droppedResponse :: gmap where
  "droppedResponse = gmap_of [(''status'', GStr ''dropped''), (''reason'', GStr ''no_trust_path'')]"

text \<open>An event about messages whose other fields are empty.\<close>

definition message_event :: "string \<Rightarrow> collective_event" where
  "message_event action = \<lparr>CE_Type = [], CE_EventID = [], CE_At = zeroTime, CE_Category = ''message'',
     CE_Action = action, CE_AgentUUID = [], CE_PeerAgentUUID = [], CE_OrgID = [], CE_PeerOrgID = [],
     CE_MessageID = [], CE_DeliveryID = [], CE_Details = fmempty\<rparr>"

definition publishCollectiveEvent :: "time \<Rightarrow> collective_event \<Rightarrow> hub_state \<Rightarrow> hub_state" where
  "publishCollectiveEvent now e h = h\<lparr>hs_collective := publish (hs_store h) now e (hs_collective h)\<rparr>"

text \<open>
  The arguments of a publish that are not the request's: the base URL of the hub, the clock, what
  \<^verbatim>\<open>newUUIDv7\<close> and \<^verbatim>\<open>idFactory\<close> give, and the client for peers.
\<close>

record publish_env =
  pe_base :: string
  pe_clock :: "nat \<Rightarrow> time"
  pe_messageID :: "string option"
  pe_outboundID :: "string option"
  pe_client :: peer_client

definition peerMessage ::
  "publish_env \<Rightarrow> agent \<Rightarrow> string \<Rightarrow> publish_request \<Rightarrow> peer_instance \<Rightarrow> string \<Rightarrow> string \<Rightarrow> message" where
  "peerMessage env sender senderAgentUUID req peer remoteScope messageID =
     \<lparr>Msg_MessageID = messageID, Msg_FromAgentUUID = senderAgentUUID, Msg_ToAgentUUID = [],
      Msg_FromAgentID = Agent_AgentID sender, Msg_ToAgentID = [],
      Msg_FromAgentURI = agentURI (pe_base env) sender, Msg_ToAgentURI = pb_ToAgentURI req,
      Msg_SenderOrgID = Agent_OrgID sender, Msg_ReceiverOrgID = remoteScope,
      Msg_ReceiverPeerID = Peer_PeerID peer, Msg_ContentType = pb_ContentType req,
      Msg_Payload = pb_Payload req, Msg_ClientMsgID = pb_ClientMsgID req, Msg_CreatedAt = pe_clock env 0\<rparr>"

definition localMessage ::
  "publish_env \<Rightarrow> agent \<Rightarrow> string \<Rightarrow> publish_request \<Rightarrow> agent \<Rightarrow> string \<Rightarrow> string \<Rightarrow> string \<Rightarrow> message" where
  "localMessage env sender senderAgentUUID req target senderOrgID receiverOrgID messageID =
     \<lparr>Msg_MessageID = messageID, Msg_FromAgentUUID = senderAgentUUID,
      Msg_ToAgentUUID = Agent_AgentUUID target, Msg_FromAgentID = Agent_AgentID sender,
      Msg_ToAgentID = Agent_AgentID target, Msg_FromAgentURI = agentURI (pe_base env) sender,
      Msg_ToAgentURI = agentURI (pe_base env) target, Msg_SenderOrgID = senderOrgID,
      Msg_ReceiverOrgID = receiverOrgID, Msg_ReceiverPeerID = [], Msg_ContentType = pb_ContentType req,
      Msg_Payload = pb_Payload req, Msg_ClientMsgID = pb_ClientMsgID req, Msg_CreatedAt = pe_clock env 0\<rparr>"

text \<open>The part of \<^verbatim>\<open>publishFromAgent\<close> for an agent of a peer.\<close>

definition publishToPeer ::
  "publish_env \<Rightarrow> agent \<Rightarrow> string \<Rightarrow> publish_request \<Rightarrow> peer_instance \<Rightarrow> string \<Rightarrow> hub_state \<Rightarrow>
    (runtime_error + gmap) \<times> hub_state" where
  "publishToPeer env sender senderAgentUUID req peer targetRef h =
     (let org = Agent_OrgID sender; remoteScope = remoteOrgHandleFromAgentRef targetRef;
          event = (\<lambda>action. (message_event action)\<lparr>CE_AgentUUID := senderAgentUUID, CE_OrgID := org,
            CE_PeerOrgID := remoteScope\<rparr>) in
      if \<not> hasActiveFederatedTrustPath sender senderAgentUUID (Peer_PeerID peer) (pb_ToAgentURI req)
          targetRef (hs_store h)
      then
        let h = h\<lparr>hs_store := RecordMessageDropped org (pe_clock env 0) (hs_store h)\<rparr>
        in (Inr droppedResponse, publishCollectiveEvent (pe_clock env 1)
          ((event ''dropped'')\<lparr>CE_Details := gmap_of [(''reason'', GStr ''no_trust_path''),
            (''to_agent_uri'', GStr (pb_ToAgentURI req))]\<rparr>) h)
      else case pe_messageID env of
        None \<Rightarrow> (Inl (handler_error 500 ''id_generation_failed'' ''failed to create message_id''), h)
      | Some messageID \<Rightarrow>
          let m = peerMessage env sender senderAgentUUID req peer remoteScope messageID in
          case CreateOrGetMessageRecord m (Msg_CreatedAt m) (hs_store h) of
            (Inl e, s) \<Rightarrow> (Inl (handler_error 500 ''store_error'' ''failed to register message''),
              setStateRuntimeError (stateRuntimeFailureSummary ''message register'' e) (h\<lparr>hs_store := s\<rparr>))
          | (Inr (record, replay), s) \<Rightarrow>
              let h = clearStateRuntimeError (h\<lparr>hs_store := s\<rparr>) in
              if replay then (Inr (publishResponse record True), h)
              else case pe_outboundID env of
                None \<Rightarrow> (Inl (handler_error 500 ''id_generation_failed'' ''failed to create outbound_id''),
                  h\<lparr>hs_store := snd (AbortMessageRecord messageID (pe_clock env 1) s)\<rparr>)
              | Some outboundID \<Rightarrow>
                  (case EnqueuePeerOutbound (Peer_PeerID peer) outboundID m (Msg_CreatedAt m) s of
                     (Inl _, s) \<Rightarrow> (Inl (handler_error 500 ''store_error'' ''failed to enqueue peer delivery''),
                       h\<lparr>hs_store := snd (AbortMessageRecord messageID (pe_clock env 1) s)\<rparr>)
                   | (Inr _, s) \<Rightarrow>
                       let s = processPeerOutboxes (pe_client env) (pe_clock env 1) 1 s;
                           record = (case GetMessageRecord s messageID of Inl _ \<Rightarrow> record | Inr r \<Rightarrow> r);
                           h = h\<lparr>hs_store := RecordMessageQueued org (pe_clock env 2) s\<rparr>
                       in (Inr (publishResponse record False), publishCollectiveEvent (pe_clock env 3)
                            ((event ''published'')\<lparr>CE_At := Msg_CreatedAt m, CE_MessageID := messageID,
                              CE_Details := gmap_of [(''to_agent_uri'', GStr (pb_ToAgentURI req)),
                                (''peer_id'', GStr (Peer_PeerID peer)), (''status'', GStr (Rec_Status record))]\<rparr>) h)))"

definition publication_event :: "string \<Rightarrow> string \<Rightarrow> string \<Rightarrow> string \<Rightarrow> string \<Rightarrow> collective_event" where
  "publication_event action senderAgentUUID receiverAgentUUID senderOrgID receiverOrgID =
     (message_event action)\<lparr>CE_AgentUUID := senderAgentUUID, CE_PeerAgentUUID := receiverAgentUUID,
       CE_OrgID := senderOrgID, CE_PeerOrgID := receiverOrgID\<rparr>"

text \<open>The end of \<^verbatim>\<open>publishFromAgent\<close>: the sender may write to the agent \<open>target\<close> of this hub.\<close>

definition acceptLocally ::
  "publish_env \<Rightarrow> agent \<Rightarrow> string \<Rightarrow> publish_request \<Rightarrow> agent \<Rightarrow> string \<Rightarrow> string \<Rightarrow> hub_state \<Rightarrow>
    (runtime_error + gmap) \<times> hub_state" where
  "acceptLocally env sender senderAgentUUID req target senderOrgID receiverOrgID h =
     (case pe_messageID env of
        None \<Rightarrow> (Inl (handler_error 500 ''id_generation_failed'' ''failed to create message_id''), h)
      | Some messageID \<Rightarrow>
          let m = localMessage env sender senderAgentUUID req target senderOrgID receiverOrgID messageID in
          case CreateOrGetMessageRecord m (Msg_CreatedAt m) (hs_store h) of
            (Inl e, s) \<Rightarrow> (Inl (handler_error 500 ''store_error'' ''failed to register message''),
              setStateRuntimeError (stateRuntimeFailureSummary ''message register'' e) (h\<lparr>hs_store := s\<rparr>))
          | (Inr (record, replay), s) \<Rightarrow>
              let h = clearStateRuntimeError (h\<lparr>hs_store := s\<rparr>) in
              if replay then (Inr (publishResponse record True), h)
              else case Enqueue m s of
                (Inl e, s) \<Rightarrow> (Inl (if e = ErrAgentNotFound
                    then handler_error 404 ''unknown_receiver'' ''to_agent_uuid is not registered''
                    else handler_error 500 ''store_error'' ''failed to enqueue message''),
                  setQueueRuntimeError (queueRuntimeFailureSummary ''enqueue'' e)
                    (h\<lparr>hs_store := snd (AbortMessageRecord messageID (pe_clock env 1) s)\<rparr>))
              | (Inr _, s) \<Rightarrow>
                  let h = (clearQueueRuntimeError h)\<lparr>hs_store := RecordMessageQueued senderOrgID (pe_clock env 1) s,
                        hs_waiters := Notify (Agent_AgentUUID target) (hs_waiters h)\<rparr>
                  in (Inr (publishResponse record False), publishCollectiveEvent (pe_clock env 2)
                       ((publication_event ''published'' senderAgentUUID (Agent_AgentUUID target) senderOrgID receiverOrgID)
                         \<lparr>CE_At := Msg_CreatedAt m, CE_MessageID := messageID,
                          CE_Details := gmap_of [(''status'', GStr (Rec_Status record))]\<rparr>) h))"

text \<open>The part for an agent of this hub, once the request names its identifier.\<close>

definition publishLocally ::
  "publish_env \<Rightarrow> agent \<Rightarrow> string \<Rightarrow> publish_request \<Rightarrow> hub_state \<Rightarrow> (runtime_error + gmap) \<times> hub_state" where
  "publishLocally env sender senderAgentUUID req h =
     (if \<not> validateUUID (pb_ToAgentUUID req)
      then (Inl (handler_error 400 ''invalid_to_agent_uuid'' ''to_agent_uuid must be a valid UUID''), h)
      else case GetAgentByUUID (pb_ToAgentUUID req) (hs_store h) of
        Inl e \<Rightarrow> (Inl (if e = ErrAgentNotFound
            then handler_error 404 ''unknown_receiver'' ''to_agent_uuid is not registered''
            else handler_error 500 ''store_error'' ''failed to resolve receiver''), h)
      | Inr target \<Rightarrow>
          if pb_ToAgentURI req \<noteq> [] \<and> pb_ToAgentURI req \<noteq> agentURI (pe_base env) target
          then (Inl (handler_error 400 ''agent_ref_mismatch''
            ''to_agent_uuid and to_agent_uri refer to different agents''), h)
          else case validateSkillActivationRequest target (pb_ContentType req) (pb_Payload req) of
            Some e \<Rightarrow> (Inl e, h)
          | None \<Rightarrow>
          (let (senderOrgID, receiverOrgID, denied) = CanPublish senderAgentUUID (Agent_AgentUUID target) (hs_store h) in
           case denied of
             Some e \<Rightarrow>
               (if e = ErrAgentNotFound
                then (Inl (handler_error 404 ''unknown_receiver'' ''to_agent_uuid is not registered''), h)
                else if e = ErrNoTrustPath
                then let h = h\<lparr>hs_store := RecordMessageDropped senderOrgID (pe_clock env 0) (hs_store h)\<rparr>
                  in (Inr droppedResponse, publishCollectiveEvent (pe_clock env 1)
                    ((publication_event ''dropped'' senderAgentUUID (Agent_AgentUUID target) senderOrgID receiverOrgID)
                      \<lparr>CE_Details := gmap_of [(''reason'', GStr ''no_trust_path'')]\<rparr>) h)
                else (Inl (handler_error 500 ''store_error'' ''failed to authorize publish''), h))
           | None \<Rightarrow> acceptLocally env sender senderAgentUUID req target senderOrgID receiverOrgID h))"

definition trimmedRequest :: "publish_request \<Rightarrow> publish_request" where
  "trimmedRequest req = req\<lparr>pb_ToAgentUUID := normalizeUUID (pb_ToAgentUUID req),
     pb_ToAgentID := TrimSpace (pb_ToAgentID req), pb_ToAgentURI := TrimSpace (pb_ToAgentURI req),
     pb_ContentType := TrimSpace (pb_ContentType req)\<rparr>"

definition publishFromAgent ::
  "publish_env \<Rightarrow> string \<Rightarrow> publish_request \<Rightarrow> hub_state \<Rightarrow> (runtime_error + gmap) \<times> hub_state" where
  "publishFromAgent env senderAgentUUID req h =
     (let req = trimmedRequest req;
          unresolved = (\<lambda>e msg. if e = ErrAgentNotFound then handler_error 404 ''unknown_receiver'' msg
            else handler_error 500 ''store_error'' ''failed to resolve receiver'') in
      if pb_ContentType req \<notin> set allowedContentTypes
      then (Inl (handler_error 400 ''invalid_content_type'' ''content_type must be one of: text/plain, application/json''), h)
      else case GetAgentByUUID senderAgentUUID (hs_store h) of
        Inl _ \<Rightarrow> (Inl (handler_error 401 ''unauthorized'' ''missing or invalid bearer token''), h)
      | Inr sender \<Rightarrow>
      case (if pb_ToAgentUUID req = [] \<and> pb_ToAgentURI req = [] \<and> pb_ToAgentID req \<noteq> []
            then map_sum (\<lambda>e. unresolved e ''to_agent_id is not registered'') (\<lambda>u. req\<lparr>pb_ToAgentUUID := u\<rparr>)
              (ResolveAgentUUID (pb_ToAgentID req) (hs_store h))
            else Inr req) of
        Inl e \<Rightarrow> (Inl e, h)
      | Inr req \<Rightarrow>
          if pb_ToAgentUUID req = [] \<and> pb_ToAgentURI req = []
          then (Inl (handler_error 400 ''invalid_request'' ''to_agent_uuid, to_agent_id, or to_agent_uri is required''), h)
          else if pb_ToAgentURI req = [] then publishLocally env sender senderAgentUUID req h
          else case splitCanonicalAgentURI (pb_ToAgentURI req) of
            None \<Rightarrow> (Inl (handler_error 400 ''invalid_to_agent_uri'' ''to_agent_uri must be a valid canonical agent URI''), h)
          | Some (targetBase, targetRef) \<Rightarrow>
              if targetBase \<noteq> normalizeCanonicalBaseURL (pe_base env)
              then (case ResolvePeerByCanonicalBase targetBase (hs_store h) of
                  Inl _ \<Rightarrow> (Inl (handler_error 404 ''unknown_receiver'' ''to_agent_uri is not registered on a trusted peer''), h)
                | Inr peer \<Rightarrow> publishToPeer env sender senderAgentUUID req peer targetRef h)
              else if pb_ToAgentUUID req \<noteq> [] then publishLocally env sender senderAgentUUID req h
              else (case ResolveAgentUUID targetRef (hs_store h) of
                  Inl e \<Rightarrow> (Inl (unresolved e ''to_agent_uri is not registered''), h)
                | Inr u \<Rightarrow> publishLocally env sender senderAgentUUID (req\<lparr>pb_ToAgentUUID := u\<rparr>) h))"

section \<open>Pulling, acknowledging, giving back\<close>

definition defaultMessageLease :: int where
  "defaultMessageLease = 60 * Second"

text \<open>
  \<^verbatim>\<open>requeueExpiredLeases\<close> stops at the first message that the queue does not take; the flag says
  whether the loop came to its end.
\<close>

fun requeueLoop :: "message list \<Rightarrow> hub_state \<Rightarrow> bool \<times> hub_state" where
  "requeueLoop [] h = (True, h)"
| "requeueLoop (m # ms) h =
     (case Enqueue m (hs_store h) of
        (Inl e, s) \<Rightarrow> (False, setQueueRuntimeError (queueRuntimeFailureSummary ''requeue'' e) (h\<lparr>hs_store := s\<rparr>))
      | (Inr _, s) \<Rightarrow>
          requeueLoop ms (h\<lparr>hs_store := s, hs_waiters := Notify (Msg_ToAgentUUID m) (hs_waiters h)\<rparr>))"

definition requeueExpiredLeases :: "time \<Rightarrow> hub_state \<Rightarrow> hub_state" where
  "requeueExpiredLeases now h =
     (let (ms, s) = ExpireMessageLeases now (hs_store h);
          (all, h) = requeueLoop ms (h\<lparr>hs_store := s\<rparr>) in
      if all \<and> ms \<noteq> [] then clearQueueRuntimeError h else h)"

definition claimMessageForAgent ::
  "(nat \<Rightarrow> time) \<Rightarrow> string option \<Rightarrow> string \<Rightarrow> message \<Rightarrow> hub_state \<Rightarrow>
    (runtime_error + message_record \<times> message_delivery) \<times> hub_state" where
  "claimMessageForAgent clock newID receiverAgentUUID m h =
     (let h = clearQueueRuntimeError h in
      case newID of
        None \<Rightarrow> (Inl (handler_error 500 ''id_generation_failed'' ''failed to create delivery_id''), h)
      | Some deliveryID \<Rightarrow>
          let leasedAt = clock 0; leaseExpiresAt = leasedAt + defaultMessageLease in
          case LeaseMessage (Msg_MessageID m) receiverAgentUUID deliveryID leasedAt leaseExpiresAt (hs_store h) of
            (Inl e, s) \<Rightarrow> (Inl (handler_error 500 ''store_error'' ''failed to lease message''),
              setQueueRuntimeError (queueRuntimeFailureSummary ''lease'' e) (h\<lparr>hs_store := snd (Enqueue m s)\<rparr>))
          | (Inr (delivery, record), s) \<Rightarrow>
              (Inr (record, delivery), publishCollectiveEvent (clock 1)
                ((message_event ''delivered'')\<lparr>CE_At := leasedAt, CE_AgentUUID := receiverAgentUUID,
                  CE_PeerAgentUUID := Msg_FromAgentUUID (Rec_Message record),
                  CE_OrgID := Msg_ReceiverOrgID (Rec_Message record),
                  CE_PeerOrgID := Msg_SenderOrgID (Rec_Message record),
                  CE_MessageID := Msg_MessageID (Rec_Message record),
                  CE_DeliveryID := Del_DeliveryID delivery\<rparr>) (h\<lparr>hs_store := s\<rparr>)))"

text \<open>
  The first look of \<^verbatim>\<open>pullForAgent\<close>: the leases that have expired, then the queue.  The second
  reading of the clock is for the deadline of the wait.
\<close>

definition pullNow ::
  "(nat \<Rightarrow> time) \<Rightarrow> string option \<Rightarrow> string \<Rightarrow> hub_state \<Rightarrow>
    (runtime_error + (message_record \<times> message_delivery) option) \<times> hub_state" where
  "pullNow clock newID receiverAgentUUID h =
     (let h = requeueExpiredLeases (clock 0) h in
      case Dequeue receiverAgentUUID (hs_store h) of
        (None, s) \<Rightarrow> (Inr None, clearQueueRuntimeError (h\<lparr>hs_store := s\<rparr>))
      | (Some m, s) \<Rightarrow>
          map_prod (map_sum id Some) id
            (claimMessageForAgent (\<lambda>n. clock (n + 2)) newID receiverAgentUUID m (h\<lparr>hs_store := s\<rparr>)))"

definition deliveryError :: "store_error \<Rightarrow> string \<Rightarrow> runtime_error" where
  "deliveryError e failed =
     (if e = ErrMessageDeliveryNotFound then handler_error 404 ''unknown_delivery'' ''delivery_id is not active''
      else if e = ErrMessageDeliveryMismatch
      then handler_error 403 ''forbidden'' ''delivery_id does not belong to this agent''
      else handler_error 500 ''store_error'' failed)"

definition delivery_event :: "string \<Rightarrow> string \<Rightarrow> string \<Rightarrow> message \<Rightarrow> collective_event" where
  "delivery_event action receiverAgentUUID deliveryID m =
     (message_event action)\<lparr>CE_AgentUUID := receiverAgentUUID, CE_PeerAgentUUID := Msg_FromAgentUUID m,
       CE_OrgID := Msg_ReceiverOrgID m, CE_PeerOrgID := Msg_SenderOrgID m, CE_MessageID := Msg_MessageID m,
       CE_DeliveryID := deliveryID\<rparr>"

definition ackDeliveryForAgent ::
  "(nat \<Rightarrow> time) \<Rightarrow> string \<Rightarrow> string \<Rightarrow> hub_state \<Rightarrow> (runtime_error + message_record) \<times> hub_state" where
  "ackDeliveryForAgent clock receiverAgentUUID deliveryID h =
     (case AckMessageDelivery receiverAgentUUID deliveryID (clock 0) (hs_store h) of
        (Inl e, s) \<Rightarrow> (Inl (deliveryError e ''failed to acknowledge delivery''), h\<lparr>hs_store := s\<rparr>)
      | (Inr record, s) \<Rightarrow>
          (Inr record, publishCollectiveEvent (clock 1)
            (delivery_event ''acked'' receiverAgentUUID deliveryID (Rec_Message record)) (h\<lparr>hs_store := s\<rparr>)))"

definition nackDeliveryForAgent ::
  "(nat \<Rightarrow> time) \<Rightarrow> string \<Rightarrow> string \<Rightarrow> hub_state \<Rightarrow> (runtime_error + message_record) \<times> hub_state" where
  "nackDeliveryForAgent clock receiverAgentUUID deliveryID h =
     (case ReleaseMessageDelivery receiverAgentUUID deliveryID (clock 0) ''receiver_nack'' (hs_store h) of
        (Inl e, s) \<Rightarrow> (Inl (deliveryError e ''failed to requeue delivery''), h\<lparr>hs_store := s\<rparr>)
      | (Inr (m, record), s) \<Rightarrow>
      case Enqueue m s of
        (Inl e, s) \<Rightarrow> (Inl (handler_error 500 ''store_error'' ''failed to requeue message''),
          setQueueRuntimeError (queueRuntimeFailureSummary ''requeue'' e) (h\<lparr>hs_store := s\<rparr>))
      | (Inr _, s) \<Rightarrow>
          (Inr record, publishCollectiveEvent (clock 1)
            (delivery_event ''nacked'' receiverAgentUUID deliveryID (Rec_Message record))
            ((clearQueueRuntimeError h)\<lparr>hs_store := s, hs_waiters := Notify receiverAgentUUID (hs_waiters h)\<rparr>)))"

definition messageStatusForAgent :: "string \<Rightarrow> string \<Rightarrow> hub_state \<Rightarrow> runtime_error + message_record" where
  "messageStatusForAgent agentUUID messageID h =
     (case GetMessageRecord (hs_store h) (TrimSpace messageID) of
        Inl e \<Rightarrow> Inl (if e = ErrMessageNotFound
          then handler_error 404 ''unknown_message'' ''message_id is not registered''
          else handler_error 500 ''store_error'' ''failed to load message status'')
      | Inr record \<Rightarrow>
          if Msg_FromAgentUUID (Rec_Message record) \<noteq> agentUUID \<and> Msg_ToAgentUUID (Rec_Message record) \<noteq> agentUUID
          then Inl (handler_error 403 ''forbidden'' ''message_id is not visible to this agent'')
          else Inr record)"

end
