(* ===== verification/DeliverySafety.thy ===== *)
theory DeliverySafety
  imports Delivery
begin

text \<open>
  What the handlers of messages guarantee: only authorised messages reach a queue, from agents of this
  hub and from peers, and which messages come back to the queues when their lease has expired.
\<close>

section \<open>What the handlers leave alone\<close>

lemma CreateOrGet_frame:
  "CreateOrGetMessageRecord m t s = (r, s') \<Longrightarrow> queues s' = queues s \<and> messageDeliveries s' = messageDeliveries s"
  by (auto simp: CreateOrGetMessageRecord_def replayRecord_def insertRecord_def Let_def
      split: if_splits option.splits)

lemma Abort_queues: "queues (snd (AbortMessageRecord i t s)) = queues s"
  by (simp add: AbortMessageRecord_def Let_def split: option.split)

lemma RecordQueued_queues: "queues (RecordMessageQueued org t s) = queues s"
  by (simp add: RecordMessageQueued_def)

lemma RecordDropped_queues: "queues (RecordMessageDropped org t s) = queues s"
  by (simp add: RecordMessageDropped_def Let_def)

lemma EnqueueOutbound_queues: "EnqueuePeerOutbound p i m t s = (r, s') \<Longrightarrow> queues s' = queues s"
  by (auto simp: EnqueuePeerOutbound_def Let_def split: if_splits)

lemma postOutbound_queues: "queues (postOutbound client now job s) = queues s"
  by (simp add: postOutbound_def MarkPeerOutboundRetry_def MarkPeerOutboundDelivered_def MarkMessageForwarded_def
      RecordPeerDeliverySuccess_def RecordPeerDeliveryFailure_def Let_def split: prod.split sum.split option.split)

lemma processPeerOutboxes_queues: "queues (processPeerOutboxes client now limit s) = queues s"
proof -
  have "queues (fold (postOutbound client now) jobs s) = queues s" for jobs
    by (induction jobs arbitrary: s) (simp_all add: postOutbound_queues)
  then show ?thesis by (simp add: processPeerOutboxes_def)
qed

lemma error_fields [simp]:
  "hs_store (setStateRuntimeError e h) = hs_store h" "hs_store (setQueueRuntimeError e h) = hs_store h"
  "hs_store (clearStateRuntimeError h) = hs_store h" "hs_store (clearQueueRuntimeError h) = hs_store h"
  "hs_store (publishCollectiveEvent t ev h) = hs_store h"
  by (simp_all add: setStateRuntimeError_def setQueueRuntimeError_def clearStateRuntimeError_def
      clearQueueRuntimeError_def publishCollectiveEvent_def Let_def)

abbreviation queue_at :: "hub_state \<Rightarrow> string \<Rightarrow> message list" where
  "queue_at h \<equiv> queue_of (hs_store h)"

lemma queue_at_same: "queues (hs_store h') = queues (hs_store h) \<Longrightarrow> queue_at h' = queue_at h"
  by (rule queue_of_cong)

text \<open>An enqueue that succeeds puts the message at the end of one queue.\<close>

lemma Enqueue_effect:
  assumes "Enqueue m s = (r, s')"
  shows "r = Inr () \<Longrightarrow> \<exists>a. routeOf s (mto m) = Some a \<and>
      queue_of s' = (queue_of s)(mto m := queue_of s (mto m) @ [m\<lparr>Msg_ToAgentID := a\<rparr>])"
    and "r = Inl e \<Longrightarrow> routeOf s (mto m) = None \<and> s' = s \<and> e = ErrAgentNotFound"
proof -
  show "\<exists>a. routeOf s (mto m) = Some a \<and>
      queue_of s' = (queue_of s)(mto m := queue_of s (mto m) @ [m\<lparr>Msg_ToAgentID := a\<rparr>])" if "r = Inr ()"
  proof (cases "routeOf s (mto m)")
    case None
    from mq.enq_err [OF None] assms that show ?thesis by (simp add: is_ok_def)
  next
    case (Some a)
    from mq.enq_ok [OF Some] assms Some show ?thesis by simp
  qed
  show "routeOf s (mto m) = None \<and> s' = s \<and> e = ErrAgentNotFound" if "r = Inl e"
    using assms that by (auto simp: Enqueue_def routeOf_def Let_def split: if_splits option.splits)
qed

section \<open>Publishing\<close>

lemma publishToPeer_queues:
  assumes "publishToPeer env a sender req peer ref h = (r, h')"
  shows "queue_at h' = queue_at h"
  using assms
  by (intro queue_at_same)
    (auto simp: publishToPeer_def Let_def RecordDropped_queues RecordQueued_queues Abort_queues
      processPeerOutboxes_queues dest!: CreateOrGet_frame EnqueueOutbound_queues
      split: if_splits option.splits prod.splits sum.splits)

lemma CreateOrGet_fresh:
  "CreateOrGetMessageRecord m t s = (Inr (record, False), s') \<Longrightarrow> Rec_Message record = m"
  by (auto simp: CreateOrGetMessageRecord_def insertRecord_def new_record_def replayRecord_def Let_def
      split: if_splits option.splits)

text \<open>What a message that a publish has put into the queue of \<open>u\<close> says of its sender.\<close>

definition published_by ::
  "publish_env \<Rightarrow> string \<Rightarrow> publish_request \<Rightarrow> memory_store \<Rightarrow> agent \<Rightarrow> string \<Rightarrow> message \<Rightarrow> bool" where
  "published_by env sender req s a u m \<longleftrightarrow>
     CanPublish sender u s = (Msg_SenderOrgID m, Msg_ReceiverOrgID m, None) \<and>
     Msg_FromAgentUUID m = sender \<and> Msg_FromAgentID m = Agent_AgentID a \<and>
     Msg_FromAgentURI m = agentURI (pe_base env) a \<and> Msg_ToAgentUUID m = u \<and>
     Msg_Payload m = pb_Payload req \<and> Msg_ContentType m = pb_ContentType req \<and>
     pe_messageID env = Some (Msg_MessageID m)"

lemma published_local:
  assumes "CanPublish sender (Agent_AgentUUID target) s = (o1, o2, None)" and "pe_messageID env = Some i"
  shows "published_by env sender req s a (Agent_AgentUUID target)
    ((localMessage env a sender req target o1 o2 i)\<lparr>Msg_ToAgentID := x\<rparr>)"
  using assms by (simp add: published_by_def localMessage_def)

lemma acceptLocally_queues:
  assumes run: "acceptLocally env a sender req target o1 o2 h = (r, h')" and moved: "queue_at h' u \<noteq> queue_at h u"
    and may: "CanPublish sender (Agent_AgentUUID target) (hs_store h) = (o1, o2, None)"
  shows "u = Agent_AgentUUID target \<and>
    (\<exists>m ans. published_by env sender req (hs_store h) a u m \<and> queue_at h' u = queue_at h u @ [m] \<and>
    r = Inr ans \<and> gget ans ''message_id'' = GStr (Msg_MessageID m))"
proof (cases "pe_messageID env")
  case None
  with run moved show ?thesis by (simp add: acceptLocally_def)
next
  case (Some i)
  let ?m = "localMessage env a sender req target o1 o2 i"
  obtain r1 s where create: "CreateOrGetMessageRecord ?m (pe_clock env 0) (hs_store h) = (r1, s)" by fastforce
  have at: "Msg_CreatedAt ?m = pe_clock env 0" "mto ?m = Agent_AgentUUID target" by (simp_all add: localMessage_def)
  have q: "queue_of s = queue_at h" using CreateOrGet_frame [OF create] by (intro queue_of_cong) simp
  note step = run [unfolded acceptLocally_def Some option.case Let_def at create prod.case]
  have "\<exists>rec. r1 = Inr (rec, False)"
  proof (cases r1)
    case (Inl x)
    with step moved q show ?thesis by auto
  next
    case (Inr x)
    then show ?thesis using step moved q by (cases x; cases "snd x") auto
  qed
  then obtain rec where rec: "r1 = Inr (rec, False)" by blast
  obtain e s2 where enq: "Enqueue ?m s = (e, s2)" by fastforce
  show ?thesis
  proof (cases e)
    case (Inl x)
    with Enqueue_effect(2) [OF enq] have s2: "s2 = s" by blast
    have "hs_store h' = snd (AbortMessageRecord i (pe_clock env 1) s)"
      using step unfolding rec enq Inl s2 by auto
    then have "queue_at h' = queue_at h" by (simp only: queue_of_cong [OF Abort_queues] q)
    with moved show ?thesis by simp
  next
    case (Inr y)
    then have e: "e = Inr ()" by simp
    from Enqueue_effect(1) [OF enq e] obtain x where
      q2: "queue_of s2 = (queue_of s)(Agent_AgentUUID target := queue_of s (Agent_AgentUUID target) @ [?m\<lparr>Msg_ToAgentID := x\<rparr>])"
      unfolding at by blast
    have "r = Inr (publishResponse rec False) \<and> hs_store h' = RecordMessageQueued o1 (pe_clock env 1) s2"
      using step unfolding rec enq e by auto
    then have r: "r = Inr (publishResponse rec False)" "queue_at h' = queue_of s2"
      by (simp_all only: queue_of_cong [OF RecordQueued_queues])
    with moved q q2 have u: "u = Agent_AgentUUID target" by (auto split: if_splits)
    moreover have "gget (publishResponse rec False) ''message_id'' = GStr (Msg_MessageID ?m)"
      using CreateOrGet_fresh [of ?m _ "hs_store h" rec s] create rec by (simp add: publishResponse_def gget_def gmap_of_def)
    ultimately show ?thesis
      using published_local [OF may Some, of req a x] r q q2 by auto
  qed
qed

lemma publishLocally_queues:
  assumes run: "publishLocally env a sender req h = (r, h')" and moved: "queue_at h' u \<noteq> queue_at h u"
  shows "\<exists>m ans target. published_by env sender req (hs_store h) a u m \<and> queue_at h' u = queue_at h u @ [m] \<and>
    r = Inr ans \<and> gget ans ''message_id'' = GStr (Msg_MessageID m) \<and>
    GetAgentByUUID (pb_ToAgentUUID req) (hs_store h) = Inr target \<and> Agent_AgentUUID target = u \<and>
    validateSkillActivationRequest target (pb_ContentType req) (pb_Payload req) = None"
proof -
  obtain target o1 o2 where target: "CanPublish sender (Agent_AgentUUID target) (hs_store h) = (o1, o2, None)"
    "acceptLocally env a sender req target o1 o2 h = (r, h')"
    "GetAgentByUUID (pb_ToAgentUUID req) (hs_store h) = Inr target"
    "validateSkillActivationRequest target (pb_ContentType req) (pb_Payload req) = None"
    using run moved
    by (auto simp: publishLocally_def Let_def queue_of_cong [OF RecordDropped_queues]
        split: if_splits option.splits prod.splits sum.splits)
  from acceptLocally_queues [OF target(2) moved target(1)] target(3,4) show ?thesis by blast
qed

lemma map_sum_InrD: "map_sum f g x = Inr y \<Longrightarrow> \<exists>u. x = Inr u \<and> y = g u"
  by (cases x) auto

lemma publishFromAgent_local:
  assumes run: "publishFromAgent env sender req h = (r, h')" and moved: "queue_at h' u \<noteq> queue_at h u"
  obtains a req' where "GetAgentByUUID sender (hs_store h) = Inr a" "pb_Payload req' = pb_Payload req"
    "pb_ContentType req' = TrimSpace (pb_ContentType req)" "publishLocally env a sender req' h = (r, h')"
proof -
  obtain a where a: "GetAgentByUUID sender (hs_store h) = Inr a"
    using run moved by (auto simp: publishFromAgent_def Let_def split: if_splits sum.splits)
  have peer: "publishToPeer env a sender q peer ref h \<noteq> (r, h')" for q peer ref
    using publishToPeer_queues moved by metis
  have "\<exists>req'. (pb_Payload req' = pb_Payload req \<and> pb_ContentType req' = TrimSpace (pb_ContentType req)) \<and>
      publishLocally env a sender req' h = (r, h')"
    using run moved peer
    by (auto simp: publishFromAgent_def trimmedRequest_def a Let_def dest!: map_sum_InrD
        split: if_splits sum.splits option.splits prod.splits)
      (rule exI, rule conjI [rotated], rule conjI [rotated], assumption, simp, simp)+
  with a that show ?thesis by blast
qed

text \<open>
  C4: only authorised messages reach a queue, and they say who sent them.  Whatever an agent asks to
  publish, a queue of this hub changes only if the sender and the owner of the queue may exchange
  messages; then one message is put at its end, which names the sender by the identifier, reference,
  URI and organisation the store has for it, carries the payload of the request, and is the one the
  answer names.
\<close>

theorem publish_is_authorised:
  assumes "publishFromAgent env sender req h = (r, h')" and "queue_at h' u \<noteq> queue_at h u"
  shows "\<exists>a m ans. GetAgentByUUID sender (hs_store h) = Inr a \<and>
    CanPublish sender u (hs_store h) = (Msg_SenderOrgID m, Msg_ReceiverOrgID m, None) \<and>
    queue_at h' u = queue_at h u @ [m] \<and> Msg_FromAgentUUID m = sender \<and>
    Msg_FromAgentID m = Agent_AgentID a \<and> Msg_FromAgentURI m = agentURI (pe_base env) a \<and>
    Msg_ToAgentUUID m = u \<and> Msg_Payload m = pb_Payload req \<and>
    r = Inr ans \<and> gget ans ''message_id'' = GStr (Msg_MessageID m)"
proof -
  obtain a req' where a: "GetAgentByUUID sender (hs_store h) = Inr a" "pb_Payload req' = pb_Payload req"
    "publishLocally env a sender req' h = (r, h')"
    using publishFromAgent_local [OF assms] by metis
  from publishLocally_queues [OF a(3) assms(2)] a(1,2) show ?thesis unfolding published_by_def by auto
qed


section \<open>The return of messages\<close>

text \<open>The messages for \<open>u\<close> among \<open>ms\<close>, as the queue keeps them.\<close>

definition returned_to :: "memory_store \<Rightarrow> string \<Rightarrow> message list \<Rightarrow> message list" where
  "returned_to s u ms = map (\<lambda>m. m\<lparr>Msg_ToAgentID := the (routeOf s u)\<rparr>) (filter (\<lambda>m. mto m = u) ms)"

lemma Enqueue_route: "Enqueue m s = (r, s') \<Longrightarrow> routeOf s' = routeOf s \<and> messageDeliveries s' = messageDeliveries s"
  by (auto simp: Enqueue_def routeOf_def noteQueuedMessageAddedLocked_def Let_def fun_eq_iff
      split: if_splits option.splits)

lemma requeueLoop_queues:
  "requeueLoop ms h = (all, h') \<Longrightarrow>
     (let back = takeWhile (\<lambda>m. routeOf (hs_store h) (mto m) \<noteq> None) ms in
      queue_at h' u = queue_at h u @ returned_to (hs_store h) u back \<and> all = (back = ms)) \<and>
     messageDeliveries (hs_store h') = messageDeliveries (hs_store h)"
proof (induction ms arbitrary: h)
  case Nil
  then show ?case by (simp add: returned_to_def)
next
  case (Cons m ms)
  obtain r s where enq: "Enqueue m (hs_store h) = (r, s)" by fastforce
  show ?case
  proof (cases r)
    case (Inl e)
    with Enqueue_effect(2) [OF enq] Cons.prems enq show ?thesis by (auto simp: returned_to_def)
  next
    case (Inr x)
    then have r: "r = Inr ()" by simp
    from Enqueue_effect(1) [OF enq r] obtain a where a: "routeOf (hs_store h) (mto m) = Some a"
      "queue_of s = (queue_at h)(mto m := queue_at h (mto m) @ [m\<lparr>Msg_ToAgentID := a\<rparr>])" by blast
    let ?h = "h\<lparr>hs_store := s, hs_waiters := Notify (mto m) (hs_waiters h)\<rparr>"
    have "requeueLoop ms ?h = (all, h')" using Cons.prems enq r by simp
    from Cons.IH [OF this] a Enqueue_route [OF enq] show ?thesis
      by (auto simp: Let_def returned_to_def)
  qed
qed

lemma expireDelivery_queues: "queues (snd (expireDelivery t d acc)) = queues (snd acc)"
  by (simp add: expireDelivery_def Let_def split: prod.split option.split)

lemma ExpireMessageLeases_queues: "queues (snd (ExpireMessageLeases t s)) = queues s"
proof -
  have "queues (snd (fold (expireDelivery t) ds acc)) = queues (snd acc)" for ds acc
    by (induction ds arbitrary: acc) (simp_all add: expireDelivery_queues)
  from this [of _ "([], s)"] show ?thesis by (simp add: ExpireMessageLeases_def)
qed

definition holds_option :: "('a \<Rightarrow> bool) \<Rightarrow> 'a option \<Rightarrow> bool" where
  "holds_option P x \<longleftrightarrow> (\<exists>v. x = Some v \<and> P v)"

lemma expireDelivery_deliveries:
  "fmlookup (messageDeliveries (snd (expireDelivery t d acc))) i =
     (if i = d \<and> \<not> holds_option (\<lambda>v. Del_LeaseExpiresAt v > t) (fmlookup (messageDeliveries (snd acc)) i) then None
      else fmlookup (messageDeliveries (snd acc)) i)"
  by (auto simp: expireDelivery_def Let_def holds_option_def split: prod.split option.split)

lemma ExpireMessageLeases_deliveries:
  "fmlookup (messageDeliveries (snd (ExpireMessageLeases t s))) i =
     Option.bind (fmlookup (messageDeliveries s) i) (\<lambda>v. if Del_LeaseExpiresAt v > t then Some v else None)"
proof -
  have "fmlookup (messageDeliveries (snd (fold (expireDelivery t) ds acc))) i =
      (if i \<in> set ds \<and> \<not> holds_option (\<lambda>v. Del_LeaseExpiresAt v > t) (fmlookup (messageDeliveries (snd acc)) i)
       then None else fmlookup (messageDeliveries (snd acc)) i)" for ds acc
    by (induction ds arbitrary: acc) (auto simp: expireDelivery_deliveries)
  from this [of "sorted_keys (messageDeliveries s)" "([], s)"] show ?thesis
    by (cases "fmlookup (messageDeliveries s) i")
      (auto simp: ExpireMessageLeases_def holds_option_def set_sorted_keys fmlookup_dom_iff)
qed


section \<open>Messages from peers\<close>

lemma inbound_queues:
  assumes "handlePeerInboundMessage base clock req body h = (r, h')" and "h' \<noteq> h"
  obtains peer msg receiver where
    "authenticatePeerRequest clock req body (hs_store h) = Inr (peer, msg)"
    "authorizePeerMessage base peer msg (hs_store h) = Inr receiver"
    "queue_at h' = queue_at h \<or> (\<exists>x. queue_at h' = (queue_at h)(Agent_AgentUUID receiver :=
       queue_at h (Agent_AgentUUID receiver) @ [(inboundMessage base (clock 1) receiver msg)\<lparr>Msg_ToAgentID := x\<rparr>]))"
proof -
  obtain peer msg receiver where ok: "authenticatePeerRequest clock req body (hs_store h) = Inr (peer, msg)"
    "authorizePeerMessage base peer msg (hs_store h) = Inr receiver"
    using assms by (auto simp: handlePeerInboundMessage_def split: sum.splits prod.splits)
  let ?m = "inboundMessage base (clock 1) receiver msg"
  have to: "mto ?m = Agent_AgentUUID receiver" by (simp add: inboundMessage_def)
  obtain r1 s where create: "CreateOrGetMessageRecord ?m (clock 2) (hs_store h) = (r1, s)" by fastforce
  obtain e s2 where enq: "Enqueue ?m s = (e, s2)" by fastforce
  have q: "queue_of s = queue_at h" using CreateOrGet_frame [OF create] by (intro queue_of_cong) simp
  note step = assms(1) [unfolded handlePeerInboundMessage_def ok sum.case prod.case Let_def create]
  have "queue_at h' = queue_at h \<or> (\<exists>x. queue_at h' = (queue_at h)(Agent_AgentUUID receiver :=
       queue_at h (Agent_AgentUUID receiver) @ [?m\<lparr>Msg_ToAgentID := x\<rparr>]))"
  proof (cases e)
    case (Inl x)
    with Enqueue_effect(2) [OF enq] have s2: "s2 = s" by blast
    have "hs_store h' = s \<or> hs_store h' = snd (AbortMessageRecord (mid ?m) (clock 3) s)"
      using step unfolding enq Inl s2 by (auto split: sum.splits prod.splits if_splits)
    with q show ?thesis by (metis queue_of_cong [OF Abort_queues])
  next
    case (Inr y)
    then have e: "e = Inr ()" by simp
    from Enqueue_effect(1) [OF enq e] q obtain x where q2: "queue_of s2 = (queue_at h)(Agent_AgentUUID receiver :=
        queue_at h (Agent_AgentUUID receiver) @ [?m\<lparr>Msg_ToAgentID := x\<rparr>])"
      unfolding to by metis
    have "hs_store h' = s \<or> hs_store h' = s2"
      using step unfolding enq e by (auto split: sum.splits prod.splits if_splits)
    with q q2 show ?thesis by metis
  qed
  with ok that show ?thesis by blast
qed

lemma authenticated_request:
  assumes "authenticatePeerRequest clock req (Some body) s = Inr (peer, msg)"
  shows "\<exists>ts j. GetPeerInstance (TrimSpace (pr_peerID req)) s = Inr peer \<and>
    ParseRFC3339 (TrimSpace (pr_timestamp req)) = Some ts \<and> \<bar>clock 0 - ts\<bar> \<le> peerAuthSkew \<and>
    TrimSpace (pr_signature req) = computePeerSignature (Peer_SharedSecret peer) (TrimSpace (pr_timestamp req))
      (pr_method req) (pr_path req) (take maxPeerBody body) \<and>
    json_decode (take maxPeerBody body) = Some j \<and> message_of_envelope j = Some msg"
  using assms
  by (auto simp: authenticatePeerRequest_def verifyPeerSignature_def Let_def abs_le_iff bind_eq_Some_conv
      split: if_splits sum.splits option.splits)

lemma authorized_message:
  assumes "authorizePeerMessage base peer msg s = Inr receiver"
  shows "\<exists>i ref. resolveURI (Msg_ToAgentURI msg) s = Inr i \<and> GetAgentByUUID i s = Inr receiver \<and>
    splitCanonicalAgentURI (Msg_FromAgentURI msg) = Some (Peer_CanonicalBaseURL peer, ref) \<and>
    hasActiveFederatedTrustPath receiver (Agent_AgentUUID receiver) (Peer_PeerID peer) (Msg_FromAgentURI msg) ref s"
  using assms by (auto simp: authorizePeerMessage_def split: if_splits sum.splits option.splits)

text \<open>
  C5: a message from a peer is taken only when everything about it is in order.  A request to the peer
  endpoint changes the hub only if it names a peer, its time is within five minutes of the clock, its
  signature is that of the request under the secret shared with that peer, its body carries a message
  whose sender has a URI at that peer, and the receiver, a live agent of this hub that the URI of the
  message names, trusts that sender through that peer (and so does the receiver's organisation, if it has
  one).  Then at most the queue of that agent grows, by that message.
\<close>

theorem peer_message_is_authenticated:
  assumes "handlePeerInboundMessage base clock req (Some body) h = (r, h')" and "h' \<noteq> h"
  shows "\<exists>peer ts j msg i receiver ref.
    GetPeerInstance (TrimSpace (pr_peerID req)) (hs_store h) = Inr peer \<and>
    ParseRFC3339 (TrimSpace (pr_timestamp req)) = Some ts \<and> \<bar>clock 0 - ts\<bar> \<le> peerAuthSkew \<and>
    TrimSpace (pr_signature req) = computePeerSignature (Peer_SharedSecret peer) (TrimSpace (pr_timestamp req))
      (pr_method req) (pr_path req) (take maxPeerBody body) \<and>
    json_decode (take maxPeerBody body) = Some j \<and> message_of_envelope j = Some msg \<and>
    resolveURI (Msg_ToAgentURI msg) (hs_store h) = Inr i \<and> GetAgentByUUID i (hs_store h) = Inr receiver \<and>
    splitCanonicalAgentURI (Msg_FromAgentURI msg) = Some (Peer_CanonicalBaseURL peer, ref) \<and>
    hasActiveFederatedTrustPath receiver (Agent_AgentUUID receiver) (Peer_PeerID peer) (Msg_FromAgentURI msg) ref
      (hs_store h) \<and>
    (\<forall>u. queue_at h' u = queue_at h u \<or> u = Agent_AgentUUID receiver \<and>
      (\<exists>x. queue_at h' u = queue_at h u @ [(inboundMessage base (clock 1) receiver msg)\<lparr>Msg_ToAgentID := x\<rparr>]))"
proof -
  obtain peer msg receiver where run: "authenticatePeerRequest clock req (Some body) (hs_store h) = Inr (peer, msg)"
    "authorizePeerMessage base peer msg (hs_store h) = Inr receiver"
    "queue_at h' = queue_at h \<or> (\<exists>x. queue_at h' = (queue_at h)(Agent_AgentUUID receiver :=
       queue_at h (Agent_AgentUUID receiver) @ [(inboundMessage base (clock 1) receiver msg)\<lparr>Msg_ToAgentID := x\<rparr>]))"
    using inbound_queues [OF assms] .
  have "\<forall>u. queue_at h' u = queue_at h u \<or> u = Agent_AgentUUID receiver \<and>
      (\<exists>x. queue_at h' u = queue_at h u @ [(inboundMessage base (clock 1) receiver msg)\<lparr>Msg_ToAgentID := x\<rparr>])"
    using run(3) by (metis fun_upd_apply)
  with authenticated_request [OF run(1)] authorized_message [OF run(2)] show ?thesis by blast
qed

section \<open>An example\<close>

text \<open>Two agents of this hub that trust each other, and a peer whose agent \<open>bob/help\<close> may write to the first.\<close>

definition uuid1 :: string where "uuid1 = ''11111111-1111-1111-8111-111111111111''"
definition uuid2 :: string where "uuid2 = ''22222222-2222-2222-8222-222222222222''"

definition talker :: "string \<Rightarrow> string \<Rightarrow> agent" where
  "talker uuid name = demo_agent\<lparr>Agent_AgentUUID := uuid, Agent_AgentID := ''human/al/agent/'' @ name, Agent_Handle := name\<rparr>"

definition talk_edge :: trust_edge where
  "talk_edge = \<lparr>Edge_EdgeID = ''e1'', Edge_EdgeType = ''agent'', Edge_LeftID = uuid1, Edge_RightID = uuid2,
     Edge_State = StatusActive, Edge_LeftApproved = True, Edge_RightApproved = True, Edge_CreatedBy = ''h1'',
     Edge_CreatedAt = 1, Edge_UpdatedAt = 1\<rparr>"

definition talk :: memory_store where
  "talk = NewMemoryStore\<lparr>agents := fmap_of_list [(uuid1, talker uuid1 ''one''), (uuid2, talker uuid2 ''two'')],
     agentByURI := fmap_of_list [(''human/al/agent/one'', uuid1), (''human/al/agent/two'', uuid2)],
     agentTrusts := fmap_of_list [(''e1'', talk_edge)],
     agentTrustByPair := fmap_of_list [(pairKey uuid1 uuid2, ''e1'')]\<rparr>"

definition talk_env :: publish_env where
  "talk_env = \<lparr>pe_base = ''https://hub.io'', pe_clock = (\<lambda>n. 10 + int n), pe_messageID = Some ''m1'',
     pe_outboundID = Some ''x1'', pe_client = \<lparr>pc_urlError = (\<lambda>_. go_error_of ErrNoTrustPath), pc_do = (\<lambda>_ _. Inr (202, []))\<rparr>\<rparr>"
definition talk_request :: publish_request where
  "talk_request = \<lparr>pb_ToAgentUUID = uuid2, pb_ToAgentID = [], pb_ToAgentURI = [], pb_ContentType = ''text/plain'',
     pb_Payload = ''hello'', pb_ClientMsgID = None\<rparr>"


definition talk_peer :: peer_instance where
  "talk_peer = \<lparr>Peer_PeerID = ''p1'', Peer_CanonicalBaseURL = ''https://b.io'', Peer_DeliveryBaseURL = ''https://b.io'',
     Peer_SharedSecret = ''s'', Peer_Status = StatusActive, Peer_CreatedBy = ''h1'', Peer_CreatedAt = 1, Peer_UpdatedAt = 1,
     Peer_LastSuccessfulAt = None, Peer_LastFailureAt = None, Peer_LastFailureReason = []\<rparr>"

definition talk_trust :: remote_agent_trust where
  "talk_trust = zero_rat\<lparr>RAT_TrustID := ''t1'', RAT_Status := StatusActive\<rparr>"

definition peer_talk :: memory_store where
  "peer_talk = talk\<lparr>peerInstances := fmap_of_list [(''p1'', talk_peer)],
     remoteAgentTrusts := fmap_of_list [(''t1'', talk_trust)],
     remoteAgentTrustByKey := fmap_of_list [(remoteAgentTrustKey uuid1 ''p1'' ''https://b.io/human/bob/agent/help'', ''t1'')]\<rparr>"

definition talk_message :: message where
  "talk_message = demo_message\<lparr>Msg_FromAgentURI := ''https://b.io/human/bob/agent/help'',
     Msg_ToAgentURI := ''https://hub.io/human/al/agent/one'', Msg_ContentType := ''text/plain'',
     Msg_CreatedAt := 5 * Second\<rparr>"

definition peer_talk_request :: peer_request where
  "peer_talk_request = signPeerRequest \<lparr>pr_method = ''POST'', pr_url = [], pr_path = ''/v1/peer/messages'',
     pr_peerID = [], pr_timestamp = [], pr_signature = [], pr_body = []\<rparr> ''s'' ''p1'' (peerEnvelopeText talk_message) (9 * Second)"

lemma talk_publish:
  "queue_at (snd (publishFromAgent talk_env uuid1 talk_request (hub_start talk))) uuid2 \<noteq> []"
  by code_simp

theorem publish_is_authorised_witness:
  "\<exists>m. queue_at (snd (publishFromAgent talk_env uuid1 talk_request (hub_start talk))) uuid2 = [m] \<and>
     Msg_FromAgentUUID m = uuid1 \<and> snd (snd (CanPublish uuid1 uuid2 talk)) = None"
proof -
  obtain r h' where run: "publishFromAgent talk_env uuid1 talk_request (hub_start talk) = (r, h')" by fastforce
  have none: "queue_at (hub_start talk) uuid2 = []" by (simp add: hub_start_def talk_def NewMemoryStore_def queue_of_def)
  with talk_publish run have "queue_at h' uuid2 \<noteq> queue_at (hub_start talk) uuid2" by simp
  from publish_is_authorised [OF run this] none run show ?thesis by (auto simp: hub_start_def)
qed

text \<open>The second agent advertises a skill, and the first one activates it.\<close>

definition skilled_talk :: memory_store where
  "skilled_talk = talk\<lparr>agents := fmap_of_list [(uuid1, talker uuid1 ''one''),
     (uuid2, (talker uuid2 ''two'')\<lparr>Agent_Metadata := demo_metadata\<rparr>)]\<rparr>"

definition activating_request :: publish_request where
  "activating_request = talk_request\<lparr>pb_ContentType := ''application/json'', pb_Payload := demo_activation\<rparr>"

lemma activation_published:
  "queue_at (snd (publishFromAgent talk_env uuid1 activating_request (hub_start skilled_talk))) uuid2 \<noteq> []"
  by code_simp


lemma length_sha256_round: "length st = 8 \<Longrightarrow> length (sha256_round st kw) = 8"
  by (cases "(st, kw)" rule: sha256_round.cases) (auto simp: Let_def)

lemma hex_encode_plain: "TrimSpace (hex_encode s) = hex_encode s" "hex_encode s = [] \<longleftrightarrow> s = []"
proof -
  have "list_all (\<lambda>n. \<not> is_space (hex_lower n)) [0..<16]" by code_simp
  then have "n < 16 \<Longrightarrow> \<not> is_space (hex_lower n)" for n by (simp add: list_all_iff)
  moreover have "of_char c div 16 < (16 :: nat)" for c :: char
    using nat_of_char_less_256 [of c] by linarith
  ultimately show "TrimSpace (hex_encode s) = hex_encode s"
    by (intro TrimSpace_id) (auto simp: hex_encode_def list_all_iff)
  show "hex_encode s = [] \<longleftrightarrow> s = []" by (cases s) (simp_all add: hex_encode_def)
qed

lemma sha256_ne: "sha256 s \<noteq> []"
proof -
  have round: "length (foldl sha256_round st ws) = 8" if "length st = 8" for st ws
    using that by (induction ws arbitrary: st) (simp_all add: length_sha256_round)
  have "length (foldl sha256_block st bs) = 8" if "length st = 8" for st bs
    using that by (induction bs arbitrary: st) (simp_all add: sha256_block_def Let_def round)
  then have "length (foldl sha256_block sha256_init bs) = 8" for bs by (simp add: sha256_init_def)
  then have "foldl sha256_block sha256_init bs \<noteq> []" for bs by (metis length_0_conv zero_neq_numeral)
  then show ?thesis by (cases "foldl sha256_block sha256_init (chunks (length (sha256_pad s) div 64) 64 (sha256_pad s))")
      (simp_all add: sha256_def Let_def bytes_of_word_def)
qed

lemma signature_plain:
  "TrimSpace (computePeerSignature k ts v p b) = computePeerSignature k ts v p b" "computePeerSignature k ts v p b \<noteq> []"
  by (simp_all add: computePeerSignature_def hex_encode_plain hmac_sha256_def Let_def sha256_ne)

lemma peer_talk_body:
  "take maxPeerBody (peerEnvelopeText talk_message) = peerEnvelopeText talk_message"
  "Option.bind (json_decode (peerEnvelopeText talk_message)) message_of_envelope = Some talk_message"
proof -
  have "length (peerEnvelopeText talk_message) \<le> 600" by code_simp
  then show "take maxPeerBody (peerEnvelopeText talk_message) = peerEnvelopeText talk_message"
    by (simp add: maxPeerBody_def)
qed code_simp

lemma peer_talk_authenticated:
  "authenticatePeerRequest (\<lambda>_. 10 * Second) peer_talk_request (Some (peerEnvelopeText talk_message)) peer_talk =
     Inr (talk_peer, talk_message)"
proof -
  have time: "ParseRFC3339 (FormatRFC3339Nano 9000000000) = Some 9000000000"
    "TrimSpace (FormatRFC3339Nano 9000000000) = FormatRFC3339Nano 9000000000" "FormatRFC3339Nano 9000000000 \<noteq> []"
    by code_simp+
  have "GetPeerInstance (TrimSpace ''p1'') peer_talk = Inr talk_peer" "TrimSpace ''p1'' \<noteq> []" by code_simp+
  moreover have "TrimSpace (Msg_ContentType talk_message) \<in> set allowedContentTypes" by code_simp
  moreover have "Msg_MessageID talk_message \<noteq> []" "Msg_FromAgentURI talk_message \<noteq> []" "Msg_ToAgentURI talk_message \<noteq> []"
    by (simp_all add: talk_message_def demo_message_def)
  ultimately show ?thesis
    by (simp add: authenticatePeerRequest_def peer_talk_request_def signPeerRequest_def signature_plain time peer_talk_body
        verifyPeerSignature_def talk_peer_def peerAuthSkew_def Let_def)
qed

lemma peer_talk_authorized:
  "authorizePeerMessage ''https://hub.io'' talk_peer talk_message peer_talk = Inr (talker uuid1 ''one'')"
  by code_simp

lemma peer_talk_queued:
  "queue_at (snd (handlePeerInboundMessage ''https://hub.io'' (\<lambda>_. 10 * Second) peer_talk_request
     (Some (peerEnvelopeText talk_message)) (hub_start peer_talk))) uuid1 \<noteq> []"
proof -
  have store: "hs_store (hub_start peer_talk) = peer_talk" by (simp add: hub_start_def)
  show ?thesis
    unfolding handlePeerInboundMessage_def store peer_talk_authenticated sum.case prod.case peer_talk_authorized
    by code_simp
qed

theorem peer_message_is_authenticated_witness:
  "\<exists>m. queue_at (snd (handlePeerInboundMessage ''https://hub.io'' (\<lambda>_. 10 * Second) peer_talk_request
       (Some (peerEnvelopeText talk_message)) (hub_start peer_talk))) uuid1 = [m] \<and>
     Msg_FromAgentURI m = ''https://b.io/human/bob/agent/help''"
proof -
  obtain r h' where run: "handlePeerInboundMessage ''https://hub.io'' (\<lambda>_. 10 * Second) peer_talk_request
      (Some (peerEnvelopeText talk_message)) (hub_start peer_talk) = (r, h')" by fastforce
  have none: "queue_at (hub_start peer_talk) uuid1 = []"
    by (simp add: hub_start_def peer_talk_def talk_def NewMemoryStore_def queue_of_def)
  with peer_talk_queued run have ne: "queue_at h' uuid1 \<noteq> []" "h' \<noteq> hub_start peer_talk" by auto
  from peer_message_is_authenticated [OF run ne(2)] obtain j msg receiver x where
    "json_decode (take maxPeerBody (peerEnvelopeText talk_message)) = Some j" "message_of_envelope j = Some msg"
    "queue_at h' uuid1 = [(inboundMessage ''https://hub.io'' (10 * Second) receiver msg)\<lparr>Msg_ToAgentID := x\<rparr>]"
    using ne(1) none by (metis append_Nil)
  moreover from this(1,2) have "msg = talk_message" using peer_talk_body by simp
  ultimately show ?thesis using run by (simp add: inboundMessage_def talk_message_def)
qed

end
