(* ===== verification/Spec2Isabelle.thy ===== *)
theory Spec2Isabelle
  imports PersonalOrgs Peering LongPoll ErrorSanitize S3QueueOrder Resume Skills Collective DeliverySafety
begin

text \<open>
  A verification development of the Molten Hub, a message hub for software agents.

  Humans sign in, found organisations and register agents; agents authenticate with a token and send
  each other messages, which wait in a queue until their receiver pulls them, holds them under a lease
  and acknowledges them.  Who may write to whom is decided by trust edges that both sides approve.  Hubs
  federate: a hub posts the messages for agents of a peer to that peer, signed with a shared secret.  All
  state is in the control-plane store, \<^verbatim>\<open>internal/store/memory.go\<close>, which the S3 backend
  (\<^verbatim>\<open>internal/store/s3_state.go\<close>, \<^verbatim>\<open>internal/store/s3_queue.go\<close>) wraps: it runs the operation in
  memory and writes the objects that have changed to a bucket.  The handlers of \<^verbatim>\<open>internal/api\<close> call
  the store.

  \<^bold>\<open>What models what.\<close>

  \<^item> Foundations: \<^verbatim>\<open>Prelude\<close> (finite maps for Go maps, byte strings, \<^verbatim>\<open>strings\<close>), \<^verbatim>\<open>Index\<close>
    (a map from a key of the records to their identifiers), and the standard library as far as the code
    uses it: \<^verbatim>\<open>GoValue\<close>, \<^verbatim>\<open>GoTime\<close>, \<^verbatim>\<open>GoParse\<close>, \<^verbatim>\<open>GoSort\<close>, \<^verbatim>\<open>GoURL\<close>, \<^verbatim>\<open>GoHash\<close>, \<^verbatim>\<open>GoJson\<close>,
    \<^verbatim>\<open>GoJsonRead\<close>.
  \<^item> Data: \<^verbatim>\<open>Handles\<close> (\<^verbatim>\<open>internal/handles/handles.go\<close>), \<^verbatim>\<open>Model\<close> (\<^verbatim>\<open>internal/model/types.go\<close>),
    \<^verbatim>\<open>Store\<close> (the struct \<^verbatim>\<open>MemoryStore\<close> as the record \<^verbatim>\<open>memory_store\<close>, its errors, keys and roles).
  \<^item> The store, one theory per group of its operations: \<^verbatim>\<open>Activity\<close>, \<^verbatim>\<open>AuditLog\<close>, \<^verbatim>\<open>Stats\<close>, \<^verbatim>\<open>Queue\<close>,
    \<^verbatim>\<open>Metadata\<close> (with \<^verbatim>\<open>internal/store/skill_metadata.go\<close>), \<^verbatim>\<open>Humans\<close>, \<^verbatim>\<open>Agents\<close>, \<^verbatim>\<open>Trust\<close>, \<^verbatim>\<open>Orgs\<close>,
    \<^verbatim>\<open>Federation\<close>, \<^verbatim>\<open>Messages\<close>, \<^verbatim>\<open>Views\<close>.  A definition has the name of its function; it takes the store
    last and returns an error or a result (\<^verbatim>\<open>Inl\<close>, \<^verbatim>\<open>Inr\<close>) with the store after it.
  \<^item> The S3 backend: \<^verbatim>\<open>S3Connection\<close> (requests and signatures), \<^verbatim>\<open>S3Codec\<close> (the JSON of every stored
    struct), \<^verbatim>\<open>S3Objects\<close> (the objects of a store), \<^verbatim>\<open>S3Load\<close> (opening), \<^verbatim>\<open>S3State\<close> (every operation),
    \<^verbatim>\<open>S3Queue\<close>.
  \<^item> Around the store: \<^verbatim>\<open>Waiters\<close> and \<^verbatim>\<open>LongPoll\<close> (\<^verbatim>\<open>internal/longpoll/waiters.go\<close> and the loop of
    \<^verbatim>\<open>pullForAgent\<close>), \<^verbatim>\<open>ErrorSanitize\<close>, \<^verbatim>\<open>Identity\<close> (URIs), \<^verbatim>\<open>Skills\<close> (activation of skills),
    \<^verbatim>\<open>Collective\<close> (the stream of events), \<^verbatim>\<open>PeerLink\<close> (requests between hubs) and \<^verbatim>\<open>Delivery\<close> (the
    handlers of messages).

  \<^bold>\<open>How the theorems are built.\<close>

  \<^item> Each group of tables has an invariant (\<^verbatim>\<open>agents_wf\<close>, \<^verbatim>\<open>trust_wf\<close>, \<^verbatim>\<open>orgs_wf\<close>, \<^verbatim>\<open>humans_wf\<close>,
    \<^verbatim>\<open>federation_wf\<close>, \<^verbatim>\<open>metrics_exact\<close>), which \<^verbatim>\<open>AgentIndex\<close>, \<^verbatim>\<open>TrustSafety\<close>, \<^verbatim>\<open>OrgSafety\<close>, \<^verbatim>\<open>OrgAccess\<close>,
    \<^verbatim>\<open>FederationSafety\<close> and \<^verbatim>\<open>BindTokens\<close> show that every operation keeps.  \<^verbatim>\<open>Parts\<close> says which operation
    leaves which tables alone.
  \<^item> \<^verbatim>\<open>Control\<close> makes every mutating operation but those on messages a command; \<^verbatim>\<open>Hub\<close> adds the requests
    that move messages.  \<^verbatim>\<open>hub_run\<close> is any sequence of them, from the empty store: the invariants hold in
    every state it reaches, and \<^verbatim>\<open>HubSafety\<close> and \<^verbatim>\<open>Peering\<close> draw the guarantees for clients.  What the
    generators of identifiers and tokens promise (a new one is not in use) is a hypothesis of a step.
  \<^item> \<^verbatim>\<open>MessageFlow\<close> is the abstract machine of messages: queues, hands of requests, leases.  \<^verbatim>\<open>Custody\<close>
    shows that the operations of the store are moves of it however requests interleave, since each
    operation holds the lock of the store; \<^verbatim>\<open>MessageSafety\<close> states what follows.  \<^verbatim>\<open>Queue\<close> states the
    contract of a queue as a locale, which the queue of the store satisfies.
  \<^item> \<^verbatim>\<open>ObjectStore\<close> states what the backend relies on in an S3 service, as the locales
    \<^verbatim>\<open>object_store\<close> and \<^verbatim>\<open>reliable_store\<close>; \<^verbatim>\<open>Bucket\<close> shows that a service which keeps its objects under
    the URLs of the requests satisfies them.  \<^verbatim>\<open>Durable\<close>, \<^verbatim>\<open>StateKeys\<close>, \<^verbatim>\<open>Hydrate\<close>, \<^verbatim>\<open>Reload\<close>, \<^verbatim>\<open>Restart\<close> and
    \<^verbatim>\<open>Resume\<close> lead to the theorem that an acknowledged operation survives a restart, and
    \<^verbatim>\<open>S3QueueOrder\<close> to the order of the queue over S3.
  \<^item> \<^verbatim>\<open>PersonalOrgs\<close> decides when the search for a free handle of a personal organisation ends, and
    \<^verbatim>\<open>DeliverySafety\<close> what the handlers of messages let through.

  \<^bold>\<open>Conventions.\<close>

  \<^item> A Go map is a finite map; a loop over one runs in the order of the keys where the order shows, as the
    code sorts what it returns; \<^verbatim>\<open>sort.Slice\<close> is a stable sort, and a locale asks for a total comparison.
  \<^item> A string is a list of bytes; letter case and white space are those of ASCII.  An \<^verbatim>\<open>int\<close> of Go is an
    integer (its counters do not reach 64 bits); words of 32 bits are kept where they wrap, in \<^verbatim>\<open>GoHash\<close>.
    A time is the number of nanoseconds since 1970 in UTC.
  \<^item> The clock, the generators of identifiers and tokens, and the HTTP clients are arguments.
  \<^item> The text of a stored object and the JSON value that it denotes are not told apart; where the program
    reads texts of others (skill payloads, requests of peers) the text is parsed, with fuel \<^verbatim>\<open>2 * n + 1\<close>
    for \<^verbatim>\<open>n\<close> bytes, which is always enough (\<^verbatim>\<open>json_fuel\<close>), and a depth of at most 10000.  Names of fields
    are compared exactly.
  \<^item> The loops that may run for ever, in the search for personal organisations, are partial functions:
    \<^verbatim>\<open>None\<close> is divergence, and both returning and not returning are proved.
  \<^item> The goroutines that load the state in parallel are run one after the other; the loaders fill maps of
    their own.

  \<^bold>\<open>What is not modelled.\<close>  The reading of HTTP requests and the writing of answers
  (\<^verbatim>\<open>internal/api/handlers_v1.go\<close>, \<^verbatim>\<open>internal/api/router.go\<close>), the adapters of other protocols over the
  same operations (\<^verbatim>\<open>internal/api/handlers_a2a.go\<close>, \<^verbatim>\<open>internal/api/handlers_runtime_realtime.go\<close>, most of
  \<^verbatim>\<open>internal/api/handlers_runtime_envelope.go\<close>), sign-in with the identity service (\<^verbatim>\<open>internal/auth\<close>),
  configuration and start-up (\<^verbatim>\<open>internal/store/factory.go\<close>, \<^verbatim>\<open>cmd\<close>), and the pages and documents of the
  user interface.  Most of this turns requests into calls of single operations of the store; what it
  decides on its own, such as who is an administrator of the hub (an argument of the operations here) or
  which websocket session of an agent is the current one, is outside the development.
\<close>

end
